(* ===== verification/Prelude.thy ===== *)
theory Prelude
  imports Main "HOL-Library.Monad_Syntax"
begin

text \<open>
  Shared vocabulary of the development: the fact collections, the result type of
  operations that raise, and the list and option lemmas the component theories use.

  Identifiers (UUIDs) are modelled by their canonical \<open>str()\<close> form, the form every
  comparison in the modelled code is made in. Instants are integers counting
  microseconds since a fixed epoch, the resolution of Python's \<open>datetime\<close>; calendar
  dates are integers counting days (\<open>date.toordinal\<close>).
\<close>

section \<open>Names of basic data\<close>

type_synonym uid = string
type_synonym stamp = int
type_synonym date = int

text \<open>Microseconds in an hour: \<open>timedelta(hours=h)\<close> is \<open>h * hour\<close>.\<close>

definition hour :: int where
  "hour = 3600 * 1000000"

section \<open>Fact collections\<close>

text \<open>
  \<open>guard_defs\<close> collects the definitions of pure guard functions (refusals, gates,
  predicates) that a proof unfolds together; \<open>frame\<close> collects the facts that an
  operation leaves a field unchanged.
\<close>

named_theorems guard_defs
named_theorems frame

section \<open>Results of operations that raise\<close>

text \<open>
  An operation of the code that can raise returns a sum: \<open>Inl e\<close> is the exception,
  \<open>Inr x\<close> the returned value. The HTTP-shaped exceptions of the services carry the
  status code and the stable refusal code (the English sentence is not modelled); the
  built-in ones are the errors the modelled expressions raise when nothing catches them.
\<close>

datatype py_error = AttributeError | InvalidOperation | OverflowError | TypeError | ValueError

datatype exc = HttpError (http_status: nat) (http_code: string) | PyError py_error

definition bind_res :: "'e + 'a \<Rightarrow> ('a \<Rightarrow> 'e + 'b) \<Rightarrow> 'e + 'b" where
  "bind_res m f = (case m of Inl e \<Rightarrow> Inl e | Inr x \<Rightarrow> f x)"

definition raise_if :: "bool \<Rightarrow> 'e \<Rightarrow> 'e + unit" where
  "raise_if c e = (if c then Inl e else Inr ())"

lemma bind_res_simps [simp]:
  "bind_res (Inl e) f = Inl e"
  "bind_res (Inr x) f = f x"
  by (simp_all add: bind_res_def)

lemma bind_res_cong [fundef_cong]:
  "m = m' \<Longrightarrow> (\<And>x. m' = Inr x \<Longrightarrow> f x = f' x) \<Longrightarrow> bind_res m f = bind_res m' f'"
  by (cases m') (auto simp: bind_res_def)

lemma bind_res_Inr_iff:
  "bind_res m f = Inr y \<longleftrightarrow> (\<exists>x. m = Inr x \<and> f x = Inr y)"
  by (cases m) (auto simp: bind_res_def)

lemma bind_res_InrE:
  assumes "bind_res m f = Inr y"
  obtains x where "m = Inr x" and "f x = Inr y"
  using assms by (auto simp: bind_res_Inr_iff)

lemma raise_if_Inr_iff [simp]: "raise_if c e = Inr u \<longleftrightarrow> \<not> c"
  by (simp add: raise_if_def)

lemma raise_if_False [simp]: "raise_if False e = Inr ()"
  by (simp add: raise_if_def)

lemma raise_if_True [simp]: "raise_if True e = Inl e"
  by (simp add: raise_if_def)

lemma raise_if_Inl_iff: "raise_if c e = Inl x \<longleftrightarrow> c \<and> x = e"
  by (auto simp: raise_if_def)

text \<open>The result of a check that only raises or passes, read as a verdict.\<close>

definition passes :: "'e + 'a \<Rightarrow> bool" where
  "passes r = (case r of Inl _ \<Rightarrow> False | Inr _ \<Rightarrow> True)"

lemma passes_iff: "passes r \<longleftrightarrow> (\<exists>x. r = Inr x)"
  by (cases r) (auto simp: passes_def)

lemma passes_simps [simp]: "\<not> passes (Inl e)" "passes (Inr x)"
  by (simp_all add: passes_def)

section \<open>Lists\<close>

text \<open>The first element that satisfies a predicate: a Python loop that returns early.\<close>

lemma find_Some_D: "List.find P xs = Some x \<Longrightarrow> x \<in> set xs \<and> P x"
  by (auto simp: find_Some_iff)

lemma find_None_D: "List.find P xs = None \<Longrightarrow> x \<in> set xs \<Longrightarrow> \<not> P x"
  by (auto simp: find_None_iff)

text \<open>The minimum of a non-empty list by a key, the first one among equals (Python's \<open>min\<close>).\<close>

fun min_by :: "('a \<Rightarrow> 'k::linorder) \<Rightarrow> 'a \<Rightarrow> 'a list \<Rightarrow> 'a" where
  "min_by k m [] = m"
| "min_by k m (x # xs) = min_by k (if k x < k m then x else m) xs"

lemma min_by_mem: "min_by k m xs \<in> insert m (set xs)"
  by (induction k m xs rule: min_by.induct) auto

lemma min_by_le: "x \<in> insert m (set xs) \<Longrightarrow> k (min_by k m xs) \<le> k x"
proof (induction k m xs arbitrary: x rule: min_by.induct)
  case (2 k m y ys)
  let ?m = "if k y < k m then y else m"
  have "k (min_by k ?m ys) \<le> k ?m"
    by (rule "2.IH") simp
  moreover have "k ?m \<le> k y" "k ?m \<le> k m"
    by auto
  ultimately show ?case
    using "2.prems" "2.IH" [of x] by fastforce
qed simp

text \<open>Ordered removal of duplicates is not needed: a Python \<open>set\<close> is only ever counted.\<close>

lemma card_set_le_insert: "card (set xs) \<le> card (set (x # xs))"
  by (rule card_mono) auto

lemma card_set_snoc: "card (set xs) \<le> card (set (xs @ [x]))"
  by (rule card_mono) auto

lemma length_filter_update:
  assumes "i < length xs" and "P (xs ! i)" and "\<not> P x"
  shows "Suc (length (filter P (xs[i := x]))) = length (filter P xs)"
proof -
  have "filter P xs = filter P (take i xs) @ xs ! i # filter P (drop (Suc i) xs)"
    using assms by (subst id_take_nth_drop [of i xs]) simp_all
  with assms show ?thesis
    by (simp add: upd_conv_take_nth_drop)
qed

section \<open>State machines\<close>

text \<open>
  A machine given by its successor sets, with some edges singled out as gates: a run that
  starts inside a region closed under the other edges and ends outside it takes a gate.
\<close>

definition is_run :: "('s \<Rightarrow> 's set) \<Rightarrow> 's list \<Rightarrow> bool" where
  "is_run succs ss = (\<forall>i. Suc i < length ss \<longrightarrow> ss ! Suc i \<in> succs (ss ! i))"

locale gated_machine =
  fixes succs :: "'s \<Rightarrow> 's set"
    and gate :: "'s \<Rightarrow> 's \<Rightarrow> bool"
    and region :: "'s set"
  assumes region_closed: "s \<in> region \<Longrightarrow> t \<in> succs s \<Longrightarrow> \<not> gate s t \<Longrightarrow> t \<in> region"
begin

lemma run_stays:
  assumes "is_run succs ss" and "ss ! 0 \<in> region"
    and "\<And>i. Suc i < length ss \<Longrightarrow> \<not> gate (ss ! i) (ss ! Suc i)"
  shows "i < length ss \<Longrightarrow> ss ! i \<in> region"
proof (induction i)
  case (Suc i)
  then show ?case
    using assms region_closed [of "ss ! i" "ss ! Suc i"] by (auto simp: is_run_def)
qed (use assms in simp)

lemma run_takes_gate:
  assumes "is_run succs ss" and "ss \<noteq> []" and "hd ss \<in> region" and "last ss \<notin> region"
  obtains i where "Suc i < length ss" and "gate (ss ! i) (ss ! Suc i)"
proof -
  have "ss ! 0 \<in> region" "ss ! (length ss - 1) \<notin> region"
    using assms by (simp_all add: hd_conv_nth last_conv_nth)
  then show thesis
    using that run_stays [OF assms(1), of "length ss - 1"] assms(2)
    by (metis diff_less length_greater_0_conv less_one)
qed

end

end
