(* ===== verification/PyString.thy ===== *)
theory PyString
  imports Prelude
begin

text \<open>
  Python's \<open>str\<close> methods used by the modelled code, on strings of code points below 256
  (an Isabelle \<^typ>\<open>char\<close> is read as the Latin-1 code point of the same number). The
  character classes are Unicode's, so \<open>isdigit\<close> holds of the three superscript digits
  and \<open>isalpha\<close> of the accented letters. Two code points of this range,
  \<open>U+00B5\<close> and \<open>U+00FF\<close>, have an upper-case form above 255 and are left unchanged by
  \<open>py_upper\<close>: strings holding them are outside the model.
\<close>

section \<open>Character classes\<close>

abbreviation code :: "char \<Rightarrow> nat" where
  "code c \<equiv> of_char c"

definition is_ascii_digit :: "char \<Rightarrow> bool" where
  "is_ascii_digit c = (48 \<le> code c \<and> code c \<le> 57)"

definition is_ascii_upper :: "char \<Rightarrow> bool" where
  "is_ascii_upper c = (65 \<le> code c \<and> code c \<le> 90)"

definition is_ascii_lower :: "char \<Rightarrow> bool" where
  "is_ascii_lower c = (97 \<le> code c \<and> code c \<le> 122)"

text \<open>\<open>str.isdigit\<close> of one character: ASCII digits and the superscripts 2, 3 and 1.\<close>

definition chr_isdigit :: "char \<Rightarrow> bool" where
  "chr_isdigit c = (is_ascii_digit c \<or> code c = 178 \<or> code c = 179 \<or> code c = 185)"

definition chr_isalpha :: "char \<Rightarrow> bool" where
  "chr_isalpha c = (is_ascii_upper c \<or> is_ascii_lower c \<or> code c = 170 \<or> code c = 181 \<or>
     code c = 186 \<or> (192 \<le> code c \<and> code c \<noteq> 215 \<and> code c \<noteq> 247))"

text \<open>\<open>str.isalnum\<close>: letters, digits and the numeric fractions.\<close>

definition chr_isalnum :: "char \<Rightarrow> bool" where
  "chr_isalnum c = (chr_isalpha c \<or> chr_isdigit c \<or> (188 \<le> code c \<and> code c \<le> 190))"

definition chr_isspace :: "char \<Rightarrow> bool" where
  "chr_isspace c = ((9 \<le> code c \<and> code c \<le> 13) \<or> (28 \<le> code c \<and> code c \<le> 32) \<or>
     code c = 133 \<or> code c = 160)"

definition py_isdigit :: "string \<Rightarrow> bool" where
  "py_isdigit s = (s \<noteq> [] \<and> list_all chr_isdigit s)"

definition py_isalpha :: "string \<Rightarrow> bool" where
  "py_isalpha s = (s \<noteq> [] \<and> list_all chr_isalpha s)"

definition py_isalnum :: "string \<Rightarrow> bool" where
  "py_isalnum s = (s \<noteq> [] \<and> list_all chr_isalnum s)"

definition py_isascii :: "string \<Rightarrow> bool" where
  "py_isascii s = list_all (\<lambda>c. code c < 128) s"

section \<open>Transformations\<close>

text \<open>\<open>str.upper\<close>; \<open>U+00DF\<close> becomes two letters.\<close>

definition chr_upper :: "char \<Rightarrow> string" where
  "chr_upper c =
     (if is_ascii_lower c then [char_of (code c - 32)]
      else if code c = 223 then ''SS''
      else if 224 \<le> code c \<and> code c \<noteq> 247 \<and> code c \<noteq> 255 then [char_of (code c - 32)]
      else [c])"

definition py_upper :: "string \<Rightarrow> string" where
  "py_upper s = concat (map chr_upper s)"

definition chr_lower :: "char \<Rightarrow> char" where
  "chr_lower c =
     (if is_ascii_upper c \<or> (192 \<le> code c \<and> code c \<le> 222 \<and> code c \<noteq> 215)
      then char_of (code c + 32) else c)"

definition py_lower :: "string \<Rightarrow> string" where
  "py_lower s = map chr_lower s"

definition py_strip :: "string \<Rightarrow> string" where
  "py_strip s = rev (dropWhile chr_isspace (rev (dropWhile chr_isspace s)))"

text \<open>\<open>''''.join(s.split())\<close> and \<open>re.sub\<close> of white space: every space character removed.\<close>

definition py_despace :: "string \<Rightarrow> string" where
  "py_despace s = filter (\<lambda>c. \<not> chr_isspace c) s"

definition py_startswith :: "string \<Rightarrow> string \<Rightarrow> bool" where
  "py_startswith s p = (take (length p) s = p)"

definition py_endswith :: "string \<Rightarrow> string \<Rightarrow> bool" where
  "py_endswith s p = (length p \<le> length s \<and> drop (length s - length p) s = p)"

definition py_ljust :: "string \<Rightarrow> nat \<Rightarrow> string" where
  "py_ljust s w = s @ replicate (w - length s) CHR '' ''"

definition py_rjust :: "string \<Rightarrow> nat \<Rightarrow> char \<Rightarrow> string" where
  "py_rjust s w c = replicate (w - length s) c @ s"

text \<open>\<open>s.split(c)\<close> on a one-character separator.\<close>

fun py_split :: "char \<Rightarrow> string \<Rightarrow> string list" where
  "py_split c [] = [[]]"
| "py_split c (x # xs) =
     (if x = c then [] # py_split c xs
      else (case py_split c xs of [] \<Rightarrow> [[x]] | y # ys \<Rightarrow> (x # y) # ys))"

section \<open>Decimal integers\<close>

definition digit_val :: "char \<Rightarrow> nat" where
  "digit_val c = code c - 48"

definition digit_char :: "nat \<Rightarrow> char" where
  "digit_char d = char_of (48 + d)"

text \<open>The number a string of ASCII digits denotes.\<close>

definition digits_val :: "string \<Rightarrow> nat" where
  "digits_val s = foldl (\<lambda>n c. 10 * n + digit_val c) 0 s"

text \<open>
  \<open>int(s)\<close> on a string that holds letters, digits and fractions only: it accepts decimal
  digits and raises \<open>ValueError\<close> (here \<open>None\<close>) otherwise.
\<close>

definition py_int_digits :: "string \<Rightarrow> nat option" where
  "py_int_digits s = (if s \<noteq> [] \<and> list_all is_ascii_digit s then Some (digits_val s) else None)"

text \<open>\<open>str(n)\<close> of a non-negative integer.\<close>

fun str_nat :: "nat \<Rightarrow> string" where
  "str_nat n = (if n < 10 then [digit_char n] else str_nat (n div 10) @ [digit_char (n mod 10)])"

declare str_nat.simps [simp del]

definition str_int :: "int \<Rightarrow> string" where
  "str_int n = (if n < 0 then CHR ''-'' # str_nat (nat (- n)) else str_nat (nat n))"

section \<open>Lemmas\<close>

lemma py_ljust_length: "length s \<le> w \<Longrightarrow> length (py_ljust s w) = w"
  by (simp add: py_ljust_def)

lemma py_rjust_length: "length s \<le> w \<Longrightarrow> length (py_rjust s w c) = w"
  by (simp add: py_rjust_def)

lemma take_py_ljust_length: "length (take w (py_ljust s w)) = w"
  by (simp add: py_ljust_def)

lemma py_despace_length: "length (py_despace s) \<le> length s"
  by (simp add: py_despace_def)

lemma py_despace_idem [simp]: "py_despace (py_despace s) = py_despace s"
  by (simp add: py_despace_def)

lemma digit_val_char: "d < 10 \<Longrightarrow> digit_val (digit_char d) = d"
  by (simp add: digit_val_def digit_char_def)

lemma is_ascii_digit_char: "d < 10 \<Longrightarrow> is_ascii_digit (digit_char d)"
  by (simp add: is_ascii_digit_def digit_char_def)

lemma digits_val_Nil [simp]: "digits_val [] = 0"
  by (simp add: digits_val_def)

lemma digits_val_snoc [simp]: "digits_val (s @ [c]) = 10 * digits_val s + digit_val c"
  by (simp add: digits_val_def)

lemma digits_val_foldl:
  "foldl (\<lambda>n c. 10 * n + digit_val c) k s = k * 10 ^ length s + digits_val s"
proof (induction s rule: rev_induct)
  case (snoc c s)
  then show ?case by (simp add: algebra_simps)
qed simp

lemma digits_val_append: "digits_val (s @ t) = digits_val s * 10 ^ length t + digits_val t"
  using digits_val_foldl [of "digits_val s" t]
  by (simp only: digits_val_def foldl_append)

lemma digits_val_zeros: "digits_val (replicate n CHR ''0'') = 0"
  by (induction n) (simp_all add: digits_val_def digit_val_def)

lemma str_nat_nonempty: "str_nat n \<noteq> []"
  by (subst str_nat.simps) simp

lemma str_nat_digits: "list_all is_ascii_digit (str_nat n)"
proof (induction n rule: str_nat.induct)
  case (1 n)
  then show ?case
    by (subst str_nat.simps) (simp add: is_ascii_digit_char)
qed

lemma digits_val_str_nat: "digits_val (str_nat n) = n"
proof (induction n rule: str_nat.induct)
  case (1 n)
  show ?case
  proof (cases "n < 10")
    case True
    then show ?thesis
      by (subst str_nat.simps) (simp add: digits_val_def digit_val_char)
  next
    case False
    with "1.IH" show ?thesis
      by (subst str_nat.simps) (simp add: digit_val_char)
  qed
qed

lemma str_nat_length: "n < 10 ^ w \<Longrightarrow> 0 < w \<Longrightarrow> length (str_nat n) \<le> w"
proof (induction n arbitrary: w rule: str_nat.induct)
  case (1 n)
  show ?case
  proof (cases "n < 10")
    case True
    then show ?thesis
      using "1.prems" by (subst str_nat.simps) simp
  next
    case False
    with "1.prems" have w: "2 \<le> w"
      by (cases w; cases "w - 1") auto
    with "1.prems" have "n div 10 < 10 ^ (w - 1)"
      by (cases w) (auto simp: less_mult_imp_div_less)
    then have "length (str_nat (n div 10)) \<le> w - 1"
      using False w by (intro "1.IH") auto
    with False w show ?thesis
      by (subst str_nat.simps) auto
  qed
qed

lemma py_int_digits_str_nat: "py_int_digits (str_nat n) = Some n"
  by (simp add: py_int_digits_def str_nat_nonempty str_nat_digits digits_val_str_nat)

text \<open>A zero-padded field of digits reads back as the number it was built from.\<close>

lemma py_int_digits_rjust:
  "py_int_digits (py_rjust (str_nat n) w CHR ''0'') = Some n"
proof -
  have "list_all is_ascii_digit (replicate k CHR ''0'')" for k
    by (induction k) (simp_all add: is_ascii_digit_def)
  then show ?thesis
    by (simp add: py_int_digits_def py_rjust_def str_nat_nonempty str_nat_digits
        digits_val_append digits_val_zeros digits_val_str_nat)
qed

text \<open>Upper-casing twice is upper-casing once, and keeps the empty string only empty.\<close>

lemma chr_upper_fixed: "d \<in> set (chr_upper c) \<Longrightarrow> chr_upper d = [d]"
proof -
  assume d: "d \<in> set (chr_upper c)"
  have lt: "code c < 256"
    using of_char_mod_256 [of c, where 'a = nat] by (metis mod_less_divisor zero_less_numeral)
  consider (low) "97 \<le> code c \<and> code c \<le> 122" | (ss) "code c = 223"
    | (lat) "224 \<le> code c" "code c \<noteq> 247" "code c \<noteq> 255"
    | (other) "\<not> (97 \<le> code c \<and> code c \<le> 122)" "code c \<noteq> 223"
        "\<not> (224 \<le> code c \<and> code c \<noteq> 247 \<and> code c \<noteq> 255)"
    by blast
  then show ?thesis
  proof cases
    case low
    with d have "d = char_of (code c - 32)"
      by (simp add: chr_upper_def is_ascii_lower_def)
    moreover have "(code c - 32) mod 256 = code c - 32"
      using lt by (intro mod_less) linarith
    ultimately have "code d = code c - 32"
      by simp
    with low have "\<not> 97 \<le> code d" "code d < 223"
      by linarith+
    then show ?thesis
      by (simp add: chr_upper_def is_ascii_lower_def)
  next
    case ss
    with d have "d = CHR ''S''"
      by (simp add: chr_upper_def is_ascii_lower_def)
    then show ?thesis
      by (simp add: chr_upper_def is_ascii_lower_def)
  next
    case lat
    with d have "d = char_of (code c - 32)"
      by (simp add: chr_upper_def is_ascii_lower_def)
    moreover have "(code c - 32) mod 256 = code c - 32"
      using lt by (intro mod_less) linarith
    ultimately have "code d = code c - 32"
      by simp
    with lat lt have "\<not> code d \<le> 122" "code d < 223"
      by linarith+
    then show ?thesis
      by (simp add: chr_upper_def is_ascii_lower_def)
  next
    case other
    with d have "d = c"
      by (auto simp: chr_upper_def is_ascii_lower_def split: if_splits)
    with other show ?thesis
      by (auto simp: chr_upper_def is_ascii_lower_def)
  qed
qed

lemma py_upper_fixed: "(\<And>c. c \<in> set s \<Longrightarrow> chr_upper c = [c]) \<Longrightarrow> py_upper s = s"
  by (induction s) (simp_all add: py_upper_def)

lemma py_upper_idem [simp]: "py_upper (py_upper s) = py_upper s"
  by (rule py_upper_fixed) (auto simp: py_upper_def intro: chr_upper_fixed)

lemma py_upper_Nil_iff [simp]: "py_upper s = [] \<longleftrightarrow> s = []"
  by (cases s) (auto simp: py_upper_def chr_upper_def)

end
