(* ===== verification/PyDecimal.thy ===== *)
theory PyDecimal
  imports Complex_Main PyString
begin

text \<open>
  Python's \<open>decimal\<close> under its default context (28 significant digits,
  \<open>ROUND_HALF_EVEN\<close>), as far as the money code uses it, and the dynamically typed JSON
  values of the configuration blobs.

  A finite \<open>Decimal\<close> is the rational number it denotes. \<open>ctx\<close> is the rounding the
  context applies to every arithmetic result; \<open>quantize\<close> is \<open>Decimal.quantize\<close> with
  \<open>ROUND_HALF_UP\<close>, which raises \<open>InvalidOperation\<close> (here \<open>None\<close>) when the result needs
  more than 28 digits. The exponent limits of the context are not modelled, and one
  constructor stands for quiet and signalling NaN, which the modelled code treats alike.
\<close>

section \<open>Decimal values\<close>

datatype dec = Fin rat | PosInf | NegInf | NaN

primrec is_finite :: "dec \<Rightarrow> bool" where
  "is_finite (Fin r) = True"
| "is_finite PosInf = False"
| "is_finite NegInf = False"
| "is_finite NaN = False"

lemma is_finite_iff: "is_finite d \<longleftrightarrow> (\<exists>r. d = Fin r)"
  by (cases d) auto

text \<open>\<open>a < b\<close>; an ordering comparison with NaN raises \<open>InvalidOperation\<close>.\<close>

fun dec_less :: "dec \<Rightarrow> dec \<Rightarrow> bool option" where
  "dec_less NaN b = None"
| "dec_less a NaN = None"
| "dec_less (Fin a) (Fin b) = Some (a < b)"
| "dec_less (Fin a) PosInf = Some True"
| "dec_less (Fin a) NegInf = Some False"
| "dec_less PosInf b = Some False"
| "dec_less NegInf (Fin b) = Some True"
| "dec_less NegInf PosInf = Some True"
| "dec_less NegInf NegInf = Some False"

text \<open>\<open>bool(d)\<close>: every value but zero is true.\<close>

definition dec_truthy :: "dec \<Rightarrow> bool" where
  "dec_truthy d = (d \<noteq> Fin 0)"

section \<open>Rounding\<close>

definition round_half_up :: "rat \<Rightarrow> int" where
  "round_half_up r = (if 0 \<le> r then \<lfloor>r + 1 / 2\<rfloor> else - \<lfloor>1 / 2 - r\<rfloor>)"

definition round_half_even :: "rat \<Rightarrow> int" where
  "round_half_even r =
     (let f = \<lfloor>r\<rfloor>; d = r - of_int f
      in if d < 1 / 2 then f else if 1 / 2 < d then f + 1 else if even f then f else f + 1)"

text \<open>\<open>quantize\<close> to \<open>n\<close> decimal places.\<close>

definition round_to :: "nat \<Rightarrow> rat \<Rightarrow> rat" where
  "round_to n r = of_int (round_half_up (r * 10 ^ n)) / 10 ^ n"

definition quantize :: "nat \<Rightarrow> rat \<Rightarrow> rat option" where
  "quantize n r = (if \<bar>round_half_up (r * 10 ^ n)\<bar> < 10 ^ 28 then Some (round_to n r) else None)"

fun quantize_dec :: "nat \<Rightarrow> dec \<Rightarrow> dec option" where
  "quantize_dec n (Fin r) = map_option Fin (quantize n r)"
| "quantize_dec n NaN = Some NaN"
| "quantize_dec n d = None"

text \<open>A value with at most \<open>n\<close> decimal places.\<close>

definition has_scale :: "nat \<Rightarrow> rat \<Rightarrow> bool" where
  "has_scale n r = (of_int \<lfloor>r * 10 ^ n\<rfloor> = r * 10 ^ n)"

text \<open>A value a \<open>Numeric(15, 2)\<close> column holds: the money columns of the schema.\<close>

definition money_col :: "rat \<Rightarrow> bool" where
  "money_col r = (has_scale 2 r \<and> \<bar>r\<bar> < 10 ^ 13)"

lemma round_half_up_of_int [simp]: "round_half_up (of_int n) = n"
  unfolding round_half_up_def by (simp add: floor_eq_iff)

lemma round_half_even_of_int [simp]: "round_half_even (of_int n) = n"
  by (simp add: round_half_even_def)

lemma round_half_up_mono: "r \<le> s \<Longrightarrow> round_half_up r \<le> round_half_up s"
proof -
  assume le: "r \<le> s"
  have pos: "0 \<le> round_half_up x" if "0 \<le> x" for x
    using that by (simp add: round_half_up_def)
  have neg: "round_half_up x \<le> 0" if "x < 0" for x
    using that by (simp add: round_half_up_def)
  consider "0 \<le> r" | "r < 0" "0 \<le> s" | "s < 0"
    by linarith
  then show ?thesis
  proof cases
    case 1
    with le show ?thesis by (simp add: round_half_up_def floor_mono)
  next
    case 2
    then show ?thesis using pos [of s] neg [of r] by linarith
  next
    case 3
    with le show ?thesis by (simp add: round_half_up_def floor_mono)
  qed
qed

lemma round_half_up_error: "\<bar>of_int (round_half_up r) - r\<bar> \<le> 1 / 2"
proof (rule abs_leI)
  have "of_int (round_half_up r) \<le> r + 1 / 2 \<and> r - 1 / 2 \<le> of_int (round_half_up r)"
    using floor_correct [of "r + 1 / 2"] floor_correct [of "1 / 2 - r"]
    unfolding round_half_up_def of_int_minus if_distrib [of of_int]
    by (cases "0 \<le> r"; simp only: if_True if_False; linarith)
  then show "of_int (round_half_up r) - r \<le> 1 / 2" "- (of_int (round_half_up r) - r) \<le> 1 / 2"
    by linarith+
qed

lemma round_to_scaled: "has_scale n r \<Longrightarrow> round_to n r = r"
  unfolding has_scale_def round_to_def
  by (metis nonzero_mult_div_cancel_right power_not_zero round_half_up_of_int zero_neq_numeral)

lemma has_scale_round_to: "has_scale n (round_to n r)"
  by (simp add: has_scale_def round_to_def)

lemma round_to_mono: "r \<le> s \<Longrightarrow> round_to n r \<le> round_to n s"
  unfolding round_to_def
  by (intro divide_right_mono) (auto intro!: round_half_up_mono mult_right_mono)

lemma round_to_nonneg: "0 \<le> r \<Longrightarrow> 0 \<le> round_to n r"
  using round_to_mono[of 0 r n] by (simp add: round_to_def round_half_up_def)

lemma round_to_error: "\<bar>round_to n r - r\<bar> \<le> 1 / (2 * 10 ^ n)"
proof -
  let ?p = "10 ^ n :: rat"
  have "round_to n r - r = (of_int (round_half_up (r * ?p)) - r * ?p) / ?p"
    by (simp add: round_to_def diff_divide_distrib)
  then have "\<bar>round_to n r - r\<bar> = \<bar>of_int (round_half_up (r * ?p)) - r * ?p\<bar> / ?p"
    by (simp add: power_abs)
  also have "\<dots> \<le> (1 / 2) / ?p"
    by (intro divide_right_mono round_half_up_error) simp
  finally show ?thesis
    by simp
qed

lemma quantize_Some_D: "quantize n r = Some q \<Longrightarrow> q = round_to n r"
  by (auto simp: quantize_def split: if_splits)

lemma quantize_scaled:
  assumes "has_scale n r" and "\<bar>r\<bar> * 10 ^ n < 10 ^ 28"
  shows "quantize n r = Some r"
proof -
  obtain i where i: "r * 10 ^ n = of_int i"
    using assms(1) by (metis has_scale_def)
  then have "of_int \<bar>i\<bar> = \<bar>r\<bar> * (10 :: rat) ^ n"
    by (metis abs_mult abs_numeral of_int_abs power_abs)
  with assms(2) have "of_int \<bar>i\<bar> < (of_int (10 ^ 28) :: rat)"
    by simp
  then have "\<bar>i\<bar> < 10 ^ 28"
    by (simp only: of_int_less_iff)
  with i show ?thesis
    using round_to_scaled [OF assms(1)] by (simp add: quantize_def)
qed

lemma quantize_money: "money_col r \<Longrightarrow> quantize 2 r = Some r"
  by (rule quantize_scaled) (auto simp: money_col_def)

lemma round_to_money: "money_col r \<Longrightarrow> round_to 2 r = r"
  by (simp add: money_col_def round_to_scaled)

section \<open>The context of 28 significant digits\<close>

definition pow10 :: "int \<Rightarrow> rat" where
  "pow10 e = (if 0 \<le> e then 10 ^ nat e else 1 / 10 ^ nat (- e))"

definition ndigits :: "nat \<Rightarrow> nat" where
  "ndigits n = length (str_nat n)"

text \<open>\<open>Decimal.adjusted\<close>: the exponent of the leading digit of a non-zero value.\<close>

definition adjusted :: "rat \<Rightarrow> int" where
  "adjusted r =
     (if 1 \<le> \<bar>r\<bar> then int (ndigits (nat \<lfloor>\<bar>r\<bar>\<rfloor>)) - 1
      else - int (ndigits (nat (\<lceil>1 / \<bar>r\<bar>\<rceil> - 1))))"

definition ctx :: "rat \<Rightarrow> rat" where
  "ctx r = (if r = 0 then 0
            else let u = pow10 (adjusted r - 27) in of_int (round_half_even (r / u)) * u)"

definition dadd :: "rat \<Rightarrow> rat \<Rightarrow> rat" where "dadd a b = ctx (a + b)"
definition dsub :: "rat \<Rightarrow> rat \<Rightarrow> rat" where "dsub a b = ctx (a - b)"
definition dmul :: "rat \<Rightarrow> rat \<Rightarrow> rat" where "dmul a b = ctx (a * b)"
definition ddiv :: "rat \<Rightarrow> rat \<Rightarrow> rat" where "ddiv a b = ctx (a / b)"

lemma pow10_powi: "pow10 e = 10 powi e"
  by (simp add: pow10_def power_int_def power_one_over inverse_eq_divide)

lemma pow10_pos [simp]: "0 < pow10 e" "pow10 e \<noteq> 0"
  by (simp_all add: pow10_def)

lemma pow10_minus: "pow10 (- int k) = 1 / 10 ^ k"
  by (cases "k = 0") (auto simp: pow10_def)

lemma pow10_add: "pow10 (a + b) = pow10 a * pow10 b"
  by (simp add: pow10_powi power_int_add)

lemma pow10_less_iff: "pow10 a < pow10 b \<longleftrightarrow> a < b"
  using power_int_strict_increasing [of a b "10::rat"] power_int_strict_increasing [of b a "10::rat"]
  by (cases a b rule: linorder_cases) (auto simp: pow10_powi)

lemma str_nat_length_lower: "0 < n \<Longrightarrow> 10 ^ (length (str_nat n) - 1) \<le> n"
proof (induction n rule: str_nat.induct)
  case (1 n)
  show ?case
  proof (cases "n < 10")
    case True
    with "1.prems" show ?thesis by (subst str_nat.simps) simp
  next
    case False
    then have IH: "10 ^ (length (str_nat (n div 10)) - 1) \<le> n div 10"
      by (intro "1.IH") auto
    have "length (str_nat (n div 10)) > 0"
      using str_nat_nonempty by simp
    with IH False show ?thesis
      by (subst str_nat.simps) (simp add: power_eq_if)
  qed
qed

lemma str_nat_length_upper: "n < 10 ^ length (str_nat n)"
proof (induction n rule: str_nat.induct)
  case (1 n)
  show ?case
  proof (cases "n < 10")
    case False
    with "1.IH" have "n div 10 < 10 ^ length (str_nat (n div 10))"
      by simp
    with False show ?thesis
      by (subst str_nat.simps) simp
  qed (simp add: str_nat.simps)
qed

text \<open>The adjusted exponent never exceeds the exponent of the leading digit.\<close>

lemma pow10_adjusted_le:
  assumes "r \<noteq> 0"
  shows "pow10 (adjusted r) \<le> \<bar>r\<bar>"
proof (cases "1 \<le> \<bar>r\<bar>")
  case True
  let ?n = "nat \<lfloor>\<bar>r\<bar>\<rfloor>"
  from True have n: "0 < ?n" by simp
  have l: "0 < length (str_nat ?n)"
    using str_nat_nonempty by simp
  have "pow10 (adjusted r) = of_nat (10 ^ (length (str_nat ?n) - 1))"
    using True l by (simp add: adjusted_def ndigits_def pow10_def nat_diff_distrib')
  also have "\<dots> \<le> of_nat ?n"
    using str_nat_length_lower [OF n] by (simp only: of_nat_le_iff)
  also have "\<dots> \<le> \<bar>r\<bar>"
    using True by simp
  finally show ?thesis .
next
  case False
  let ?c = "\<lceil>1 / \<bar>r\<bar>\<rceil>" and ?m = "nat (\<lceil>1 / \<bar>r\<bar>\<rceil> - 1)"
  from False assms have "1 < 1 / \<bar>r\<bar>" by simp
  then have c: "2 \<le> ?c" by linarith
  have l: "0 < length (str_nat ?m)"
    using str_nat_nonempty by simp
  have "?m < 10 ^ length (str_nat ?m)"
    by (rule str_nat_length_upper)
  with c have "?c \<le> 10 ^ length (str_nat ?m)"
    by (simp add: nat_less_iff) 
  then have "1 / \<bar>r\<bar> \<le> 10 ^ length (str_nat ?m)"
    by (metis ceiling_le_iff of_int_numeral of_int_power)
  with assms have "1 / 10 ^ length (str_nat ?m) \<le> \<bar>r\<bar>"
    by (simp add: field_simps)
  with False l show ?thesis
    by (simp add: adjusted_def ndigits_def pow10_def)
qed

text \<open>A value of at most 28 significant digits is not rounded.\<close>

lemma ctx_exact:
  assumes r: "r = of_int n / 10 ^ k" and n: "\<bar>n\<bar> < 10 ^ 28"
  shows "ctx r = r"
proof (cases "r = 0")
  case False
  let ?e = "adjusted r"
  have "pow10 ?e * pow10 (int k) \<le> \<bar>r\<bar> * 10 ^ k"
    using pow10_adjusted_le [OF False] by (simp add: pow10_def)
  also have "\<bar>r\<bar> * 10 ^ k = of_int \<bar>n\<bar>"
    by (simp add: r power_abs)
  also have "\<dots> < of_int (10 ^ 28)"
    using n by (simp only: of_int_less_iff)
  also have "\<dots> = pow10 28"
    by (simp add: pow10_def)
  finally have "?e + int k < 28"
    by (simp only: pow10_add [symmetric] pow10_less_iff)
  then have j: "0 \<le> - (int k) - (?e - 27)" by linarith
  have "r / pow10 (?e - 27) = of_int n * pow10 (- int k) / pow10 (?e - 27)"
    by (simp add: r pow10_minus)
  also have "pow10 (- int k) = pow10 (- int k - (?e - 27)) * pow10 (?e - 27)"
    by (simp flip: pow10_add)
  also have "of_int n * \<dots> / pow10 (?e - 27) = of_int n * pow10 (- int k - (?e - 27))"
    by simp
  also have "\<dots> = of_int (n * 10 ^ nat (- int k - (?e - 27)))"
    using j by (simp add: pow10_def)
  finally have "of_int (round_half_even (r / pow10 (?e - 27))) = r / pow10 (?e - 27)"
    by (metis round_half_even_of_int)
  with False show ?thesis
    by (simp add: ctx_def Let_def)
qed (simp add: ctx_def)

text \<open>A sum or difference of two money columns is exact.\<close>

lemma money_colE:
  assumes "money_col r"
  obtains i where "r = of_int i / 10 ^ 2" and "\<bar>i\<bar> < 10 ^ 15"
proof -
  from assms obtain i where i: "r * 10 ^ 2 = of_int i"
    unfolding money_col_def has_scale_def by metis
  moreover have "\<bar>r\<bar> < 10 ^ 13"
    using assms by (simp add: money_col_def)
  ultimately have "of_int \<bar>i\<bar> < (of_int (10 ^ 15) :: rat)"
    by (simp flip: i)
  then have "\<bar>i\<bar> < 10 ^ 15"
    by (simp only: of_int_less_iff)
  with i show thesis
    by (intro that [of i]) auto
qed

lemma dadd_money: "money_col a \<Longrightarrow> money_col b \<Longrightarrow> dadd a b = a + b"
  unfolding dadd_def
  by (elim money_colE, rule_tac n = "i + ia" and k = 2 in ctx_exact) (auto simp: add_divide_distrib)

lemma dsub_money: "money_col a \<Longrightarrow> money_col b \<Longrightarrow> dsub a b = a - b"
  unfolding dsub_def
  by (elim money_colE, rule_tac n = "i - ia" and k = 2 in ctx_exact) (auto simp: diff_divide_distrib)

text \<open>Rounding to the context is monotone.\<close>

lemma round_half_even_bounds: "\<lfloor>x\<rfloor> \<le> round_half_even x" "round_half_even x \<le> \<lfloor>x\<rfloor> + 1"
  by (simp_all add: round_half_even_def Let_def)

lemma round_half_even_mono: "x \<le> y \<Longrightarrow> round_half_even x \<le> round_half_even y"
proof -
  assume le: "x \<le> y"
  show ?thesis
  proof (cases "\<lfloor>x\<rfloor> = \<lfloor>y\<rfloor>")
    case True
    with le show ?thesis
      by (simp add: round_half_even_def Let_def)
  next
    case False
    with floor_mono [OF le] have "\<lfloor>x\<rfloor> + 1 \<le> \<lfloor>y\<rfloor>" by linarith
    then show ?thesis
      using round_half_even_bounds [of x] round_half_even_bounds [of y] by linarith
  qed
qed

lemma round_half_even_minus: "round_half_even (- x) = - round_half_even x"
proof (cases "x = of_int \<lfloor>x\<rfloor>")
  case True
  then show ?thesis
    by (metis of_int_minus round_half_even_of_int)
next
  case False
  then have "\<lfloor>- x\<rfloor> = - \<lfloor>x\<rfloor> - 1"
    by linarith
  then show ?thesis
    by (simp add: round_half_even_def Let_def)
qed

lemma pow10_adjusted_gt: "r \<noteq> 0 \<Longrightarrow> \<bar>r\<bar> < pow10 (adjusted r + 1)"
proof (cases "1 \<le> \<bar>r\<bar>")
  case True
  let ?n = "nat \<lfloor>\<bar>r\<bar>\<rfloor>"
  have "of_nat (Suc ?n) \<le> (of_nat (10 ^ length (str_nat ?n)) :: rat)"
    using str_nat_length_upper [of ?n] by (simp only: of_nat_le_iff Suc_le_eq)
  moreover have "\<bar>r\<bar> < of_nat (Suc ?n)"
    using True by simp linarith
  ultimately have "\<bar>r\<bar> < 10 ^ length (str_nat ?n)"
    by simp
  with True show ?thesis
    by (simp add: adjusted_def ndigits_def pow10_def)
next
  case False
  assume "r \<noteq> 0"
  let ?c = "\<lceil>1 / \<bar>r\<bar>\<rceil>" and ?m = "nat (\<lceil>1 / \<bar>r\<bar>\<rceil> - 1)"
  from False \<open>r \<noteq> 0\<close> have "1 < 1 / \<bar>r\<bar>" by simp
  then have c: "2 \<le> ?c" by linarith
  then have "10 ^ (length (str_nat ?m) - 1) \<le> ?m"
    by (intro str_nat_length_lower) simp
  then have "of_nat (10 ^ (length (str_nat ?m) - 1)) \<le> (of_nat ?m :: rat)"
    by (simp only: of_nat_le_iff)
  also have "\<dots> = of_int (?c - 1)"
    using c by (simp only: of_nat_nat)
  also have "\<dots> < 1 / \<bar>r\<bar>"
    using ceiling_correct [of "1 / \<bar>r\<bar>"] by simp
  finally have "\<bar>r\<bar> < 1 / 10 ^ (length (str_nat ?m) - 1)"
    using \<open>r \<noteq> 0\<close> by (simp add: field_simps)
  moreover obtain k where k: "length (str_nat ?m) = Suc k"
    using str_nat_nonempty [of ?m] by (cases "str_nat ?m") auto
  moreover have "adjusted r + 1 = - int k"
    using False k by (simp add: adjusted_def ndigits_def)
  ultimately show ?thesis
    by (simp only: pow10_minus) simp
qed

lemma adjusted_mono:
  assumes "0 < r" and "r \<le> s"
  shows "adjusted r \<le> adjusted s"
proof -
  have "pow10 (adjusted r) < pow10 (adjusted s + 1)"
    using assms pow10_adjusted_le [of r] pow10_adjusted_gt [of s] by simp
  then show ?thesis
    by (simp add: pow10_less_iff)
qed

lemma pow10_le_iff: "pow10 a \<le> pow10 b \<longleftrightarrow> a \<le> b"
  by (simp add: not_less [symmetric] pow10_less_iff)

lemma ctx_pos_mono:
  assumes r: "0 < r" and le: "r \<le> s"
  shows "ctx r \<le> ctx s"
proof -
  let ?a = "adjusted r" and ?b = "adjusted s"
  have c: "ctx x = of_int (round_half_even (x / pow10 (adjusted x - 27))) * pow10 (adjusted x - 27)"
    if "0 < x" for x
    using that by (simp add: ctx_def Let_def)
  show ?thesis
  proof (cases "?a = ?b")
    case True
    then have "r / pow10 (?a - 27) \<le> s / pow10 (?b - 27)"
      using le by (simp add: divide_right_mono less_imp_le)
    from round_half_even_mono [OF this] show ?thesis
      using True r le by (simp add: c mult_right_mono less_imp_le)
  next
    case False
    with adjusted_mono [OF r le] have ab: "?a + 1 \<le> ?b" by linarith
    have "r < pow10 28 * pow10 (?a - 27)"
      using pow10_adjusted_gt [of r] r by (simp add: add.commute flip: pow10_add)
    then have "r / pow10 (?a - 27) \<le> of_int (10 ^ 28)"
      by (simp add: pos_divide_le_eq pow10_def [of 28] less_imp_le)
    from round_half_even_mono [OF this]
    have "of_int (round_half_even (r / pow10 (?a - 27))) \<le> pow10 28"
      by (simp only: round_half_even_of_int) (metis of_int_le_iff of_int_numeral of_int_power pow10_def
          nat_numeral zero_le_numeral)
    then have "ctx r \<le> pow10 28 * pow10 (?a - 27)"
      using r by (simp add: c mult_right_mono less_imp_le)
    also have "\<dots> \<le> pow10 27 * pow10 (?b - 27)"
      using ab by (simp add: pow10_le_iff flip: pow10_add)
    also have "\<dots> \<le> ctx s"
    proof -
      have "pow10 27 * pow10 (?b - 27) \<le> s"
        using pow10_adjusted_le [of s] r le by (simp flip: pow10_add)
      then have "of_int (10 ^ 27) \<le> s / pow10 (?b - 27)"
        by (simp add: pos_le_divide_eq pow10_def [of 27])
      from round_half_even_mono [OF this]
      have "pow10 27 \<le> of_int (round_half_even (s / pow10 (?b - 27)))"
        by (simp only: round_half_even_of_int) (metis of_int_le_iff of_int_numeral of_int_power
            pow10_def nat_numeral zero_le_numeral)
      then show ?thesis
        using r le by (simp add: c mult_right_mono less_imp_le)
    qed
    finally show ?thesis .
  qed
qed

lemma adjusted_minus: "adjusted (- r) = adjusted r"
  by (simp add: adjusted_def)

lemma ctx_minus: "ctx (- r) = - ctx r"
  by (simp add: ctx_def Let_def adjusted_minus round_half_even_minus)

lemma ctx_nonneg: "0 \<le> r \<Longrightarrow> 0 \<le> ctx r"
proof (cases "r = 0")
  case False
  assume "0 \<le> r"
  then have "of_int 0 \<le> r / pow10 (adjusted r - 27)"
    by (simp add: divide_nonneg_pos)
  from round_half_even_mono [OF this] False show ?thesis
    unfolding round_half_even_of_int ctx_def Let_def if_not_P [OF False]
    by (intro mult_nonneg_nonneg) (simp_all add: less_imp_le)
qed (simp add: ctx_def)

lemma ctx_mono: "r \<le> s \<Longrightarrow> ctx r \<le> ctx s"
proof -
  assume le: "r \<le> s"
  consider "0 < r" | "s < 0" | "r \<le> 0" "0 \<le> s"
    by linarith
  then show ?thesis
  proof cases
    case 1
    from ctx_pos_mono [OF this le] show ?thesis .
  next
    case 2
    with le ctx_pos_mono [of "- s" "- r"] show ?thesis by (simp add: ctx_minus)
  next
    case 3
    then show ?thesis
      using ctx_nonneg [of "- r"] ctx_nonneg [of s] by (simp add: ctx_minus)
  qed
qed

lemma dmul_mono: "a \<le> b \<Longrightarrow> 0 \<le> r \<Longrightarrow> dmul a r \<le> dmul b r"
  unfolding dmul_def by (intro ctx_mono mult_right_mono)

section \<open>\<open>Decimal\<close> of a string\<close>

definition skip_sign :: "string \<Rightarrow> bool \<times> string" where
  "skip_sign s = (case s of [] \<Rightarrow> (False, [])
     | c # t \<Rightarrow> if c = CHR ''-'' then (True, t) else if c = CHR ''+'' then (False, t) else (False, s))"

definition parse_exp :: "string \<Rightarrow> int option" where
  "parse_exp s = (case s of [] \<Rightarrow> Some 0
     | c # t \<Rightarrow> if c = CHR ''e'' \<or> c = CHR ''E''
                then (let (neg, u) = skip_sign t
                      in map_option (\<lambda>n. if neg then - int n else int n) (py_int_digits u))
                else None)"

definition parse_unsigned :: "string \<Rightarrow> rat option" where
  "parse_unsigned s =
     (let ip = takeWhile is_ascii_digit s; r1 = dropWhile is_ascii_digit s;
          dotted = (r1 \<noteq> [] \<and> hd r1 = CHR ''.'');
          fp = (if dotted then takeWhile is_ascii_digit (tl r1) else []);
          r2 = (if dotted then dropWhile is_ascii_digit (tl r1) else r1)
      in if ip @ fp = [] then None
         else map_option (\<lambda>e. of_nat (digits_val (ip @ fp)) * pow10 (e - int (length fp)))
                (parse_exp r2))"

text \<open>
  \<open>Decimal(s)\<close>; \<open>None\<close> is \<open>InvalidOperation\<close>. White space is stripped and underscores
  are dropped; a NaN may carry a digit payload.
\<close>

definition parse_decimal :: "string \<Rightarrow> dec option" where
  "parse_decimal raw =
     (let (neg, s) = skip_sign (filter (\<lambda>c. c \<noteq> CHR ''_'') (py_strip raw)); l = py_lower s
      in if l = ''inf'' \<or> l = ''infinity'' then Some (if neg then NegInf else PosInf)
         else if take 3 l = ''nan'' \<and> list_all is_ascii_digit (drop 3 l) then Some NaN
         else if take 4 l = ''snan'' \<and> list_all is_ascii_digit (drop 4 l) then Some NaN
         else map_option (\<lambda>r. Fin (if neg then - r else r)) (parse_unsigned s))"

section \<open>JSON values\<close>

text \<open>
  The values a configuration or agent-state blob may hold. A float is represented by the
  decimal its shortest \<open>repr\<close> denotes.
\<close>

datatype pyval = PNone | PBool bool | PInt int | PFloat dec | PDec dec | PStr string
  | PList "pyval list" | PDict "(string \<times> pyval) list"

primrec py_truthy :: "pyval \<Rightarrow> bool" where
  "py_truthy PNone = False"
| "py_truthy (PBool b) = b"
| "py_truthy (PInt i) = (i \<noteq> 0)"
| "py_truthy (PFloat d) = dec_truthy d"
| "py_truthy (PDec d) = dec_truthy d"
| "py_truthy (PStr s) = (s \<noteq> [])"
| "py_truthy (PList xs) = (xs \<noteq> [])"
| "py_truthy (PDict kvs) = (kvs \<noteq> [])"

text \<open>\<open>Decimal(str(v))\<close>; \<open>None\<close> is \<open>InvalidOperation\<close>.\<close>

fun decimal_of_str :: "pyval \<Rightarrow> dec option" where
  "decimal_of_str (PInt i) = Some (Fin (of_int i))"
| "decimal_of_str (PFloat d) = Some d"
| "decimal_of_str (PDec d) = Some d"
| "decimal_of_str (PStr s) = parse_decimal s"
| "decimal_of_str v = None"

text \<open>\<open>d.get(k)\<close> on a dict value.\<close>

definition pget :: "(string \<times> pyval) list \<Rightarrow> string \<Rightarrow> pyval" where
  "pget d k = (case map_of d k of None \<Rightarrow> PNone | Some v \<Rightarrow> v)"

definition pget_default :: "(string \<times> pyval) list \<Rightarrow> string \<Rightarrow> pyval \<Rightarrow> pyval" where
  "pget_default d k v = (case map_of d k of None \<Rightarrow> v | Some w \<Rightarrow> w)"

end
