(* ===== verification/Invoices.thy ===== *)
theory Invoices
  imports PyDecimal
begin

text \<open>
  The invoice row and its status vocabulary: \<open>models/invoice_status.py\<close> (the enum and the
  named groups of statuses) and the columns of \<open>models/invoice.py\<close> that the modelled
  services read or write.

  Columns no modelled operation touches (addresses, tax identifiers, file keys) are left
  out. \<open>department\<close> and \<open>project\<close> are free strings; \<open>po_match\<close> is kept as the JSON value it
  is stored as.
\<close>

section \<open>Statuses\<close>

datatype inv_status = New | Pending | ReadyForReview | Approved | Rejected | SendingToErp
  | SentToErp | PostedInErp | PaymentScheduled | Paid | Done | Failed

primrec status_value :: "inv_status \<Rightarrow> string" where
  "status_value New = ''new''"
| "status_value Pending = ''pending''"
| "status_value ReadyForReview = ''ready_for_review''"
| "status_value Approved = ''approved''"
| "status_value Rejected = ''rejected''"
| "status_value SendingToErp = ''sending_to_erp''"
| "status_value SentToErp = ''sent_to_erp''"
| "status_value PostedInErp = ''posted_in_erp''"
| "status_value PaymentScheduled = ''payment_scheduled''"
| "status_value Paid = ''paid''"
| "status_value Done = ''done''"
| "status_value Failed = ''failed''"

text \<open>The statuses as a finite enumeration, so that a statement about all of them computes.\<close>

definition all_statuses :: "inv_status list" where
  "all_statuses = [New, Pending, ReadyForReview, Approved, Rejected, SendingToErp, SentToErp,
     PostedInErp, PaymentScheduled, Paid, Done, Failed]"

lemma all_statuses_complete: "s \<in> set all_statuses"
  by (cases s) (simp_all add: all_statuses_def)

instantiation inv_status :: enum
begin

definition "enum_inv_status = all_statuses"

definition enum_all_inv_status :: "(inv_status \<Rightarrow> bool) \<Rightarrow> bool" where
  "enum_all_inv_status P = list_all P all_statuses"

definition enum_ex_inv_status :: "(inv_status \<Rightarrow> bool) \<Rightarrow> bool" where
  "enum_ex_inv_status P = list_ex P all_statuses"

instance
proof
  show "(UNIV :: inv_status set) = set enum_class.enum"
    using all_statuses_complete by (auto simp: enum_inv_status_def)
  show "distinct (enum_class.enum :: inv_status list)"
    by (simp add: enum_inv_status_def all_statuses_def)
  show "enum_class.enum_all P = Ball UNIV P" for P :: "inv_status \<Rightarrow> bool"
    using all_statuses_complete by (auto simp: enum_all_inv_status_def list_all_iff)
  show "enum_class.enum_ex P = Bex UNIV P" for P :: "inv_status \<Rightarrow> bool"
    using all_statuses_complete by (auto simp: enum_ex_inv_status_def list_ex_iff)
qed

end

lemma status_value_inject [simp]: "status_value s = status_value t \<longleftrightarrow> s = t"
  by (cases s; cases t) simp_all

section \<open>Groups of statuses\<close>

definition in_review_statuses :: "inv_status list" where
  "in_review_statuses = [New, Pending, ReadyForReview]"

definition pre_approval_statuses :: "inv_status set" where
  "pre_approval_statuses = set in_review_statuses \<union> {Rejected}"

definition open_ap_statuses :: "inv_status list" where
  "open_ap_statuses = [Approved, SendingToErp, SentToErp, PostedInErp, PaymentScheduled]"

definition approved_or_beyond_statuses :: "inv_status list" where
  "approved_or_beyond_statuses = open_ap_statuses @ [Paid, Done]"

definition post_approval_locked_statuses :: "inv_status set" where
  "post_approval_locked_statuses = set approved_or_beyond_statuses - {Approved}"

lemmas status_group_defs = in_review_statuses_def pre_approval_statuses_def open_ap_statuses_def
  approved_or_beyond_statuses_def post_approval_locked_statuses_def

section \<open>The invoice row\<close>

text \<open>
  The two columns segregation of duties reads come first, as a record of their own: the
  expense, requisition and pre-approval subjects of the rule carry only these.
\<close>

record seg_subject =
  uploaded_by_id :: "uid option"
  segregation_actor_ids :: "uid list option"

record invoice = seg_subject +
  inv_id :: uid
  inv_status :: inv_status
  entity_id :: "uid option"
  vendor_id :: "uid option"
  vendor_name :: string
  invoice_number :: string
  amount :: rat
  currency :: "string option"
  description :: "string option"
  due_date :: "date option"
  po_number :: "string option"
  po_match :: pyval
  gl_account :: "string option"
  cost_center :: "string option"
  department :: "string option"
  reporting_currency :: "string option"
  reporting_amount :: "rat option"
  reporting_fx_rate :: "rat option"
  reporting_source_currency :: "string option"
  reporting_fx_locked_at :: "stamp option"
  approval_date :: "date option"
  approved_by :: "string option"
  rejected_by :: "string option"
  assigned_to_id :: "uid option"
  assigned_to :: "string option"

section \<open>Effects outside the row\<close>

text \<open>
  What an operation appends to the world besides the rows it changes: immutable audit rows,
  outbound webhook events with their deduplication key, and notifications with their
  recipients.
\<close>

record audit_row =
  au_action :: string
  au_actor :: "uid option"
  au_entity :: uid
  au_details :: "(string \<times> pyval) list"

record effects =
  fx_audit :: "audit_row list"
  fx_webhooks :: "(string \<times> uid) list"
  fx_notices :: "(string \<times> uid list) list"
  fx_vendor_notices :: "string list"

definition dispatch_audit :: "audit_row \<Rightarrow> effects \<Rightarrow> effects" where
  "dispatch_audit r fx = fx\<lparr>fx_audit := fx_audit fx @ [r]\<rparr>"

section \<open>A concrete row\<close>

text \<open>The row and the empty world the concrete instances of the theorems start from.\<close>

definition sample_invoice :: invoice where
  "sample_invoice = \<lparr>uploaded_by_id = Some ''u-clerk'', segregation_actor_ids = None,
     inv_id = ''inv-1'', inv_status = New, entity_id = None, vendor_id = Some ''v-1'',
     vendor_name = ''Acme'', invoice_number = ''A-1'', amount = 900, currency = Some ''USD'',
     description = None, due_date = None, po_number = None, po_match = PNone,
     gl_account = None, cost_center = None, department = None,
     reporting_currency = None, reporting_amount = None, reporting_fx_rate = None,
     reporting_source_currency = None, reporting_fx_locked_at = None,
     approval_date = None, approved_by = None, rejected_by = None,
     assigned_to_id = None, assigned_to = None\<rparr>"

definition no_effects :: effects where
  "no_effects = \<lparr>fx_audit = [], fx_webhooks = [], fx_notices = [], fx_vendor_notices = []\<rparr>"

end
