(* ===== verification/WorkflowSteps.thy ===== *)
theory WorkflowSteps
  imports Prelude
begin

text \<open>
  The workflow step-type vocabulary (\<open>services/workflow_step_types.py\<close>): the canonical
  pipeline, whose order numbers the persisted steps, the builder's orchestration types,
  the legacy aliases, and the classification that refuses every other name.
\<close>

definition canonical_step_types :: "string list" where
  "canonical_step_types = [''extraction'', ''approval'', ''erp_export'', ''done'']"

definition builder_step_types :: "string list" where
  "builder_step_types = [''condition'', ''parallel'', ''webhook'', ''email'', ''delay'']"

definition known_step_types :: "string set" where
  "known_step_types = set canonical_step_types \<union> set builder_step_types"

definition step_type_aliases :: "(string \<times> string) list" where
  "step_type_aliases =
     [(''upload'', ''extraction''), (''review'', ''approval''), (''erp_push'', ''erp_export'')]"

text \<open>The two \<open>ValueError\<close> subclasses, each carrying the name it reports.\<close>

datatype step_type_error = UnknownStepType "string option" | NonCanonicalStepType string

definition resolve_step_type :: "string option \<Rightarrow> string" where
  "resolve_step_type t = (case t of None \<Rightarrow> []
     | Some s \<Rightarrow> if s = [] then []
                 else (case map_of step_type_aliases s of None \<Rightarrow> s | Some c \<Rightarrow> c))"

definition is_known_step_type :: "string option \<Rightarrow> bool" where
  "is_known_step_type t = (resolve_step_type t \<in> known_step_types)"

text \<open>\<open>list.index\<close>: the position of the first occurrence.\<close>

fun index_of :: "'a list \<Rightarrow> 'a \<Rightarrow> nat option" where
  "index_of [] x = None"
| "index_of (y # ys) x = (if x = y then Some 0 else map_option Suc (index_of ys x))"

definition canonical_step_index :: "string option \<Rightarrow> step_type_error + nat" where
  "canonical_step_index t =
     (let resolved = resolve_step_type t
      in case index_of canonical_step_types resolved of
           Some i \<Rightarrow> Inr (i + 1)
         | None \<Rightarrow> if resolved \<in> set builder_step_types then Inl (NonCanonicalStepType resolved)
                   else Inl (UnknownStepType t))"

section \<open>Lemmas\<close>

lemma index_of_SomeD: "index_of xs x = Some i \<Longrightarrow> i < length xs \<and> xs ! i = x"
  by (induction xs arbitrary: i) (auto split: if_splits)

lemma index_of_None_iff: "index_of xs x = None \<longleftrightarrow> x \<notin> set xs"
  by (induction xs) auto

lemma index_of_nth: "distinct xs \<Longrightarrow> i < length xs \<Longrightarrow> index_of xs (xs ! i) = Some i"
  by (induction xs arbitrary: i) (auto simp: nth_Cons split: nat.splits)

lemma resolve_step_type_simps [simp]:
  "resolve_step_type None = []"
  "resolve_step_type (Some []) = []"
  by (simp_all add: resolve_step_type_def)

text \<open>Resolving twice is resolving once: no alias names another alias.\<close>

lemma resolve_step_type_idem: "resolve_step_type (Some (resolve_step_type t)) = resolve_step_type t"
  by (cases t) (auto simp: resolve_step_type_def step_type_aliases_def)

lemma canonical_step_index_resolved:
  "canonical_step_index t = Inr n \<Longrightarrow> canonical_step_index (Some (resolve_step_type t)) = Inr n"
  by (simp add: canonical_step_index_def resolve_step_type_idem Let_def split: option.splits if_splits)

lemma canonical_builder_disjoint: "set canonical_step_types \<inter> set builder_step_types = {}"
  by (simp add: canonical_step_types_def builder_step_types_def)

lemma canonical_step_index_Inr:
  "canonical_step_index t = Inr n \<Longrightarrow>
     1 \<le> n \<and> n \<le> length canonical_step_types \<and> canonical_step_types ! (n - 1) = resolve_step_type t"
  by (auto simp: canonical_step_index_def Let_def split: option.splits if_splits
      dest!: index_of_SomeD)

lemma canonical_step_index_iff:
  "passes (canonical_step_index t) \<longleftrightarrow> resolve_step_type t \<in> set canonical_step_types"
  using index_of_None_iff [of canonical_step_types "resolve_step_type t"]
  by (auto simp: canonical_step_index_def Let_def split: option.splits)

text \<open>
  A step type is refused by name: a builder type as such, and any other name that is not
  a canonical step or an alias of one as unknown.
\<close>

lemma canonical_step_index_errors:
  "canonical_step_index t = Inl (NonCanonicalStepType b) \<longleftrightarrow>
     b = resolve_step_type t \<and> b \<in> set builder_step_types"
  "canonical_step_index t = Inl (UnknownStepType u) \<longleftrightarrow> u = t \<and> \<not> is_known_step_type t"
  using index_of_None_iff [of canonical_step_types "resolve_step_type t"] canonical_builder_disjoint
  by (auto simp: canonical_step_index_def is_known_step_type_def known_step_types_def Let_def
      split: option.splits)

end
