(* ===== verification/WorkflowEngine.thy ===== *)
theory WorkflowEngine
  imports Invoices WorkflowSteps "HOL-Library.Product_Lexorder"
begin

text \<open>
  \<open>services/workflow_engine.py\<close>: the invoice state machine and the bookkeeping of workflow
  definitions, instances and steps.

  The transition table, \<open>transition_invoice\<close> (the one function that changes a status, with
  the audit row, the webhook and the notifications it emits), the resolution of the active
  workflow definition, and the operations that open and close workflow steps. The rows of a
  table are lists; where the code orders them by a column and rows tie, the first of the
  list wins, and the order of the list is arbitrary. The configuration of a step is a type
  parameter here: \<open>ApprovalChain\<close> gives the approval step's. The clock, fresh identifiers
  and the lookup of a role's users are arguments.
\<close>

section \<open>The transition table\<close>

fun valid_transitions :: "inv_status \<Rightarrow> inv_status set" where
  "valid_transitions New = {Pending, ReadyForReview, Approved, Done}"
| "valid_transitions Pending = {ReadyForReview, Approved, Failed, New}"
| "valid_transitions ReadyForReview = {Approved, Rejected}"
| "valid_transitions Approved = {SendingToErp, PaymentScheduled, Done}"
| "valid_transitions Rejected = {ReadyForReview, New}"
| "valid_transitions SendingToErp = {SentToErp, Failed}"
| "valid_transitions SentToErp = {PostedInErp, Done}"
| "valid_transitions PostedInErp = {PaymentScheduled, Done}"
| "valid_transitions PaymentScheduled = {Paid, Approved}"
| "valid_transitions Paid = {Done, Approved}"
| "valid_transitions Done = {}"
| "valid_transitions Failed = {Pending, SendingToErp}"

text \<open>The 409 carries its sentence only; the code is the model's name for it.\<close>

definition validate_transition :: "inv_status \<Rightarrow> inv_status \<Rightarrow> exc + unit" where
  "validate_transition cur target =
     raise_if (target \<notin> valid_transitions cur) (HttpError 409 ''invalid_transition'')"

section \<open>The hooks of a transition\<close>

definition maybe_emit_webhook :: "uid \<Rightarrow> inv_status \<Rightarrow> effects \<Rightarrow> effects" where
  "maybe_emit_webhook occurrence target fx =
     (if target = Approved then fx\<lparr>fx_webhooks := fx_webhooks fx @ [(''invoice.approved'', occurrence)]\<rparr>
      else if target = Paid then fx\<lparr>fx_webhooks := fx_webhooks fx @ [(''payment.settled'', occurrence)]\<rparr>
      else fx)"

text \<open>
  \<open>_maybe_notify_transition\<close>: the event and its recipients. \<open>ap_managers\<close> is the answer
  of \<open>resolve_role_user_ids\<close>, \<open>None\<close> when it raises. The supplier is told whenever there is
  an event, whoever else is.
\<close>

definition transition_event :: "inv_status \<Rightarrow> string option" where
  "transition_event target =
     (if target = Approved then Some ''invoice_approved''
      else if target = Rejected then Some ''invoice_rejected''
      else if target = Paid then Some ''invoice_paid''
      else None)"

definition transition_recipients :: "uid list option \<Rightarrow> uid option \<Rightarrow> inv_status \<Rightarrow> uid list" where
  "transition_recipients ap_managers uploader target =
     (case uploader of None \<Rightarrow> [] | Some u \<Rightarrow> [u]) @
     (if target = Paid then (case ap_managers of None \<Rightarrow> [] | Some us \<Rightarrow> us) else [])"

definition maybe_notify_transition ::
  "uid list option \<Rightarrow> 'x invoice_scheme \<Rightarrow> inv_status \<Rightarrow> effects \<Rightarrow> effects" where
  "maybe_notify_transition ap_managers iv target fx =
     (case transition_event target of
        None \<Rightarrow> fx
      | Some ev \<Rightarrow>
          let fx1 = fx\<lparr>fx_vendor_notices := fx_vendor_notices fx @ [ev]\<rparr>;
              to_users = transition_recipients ap_managers (uploaded_by_id iv) target
          in if to_users = [] then fx1
             else fx1\<lparr>fx_notices := fx_notices fx1 @ [(ev, to_users)]\<rparr>)"

text \<open>
  \<open>occurrence\<close> is the fresh identifier minted for this transition, \<open>details\<close> the caller's
  entries, which the old and new status follow.
\<close>

definition transition_invoice ::
  "uid \<Rightarrow> uid list option \<Rightarrow> uid option \<Rightarrow> string \<Rightarrow> (string \<times> pyval) list \<Rightarrow> inv_status \<Rightarrow>
     invoice \<Rightarrow> effects \<Rightarrow> exc + invoice \<times> effects" where
  "transition_invoice occurrence ap_managers actor action_name details target iv fx =
     bind_res (validate_transition (inv_status iv) target) (\<lambda>_.
       let inv1 = iv\<lparr>inv_status := target\<rparr>;
           row = \<lparr>au_action = action_name, au_actor = actor, au_entity = inv_id iv,
                  au_details = details @ [(''old_status'', PStr (status_value (inv_status iv))),
                                          (''new_status'', PStr (status_value target))]\<rparr>;
           fx1 = maybe_notify_transition ap_managers inv1 target (dispatch_audit row fx)
       in Inr (inv1, maybe_emit_webhook occurrence target fx1))"

section \<open>Step configuration\<close>

record 'c step_cfg =
  sc_type :: "string option"
  sc_enabled :: "bool option"
  sc_config :: "'c option"

text \<open>A \<open>steps_config\<close>: \<open>None\<close> is NULL or the empty object, otherwise its \<open>steps\<close>.\<close>

type_synonym 'c steps_config = "'c step_cfg list option"

definition steps_of :: "'c steps_config \<Rightarrow> 'c step_cfg list" where
  "steps_of cfg = (case cfg of None \<Rightarrow> [] | Some ss \<Rightarrow> ss)"

definition check_step_enabled :: "'c steps_config \<Rightarrow> string \<Rightarrow> bool" where
  "check_step_enabled cfg t =
     (case List.find (\<lambda>s. sc_type s = Some t) (steps_of cfg) of
        None \<Rightarrow> True
      | Some s \<Rightarrow> (case sc_enabled s of None \<Rightarrow> True | Some b \<Rightarrow> b))"

text \<open>\<open>None\<close> is the empty dict.\<close>

definition get_step_config :: "'c steps_config \<Rightarrow> string \<Rightarrow> 'c option" where
  "get_step_config cfg t =
     (case List.find (\<lambda>s. sc_type s = Some t) (steps_of cfg) of
        None \<Rightarrow> None
      | Some s \<Rightarrow> sc_config s)"

section \<open>Workflow definitions\<close>

record 'c wf_definition =
  wd_id :: uid
  wd_org :: uid
  wd_entity :: "uid option"
  wd_active :: bool
  wd_default :: bool
  wd_created_at :: stamp
  wd_steps :: "'c steps_config"

text \<open>The query \<open>_first\<close>: explicit default first, then the oldest.\<close>

definition first_definition ::
  "'c wf_definition list \<Rightarrow> uid \<Rightarrow> ('c wf_definition \<Rightarrow> bool) \<Rightarrow> 'c wf_definition option" where
  "first_definition ds org extra =
     (case filter (\<lambda>d. wd_org d = org \<and> wd_active d \<and> extra d) ds of
        [] \<Rightarrow> None
      | d # rest \<Rightarrow> Some (min_by (\<lambda>d. (\<not> wd_default d, wd_created_at d)) d rest))"

definition resolve_active_workflow_definition ::
  "'c wf_definition list \<Rightarrow> uid \<Rightarrow> uid option \<Rightarrow> 'c wf_definition option" where
  "resolve_active_workflow_definition ds org ent =
     (case (if ent \<noteq> None then first_definition ds org (\<lambda>d. wd_entity d = ent) else None) of
        Some d \<Rightarrow> Some d
      | None \<Rightarrow>
          (case (if ent \<noteq> None then first_definition ds org (\<lambda>d. wd_entity d = None) else None) of
             Some d \<Rightarrow> Some d
           | None \<Rightarrow> first_definition ds org (\<lambda>_. True)))"

text \<open>
  \<open>get_or_create_workflow_definition\<close>: the definitions table after it and the row returned.
  \<open>fallback\<close> is \<open>DEFAULT_STEPS_CONFIG\<close>, \<open>fresh\<close> and \<open>now\<close> the new row's identifier and
  creation time.
\<close>

definition get_or_create_workflow_definition ::
  "'c steps_config \<Rightarrow> uid \<Rightarrow> stamp \<Rightarrow> 'c wf_definition list \<Rightarrow> uid \<Rightarrow> uid option \<Rightarrow>
     'c wf_definition list \<times> 'c wf_definition" where
  "get_or_create_workflow_definition fallback fresh now ds org ent =
     (case resolve_active_workflow_definition ds org ent of
        Some d \<Rightarrow> (ds, d)
      | None \<Rightarrow>
          let d = \<lparr>wd_id = fresh, wd_org = org, wd_entity = None, wd_active = True,
                   wd_default = True, wd_created_at = now, wd_steps = fallback\<rparr>
          in (ds @ [d], d))"

section \<open>Instances and steps\<close>

record wf_step =
  ws_number :: nat
  ws_type :: string
  ws_assigned_to :: "uid option"
  ws_original_assigned_to :: "uid option"
  ws_action :: "string option"
  ws_completed_at :: "stamp option"
  ws_created_at :: stamp

record ('c, 'd) wf_instance =
  wi_current_step :: nat
  wi_state :: string
  wi_state_data :: "'d option"
  wi_snapshot :: "'c steps_config"
  wi_steps :: "wf_step list"

text \<open>
  \<open>variant\<close> is the configuration of the A/B experiment variant the invoice was assigned,
  \<open>None\<close> when there is none or the assignment raised.
\<close>

definition create_workflow_instance ::
  "'c wf_definition \<Rightarrow> 'c steps_config option \<Rightarrow> ('c, 'd) wf_instance" where
  "create_workflow_instance defn variant =
     \<lparr>wi_current_step = 0, wi_state = ''active'', wi_state_data = None,
      wi_snapshot = (case variant of None \<Rightarrow> wd_steps defn | Some v \<Rightarrow> v), wi_steps = []\<rparr>"

text \<open>\<open>is_step_enabled\<close>: the frozen snapshot when there is one, else the live definition.\<close>

definition is_step_enabled ::
  "('c, 'd) wf_instance option \<Rightarrow> 'c wf_definition \<Rightarrow> string \<Rightarrow> bool" where
  "is_step_enabled inst defn t =
     (case inst of
        Some i \<Rightarrow> (if wi_snapshot i \<noteq> None then check_step_enabled (wi_snapshot i) t
                   else check_step_enabled (wd_steps defn) t)
      | None \<Rightarrow> check_step_enabled (wd_steps defn) t)"

definition create_workflow_step ::
  "stamp \<Rightarrow> string option \<Rightarrow> uid option \<Rightarrow> ('c, 'd) wf_instance \<Rightarrow>
     step_type_error + ('c, 'd) wf_instance" where
  "create_workflow_step now t assignee inst =
     (let resolved = resolve_step_type t
      in bind_res (canonical_step_index (Some resolved)) (\<lambda>n.
           Inr (inst\<lparr>wi_steps := wi_steps inst @
                  [\<lparr>ws_number = n, ws_type = resolved, ws_assigned_to = assignee,
                    ws_original_assigned_to = None, ws_action = None, ws_completed_at = None,
                    ws_created_at = now\<rparr>]\<rparr>)))"

text \<open>The open step of the highest number.\<close>

definition open_indices :: "wf_step list \<Rightarrow> nat list" where
  "open_indices ss = filter (\<lambda>i. ws_completed_at (ss ! i) = None) [0..<length ss]"

definition current_open :: "wf_step list \<Rightarrow> nat option" where
  "current_open ss =
     (case open_indices ss of [] \<Rightarrow> None
      | i # is \<Rightarrow> Some (min_by (\<lambda>j. - int (ws_number (ss ! j))) i is))"

definition close_step :: "stamp \<Rightarrow> string \<Rightarrow> wf_step \<Rightarrow> wf_step" where
  "close_step now act s = s\<lparr>ws_action := Some act, ws_completed_at := Some now\<rparr>"

definition complete_current_step ::
  "stamp \<Rightarrow> string \<Rightarrow> ('c, 'd) wf_instance \<Rightarrow> ('c, 'd) wf_instance" where
  "complete_current_step now act inst =
     (case current_open (wi_steps inst) of None \<Rightarrow> inst
      | Some i \<Rightarrow> inst\<lparr>wi_steps := (wi_steps inst)[i := close_step now act (wi_steps inst ! i)]\<rparr>)"

definition advance_workflow ::
  "stamp \<Rightarrow> string option \<Rightarrow> string \<Rightarrow> uid option \<Rightarrow> ('c, 'd) wf_instance \<Rightarrow>
     step_type_error + ('c, 'd) wf_instance" where
  "advance_workflow now next act assignee inst =
     (let resolved_next = resolve_step_type next
      in bind_res (canonical_step_index (Some resolved_next)) (\<lambda>n.
           let inst1 = complete_current_step now act inst;
               inst2 = inst1\<lparr>wi_current_step := n - 1\<rparr>
           in create_workflow_step now next assignee inst2))"

text \<open>The final step is created closed: \<open>done_step\<close> is the row just appended.\<close>

definition complete_workflow ::
  "stamp \<Rightarrow> string \<Rightarrow> ('c, 'd) wf_instance \<Rightarrow> step_type_error + ('c, 'd) wf_instance" where
  "complete_workflow now act inst =
     bind_res (create_workflow_step now (Some ''done'') None (complete_current_step now act inst))
       (\<lambda>inst1.
          let ss = wi_steps inst1;
              k = length ss - 1
          in Inr (inst1\<lparr>wi_steps := ss[k := close_step now ''completed'' (ss ! k)],
                        wi_current_step := length canonical_step_types - 1,
                        wi_state := ''completed''\<rparr>))"

section \<open>Lemmas\<close>

lemma validate_transition_iff [simp]:
  "validate_transition s t = Inr u \<longleftrightarrow> t \<in> valid_transitions s"
  by (simp add: validate_transition_def)

lemma effects_frame [frame]:
  "fx_audit (maybe_emit_webhook o1 t fx) = fx_audit fx"
  "fx_audit (maybe_notify_transition m iv t fx) = fx_audit fx"
  "fx_webhooks (maybe_notify_transition m iv t fx) = fx_webhooks fx"
  "fx_webhooks (dispatch_audit r fx) = fx_webhooks fx"
  by (auto simp: maybe_emit_webhook_def maybe_notify_transition_def dispatch_audit_def Let_def
      split: option.splits)

lemma transition_invoice_InrE:
  assumes "transition_invoice o1 m a n d t iv fx = Inr (iv', fx')"
  obtains "t \<in> valid_transitions (inv_status iv)" and "iv' = iv\<lparr>inv_status := t\<rparr>"
    and "fx_audit fx' = fx_audit fx @ [\<lparr>au_action = n, au_actor = a, au_entity = inv_id iv,
           au_details = d @ [(''old_status'', PStr (status_value (inv_status iv))),
                             (''new_status'', PStr (status_value t))]\<rparr>]"
  using assms
  by (auto simp: transition_invoice_def bind_res_Inr_iff Let_def frame dispatch_audit_def)

lemma transition_invoice_passes:
  "passes (transition_invoice o1 m a n d t iv fx) \<longleftrightarrow> t \<in> valid_transitions (inv_status iv)"
  by (auto simp: transition_invoice_def passes_def validate_transition_def Let_def raise_if_def)

text \<open>Steps: closing one, and what every operation keeps.\<close>

definition open_steps :: "wf_step list \<Rightarrow> wf_step list" where
  "open_steps ss = filter (\<lambda>s. ws_completed_at s = None) ss"

lemma set_open_indices: "i \<in> set (open_indices ss) \<longleftrightarrow> i < length ss \<and> ws_completed_at (ss ! i) = None"
  by (auto simp: open_indices_def)

lemma current_open_SomeD:
  assumes "current_open ss = Some i"
  shows "i < length ss \<and> ws_completed_at (ss ! i) = None \<and>
    (\<forall>s \<in> set (open_steps ss). ws_number s \<le> ws_number (ss ! i))"
proof -
  let ?k = "\<lambda>j. - int (ws_number (ss ! j))"
  obtain j js where js: "open_indices ss = j # js" and i: "i = min_by ?k j js"
    using assms by (auto simp: current_open_def split: list.splits)
  have "i \<in> set (open_indices ss)"
    using min_by_mem [of ?k j js] js i by simp
  moreover have "ws_number s \<le> ws_number (ss ! i)" if "s \<in> set (open_steps ss)" for s
  proof -
    from that obtain k where "k < length ss" "ss ! k = s" "ws_completed_at s = None"
      by (auto simp: open_steps_def in_set_conv_nth)
    then have "k \<in> insert j (set js)"
      using js set_open_indices [of k ss] by simp
    then show ?thesis
      using min_by_le [of k j js ?k] \<open>ss ! k = s\<close> i by simp
  qed
  ultimately show ?thesis
    by (auto simp: set_open_indices)
qed

lemma current_open_None_iff: "current_open ss = None \<longleftrightarrow> open_steps ss = []"
proof -
  have "current_open ss = None \<longleftrightarrow> set (open_indices ss) = {}"
    by (auto simp: current_open_def split: list.splits)
  also have "\<dots> \<longleftrightarrow> (\<forall>i. i \<notin> set (open_indices ss))"
    by (simp only: set_eq_iff empty_iff not_False_eq_True)
       auto
  also have "\<dots> \<longleftrightarrow> open_steps ss = []"
    by (auto simp: set_open_indices open_steps_def filter_empty_conv all_set_conv_all_nth)
  finally show ?thesis .
qed

lemma complete_current_step_open:
  "length (open_steps (wi_steps (complete_current_step now act i))) =
     length (open_steps (wi_steps i)) - 1"
proof (cases "current_open (wi_steps i)")
  case None
  then have "open_steps (wi_steps i) = []"
    by (simp only: current_open_None_iff)
  with None show ?thesis
    by (simp add: complete_current_step_def)
next
  case (Some k)
  with current_open_SomeD [OF Some] show ?thesis
    using length_filter_update [of k "wi_steps i" "\<lambda>s. ws_completed_at s = None"
        "close_step now act (wi_steps i ! k)"]
    by (simp add: complete_current_step_def open_steps_def close_step_def)
qed

lemma complete_current_step_frame [frame]:
  "wi_current_step (complete_current_step now act i) = wi_current_step i"
  "wi_state (complete_current_step now act i) = wi_state i"
  "wi_snapshot (complete_current_step now act i) = wi_snapshot i"
  "wi_state_data (complete_current_step now act i) = wi_state_data i"
  "length (wi_steps (complete_current_step now act i)) = length (wi_steps i)"
  by (auto simp: complete_current_step_def split: option.splits)

lemma complete_current_step_nth:
  "k < length (wi_steps i) \<Longrightarrow>
     ws_type (wi_steps (complete_current_step now act i) ! k) = ws_type (wi_steps i ! k) \<and>
     ws_number (wi_steps (complete_current_step now act i) ! k) = ws_number (wi_steps i ! k)"
  by (cases "current_open (wi_steps i)")
    (use current_open_SomeD [of "wi_steps i"] in
      \<open>auto simp: complete_current_step_def close_step_def nth_list_update\<close>)

lemma complete_current_step_closed:
  "k < length (wi_steps i) \<Longrightarrow> ws_completed_at (wi_steps i ! k) \<noteq> None \<Longrightarrow>
     wi_steps (complete_current_step now act i) ! k = wi_steps i ! k"
  by (cases "current_open (wi_steps i)")
    (use current_open_SomeD [of "wi_steps i"] in \<open>auto simp: complete_current_step_def nth_list_update\<close>)

text \<open>The type and the number of every step agree with the canonical pipeline.\<close>

definition steps_numbered :: "wf_step list \<Rightarrow> bool" where
  "steps_numbered ss = (\<forall>s \<in> set ss. canonical_step_index (Some (ws_type s)) = Inr (ws_number s))"

lemma steps_numbered_complete:
  "steps_numbered (wi_steps i) \<Longrightarrow> steps_numbered (wi_steps (complete_current_step now act i))"
  by (simp add: steps_numbered_def all_set_conv_all_nth complete_current_step_frame
      complete_current_step_nth)

lemma create_workflow_step_InrE:
  assumes "create_workflow_step now t who i = Inr i'"
  obtains s where "i' = i\<lparr>wi_steps := wi_steps i @ [s]\<rparr>" and "ws_type s = resolve_step_type t"
    and "ws_completed_at s = None" and "ws_assigned_to s = who"
    and "canonical_step_index (Some (ws_type s)) = Inr (ws_number s)"
  using assms by (force simp: create_workflow_step_def bind_res_Inr_iff Let_def)

lemma advance_workflow_InrE:
  assumes "advance_workflow now t act who i = Inr i'"
  obtains s where "wi_steps i' = wi_steps (complete_current_step now act i) @ [s]"
    and "ws_type s = resolve_step_type t" and "ws_completed_at s = None" and "ws_assigned_to s = who"
    and "canonical_step_index (Some (ws_type s)) = Inr (ws_number s)"
    and "wi_current_step i' = ws_number s - 1" and "wi_state i' = wi_state i"
    and "wi_snapshot i' = wi_snapshot i" and "wi_state_data i' = wi_state_data i"
  using assms
  by (force simp: advance_workflow_def bind_res_Inr_iff Let_def resolve_step_type_idem frame
      elim!: create_workflow_step_InrE)

lemma complete_workflow_InrE:
  assumes "complete_workflow now act i = Inr i'"
  obtains s where "wi_steps i' = wi_steps (complete_current_step now act i) @ [s]"
    and "ws_type s = ''done''" and "ws_completed_at s = Some now"
    and "canonical_step_index (Some (ws_type s)) = Inr (ws_number s)" and "wi_state i' = ''completed''"
    and "wi_current_step i' = 3"
proof -
  from assms obtain i1 where
    c: "create_workflow_step now (Some ''done'') None (complete_current_step now act i) = Inr i1"
    and i': "i' = i1\<lparr>wi_steps := (wi_steps i1)[length (wi_steps i1) - 1 :=
                 close_step now ''completed'' (wi_steps i1 ! (length (wi_steps i1) - 1))],
               wi_current_step := length canonical_step_types - 1, wi_state := ''completed''\<rparr>"
    by (auto simp: complete_workflow_def bind_res_Inr_iff Let_def)
  from c show thesis
  proof (rule create_workflow_step_InrE)
    fix s
    assume s: "i1 = complete_current_step now act i
        \<lparr>wi_steps := wi_steps (complete_current_step now act i) @ [s]\<rparr>"
      "ws_type s = resolve_step_type (Some ''done'')"
      "canonical_step_index (Some (ws_type s)) = Inr (ws_number s)"
    show thesis
      by (rule that [of "close_step now ''completed'' s"])
        (use s i' in \<open>simp_all add: close_step_def list_update_append canonical_step_types_def
            resolve_step_type_def step_type_aliases_def\<close>)
  qed
qed

section \<open>Instances reachable through the operations\<close>

text \<open>
  The operations in the order the services call them: an instance is created for a
  definition, steps are opened on an instance with no open step (the first step, and the
  fresh review step of a resubmission, which follows a rejection that closed the old one),
  advanced, closed and completed.
\<close>

inductive wf_reachable :: "('c, 'd) wf_instance \<Rightarrow> bool" where
  created: "wf_reachable (create_workflow_instance defn variant)"
| opened: "wf_reachable i \<Longrightarrow> open_steps (wi_steps i) = [] \<Longrightarrow>
     create_workflow_step now t who i = Inr i' \<Longrightarrow> wf_reachable i'"
| advanced: "wf_reachable i \<Longrightarrow> advance_workflow now t act who i = Inr i' \<Longrightarrow> wf_reachable i'"
| closed: "wf_reachable i \<Longrightarrow> wf_reachable (complete_current_step now act i)"
| completed: "wf_reachable i \<Longrightarrow> complete_workflow now act i = Inr i' \<Longrightarrow> wf_reachable i'"
| state_data: "wf_reachable i \<Longrightarrow> wf_reachable (i\<lparr>wi_state_data := d\<rparr>)"
| repositioned: "wf_reachable i \<Longrightarrow> wf_reachable (i\<lparr>wi_current_step := n\<rparr>)"

lemma open_steps_append: "open_steps (xs @ ys) = open_steps xs @ open_steps ys"
  by (simp add: open_steps_def)


text \<open>
  \<open>advance_workflow\<close> resolves the next step before it closes the current one: a
  step type that is not in the pipeline is refused by name, and otherwise the call succeeds,
  keeps every closed step as it was, and (on an instance with at most one open step) leaves
  exactly the new step open, assigned as asked, with the cursor on it.
\<close>

theorem advance_workflow_opens_next:
  assumes "length (open_steps (wi_steps i)) \<le> 1"
  shows "case advance_workflow now t act who i of
      Inl e \<Rightarrow> e = (if resolve_step_type t \<in> set builder_step_types
                    then NonCanonicalStepType (resolve_step_type t)
                    else UnknownStepType (Some (resolve_step_type t)))
               \<and> resolve_step_type t \<notin> set canonical_step_types
    | Inr i' \<Rightarrow> resolve_step_type t \<in> set canonical_step_types
               \<and> (\<exists>s. open_steps (wi_steps i') = [s] \<and> ws_type s = resolve_step_type t
                     \<and> ws_assigned_to s = who
                     \<and> canonical_step_types ! wi_current_step i' = ws_type s
                     \<and> ws_number s = wi_current_step i' + 1)
               \<and> (\<forall>k < length (wi_steps i). ws_completed_at (wi_steps i ! k) \<noteq> None \<longrightarrow>
                     wi_steps i' ! k = wi_steps i ! k)"
proof (cases "advance_workflow now t act who i")
  case (Inl e)
  then have "canonical_step_index (Some (resolve_step_type t)) = Inl e"
    by (auto simp: advance_workflow_def create_workflow_step_def bind_res_def Let_def
        resolve_step_type_idem split: sum.splits)
  then show ?thesis
    using Inl canonical_step_index_iff [of "Some (resolve_step_type t)"]
      canonical_builder_disjoint
    by (auto simp: resolve_step_type_idem passes_def canonical_step_index_def Let_def
        split: option.splits if_splits)
next
  case (Inr i')
  then obtain s where s: "wi_steps i' = wi_steps (complete_current_step now act i) @ [s]"
    "ws_type s = resolve_step_type t" "ws_completed_at s = None" "ws_assigned_to s = who"
    "canonical_step_index (Some (ws_type s)) = Inr (ws_number s)"
    "wi_current_step i' = ws_number s - 1"
    by (elim advance_workflow_InrE) blast
  have "open_steps (wi_steps (complete_current_step now act i)) = []"
    using assms complete_current_step_open [of now act i] by simp
  then have "open_steps (wi_steps i') = [s]"
    using s by (simp add: open_steps_append open_steps_def [of "[_]"])
  moreover have "resolve_step_type t \<in> set canonical_step_types"
    using s canonical_step_index_iff [of "Some (ws_type s)"] by (simp add: resolve_step_type_idem)
  moreover have "wi_steps i' ! k = wi_steps i ! k"
    if "k < length (wi_steps i)" "ws_completed_at (wi_steps i ! k) \<noteq> None" for k
    using that s(1) complete_current_step_closed [of k i now act]
    by (simp add: nth_append complete_current_step_frame)
  ultimately show ?thesis
    using Inr s canonical_step_index_Inr [OF s(5)] by (auto simp: resolve_step_type_idem)
qed

section \<open>What the transition table guarantees\<close>

text \<open>
  The edges through which an invoice that nobody has approved can leave the pre-approval
  region of the table: entering \<open>approved\<close>, and the retry of an ERP push, which the service
  guards separately (\<open>retry_erp\<close> demands a recorded approver).
\<close>

definition approval_gate :: "inv_status \<Rightarrow> inv_status \<Rightarrow> bool" where
  "approval_gate s t = (t = Approved \<or> s = Failed \<and> t = SendingToErp)"

definition unapproved_region :: "inv_status set" where
  "unapproved_region = pre_approval_statuses \<union> {Failed, Done}"

lemma mem_unapproved_region:
  "s \<in> unapproved_region \<longleftrightarrow> s = New \<or> s = Pending \<or> s = ReadyForReview \<or> s = Rejected \<or>
     s = Failed \<or> s = Done"
  by (auto simp: unapproved_region_def status_group_defs)

interpretation approval: gated_machine valid_transitions approval_gate unapproved_region
proof
  fix s t
  assume "s \<in> unapproved_region" "t \<in> valid_transitions s" "\<not> approval_gate s t"
  then show "t \<in> unapproved_region"
    by (cases s) (auto simp: mem_unapproved_region approval_gate_def)
qed

text \<open>
  The life of an invoice: transitions through \<open>transition_invoice\<close>, with any other edits of
  the row and any other audit rows in between.
\<close>

inductive lifecycle :: "invoice \<Rightarrow> effects \<Rightarrow> invoice \<Rightarrow> effects \<Rightarrow> bool"
  for iv0 :: invoice and fx0 :: effects where
  start: "lifecycle iv0 fx0 iv0 fx0"
| transition: "lifecycle iv0 fx0 iv fx \<Longrightarrow>
     transition_invoice o1 m a n d t iv fx = Inr (iv', fx') \<Longrightarrow> lifecycle iv0 fx0 iv' fx'"
| other: "lifecycle iv0 fx0 iv fx \<Longrightarrow> inv_status iv' = inv_status iv \<Longrightarrow>
     fx_audit fx' = fx_audit fx @ rows \<Longrightarrow> lifecycle iv0 fx0 iv' fx'"

definition records_edge :: "audit_row \<Rightarrow> inv_status \<Rightarrow> inv_status \<Rightarrow> bool" where
  "records_edge r s t =
     ((''old_status'', PStr (status_value s)) \<in> set (au_details r) \<and>
      (''new_status'', PStr (status_value t)) \<in> set (au_details r))"

lemma lifecycle_trail:
  assumes "lifecycle iv0 fx0 iv fx"
  shows "\<exists>ss rows. is_run valid_transitions ss \<and> ss \<noteq> [] \<and> hd ss = inv_status iv0 \<and>
    last ss = inv_status iv \<and> fx_audit fx = fx_audit fx0 @ rows \<and>
    (\<forall>i. Suc i < length ss \<longrightarrow> (\<exists>r \<in> set rows. records_edge r (ss ! i) (ss ! Suc i)))"
  using assms
proof induction
  case start
  show ?case
    by (rule exI [of _ "[inv_status iv0]"]) (simp add: is_run_def)
next
  case (transition iv fx o1 m a n d t iv' fx')
  then obtain ss rows where ss: "is_run valid_transitions ss" "ss \<noteq> []" "hd ss = inv_status iv0"
    "last ss = inv_status iv" "fx_audit fx = fx_audit fx0 @ rows"
    "\<And>i. Suc i < length ss \<Longrightarrow> \<exists>r \<in> set rows. records_edge r (ss ! i) (ss ! Suc i)"
    by blast
  obtain r where t: "t \<in> valid_transitions (last ss)" "iv' = iv\<lparr>inv_status := t\<rparr>"
    "fx_audit fx' = fx_audit fx @ [r]" "records_edge r (last ss) t"
    using transition.hyps(2) ss(4)
    by (elim transition_invoice_InrE) (auto simp: records_edge_def)
  have "is_run valid_transitions (ss @ [t])"
    using ss(1,2) t(1) by (auto simp: is_run_def nth_append last_conv_nth less_Suc_eq)
      (metis One_nat_def diff_Suc_1 less_Suc_eq not_less_eq)+
  moreover have "\<exists>r' \<in> set (rows @ [r]). records_edge r' ((ss @ [t]) ! i) ((ss @ [t]) ! Suc i)"
    if "Suc i < length (ss @ [t])" for i
  proof (cases "Suc i < length ss")
    case True
    then show ?thesis using ss(6) [of i] by (auto simp: nth_append)
  next
    case False
    with that have "i = length ss - 1" by simp
    with ss(2) t(4) show ?thesis by (auto simp: nth_append last_conv_nth)
  qed
  ultimately show ?case
    using ss t by (intro exI [of _ "ss @ [t]"] exI [of _ "rows @ [r]"]) auto
next
  case (other iv fx iv' fx' rows)
  then show ?case
    by (metis (no_types, lifting) UnCI append.assoc set_append)
qed

text \<open>
  Property C7. An invoice that starts before approval and is later found approved, sent to
  or posted in the ERP, scheduled for payment or paid has in its audit trail a transition
  into \<open>approved\<close>, or the retry edge from \<open>failed\<close> to \<open>sending_to_erp\<close>: no other path of the
  state machine leads there.
\<close>

theorem lifecycle_approval_recorded:
  assumes "lifecycle iv0 fx0 iv fx"
    and "inv_status iv0 \<in> pre_approval_statuses"
    and "inv_status iv \<in> set open_ap_statuses \<union> {Paid}"
  shows "\<exists>r \<in> set (drop (length (fx_audit fx0)) (fx_audit fx)). \<exists>s.
    records_edge r s Approved \<or> records_edge r Failed SendingToErp"
proof -
  obtain ss rows where ss: "is_run valid_transitions ss" "ss \<noteq> []" "hd ss = inv_status iv0"
    "last ss = inv_status iv" "fx_audit fx = fx_audit fx0 @ rows"
    "\<And>i. Suc i < length ss \<Longrightarrow> \<exists>r \<in> set rows. records_edge r (ss ! i) (ss ! Suc i)"
    using lifecycle_trail [OF assms(1)] by blast
  moreover have "hd ss \<in> unapproved_region" "last ss \<notin> unapproved_region"
    using assms(2,3) ss(3,4) by (auto simp: mem_unapproved_region status_group_defs)
  ultimately obtain i where "Suc i < length ss" "approval_gate (ss ! i) (ss ! Suc i)"
    using approval.run_takes_gate by metis
  with ss show ?thesis
    by (force simp: approval_gate_def)
qed

lemma lifecycle_approval_recorded_witness:
  "\<exists>iv fx. lifecycle sample_invoice no_effects iv fx \<and> inv_status iv = PaymentScheduled \<and>
     (\<exists>r \<in> set (drop (length (fx_audit no_effects)) (fx_audit fx)). \<exists>s.
       records_edge r s Approved \<or> records_edge r Failed SendingToErp)"
proof -
  obtain iv1 fx1 where 1: "transition_invoice ''o1'' None (Some ''u-mgr'') ''invoice.approved'' []
      Approved sample_invoice no_effects = Inr (iv1, fx1)" and s1: "inv_status iv1 = Approved"
    by (simp add: transition_invoice_def validate_transition_def Let_def sample_invoice_def)
  obtain iv2 fx2 where 2: "transition_invoice ''o2'' None None ''payment.scheduled'' []
      PaymentScheduled iv1 fx1 = Inr (iv2, fx2)" and s2: "inv_status iv2 = PaymentScheduled"
    using s1 by (simp add: transition_invoice_def validate_transition_def Let_def)
  have l: "lifecycle sample_invoice no_effects iv2 fx2"
    by (rule lifecycle.transition [OF lifecycle.transition [OF lifecycle.start 1] 2])
  show ?thesis
    using lifecycle_approval_recorded [OF l] l s2
    by (auto simp: sample_invoice_def status_group_defs)
qed


lemma advance_workflow_opens_next_witness:
  "\<exists>i'. advance_workflow 5 (Some ''erp_push'') ''approved'' None
     \<lparr>wi_current_step = 1, wi_state = ''active'', wi_state_data = None :: unit option,
      wi_snapshot = (None :: unit steps_config),
      wi_steps = [\<lparr>ws_number = 2, ws_type = ''approval'', ws_assigned_to = None,
        ws_original_assigned_to = None, ws_action = None, ws_completed_at = None,
        ws_created_at = 1\<rparr>]\<rparr> = Inr i'
     \<and> (\<exists>s. open_steps (wi_steps i') = [s] \<and> ws_type s = ''erp_export'')"
  (is "\<exists>i'. advance_workflow _ _ _ _ ?i = _ \<and> _")
proof -
  have r: "resolve_step_type (Some ''erp_push'') = ''erp_export''"
    by (simp add: resolve_step_type_def step_type_aliases_def)
  have "length (open_steps (wi_steps ?i)) \<le> 1"
    by (simp add: open_steps_def)
  note spec = advance_workflow_opens_next [OF this, where now = 5 and t = "Some ''erp_push''"
      and act = "''approved''" and who = None, unfolded r]
  show ?thesis
  proof (cases "advance_workflow 5 (Some ''erp_push'') ''approved'' None ?i")
    case (Inl e)
    with spec show ?thesis by (simp add: canonical_step_types_def)
  next
    case (Inr i')
    with spec show ?thesis by (simp only: sum.case) blast
  qed
qed

section \<open>Which definition governs an invoice\<close>

lemma first_definition_None_iff:
  "first_definition ds org p = None \<longleftrightarrow> (\<forall>d \<in> set ds. \<not> (wd_org d = org \<and> wd_active d \<and> p d))"
proof -
  let ?c = "filter (\<lambda>d. wd_org d = org \<and> wd_active d \<and> p d) ds"
  have "first_definition ds org p = None \<longleftrightarrow> ?c = []"
    by (simp add: first_definition_def split: list.split)
  then show ?thesis
    by (simp add: filter_empty_conv)
qed

lemma first_definition_SomeD:
  assumes "first_definition ds org p = Some d"
  shows "d \<in> set ds \<and> wd_org d = org \<and> wd_active d \<and> p d \<and>
    (\<forall>d' \<in> set ds. wd_org d' = org \<and> wd_active d' \<and> p d' \<longrightarrow>
       (\<not> wd_default d, wd_created_at d) \<le> (\<not> wd_default d', wd_created_at d'))"
proof -
  let ?k = "\<lambda>d. (\<not> wd_default d, wd_created_at d)"
  let ?c = "filter (\<lambda>d. wd_org d = org \<and> wd_active d \<and> p d) ds"
  obtain x xs where c: "?c = x # xs" and d: "d = min_by ?k x xs"
    using assms by (auto simp: first_definition_def split: list.splits)
  then have s: "set ?c = insert x (set xs)"
    by simp
  have "d \<in> set ?c"
    unfolding s d by (rule min_by_mem)
  moreover have "?k d \<le> ?k d'" if "d' \<in> set ?c" for d'
    using that unfolding s d by (rule min_by_le)
  ultimately show ?thesis
    by auto
qed

definition live_definition :: "uid \<Rightarrow> 'c wf_definition \<Rightarrow> bool" where
  "live_definition org d = (wd_org d = org \<and> wd_active d)"

text \<open>The documented precedence: the entity's own, else shared, else any.\<close>

definition definition_scope ::
  "'c wf_definition list \<Rightarrow> uid \<Rightarrow> uid option \<Rightarrow> 'c wf_definition \<Rightarrow> bool" where
  "definition_scope ds org ent d =
     (if ent \<noteq> None \<and> (\<exists>x \<in> set ds. live_definition org x \<and> wd_entity x = ent)
      then wd_entity d = ent
      else if ent \<noteq> None \<and> (\<exists>x \<in> set ds. live_definition org x \<and> wd_entity x = None)
      then wd_entity d = None
      else True)"

lemma first_definition_exists:
  "x \<in> set ds \<Longrightarrow> live_definition org x \<Longrightarrow> p x \<Longrightarrow> \<exists>d. first_definition ds org p = Some d"
  using first_definition_None_iff [of ds org p] by (auto simp: live_definition_def)

lemma first_definition_none:
  "\<not> (\<exists>x \<in> set ds. live_definition org x \<and> p x) \<Longrightarrow> first_definition ds org p = None"
  using first_definition_None_iff [of ds org p] by (auto simp: live_definition_def)

lemma resolve_active_first:
  "resolve_active_workflow_definition ds org ent =
     first_definition ds org (definition_scope ds org ent)"
proof (cases ent)
  case None
  then show ?thesis
    by (simp add: resolve_active_workflow_definition_def definition_scope_def [abs_def])
next
  case (Some e)
  consider (own) x where "x \<in> set ds" "live_definition org x" "wd_entity x = ent"
    | (shared) x where "x \<in> set ds" "live_definition org x" "wd_entity x = None"
        "\<not> (\<exists>x \<in> set ds. live_definition org x \<and> wd_entity x = ent)"
    | (neither) "\<not> (\<exists>x \<in> set ds. live_definition org x \<and> wd_entity x = ent)"
        "\<not> (\<exists>x \<in> set ds. live_definition org x \<and> wd_entity x = None)"
    by blast
  then show ?thesis
  proof cases
    case own
    then have "definition_scope ds org ent = (\<lambda>d. wd_entity d = ent)"
      using Some by (auto simp: definition_scope_def fun_eq_iff)
    with own Some first_definition_exists [of x ds org "\<lambda>d. wd_entity d = ent"] show ?thesis
      by (auto simp: resolve_active_workflow_definition_def)
  next
    case shared
    then have "definition_scope ds org ent = (\<lambda>d. wd_entity d = None)"
      using Some by (auto simp: definition_scope_def fun_eq_iff)
    with shared Some first_definition_none [OF shared(4)]
      first_definition_exists [of x ds org "\<lambda>d. wd_entity d = None"] show ?thesis
      by (auto simp: resolve_active_workflow_definition_def)
  next
    case neither
    then have "definition_scope ds org ent = (\<lambda>_. True)"
      by (auto simp: definition_scope_def fun_eq_iff)
    with neither Some first_definition_none [OF neither(1)] first_definition_none [OF neither(2)]
    show ?thesis
      by (simp add: resolve_active_workflow_definition_def)
  qed
qed

lemma definition_scope_inhabited:
  assumes "x \<in> set ds" and "live_definition org x"
  shows "\<exists>y \<in> set ds. live_definition org y \<and> definition_scope ds org ent y"
proof (cases "ent \<noteq> None \<and> (\<exists>x \<in> set ds. live_definition org x \<and> wd_entity x = ent)")
  case True
  then show ?thesis by (auto simp: definition_scope_def)
next
  case False
  note F = this
  show ?thesis
  proof (cases "ent \<noteq> None \<and> (\<exists>x \<in> set ds. live_definition org x \<and> wd_entity x = None)")
    case True
    then obtain y where y: "y \<in> set ds" "live_definition org y" "wd_entity y = None"
      by blast
    have "definition_scope ds org ent y"
      unfolding definition_scope_def if_not_P [OF F] if_P [OF True] by (rule y(3))
    with y show ?thesis by blast
  next
    case False
    have "definition_scope ds org ent x"
      unfolding definition_scope_def if_not_P [OF F] if_not_P [OF False] by (rule TrueI)
    with assms show ?thesis by blast
  qed
qed

text \<open>
  The definition that governs a new invoice is an active one of its
  organisation: the invoice's own entity's when that entity has one, else a shared one when
  there is one, else any; within that scope the explicit default first, then the oldest.
  A row is minted only when the organisation has no active definition at all.
\<close>

theorem get_or_create_definition_spec:
  "case get_or_create_workflow_definition fallback fresh now ds org ent of (ds', d) \<Rightarrow>
     if \<exists>x \<in> set ds. live_definition org x
     then ds' = ds \<and> d \<in> set ds \<and> live_definition org d \<and> definition_scope ds org ent d \<and>
          (\<forall>x \<in> set ds. live_definition org x \<and> definition_scope ds org ent x \<longrightarrow>
             (\<not> wd_default d, wd_created_at d) \<le> (\<not> wd_default x, wd_created_at x))
     else ds' = ds @ [d] \<and> live_definition org d \<and> wd_entity d = None \<and> wd_default d \<and>
          wd_steps d = fallback"
proof (cases "first_definition ds org (definition_scope ds org ent)")
  case None
  have "\<not> live_definition org x" if x: "x \<in> set ds" for x
  proof
    assume l: "live_definition org x"
    have "\<exists>y \<in> set ds. live_definition org y \<and> definition_scope ds org ent y"
      by (rule definition_scope_inhabited [OF x l])
    then show False
      using None first_definition_exists [of _ ds org "definition_scope ds org ent"] by auto
  qed
  with None show ?thesis
    by (auto simp: get_or_create_workflow_definition_def resolve_active_first Let_def
        live_definition_def)
next
  case (Some d)
  from first_definition_SomeD [OF this] Some show ?thesis
    by (auto simp: get_or_create_workflow_definition_def resolve_active_first live_definition_def)
qed

lemma get_or_create_definition_spec_witness:
  "\<exists>ds' d. get_or_create_workflow_definition (None :: unit steps_config) ''f'' 9
     [\<lparr>wd_id = ''d1'', wd_org = ''o'', wd_entity = None, wd_active = True, wd_default = True,
       wd_created_at = 0, wd_steps = None\<rparr>,
      \<lparr>wd_id = ''d2'', wd_org = ''o'', wd_entity = Some ''e'', wd_active = True, wd_default = False,
       wd_created_at = 5, wd_steps = None\<rparr>] ''o'' (Some ''e'') = (ds', d) \<and>
     length ds' = 2 \<and> wd_entity d = Some ''e''"
  (is "\<exists>ds' d. get_or_create_workflow_definition ?f _ _ ?ds _ _ = _ \<and> _")
proof -
  have "\<exists>x \<in> set ?ds. live_definition ''o'' x"
    by (simp add: live_definition_def)
  moreover obtain ds' d where g: "get_or_create_workflow_definition ?f ''f'' 9 ?ds ''o'' (Some ''e'') = (ds', d)"
    by fastforce
  ultimately have "ds' = ?ds" "definition_scope ?ds ''o'' (Some ''e'') d"
    using get_or_create_definition_spec [where fallback = ?f and fresh = "''f''" and now = 9 and ds = ?ds
        and org = "''o''" and ent = "Some ''e''"]
    by simp_all
  then show ?thesis
    using g by (simp add: definition_scope_def live_definition_def)
qed

end
