(* ===== verification/CurrencyLock.thy ===== *)
theory CurrencyLock
  imports Invoices
begin

text \<open>
  The currency an amount is measured in: the resolution of the organisation's reporting and
  home currency (\<open>services/currency_conversion.py\<close>, \<open>services/international_payments.py\<close>) and
  the FX lock persisted on the invoice row, which every money control prices amounts at.

  The FX provider is an argument: \<open>None\<close> when there is none, otherwise a function from a
  pair of codes to a rate and its instant, or to the exception it raised. The organisation's
  settings are the JSON object they are stored as. A \<open>Decimal\<close> operation that overflows the
  28 digits of the context raises \<open>InvalidOperation\<close>.
\<close>

section \<open>Money\<close>

definition quantize_money :: "rat \<Rightarrow> exc + rat" where
  "quantize_money r = (case quantize 2 r of None \<Rightarrow> Inl (PyError InvalidOperation) | Some q \<Rightarrow> Inr q)"

text \<open>\<open>fx_rate.quantize(Decimal("0.00000001"))\<close>, under the context's half-even rounding.\<close>

definition quantize_rate :: "rat \<Rightarrow> exc + rat" where
  "quantize_rate r =
     (let n = round_half_even (r * 10 ^ 8)
      in if \<bar>n\<bar> < 10 ^ 28 then Inr (of_int n / 10 ^ 8) else Inl (PyError InvalidOperation))"

section \<open>Currency codes\<close>

text \<open>\<open>a or b\<close> on an optional string.\<close>

definition or_str :: "string option \<Rightarrow> string \<Rightarrow> string" where
  "or_str s d = (case s of None \<Rightarrow> d | Some t \<Rightarrow> if t = [] then d else t)"

definition normalize_currency_code :: "pyval \<Rightarrow> string option" where
  "normalize_currency_code v = (case v of
       PStr s \<Rightarrow> (let t = py_upper (py_strip s) in if t = [] then None else Some t)
     | _ \<Rightarrow> None)"

definition configured_home_currency :: "pyval \<Rightarrow> string option" where
  "configured_home_currency org_settings = (case org_settings of
       PDict s \<Rightarrow> (case pget s ''payments'' of
           PDict p \<Rightarrow> normalize_currency_code (pget p ''home_currency'')
         | _ \<Rightarrow> None)
     | _ \<Rightarrow> None)"

definition default_home_currency :: string where
  "default_home_currency = ''USD''"

definition resolve_home_currency :: "pyval \<Rightarrow> string" where
  "resolve_home_currency org_settings = or_str (configured_home_currency org_settings) default_home_currency"

text \<open>\<open>(v or {}).get(k)\<close>: an attribute error unless \<open>v\<close> is falsy or an object.\<close>

definition get_or_empty :: "pyval \<Rightarrow> string \<Rightarrow> exc + pyval" where
  "get_or_empty v k =
     (if \<not> py_truthy v then Inr PNone
      else case v of PDict d \<Rightarrow> Inr (pget d k) | _ \<Rightarrow> Inl (PyError AttributeError))"

fun first_code :: "pyval list \<Rightarrow> string" where
  "first_code [] = ''USD''"
| "first_code (PStr s # cs) = (if py_strip s \<noteq> [] then py_upper (py_strip s) else first_code cs)"
| "first_code (_ # cs) = first_code cs"

text \<open>\<open>platform_default\<close> is \<open>settings.reporting_currency_default\<close>.\<close>

definition resolve_reporting_currency :: "string \<Rightarrow> pyval \<Rightarrow> exc + string" where
  "resolve_reporting_currency platform_default org_settings =
     bind_res (get_or_empty org_settings ''reporting_currency'') (\<lambda>c1.
     bind_res (get_or_empty org_settings ''invoice_defaults'') (\<lambda>d.
     bind_res (get_or_empty d ''currency'') (\<lambda>c3.
       Inr (first_code [c1,
              (case configured_home_currency org_settings of None \<Rightarrow> PNone | Some h \<Rightarrow> PStr h),
              c3, PStr platform_default]))))"

section \<open>Conversion\<close>

type_synonym fx_source = "string \<Rightarrow> string \<Rightarrow> exc + rat \<times> stamp"

record converted_amount =
  ca_amount :: rat
  ca_source_currency :: string
  ca_reporting_currency :: string
  ca_fx_rate :: rat
  ca_as_of :: stamp

definition convert_amount ::
  "stamp \<Rightarrow> fx_source option \<Rightarrow> rat \<Rightarrow> string option \<Rightarrow> string \<Rightarrow> exc + converted_amount" where
  "convert_amount now fx_adapter amt source_currency rc =
     (let src = py_upper (or_str source_currency rc); tgt = py_upper rc
      in if src = tgt then
           bind_res (quantize_money amt) (\<lambda>q.
             Inr \<lparr>ca_amount = q, ca_source_currency = src, ca_reporting_currency = tgt,
                  ca_fx_rate = 1, ca_as_of = now\<rparr>)
         else case fx_adapter of
           None \<Rightarrow> Inl (PyError ValueError)
         | Some get_rate \<Rightarrow>
             bind_res (get_rate src tgt) (\<lambda>(rate, as_of).
               if rate \<le> 0 then Inl (PyError ValueError)
               else bind_res (quantize_money (dmul amt rate)) (\<lambda>q.
                 Inr \<lparr>ca_amount = q, ca_source_currency = src, ca_reporting_currency = tgt,
                      ca_fx_rate = rate, ca_as_of = as_of\<rparr>)))"

section \<open>The lock\<close>

definition lock_pair_matches :: "invoice \<Rightarrow> string \<Rightarrow> string \<Rightarrow> rat \<Rightarrow> bool" where
  "lock_pair_matches iv src tgt rate =
     (case reporting_source_currency iv of
        Some s \<Rightarrow> if s \<noteq> [] then py_upper s = src else (src = tgt) = (rate = 1)
      | None \<Rightarrow> (src = tgt) = (rate = 1))"

text \<open>\<open>Decimal(str(None))\<close> raises when the persisted amount is NULL.\<close>

definition lock_is_self_consistent :: "invoice \<Rightarrow> string \<Rightarrow> exc + bool" where
  "lock_is_self_consistent iv tgt =
     (case reporting_fx_rate iv of
        None \<Rightarrow> Inr False
      | Some rate \<Rightarrow>
          if rate \<le> 0 then Inr False
          else if \<not> lock_pair_matches iv (py_upper (or_str (currency iv) tgt)) tgt rate then Inr False
          else bind_res (quantize_money (dmul (amount iv) rate)) (\<lambda>expected.
            case reporting_amount iv of
              None \<Rightarrow> Inl (PyError InvalidOperation)
            | Some ra \<Rightarrow> bind_res (quantize_money ra) (\<lambda>q. Inr (expected = q))))"

text \<open>The tail of \<open>materialize_reporting_amount\<close>: a fresh rate, stored at eight places.\<close>

definition relock :: "stamp \<Rightarrow> fx_source option \<Rightarrow> string \<Rightarrow> string \<Rightarrow> invoice \<Rightarrow> exc + bool \<times> invoice" where
  "relock now fx_adapter src tgt iv =
     bind_res (convert_amount now fx_adapter (amount iv) (Some src) tgt) (\<lambda>converted.
     bind_res (quantize_rate (ca_fx_rate converted)) (\<lambda>stored_rate.
     bind_res (quantize_money (dmul (amount iv) stored_rate)) (\<lambda>q.
       Inr (True, iv\<lparr>reporting_currency := Some (ca_reporting_currency converted),
                     reporting_amount := Some q,
                     reporting_fx_rate := Some stored_rate,
                     reporting_source_currency := Some (ca_source_currency converted),
                     reporting_fx_locked_at := Some (ca_as_of converted)\<rparr>))))"

definition never_locked :: "string \<Rightarrow> invoice \<Rightarrow> bool" where
  "never_locked tgt iv = (reporting_amount iv = None \<or>
     (case reporting_currency iv of None \<Rightarrow> True | Some c \<Rightarrow> py_upper c \<noteq> tgt))"

definition materialize_reporting_amount ::
  "stamp \<Rightarrow> fx_source option \<Rightarrow> bool \<Rightarrow> string \<Rightarrow> invoice \<Rightarrow> exc + bool \<times> invoice" where
  "materialize_reporting_amount now fx_adapter force rc iv =
     (let tgt = py_upper rc; src = py_upper (or_str (currency iv) tgt)
      in if force \<or> never_locked tgt iv then relock now fx_adapter src tgt iv
         else bind_res (lock_is_self_consistent iv tgt) (\<lambda>ok.
           if ok then Inr (False, iv)
           else case reporting_fx_rate iv of
               None \<Rightarrow> relock now fx_adapter src tgt iv
             | Some rate \<Rightarrow>
                 if 0 < rate \<and> lock_pair_matches iv src tgt rate
                 then bind_res (quantize_money (dmul (amount iv) rate)) (\<lambda>q.
                        Inr (True, iv\<lparr>reporting_amount := Some q\<rparr>))
                 else relock now fx_adapter src tgt iv))"

definition reporting_amount_for_row ::
  "rat \<Rightarrow> string option \<Rightarrow> string \<Rightarrow> string option \<Rightarrow> rat option \<Rightarrow> exc + rat \<times> bool" where
  "reporting_amount_for_row amt cur rc persisted_currency persisted_amount =
     (let tgt = py_upper rc; c = py_upper (or_str cur tgt)
      in case (persisted_amount, persisted_currency) of
           (Some pa, Some pc) \<Rightarrow>
             if py_upper pc = tgt then bind_res (quantize_money pa) (\<lambda>q. Inr (q, False))
             else bind_res (quantize_money amt) (\<lambda>q. Inr (q, c \<noteq> tgt))
         | _ \<Rightarrow> bind_res (quantize_money amt) (\<lambda>q. Inr (q, c \<noteq> tgt)))"

text \<open>\<open>s.strip().upper() == t\<close> of an optional code.\<close>

definition code_is :: "string option \<Rightarrow> string \<Rightarrow> bool" where
  "code_is s t = (case s of None \<Rightarrow> False | Some u \<Rightarrow> py_upper (py_strip u) = t)"

definition reporting_amount_at_locked_rate ::
  "rat \<Rightarrow> string option \<Rightarrow> string \<Rightarrow> string option \<Rightarrow> string option \<Rightarrow> rat option \<Rightarrow>
     exc + rat \<times> bool" where
  "reporting_amount_at_locked_rate amt cur rc persisted_currency persisted_source persisted_rate =
     (let tgt = py_upper (py_strip (or_str (Some rc) ''USD''));
          c = py_upper (py_strip (or_str cur tgt))
      in if c = tgt then bind_res (quantize_money amt) (\<lambda>q. Inr (q, False))
         else case persisted_rate of
             Some rate \<Rightarrow>
               if 0 < rate \<and> code_is persisted_currency tgt \<and> code_is persisted_source c
               then bind_res (quantize_money (dmul amt rate)) (\<lambda>q. Inr (q, False))
               else bind_res (quantize_money amt) (\<lambda>q. Inr (q, True))
           | None \<Rightarrow> bind_res (quantize_money amt) (\<lambda>q. Inr (q, True)))"

section \<open>Lemmas\<close>

lemma round_to_eq: "quantize n r = Some q \<Longrightarrow> has_scale n q \<and> \<bar>q\<bar> * 10 ^ n < 10 ^ 28"
proof -
  assume q: "quantize n r = Some q"
  then have b: "\<bar>round_half_up (r * 10 ^ n)\<bar> < 10 ^ 28" and e: "q = round_to n r"
    by (auto simp: quantize_def split: if_splits)
  from e have "\<bar>q\<bar> * 10 ^ n = of_int \<bar>round_half_up (r * 10 ^ n)\<bar>"
    by (simp add: round_to_def power_abs)
  also have "\<dots> < of_int (10 ^ 28)"
    using b by (simp only: of_int_less_iff)
  finally show ?thesis
    using e has_scale_round_to by simp
qed

lemma quantize_money_idem: "quantize_money r = Inr q \<Longrightarrow> quantize_money q = Inr q"
  using round_to_eq [of 2 r q] quantize_scaled [of 2 q]
  by (auto simp: quantize_money_def split: option.splits)

lemma quantize_money_mono:
  "quantize_money r = Inr q \<Longrightarrow> quantize_money s = Inr p \<Longrightarrow> r \<le> s \<Longrightarrow> q \<le> p"
  by (auto simp: quantize_money_def dest!: quantize_Some_D intro: round_to_mono split: option.splits)

lemma quantize_money_col: "money_col r \<Longrightarrow> quantize_money r = Inr r"
  by (simp add: quantize_money_def quantize_money)

lemma dmul_one: "money_col r \<Longrightarrow> dmul r 1 = r"
proof -
  assume "money_col r"
  then obtain i where "r = of_int i / 10 ^ 2" "\<bar>i\<bar> < 10 ^ 15"
    by (rule money_colE)
  then show ?thesis
    unfolding dmul_def using ctx_exact [of r i 2] by simp
qed

lemma quantize_rate_one: "quantize_rate 1 = Inr 1"
proof -
  have "round_half_even (10 ^ 8) = (10 ^ 8 :: int)"
    by (metis of_int_numeral of_int_power round_half_even_of_int)
  then show ?thesis
    by (simp add: quantize_rate_def)
qed

lemma or_str_simps [simp]:
  "or_str None d = d" "or_str (Some []) d = d" "s \<noteq> [] \<Longrightarrow> or_str (Some s) d = s"
  by (simp_all add: or_str_def)

lemma or_str_upper: "py_upper (or_str (Some (py_upper s)) t) = (if s = [] then py_upper t else py_upper s)"
  by (cases s) (auto simp: or_str_def)

text \<open>What a fresh lock holds.\<close>

definition fresh_lock :: "string \<Rightarrow> invoice \<Rightarrow> invoice \<Rightarrow> bool" where
  "fresh_lock rc iv iv' =
     (\<exists>rate q t. quantize_money (dmul (amount iv) rate) = Inr q \<and>
        iv' = iv\<lparr>reporting_currency := Some (py_upper rc), reporting_amount := Some q,
                 reporting_fx_rate := Some rate,
                 reporting_source_currency := Some (py_upper (or_str (currency iv) (py_upper rc))),
                 reporting_fx_locked_at := Some t\<rparr> \<and>
        (py_upper (or_str (currency iv) (py_upper rc)) = py_upper rc \<longrightarrow> rate = 1))"

lemma convert_amountE:
  assumes "convert_amount now fx amt (Some src) tgt = Inr c"
  obtains "ca_reporting_currency c = py_upper tgt"
    and "ca_source_currency c = py_upper (or_str (Some src) tgt)"
    and "py_upper (or_str (Some src) tgt) = py_upper tgt \<longrightarrow> ca_fx_rate c = 1"
  using assms by (auto simp: convert_amount_def Let_def bind_res_Inr_iff split: if_splits option.splits)

lemma relock_fresh:
  assumes "relock now fx (py_upper (or_str (currency iv) (py_upper rc))) (py_upper rc) iv = Inr (b, iv')"
  shows "fresh_lock rc iv iv' \<and> b"
proof -
  let ?src = "py_upper (or_str (currency iv) (py_upper rc))" and ?tgt = "py_upper rc"
  obtain c r q where c: "convert_amount now fx (amount iv) (Some ?src) ?tgt = Inr c"
    and r: "quantize_rate (ca_fx_rate c) = Inr r" and q: "quantize_money (dmul (amount iv) r) = Inr q"
    and e: "iv' = iv\<lparr>reporting_currency := Some (ca_reporting_currency c),
        reporting_amount := Some q, reporting_fx_rate := Some r,
        reporting_source_currency := Some (ca_source_currency c),
        reporting_fx_locked_at := Some (ca_as_of c)\<rparr>" and b: b
    using assms unfolding relock_def bind_res_Inr_iff by blast
  have s: "py_upper (or_str (Some ?src) ?tgt) = ?src"
    by (cases "or_str (currency iv) ?tgt = []") (auto simp: or_str_upper or_str_def split: option.splits if_splits)
  from c have "ca_reporting_currency c = ?tgt" "ca_source_currency c = ?src"
    "?src = ?tgt \<longrightarrow> ca_fx_rate c = 1"
    using convert_amountE [of now fx "amount iv" ?src ?tgt c] by (simp_all only: s py_upper_idem) metis+
  moreover from this r have "?src = ?tgt \<longrightarrow> r = 1"
    by (auto simp: quantize_rate_one)
  ultimately show ?thesis
    using q b unfolding fresh_lock_def e by metis
qed

lemma materialize_cases:
  assumes "materialize_reporting_amount now fx force rc iv = Inr (b, iv')"
  obtains (kept) "lock_is_self_consistent iv (py_upper rc) = Inr True" "iv' = iv" "\<not> b"
      "\<not> never_locked (py_upper rc) iv"
  | (rescaled) rate q where "reporting_fx_rate iv = Some rate" "0 < rate"
      "lock_pair_matches iv (py_upper (or_str (currency iv) (py_upper rc))) (py_upper rc) rate"
      "quantize_money (dmul (amount iv) rate) = Inr q"
      "iv' = iv\<lparr>reporting_amount := Some q\<rparr>" b "\<not> never_locked (py_upper rc) iv"
  | (relocked) "fresh_lock rc iv iv'" b
proof -
  let ?tgt = "py_upper rc" and ?src = "py_upper (or_str (currency iv) (py_upper rc))"
  show thesis
  proof (cases "force \<or> never_locked ?tgt iv")
    case True
    with assms have "relock now fx ?src ?tgt iv = Inr (b, iv')"
      by (simp add: materialize_reporting_amount_def Let_def)
    from relock_fresh [OF this] show thesis
      using relocked by blast
  next
    case False
    with assms obtain ok where ok: "lock_is_self_consistent iv ?tgt = Inr ok"
      by (cases "lock_is_self_consistent iv ?tgt")
        (simp_all add: materialize_reporting_amount_def Let_def)
    show thesis
    proof (cases ok)
      case True
      with assms False ok have "iv' = iv" "\<not> b"
        by (simp_all add: materialize_reporting_amount_def Let_def)
      with ok True False show thesis
        by (intro kept) auto
    next
      case nok: False
      consider (re) "relock now fx ?src ?tgt iv = Inr (b, iv')"
        | (sc) rate where "reporting_fx_rate iv = Some rate" "0 < rate" "lock_pair_matches iv ?src ?tgt rate"
            "bind_res (quantize_money (dmul (amount iv) rate)) (\<lambda>q. Inr (True, iv\<lparr>reporting_amount := Some q\<rparr>))
               = Inr (b, iv')"
        using assms False nok ok
        by (simp add: materialize_reporting_amount_def Let_def split: option.splits if_splits)
      then show thesis
      proof cases
        case re
        from relock_fresh [OF this] show thesis
          using relocked by blast
      next
        case sc
        from sc(4) obtain q where "quantize_money (dmul (amount iv) rate) = Inr q"
          "iv' = iv\<lparr>reporting_amount := Some q\<rparr>" b
          by (auto simp: bind_res_Inr_iff)
        with sc False show thesis
          by (intro rescaled) auto
      qed
    qed
  qed
qed

section \<open>Properties\<close>

lemma self_consistentI:
  assumes "reporting_fx_rate iv = Some rate" and "0 < rate"
    and "lock_pair_matches iv (py_upper (or_str (currency iv) tgt)) tgt rate"
    and "quantize_money (dmul (amount iv) rate) = Inr q" and "reporting_amount iv = Some q"
  shows "lock_is_self_consistent iv tgt = Inr True"
  using assms quantize_money_idem [OF assms(4)] by (simp add: lock_is_self_consistent_def)

text \<open>
  A locked conversion is stable: once \<open>materialize_reporting_amount\<close> has left a
  positive stored rate on a row, running it again, whatever the FX provider now says and
  even with none, changes nothing and reports that it changed nothing.
\<close>

theorem materialize_stable:
  assumes "materialize_reporting_amount now fx force rc iv = Inr (b, iv')"
    and "reporting_fx_rate iv' = Some r" and "0 < r"
  shows "materialize_reporting_amount later other False rc iv' = Inr (False, iv')"
  using assms(1)
proof (cases rule: materialize_cases)
  case kept
  then show ?thesis
    by (simp add: materialize_reporting_amount_def Let_def)
next
  case (rescaled rate q)
  then have "lock_is_self_consistent iv' (py_upper rc) = Inr True"
    by (intro self_consistentI [of _ rate _ q]) (auto simp: lock_pair_matches_def)
  moreover have "\<not> never_locked (py_upper rc) iv'"
    using rescaled by (simp add: never_locked_def)
  ultimately show ?thesis
    by (simp add: materialize_reporting_amount_def Let_def)
next
  case relocked
  then obtain rate q t where
    q: "quantize_money (dmul (amount iv) rate) = Inr q" and
    iv': "iv' = iv\<lparr>reporting_currency := Some (py_upper rc), reporting_amount := Some q,
              reporting_fx_rate := Some rate,
              reporting_source_currency := Some (py_upper (or_str (currency iv) (py_upper rc))),
              reporting_fx_locked_at := Some t\<rparr>" and
    one: "py_upper (or_str (currency iv) (py_upper rc)) = py_upper rc \<longrightarrow> rate = 1"
    unfolding fresh_lock_def by blast
  from iv' assms(2) have [simp]: "rate = r"
    by simp
  have "lock_pair_matches iv' (py_upper (or_str (currency iv') (py_upper rc))) (py_upper rc) r"
    using one by (auto simp: lock_pair_matches_def iv' or_str_def split: option.splits if_splits)
  then have "lock_is_self_consistent iv' (py_upper rc) = Inr True"
    using q assms(3) by (intro self_consistentI [of _ r _ q]) (simp_all add: iv')
  moreover have "\<not> never_locked (py_upper rc) iv'"
    by (simp add: never_locked_def iv')
  ultimately show ?thesis
    by (simp add: materialize_reporting_amount_def Let_def)
qed

text \<open>An ISO code as a stored row holds it: not blank, trimmed, upper case.\<close>

definition code_normal :: "string \<Rightarrow> bool" where
  "code_normal c = (c \<noteq> [] \<and> py_strip c = c \<and> py_upper c = c)"

text \<open>The price a control puts on the row's own amount.\<close>

definition locked_price :: "string \<Rightarrow> invoice \<Rightarrow> exc + rat \<times> bool" where
  "locked_price rc iv =
     reporting_amount_at_locked_rate (amount iv) (currency iv) rc (reporting_currency iv)
       (reporting_source_currency iv) (reporting_fx_rate iv)"

lemma locked_price_locked:
  assumes "code_normal rc" and "code_normal cur" and "money_col (amount iv)"
    and "currency iv = Some cur" and "reporting_currency iv = Some rc"
    and "reporting_source_currency iv = Some cur" and "reporting_fx_rate iv = Some rate" and "0 < rate"
    and "cur = rc \<longrightarrow> rate = 1"
    and "quantize_money (dmul (amount iv) rate) = Inr q"
  shows "locked_price rc iv = Inr (q, False)"
  using assms
  by (auto simp: locked_price_def reporting_amount_at_locked_rate_def code_normal_def code_is_def
      quantize_money_col dmul_one Let_def)

text \<open>
  What a money control prices an invoice at is the figure its lock states: after
  a fresh lock, and after any correction of the amount alone, the amount at the locked rate
  is the persisted reporting amount and is reported as converted. The re-scaling after the
  correction keeps the rate and asks no FX provider.
\<close>

theorem locked_price_agrees:
  assumes "materialize_reporting_amount now fx True rc iv = Inr (b, iv1)"
    and "code_normal rc" and "currency iv = Some cur" and "code_normal cur"
    and "money_col (amount iv)" and "reporting_fx_rate iv1 = Some rate" and "0 < rate"
    and "money_col x" and "quantize_money (dmul x rate) = Inr y"
  shows "(\<exists>q. reporting_amount iv1 = Some q \<and> locked_price rc iv1 = Inr (q, False)) \<and>
    (\<exists>c iv2. materialize_reporting_amount later None False rc (iv1\<lparr>amount := x\<rparr>) = Inr (c, iv2) \<and>
       reporting_fx_rate iv2 = Some rate \<and> reporting_amount iv2 = Some y \<and>
       locked_price rc iv2 = Inr (y, False))"
proof -
  have up: "py_upper rc = rc" "py_upper cur = cur" "or_str (Some cur) rc = cur"
    using assms(2,4) by (simp_all add: code_normal_def)
  have "relock now fx cur rc iv = Inr (b, iv1)"
    using assms(1,3) by (simp add: materialize_reporting_amount_def Let_def up)
  then have "fresh_lock rc iv iv1"
    using relock_fresh [of now fx iv rc b iv1] by (simp add: up assms(3))
  then obtain r q t where q: "quantize_money (dmul (amount iv) r) = Inr q"
    and iv1: "iv1 = iv\<lparr>reporting_currency := Some rc, reporting_amount := Some q,
                reporting_fx_rate := Some r, reporting_source_currency := Some cur,
                reporting_fx_locked_at := Some t\<rparr>"
    and one: "cur = rc \<longrightarrow> r = 1"
    unfolding fresh_lock_def by (auto simp: up assms(3))
  from iv1 assms(6) have [simp]: "r = rate"
    by simp
  let ?x = "iv1\<lparr>amount := x\<rparr>"
  have "locked_price rc iv1 = Inr (q, False)"
    using assms q one by (intro locked_price_locked [of rc cur _ rate]) (simp_all add: iv1)
  moreover have "\<exists>c iv2. materialize_reporting_amount later None False rc ?x = Inr (c, iv2) \<and>
      iv2 = ?x\<lparr>reporting_amount := Some y\<rparr>"
    using assms(7,9) one quantize_money_idem [OF q]
    by (auto simp: materialize_reporting_amount_def Let_def never_locked_def up iv1 assms(3)
        lock_is_self_consistent_def lock_pair_matches_def)
      (use assms(4) in \<open>simp_all add: code_normal_def\<close>)
  moreover have "locked_price rc (?x\<lparr>reporting_amount := Some y\<rparr>) = Inr (y, False)"
    using assms one by (intro locked_price_locked [of rc cur _ rate]) (simp_all add: iv1)
  ultimately show ?thesis
    by (auto simp: iv1)
qed

section \<open>A concrete lock\<close>

definition gbp_invoice :: invoice where
  "gbp_invoice = sample_invoice\<lparr>currency := Some ''GBP''\<rparr>"

definition gbp_locked :: invoice where
  "gbp_locked = gbp_invoice\<lparr>reporting_currency := Some ''USD'', reporting_amount := Some 1125,
     reporting_fx_rate := Some (5 / 4), reporting_source_currency := Some ''GBP'',
     reporting_fx_locked_at := Some 1\<rparr>"

lemma gbp_lock_run:
  "materialize_reporting_amount 0 (Some (\<lambda>_ _. Inr (5 / 4, 1))) True ''USD'' gbp_invoice
     = Inr (True, gbp_locked)"
  by code_simp

lemma materialize_stable_witness:
  "materialize_reporting_amount 9 None False ''USD'' gbp_locked = Inr (False, gbp_locked)"
  by (rule materialize_stable [OF gbp_lock_run, of "5 / 4"]) (simp_all add: gbp_locked_def)

lemma locked_price_agrees_witness:
  "locked_price ''USD'' gbp_locked = Inr (1125, False) \<and>
   (\<exists>c iv2. materialize_reporting_amount 9 None False ''USD'' (gbp_locked\<lparr>amount := 1000\<rparr>) = Inr (c, iv2) \<and>
      locked_price ''USD'' iv2 = Inr (1250, False))"
proof -
  have "code_normal ''USD''" "code_normal ''GBP''" "money_col 1000" "money_col (amount gbp_invoice)"
    by (code_simp, code_simp, code_simp, code_simp)
  moreover have "quantize_money (dmul 1000 (5 / 4)) = Inr 1250"
    by code_simp
  moreover have "currency gbp_invoice = Some ''GBP''" "reporting_fx_rate gbp_locked = Some (5 / 4)"
    "reporting_amount gbp_locked = Some 1125"
    by (simp_all add: gbp_invoice_def gbp_locked_def)
  ultimately show ?thesis
    using locked_price_agrees [OF gbp_lock_run, where cur = "''GBP''" and rate = "5 / 4" and x = 1000
        and y = 1250 and later = 9]
    by auto
qed

end
