(* ===== verification/ApprovalConfig.thy ===== *)
theory ApprovalConfig
  imports WorkflowEngine CurrencyLock
begin

text \<open>
  The data of the approval step: its configuration (\<open>schemas/workflow.py\<close>,
  \<open>ApprovalStepConfig\<close>, \<open>ApprovalLevelConfig\<close> and \<open>RoutingRule\<close>, as \<open>services/approval_chain.py\<close>
  reads them off the JSON snapshot) and the chain state kept on the workflow instance.

  A key the code reads with \<open>.get\<close> is an option; the keys no validation constrains (money
  thresholds, \<open>require_segregation\<close>, the value of a routing rule) hold any JSON value.
\<close>

section \<open>Configuration\<close>

record routing_rule =
  rr_field :: "string option"
  rr_operator :: "string option"
  rr_value :: pyval

record level_cfg =
  lc_name :: "string option"
  lc_min_amount :: pyval
  lc_max_amount :: pyval
  lc_required_approvals :: "int option"
  lc_approver_ids :: "uid list"
  lc_parallel_mode :: "string option"
  lc_routing_rules :: "routing_rule list"
  lc_escalation_hours :: "int option"
  lc_escalation_to_user_ids :: "uid list"

record approval_config =
  ac_approver_id :: "uid option"
  ac_approver_ids :: "uid list"
  ac_approver_strategy :: "string option"
  ac_require_segregation :: "pyval option"
  ac_max_invoice_amount :: pyval
  ac_require_cfo_above :: pyval
  ac_approval_chain :: "level_cfg list"

text \<open>The empty dict: what a workflow without an approval step configures.\<close>

definition empty_approval_config :: approval_config where
  "empty_approval_config =
     \<lparr>ac_approver_id = None, ac_approver_ids = [], ac_approver_strategy = None,
      ac_require_segregation = None, ac_max_invoice_amount = PNone, ac_require_cfo_above = PNone,
      ac_approval_chain = []\<rparr>"

section \<open>Chain state\<close>

text \<open>An ISO timestamp as stored: an instant, or a string \<open>fromisoformat\<close> refuses.\<close>

datatype iso = Iso stamp | Garbled string

record approval =
  ap_user_id :: uid
  ap_at :: iso

record escalation =
  es_at :: iso
  es_added_user_ids :: "uid list"
  es_after_hours :: int

record level_state =
  ls_level :: nat
  ls_name :: string
  ls_required :: int
  ls_approver_ids :: "uid list"
  ls_approvals :: "approval list"
  ls_parallel_mode :: string
  ls_escalation_hours :: "int option"
  ls_escalation_to_user_ids :: "uid list"
  ls_entered_at :: "iso option"
  ls_escalations :: "escalation list"

record chain_state =
  ch_levels :: "level_state list"
  ch_current_level :: nat
  ch_routing :: "nat list option"

text \<open>
  The \<open>state_data\<close> of an instance: the chain under \<open>CHAIN_STATE_KEY\<close> (absent, null and empty
  are all \<open>None\<close>) and the two counters other operations keep there.
\<close>

record state_data =
  sd_approval_levels :: "chain_state option"
  sd_rejection_count :: "int option"
  sd_erp_retries :: "int option"

definition empty_state_data :: state_data where
  "empty_state_data =
     \<lparr>sd_approval_levels = None, sd_rejection_count = None, sd_erp_retries = None\<rparr>"

text \<open>A step's \<open>config\<close>: the approval step's, or another step's, which is not interpreted here.\<close>

datatype step_config = ApprovalStep approval_config | OtherStep "(string \<times> pyval) list"

type_synonym instance_row = "(step_config, state_data) wf_instance"
type_synonym definition_row = "step_config wf_definition"

definition approval_of :: "step_config option \<Rightarrow> approval_config" where
  "approval_of c = (case c of Some (ApprovalStep a) \<Rightarrow> a | _ \<Rightarrow> empty_approval_config)"

text \<open>\<open>DEFAULT_STEPS_CONFIG\<close>: the fallback is on, single-approver and segregated.\<close>

definition default_steps_config :: "step_config steps_config" where
  "default_steps_config = Some
     [\<lparr>sc_type = Some ''extraction'', sc_enabled = Some False,
       sc_config = Some (OtherStep [(''auto_approve_enabled'', PBool False),
                                    (''auto_approve_threshold'', PFloat (Fin (95 / 100)))])\<rparr>,
      \<lparr>sc_type = Some ''approval'', sc_enabled = Some True,
       sc_config = Some (ApprovalStep (empty_approval_config
         \<lparr>ac_approver_strategy := Some ''manual'', ac_require_segregation := Some (PBool True)\<rparr>))\<rparr>,
      \<lparr>sc_type = Some ''erp_export'', sc_enabled = Some False,
       sc_config = Some (OtherStep [(''erp_system'', PStr ''default''), (''export_format'', PStr ''json''),
                                    (''endpoint_url'', PStr [])])\<rparr>]"

end
