(* ===== verification/Segregation.thy ===== *)
theory Segregation
  imports ApprovalConfig
begin

text \<open>
  Segregation of duties (\<open>services/approval_chain.py\<close>): who is implicated in a payable, who
  recorded the goods receipts it is billed against, and the predicates and checks that
  refuse them. The tables the code queries (purchase orders, goods receipts, users) are
  lists of rows; the clock is an argument.
\<close>

section \<open>The interface\<close>

text \<open>
  A segregation policy: a switch read off the configuration, the set of people the rule
  refuses on a subject, and the predicate the services ask. What every surface relies on
  is proved once here.
\<close>

locale seg_policy =
  fixes enforced :: "'cfg \<Rightarrow> bool"
    and implicated :: "'s \<Rightarrow> uid set"
    and violates :: "'s \<Rightarrow> uid option \<Rightarrow> 'cfg \<Rightarrow> bool"
  assumes violates_iff: "violates s a c \<longleftrightarrow> enforced c \<and> (\<exists>u. a = Some u \<and> u \<in> implicated s)"
begin

lemma opted_out: "\<not> enforced c \<Longrightarrow> \<not> violates s a c"
  by (simp add: violates_iff)

lemma nobody_passes: "\<not> violates s None c"
  by (simp add: violates_iff)

lemma widening: "implicated s \<subseteq> implicated s' \<Longrightarrow> violates s a c \<Longrightarrow> violates s' a c"
  by (auto simp: violates_iff)

lemma refused_set: "enforced c \<Longrightarrow> {u. violates s (Some u) c} = implicated s"
  by (auto simp: violates_iff)

end

section \<open>Who shaped the payable\<close>

definition implicated_actors :: "'x seg_subject_scheme \<Rightarrow> uid set" where
  "implicated_actors s =
     set (case segregation_actor_ids s of None \<Rightarrow> [] | Some xs \<Rightarrow> xs) \<union>
     (case uploaded_by_id s of None \<Rightarrow> {} | Some u \<Rightarrow> {u})"

text \<open>\<open>approval_config.get("require_segregation", True) is not False\<close>.\<close>

definition segregation_on :: "approval_config \<Rightarrow> bool" where
  "segregation_on c = (case ac_require_segregation c of None \<Rightarrow> True | Some v \<Rightarrow> v \<noteq> PBool False)"

definition violates_segregation ::
  "'x seg_subject_scheme \<Rightarrow> uid option \<Rightarrow> approval_config \<Rightarrow> bool" where
  "violates_segregation s actor c =
     (if \<not> segregation_on c then False
      else case actor of None \<Rightarrow> False | Some u \<Rightarrow> u \<in> implicated_actors s)"

definition check_segregation ::
  "'x seg_subject_scheme \<Rightarrow> uid option \<Rightarrow> approval_config \<Rightarrow> exc + unit" where
  "check_segregation s actor c =
     raise_if (violates_segregation s actor c) (HttpError 403 ''approval_segregation'')"

section \<open>Who received the goods\<close>

text \<open>
  \<open>uuid.UUID(s)\<close>: the prefixes \<open>urn:\<close> and \<open>uuid:\<close>, braces and hyphens are dropped, and what is
  left must be 32 hexadecimal digits. The result is the canonical form. The other spellings
  Python's \<open>int(s, 16)\<close> accepts among 32 characters (a sign, \<open>0x\<close>, underscores, white space
  at the ends) are not modelled.
\<close>

fun drop_all :: "string \<Rightarrow> string \<Rightarrow> string" where
  "drop_all p [] = []"
| "drop_all p (c # s) =
     (if p \<noteq> [] \<and> py_startswith (c # s) p then drop_all p (drop (length p - 1) s)
      else c # drop_all p s)"

definition is_hex :: "char \<Rightarrow> bool" where
  "is_hex c = (is_ascii_digit c \<or> (97 \<le> code c \<and> code c \<le> 102) \<or> (65 \<le> code c \<and> code c \<le> 70))"

definition strip_braces :: "string \<Rightarrow> string" where
  "strip_braces s =
     (let b = (\<lambda>c. c = CHR ''{'' \<or> c = CHR ''}'') in rev (dropWhile b (rev (dropWhile b s))))"

definition parse_uuid :: "string \<Rightarrow> uid option" where
  "parse_uuid s =
     (let h = py_lower (filter (\<lambda>c. c \<noteq> CHR ''-'') (strip_braces (drop_all ''uuid:'' (drop_all ''urn:'' s))))
      in if length h = 32 \<and> list_all is_hex h
         then Some (take 8 h @ ''-'' @ take 4 (drop 8 h) @ ''-'' @ take 4 (drop 12 h) @ ''-'' @
                    take 4 (drop 16 h) @ ''-'' @ drop 20 h)
         else None)"

text \<open>\<open>str(v)\<close> where it can spell a UUID: every other value's text holds other characters.\<close>

definition uuid_of_value :: "pyval \<Rightarrow> uid option" where
  "uuid_of_value v = (case v of PStr s \<Rightarrow> parse_uuid s | PInt i \<Rightarrow> parse_uuid (str_int i) | _ \<Rightarrow> None)"

text \<open>\<open>*(v or [])\<close>: the items of an iterable; a number is not one.\<close>

definition unpack_or_empty :: "pyval \<Rightarrow> exc + pyval list" where
  "unpack_or_empty v =
     (if \<not> py_truthy v then Inr []
      else case v of
          PList xs \<Rightarrow> Inr xs
        | PStr s \<Rightarrow> Inr (map (\<lambda>c. PStr [c]) s)
        | PDict d \<Rightarrow> Inr (map (\<lambda>kv. PStr (fst kv)) d)
        | _ \<Rightarrow> Inl (PyError TypeError))"

definition po_ids_in_match :: "pyval \<Rightarrow> exc + uid list" where
  "po_ids_in_match m = (case m of
       PDict d \<Rightarrow> bind_res (unpack_or_empty (pget d ''po_ids'')) (\<lambda>more.
         Inr (List.map_filter uuid_of_value (filter py_truthy (pget d ''po_id'' # more))))
     | _ \<Rightarrow> Inr [])"

record purchase_order =
  po_id :: uid
  po_number_of :: string
  po_entity_id :: "uid option"
  po_vendor_id :: "uid option"

record goods_receipt =
  gr_po_id :: uid
  gr_entity_id :: "uid option"
  gr_recorded_by :: "uid option"
  gr_source :: "string option"
  gr_status :: "string option"

definition cancelled_gr_statuses :: "string list" where
  "cancelled_gr_statuses = [''cancelled'', ''canceled'', ''void'', ''voided'', ''reversed'']"

text \<open>A row of the receipts query: live, hand-entered and with a recorder.\<close>

definition live_manual :: "goods_receipt \<Rightarrow> bool" where
  "live_manual r = (gr_source r = Some ''manual'' \<and> gr_recorded_by r \<noteq> None \<and>
     py_lower (case gr_status r of None \<Rightarrow> [] | Some s \<Rightarrow> s) \<notin> set cancelled_gr_statuses)"

text \<open>The purchase orders an invoice's own reference names, within its entity and vendor.\<close>

definition referenced_pos :: "purchase_order list \<Rightarrow> invoice \<Rightarrow> uid list" where
  "referenced_pos pos iv =
     (case po_number iv of
        None \<Rightarrow> []
      | Some n \<Rightarrow> if n = [] then [] else
          map po_id (filter (\<lambda>p. po_number_of p = n
             \<and> (entity_id iv = None \<or> po_entity_id p = entity_id iv)
             \<and> (vendor_id iv = None \<or> po_vendor_id p = vendor_id iv)) pos))"

definition receipt_recorders ::
  "purchase_order list \<Rightarrow> goods_receipt list \<Rightarrow> invoice \<Rightarrow> exc + uid set" where
  "receipt_recorders pos grs iv =
     bind_res (po_ids_in_match (po_match iv)) (\<lambda>matched.
       let ids = set matched \<union> set (referenced_pos pos iv)
       in Inr (set (List.map_filter gr_recorded_by
            (filter (\<lambda>r. live_manual r \<and> gr_po_id r \<in> ids
               \<and> (entity_id iv = None \<or> gr_entity_id r = entity_id iv)) grs))))"

definition violates_receiving_segregation :: "uid set \<Rightarrow> uid option \<Rightarrow> approval_config \<Rightarrow> bool" where
  "violates_receiving_segregation recorders actor c =
     (if \<not> segregation_on c then False
      else case actor of None \<Rightarrow> False | Some u \<Rightarrow> u \<in> recorders)"

definition check_receiving_segregation :: "uid set \<Rightarrow> uid option \<Rightarrow> approval_config \<Rightarrow> exc + unit" where
  "check_receiving_segregation recorders actor c =
     raise_if (violates_receiving_segregation recorders actor c)
       (HttpError 403 ''approval_segregation_receiver'')"

section \<open>Delegation\<close>

record user =
  us_id :: uid
  us_delegate_to :: "uid option"
  us_delegate_until :: "stamp option"

definition find_user :: "user list \<Rightarrow> uid \<Rightarrow> user option" where
  "find_user us i = List.find (\<lambda>u. us_id u = i) us"

definition resolve_assignee :: "user list \<Rightarrow> stamp \<Rightarrow> uid \<Rightarrow> uid \<times> uid option" where
  "resolve_assignee us now i =
     (case find_user us i of
        None \<Rightarrow> (i, None)
      | Some u \<Rightarrow>
          (case (us_delegate_to u, us_delegate_until u) of
             (Some d, Some t) \<Rightarrow> if now < t then (d, Some i) else (i, None)
           | _ \<Rightarrow> (i, None)))"

section \<open>The policies of the approval step\<close>

interpretation shaping: seg_policy segregation_on implicated_actors violates_segregation
  by unfold_locales (auto simp: violates_segregation_def split: option.splits)

interpretation receiving: seg_policy segregation_on "\<lambda>r. r" violates_receiving_segregation
  by unfold_locales (auto simp: violates_receiving_segregation_def split: option.splits)

lemma check_segregation_passes:
  "check_segregation s a c = Inr u \<longleftrightarrow> \<not> violates_segregation s a c"
  by (simp add: check_segregation_def)

lemma check_receiving_passes:
  "check_receiving_segregation r a c = Inr u \<longleftrightarrow> \<not> violates_receiving_segregation r a c"
  by (simp add: check_receiving_segregation_def)

end
