(* ===== verification/MoneyGates.thy ===== *)
theory MoneyGates
  imports ApprovalConfig
begin

text \<open>
  The money gates of the approval step (\<open>services/approval_chain.py\<close>): the amount as a gate
  sees it, in the currency the thresholds are denominated in, and the fail-closed
  comparison shared by the CFO gate and the maximum-amount gate.
\<close>

section \<open>Amounts and thresholds\<close>

definition to_decimal :: "pyval \<Rightarrow> dec option" where
  "to_decimal v = (case v of PNone \<Rightarrow> None | PDec d \<Rightarrow> Some d | _ \<Rightarrow> decimal_of_str v)"

record gate_amount =
  ga_amount :: dec
  ga_currency :: string
  ga_expressible :: bool

text \<open>A gate operand: an amount already gated, or a bare number in the gate's currency.\<close>

datatype gate_operand = Gated gate_amount | Bare pyval

text \<open>\<open>d or Decimal(0)\<close>.\<close>

definition dec_or_zero :: "dec option \<Rightarrow> dec" where
  "dec_or_zero d = (case d of None \<Rightarrow> Fin 0 | Some x \<Rightarrow> if dec_truthy x then x else Fin 0)"

definition coerce_gate_amount :: "gate_operand \<Rightarrow> gate_amount" where
  "coerce_gate_amount v = (case v of
       Gated g \<Rightarrow> g
     | Bare x \<Rightarrow> \<lparr>ga_amount = dec_or_zero (to_decimal x), ga_currency = [], ga_expressible = True\<rparr>)"

text \<open>
  \<open>amt\<close> is \<open>None\<close> for the invoice's own amount; \<open>platform_default\<close> is the configured default
  reporting currency.
\<close>

definition reporting_gate_amount ::
  "string \<Rightarrow> pyval \<Rightarrow> rat option \<Rightarrow> invoice \<Rightarrow> exc + gate_amount" where
  "reporting_gate_amount platform_default org_settings amt iv =
     bind_res (resolve_reporting_currency platform_default org_settings) (\<lambda>rc.
       let raw = (case amt of None \<Rightarrow> amount iv | Some a \<Rightarrow> a)
       in bind_res (reporting_amount_at_locked_rate raw (currency iv) rc (reporting_currency iv)
            (reporting_source_currency iv) (reporting_fx_rate iv)) (\<lambda>(converted, unconverted).
              Inr \<lparr>ga_amount = Fin converted, ga_currency = rc, ga_expressible = \<not> unconverted\<rparr>))"

definition finite_money_threshold :: "pyval \<Rightarrow> rat option" where
  "finite_money_threshold v = (case to_decimal v of Some (Fin r) \<Rightarrow> Some r | _ \<Rightarrow> None)"

text \<open>\<open>a > b\<close> of two decimals.\<close>

definition dec_gt :: "dec \<Rightarrow> dec \<Rightarrow> exc + bool" where
  "dec_gt a b = (case dec_less b a of None \<Rightarrow> Inl (PyError InvalidOperation) | Some r \<Rightarrow> Inr r)"

definition money_gate_applies :: "pyval \<Rightarrow> gate_operand \<Rightarrow> exc + bool" where
  "money_gate_applies threshold_raw v =
     (if threshold_raw = PNone then Inr False
      else case finite_money_threshold threshold_raw of
          None \<Rightarrow> Inr True
        | Some threshold \<Rightarrow>
            (let g = coerce_gate_amount v
             in if \<not> ga_expressible g then Inr True else dec_gt (ga_amount g) (Fin threshold)))"

definition cfo_gate_applies :: "pyval \<Rightarrow> gate_operand \<Rightarrow> exc + bool" where
  "cfo_gate_applies threshold_raw v = money_gate_applies threshold_raw v"

definition max_amount_gate_applies :: "pyval \<Rightarrow> gate_operand \<Rightarrow> exc + bool" where
  "max_amount_gate_applies threshold_raw v = money_gate_applies threshold_raw v"

section \<open>The contract of a money gate\<close>

locale money_gate =
  fixes applies :: "pyval \<Rightarrow> gate_operand \<Rightarrow> exc + bool"
  assumes unset: "applies PNone v = Inr False"
    and unusable: "t \<noteq> PNone \<Longrightarrow> finite_money_threshold t = None \<Longrightarrow> applies t v = Inr True"
    and unpriceable: "t \<noteq> PNone \<Longrightarrow> \<not> ga_expressible (coerce_gate_amount v) \<Longrightarrow> applies t v = Inr True"
    and compared: "finite_money_threshold t = Some r \<Longrightarrow> ga_expressible (coerce_gate_amount v) \<Longrightarrow>
      ga_amount (coerce_gate_amount v) = Fin x \<Longrightarrow> applies t v = Inr (r < x)"
begin

lemma never_raises:
  assumes "is_finite (ga_amount (coerce_gate_amount v))"
  shows "\<exists>b. applies t v = Inr b"
proof -
  obtain x where x: "ga_amount (coerce_gate_amount v) = Fin x"
    using assms by (auto simp: is_finite_iff)
  consider "t = PNone" | "t \<noteq> PNone" "finite_money_threshold t = None"
    | "t \<noteq> PNone" "\<not> ga_expressible (coerce_gate_amount v)"
    | r where "finite_money_threshold t = Some r" "ga_expressible (coerce_gate_amount v)"
    by fastforce
  then show ?thesis
    by cases (auto simp: unset unusable unpriceable compared x)
qed

text \<open>A gate stays silent for two reasons only: it is not configured, or it was measured.\<close>

lemma silent_only_if:
  assumes "applies t v = Inr False" and "is_finite (ga_amount (coerce_gate_amount v))"
  shows "t = PNone \<or> (\<exists>r x. finite_money_threshold t = Some r \<and>
    ga_expressible (coerce_gate_amount v) \<and> ga_amount (coerce_gate_amount v) = Fin x \<and> x \<le> r)"
proof (cases "t = PNone")
  case False
  obtain x where x: "ga_amount (coerce_gate_amount v) = Fin x"
    using assms(2) by (auto simp: is_finite_iff)
  from False assms(1) obtain r where r: "finite_money_threshold t = Some r"
    using unusable [of t v] by (cases "finite_money_threshold t") auto
  from False assms(1) have e: "ga_expressible (coerce_gate_amount v)"
    using unpriceable [of t v] by auto
  from compared [OF r e x] assms(1) have "x \<le> r"
    by simp
  with r e x show ?thesis
    by blast
qed simp

text \<open>Raising the amount never switches a gate off.\<close>

lemma amount_mono:
  assumes "applies t v = Inr True" and "ga_expressible (coerce_gate_amount v)"
    and "ga_amount (coerce_gate_amount v) = Fin x" and "ga_amount (coerce_gate_amount w) = Fin y"
    and "x \<le> y"
  shows "applies t w = Inr True"
proof (cases "finite_money_threshold t")
  case None
  with assms(1) unset [of v] unusable [of t w] show ?thesis
    by (cases "t = PNone") auto
next
  case (Some r)
  then have "t \<noteq> PNone"
    by (auto simp: finite_money_threshold_def to_decimal_def)
  then show ?thesis
    using compared [OF Some assms(2,3)] compared [OF Some _ assms(4)] unpriceable [of t w] assms(1,5)
    by (cases "ga_expressible (coerce_gate_amount w)") auto
qed

end

interpretation shared_gate: money_gate money_gate_applies
  by unfold_locales
    (auto simp: money_gate_applies_def Let_def dec_gt_def finite_money_threshold_def to_decimal_def
      split: option.splits dec.splits)

interpretation cfo: money_gate cfo_gate_applies
  unfolding cfo_gate_applies_def [abs_def] by (rule shared_gate.money_gate_axioms)

interpretation max_amount: money_gate max_amount_gate_applies
  unfolding max_amount_gate_applies_def [abs_def] by (rule shared_gate.money_gate_axioms)

lemma reporting_gate_amount_finite:
  "reporting_gate_amount d s a iv = Inr g \<Longrightarrow> is_finite (ga_amount g)"
  by (auto simp: reporting_gate_amount_def bind_res_Inr_iff Let_def)

section \<open>Properties\<close>

text \<open>
  An amount priced for a gate: at face value in the gate's own currency, or at a positive
  rate the row locked for exactly this pair of currencies.
\<close>

definition priced_at :: "invoice \<Rightarrow> string \<Rightarrow> rat \<Rightarrow> rat \<Rightarrow> bool" where
  "priced_at iv rc raw x =
     (let tgt = py_upper (py_strip (or_str (Some rc) ''USD''));
          cur = py_upper (py_strip (or_str (currency iv) tgt))
      in if cur = tgt then quantize_money raw = Inr x
         else (case reporting_fx_rate iv of
             None \<Rightarrow> False
           | Some rate \<Rightarrow> 0 < rate \<and> code_is (reporting_currency iv) tgt \<and>
               code_is (reporting_source_currency iv) cur \<and> quantize_money (dmul raw rate) = Inr x))"

lemma reporting_gate_amount_priced:
  assumes "reporting_gate_amount d s a iv = Inr g" and "ga_expressible g" and "ga_amount g = Fin x"
  shows "priced_at iv (ga_currency g) (case a of None \<Rightarrow> amount iv | Some r \<Rightarrow> r) x \<and>
    resolve_reporting_currency d s = Inr (ga_currency g)"
  using assms
  by (cases "reporting_fx_rate iv")
    (auto simp: reporting_gate_amount_def reporting_amount_at_locked_rate_def priced_at_def
      bind_res_Inr_iff Let_def split: if_splits)

text \<open>
  Property C6. Both money gates fail closed on the amount \<open>reporting_gate_amount\<close> builds: they
  never raise, and a gate stays silent only when no threshold is configured or when a usable
  threshold was really compared, in the organisation's reporting currency, with the amount at
  face value or at a rate locked for this very pair of currencies, and not exceeded.
\<close>

theorem gates_fail_closed:
  assumes "reporting_gate_amount d s a iv = Inr g"
    and "gate = cfo_gate_applies \<or> gate = max_amount_gate_applies"
  shows "\<exists>fires. gate t (Gated g) = Inr fires \<and>
    (\<not> fires \<longrightarrow> t = PNone \<or>
      (\<exists>r x. finite_money_threshold t = Some r \<and> x \<le> r \<and>
         priced_at iv (ga_currency g) (case a of None \<Rightarrow> amount iv | Some b \<Rightarrow> b) x))"
proof -
  have f: "is_finite (ga_amount (coerce_gate_amount (Gated g)))"
    using reporting_gate_amount_finite [OF assms(1)] by (simp add: coerce_gate_amount_def)
  from assms(2) obtain b where b: "gate t (Gated g) = Inr b"
    using cfo.never_raises [OF f] max_amount.never_raises [OF f] by metis
  have "t = PNone \<or> (\<exists>r x. finite_money_threshold t = Some r \<and> ga_expressible g \<and>
      ga_amount g = Fin x \<and> x \<le> r)" if "\<not> b"
    using assms(2) b that cfo.silent_only_if [OF _ f, of t] max_amount.silent_only_if [OF _ f, of t]
    by (auto simp: coerce_gate_amount_def)
  with b show ?thesis
    using reporting_gate_amount_priced [OF assms(1)] by blast
qed

lemma gates_fail_closed_witness:
  "\<exists>fires. cfo_gate_applies (PStr ''1,000'') (Gated \<lparr>ga_amount = Fin 1125, ga_currency = ''USD'',
      ga_expressible = True\<rparr>) = Inr fires \<and> fires"
proof -
  have g: "reporting_gate_amount ''USD'' (PDict []) None gbp_locked
    = Inr \<lparr>ga_amount = Fin 1125, ga_currency = ''USD'', ga_expressible = True\<rparr>"
    by code_simp
  have "finite_money_threshold (PStr ''1,000'') = None"
    by code_simp
  with gates_fail_closed [OF g disjI1 [OF refl], of "PStr ''1,000''"] show ?thesis
    by auto
qed

text \<open>
  The gates are monotone in the amount: what fires at an amount that could be
  priced still fires at any larger amount, and at any amount that cannot be priced at all.
\<close>

theorem gates_monotone:
  assumes "gate = cfo_gate_applies \<or> gate = max_amount_gate_applies"
    and "reporting_gate_amount d s (Some a) iv = Inr g" and "reporting_gate_amount d s (Some b) iv = Inr h"
    and "a \<le> b" and "gate t (Gated g) = Inr True"
  shows "gate t (Gated h) = Inr True"
proof (cases "ga_expressible h")
  case False
  have "t \<noteq> PNone"
    using assms(1,5) cfo.unset max_amount.unset by auto
  with False assms(1) show ?thesis
    using cfo.unpriceable [of t "Gated h"] max_amount.unpriceable [of t "Gated h"]
    by (auto simp: coerce_gate_amount_def)
next
  case True
  obtain x y where x: "ga_amount g = Fin x" and y: "ga_amount h = Fin y"
    using reporting_gate_amount_finite assms(2,3) by (metis is_finite_iff)
  have cg: "ga_expressible g"
    using assms(2,3) True
    by (auto simp: reporting_gate_amount_def reporting_amount_at_locked_rate_def bind_res_Inr_iff Let_def
        split: if_splits option.splits)
  have "ga_currency g = ga_currency h"
    using assms(2,3) by (auto simp: reporting_gate_amount_def bind_res_Inr_iff Let_def)
  with reporting_gate_amount_priced [OF assms(2) cg x] reporting_gate_amount_priced [OF assms(3) True y]
  have "x \<le> y"
    using assms(4) quantize_money_mono dmul_mono
    by (auto simp: priced_at_def Let_def split: if_splits option.splits)
  then show ?thesis
    using assms(1,5) cg x y cfo.amount_mono [of t "Gated g" x "Gated h" y]
      max_amount.amount_mono [of t "Gated g" x "Gated h" y]
    by (auto simp: coerce_gate_amount_def)
qed

lemma gates_monotone_witness:
  "cfo_gate_applies (PInt 1000) (Gated \<lparr>ga_amount = Fin 1250, ga_currency = ''USD'',
     ga_expressible = True\<rparr>) = Inr True"
proof -
  have "reporting_gate_amount ''USD'' (PDict []) (Some 900) gbp_locked
      = Inr \<lparr>ga_amount = Fin 1125, ga_currency = ''USD'', ga_expressible = True\<rparr>"
    "reporting_gate_amount ''USD'' (PDict []) (Some 1000) gbp_locked
      = Inr \<lparr>ga_amount = Fin 1250, ga_currency = ''USD'', ga_expressible = True\<rparr>"
    "cfo_gate_applies (PInt 1000) (Gated \<lparr>ga_amount = Fin 1125, ga_currency = ''USD'',
      ga_expressible = True\<rparr>) = Inr True"
    by (code_simp, code_simp, code_simp)
  then show ?thesis
    using gates_monotone [OF disjI1 [OF refl], of "''USD''" "PDict []" 900 gbp_locked _ 1000 _ "PInt 1000"]
    by simp
qed

end
