(* ===== verification/ApprovalChain.thy ===== *)
theory ApprovalChain
  imports Segregation MoneyGates
begin

text \<open>
  The multi-level approval chain (\<open>services/approval_chain.py\<close>): which configured levels apply
  to an invoice, the chain state on the workflow instance, recording an approval, and the
  escalation of a stale level.

  The chain state is the instance's \<open>state_data\<close>; copying it before a mutation, which the
  code does for the database layer's dirty check, is implicit in returning the new value.
  \<open>now\<close> is the clock, \<open>us\<close> the users table.
\<close>

section \<open>Routing\<close>

text \<open>An attribute of the invoice: \<open>None\<close> is Python's \<open>None\<close>.\<close>

type_synonym attrs = "string \<Rightarrow> string option"

definition value_is :: "string option \<Rightarrow> pyval \<Rightarrow> bool" where
  "value_is actual v = (case v of PNone \<Rightarrow> actual = None | PStr s \<Rightarrow> actual = Some s | _ \<Rightarrow> False)"

definition evaluate_routing_rule :: "routing_rule \<Rightarrow> attrs \<Rightarrow> bool" where
  "evaluate_routing_rule rule ra =
     (let actual = (case rr_field rule of None \<Rightarrow> None | Some f \<Rightarrow> if f = [] then None else ra f);
          v = rr_value rule
      in case rr_operator rule of
           Some op \<Rightarrow>
             if op = ''eq'' then value_is actual v
             else if op = ''ne'' then \<not> value_is actual v
             else if op = ''in'' then
               (case v of PList xs \<Rightarrow> list_ex (value_is actual) xs | _ \<Rightarrow> False)
             else if op = ''not_in'' then
               (case v of PList xs \<Rightarrow> \<not> list_ex (value_is actual) xs | _ \<Rightarrow> True)
             else if op = ''starts_with'' then
               (case (actual, v) of
                  (Some a, PStr p) \<Rightarrow> a \<noteq> [] \<and> py_startswith a p
                | _ \<Rightarrow> False)
             else True
         | None \<Rightarrow> True)"

definition level_routing_matches :: "level_cfg \<Rightarrow> attrs \<Rightarrow> bool" where
  "level_routing_matches l ra = list_all (\<lambda>r. evaluate_routing_rule r ra) (lc_routing_rules l)"

definition invoice_routing_attrs :: "invoice \<Rightarrow> attrs" where
  "invoice_routing_attrs iv f =
     (if f = ''gl_account'' then gl_account iv
      else if f = ''cost_center'' then cost_center iv
      else if f = ''department'' then department iv
      else if f = ''vendor_id'' then vendor_id iv
      else None)"

text \<open>One bound of a band: an unset or unparseable bound is no bound; NaN raises.\<close>

definition below_min :: "dec \<Rightarrow> pyval \<Rightarrow> exc + bool" where
  "below_min amt v = (case to_decimal v of None \<Rightarrow> Inr False | Some m \<Rightarrow> dec_gt m amt)"

definition above_max :: "dec \<Rightarrow> pyval \<Rightarrow> exc + bool" where
  "above_max amt v = (case to_decimal v of None \<Rightarrow> Inr False | Some m \<Rightarrow> dec_gt amt m)"

text \<open>Whether a level applies: the body of the loop of \<open>resolve_applicable_levels\<close>.\<close>

definition level_applies :: "gate_amount \<Rightarrow> attrs \<Rightarrow> level_cfg \<Rightarrow> exc + bool" where
  "level_applies g ra l =
     (if ga_expressible g then
        bind_res (below_min (ga_amount g) (lc_min_amount l)) (\<lambda>below.
          if below then Inr False
          else bind_res (above_max (ga_amount g) (lc_max_amount l)) (\<lambda>above.
            if above then Inr False else Inr (level_routing_matches l ra)))
      else Inr (level_routing_matches l ra))"

text \<open>
  The applicable levels with their positions in the configured chain (the code finds the
  positions by object identity). An empty dict of attributes is \<open>\<lambda>_. None\<close>.
\<close>

fun applicable_from :: "nat \<Rightarrow> gate_amount \<Rightarrow> attrs \<Rightarrow> level_cfg list \<Rightarrow> exc + (nat \<times> level_cfg) list" where
  "applicable_from i g ra [] = Inr []"
| "applicable_from i g ra (l # ls) =
     bind_res (level_applies g ra l) (\<lambda>b.
     bind_res (applicable_from (Suc i) g ra ls) (\<lambda>rest.
       Inr (if b then (i, l) # rest else rest)))"

definition resolve_applicable_levels ::
  "level_cfg list \<Rightarrow> gate_operand \<Rightarrow> attrs \<Rightarrow> exc + level_cfg list" where
  "resolve_applicable_levels chain amt ra =
     bind_res (applicable_from 0 (coerce_gate_amount amt) ra chain) (\<lambda>xs. Inr (map snd xs))"

section \<open>Chain state\<close>

definition chain_state_of :: "state_data option \<Rightarrow> chain_state option" where
  "chain_state_of sd = (case sd of None \<Rightarrow> None | Some d \<Rightarrow> sd_approval_levels d)"

definition state_or_empty :: "state_data option \<Rightarrow> state_data" where
  "state_or_empty sd = (case sd of None \<Rightarrow> empty_state_data | Some d \<Rightarrow> d)"

definition clear_chain_state :: "state_data \<Rightarrow> state_data" where
  "clear_chain_state d = d\<lparr>sd_approval_levels := None\<rparr>"

definition level_state_of :: "iso \<Rightarrow> nat \<Rightarrow> level_cfg \<Rightarrow> level_state" where
  "level_state_of entered i l =
     \<lparr>ls_level = i,
      ls_name = (case lc_name l of None \<Rightarrow> ''Level '' @ str_nat (i + 1) | Some n \<Rightarrow> n),
      ls_required = (case lc_required_approvals l of None \<Rightarrow> 1 | Some r \<Rightarrow> r),
      ls_approver_ids = lc_approver_ids l, ls_approvals = [],
      ls_parallel_mode = (case lc_parallel_mode l of None \<Rightarrow> ''any'' | Some m \<Rightarrow> m),
      ls_escalation_hours = lc_escalation_hours l,
      ls_escalation_to_user_ids = lc_escalation_to_user_ids l,
      ls_entered_at = (if i = 0 then Some entered else None), ls_escalations = []\<rparr>"

definition init_chain_state ::
  "stamp \<Rightarrow> stamp option \<Rightarrow> level_cfg list \<Rightarrow> nat list option \<Rightarrow> state_data option \<Rightarrow> state_data" where
  "init_chain_state now entered_at levels routing sd =
     (let entered = Iso (case entered_at of None \<Rightarrow> now | Some t \<Rightarrow> t)
      in (state_or_empty sd)\<lparr>sd_approval_levels := Some
           \<lparr>ch_levels = map (\<lambda>i. level_state_of entered i (levels ! i)) [0..<length levels],
            ch_current_level = 0, ch_routing = routing\<rparr>\<rparr>)"

text \<open>\<open>_route_chain\<close>: \<open>d\<close> is the platform default currency, \<open>s\<close> the organisation's settings.\<close>

definition route_chain ::
  "string \<Rightarrow> pyval \<Rightarrow> approval_config \<Rightarrow> invoice \<Rightarrow> exc + level_cfg list \<times> nat list" where
  "route_chain d s cfg iv =
     bind_res (reporting_gate_amount d s None iv) (\<lambda>g.
     bind_res (applicable_from 0 g (invoice_routing_attrs iv) (ac_approval_chain cfg)) (\<lambda>xs.
       Inr (map snd xs, map fst xs)))"

definition init_chain_for_invoice ::
  "stamp \<Rightarrow> string \<Rightarrow> pyval \<Rightarrow> approval_config \<Rightarrow> stamp option \<Rightarrow> invoice \<Rightarrow> state_data option \<Rightarrow>
     exc + bool \<times> state_data option" where
  "init_chain_for_invoice now d s cfg entered_at iv sd =
     bind_res (route_chain d s cfg iv) (\<lambda>(applicable, routing).
       if applicable = [] then Inr (False, sd)
       else Inr (True, Some (init_chain_state now entered_at applicable (Some routing) sd)))"

text \<open>Levels kept by a re-routing carry their escalated approvers and history over.\<close>

definition carry_level :: "(nat \<times> level_state) list \<Rightarrow> nat \<Rightarrow> level_state \<Rightarrow> level_state" where
  "carry_level old idx l =
     (case map_of (rev old) idx of
        None \<Rightarrow> l
      | Some p \<Rightarrow> l\<lparr>ls_approver_ids := ls_approver_ids p, ls_escalations := ls_escalations p\<rparr>)"

definition head_clock :: "nat list \<Rightarrow> nat list \<Rightarrow> level_state list \<Rightarrow> stamp option" where
  "head_clock old_routing routing old_levels =
     (if old_levels \<noteq> [] \<and> old_routing \<noteq> [] \<and> routing \<noteq> [] \<and> hd old_routing = hd routing
      then (case ls_entered_at (hd old_levels) of Some (Iso t) \<Rightarrow> Some t | _ \<Rightarrow> None)
      else None)"

definition ensure_chain_routed ::
  "stamp \<Rightarrow> string \<Rightarrow> pyval \<Rightarrow> approval_config \<Rightarrow> invoice \<Rightarrow> state_data option \<Rightarrow>
     exc + state_data option" where
  "ensure_chain_routed now d s cfg iv sd =
     (case chain_state_of sd of
        None \<Rightarrow> bind_res (init_chain_for_invoice now d s cfg None iv sd) (\<lambda>(_, sd'). Inr sd')
      | Some chain \<Rightarrow>
          (case ch_routing chain of
             None \<Rightarrow> Inr sd
           | Some old_routing \<Rightarrow>
               if list_ex (\<lambda>l. ls_approvals l \<noteq> []) (ch_levels chain) then Inr sd
               else bind_res (route_chain d s cfg iv) (\<lambda>(applicable, routing).
                 if routing = old_routing then Inr sd
                 else let cleared = clear_chain_state (state_or_empty sd)
                   in if applicable = [] then Inr (Some cleared)
                      else let fresh = init_chain_state now
                                 (head_clock old_routing routing (ch_levels chain))
                                 applicable (Some routing) (Some cleared);
                               carried = zip old_routing (ch_levels chain)
                           in Inr (Some (fresh\<lparr>sd_approval_levels :=
                                map_option (\<lambda>c. c\<lparr>ch_levels :=
                                    map2 (carry_level carried) routing (ch_levels c)\<rparr>)
                                  (sd_approval_levels fresh)\<rparr>)))))"

section \<open>Who may approve a level\<close>

definition resolve_authorized_approvers :: "user list \<Rightarrow> stamp \<Rightarrow> uid list \<Rightarrow> uid set" where
  "resolve_authorized_approvers us now ids =
     set ids \<union>
     set (List.map_filter (\<lambda>a. case parse_uuid a of
         None \<Rightarrow> None
       | Some c \<Rightarrow> (case resolve_assignee us now c of
             (eff, Some _) \<Rightarrow> Some eff
           | (_, None) \<Rightarrow> None)) ids)"

definition check_level_approver :: "user list \<Rightarrow> stamp \<Rightarrow> uid list \<Rightarrow> uid \<Rightarrow> exc + unit" where
  "check_level_approver us now ids actor =
     (if ids = [] then Inr ()
      else if actor \<in> set ids then Inr ()
      else raise_if (actor \<notin> resolve_authorized_approvers us now ids)
             (HttpError 403 ''approval_not_named_approver''))"

definition escalation_ineligible :: "invoice \<Rightarrow> approval_config \<Rightarrow> uid set \<Rightarrow> uid set" where
  "escalation_ineligible iv cfg recorders =
     (if \<not> segregation_on cfg then {} else implicated_actors iv \<union> recorders)"

section \<open>Recording an approval\<close>

definition approvers_of :: "level_state \<Rightarrow> uid set" where
  "approvers_of l = set (map ap_user_id (ls_approvals l))"

definition level_satisfied :: "level_state \<Rightarrow> bool" where
  "level_satisfied l =
     (if ls_parallel_mode l = ''all'' then list_all (\<lambda>u. u \<in> approvers_of l) (ls_approver_ids l)
      else ls_required l \<le> int (card (approvers_of l)))"

text \<open>Somebody who signed a level other than \<open>k\<close>.\<close>

definition signed_elsewhere :: "level_state list \<Rightarrow> nat \<Rightarrow> uid \<Rightarrow> bool" where
  "signed_elsewhere ls k u =
     list_ex (\<lambda>i. i \<noteq> k \<and> u \<in> approvers_of (ls ! i)) [0..<length ls]"

definition advance_approval_chain ::
  "stamp \<Rightarrow> uid \<Rightarrow> state_data option \<Rightarrow> exc + bool \<times> state_data option" where
  "advance_approval_chain now actor sd =
     (case chain_state_of sd of
        None \<Rightarrow> Inr (True, sd)
      | Some chain \<Rightarrow>
          let ls = ch_levels chain; k = ch_current_level chain
          in if length ls \<le> k then Inr (True, sd)
             else if signed_elsewhere ls k actor then Inl (HttpError 403 ''approval_level_reuse'')
             else
               let lvl = (ls ! k)\<lparr>ls_approvals := ls_approvals (ls ! k) @
                           [\<lparr>ap_user_id = actor, ap_at = Iso now\<rparr>]\<rparr>;
                   ls1 = ls[k := lvl];
                   save = (\<lambda>c. Some ((state_or_empty sd)\<lparr>sd_approval_levels := Some c\<rparr>))
               in if \<not> level_satisfied lvl then Inr (False, save (chain\<lparr>ch_levels := ls1\<rparr>))
                  else if length ls \<le> k + 1
                  then Inr (True, save (chain\<lparr>ch_levels := ls1, ch_current_level := k + 1\<rparr>))
                  else Inr (False, save (chain\<lparr>ch_levels :=
                              ls1[k + 1 := (ls1 ! (k + 1))\<lparr>ls_entered_at := Some (Iso now)\<rparr>],
                            ch_current_level := k + 1\<rparr>)))"

section \<open>Escalation\<close>

text \<open>The targets an escalation may add: new to the level and not refused anywhere.\<close>

definition refused_targets :: "uid set \<Rightarrow> level_state list \<Rightarrow> nat \<Rightarrow> uid set" where
  "refused_targets ineligible ls k =
     ineligible \<union> (\<Union>i \<in> set (filter (\<lambda>i. i \<noteq> k) [0..<length ls]). approvers_of (ls ! i))"

definition new_targets :: "uid set \<Rightarrow> level_state list \<Rightarrow> nat \<Rightarrow> uid list" where
  "new_targets ineligible ls k =
     filter (\<lambda>u. u \<notin> set (ls_approver_ids (ls ! k)) \<and> u \<notin> refused_targets ineligible ls k)
       (ls_escalation_to_user_ids (ls ! k))"

text \<open>The level has been waiting at least its \<open>escalation_hours\<close>, which are set and not zero.\<close>

definition is_stale :: "stamp \<Rightarrow> level_state \<Rightarrow> bool" where
  "is_stale now l =
     (case (ls_escalation_hours l, ls_entered_at l) of
        (Some h, Some (Iso t)) \<Rightarrow> h \<noteq> 0 \<and> ls_escalation_to_user_ids l \<noteq> [] \<and> h * hour \<le> now - t
      | _ \<Rightarrow> False)"

definition escalate_level :: "stamp \<Rightarrow> uid list \<Rightarrow> level_state \<Rightarrow> level_state" where
  "escalate_level now added l =
     (let kept = filter (\<lambda>u. u \<in> approvers_of l) (ls_approver_ids l)
      in l\<lparr>ls_approver_ids :=
             (if ls_parallel_mode l = ''all'' then kept @ filter (\<lambda>u. u \<notin> set kept) added
              else ls_approver_ids l @ added),
           ls_escalations := ls_escalations l @
             [\<lparr>es_at = Iso now, es_added_user_ids = added,
               es_after_hours = (case ls_escalation_hours l of None \<Rightarrow> 0 | Some h \<Rightarrow> h)\<rparr>]\<rparr>)"

definition apply_escalation ::
  "stamp \<Rightarrow> uid set \<Rightarrow> state_data option \<Rightarrow> bool \<times> state_data option" where
  "apply_escalation now ineligible sd =
     (case chain_state_of sd of
        None \<Rightarrow> (False, sd)
      | Some chain \<Rightarrow>
          let ls = ch_levels chain; k = ch_current_level chain
          in if length ls \<le> k then (False, sd)
             else if \<not> is_stale now (ls ! k) then (False, sd)
             else if ls_approver_ids (ls ! k) = [] then (False, sd)
             else let added = new_targets ineligible ls k
               in if added = [] then (False, sd)
                  else (True, Some ((state_or_empty sd)\<lparr>sd_approval_levels := Some
                         (chain\<lparr>ch_levels := ls[k := escalate_level now added (ls ! k)]\<rparr>)\<rparr>)))"

end
