(* ===== verification/ChainProofs.thy ===== *)
theory ChainProofs
  imports ApprovalChain
begin

text \<open>
  What the approval chain guarantees, over every sequence of the operations of
  \<open>ApprovalChain\<close> the services perform on an instance: routing and re-routing, approvals,
  escalations by the sweep, and the reset of a rejection.
\<close>

section \<open>Reachable chain states\<close>

inductive chain_reachable :: "state_data option \<Rightarrow> bool" where
  fresh: "chain_state_of sd = None \<Longrightarrow> chain_reachable sd"
| swept: "chain_reachable sd \<Longrightarrow> chain_state_of sd = None \<Longrightarrow>
     init_chain_for_invoice now d s cfg entered iv sd = Inr (b, sd') \<Longrightarrow> chain_reachable sd'"
| routed: "chain_reachable sd \<Longrightarrow> ensure_chain_routed now d s cfg iv sd = Inr sd' \<Longrightarrow>
     chain_reachable sd'"
| signed: "chain_reachable sd \<Longrightarrow> advance_approval_chain now actor sd = Inr (b, sd') \<Longrightarrow>
     chain_reachable sd'"
| escalated: "chain_reachable sd \<Longrightarrow> apply_escalation now inel sd = (b, sd') \<Longrightarrow>
     chain_reachable sd'"
| cleared: "chain_reachable (Some x) \<Longrightarrow> chain_reachable (Some (clear_chain_state x))"

text \<open>
  The invariant: the levels already passed are satisfied, the levels ahead are unsigned, and
  no person signed two levels.
\<close>

definition chain_ok :: "chain_state \<Rightarrow> bool" where
  "chain_ok c =
     (let ls = ch_levels c; k = ch_current_level c
      in k \<le> length ls \<and> (\<forall>i < k. level_satisfied (ls ! i)) \<and>
         (\<forall>i. k < i \<and> i < length ls \<longrightarrow> ls_approvals (ls ! i) = []) \<and>
         (\<forall>i j. i < length ls \<and> j < length ls \<and> i \<noteq> j \<longrightarrow>
            approvers_of (ls ! i) \<inter> approvers_of (ls ! j) = {}))"

definition state_ok :: "state_data option \<Rightarrow> bool" where
  "state_ok sd = (case chain_state_of sd of None \<Rightarrow> True | Some c \<Rightarrow> chain_ok c)"

lemma chain_state_simps [simp]:
  "chain_state_of None = None"
  "chain_state_of (Some (d\<lparr>sd_approval_levels := c\<rparr>)) = c"
  "chain_state_of (Some (clear_chain_state d)) = None"
  by (simp_all add: chain_state_of_def clear_chain_state_def)

lemma unsigned_chain_ok:
  "(\<And>i. i < length (ch_levels c) \<Longrightarrow> ls_approvals (ch_levels c ! i) = []) \<Longrightarrow>
     ch_current_level c = 0 \<Longrightarrow> chain_ok c"
  by (auto simp: chain_ok_def approvers_of_def)

lemma init_chain_state_chain:
  "chain_state_of (Some (init_chain_state now e ls r sd)) = Some
     \<lparr>ch_levels = map (\<lambda>i. level_state_of (Iso (case e of None \<Rightarrow> now | Some t \<Rightarrow> t)) i (ls ! i)) [0..<length ls],
      ch_current_level = 0, ch_routing = r\<rparr>"
  by (simp add: init_chain_state_def)

lemma level_state_of_unsigned [simp]: "ls_approvals (level_state_of e i l) = []"
  by (simp add: level_state_of_def)

lemma init_chain_state_ok: "state_ok (Some (init_chain_state now e ls r sd))"
  by (auto simp: state_ok_def init_chain_state_chain intro!: unsigned_chain_ok)

lemma init_chain_for_invoice_ok:
  "state_ok sd \<Longrightarrow> init_chain_for_invoice now d s cfg e iv sd = Inr (b, sd') \<Longrightarrow> state_ok sd'"
  by (auto simp: init_chain_for_invoice_def bind_res_Inr_iff init_chain_state_ok split: if_splits)

lemma carry_level_approvals [simp]: "ls_approvals (carry_level old i l) = ls_approvals l"
  by (simp add: carry_level_def split: option.splits)

lemma ensure_chain_routed_ok:
  assumes "state_ok sd" and "ensure_chain_routed now d s cfg iv sd = Inr sd'"
  shows "state_ok sd'"
proof (cases "chain_state_of sd")
  case None
  with assms init_chain_for_invoice_ok [OF assms(1)] show ?thesis
    by (auto simp: ensure_chain_routed_def bind_res_Inr_iff)
next
  case (Some c)
  have "state_ok (Some (f\<lparr>sd_approval_levels := map_option (\<lambda>c. c\<lparr>ch_levels :=
      map2 (carry_level old) routing (ch_levels c)\<rparr>) (sd_approval_levels f)\<rparr>))"
    if "f = init_chain_state now e ls (Some routing) x" for f e ls routing x old
    using that by (auto simp: state_ok_def init_chain_state_def intro!: unsigned_chain_ok)
  with Some assms show ?thesis
    by (auto simp: ensure_chain_routed_def bind_res_Inr_iff Let_def state_ok_def [of "Some (clear_chain_state _)"]
        split: option.splits if_splits)
qed

lemma signed_elsewhere_iff:
  "signed_elsewhere ls k u \<longleftrightarrow> (\<exists>i < length ls. i \<noteq> k \<and> u \<in> approvers_of (ls ! i))"
  by (auto simp: signed_elsewhere_def list_ex_iff)

text \<open>What a recorded approval does to the chain.\<close>

definition sign :: "stamp \<Rightarrow> uid \<Rightarrow> level_state \<Rightarrow> level_state" where
  "sign now u l = l\<lparr>ls_approvals := ls_approvals l @ [\<lparr>ap_user_id = u, ap_at = Iso now\<rparr>]\<rparr>"

lemma approvers_of_sign [simp]: "approvers_of (sign now u l) = insert u (approvers_of l)"
  by (auto simp: sign_def approvers_of_def)

lemma approvers_of_entered [simp]: "approvers_of (l\<lparr>ls_entered_at := t\<rparr>) = approvers_of l"
  by (simp add: approvers_of_def)

lemma level_satisfied_entered [simp]: "level_satisfied (l\<lparr>ls_entered_at := t\<rparr>) = level_satisfied l"
  by (simp add: level_satisfied_def)

lemma advance_cases:
  assumes "advance_approval_chain now u sd = Inr (b, sd')" and "chain_state_of sd = Some c"
  obtains (past) "length (ch_levels c) \<le> ch_current_level c" "b" "sd' = sd"
  | (stays) c' where "ch_current_level c < length (ch_levels c)"
      "\<not> signed_elsewhere (ch_levels c) (ch_current_level c) u"
      "\<not> level_satisfied (sign now u (ch_levels c ! ch_current_level c))" "\<not> b"
      "c' = c\<lparr>ch_levels := (ch_levels c)[ch_current_level c := sign now u (ch_levels c ! ch_current_level c)]\<rparr>"
      "chain_state_of sd' = Some c'"
  | (passes) c' ls where "ch_current_level c < length (ch_levels c)"
      "\<not> signed_elsewhere (ch_levels c) (ch_current_level c) u"
      "level_satisfied (sign now u (ch_levels c ! ch_current_level c))"
      "b \<longleftrightarrow> length (ch_levels c) \<le> ch_current_level c + 1"
      "c' = c\<lparr>ch_levels := ls, ch_current_level := ch_current_level c + 1\<rparr>" "length ls = length (ch_levels c)"
      "\<And>i. i < length ls \<Longrightarrow> \<exists>t. ls ! i =
         (if i = ch_current_level c then sign now u (ch_levels c ! i)
          else (ch_levels c ! i)\<lparr>ls_entered_at := t\<rparr>)"
      "chain_state_of sd' = Some c'"
proof -
  let ?ls = "ch_levels c" and ?k = "ch_current_level c"
  note d = advance_approval_chain_def [of now u sd, unfolded assms(2) option.case Let_def sign_def [symmetric]]
  have same: "\<exists>t. l = l\<lparr>ls_entered_at := t\<rparr>" for l :: level_state
    by (rule exI [of _ "ls_entered_at l"]) simp
  consider "length ?ls \<le> ?k" | "?k < length ?ls" "signed_elsewhere ?ls ?k u"
    | "?k < length ?ls" "\<not> signed_elsewhere ?ls ?k u" "\<not> level_satisfied (sign now u (?ls ! ?k))"
    | "?k < length ?ls" "\<not> signed_elsewhere ?ls ?k u" "level_satisfied (sign now u (?ls ! ?k))" "length ?ls \<le> ?k + 1"
    | "?k < length ?ls" "\<not> signed_elsewhere ?ls ?k u" "level_satisfied (sign now u (?ls ! ?k))" "\<not> length ?ls \<le> ?k + 1"
    by linarith
  then show thesis
  proof cases
    case 1
    with assms(1) d show thesis by (intro past) simp_all
  next
    case 2
    with assms(1) d show thesis by simp
  next
    case 3
    with assms(1) d show thesis by (intro stays) auto
  next
    case 4
    then show thesis
      using assms(1) d
      by (intro passes [of _ "?ls[?k := sign now u (?ls ! ?k)]"]) (auto simp: nth_list_update same)
  next
    case 5
    let ?n = "?ls[?k := sign now u (?ls ! ?k)]"
    from 5 show thesis
      using assms(1) d
      by (intro passes [of _ "?n[?k + 1 := (?n ! (?k + 1))\<lparr>ls_entered_at := Some (Iso now)\<rparr>]"])
        (auto simp: nth_list_update same)
  qed
qed

lemma approvers_of_Nil: "ls_approvals l = [] \<Longrightarrow> approvers_of l = {}"
  by (simp add: approvers_of_def)

lemma advance_ok:
  assumes "state_ok sd" and "advance_approval_chain now u sd = Inr (b, sd')"
  shows "state_ok sd'"
proof (cases "chain_state_of sd")
  case None
  with assms show ?thesis
    by (simp add: advance_approval_chain_def)
next
  case (Some c)
  let ?ls = "ch_levels c" and ?k = "ch_current_level c"
  have ok: "chain_ok c"
    using assms(1) Some by (simp add: state_ok_def)
  from assms(2) Some show ?thesis
  proof (cases rule: advance_cases)
    case past
    with assms(1) show ?thesis by simp
  next
    case (stays c')
    then show ?thesis
      using ok by (auto simp: state_ok_def chain_ok_def Let_def nth_list_update signed_elsewhere_iff)
  next
    case (passes c' ls)
    note get = passes(7) and len = passes(6)
    have ap: "approvers_of (ls ! i) =
        (if i = ?k then insert u (approvers_of (?ls ! i)) else approvers_of (?ls ! i))"
      if "i < length ls" for i
      using get [OF that] by (auto split: if_splits)
    have "level_satisfied (ls ! i)" if "i < ?k + 1" for i
      using that get [of i] passes(1,3) len ok
      by (cases "i = ?k") (auto simp: chain_ok_def Let_def)
    moreover have "ls_approvals (ls ! i) = []" if "?k + 1 < i" "i < length ls" for i
      using that get [of i] len ok by (auto simp: chain_ok_def Let_def)
    moreover have "approvers_of (ls ! i) \<inter> approvers_of (ls ! j) = {}"
      if "i < length ls" "j < length ls" "i \<noteq> j" for i j
      using that ap [of i] ap [of j] len ok passes(2)
      by (auto simp: chain_ok_def Let_def signed_elsewhere_iff)
    ultimately show ?thesis
      using passes(1,5,8) len by (simp add: state_ok_def chain_ok_def Let_def)
  qed
qed

lemma escalate_level_simps [simp]:
  "ls_approvals (escalate_level now added l) = ls_approvals l"
  "approvers_of (escalate_level now added l) = approvers_of l"
  by (simp_all add: escalate_level_def approvers_of_def Let_def)

lemma escalation_cases:
  assumes "apply_escalation now inel sd = (b, sd')"
  obtains (nothing) "\<not> b" "sd' = sd"
  | (escalated) c where "b" "chain_state_of sd = Some c" "ch_current_level c < length (ch_levels c)"
      "is_stale now (ch_levels c ! ch_current_level c)"
      "ls_approver_ids (ch_levels c ! ch_current_level c) \<noteq> []"
      "new_targets inel (ch_levels c) (ch_current_level c) \<noteq> []"
      "chain_state_of sd' = Some (c\<lparr>ch_levels := (ch_levels c)[ch_current_level c :=
         escalate_level now (new_targets inel (ch_levels c) (ch_current_level c))
           (ch_levels c ! ch_current_level c)]\<rparr>)"
  using assms
  by (cases "chain_state_of sd")
    (auto simp: apply_escalation_def Let_def split: if_splits)

lemma escalation_ok: "state_ok sd \<Longrightarrow> apply_escalation now inel sd = (b, sd') \<Longrightarrow> state_ok sd'"
  by (elim escalation_cases) (auto simp: state_ok_def chain_ok_def Let_def nth_list_update)

lemma reachable_state_ok: "chain_reachable sd \<Longrightarrow> state_ok sd"
proof (induction rule: chain_reachable.induct)
  case (swept sd now d s cfg entered iv b sd')
  then show ?case by (blast intro: init_chain_for_invoice_ok)
next
  case (routed sd now d s cfg iv sd')
  then show ?case by (blast intro: ensure_chain_routed_ok)
next
  case (signed sd now actor b sd')
  then show ?case by (blast intro: advance_ok)
next
  case (escalated sd now inel b sd')
  then show ?case by (blast intro: escalation_ok)
qed (simp_all add: state_ok_def)

section \<open>Properties\<close>

lemma disjoint_card_sum:
  fixes n :: nat
  assumes "\<And>i j. i < n \<Longrightarrow> j < n \<Longrightarrow> i \<noteq> j \<Longrightarrow> A i \<inter> A j = {}" and "\<And>i. i < n \<Longrightarrow> finite (A i)"
  shows "card (\<Union>i<n. A i) = (\<Sum>i<n. card (A i))"
  using assms by (intro card_UN_disjoint) auto

lemma required_sum_le:
  "\<forall>l \<in> set xs. level_satisfied l \<Longrightarrow>
     (\<Sum>l\<leftarrow>filter (\<lambda>l. ls_parallel_mode l \<noteq> ''all'') xs. ls_required l)
       \<le> (\<Sum>l\<leftarrow>xs. int (card (approvers_of l)))"
proof (induction xs)
  case (Cons l xs)
  then have IH: "(\<Sum>l\<leftarrow>filter (\<lambda>l. ls_parallel_mode l \<noteq> ''all'') xs. ls_required l)
      \<le> (\<Sum>l\<leftarrow>xs. int (card (approvers_of l)))"
    by simp
  show ?case
  proof (cases "ls_parallel_mode l = ''all''")
    case True
    with IH show ?thesis by simp
  next
    case False
    moreover have "level_satisfied l"
      using Cons.prems by simp
    ultimately have "ls_required l \<le> int (card (approvers_of l))"
      by (simp add: level_satisfied_def)
    with False IH show ?thesis by simp
  qed
qed simp

text \<open>
  Property C3. When a chain reports completion, every one of its levels has the sign-offs its
  mode demands, no person signed two levels, and so the people who signed are at least as
  many as the approvals required over all the levels that count approvals. This holds
  after any interleaving of routing, approvals, escalations and rejections.
\<close>

theorem chain_complete_distinct_signoffs:
  assumes "chain_reachable sd" and "advance_approval_chain now u sd = Inr (True, sd')"
    and "chain_state_of sd = Some c"
  shows "\<exists>c'. chain_state_of sd' = Some c' \<and> length (ch_levels c') = length (ch_levels c) \<and>
    (\<forall>l \<in> set (ch_levels c'). level_satisfied l) \<and>
    (\<forall>i j. i < length (ch_levels c') \<and> j < length (ch_levels c') \<and> i \<noteq> j \<longrightarrow>
       approvers_of (ch_levels c' ! i) \<inter> approvers_of (ch_levels c' ! j) = {}) \<and>
    (\<Sum>l\<leftarrow>filter (\<lambda>l. ls_parallel_mode l \<noteq> ''all'') (ch_levels c'). ls_required l)
      \<le> int (card (\<Union>l \<in> set (ch_levels c'). approvers_of l))"
proof -
  have "state_ok sd'"
    using advance_ok reachable_state_ok assms(1,2) by blast
  moreover obtain c' where c': "chain_state_of sd' = Some c'" "length (ch_levels c') = length (ch_levels c)"
    "length (ch_levels c') \<le> ch_current_level c'"
    using assms(2,3) by (cases rule: advance_cases) (auto simp: assms(3))
  ultimately have ok: "chain_ok c'"
    by (simp add: state_ok_def)
  let ?ls = "ch_levels c'"
  have sat: "\<forall>l \<in> set ?ls. level_satisfied l"
    using ok c'(3) by (auto simp: chain_ok_def Let_def in_set_conv_nth)
  have dis: "\<And>i j. i < length ?ls \<Longrightarrow> j < length ?ls \<Longrightarrow> i \<noteq> j \<Longrightarrow>
      approvers_of (?ls ! i) \<inter> approvers_of (?ls ! j) = {}"
    using ok by (auto simp: chain_ok_def Let_def)
  from required_sum_le [OF sat] have "(\<Sum>l\<leftarrow>filter (\<lambda>l. ls_parallel_mode l \<noteq> ''all'') ?ls. ls_required l)
      \<le> (\<Sum>l\<leftarrow>?ls. int (card (approvers_of l)))" .
  also have "\<dots> = int (\<Sum>i<length ?ls. card (approvers_of (?ls ! i)))"
    by (simp add: sum_list_sum_nth atLeast0LessThan)
  also have "(\<Sum>i<length ?ls. card (approvers_of (?ls ! i))) = card (\<Union>i<length ?ls. approvers_of (?ls ! i))"
    using dis by (intro disjoint_card_sum [symmetric]) (auto simp: approvers_of_def)
  also have "(\<Union>i<length ?ls. approvers_of (?ls ! i)) = (\<Union>l \<in> set ?ls. approvers_of l)"
    by (simp add: set_conv_nth) blast
  finally show ?thesis
    using c' sat dis by blast
qed

text \<open>A two-level chain: any one of two managers, then the finance lead.\<close>

definition sample_level :: level_cfg where
  "sample_level = \<lparr>lc_name = Some ''Manager'', lc_min_amount = PNone, lc_max_amount = PNone,
     lc_required_approvals = None, lc_approver_ids = [], lc_parallel_mode = None,
     lc_routing_rules = [], lc_escalation_hours = None, lc_escalation_to_user_ids = []\<rparr>"

definition sample_chain :: "level_cfg list" where
  "sample_chain = [sample_level\<lparr>lc_approver_ids := [''m1'', ''m2'']\<rparr>,
     sample_level\<lparr>lc_name := Some ''CFO'', lc_min_amount := PInt 500, lc_approver_ids := [''cfo'']\<rparr>]"

definition sample_chain_config :: approval_config where
  "sample_chain_config = empty_approval_config
     \<lparr>ac_approver_strategy := Some ''chain'', ac_approval_chain := sample_chain\<rparr>"

definition sample_state1 :: "state_data option" where
  "sample_state1 = Some (init_chain_state 0 None sample_chain (Some [0, 1]) None)"

definition sample_state2 :: "state_data option" where
  "sample_state2 = (case advance_approval_chain 5 ''m2'' sample_state1 of Inr (_, sd) \<Rightarrow> sd | Inl _ \<Rightarrow> None)"

lemma sample_route:
  "ensure_chain_routed 0 ''USD'' (PDict []) sample_chain_config sample_invoice None = Inr sample_state1"
  by code_simp

lemma sample_reachable1: "chain_reachable sample_state1"
  by (rule chain_reachable.routed [OF chain_reachable.fresh sample_route]) simp

lemma sample_reachable2: "chain_reachable sample_state2"
proof -
  have "advance_approval_chain 5 ''m2'' sample_state1 = Inr (False, sample_state2)"
    by code_simp
  then show ?thesis
    by (rule chain_reachable.signed [OF sample_reachable1])
qed

lemma chain_complete_distinct_signoffs_witness:
  "\<exists>sd' c'. advance_approval_chain 9 ''cfo'' sample_state2 = Inr (True, sd') \<and>
     chain_state_of sd' = Some c' \<and> (\<forall>l \<in> set (ch_levels c'). level_satisfied l)"
proof -
  obtain sd' where sd': "advance_approval_chain 9 ''cfo'' sample_state2 = Inr (True, sd')"
  proof -
    have "map_sum id fst (advance_approval_chain 9 ''cfo'' sample_state2) = Inr True"
      by code_simp
    then show thesis
      using that by (cases "advance_approval_chain 9 ''cfo'' sample_state2") auto
  qed
  obtain c where c: "chain_state_of sample_state2 = Some c"
  proof -
    have "chain_state_of sample_state2 \<noteq> None"
      by code_simp
    then show thesis
      using that by blast
  qed
  from chain_complete_distinct_signoffs [OF sample_reachable2 sd' c] sd' show ?thesis
    by blast
qed

section \<open>Escalation\<close>

text \<open>The level an approver would sign next.\<close>

definition active_level :: "state_data option \<Rightarrow> level_state option" where
  "active_level sd = (case chain_state_of sd of
       None \<Rightarrow> None
     | Some c \<Rightarrow> if ch_current_level c < length (ch_levels c)
                then Some (ch_levels c ! ch_current_level c) else None)"

lemma set_new_targets:
  "u \<in> set (new_targets inel ls k) \<longleftrightarrow> u \<in> set (ls_escalation_to_user_ids (ls ! k)) \<and>
     u \<notin> set (ls_approver_ids (ls ! k)) \<and> u \<notin> inel \<and> \<not> signed_elsewhere ls k u"
  by (auto simp: new_targets_def refused_targets_def signed_elsewhere_iff)

lemma signed_elsewhere_update [simp]:
  "signed_elsewhere (ls[k := l]) k u = signed_elsewhere ls k u"
  by (auto simp: signed_elsewhere_iff)

lemma check_level_approver_mono:
  assumes "set ids \<subseteq> set ids'" and "ids \<noteq> []" and "check_level_approver us t ids u = Inr ()"
  shows "check_level_approver us t ids' u = Inr ()"
proof -
  have "resolve_authorized_approvers us t ids \<subseteq> resolve_authorized_approvers us t ids'"
    using assms(1) by (force simp: resolve_authorized_approvers_def map_filter_def)
  with assms show ?thesis
    by (auto simp: check_level_approver_def split: if_splits)
qed

lemma check_level_approver_named: "u \<in> set ids \<Longrightarrow> check_level_approver us t ids u = Inr ()"
  by (simp add: check_level_approver_def)

lemma advance_not_refused:
  assumes "chain_state_of sd = Some c" and "\<not> signed_elsewhere (ch_levels c) (ch_current_level c) u"
  shows "passes (advance_approval_chain t u sd)"
  using assms by (simp add: advance_approval_chain_def Let_def)

text \<open>
  Property C4. An escalation never takes a level away from anybody who could approve it in
  \<open>any\<close> mode, and never touches an unrestricted level. Whoever it adds is a configured target
  who may approve: named on the level, not implicated, not refused by the cross-level guard;
  and in \<open>all\<close> mode everyone whose signature is still required is such a target, so the
  targets alone can clear the level.
\<close>

theorem escalation_sound:
  assumes "apply_escalation now inel sd = (True, sd')"
  shows "\<exists>l l'. active_level sd = Some l \<and> active_level sd' = Some l' \<and>
    ls_approver_ids l \<noteq> [] \<and> ls_approvals l' = ls_approvals l \<and>
    (ls_parallel_mode l \<noteq> ''all'' \<longrightarrow>
       (\<forall>us t u. check_level_approver us t (ls_approver_ids l) u = Inr () \<longrightarrow>
                 check_level_approver us t (ls_approver_ids l') u = Inr ())) \<and>
    (\<forall>u \<in> set (ls_approver_ids l').
       (u \<notin> set (ls_approver_ids l) \<or> ls_parallel_mode l = ''all'' \<and> u \<notin> approvers_of l) \<longrightarrow>
         u \<in> set (ls_escalation_to_user_ids l) \<and> u \<notin> inel \<and>
         (\<forall>us t. check_level_approver us t (ls_approver_ids l') u = Inr ()) \<and>
         (\<forall>t. passes (advance_approval_chain t u sd')))"
  using assms
proof (cases rule: escalation_cases)
  case nothing
  then show ?thesis by simp
next
  case (escalated c)
  let ?k = "ch_current_level c" and ?ls = "ch_levels c"
  let ?l = "?ls ! ?k" and ?n = "new_targets inel ?ls ?k"
  let ?l' = "escalate_level now ?n ?l"
  have act: "active_level sd = Some ?l" "active_level sd' = Some ?l'"
    using escalated by (simp_all add: active_level_def)
  have ids: "ls_approver_ids ?l' = (if ls_parallel_mode ?l = ''all''
      then filter (\<lambda>u. u \<in> approvers_of ?l) (ls_approver_ids ?l) @
           filter (\<lambda>u. u \<notin> set (filter (\<lambda>u. u \<in> approvers_of ?l) (ls_approver_ids ?l))) ?n
      else ls_approver_ids ?l @ ?n)"
    by (simp add: escalate_level_def Let_def)
  have keeps: "check_level_approver us t (ls_approver_ids ?l') u = Inr ()"
    if "ls_parallel_mode ?l \<noteq> ''all''" "check_level_approver us t (ls_approver_ids ?l) u = Inr ()" for us t u
    by (rule check_level_approver_mono [OF _ escalated(5) that(2)]) (use that(1) in \<open>auto simp: ids\<close>)
  have fresh: "u \<in> set ?n"
    if "u \<in> set (ls_approver_ids ?l')"
      "u \<notin> set (ls_approver_ids ?l) \<or> ls_parallel_mode ?l = ''all'' \<and> u \<notin> approvers_of ?l" for u
    using that by (auto simp: ids split: if_splits)
  have may_sign: "passes (advance_approval_chain t u sd')" if "u \<in> set ?n" for t u
    using that escalated(7) by (intro advance_not_refused [OF escalated(7)]) (simp add: set_new_targets)
  show ?thesis
  proof (rule exI [of _ ?l], rule exI [of _ ?l'], intro conjI ballI impI allI)
    fix u
    assume u: "u \<in> set (ls_approver_ids ?l')"
      "u \<notin> set (ls_approver_ids ?l) \<or> ls_parallel_mode ?l = ''all'' \<and> u \<notin> approvers_of ?l"
    from fresh [OF u] show "u \<in> set (ls_escalation_to_user_ids ?l)" "u \<notin> inel"
      "passes (advance_approval_chain t u sd')" for t
      using may_sign by (simp_all add: set_new_targets)
    show "check_level_approver us t (ls_approver_ids ?l') u = Inr ()" for us t
      using u(1) by (rule check_level_approver_named)
  qed (use act escalated(5) keeps in simp_all)
qed

text \<open>
  A second sweep right after an escalation changes nothing, in \<open>any\<close> mode always
  and in \<open>all\<close> mode when no escalation target is already a named approver.
\<close>

theorem escalation_idempotent:
  assumes "apply_escalation now inel sd = (True, sd')" and "active_level sd = Some l"
    and "ls_parallel_mode l \<noteq> ''all'' \<or>
         set (ls_escalation_to_user_ids l) \<inter> set (ls_approver_ids l) = {}"
  shows "apply_escalation later inel sd' = (False, sd')"
  using assms(1)
proof (cases rule: escalation_cases)
  case nothing
  then show ?thesis by simp
next
  case (escalated c)
  let ?k = "ch_current_level c" and ?ls = "ch_levels c"
  let ?n = "new_targets inel ?ls ?k" and ?l' = "escalate_level now (new_targets inel ?ls ?k) l"
  have l: "?ls ! ?k = l"
    using assms(2) escalated(2,3) by (simp add: active_level_def)
  have t: "ls_escalation_to_user_ids ?l' = ls_escalation_to_user_ids l"
    by (simp add: escalate_level_def Let_def)
  have "u \<notin> set (new_targets inel (?ls[?k := ?l']) ?k)" for u
    using assms(3) escalated(3) set_new_targets [of u inel ?ls ?k]
    by (auto simp: set_new_targets l t escalate_level_def Let_def split: if_splits)
  then have "new_targets inel (?ls[?k := ?l']) ?k = []"
    by (metis list.set_intros(1) neq_Nil_conv)
  with escalated show ?thesis
    by (simp add: apply_escalation_def l Let_def)
qed

text \<open>A stale level whose targets overlap its approvers.\<close>

definition stale_level :: "string \<Rightarrow> uid list \<Rightarrow> uid list \<Rightarrow> level_state" where
  "stale_level mode ids targets =
     \<lparr>ls_level = 0, ls_name = ''Manager'', ls_required = 1, ls_approver_ids = ids, ls_approvals = [],
      ls_parallel_mode = mode, ls_escalation_hours = Some 24, ls_escalation_to_user_ids = targets,
      ls_entered_at = Some (Iso 0), ls_escalations = []\<rparr>"

definition stale_state :: "string \<Rightarrow> uid list \<Rightarrow> uid list \<Rightarrow> state_data option" where
  "stale_state mode ids targets = Some (empty_state_data\<lparr>sd_approval_levels :=
     Some \<lparr>ch_levels = [stale_level mode ids targets], ch_current_level = 0, ch_routing = None\<rparr>\<rparr>)"

lemma escalation_sound_witness:
  "\<exists>sd'. apply_escalation (25 * hour) {''x''} (stale_state ''all'' [''a'', ''b''] [''x'', ''c'']) = (True, sd') \<and>
     (\<exists>l'. active_level sd' = Some l' \<and>
       (\<forall>u \<in> set (ls_approver_ids l'). u \<in> {''x'', ''c''} \<and> u \<noteq> ''x''))"
  (is "\<exists>sd'. apply_escalation ?t ?i ?s = _ \<and> _")
proof -
  have "fst (apply_escalation ?t ?i ?s)"
    by code_simp
  then obtain sd' where a: "apply_escalation ?t ?i ?s = (True, sd')"
    by (metis (full_types) prod.collapse)
  have "active_level ?s = Some (stale_level ''all'' [''a'', ''b''] [''x'', ''c''])"
    by (simp add: active_level_def stale_state_def)
  with escalation_sound [OF a] a show ?thesis
    by (auto simp: stale_level_def approvers_of_def)
qed

lemma escalation_idempotent_witness:
  "\<exists>sd'. apply_escalation (25 * hour) {} (stale_state ''any'' [''a''] [''a'', ''b'']) = (True, sd') \<and>
     apply_escalation (90 * hour) {} sd' = (False, sd')"
  (is "\<exists>sd'. apply_escalation ?t ?i ?s = _ \<and> _")
proof -
  have "fst (apply_escalation ?t ?i ?s)"
    by code_simp
  then obtain sd' where a: "apply_escalation ?t ?i ?s = (True, sd')"
    by (metis (full_types) prod.collapse)
  have "active_level ?s = Some (stale_level ''any'' [''a''] [''a'', ''b''])"
    by (simp add: active_level_def stale_state_def)
  then have "apply_escalation (90 * hour) ?i sd' = (False, sd')"
    by (rule escalation_idempotent [OF a]) (simp add: stale_level_def)
  with a show ?thesis by blast
qed

text \<open>
  In \<open>all\<close> mode with a target \<open>b\<close> that is already an unsigned approver, escalation
  is not idempotent: the first sweep drops \<open>b\<close> for the new target \<open>x\<close>, the next drops \<open>x\<close> for
  \<open>b\<close>, and every later sweep swaps them again, so a signature is always wanted from one of
  the two only, and from a different one after each sweep.
\<close>

theorem escalation_all_mode_overlap_flips:
  assumes "chain_state_of sd = Some c" and "ch_current_level c < length (ch_levels c)"
    and "ch_levels c ! ch_current_level c = l" and "ls_parallel_mode l = ''all''"
    and "ls_approvals l = []" and "ls_approver_ids l = [a, b]" and "ls_escalation_to_user_ids l = [b, x]"
    and "distinct [a, b, x]" and "b \<notin> inel" and "x \<notin> inel"
    and "\<not> signed_elsewhere (ch_levels c) (ch_current_level c) b"
    and "\<not> signed_elsewhere (ch_levels c) (ch_current_level c) x"
    and "is_stale now l"
  shows "\<exists>sd1 sd2 sd3. apply_escalation now inel sd = (True, sd1) \<and>
     map_option ls_approver_ids (active_level sd1) = Some [x] \<and>
     apply_escalation now inel sd1 = (True, sd2) \<and>
     map_option ls_approver_ids (active_level sd2) = Some [b] \<and>
     apply_escalation now inel sd2 = (True, sd3) \<and>
     map_option ls_approver_ids (active_level sd3) = Some [x]"
proof -
  have step: "\<exists>sd' c' l'. apply_escalation now inel s = (True, sd') \<and> chain_state_of sd' = Some c' \<and>
      ch_levels c' = (ch_levels c)[ch_current_level c := l'] \<and> ch_current_level c' = ch_current_level c \<and>
      l' = escalate_level now new lv \<and> ls_approver_ids l' = new \<and>
      ls_approvals l' = [] \<and> ls_parallel_mode l' = ''all'' \<and>
      ls_escalation_to_user_ids l' = [b, x] \<and> is_stale now l'"
    if "chain_state_of s = Some cs" "ch_levels cs = (ch_levels c)[ch_current_level c := lv]"
      "ch_current_level cs = ch_current_level c" "ls_approvals lv = []"
      "ls_parallel_mode lv = ''all''" "ls_escalation_to_user_ids lv = [b, x]" "is_stale now lv"
      "ls_approver_ids lv \<noteq> []"
      "new = filter (\<lambda>u. u \<notin> set (ls_approver_ids lv)) [b, x]" "new \<noteq> []" for s cs lv new
  proof -
    have n: "new_targets inel (ch_levels cs) (ch_current_level cs) = new"
      unfolding new_targets_def that(9) using assms(2,9-12) that(2,3,6)
      by (intro filter_cong) (auto simp: refused_targets_def signed_elsewhere_iff nth_list_update)
    show ?thesis
      using that(1-8,10) assms(2) n
      by (auto simp: apply_escalation_def Let_def escalate_level_def approvers_of_def is_stale_def
          split: option.splits iso.splits)
  qed
  have "ch_levels c = (ch_levels c)[ch_current_level c := l]"
    using assms(3) by auto
  note init = this
  have n: "ls_approver_ids l \<noteq> []" "[x] = filter (\<lambda>u. u \<notin> set (ls_approver_ids l)) [b, x]" "[x] \<noteq> []"
    using assms(6,8) by auto
  from step [OF assms(1) init refl assms(5,4,7,13) n] obtain sd1 c1 l1 where 1:
    "apply_escalation now inel sd = (True, sd1)" "chain_state_of sd1 = Some c1"
    "ch_levels c1 = (ch_levels c)[ch_current_level c := l1]" "ch_current_level c1 = ch_current_level c"
    "ls_approver_ids l1 = [x]" "ls_approvals l1 = []" "ls_parallel_mode l1 = ''all''"
    "ls_escalation_to_user_ids l1 = [b, x]" "is_stale now l1"
    by blast
  have n: "ls_approver_ids l1 \<noteq> []" "[b] = filter (\<lambda>u. u \<notin> set (ls_approver_ids l1)) [b, x]" "[b] \<noteq> []"
    using 1(5) assms(8) by auto
  from step [OF 1(2,3,4,6,7,8,9) n] obtain sd2 c2 l2 where 2:
    "apply_escalation now inel sd1 = (True, sd2)" "chain_state_of sd2 = Some c2"
    "ch_levels c2 = (ch_levels c)[ch_current_level c := l2]" "ch_current_level c2 = ch_current_level c"
    "ls_approver_ids l2 = [b]" "ls_approvals l2 = []" "ls_parallel_mode l2 = ''all''"
    "ls_escalation_to_user_ids l2 = [b, x]" "is_stale now l2"
    by blast
  have n: "ls_approver_ids l2 \<noteq> []" "[x] = filter (\<lambda>u. u \<notin> set (ls_approver_ids l2)) [b, x]" "[x] \<noteq> []"
    using 2(5) assms(8) by auto
  from step [OF 2(2,3,4,6,7,8,9) n] obtain sd3 c3 l3 where 3:
    "apply_escalation now inel sd2 = (True, sd3)" "chain_state_of sd3 = Some c3"
    "ch_levels c3 = (ch_levels c)[ch_current_level c := l3]" "ch_current_level c3 = ch_current_level c"
    "ls_approver_ids l3 = [x]"
    by blast
  have "active_level sd1 = Some l1" "active_level sd2 = Some l2" "active_level sd3 = Some l3"
    using 1 2 3 assms(2) by (simp_all add: active_level_def)
  note act = this
  show ?thesis
    by (rule exI [of _ sd1], rule exI [of _ sd2], rule exI [of _ sd3])
      (use act 1(1,5) 2(1,5) 3(1,5) in simp)
qed

lemma escalation_all_mode_overlap_flips_witness:
  "\<exists>sd1 sd2. apply_escalation (25 * hour) {} (stale_state ''all'' [''a'', ''b''] [''b'', ''c'']) = (True, sd1) \<and>
     map_option ls_approver_ids (active_level sd1) = Some [''c''] \<and>
     apply_escalation (25 * hour) {} sd1 = (True, sd2) \<and>
     map_option ls_approver_ids (active_level sd2) = Some [''b'']"
proof -
  have "is_stale (25 * hour) (stale_level ''all'' [''a'', ''b''] [''b'', ''c''])"
    by code_simp
  then show ?thesis
    using escalation_all_mode_overlap_flips [of "stale_state ''all'' [''a'', ''b''] [''b'', ''c'']"
        "\<lparr>ch_levels = [stale_level ''all'' [''a'', ''b''] [''b'', ''c'']], ch_current_level = 0, ch_routing = None\<rparr>"
        "stale_level ''all'' [''a'', ''b''] [''b'', ''c'']" "''a''" "''b''" "''c''" "{}" "25 * hour"]
    by (auto simp: stale_state_def stale_level_def signed_elsewhere_iff)
qed

section \<open>Delegates and \<open>all\<close> mode\<close>

text \<open>
  In \<open>all\<close> mode the named approvers must sign themselves: as long as one of them
  is neither among the recorded approvers nor the actor, no approval completes the level or
  moves the chain, also when the actor is the absent approver's active delegate, whom
  \<open>check_level_approver\<close> admits in the delegator's place.
\<close>

theorem all_mode_needs_the_named:
  assumes "active_level sd = Some l" and "ls_parallel_mode l = ''all''"
    and "a \<in> set (ls_approver_ids l)" and "a \<notin> approvers_of l" and "a \<noteq> u"
    and "advance_approval_chain now u sd = Inr (b, sd')"
  shows "\<not> b \<and> (\<exists>l'. active_level sd' = Some l' \<and> ls_approver_ids l' = ls_approver_ids l \<and>
    a \<notin> approvers_of l' \<and> \<not> level_satisfied l')"
proof -
  obtain c where c: "chain_state_of sd = Some c" "ch_current_level c < length (ch_levels c)"
    "ch_levels c ! ch_current_level c = l"
    using assms(1) by (auto simp: active_level_def split: option.splits if_splits)
  have no: "\<not> level_satisfied (sign now u l)"
    using assms(2-5) by (auto simp: level_satisfied_def sign_def approvers_of_def list_all_iff)
  from assms(6) c(1) show ?thesis
  proof (cases rule: advance_cases)
    case (stays c')
    then have "active_level sd' = Some (sign now u l)"
      using c by (simp add: active_level_def)
    with stays no assms(4,5) show ?thesis
      by (simp add: sign_def) (simp add: approvers_of_def)
  qed (use c no in simp_all)
qed

lemma all_mode_needs_the_named_witness:
  "check_level_approver
      [\<lparr>us_id = ''00000000-0000-0000-0000-00000000000a'', us_delegate_to = Some ''d'',
        us_delegate_until = Some 100\<rparr>] 5
      [''00000000-0000-0000-0000-00000000000a''] ''d'' = Inr () \<and>
   (\<exists>sd'. advance_approval_chain 5 ''d''
      (stale_state ''all'' [''00000000-0000-0000-0000-00000000000a''] []) = Inr (False, sd'))"
proof
  show "check_level_approver
      [\<lparr>us_id = ''00000000-0000-0000-0000-00000000000a'', us_delegate_to = Some ''d'',
        us_delegate_until = Some 100\<rparr>] 5
      [''00000000-0000-0000-0000-00000000000a''] ''d'' = Inr ()"
    by code_simp
  let ?s = "stale_state ''all'' [''00000000-0000-0000-0000-00000000000a''] []"
  obtain b sd' where a: "advance_approval_chain 5 ''d'' ?s = Inr (b, sd')"
    using advance_not_refused [of ?s _ "''d''" 5]
    by (auto simp: stale_state_def signed_elsewhere_iff passes_iff)
  have "active_level ?s = Some (stale_level ''all'' [''00000000-0000-0000-0000-00000000000a''] [])"
    by (simp add: active_level_def stale_state_def)
  from all_mode_needs_the_named [OF this _ _ _ _ a, of "''00000000-0000-0000-0000-00000000000a''"]
  have "\<not> b"
    by (simp add: stale_level_def approvers_of_def)
  with a show "\<exists>sd'. advance_approval_chain 5 ''d'' ?s = Inr (False, sd')"
    by auto
qed

section \<open>Bands\<close>

text \<open>A usable bound, or none: unset, unparseable, or a finite number.\<close>

definition bound_of :: "pyval \<Rightarrow> rat option option" where
  "bound_of v = (case to_decimal v of None \<Rightarrow> Some None | Some (Fin r) \<Rightarrow> Some (Some r) | _ \<Rightarrow> None)"

text \<open>
  Which levels a chain requires: an amount that cannot be priced is sent to every
  level whose routing rules match; a priced one to the levels whose band holds it, both ends
  included, a bound that is unset or unparseable being no bound. A minimum of \<open>Infinity\<close>
  silently drops its level, and a bound that is NaN raises.
\<close>

theorem level_band_semantics:
  assumes "ga_amount g = Fin x"
  shows "(\<not> ga_expressible g \<longrightarrow> level_applies g ra l = Inr (level_routing_matches l ra)) \<and>
    (\<forall>lo hi. ga_expressible g \<and> bound_of (lc_min_amount l) = Some lo \<and> bound_of (lc_max_amount l) = Some hi \<longrightarrow>
       level_applies g ra l = Inr ((case lo of None \<Rightarrow> True | Some m \<Rightarrow> m \<le> x) \<and>
         (case hi of None \<Rightarrow> True | Some m \<Rightarrow> x \<le> m) \<and> level_routing_matches l ra)) \<and>
    (ga_expressible g \<and> to_decimal (lc_min_amount l) = Some PosInf \<longrightarrow> level_applies g ra l = Inr False) \<and>
    (ga_expressible g \<and> to_decimal (lc_min_amount l) = Some NaN \<longrightarrow>
       level_applies g ra l = Inl (PyError InvalidOperation))"
  using assms
  by (auto simp: level_applies_def below_min_def above_max_def dec_gt_def bound_of_def not_le not_less
      split: option.splits dec.splits)

lemma level_band_semantics_witness:
  "level_applies \<lparr>ga_amount = Fin 900, ga_currency = ''USD'', ga_expressible = True\<rparr> (\<lambda>_. None)
     (sample_level\<lparr>lc_min_amount := PStr ''Infinity''\<rparr>) = Inr False"
proof -
  have "to_decimal (PStr ''Infinity'') = Some PosInf"
    by code_simp
  then show ?thesis
    using level_band_semantics [of "\<lparr>ga_amount = Fin 900, ga_currency = ''USD'', ga_expressible = True\<rparr>"
        900 "\<lambda>_. None" "sample_level\<lparr>lc_min_amount := PStr ''Infinity''\<rparr>"]
    by simp
qed

end
