(* ===== verification/Review.thy ===== *)
theory Review
  imports ChainProofs
begin

text \<open>
  \<open>services/review.py\<close> and \<open>services/structuring.py\<close>: the approval, rejection and
  resubmission of an invoice with every gate they run, and the assignment of a reviewer.

  \<open>env\<close> gathers what the code reads besides its arguments: the clock, the settings, the
  tables, and the services this development does not model (the GL chart, vendor matching,
  the applied-credit guard, the warnings refresh, the approval signature), as functions of
  the rows they are given. The best-effort learning side effects (the correction cache, the
  RAG embedding) change no modelled row and are left out, and so is the ERP auto-send, which
  is queued for after the commit.
\<close>

section \<open>The environment\<close>

record stored_invoice =
  si_row :: invoice
  si_created_at :: stamp

record env =
  e_now :: stamp
  e_today :: date
  e_occurrence :: uid
  e_platform_currency :: string
  e_settings :: pyval
  e_org :: uid
  e_users :: "user list"
  e_definitions :: "definition_row list"
  e_invoices :: "stored_invoice list"
  e_pos :: "purchase_order list"
  e_receipts :: "goods_receipt list"
  e_ap_managers :: "uid list option"
  e_refuse_gl :: "uid option \<Rightarrow> string \<Rightarrow> exc + unit"
  e_match_vendor :: "invoice \<Rightarrow> uid option"
  e_refuse_stranding :: "invoice \<Rightarrow> bool \<Rightarrow> exc + unit"
  e_refresh :: "invoice \<Rightarrow> invoice"
  e_signature :: "uid \<Rightarrow> rat \<Rightarrow> uid \<Rightarrow> stamp \<Rightarrow> pyval option"

section \<open>The structuring guard\<close>

text \<open>The defaults of \<open>invoice_warnings.DEFAULT_FRAUD_RULES\<close> the guard reads.\<close>

definition get_structuring_config :: "pyval \<Rightarrow> exc + pyval \<times> pyval" where
  "get_structuring_config org_settings =
     bind_res (get_or_empty org_settings ''fraud_rules'') (\<lambda>overrides.
       if \<not> py_truthy overrides then Inr (PBool True, PInt 7)
       else case overrides of
           PDict d \<Rightarrow> Inr (pget_default d ''structuring_enabled'' (PBool True),
                          pget_default d ''structuring_window_days'' (PInt 7))
         | _ \<Rightarrow> Inl (PyError AttributeError))"

text \<open>\<open>timedelta(days=v)\<close> in microseconds.\<close>

definition days_delta :: "pyval \<Rightarrow> exc + int" where
  "days_delta v = (case v of
       PInt n \<Rightarrow> Inr (n * 24 * hour)
     | PBool b \<Rightarrow> Inr (if b then 24 * hour else 0)
     | PFloat (Fin r) \<Rightarrow> Inr (round_half_even (r * of_int (24 * hour)))
     | PFloat NaN \<Rightarrow> Inl (PyError ValueError)
     | PFloat _ \<Rightarrow> Inl (PyError OverflowError)
     | _ \<Rightarrow> Inl (PyError TypeError))"

text \<open>The sum the query returns, over the vendor's other live invoices of the window.\<close>

definition vendor_recent_spend ::
  "stored_invoice list \<Rightarrow> stamp \<Rightarrow> uid \<Rightarrow> uid \<Rightarrow> int \<Rightarrow> string \<Rightarrow> uid option \<Rightarrow> rat" where
  "vendor_recent_spend rows now vendor excluded window cur ent =
     sum_list (map (\<lambda>r. amount (si_row r)) (filter (\<lambda>r.
       vendor_id (si_row r) = Some vendor \<and>
       inv_status (si_row r) \<noteq> Rejected \<and> inv_status (si_row r) \<noteq> Failed \<and>
       currency (si_row r) = Some cur \<and> now - window \<le> si_created_at r \<and>
       (ent = None \<or> entity_id (si_row r) = ent) \<and>
       inv_id (si_row r) \<noteq> excluded) rows))"

section \<open>The gates\<close>

definition resolve_approval_config ::
  "env \<Rightarrow> invoice \<Rightarrow> instance_row option \<Rightarrow> approval_config option" where
  "resolve_approval_config e iv inst =
     (let snapshot = (case inst of None \<Rightarrow> None | Some i \<Rightarrow> wi_snapshot i);
          governing = (if snapshot \<noteq> None then snapshot
            else case resolve_active_workflow_definition (e_definitions e) (e_org e) (entity_id iv) of
                None \<Rightarrow> None
              | Some d \<Rightarrow> wd_steps d)
      in case get_step_config governing ''approval'' of
          Some (ApprovalStep a) \<Rightarrow> Some a
        | _ \<Rightarrow> None)"

definition config_or_empty :: "approval_config option \<Rightarrow> approval_config" where
  "config_or_empty c = (case c of None \<Rightarrow> empty_approval_config | Some a \<Rightarrow> a)"

text \<open>The vendor's other recent spend, when the invoice has a vendor and the guard is on.\<close>

definition recent_spend :: "env \<Rightarrow> invoice \<Rightarrow> exc + rat" where
  "recent_spend e iv =
     (case vendor_id iv of
        None \<Rightarrow> Inr 0
      | Some v \<Rightarrow>
          bind_res (get_structuring_config (e_settings e)) (\<lambda>(enabled, window_days).
            if py_truthy enabled
            then bind_res (days_delta window_days) (\<lambda>window.
                   Inr (vendor_recent_spend (e_invoices e) (e_now e) v (inv_id iv) window
                          (or_str (currency iv) ''USD'') (entity_id iv)))
            else Inr 0))"

definition enforce_approval_thresholds ::
  "env \<Rightarrow> string set \<Rightarrow> approval_config option \<Rightarrow> invoice \<Rightarrow> exc + unit" where
  "enforce_approval_thresholds e roles cfg iv =
     (case cfg of
        None \<Rightarrow> Inr ()
      | Some c \<Rightarrow>
          bind_res (recent_spend e iv) (\<lambda>recent.
          bind_res (reporting_gate_amount (e_platform_currency e) (e_settings e)
                     (Some (dadd (amount iv) recent)) iv) (\<lambda>g.
          bind_res (max_amount_gate_applies (ac_max_invoice_amount c) (Gated g)) (\<lambda>over_max.
            if over_max then
              Inl (HttpError 422 (if finite_money_threshold (ac_max_invoice_amount c) = None
                                  then ''approval_max_amount_misconfigured''
                                  else ''approval_max_amount_exceeded''))
            else bind_res (cfo_gate_applies (ac_require_cfo_above c) (Gated g)) (\<lambda>cfo.
              raise_if (cfo \<and> ''cfo'' \<notin> roles) (HttpError 403 ''approval_cfo_required''))))))"

definition awaiting_review :: "invoice \<Rightarrow> bool" where
  "awaiting_review iv = (inv_status iv = ReadyForReview)"

definition refuse_unless_in_review :: "invoice \<Rightarrow> exc + unit" where
  "refuse_unless_in_review iv = raise_if (\<not> awaiting_review iv) (HttpError 409 ''invoice_not_in_review'')"

definition specific_ids :: "approval_config \<Rightarrow> uid list" where
  "specific_ids c =
     (if ac_approver_ids c \<noteq> [] then ac_approver_ids c
      else case ac_approver_id c of None \<Rightarrow> [] | Some a \<Rightarrow> if a = [] then [] else [a])"

definition identity_gates :: "env \<Rightarrow> uid \<Rightarrow> approval_config \<Rightarrow> invoice \<Rightarrow> exc + unit" where
  "identity_gates e actor c iv =
     bind_res (check_segregation iv (Some actor) c) (\<lambda>_.
       if ac_approver_strategy c = Some ''specific''
       then check_level_approver (e_users e) (e_now e) (specific_ids c) actor
       else Inr ())"

definition figure_gates ::
  "env \<Rightarrow> uid \<Rightarrow> string set \<Rightarrow> approval_config option \<Rightarrow> uid set option \<Rightarrow> invoice \<Rightarrow> exc + unit" where
  "figure_gates e actor roles cfg recorders iv =
     (let c = config_or_empty cfg
      in bind_res
           (if segregation_on c then
              bind_res (case recorders of
                  None \<Rightarrow> receipt_recorders (e_pos e) (e_receipts e) iv
                | Some r \<Rightarrow> Inr r) (\<lambda>r. check_receiving_segregation r (Some actor) c)
            else Inr ())
           (\<lambda>_. enforce_approval_thresholds e roles cfg iv))"

text \<open>The level signed and the routed state.\<close>

definition chain_level_gate ::
  "env \<Rightarrow> uid \<Rightarrow> approval_config \<Rightarrow> invoice \<Rightarrow> state_data option \<Rightarrow> exc + nat \<times> state_data option" where
  "chain_level_gate e actor c iv sd =
     bind_res (ensure_chain_routed (e_now e) (e_platform_currency e) (e_settings e) c iv sd) (\<lambda>sd'.
       case chain_state_of sd' of
         None \<Rightarrow> Inr (0, sd')
       | Some chain \<Rightarrow>
           let k = ch_current_level chain
           in bind_res (if k < length (ch_levels chain)
                then check_level_approver (e_users e) (e_now e) (ls_approver_ids (ch_levels chain ! k)) actor
                else Inr ()) (\<lambda>_. Inr (k, sd')))"

section \<open>The verdict the page reads\<close>

text \<open>
  \<open>review_refusals\<close>: the refusals of approve and of reject, \<open>None\<close> when the endpoint would
  not refuse. \<open>permitted\<close> is the permission check. Only HTTP exceptions are caught: a
  built-in error escapes.
\<close>

definition approve_gates :: "env \<Rightarrow> uid \<Rightarrow> string set \<Rightarrow> invoice \<Rightarrow> instance_row option \<Rightarrow> exc + unit" where
  "approve_gates e actor roles iv inst =
     (let cfg = resolve_approval_config e iv inst; c = config_or_empty cfg
      in bind_res (identity_gates e actor c iv) (\<lambda>_.
         bind_res (figure_gates e actor roles cfg None iv) (\<lambda>_.
           case inst of
             Some i \<Rightarrow>
               if ac_approver_strategy c = Some ''chain'' then
                 bind_res (chain_level_gate e actor c iv (Some (state_or_empty (wi_state_data i)))) (\<lambda>(_, sd).
                 bind_res (advance_approval_chain (e_now e) actor sd) (\<lambda>_. Inr ()))
               else Inr ()
           | None \<Rightarrow> Inr ())))"

definition review_refusals ::
  "env \<Rightarrow> bool \<Rightarrow> uid \<Rightarrow> string set \<Rightarrow> invoice \<Rightarrow> instance_row option \<Rightarrow>
     exc + string option \<times> string option" where
  "review_refusals e permitted actor roles iv inst =
     (if \<not> permitted then Inr (Some ''role_not_permitted'', Some ''role_not_permitted'')
      else case refuse_unless_in_review iv of
          Inl (HttpError _ why) \<Rightarrow> Inr (Some why, Some why)
        | Inl err \<Rightarrow> Inl err
        | Inr _ \<Rightarrow>
            (case approve_gates e actor roles iv inst of
               Inl (HttpError _ why) \<Rightarrow> Inr (Some why, None)
             | Inl err \<Rightarrow> Inl err
             | Inr _ \<Rightarrow> Inr (None, None)))"

section \<open>Corrections\<close>

text \<open>
  The fields a correction may set; a field that is \<open>None\<close> is left alone. \<open>currency\<close> is not a
  field of the request, but internal callers may pass it.
\<close>

record corrections =
  co_vendor :: "string option"
  co_invoice_number :: "string option"
  co_amount :: "rat option"
  co_currency :: "string option"
  co_description :: "string option"
  co_po_number :: "string option"
  co_due_date :: "date option"
  co_gl_account :: "string option"
  co_cost_center :: "string option"

definition set_if :: "'a option \<Rightarrow> ('a \<Rightarrow> 'r \<Rightarrow> 'r) \<Rightarrow> 'r \<Rightarrow> 'r" where
  "set_if v f r = (case v of None \<Rightarrow> r | Some x \<Rightarrow> f x r)"

definition set_corrected :: "corrections \<Rightarrow> invoice \<Rightarrow> invoice" where
  "set_corrected co iv =
     set_if (co_vendor co) (\<lambda>v. vendor_name_update (\<lambda>_. v))
     (set_if (co_invoice_number co) (\<lambda>v. invoice_number_update (\<lambda>_. v))
     (set_if (co_amount co) (\<lambda>v. amount_update (\<lambda>_. v))
     (set_if (co_currency co) (\<lambda>v. currency_update (\<lambda>_. Some v))
     (set_if (co_description co) (\<lambda>v. description_update (\<lambda>_. Some v))
     (set_if (co_po_number co) (\<lambda>v. po_number_update (\<lambda>_. Some v))
     (set_if (co_due_date co) (\<lambda>v. due_date_update (\<lambda>_. Some v))
     (set_if (co_gl_account co) (\<lambda>v. gl_account_update (\<lambda>_. Some v))
     (set_if (co_cost_center co) (\<lambda>v. cost_center_update (\<lambda>_. Some v)) iv))))))))"

text \<open>The vendor link follows a re-saved vendor name; a blank name links nobody.\<close>

definition relink_vendor :: "env \<Rightarrow> corrections \<Rightarrow> invoice \<Rightarrow> invoice \<Rightarrow> invoice" where
  "relink_vendor e co before iv =
     (if co_vendor co \<noteq> None \<and> (vendor_name before \<noteq> vendor_name iv \<or> vendor_id iv = None)
      then iv\<lparr>vendor_id := (if py_strip (vendor_name iv) \<noteq> [] then e_match_vendor e iv else None)\<rparr>
      else iv)"

definition nothing_set :: "corrections \<Rightarrow> bool" where
  "nothing_set co = (co_vendor co = None \<and> co_invoice_number co = None \<and> co_amount co = None \<and>
     co_currency co = None \<and> co_description co = None \<and> co_po_number co = None \<and>
     co_due_date co = None \<and> co_gl_account co = None \<and> co_cost_center co = None)"

definition py_opt :: "string option \<Rightarrow> pyval" where
  "py_opt v = (case v of None \<Rightarrow> PNone | Some s \<Rightarrow> PStr s)"

text \<open>
  \<open>audit_access.build_field_diff\<close> on the corrected fields: what changed, a NULL and a blank
  string counting as the same value. Dates are kept as their ordinal.
\<close>

definition is_blank :: "pyval \<Rightarrow> bool" where
  "is_blank v = (v = PNone \<or> v = PStr [])"

definition build_field_diff :: "(string \<times> pyval \<times> pyval) list \<Rightarrow> (string \<times> pyval) list" where
  "build_field_diff fs =
     map (\<lambda>(f, old, new). (f, PDict [(''old'', old), (''new'', new)]))
       (filter (\<lambda>(f, old, new). \<not> (is_blank old \<and> is_blank new) \<and> old \<noteq> new) fs)"

definition corrected_fields :: "corrections \<Rightarrow> invoice \<Rightarrow> invoice \<Rightarrow> (string \<times> pyval \<times> pyval) list" where
  "corrected_fields co b a =
     (if co_vendor co = None then [] else [(''vendor_name'', PStr (vendor_name b), PStr (vendor_name a))]) @
     (if co_invoice_number co = None then []
      else [(''invoice_number'', PStr (invoice_number b), PStr (invoice_number a))]) @
     (if co_amount co = None then []
      else [(''amount'', PDec (Fin (amount b)), PDec (Fin (amount a)))]) @
     (if co_currency co = None then [] else [(''currency'', py_opt (currency b), py_opt (currency a))]) @
     (if co_description co = None then []
      else [(''description'', py_opt (description b), py_opt (description a))]) @
     (if co_po_number co = None then [] else [(''po_number'', py_opt (po_number b), py_opt (po_number a))]) @
     (if co_due_date co = None then []
      else [(''due_date'', case_option PNone PInt (due_date b), case_option PNone PInt (due_date a))]) @
     (if co_gl_account co = None then []
      else [(''gl_account'', py_opt (gl_account b), py_opt (gl_account a))]) @
     (if co_cost_center co = None then []
      else [(''cost_center'', py_opt (cost_center b), py_opt (cost_center a))]) @
     (if co_vendor co \<noteq> None \<and> (vendor_name b \<noteq> vendor_name a \<or> vendor_id b = None)
      then [(''vendor_id'', py_opt (vendor_id b), py_opt (vendor_id a))] else [])"

text \<open>
  The correction block of \<open>approve_invoice\<close>: the corrected row and the audit diff. \<open>None\<close> is no
  corrections; the warnings refresh runs whenever corrections were passed.
\<close>

definition apply_corrections ::
  "env \<Rightarrow> corrections option \<Rightarrow> invoice \<Rightarrow> exc + invoice \<times> (string \<times> pyval) list" where
  "apply_corrections e cor iv =
     (case cor of
        None \<Rightarrow> Inr (iv, [])
      | Some co \<Rightarrow>
          bind_res (case co_gl_account co of
              Some gl \<Rightarrow> if gl \<noteq> [] \<and> Some gl \<noteq> gl_account iv then e_refuse_gl e (entity_id iv) gl else Inr ()
            | None \<Rightarrow> Inr ()) (\<lambda>_.
          let iv1 = relink_vendor e co iv (set_corrected co iv)
          in bind_res (if nothing_set co then Inr () else e_refuse_stranding e iv1 (co_currency co \<noteq> None)) (\<lambda>_.
             Inr (e_refresh e iv1, build_field_diff (corrected_fields co iv iv1)))))"

section \<open>Approval\<close>

definition changes_entry :: "(string \<times> pyval) list \<Rightarrow> (string \<times> pyval) list" where
  "changes_entry diff = (if diff = [] then [] else [(''changes'', PDict diff)])"

text \<open>All approvals satisfied: the row is stamped, transitioned and its workflow advanced.\<close>

definition finalize_approval ::
  "env \<Rightarrow> uid \<Rightarrow> string \<Rightarrow> (string \<times> pyval) list \<Rightarrow> invoice \<Rightarrow> instance_row option \<Rightarrow> effects \<Rightarrow>
     exc + invoice \<times> instance_row option \<times> effects" where
  "finalize_approval e actor actor_name diff iv inst fx =
     (let iv1 = iv\<lparr>approval_date := Some (e_today e), approved_by := Some actor_name\<rparr>;
          signature = (case e_signature e (inv_id iv) (amount iv) actor (e_now e) of
              None \<Rightarrow> [] | Some b \<Rightarrow> [(''signature'', b)])
      in bind_res (transition_invoice (e_occurrence e) (e_ap_managers e) (Some actor) ''invoice.approved''
              (changes_entry diff @ signature) Approved iv1 fx) (\<lambda>(iv2, fx2).
           case inst of
             None \<Rightarrow> Inr (iv2, None, fx2)
           | Some i \<Rightarrow>
               (case advance_workflow (e_now e) (Some ''erp_push'') ''approved'' None i of
                  Inl _ \<Rightarrow> Inl (PyError ValueError)
                | Inr i' \<Rightarrow> Inr (iv2, Some i', fx2))))"

definition approval_step_row ::
  "uid \<Rightarrow> nat \<Rightarrow> (string \<times> pyval) list \<Rightarrow> invoice \<Rightarrow> audit_row" where
  "approval_step_row actor level diff iv =
     \<lparr>au_action = ''invoice.approval_step'', au_actor = Some actor, au_entity = inv_id iv,
      au_details = [(''decision'', PStr ''approved''), (''level'', PInt (int level))] @ changes_entry diff\<rparr>"

definition approve_invoice ::
  "env \<Rightarrow> uid \<Rightarrow> string \<Rightarrow> string set \<Rightarrow> corrections option \<Rightarrow> uid set option \<Rightarrow>
     invoice \<Rightarrow> instance_row option \<Rightarrow> effects \<Rightarrow> exc + invoice \<times> instance_row option \<times> effects" where
  "approve_invoice e actor actor_name roles cor recorders iv inst fx =
     (let cfg = resolve_approval_config e iv inst; c = config_or_empty cfg
      in bind_res (identity_gates e actor c iv) (\<lambda>_.
         bind_res (apply_corrections e cor iv) (\<lambda>(iv1, diff).
         bind_res (figure_gates e actor roles cfg (if cor \<noteq> None then None else recorders) iv1) (\<lambda>_.
           case inst of
             Some i \<Rightarrow>
               if ac_approver_strategy c = Some ''chain'' then
                 bind_res (chain_level_gate e actor c iv1 (wi_state_data i)) (\<lambda>(level, sd).
                 bind_res (advance_approval_chain (e_now e) actor sd) (\<lambda>(complete, sd').
                   let i' = i\<lparr>wi_state_data := sd'\<rparr>
                   in if complete then finalize_approval e actor actor_name diff iv1 (Some i') fx
                      else Inr (iv1, Some i', dispatch_audit (approval_step_row actor level diff iv1) fx)))
               else finalize_approval e actor actor_name diff iv1 inst fx
           | None \<Rightarrow> finalize_approval e actor actor_name diff iv1 None fx))))"

section \<open>Rejection, resubmission, assignment\<close>

text \<open>
  \<open>raise_exception\<close> stands for the exception row \<open>create_exception\<close> writes: its type and
  description are returned. The chain is dropped, so that a reworked invoice runs it again.
\<close>

definition reject_invoice ::
  "env \<Rightarrow> uid \<Rightarrow> string \<Rightarrow> string \<Rightarrow> invoice \<Rightarrow> instance_row option \<Rightarrow> effects \<Rightarrow>
     exc + invoice \<times> instance_row option \<times> (string \<times> string) \<times> effects" where
  "reject_invoice e actor actor_name reason iv inst fx =
     bind_res (transition_invoice (e_occurrence e) (e_ap_managers e) (Some actor) ''invoice.rejected''
         [(''reason'', PStr reason)] Rejected (iv\<lparr>rejected_by := Some actor_name\<rparr>) fx) (\<lambda>(iv1, fx1).
       let raised = (''review_rejected'', reason);
           inst1 = map_option (\<lambda>i.
             let i1 = complete_current_step (e_now e) ''rejected'' i;
                 sd = state_or_empty (wi_state_data i1);
                 n = (case sd_rejection_count sd of None \<Rightarrow> 0 | Some k \<Rightarrow> k)
             in i1\<lparr>wi_state_data := Some (clear_chain_state (sd\<lparr>sd_rejection_count := Some (n + 1)\<rparr>))\<rparr>) inst
       in Inr (iv1, inst1, raised, fx1))"

definition resubmit_invoice ::
  "env \<Rightarrow> uid \<Rightarrow> invoice \<Rightarrow> instance_row option \<Rightarrow> effects \<Rightarrow>
     exc + invoice \<times> instance_row option \<times> effects" where
  "resubmit_invoice e actor iv inst fx =
     bind_res (transition_invoice (e_occurrence e) (e_ap_managers e) (Some actor) ''invoice.resubmitted''
         [] ReadyForReview iv fx) (\<lambda>(iv1, fx1).
       case inst of
         None \<Rightarrow> Inr (iv1, None, fx1)
       | Some i \<Rightarrow>
           (case create_workflow_step (e_now e) (Some ''review'') None i of
              Inl _ \<Rightarrow> Inl (PyError ValueError)
            | Inr i1 \<Rightarrow> Inr (iv1, Some (i1\<lparr>wi_current_step := 1\<rparr>), fx1)))"

text \<open>The open approval step created last: ties in the creation time go to the first.\<close>

definition open_approval_step :: "wf_step list \<Rightarrow> nat option" where
  "open_approval_step ss =
     (case filter (\<lambda>i. ws_completed_at (ss ! i) = None \<and>
              (ws_type (ss ! i) = ''approval'' \<or> ws_type (ss ! i) = ''review'')) [0..<length ss] of
        [] \<Rightarrow> None
      | i # is \<Rightarrow> Some (min_by (\<lambda>j. - ws_created_at (ss ! j)) i is))"

text \<open>
  \<open>full_name\<close> is the name of the user row with that identifier, if there is one;
  \<open>consult\<close> is whether the caller passed the control database.
\<close>

definition assign_reviewer ::
  "env \<Rightarrow> bool \<Rightarrow> (uid \<Rightarrow> string option) \<Rightarrow> uid \<Rightarrow> uid \<Rightarrow> string \<Rightarrow> invoice \<Rightarrow> instance_row option \<Rightarrow>
     effects \<Rightarrow> invoice \<times> instance_row option \<times> effects" where
  "assign_reviewer e consult full_name actor reviewer reviewer_name iv inst fx =
     (let (effective, original) =
            (if consult then resolve_assignee (e_users e) (e_now e) reviewer else (reviewer, None));
          (rid, rname) =
            (if original \<noteq> None then
               (case full_name effective of None \<Rightarrow> (reviewer, reviewer_name) | Some n \<Rightarrow> (effective, n))
             else (reviewer, reviewer_name));
          iv1 = iv\<lparr>assigned_to_id := Some rid, assigned_to := Some rname\<rparr>;
          inst1 = map_option (\<lambda>i.
            case open_approval_step (wi_steps i) of
              None \<Rightarrow> i
            | Some k \<Rightarrow> i\<lparr>wi_steps := (wi_steps i)[k := (wi_steps i ! k)
                \<lparr>ws_assigned_to := Some rid,
                 ws_original_assigned_to := (if original \<noteq> None then original
                   else ws_original_assigned_to (wi_steps i ! k))\<rparr>]\<rparr>) inst;
          fx1 = dispatch_audit \<lparr>au_action = ''invoice.assigned_for_review'', au_actor = Some actor,
             au_entity = inv_id iv,
             au_details = (''reviewer_id'', PStr rid) #
               (case original of None \<Rightarrow> [] | Some u \<Rightarrow> [(''delegated_from'', PStr u)])\<rparr> fx;
          fx2 = fx1\<lparr>fx_notices := fx_notices fx1 @ [(''invoice_assigned'', [rid])]\<rparr>
      in (iv1, inst1, fx2))"

section \<open>The retry of an ERP push\<close>

text \<open>\<open>services/erp.py\<close>, \<open>retry_erp\<close>.\<close>

definition retry_erp ::
  "env \<Rightarrow> uid option \<Rightarrow> invoice \<Rightarrow> instance_row option \<Rightarrow> effects \<Rightarrow>
     exc + invoice \<times> instance_row option \<times> effects" where
  "retry_erp e actor iv inst fx =
     (if or_str (approved_by iv) [] = [] then Inl (HttpError 409 ''never_approved'')
      else let inst1 = map_option (\<lambda>i. i\<lparr>wi_state_data :=
                 Some ((state_or_empty (wi_state_data i))\<lparr>sd_erp_retries := Some 0\<rparr>),
                 wi_state := ''active''\<rparr>) inst
        in bind_res (transition_invoice (e_occurrence e) (e_ap_managers e) actor ''invoice.erp_retried''
               [] SendingToErp iv fx) (\<lambda>(iv1, fx1). Inr (iv1, inst1, fx1)))"

end
