(* ===== verification/ReviewProofs.thy ===== *)
theory ReviewProofs
  imports Review
begin

text \<open>
  What the review service guarantees: every control holds on the figures actually approved,
  a chain is complete before its invoice is, the verdict the page reads is the endpoint's
  answer, and a rejected invoice starts its approvals over.
\<close>

section \<open>The gates read no approval column\<close>

text \<open>Stamping the approval and moving the status changes nothing a gate reads.\<close>

definition stamped :: "date option \<Rightarrow> string option \<Rightarrow> inv_status \<Rightarrow> invoice \<Rightarrow> invoice" where
  "stamped d b s iv = iv\<lparr>approval_date := d, approved_by := b, inv_status := s\<rparr>"

lemma stamped_simps [simp]:
  "amount (stamped d b s iv) = amount iv" "vendor_id (stamped d b s iv) = vendor_id iv"
  "inv_id (stamped d b s iv) = inv_id iv" "currency (stamped d b s iv) = currency iv"
  "entity_id (stamped d b s iv) = entity_id iv" "po_match (stamped d b s iv) = po_match iv"
  "po_number (stamped d b s iv) = po_number iv" "inv_status (stamped d b s iv) = s"
  "approved_by (stamped d b s iv) = b"
  by (simp_all add: stamped_def)

lemma stamped_recent_spend [simp]: "recent_spend e (stamped d b s iv) = recent_spend e iv"
  unfolding recent_spend_def stamped_simps by (rule refl)

lemma stamped_gate_amount [simp]:
  "reporting_gate_amount p t a (stamped d b s iv) = reporting_gate_amount p t a iv"
  by (cases a) (simp_all add: reporting_gate_amount_def stamped_def)

lemma stamped_enforce [simp]:
  "enforce_approval_thresholds e r c (stamped d b s iv) = enforce_approval_thresholds e r c iv"
  unfolding enforce_approval_thresholds_def stamped_simps stamped_recent_spend stamped_gate_amount
  by (rule refl)

lemma stamped_recorders [simp]:
  "receipt_recorders pos grs (stamped d b s iv) = receipt_recorders pos grs iv"
proof -
  have "referenced_pos pos (stamped d b s iv) = referenced_pos pos iv"
    by (cases "po_number iv") (simp_all add: referenced_pos_def)
  then show ?thesis
    by (simp add: receipt_recorders_def)
qed

section \<open>What a passing gate says\<close>

text \<open>A threshold an amount has cleared: not configured, or measured and not exceeded.\<close>

definition cleared :: "pyval \<Rightarrow> gate_amount \<Rightarrow> bool" where
  "cleared t g = (t = PNone \<or> (\<exists>r x. finite_money_threshold t = Some r \<and> ga_expressible g \<and>
     ga_amount g = Fin x \<and> x \<le> r))"

lemma cleared_of_silent:
  assumes "reporting_gate_amount p s a iv = Inr g"
  shows "cfo_gate_applies t (Gated g) = Inr False \<Longrightarrow> cleared t g"
    and "max_amount_gate_applies t (Gated g) = Inr False \<Longrightarrow> cleared t g"
  using reporting_gate_amount_finite [OF assms] cfo.silent_only_if [of t "Gated g"]
    max_amount.silent_only_if [of t "Gated g"]
  by (auto simp: cleared_def coerce_gate_amount_def)

lemma enforce_passes:
  assumes "enforce_approval_thresholds e roles (Some c) iv = Inr ()"
  shows "\<exists>recent g. recent_spend e iv = Inr recent \<and>
    reporting_gate_amount (e_platform_currency e) (e_settings e) (Some (dadd (amount iv) recent)) iv = Inr g \<and>
    cleared (ac_max_invoice_amount c) g \<and> (cleared (ac_require_cfo_above c) g \<or> ''cfo'' \<in> roles)"
proof -
  obtain recent g m b where r: "recent_spend e iv = Inr recent"
    and g: "reporting_gate_amount (e_platform_currency e) (e_settings e) (Some (dadd (amount iv) recent)) iv = Inr g"
    and m: "max_amount_gate_applies (ac_max_invoice_amount c) (Gated g) = Inr False"
    and b: "cfo_gate_applies (ac_require_cfo_above c) (Gated g) = Inr b" "b \<longrightarrow> ''cfo'' \<in> roles"
    using assms by (auto simp: enforce_approval_thresholds_def bind_res_Inr_iff split: if_splits)
  then show ?thesis
    using cleared_of_silent [OF g] by (cases b) auto
qed

lemma figure_gates_passes:
  assumes "figure_gates e actor roles cfg recorders iv = Inr ()"
  shows "enforce_approval_thresholds e roles cfg iv = Inr () \<and>
    (segregation_on (config_or_empty cfg) \<longrightarrow>
       (\<exists>r. (case recorders of None \<Rightarrow> receipt_recorders (e_pos e) (e_receipts e) iv | Some r \<Rightarrow> Inr r) = Inr r \<and>
            actor \<notin> r))"
  using assms
  by (auto simp: figure_gates_def bind_res_Inr_iff Let_def check_receiving_passes receiving.violates_iff
      split: if_splits)

section \<open>The shape of an approval\<close>

lemma finalize_approval_InrE:
  assumes "finalize_approval e actor name diff iv inst fx = Inr (iv', inst', fx')"
  obtains "iv' = stamped (Some (e_today e)) (Some name) Approved iv"
    and "Approved \<in> valid_transitions (inv_status iv)"
    and "map_option wi_state_data inst' = map_option wi_state_data inst"
proof -
  obtain d fx1 where t: "transition_invoice (e_occurrence e) (e_ap_managers e) (Some actor) ''invoice.approved'' d
      Approved (iv\<lparr>approval_date := Some (e_today e), approved_by := Some name\<rparr>) fx = Inr (iv', fx1)"
    and i: "(case inst of None \<Rightarrow> inst' = None
        | Some i \<Rightarrow> \<exists>i'. advance_workflow (e_now e) (Some ''erp_push'') ''approved'' None i = Inr i' \<and> inst' = Some i')"
    using assms unfolding finalize_approval_def Let_def
    by (elim bind_res_InrE) (cases inst; simp split: sum.splits prod.splits)
  from t show thesis
  proof (rule transition_invoice_InrE)
    assume v: "Approved \<in> valid_transitions
        (inv_status (iv\<lparr>approval_date := Some (e_today e), approved_by := Some name\<rparr>))"
      "iv' = iv\<lparr>approval_date := Some (e_today e), approved_by := Some name\<rparr>\<lparr>inv_status := Approved\<rparr>"
    have "map_option wi_state_data inst' = map_option wi_state_data inst"
      using i by (cases inst) (auto elim!: advance_workflow_InrE)
    with v show thesis
      by (intro that) (simp_all add: stamped_def)
  qed
qed

text \<open>How a successful approval ends: the row it decided on is \<open>iv1\<close>.\<close>

definition approval_outcome ::
  "env \<Rightarrow> uid \<Rightarrow> string \<Rightarrow> (string \<times> pyval) list \<Rightarrow> approval_config \<Rightarrow> invoice \<Rightarrow> instance_row option \<Rightarrow>
     effects \<Rightarrow> invoice \<times> instance_row option \<times> effects \<Rightarrow> bool" where
  "approval_outcome e actor name diff c iv1 inst fx out =
     (if inst \<noteq> None \<and> ac_approver_strategy c = Some ''chain''
      then \<exists>level sd complete sd'. let i = the inst; i' = i\<lparr>wi_state_data := sd'\<rparr> in
             chain_level_gate e actor c iv1 (wi_state_data i) = Inr (level, sd) \<and>
             advance_approval_chain (e_now e) actor sd = Inr (complete, sd') \<and>
             (if complete then finalize_approval e actor name diff iv1 (Some i') fx = Inr out
              else out = (iv1, Some i', dispatch_audit (approval_step_row actor level diff iv1) fx))
      else finalize_approval e actor name diff iv1 inst fx = Inr out)"

lemma approve_invoice_Inr:
  assumes "approve_invoice e actor name roles cor recorders iv inst fx = Inr out"
    and "cfg = resolve_approval_config e iv inst"
  shows "identity_gates e actor (config_or_empty cfg) iv = Inr () \<and>
    (\<exists>iv1 diff. apply_corrections e cor iv = Inr (iv1, diff) \<and>
       figure_gates e actor roles cfg (if cor \<noteq> None then None else recorders) iv1 = Inr () \<and>
       approval_outcome e actor name diff (config_or_empty cfg) iv1 inst fx out)"
proof -
  let ?c = "config_or_empty cfg"
  obtain iv1 diff where 1: "identity_gates e actor ?c iv = Inr ()"
    "apply_corrections e cor iv = Inr (iv1, diff)"
    "figure_gates e actor roles cfg (if cor \<noteq> None then None else recorders) iv1 = Inr ()"
    and rest: "(case inst of
        Some i \<Rightarrow> if ac_approver_strategy ?c = Some ''chain'' then
            bind_res (chain_level_gate e actor ?c iv1 (wi_state_data i)) (\<lambda>(level, sd).
            bind_res (advance_approval_chain (e_now e) actor sd) (\<lambda>(complete, sd').
              let i' = i\<lparr>wi_state_data := sd'\<rparr>
              in if complete then finalize_approval e actor name diff iv1 (Some i') fx
                 else Inr (iv1, Some i', dispatch_audit (approval_step_row actor level diff iv1) fx)))
          else finalize_approval e actor name diff iv1 inst fx
      | None \<Rightarrow> finalize_approval e actor name diff iv1 None fx) = Inr out"
    using assms(1) unfolding approve_invoice_def Let_def assms(2) [symmetric] bind_res_Inr_iff
    by (force simp: bind_res_Inr_iff)
  have "approval_outcome e actor name diff ?c iv1 inst fx out"
  proof (cases inst)
    case None
    with rest show ?thesis by (simp add: approval_outcome_def)
  next
    case (Some i)
    show ?thesis
    proof (cases "ac_approver_strategy ?c = Some ''chain''")
      case True
      with rest Some show ?thesis
        by (fastforce simp: approval_outcome_def bind_res_Inr_iff Let_def)
    next
      case False
      with rest Some show ?thesis by (simp add: approval_outcome_def)
    qed
  qed
  with 1 show ?thesis by blast
qed

lemma approval_outcome_row:
  assumes "approval_outcome e actor name diff c iv1 inst fx (iv', inst', fx')"
  shows "iv' = iv1 \<or> iv' = stamped (Some (e_today e)) (Some name) Approved iv1"
  using assms
  by (auto simp: approval_outcome_def Let_def elim!: finalize_approval_InrE split: if_splits)

section \<open>Properties\<close>


text \<open>The corrections and the warnings refresh leave the status alone.\<close>

lemma corrections_keep_status:
  assumes "apply_corrections e cor iv = Inr (iv1, diff)"
    and "\<And>x. inv_status (e_refresh e x) = inv_status x"
  shows "inv_status iv1 = inv_status iv"
proof -
  have "inv_status (set_corrected co iv) = inv_status iv" for co
    by (simp add: set_corrected_def set_if_def split: option.splits)
  then have "inv_status (relink_vendor e co iv (set_corrected co iv)) = inv_status iv" for co
    by (simp add: relink_vendor_def)
  with assms show ?thesis
    by (auto simp: apply_corrections_def bind_res_Inr_iff Let_def split: option.splits)
qed

lemma advance_complete:
  assumes "advance_approval_chain t actor sd = Inr (True, sd')"
  shows "chain_state_of sd' = None \<or>
    (\<exists>ch. chain_state_of sd' = Some ch \<and> length (ch_levels ch) \<le> ch_current_level ch)"
proof (cases "chain_state_of sd")
  case None
  with assms show ?thesis by (simp add: advance_approval_chain_def)
next
  case (Some ch)
  from assms Some show ?thesis by (cases rule: advance_cases) (use Some in auto)
qed


lemma finalize_under_review:
  assumes "inv_status iv = ReadyForReview"
  shows "\<exists>iv' inst' fx'. finalize_approval e actor name diff iv inst fx = Inr (iv', inst', fx') \<and>
    iv' = stamped (Some (e_today e)) (Some name) Approved iv \<and> (inst = None \<longrightarrow> inst' = None)"
proof -
  have adv: "\<exists>i'. advance_workflow (e_now e) (Some ''erp_push'') ''approved'' None i = Inr i'" for i :: instance_row
    by (simp add: advance_workflow_def create_workflow_step_def canonical_step_index_def
        resolve_step_type_def step_type_aliases_def canonical_step_types_def Let_def)
  show ?thesis
  proof (cases inst)
    case None
    with assms show ?thesis
      by (simp add: finalize_approval_def transition_invoice_def validate_transition_def Let_def stamped_def)
  next
    case (Some i)
    from adv obtain i' where "advance_workflow (e_now e) (Some ''erp_push'') ''approved'' None i = Inr i'"
      by blast
    with Some assms show ?thesis
      by (simp add: finalize_approval_def transition_invoice_def validate_transition_def Let_def stamped_def)
  qed
qed

lemma ensure_chain_routed_or_empty:
  "ensure_chain_routed n d s c iv (Some (state_or_empty sd)) =
    bind_res (ensure_chain_routed n d s c iv sd)
      (\<lambda>x. Inr (case x of None \<Rightarrow> Some empty_state_data | Some y \<Rightarrow> Some y))"
  by (cases sd) (auto simp: ensure_chain_routed_def init_chain_for_invoice_def state_or_empty_def
      chain_state_of_def empty_state_data_def init_chain_state_def Let_def bind_res_def
      split: option.splits sum.splits)

lemma chain_state_or_empty:
  "chain_state_of (case sd of None \<Rightarrow> Some empty_state_data | Some y \<Rightarrow> Some y) = chain_state_of sd"
  by (cases sd) (simp_all add: chain_state_of_def empty_state_data_def)

text \<open>A sign-off does not tell an absent routing state from an empty one.\<close>

lemma advance_or_empty:
  "map_sum id fst (advance_approval_chain t actor (case sd of None \<Rightarrow> Some empty_state_data | Some y \<Rightarrow> Some y)) =
    map_sum id fst (advance_approval_chain t actor sd)"
  unfolding advance_approval_chain_def chain_state_or_empty by (simp add: Let_def split: option.splits)

lemma gates_decide:
  assumes fin: "\<And>x. passes (finalize_approval e actor name [] iv x fx)"
  shows "case approve_gates e actor roles iv inst of
      Inl err \<Rightarrow> approve_invoice e actor name roles None None iv inst fx = Inl err
    | Inr _ \<Rightarrow> passes (approve_invoice e actor name roles None None iv inst fx)"
proof -
  let ?cfg = "resolve_approval_config e iv inst" and ?c = "config_or_empty (resolve_approval_config e iv inst)"
  have cor: "apply_corrections e None iv = Inr (iv, [])"
    by (simp add: apply_corrections_def)
  consider (identity) a where "identity_gates e actor ?c iv = Inl a"
    | (figure) b where "identity_gates e actor ?c iv = Inr ()" "figure_gates e actor roles ?cfg None iv = Inl b"
    | (passed) "identity_gates e actor ?c iv = Inr ()" "figure_gates e actor roles ?cfg None iv = Inr ()"
    by (cases "identity_gates e actor ?c iv"; cases "figure_gates e actor roles ?cfg None iv") auto
  then show ?thesis
  proof cases
    case identity
    then show ?thesis by (simp add: approve_gates_def approve_invoice_def Let_def)
  next
    case figure
    then show ?thesis by (simp add: approve_gates_def approve_invoice_def cor Let_def)
  next
    case passed
    show ?thesis
    proof (cases "inst \<noteq> None \<and> ac_approver_strategy ?c = Some ''chain''")
      case False
      then show ?thesis
        using passed fin [of inst] fin [of None]
        by (auto simp: approve_gates_def approve_invoice_def cor Let_def split: option.splits)
    next
      case True
      then obtain i where "inst = Some i" by blast
      let ?r = "ensure_chain_routed (e_now e) (e_platform_currency e) (e_settings e) ?c iv (wi_state_data i)"
      show ?thesis
      proof (cases ?r)
        case (Inl err)
        with True passed cor \<open>inst = Some i\<close> ensure_chain_routed_or_empty show ?thesis
          by (simp add: approve_gates_def approve_invoice_def chain_level_gate_def Let_def)
      next
        case (Inr sd)
        show ?thesis
          using True passed cor \<open>inst = Some i\<close> ensure_chain_routed_or_empty Inr
            chain_state_or_empty [of sd] advance_or_empty [of "e_now e" actor sd] fin
          by (auto simp: approve_gates_def approve_invoice_def chain_level_gate_def Let_def bind_res_def
              split: option.splits sum.splits if_splits prod.splits)
      qed
    qed
  qed
qed

text \<open>
  Property C5. The verdict the invoice page reads is the endpoint's answer: with no
  corrections, on an invoice under review, \<open>review_refusals\<close> states no refusal exactly when
  \<open>approve_invoice\<close> succeeds, and otherwise states the code that \<open>approve_invoice\<close> raises; it
  always allows a rejection then.
\<close>

theorem verdict_is_the_answer:
  assumes "awaiting_review iv"
    and "review_refusals e True actor roles iv inst = Inr (approve_verdict, reject_verdict)"
  shows "reject_verdict = None \<and>
    (case approve_verdict of
       None \<Rightarrow> passes (approve_invoice e actor name roles None None iv inst fx)
     | Some why \<Rightarrow> \<exists>s. approve_invoice e actor name roles None None iv inst fx = Inl (HttpError s why))"
proof -
  have gates: "case approve_gates e actor roles iv inst of
      Inl (HttpError _ why) \<Rightarrow> approve_verdict = Some why \<and> reject_verdict = None
    | Inl _ \<Rightarrow> False
    | Inr _ \<Rightarrow> approve_verdict = None \<and> reject_verdict = None"
    using assms by (simp add: review_refusals_def refuse_unless_in_review_def split: sum.splits exc.splits)
  have st: "inv_status iv = ReadyForReview"
    using assms(1) by (simp add: awaiting_review_def)
  have fin: "passes (finalize_approval e actor name [] iv x fx)" for x
    using finalize_under_review [OF st, of e actor name "[]" x fx] by (auto simp: passes_def)
  have "case approve_gates e actor roles iv inst of
      Inl err \<Rightarrow> approve_invoice e actor name roles None None iv inst fx = Inl err
    | Inr _ \<Rightarrow> passes (approve_invoice e actor name roles None None iv inst fx)"
    by (rule gates_decide) (rule fin)
  with gates show ?thesis
    by (auto split: sum.splits exc.splits)
qed

text \<open>
  The chain is contingent on the workflow instance: an invoice that has none,
  governed by a definition whose approval step is a chain, is approved outright by the first
  actor who passes the other gates, whatever levels and named approvers the chain demands.
\<close>

theorem chain_skipped_without_instance:
  assumes "resolve_approval_config e iv None = Some c" and "ac_approver_strategy c = Some ''chain''"
    and "awaiting_review iv" and "\<not> violates_segregation iv (Some actor) c"
    and "figure_gates e actor roles (Some c) None iv = Inr ()"
  shows "\<exists>fx'. approve_invoice e actor name roles None None iv None fx =
    Inr (stamped (Some (e_today e)) (Some name) Approved iv, None, fx')"
proof -
  have "inv_status iv = ReadyForReview"
    using assms(3) by (simp add: awaiting_review_def)
  then obtain iv' inst' fx' where f: "finalize_approval e actor name [] iv None fx = Inr (iv', inst', fx')"
    and iv': "iv' = stamped (Some (e_today e)) (Some name) Approved iv" and "inst' = None"
    using finalize_under_review [of iv e actor name "[]" None fx] by auto
  have "identity_gates e actor c iv = Inr ()"
    using assms(2,4) by (simp add: identity_gates_def check_segregation_def)
  with assms f iv' \<open>inst' = None\<close> show ?thesis
    by (simp add: approve_invoice_def config_or_empty_def apply_corrections_def Let_def)
qed

text \<open>
  Property C9. A rejected invoice starts its approvals over: rejection and resubmission leave
  no chain state on the instance and count the rejection, the invoice is back under review,
  and exactly one step is open, a fresh approval step, with the cursor on it.
\<close>

theorem rework_restarts_approval:
  assumes "length (open_steps (wi_steps i)) \<le> 1"
    and "reject_invoice e actor name reason iv (Some i) fx = Inr (iv1, Some i1, raised, fx1)"
    and "resubmit_invoice e' author iv1 (Some i1) fx1 = Inr (iv2, Some i2, fx2)"
  shows "chain_state_of (wi_state_data i2) = None \<and> awaiting_review iv2 \<and>
    sd_rejection_count (state_or_empty (wi_state_data i2)) =
      Some (1 + (case sd_rejection_count (state_or_empty (wi_state_data i)) of None \<Rightarrow> 0 | Some n \<Rightarrow> n)) \<and>
    (\<exists>s. open_steps (wi_steps i2) = [s] \<and> ws_type s = ''approval'' \<and>
         ws_number s = wi_current_step i2 + 1) \<and>
    raised = (''review_rejected'', reason)"
proof -
  have rs: "resolve_step_type (Some ''review'') = ''approval''"
    by (simp add: resolve_step_type_def step_type_aliases_def)
  have rej: "i1 = (complete_current_step (e_now e) ''rejected'' i)\<lparr>wi_state_data := Some (clear_chain_state
      ((state_or_empty (wi_state_data i))\<lparr>sd_rejection_count :=
         Some ((case sd_rejection_count (state_or_empty (wi_state_data i)) of None \<Rightarrow> 0 | Some k \<Rightarrow> k) + 1)\<rparr>))\<rparr>"
    "raised = (''review_rejected'', reason)"
    using assms(2)
    by (auto simp: reject_invoice_def bind_res_Inr_iff Let_def complete_current_step_frame)
  have "passes (create_workflow_step (e_now e') (Some ''review'') None i1)"
    using assms(3) by (cases "create_workflow_step (e_now e') (Some ''review'') None i1")
      (auto simp: resubmit_invoice_def bind_res_Inr_iff)
  then obtain i3 where c: "create_workflow_step (e_now e') (Some ''review'') None i1 = Inr i3"
    by (auto simp: passes_iff)
  have i2: "i2 = i3\<lparr>wi_current_step := 1\<rparr>" and st: "inv_status iv2 = ReadyForReview"
    using assms(3) c by (auto simp: resubmit_invoice_def bind_res_Inr_iff elim!: transition_invoice_InrE)
  have none: "open_steps (wi_steps i1) = []"
    using complete_current_step_open [of "e_now e" "''rejected''" i] assms(1) by (simp add: rej)
  from c show ?thesis
  proof (rule create_workflow_step_InrE)
    fix s
    assume s: "i3 = i1\<lparr>wi_steps := wi_steps i1 @ [s]\<rparr>" "ws_type s = resolve_step_type (Some ''review'')"
      "ws_completed_at s = None" "canonical_step_index (Some (ws_type s)) = Inr (ws_number s)"
    have "canonical_step_index (Some ''approval'') = Inr 2"
      by code_simp
    with s have "ws_number s = 2"
      by (simp add: rs)
    moreover have "open_steps (wi_steps i2) = [s]"
      using none s(1,3) i2 by (simp add: open_steps_append open_steps_def [of "[_]"])
    ultimately show ?thesis
      using s i2 rej st rs
      by (simp add: awaiting_review_def chain_state_of_def clear_chain_state_def state_or_empty_def)
  qed
qed

section \<open>Concrete approvals\<close>

definition sample_env :: "approval_config \<Rightarrow> env" where
  "sample_env c = \<lparr>e_now = 10, e_today = 1, e_occurrence = ''o-1'', e_platform_currency = ''USD'',
     e_settings = PDict [], e_org = ''org'', e_users = [],
     e_definitions = [\<lparr>wd_id = ''d'', wd_org = ''org'', wd_entity = None, wd_active = True,
        wd_default = True, wd_created_at = 0,
        wd_steps = Some [\<lparr>sc_type = Some ''approval'', sc_enabled = None, sc_config = Some (ApprovalStep c)\<rparr>]\<rparr>],
     e_invoices = [], e_pos = [], e_receipts = [], e_ap_managers = None,
     e_refuse_gl = (\<lambda>_ _. Inr ()), e_match_vendor = (\<lambda>_. None), e_refuse_stranding = (\<lambda>_ _. Inr ()),
     e_refresh = (\<lambda>x. x), e_signature = (\<lambda>_ _ _ _. None)\<rparr>"

definition review_invoice :: invoice where
  "review_invoice = sample_invoice\<lparr>inv_status := ReadyForReview\<rparr>"

definition review_instance :: instance_row where
  "review_instance = \<lparr>wi_current_step = 1, wi_state = ''active'', wi_state_data = None,
     wi_snapshot = None,
     wi_steps = [\<lparr>ws_number = 2, ws_type = ''approval'', ws_assigned_to = None,
        ws_original_assigned_to = None, ws_action = None, ws_completed_at = None, ws_created_at = 1\<rparr>]\<rparr>"

definition cfo_config :: approval_config where
  "cfo_config = empty_approval_config\<lparr>ac_require_cfo_above := PInt 500\<rparr>"

lemma resolve_sample:
  "inst = None \<or> inst = Some review_instance \<Longrightarrow>
     resolve_approval_config (sample_env c) review_invoice inst = Some c"
  by (auto simp: resolve_approval_config_def sample_env_def review_instance_def review_invoice_def
      sample_invoice_def get_step_config_def steps_of_def resolve_active_workflow_definition_def
      first_definition_def Let_def)



lemma verdict_is_the_answer_witness:
  "\<exists>s. approve_invoice (sample_env sample_chain_config) ''u-x'' ''Xen'' {} None None
      review_invoice (Some review_instance) no_effects = Inl (HttpError s ''approval_not_named_approver'')"
proof -
  have "review_refusals (sample_env sample_chain_config) True ''u-x'' {} review_invoice (Some review_instance)
      = Inr (Some ''approval_not_named_approver'', None)"
    by code_simp
  from verdict_is_the_answer [OF _ this, of "''Xen''" no_effects] show ?thesis
    by (simp add: awaiting_review_def review_invoice_def)
qed

lemma chain_skipped_without_instance_witness:
  "\<exists>iv' fx'. approve_invoice (sample_env sample_chain_config) ''u-x'' ''Xen'' {} None None
      review_invoice None no_effects = Inr (iv', None, fx') \<and> inv_status iv' = Approved"
proof -
  have "\<not> violates_segregation review_invoice (Some ''u-x'') sample_chain_config"
    by code_simp
  moreover have "figure_gates (sample_env sample_chain_config) ''u-x'' {} (Some sample_chain_config) None review_invoice = Inr ()"
    by code_simp
  moreover have "resolve_approval_config (sample_env sample_chain_config) review_invoice None = Some sample_chain_config"
    by (rule resolve_sample) simp
  moreover have "ac_approver_strategy sample_chain_config = Some ''chain''" "awaiting_review review_invoice"
    by (simp_all add: sample_chain_config_def awaiting_review_def review_invoice_def)
  ultimately show ?thesis
    using chain_skipped_without_instance [of "sample_env sample_chain_config" review_invoice
        sample_chain_config "''u-x''" "{}" "''Xen''" no_effects]
    by auto
qed

lemma rework_restarts_approval_witness:
  "\<exists>iv1 i1 raised fx1 iv2 i2 fx2.
     reject_invoice (sample_env sample_chain_config) ''m1'' ''Mia'' ''wrong PO'' review_invoice
       (Some (review_instance\<lparr>wi_state_data := sample_state2\<rparr>)) no_effects = Inr (iv1, Some i1, raised, fx1) \<and>
     resubmit_invoice (sample_env sample_chain_config) ''u-clerk'' iv1 (Some i1) fx1 = Inr (iv2, Some i2, fx2) \<and>
     chain_state_of (wi_state_data i2) = None"
proof -
  let ?e = "sample_env sample_chain_config" and ?i = "review_instance\<lparr>wi_state_data := sample_state2\<rparr>"
  obtain iv1 i1 raised fx1 where 1: "reject_invoice ?e ''m1'' ''Mia'' ''wrong PO'' review_invoice (Some ?i) no_effects
      = Inr (iv1, Some i1, raised, fx1)" and "inv_status iv1 = Rejected"
    by (auto simp: reject_invoice_def transition_invoice_def validate_transition_def Let_def review_invoice_def)
  moreover have "passes (create_workflow_step (e_now ?e) (Some ''review'') None i1)"
    by (simp add: create_workflow_step_def canonical_step_index_def resolve_step_type_def
        step_type_aliases_def canonical_step_types_def)
  ultimately obtain iv2 i2 fx2 where 2: "resubmit_invoice ?e ''u-clerk'' iv1 (Some i1) fx1 = Inr (iv2, Some i2, fx2)"
    by (auto simp: resubmit_invoice_def transition_invoice_def validate_transition_def Let_def passes_iff)
  have "length (open_steps (wi_steps ?i)) \<le> 1"
    by (simp add: review_instance_def open_steps_def)
  from rework_restarts_approval [OF this 1 2] 1 2 show ?thesis
    by blast
qed

end
