(* ===== verification/Settlement.thy ===== *)
theory Settlement
  imports CurrencyLock
begin

text \<open>
  \<open>services/payment_settlement.py\<close> and \<open>services/numeric_bounds.py\<close>: what the processor
  reported against what was authorised, what of the report is stored, and whether the stored
  settlement discharges the invoice.

  A report is absent, a \<open>Decimal\<close> (finite or not), or something \<open>Decimal(value)\<close> refuses.
  Quantising raises \<open>InvalidOperation\<close> past 28 digits; where the code does not catch it, it is
  the result.
\<close>

section \<open>Columns\<close>

text \<open>\<open>fits_numeric(value, p, s)\<close>: the column rounds the fraction, then checks the range.\<close>

definition fits_numeric :: "dec option \<Rightarrow> nat \<Rightarrow> nat \<Rightarrow> bool" where
  "fits_numeric v p s = (case v of
       Some (Fin r) \<Rightarrow> (case quantize s r of None \<Rightarrow> False | Some q \<Rightarrow> \<bar>q\<bar> < 10 ^ (p - s))
     | _ \<Rightarrow> False)"

section \<open>Reports and authorised legs\<close>

datatype report = Absent | Reported dec | NotANumber

datatype settlement_outcome = Matched | AmountMismatch | CurrencyMismatch | Unverified

definition is_discrepancy :: "settlement_outcome \<Rightarrow> bool" where
  "is_discrepancy s = (s = AmountMismatch \<or> s = CurrencyMismatch)"

definition settlement_tolerance :: rat where
  "settlement_tolerance = 1 / 100"

record authorized_leg =
  lg_amount :: rat
  lg_currency :: "string option"
  lg_leg :: string

record settlement_verification =
  sv_outcome :: settlement_outcome
  sv_reason :: "string option"
  sv_variance :: "rat option"
  sv_settled_amount :: "dec option"
  sv_settled_currency :: "string option"
  sv_authorized_amount :: rat
  sv_authorized_currency :: "string option"
  sv_authorized_leg :: string

definition coerce_reported_amount :: "report \<Rightarrow> dec option" where
  "coerce_reported_amount v = (case v of Reported d \<Rightarrow> Some d | _ \<Rightarrow> None)"

definition usable_reported_amount :: "report \<Rightarrow> rat option" where
  "usable_reported_amount v = (case coerce_reported_amount v of
       Some (Fin r) \<Rightarrow> quantize 2 r
     | _ \<Rightarrow> None)"

text \<open>No currency on either side is a wildcard.\<close>

definition same_currency :: "string option \<Rightarrow> string option \<Rightarrow> bool" where
  "same_currency a b = (case (a, b) of
       (Some x, Some y) \<Rightarrow> py_upper (py_strip x) = py_upper (py_strip y)
     | _ \<Rightarrow> True)"

definition build_authorized_legs ::
  "rat \<Rightarrow> string option \<Rightarrow> rat option \<Rightarrow> string option \<Rightarrow> exc + authorized_leg list" where
  "build_authorized_legs target_amount target_currency source_amount source_currency =
     bind_res (quantize_money target_amount) (\<lambda>t.
       let target = \<lparr>lg_amount = t, lg_currency = target_currency, lg_leg = ''target''\<rparr>
       in case source_amount of
            None \<Rightarrow> Inr [target]
          | Some s \<Rightarrow> bind_res (quantize_money s) (\<lambda>q.
              if q = t \<and> same_currency source_currency target_currency then Inr [target]
              else Inr [target, \<lparr>lg_amount = q, lg_currency = source_currency, lg_leg = ''source''\<rparr>]))"

section \<open>Verification\<close>

definition verdict_of ::
  "settlement_outcome \<Rightarrow> string option \<Rightarrow> rat option \<Rightarrow> dec option \<Rightarrow> string option \<Rightarrow> authorized_leg \<Rightarrow>
     settlement_verification" where
  "verdict_of outcome reason variance settled cur leg =
     \<lparr>sv_outcome = outcome, sv_reason = reason, sv_variance = variance, sv_settled_amount = settled,
      sv_settled_currency = cur, sv_authorized_amount = lg_amount leg,
      sv_authorized_currency = lg_currency leg, sv_authorized_leg = lg_leg leg\<rparr>"

definition gap :: "rat \<Rightarrow> authorized_leg \<Rightarrow> rat" where
  "gap settled leg = \<bar>dsub settled (lg_amount leg)\<bar>"

definition verify_settlement ::
  "report \<Rightarrow> string option \<Rightarrow> rat \<Rightarrow> string option \<Rightarrow> rat option \<Rightarrow> string option \<Rightarrow>
     exc + settlement_verification" where
  "verify_settlement reported reported_currency target_amount target_currency source_amount source_currency =
     bind_res (build_authorized_legs target_amount target_currency source_amount source_currency) (\<lambda>legs.
       let target_leg = hd legs
       in if reported = Absent then
            Inr (verdict_of Unverified (Some ''provider_reported_no_amount'') None None
                   (if reported_currency = Some [] then None else reported_currency) target_leg)
          else case usable_reported_amount reported of
              None \<Rightarrow> Inr (verdict_of Unverified (Some ''provider_reported_unusable_amount'') None
                            (coerce_reported_amount reported) reported_currency target_leg)
            | Some settled \<Rightarrow>
                (let candidates = filter (\<lambda>l. same_currency reported_currency (lg_currency l)) legs
                 in case candidates of
                      [] \<Rightarrow> Inr (verdict_of CurrencyMismatch (Some ''settled_currency_not_authorized'') None
                                   (Some (Fin settled)) reported_currency target_leg)
                    | c # cs \<Rightarrow>
                        (case List.find (\<lambda>l. gap settled l \<le> settlement_tolerance) candidates of
                           Some l \<Rightarrow> bind_res (quantize_money (dsub settled (lg_amount l))) (\<lambda>v.
                             Inr (verdict_of Matched None (Some v) (Some (Fin settled)) reported_currency l))
                         | None \<Rightarrow>
                             let closest = min_by (gap settled) c cs
                             in bind_res (quantize_money (dsub settled (lg_amount closest))) (\<lambda>v.
                                  Inr (verdict_of AmountMismatch (Some ''settled_amount_differs_from_authorization'')
                                         (Some v) (Some (Fin settled)) reported_currency closest)))))"

section \<open>What is stored\<close>

definition persistable_settled_amount :: "report \<Rightarrow> dec option \<times> bool" where
  "persistable_settled_amount v =
     (if v = Absent then (None, False)
      else if usable_reported_amount v = None then (None, True)
      else if fits_numeric (coerce_reported_amount v) 15 2 then (coerce_reported_amount v, False)
      else (None, True))"

section \<open>Coverage\<close>

datatype coverage_state = Covered | Short | Uncertain

record settlement_cover =
  co_state :: coverage_state
  co_reason :: "string option"
  co_shortfall :: "rat option"

definition completes_invoice :: "settlement_cover \<Rightarrow> bool" where
  "completes_invoice c = (co_state c = Covered)"

text \<open>The stored amount is a column value, hence finite.\<close>

definition settlement_coverage ::
  "rat option \<Rightarrow> string option \<Rightarrow> rat \<Rightarrow> string option \<Rightarrow> rat option \<Rightarrow> string option \<Rightarrow> bool \<Rightarrow>
     exc + settlement_cover" where
  "settlement_coverage settled_amount settled_currency target_amount target_currency source_amount
       source_currency unstorable =
     (if unstorable then
        Inr \<lparr>co_state = Uncertain, co_reason = Some ''settled_amount_exceeded_the_column'', co_shortfall = None\<rparr>
      else case settled_amount of
          None \<Rightarrow> Inr \<lparr>co_state = Covered, co_reason = Some ''no_settled_amount_on_record'', co_shortfall = None\<rparr>
        | Some a \<Rightarrow>
            bind_res (build_authorized_legs target_amount target_currency source_amount source_currency) (\<lambda>legs.
              let candidates = filter (\<lambda>l. same_currency settled_currency (lg_currency l)) legs
              in case candidates of
                   [] \<Rightarrow> Inr \<lparr>co_state = Uncertain,
                              co_reason = Some ''settled_currency_matches_no_authorized_leg'', co_shortfall = None\<rparr>
                 | c # cs \<Rightarrow>
                     bind_res (quantize_money a) (\<lambda>settled.
                       if list_ex (\<lambda>l. dsub (lg_amount l) settlement_tolerance \<le> settled) candidates
                       then Inr \<lparr>co_state = Covered, co_reason = None, co_shortfall = None\<rparr>
                       else let smallest = lg_amount (min_by lg_amount c cs)
                         in bind_res (quantize_money (dsub smallest settled)) (\<lambda>s.
                              Inr \<lparr>co_state = Short, co_reason = Some ''settled_below_every_authorized_leg'',
                                   co_shortfall = Some s\<rparr>))))"

end
