(* ===== verification/PaymentControls.thy ===== *)
theory PaymentControls
  imports Segregation Settlement
begin

text \<open>
  \<open>services/payment_controls.py\<close>: who may commit an outflow. Maker-checker on a payment run,
  the refusals of every run and payment action (one function per action, read by the endpoint
  and by the page), and the CFO threshold of the payment path. Rows are the columns of
  \<open>models/payment.py\<close> these functions read; the English sentence of a refusal is left out.
\<close>

section \<open>Rows\<close>

record payment_run =
  pr_id :: uid
  pr_entity_id :: "uid option"
  pr_status :: string
  pr_total_amount :: "rat option"
  pr_initiated_by :: "uid option"
  pr_executed_at :: "stamp option"
  pr_requires_cfo_approval :: bool
  pr_cfo_approved_by :: "uid option"
  pr_cfo_approved_at :: "stamp option"
  pr_plan_id :: "string option"
  pr_nacha_export_count :: nat

record payment =
  py_id :: uid
  py_invoice_id :: uid
  py_run_id :: "uid option"
  py_amount :: rat
  py_method :: "string option"
  py_status :: string
  py_provider_payment_id :: "string option"
  py_failure_reason :: "string option"
  py_retry_of :: "uid option"
  py_discount_offer_id :: "uid option"
  py_discount_amount :: "rat option"
  py_dispatch_attempted_at :: "stamp option"
  py_settled_amount :: "rat option"
  py_settled_currency :: "string option"
  py_settled_unstorable :: bool
  py_source_currency :: "string option"
  py_source_amount :: "rat option"
  py_provider :: "string option"
  py_reference :: "string option"
  py_submitted_at :: "stamp option"
  py_completed_at :: "stamp option"

text \<open>\<open>ActionRefusal\<close>: the code, the status and the parameters of the coded form.\<close>

record refusal =
  rf_code :: string
  rf_http :: nat
  rf_params :: "(string \<times> pyval) list"

definition refuse :: "string \<Rightarrow> nat \<Rightarrow> refusal option" where
  "refuse c h = Some \<lparr>rf_code = c, rf_http = h, rf_params = []\<rparr>"

text \<open>The endpoint raises the refusal its gate returns.\<close>

definition raise_refusal :: "refusal option \<Rightarrow> exc + unit" where
  "raise_refusal r = (case r of None \<Rightarrow> Inr () | Some f \<Rightarrow> Inl (HttpError (rf_http f) (rf_code f)))"

section \<open>Maker-checker\<close>

text \<open>\<open>Organization.settings["payments"]\<close>, a JSON object or absent.\<close>

type_synonym payment_config = "(string \<times> pyval) list option"

definition config_or_empty :: "payment_config \<Rightarrow> (string \<times> pyval) list" where
  "config_or_empty c = (case c of None \<Rightarrow> [] | Some d \<Rightarrow> d)"

definition run_segregation_enabled :: "payment_config \<Rightarrow> bool" where
  "run_segregation_enabled c =
     (pget_default (config_or_empty c) ''require_run_segregation'' (PBool True) \<noteq> PBool False)"

definition run_segregation_violated :: "uid option \<Rightarrow> uid option \<Rightarrow> payment_config \<Rightarrow> bool" where
  "run_segregation_violated initiated_by actor c =
     (if \<not> run_segregation_enabled c then False
      else case (initiated_by, actor) of (Some i, Some a) \<Rightarrow> i = a | _ \<Rightarrow> False)"

definition check_run_segregation :: "uid option \<Rightarrow> uid \<Rightarrow> payment_config \<Rightarrow> exc + unit" where
  "check_run_segregation initiated_by actor c =
     raise_if (run_segregation_violated initiated_by (Some actor) c) (HttpError 403 ''payment_run_segregation'')"

interpretation run_making: seg_policy run_segregation_enabled set_option run_segregation_violated
  by unfold_locales (auto simp: run_segregation_violated_def split: option.splits)

section \<open>Run actions\<close>

definition not_draft :: "refusal option" where
  "not_draft = refuse ''payment_run_not_draft'' 409"

definition segregation_refusal :: "refusal option" where
  "segregation_refusal = refuse ''payment_run_segregation'' 403"

definition segregation_for :: "string \<Rightarrow> refusal option" where
  "segregation_for step =
     Some \<lparr>rf_code = ''payment_run_segregation'', rf_http = 403, rf_params = [(''step'', PStr step)]\<rparr>"

definition awaiting_cfo :: "refusal option" where
  "awaiting_cfo = refuse ''payment_run_awaiting_cfo'' 403"

definition run_approve_refusal :: "payment_run \<Rightarrow> uid \<Rightarrow> payment_config \<Rightarrow> refusal option" where
  "run_approve_refusal r actor c =
     (if pr_status r \<noteq> ''draft'' then not_draft
      else if \<not> pr_requires_cfo_approval r then refuse ''payment_run_cfo_not_required'' 409
      else if pr_cfo_approved_at r \<noteq> None then refuse ''payment_run_already_cfo_approved'' 409
      else if run_segregation_violated (pr_initiated_by r) (Some actor) c then segregation_refusal
      else None)"

definition run_execute_refusal :: "payment_run \<Rightarrow> uid \<Rightarrow> payment_config \<Rightarrow> refusal option" where
  "run_execute_refusal r actor c =
     (if pr_status r \<noteq> ''draft'' then not_draft
      else if run_segregation_violated (pr_initiated_by r) (Some actor) c then segregation_refusal
      else if pr_requires_cfo_approval r \<and> pr_cfo_approved_at r = None then awaiting_cfo
      else None)"

definition run_cancel_refusal :: "payment_run \<Rightarrow> refusal option" where
  "run_cancel_refusal r = (if pr_status r \<noteq> ''draft'' then not_draft else None)"

definition retryable_run_statuses :: "string list" where
  "retryable_run_statuses = [''partial'', ''failed'']"

definition run_retry_failed_refusal ::
  "payment_run \<Rightarrow> string \<Rightarrow> int \<Rightarrow> uid \<Rightarrow> payment_config \<Rightarrow> refusal option" where
  "run_retry_failed_refusal r effective_status retryable_failures actor c =
     (if effective_status \<notin> set retryable_run_statuses then refuse ''payment_run_not_retryable'' 409
      else if run_segregation_violated (pr_initiated_by r) (Some actor) c then segregation_refusal
      else if pr_requires_cfo_approval r \<and> pr_cfo_approved_at r = None then awaiting_cfo
      else if retryable_failures \<le> 0 then refuse ''payment_run_nothing_to_retry'' 409
      else None)"

definition run_sync_erp_refusal :: "int \<Rightarrow> refusal option" where
  "run_sync_erp_refusal settled =
     (if settled \<le> 0 then refuse ''payment_run_nothing_settled'' 409 else None)"

definition recordable_run_statuses :: "string list" where
  "recordable_run_statuses = [''draft'', ''exported'']"

definition run_record_outside_refusal ::
  "payment_run \<Rightarrow> uid \<Rightarrow> payment_config \<Rightarrow> int option \<Rightarrow> refusal option" where
  "run_record_outside_refusal r actor c pending =
     (if pr_status r \<notin> set recordable_run_statuses then refuse ''payment_run_not_recordable'' 409
      else if run_segregation_violated (pr_initiated_by r) (Some actor) c then segregation_for ''record_outside''
      else if pr_requires_cfo_approval r \<and> pr_cfo_approved_at r = None then awaiting_cfo
      else if (case pending of None \<Rightarrow> False | Some n \<Rightarrow> n \<le> 0)
           then refuse ''payment_run_nothing_to_record'' 409
      else None)"

text \<open>The state part of the bank-file gate, then its configuration, then the controls.\<close>

definition run_nacha_export_refusal ::
  "payment_run \<Rightarrow> uid \<Rightarrow> payment_config \<Rightarrow> bool \<Rightarrow> bool \<Rightarrow> string list \<Rightarrow> int \<Rightarrow> refusal option" where
  "run_nacha_export_refusal r actor c regenerate record_only problems pending =
     (if regenerate \<and> pr_status r \<noteq> ''exported'' then refuse ''nacha_nothing_to_regenerate'' 409
      else if \<not> regenerate \<and> pr_status r = ''exported'' then refuse ''nacha_already_exported'' 409
      else if \<not> regenerate \<and> pr_status r \<noteq> ''draft'' then refuse ''nacha_run_not_exportable'' 409
      else if \<not> record_only then refuse ''nacha_requires_record_only'' 409
      else if problems \<noteq> [] then
        Some \<lparr>rf_code = ''nacha_not_configured'', rf_http = 409,
              rf_params = [(''missing'', PList (map PStr problems))]\<rparr>
      else if run_segregation_violated (pr_initiated_by r) (Some actor) c then segregation_for ''nacha_export''
      else if pr_requires_cfo_approval r \<and> pr_cfo_approved_at r = None then awaiting_cfo
      else if pending \<le> 0 then refuse ''nacha_nothing_to_export'' 409
      else None)"

definition run_nacha_void_refusal :: "payment_run \<Rightarrow> refusal option" where
  "run_nacha_void_refusal r =
     (if pr_status r \<noteq> ''exported'' then refuse ''nacha_run_not_exported'' 409 else None)"

section \<open>Payment actions\<close>

definition voidable_payment_statuses :: "string list" where
  "voidable_payment_statuses = [''submitted'', ''processing'', ''completed'']"

definition payment_void_refusal :: "payment \<Rightarrow> refusal option" where
  "payment_void_refusal p =
     (if py_status p \<in> {''voided'', ''cancelled''} then refuse ''payment_void_terminal'' 409
      else if py_status p = ''failed'' then refuse ''payment_void_failed'' 409
      else if py_status p = ''pending_compliance'' then refuse ''payment_void_compliance_hold'' 409
      else if py_status p = ''pending'' \<and> py_run_id p = None then None
      else if py_status p = ''pending'' then refuse ''payment_void_not_sent'' 409
      else if py_status p \<notin> set voidable_payment_statuses then refuse ''payment_void_terminal'' 409
      else None)"

definition compliance_hold_refusal :: "payment \<Rightarrow> refusal option" where
  "compliance_hold_refusal p =
     (if py_status p = ''pending_compliance'' then None
      else refuse ''payment_not_on_compliance_hold'' 409)"

definition payment_settlement_coverage :: "payment \<Rightarrow> invoice option \<Rightarrow> exc + settlement_cover" where
  "payment_settlement_coverage p iv =
     settlement_coverage (py_settled_amount p) (py_settled_currency p) (py_amount p)
       (case iv of None \<Rightarrow> None | Some i \<Rightarrow> currency i) (py_source_amount p) (py_source_currency p)
       (py_settled_unstorable p)"

definition settlement_accept_refusal :: "payment \<Rightarrow> invoice option \<Rightarrow> exc + refusal option" where
  "settlement_accept_refusal p iv =
     (if py_status p \<noteq> ''completed'' then Inr (refuse ''payment_settlement_not_completed'' 409)
      else bind_res (payment_settlement_coverage p iv) (\<lambda>c. Inr (
        if completes_invoice c then refuse ''payment_settlement_covered'' 409
        else case iv of
            None \<Rightarrow> refuse ''payment_settlement_not_held'' 409
          | Some i \<Rightarrow> if inv_status i \<noteq> PaymentScheduled then refuse ''payment_settlement_not_held'' 409
                      else None)))"

section \<open>The CFO threshold\<close>

record cfo_decision =
  cd_required :: bool
  cd_reason :: "string option"
  cd_threshold :: "dec option"
  cd_evaluated_amount :: "rat option"
  cd_currency :: string

definition cfo_approval_decision ::
  "payment_config \<Rightarrow> rat \<Rightarrow> string \<Rightarrow> bool \<Rightarrow> exc + cfo_decision" where
  "cfo_approval_decision c amt rc unconverted =
     (let raw = pget (config_or_empty c) ''cfo_approval_above'';
          cur = py_upper (py_strip (or_str (Some rc) ''USD''));
          none = \<lparr>cd_required = False, cd_reason = None, cd_threshold = None,
                  cd_evaluated_amount = None, cd_currency = cur\<rparr>
      in if raw = PNone then Inr none
         else case decimal_of_str raw of
             None \<Rightarrow> Inr (none\<lparr>cd_required := True, cd_reason := Some ''threshold_unparseable''\<rparr>)
           | Some threshold \<Rightarrow>
               (case dec_less (Fin 0) threshold of
                  None \<Rightarrow> Inl (PyError InvalidOperation)
                | Some positive \<Rightarrow>
                    if \<not> positive then Inr (none\<lparr>cd_threshold := Some threshold\<rparr>)
                    else if unconverted then
                      Inr (none\<lparr>cd_required := True, cd_threshold := Some threshold,
                                cd_reason := Some ''amount_not_expressible_in_reporting_currency''\<rparr>)
                    else
                      (let over = (case dec_less threshold (Fin amt) of
                                     None \<Rightarrow> False | Some b \<Rightarrow> b)
                       in Inr \<lparr>cd_required = over,
                               cd_reason = (if over then Some ''above_threshold'' else None),
                               cd_threshold = Some threshold,
                               cd_evaluated_amount = Some amt, cd_currency = cur\<rparr>)))"

section \<open>Facts\<close>

lemmas run_gate_defs = run_approve_refusal_def run_execute_refusal_def run_retry_failed_refusal_def
  run_record_outside_refusal_def run_nacha_export_refusal_def
lemmas refusal_defs = refuse_def not_draft_def segregation_refusal_def segregation_for_def awaiting_cfo_def

declare refusal_defs [guard_defs]

lemma raise_refusal_passes [simp]: "raise_refusal r = Inr u \<longleftrightarrow> r = None"
  by (auto simp: raise_refusal_def split: option.splits)

text \<open>The two controls every money-moving gate enforces.\<close>

definition cleared :: "payment_run \<Rightarrow> uid \<Rightarrow> payment_config \<Rightarrow> bool" where
  "cleared r actor c = (\<not> run_segregation_violated (pr_initiated_by r) (Some actor) c
     \<and> (pr_requires_cfo_approval r \<longrightarrow> pr_cfo_approved_at r \<noteq> None))"

lemma execute_cleared: "run_execute_refusal r a c = None \<longleftrightarrow> pr_status r = ''draft'' \<and> cleared r a c"
  by (auto simp: run_execute_refusal_def cleared_def guard_defs)

lemma retry_cleared:
  "run_retry_failed_refusal r s n a c = None \<longleftrightarrow>
     s \<in> {''partial'', ''failed''} \<and> cleared r a c \<and> 0 < n"
  by (auto simp: run_retry_failed_refusal_def cleared_def retryable_run_statuses_def guard_defs)

lemma record_cleared:
  "run_record_outside_refusal r a c n = None \<longleftrightarrow>
     pr_status r \<in> {''draft'', ''exported''} \<and> cleared r a c \<and> (\<forall>k. n = Some k \<longrightarrow> 0 < k)"
  by (auto simp: run_record_outside_refusal_def cleared_def recordable_run_statuses_def guard_defs
      split: option.splits)

lemma nacha_cleared:
  "run_nacha_export_refusal r a c regen ro probs n = None \<longleftrightarrow>
     pr_status r = (if regen then ''exported'' else ''draft'') \<and> ro \<and> probs = [] \<and> cleared r a c \<and> 0 < n"
  by (auto simp: run_nacha_export_refusal_def cleared_def guard_defs)

lemma approve_cleared:
  "run_approve_refusal r a c = None \<longleftrightarrow>
     pr_status r = ''draft'' \<and> pr_requires_cfo_approval r \<and> pr_cfo_approved_at r = None
       \<and> \<not> run_segregation_violated (pr_initiated_by r) (Some a) c"
  by (auto simp: run_approve_refusal_def guard_defs)

section \<open>The threshold, read as a gate\<close>

text \<open>
  The payment path's CFO gate: it raises exactly on a NaN threshold; whatever
  else is configured that is not a number, or any amount that could not be expressed in the
  reporting currency under a positive threshold, requires the CFO; it stays silent only when
  the threshold is absent, not positive, or was compared with this very amount and not
  exceeded; and what it requires at one amount it requires at every larger one.
\<close>

theorem cfo_decision_sound:
  fixes c :: payment_config
  defines "raw \<equiv> pget (config_or_empty c) ''cfo_approval_above''"
  shows "(cfo_approval_decision c a rc u = Inl e \<longleftrightarrow>
           decimal_of_str raw = Some NaN \<and> e = PyError InvalidOperation)
    \<and> (cfo_approval_decision c a rc u = Inr d \<and> raw \<noteq> PNone \<and>
         (decimal_of_str raw = None \<or> (\<exists>t. decimal_of_str raw = Some (Fin t) \<and> 0 < t \<and> u))
         \<longrightarrow> cd_required d)
    \<and> (cfo_approval_decision c a rc u = Inr d \<and> \<not> cd_required d \<longrightarrow>
         raw = PNone
         \<or> (\<exists>t. decimal_of_str raw = Some t \<and> dec_less (Fin 0) t = Some False)
         \<or> (\<exists>t. decimal_of_str raw = Some t \<and> \<not> u \<and> cd_evaluated_amount d = Some a
              \<and> dec_less t (Fin a) = Some False))
    \<and> (cfo_approval_decision c a rc u = Inr d \<and> cfo_approval_decision c b rc u = Inr d'
         \<and> cd_required d \<and> a \<le> b \<longrightarrow> cd_required d')"
proof (cases "raw = PNone")
  case True
  then show ?thesis
    by (auto simp: cfo_approval_decision_def raw_def)
next
  case set: False
  show ?thesis
  proof (cases "decimal_of_str raw")
    case None
    with set show ?thesis
      by (auto simp: cfo_approval_decision_def raw_def Let_def)
  next
    case (Some t)
    with set show ?thesis
      by (cases t) (auto simp: cfo_approval_decision_def raw_def Let_def)
  qed
qed

theorem cfo_decision_sound_witness:
  "\<exists>d. cfo_approval_decision (Some [(''cfo_approval_above'', PStr ''10,000'')]) 1 ''usd'' False = Inr d
    \<and> cd_required d"
proof -
  let ?c = "Some [(''cfo_approval_above'', PStr ''10,000'')]"
  have n: "decimal_of_str (pget (config_or_empty ?c) ''cfo_approval_above'') = None"
    by code_simp
  have st: "pget (config_or_empty ?c) ''cfo_approval_above'' \<noteq> PNone"
    by code_simp
  note snd = cfo_decision_sound [of ?c 1 "''usd''" False]
  show ?thesis
  proof (cases "cfo_approval_decision ?c 1 ''usd'' False")
    case (Inl e)
    then have "decimal_of_str (pget (config_or_empty ?c) ''cfo_approval_above'') = Some NaN"
      using snd [THEN conjunct1, THEN iffD1] by blast
    with n show ?thesis by simp
  next
    case (Inr d)
    with n st snd [THEN conjunct2, THEN conjunct1, rule_format, of d] show ?thesis by simp
  qed
qed

text \<open>
  An infinite threshold is a positive number no amount exceeds: it switches the gate off,
  where the approval step's gate reads the same setting as unusable and fires.
\<close>

theorem infinite_threshold_never_fires:
  "\<exists>d. cfo_approval_decision (Some [(''cfo_approval_above'', PStr ''Infinity'')]) a rc False = Inr d
    \<and> \<not> cd_required d"
proof -
  have "decimal_of_str (pget (config_or_empty (Some [(''cfo_approval_above'', PStr ''Infinity'')]))
      ''cfo_approval_above'') = Some PosInf"
    by code_simp
  moreover have "pget (config_or_empty (Some [(''cfo_approval_above'', PStr ''Infinity'')]))
      ''cfo_approval_above'' \<noteq> PNone"
    by code_simp
  ultimately show ?thesis
    by (auto simp: cfo_approval_decision_def Let_def)
qed

theorem nan_threshold_raises:
  "cfo_approval_decision (Some [(''cfo_approval_above'', PStr ''nan'')]) 0 [] u = Inl (PyError InvalidOperation)"
  by (cases u) (code_simp, code_simp)

end
