(* ===== verification/DiscountOffers.thy ===== *)
theory DiscountOffers
  imports CurrencyLock WorkflowEngine
begin

text \<open>
  \<open>services/discount_offers.py\<close>: early-payment discount offers. Tiers and their windows, the
  best tier a date still earns, the savings, and the life of an offer.

  A tier as a caller sends it is a JSON value; a stored one is the canonical form
  \<open>normalize_tier\<close> writes, whose percent string denotes a number of two decimals. Dates are
  proleptic ordinals, and leaving the years 1 to 9999 raises \<open>OverflowError\<close>.
\<close>

section \<open>Dates\<close>

definition max_ordinal :: int where
  "max_ordinal = 3652059"

text \<open>\<open>d + timedelta(days=n)\<close>.\<close>

definition add_days :: "date \<Rightarrow> int \<Rightarrow> exc + date" where
  "add_days d n =
     (if 999999999 < \<bar>n\<bar> \<or> d + n < 1 \<or> max_ordinal < d + n then Inl (PyError OverflowError)
      else Inr (d + n))"

text \<open>The UTC date of an instant, on the Unix epoch.\<close>

definition utc_date :: "stamp \<Rightarrow> date" where
  "utc_date t = 719163 + t div (24 * hour)"

section \<open>Tiers\<close>

record tier =
  tr_days :: int
  tr_percent :: rat

text \<open>\<open>int(s)\<close>: white space at the ends, a sign, and single underscores between digits.\<close>

definition py_int_str :: "string \<Rightarrow> int option" where
  "py_int_str s =
     (let (neg, t) = skip_sign (py_strip s); parts = py_split CHR ''_'' t
      in if list_all (\<lambda>p. p \<noteq> [] \<and> list_all is_ascii_digit p) parts
         then Some ((if neg then - 1 else 1) * int (digits_val (concat parts))) else None)"

definition dec_to_int :: "dec \<Rightarrow> exc + int" where
  "dec_to_int d = (case d of
       Fin r \<Rightarrow> Inr (if 0 \<le> r then \<lfloor>r\<rfloor> else \<lceil>r\<rceil>)
     | NaN \<Rightarrow> Inl (PyError ValueError)
     | _ \<Rightarrow> Inl (PyError OverflowError))"

text \<open>\<open>int(v)\<close>.\<close>

definition py_int :: "pyval \<Rightarrow> exc + int" where
  "py_int v = (case v of
       PInt i \<Rightarrow> Inr i
     | PBool b \<Rightarrow> Inr (if b then 1 else 0)
     | PFloat d \<Rightarrow> dec_to_int d
     | PDec d \<Rightarrow> dec_to_int d
     | PStr s \<Rightarrow> (case py_int_str s of None \<Rightarrow> Inl (PyError ValueError) | Some i \<Rightarrow> Inr i)
     | _ \<Rightarrow> Inl (PyError TypeError))"

text \<open>\<open>0 < p < 100\<close>, the second comparison only when the first holds.\<close>

definition percent_in_range :: "dec \<Rightarrow> exc + bool" where
  "percent_in_range p = (case dec_less (Fin 0) p of
       None \<Rightarrow> Inl (PyError InvalidOperation)
     | Some b \<Rightarrow> if \<not> b then Inr False
         else (case dec_less p (Fin 100) of None \<Rightarrow> Inl (PyError InvalidOperation) | Some c \<Rightarrow> Inr c))"

definition q_pct :: "rat \<Rightarrow> exc + rat" where
  "q_pct r = quantize_money r"

text \<open>The \<open>except\<close> clause of the days: only these two errors become \<open>ValueError\<close>.\<close>

definition days_of :: "pyval \<Rightarrow> exc + int" where
  "days_of v = (case py_int v of
       Inl e \<Rightarrow> Inl (if e \<in> {PyError TypeError, PyError ValueError} then PyError ValueError else e)
     | Inr i \<Rightarrow> Inr i)"

text \<open>The percent: out of range is a \<open>ValueError\<close>, a NaN is caught by nothing.\<close>

definition percent_of :: "pyval \<Rightarrow> exc + rat" where
  "percent_of v = (case decimal_of_str v of
       None \<Rightarrow> Inl (PyError ValueError)
     | Some p \<Rightarrow> bind_res (percent_in_range p) (\<lambda>ok.
         if \<not> ok then Inl (PyError ValueError)
         else case p of Fin r \<Rightarrow> q_pct r | _ \<Rightarrow> Inl (PyError ValueError)))"

definition normalize_tier :: "pyval \<Rightarrow> exc + tier" where
  "normalize_tier t = (case t of
       PDict d \<Rightarrow>
         (case (map_of d ''days'', map_of d ''percent'') of
            (Some dv, Some pv) \<Rightarrow>
              bind_res (days_of dv) (\<lambda>days.
                if days < 0 then Inl (PyError ValueError)
                else bind_res (percent_of pv) (\<lambda>q. Inr \<lparr>tr_days = days, tr_percent = q\<rparr>))
          | _ \<Rightarrow> Inl (PyError ValueError))
     | _ \<Rightarrow> Inl (PyError ValueError))"

text \<open>A stored tier read back as the JSON object it is.\<close>

definition tier_json :: "tier \<Rightarrow> pyval" where
  "tier_json t = PDict [(''days'', PInt (tr_days t)), (''percent'', PDec (Fin (tr_percent t)))]"

fun normalize_all :: "pyval list \<Rightarrow> exc + tier list" where
  "normalize_all [] = Inr []"
| "normalize_all (t # ts) = bind_res (normalize_tier t) (\<lambda>u. bind_res (normalize_all ts) (\<lambda>us. Inr (u # us)))"

definition parse_tiers :: "pyval list \<Rightarrow> exc + tier list" where
  "parse_tiers ts =
     (if ts = [] then Inl (PyError ValueError)
      else bind_res (normalize_all ts) (\<lambda>us.
        if distinct (map tr_days us) then Inr (sort_key tr_days us) else Inl (PyError ValueError)))"

section \<open>Offers\<close>

record discount_offer =
  of_id :: uid
  of_scope :: string
  of_invoice_id :: "uid option"
  of_vendor_id :: "uid option"
  of_status :: string
  of_tiers :: "tier list"
  of_base_amount :: rat
  of_currency :: "string option"
  of_valid_from :: "date option"
  of_valid_until :: "date option"
  of_created_at :: "stamp option"
  of_accepted_tier :: "tier option"
  of_accepted_at :: "stamp option"
  of_accepted_by :: "uid option"
  of_captured_amount :: "rat option"
  of_captured_at :: "stamp option"
  of_captured_by_payment_id :: "uid option"

section \<open>Tier selection\<close>

definition select_tier :: "tier list \<Rightarrow> int \<Rightarrow> tier option" where
  "select_tier ts days = List.find (\<lambda>t. tr_days t = days) ts"

definition offer_reference_date :: "discount_offer \<Rightarrow> date option" where
  "offer_reference_date f = (case of_valid_from f of
       Some d \<Rightarrow> Some d
     | None \<Rightarrow> map_option utc_date (of_created_at f))"

definition past :: "date option \<Rightarrow> date \<Rightarrow> bool" where
  "past valid_until d = (case valid_until of None \<Rightarrow> False | Some u \<Rightarrow> u < d)"

definition tier_achievable :: "tier \<Rightarrow> date \<Rightarrow> date option \<Rightarrow> date \<Rightarrow> exc + bool" where
  "tier_achievable t as_of valid_until ref =
     (if past valid_until as_of then Inr False
      else bind_res (add_days ref (tr_days t)) (\<lambda>deadline. Inr (as_of \<le> deadline)))"

fun best_tier_from :: "date \<Rightarrow> date option \<Rightarrow> date \<Rightarrow> tier option \<Rightarrow> tier list \<Rightarrow> exc + tier option" where
  "best_tier_from as_of valid_until ref best [] = Inr best"
| "best_tier_from as_of valid_until ref best (t # ts) =
     bind_res (tier_achievable t as_of valid_until ref) (\<lambda>ok.
       best_tier_from as_of valid_until ref
         (if ok \<and> (case best of None \<Rightarrow> True | Some b \<Rightarrow> tr_percent b < tr_percent t) then Some t else best)
         ts)"

text \<open>\<open>reference_date\<close> defaults to \<open>as_of\<close>.\<close>

definition best_tier_for_date ::
  "tier list \<Rightarrow> date \<Rightarrow> date option \<Rightarrow> date option \<Rightarrow> exc + tier option" where
  "best_tier_for_date ts as_of valid_until reference_date =
     (if past valid_until as_of then Inr None
      else best_tier_from as_of valid_until
        (case reference_date of None \<Rightarrow> as_of | Some r \<Rightarrow> r) None ts)"

definition select_tier_for_date ::
  "tier list \<Rightarrow> int \<Rightarrow> date \<Rightarrow> date option \<Rightarrow> date option \<Rightarrow> exc + tier option" where
  "select_tier_for_date ts days as_of valid_until reference_date =
     (case select_tier ts days of
        None \<Rightarrow> Inr None
      | Some t \<Rightarrow>
          bind_res (tier_achievable t as_of valid_until
             (case reference_date of None \<Rightarrow> as_of | Some r \<Rightarrow> r))
            (\<lambda>ok. Inr (if ok then Some t else None)))"

definition tier_deadline :: "discount_offer \<Rightarrow> tier \<Rightarrow> date \<Rightarrow> exc + date" where
  "tier_deadline f t fallback_reference =
     bind_res (add_days (case offer_reference_date f of None \<Rightarrow> fallback_reference | Some r \<Rightarrow> r) (tr_days t))
       (\<lambda>deadline. Inr (case of_valid_until f of
            None \<Rightarrow> deadline
          | Some u \<Rightarrow> if u < deadline then u else deadline))"

definition accepted_discount_deadline :: "discount_offer \<Rightarrow> exc + date option" where
  "accepted_discount_deadline f =
     (case of_accepted_tier f of
        None \<Rightarrow> Inr None
      | Some t \<Rightarrow> if offer_reference_date f = None then Inr None
                  else bind_res (tier_deadline f t 1) (\<lambda>d. Inr (Some d)))"

section \<open>Expiry\<close>

definition has_lapsed :: "discount_offer \<Rightarrow> date \<Rightarrow> bool" where
  "has_lapsed f as_of = (of_status f = ''offered'' \<and> past (of_valid_until f) as_of)"

definition effective_status :: "discount_offer \<Rightarrow> date \<Rightarrow> string" where
  "effective_status f as_of = (if has_lapsed f as_of then ''expired'' else of_status f)"

section \<open>Savings\<close>

definition discount_savings :: "rat \<Rightarrow> tier \<Rightarrow> exc + rat" where
  "discount_savings base t = quantize_money (ddiv (dmul base (tr_percent t)) 100)"

section \<open>The life of an offer\<close>

text \<open>\<open>frontier.pop()\<close> takes the last element; the order of the successors is the listing's.\<close>

function awaits_search :: "inv_status set \<Rightarrow> inv_status list \<Rightarrow> bool" where
  "awaits_search seen frontier =
     (if frontier = [] then False
      else let current = last frontier; rest = butlast frontier
        in if current \<in> seen \<or> current \<in> {Paid, Done} then awaits_search seen rest
           else if current \<in> {Approved, PostedInErp, PaymentScheduled} then True
           else awaits_search (insert current seen)
                  (rest @ filter (\<lambda>s. s \<in> valid_transitions current) all_statuses))"
  by pat_completeness auto

definition unseen :: "inv_status set \<Rightarrow> nat" where
  "unseen seen = card (UNIV - seen)"

lemma unseen_insert: "c \<notin> seen \<Longrightarrow> unseen (insert c seen) < unseen seen"
proof -
  assume "c \<notin> seen"
  moreover have "finite (UNIV :: inv_status set)"
    using all_statuses_complete by (metis List.finite_set finite_subset subsetI)
  ultimately show ?thesis
    unfolding unseen_def by (intro psubset_card_mono) auto
qed

termination awaits_search
  by (relation "measures [\<lambda>(seen, _). unseen seen, \<lambda>(_, f). length f]")
     (auto simp: unseen_insert)

declare awaits_search.simps [simp del]

definition invoice_awaits_payment :: "inv_status \<Rightarrow> bool" where
  "invoice_awaits_payment s = awaits_search {} [s]"

definition accept_offer :: "discount_offer \<Rightarrow> pyval \<Rightarrow> uid option \<Rightarrow> stamp \<Rightarrow> exc + discount_offer" where
  "accept_offer f t actor now =
     (if of_status f \<noteq> ''offered'' then Inl (PyError ValueError)
      else bind_res (normalize_tier t) (\<lambda>u.
        Inr (f\<lparr>of_accepted_tier := Some u, of_accepted_at := Some now, of_accepted_by := actor,
               of_status := ''accepted''\<rparr>)))"

text \<open>\<open>as_of - timedelta(days=1)\<close>: today is never the first day of year 1.\<close>

definition decline_window_closed :: "discount_offer \<Rightarrow> date \<Rightarrow> bool" where
  "decline_window_closed f as_of = (of_status f = ''offered'' \<and> past (of_valid_until f) (as_of - 1))"

definition decline_offer :: "discount_offer \<Rightarrow> date \<Rightarrow> exc + discount_offer" where
  "decline_offer f as_of =
     (if decline_window_closed f as_of then Inl (PyError ValueError)
      else if of_status f \<noteq> ''offered'' then Inl (PyError ValueError)
      else Inr (f\<lparr>of_status := ''declined''\<rparr>))"

definition mark_captured :: "discount_offer \<Rightarrow> rat \<Rightarrow> stamp \<Rightarrow> uid option \<Rightarrow> exc + discount_offer" where
  "mark_captured f amt now payment_id =
     (if of_status f \<noteq> ''accepted'' then Inl (PyError ValueError)
      else bind_res (quantize_money amt) (\<lambda>q.
        Inr (f\<lparr>of_captured_amount := Some q, of_captured_at := Some now,
               of_captured_by_payment_id := payment_id, of_status := ''captured''\<rparr>)))"

definition reverse_capture :: "discount_offer \<Rightarrow> exc + rat \<times> discount_offer" where
  "reverse_capture f =
     (if of_status f \<noteq> ''captured'' then Inl (PyError ValueError)
      else bind_res (quantize_money (case of_captured_amount f of None \<Rightarrow> 0 | Some a \<Rightarrow> a)) (\<lambda>q.
        Inr (q, f\<lparr>of_captured_amount := None, of_captured_at := None,
                  of_captured_by_payment_id := None, of_status := ''accepted''\<rparr>)))"

definition expire_if_past :: "discount_offer \<Rightarrow> date \<Rightarrow> bool \<times> discount_offer" where
  "expire_if_past f as_of =
     (if \<not> has_lapsed f as_of then (False, f) else (True, f\<lparr>of_status := ''expired''\<rparr>))"

section \<open>Bulk negotiation\<close>

record bulk_negotiation =
  bn_vendor_id :: uid
  bn_base_amount :: rat
  bn_tiers :: "tier list"
  bn_valid_until :: "date option"
  bn_invoice_count :: nat

definition dsum :: "rat list \<Rightarrow> rat" where
  "dsum xs = foldl dadd 0 xs"

definition build_bulk_offer ::
  "uid \<Rightarrow> rat list \<Rightarrow> pyval list \<Rightarrow> date option \<Rightarrow> exc + bulk_negotiation" where
  "build_bulk_offer vendor open_amounts tiers valid_until =
     (if open_amounts = [] then Inl (PyError ValueError)
      else bind_res (quantize_money (dsum open_amounts)) (\<lambda>base.
        if base \<le> 0 then Inl (PyError ValueError)
        else bind_res (parse_tiers tiers) (\<lambda>ts.
          Inr \<lparr>bn_vendor_id = vendor, bn_base_amount = base, bn_tiers = ts,
               bn_valid_until = valid_until, bn_invoice_count = length open_amounts\<rparr>)))"

end
