(* ===== verification/PaymentRuns.thy ===== *)
theory PaymentRuns
  imports PaymentControls DiscountOffers
    "HOL-Library.List_Lexorder" "HOL-Library.Char_ord" "HOL-Library.Product_Lexorder"
begin

text \<open>
  \<open>services/payment_runs.py\<close> with the two services it nets and discounts by
  (\<open>applied_credit_integrity.py\<close>, \<open>discount_capture.py\<close>): how a run is rolled up, which
  failed payments may be sent again, what a payment against an invoice moves, what refuses an
  invoice, how a draft run is built, and what is re-checked before its money moves.

  The tables are lists of rows and a query is a filter; SQL \<open>SUM\<close> is exact. Locks,
  savepoints and the races they exclude are not modelled: an operation runs alone.
\<close>

section \<open>Rollup\<close>

definition live_payment_terminal_statuses :: "string list" where
  "live_payment_terminal_statuses = [''voided'', ''failed'', ''cancelled'']"

definition run_payment_in_flight_statuses :: "string list" where
  "run_payment_in_flight_statuses = [''submitted'', ''processing'', ''pending_compliance'']"

record rollup =
  ro_total :: nat
  ro_completed :: nat
  ro_failed :: nat
  ro_in_flight :: nat
  ro_pending :: nat

definition run_status :: "rollup \<Rightarrow> string" where
  "run_status r =
     (if ro_failed r \<noteq> 0 \<and> \<not> (ro_completed r \<noteq> 0 \<or> ro_in_flight r \<noteq> 0) then ''failed''
      else if ro_failed r \<noteq> 0 then ''partial''
      else if ro_in_flight r \<noteq> 0 then ''submitted''
      else if ro_total r = 0 then ''draft''
      else if ro_pending r \<noteq> 0 then ''executing''
      else if ro_completed r = ro_total r then ''completed''
      else if ro_completed r \<noteq> 0 then ''partial'' else ''failed'')"

definition empty_rollup :: rollup where
  "empty_rollup = \<lparr>ro_total = 0, ro_completed = 0, ro_failed = 0, ro_in_flight = 0, ro_pending = 0\<rparr>"

definition bucket :: "rollup \<Rightarrow> string \<Rightarrow> rollup" where
  "bucket r s =
     (let r = r\<lparr>ro_total := ro_total r + 1\<rparr>
      in if s = ''completed'' then r\<lparr>ro_completed := ro_completed r + 1\<rparr>
         else if s \<in> set live_payment_terminal_statuses then r\<lparr>ro_failed := ro_failed r + 1\<rparr>
         else if s \<in> set run_payment_in_flight_statuses then r\<lparr>ro_in_flight := ro_in_flight r + 1\<rparr>
         else if s = ''pending'' then r\<lparr>ro_pending := ro_pending r + 1\<rparr>
         else r)"

definition rollup_payment_statuses :: "string list \<Rightarrow> rollup" where
  "rollup_payment_statuses ss = foldl bucket empty_rollup ss"

definition one_currency :: "string option list \<Rightarrow> string option" where
  "one_currency codes = (case remdups codes of [c] \<Rightarrow> c | _ \<Rightarrow> None)"

definition claim_run_statuses :: "string list" where
  "claim_run_statuses = [''draft'', ''exported'', ''executing'', ''cancelled'']"

definition derive_run_status :: "string option \<Rightarrow> rollup \<Rightarrow> string" where
  "derive_run_status persisted r =
     (let s = or_str persisted ''draft'' in if s \<in> set claim_run_statuses then s else run_status r)"

definition superseded_payment_ids :: "payment list \<Rightarrow> uid set" where
  "superseded_payment_ids ps = set (List.map_filter py_retry_of ps)"

definition active_run_payments :: "payment list \<Rightarrow> payment list" where
  "active_run_payments ps = filter (\<lambda>p. py_id p \<notin> superseded_payment_ids ps) ps"

definition recompute_run_status :: "payment list \<Rightarrow> payment_run \<Rightarrow> payment_run" where
  "recompute_run_status rows r =
     r\<lparr>pr_status := derive_run_status (Some (pr_status r))
         (rollup_payment_statuses (map py_status (active_run_payments rows)))\<rparr>"

section \<open>What may be sent again\<close>

definition retry_safe_prefixes :: "string list" where
  "retry_safe_prefixes =
     [''compliance_refusal:'', ''compliance_dismissed'', ''international_payment_error:'',
      ''card_issuance_conflict'', ''card_issuance_failed'', ''cards_not_enabled'', ''method '' @ [CHR 0x27],
      ''net_amount_changed'', ''discount_changed'', ''invoice_not_payable'', ''applied_credit_mismatch:'',
      ''invoice_blocked:'', ''vendor_not_active:'', ''invoice_has_live_card'',
      ''card_limit_exceeds_payment'', ''erp_bill_not_open:'', ''erp_bill_unverified'',
      ''erp_bill_void_pending'', ''erp_bill_unlinked:'', ''invoice_locked'']"

definition retry_safe_suffixes :: "string list" where
  "retry_safe_suffixes =
     [''_not_configured'', ''_no_counterparty'', ''_no_external_account'',
      ''_no_destination_funding_source'', ''_missing_mailing_address'', ''_idempotency_unavailable'']"

datatype failure_class = RetrySafe | InDoubt

definition classify_payment_failure :: "string option \<Rightarrow> string option \<Rightarrow> bool \<Rightarrow> failure_class" where
  "classify_payment_failure failure_reason provider_payment_id dispatch_attempted =
     (if or_str provider_payment_id [] \<noteq> [] \<or> dispatch_attempted then InDoubt
      else let reason = py_strip (or_str failure_reason [])
        in if reason = [] then InDoubt
           else if list_ex (py_startswith reason) retry_safe_prefixes then RetrySafe
           else if list_ex (py_endswith reason) retry_safe_suffixes then RetrySafe
           else InDoubt)"

definition is_retry_safe :: "payment \<Rightarrow> bool" where
  "is_retry_safe p = (classify_payment_failure (py_failure_reason p) (py_provider_payment_id p)
     (py_dispatch_attempted_at p \<noteq> None) = RetrySafe)"

section \<open>Tables\<close>

record exception_row =
  ex_id :: uid
  ex_invoice_id :: "uid option"
  ex_type :: string
  ex_status :: string
  ex_severity :: string
  ex_raised_by :: "uid option"
  ex_created_at :: "stamp option"
  ex_resolution :: "string option"
  ex_resolved_by :: "string option"
  ex_resolved_at :: "stamp option"
  ex_seconds_to_resolution :: "int option"
  ex_description_code :: "string option"
  ex_fingerprint :: "string option"
  ex_erp_kind :: "string option"

record vendor_row =
  vr_id :: uid
  vr_status :: "string option"
  vr_payments_blocked :: "bool option"
  vr_screening_status :: "string option"

record credit_memo =
  cm_vendor_id :: uid
  cm_invoice_id :: "uid option"
  cm_amount :: rat
  cm_currency :: "string option"
  cm_status :: string

record virtual_card =
  vc_id :: uid
  vc_invoice_id :: "uid option"
  vc_payment_id :: "uid option"
  vc_status :: string
  vc_created_at :: stamp

record tables =
  tb_invoices :: "invoice list"
  tb_exceptions :: "exception_row list"
  tb_vendors :: "vendor_row list"
  tb_memos :: "credit_memo list"
  tb_cards :: "virtual_card list"
  tb_offers :: "discount_offer list"
  tb_payments :: "payment list"
  tb_runs :: "payment_run list"

section \<open>Blocking exceptions\<close>

definition payment_blocking_exception_types :: "string list" where
  "payment_blocking_exception_types =
     [''duplicate'', ''fraud_flag'', ''line_total_mismatch'', ''payment_reconciliation'',
      ''quality_hold'', ''po_mismatch'']"

fun rank_in :: "string list \<Rightarrow> string \<Rightarrow> nat" where
  "rank_in [] t = 0"
| "rank_in (x # xs) t = (if x = t then 0 else Suc (rank_in xs t))"

text \<open>The entry of one invoice in the map \<open>blocking_exception_types\<close> returns.\<close>

definition blocking_exception_type ::
  "string list \<Rightarrow> uid set \<Rightarrow> exception_row list \<Rightarrow> uid \<Rightarrow> string option" where
  "blocking_exception_type blocking excluded rows i =
     foldl (\<lambda>held e. case held of
         None \<Rightarrow> Some (ex_type e)
       | Some h \<Rightarrow> if rank_in blocking (ex_type e) < rank_in blocking h then Some (ex_type e) else held)
       None
       (filter (\<lambda>e. ex_invoice_id e = Some i \<and> ex_type e \<in> set blocking
          \<and> ex_status e \<notin> {''resolved'', ''dismissed''} \<and> ex_id e \<notin> excluded) rows)"

section \<open>Vendors\<close>

record vendor_payability =
  vp_status :: string
  vp_payments_blocked :: bool
  vp_screening_status :: string

definition status_payable :: "vendor_payability \<Rightarrow> bool" where
  "status_payable v = (vp_status v = ''active'')"

definition sanctions_hold :: "vendor_payability \<Rightarrow> string option" where
  "sanctions_hold v =
     (if vp_payments_blocked v then Some ''payments_blocked''
      else if vp_screening_status v = ''match'' then Some ''sanctions_match''
      else if vp_screening_status v \<in> {''match'', ''review''} then Some ''sanctions_review''
      else None)"

definition vendor_payability_of :: "vendor_row list \<Rightarrow> invoice \<Rightarrow> vendor_payability option" where
  "vendor_payability_of vs iv = (case vendor_id iv of
       None \<Rightarrow> None
     | Some v \<Rightarrow> map_option (\<lambda>r. \<lparr>vp_status = or_str (vr_status r) ''unknown'',
           vp_payments_blocked = (vr_payments_blocked r = Some True),
           vp_screening_status = or_str (vr_screening_status r) ''unscreened''\<rparr>)
         (List.find (\<lambda>r. vr_id r = v) vs))"

definition inactive_vendor_status :: "vendor_row list \<Rightarrow> invoice \<Rightarrow> string option" where
  "inactive_vendor_status vs iv = (case vendor_payability_of vs iv of
       None \<Rightarrow> None
     | Some v \<Rightarrow> if status_payable v then None else Some (vp_status v))"

section \<open>Cards\<close>

definition live_card :: "virtual_card list \<Rightarrow> uid \<Rightarrow> bool" where
  "live_card cards i = list_ex (\<lambda>c. vc_invoice_id c = Some i \<and> vc_status c \<noteq> ''cancelled'') cards"

definition card_claimed :: "virtual_card list \<Rightarrow> uid \<Rightarrow> string option \<Rightarrow> bool" where
  "card_claimed cards i method =
     (py_lower (py_strip (or_str method [])) \<noteq> ''virtual_card'' \<and> live_card cards i)"

section \<open>Credits\<close>

definition applied_memos :: "credit_memo list \<Rightarrow> uid \<Rightarrow> credit_memo list" where
  "applied_memos ms i = filter (\<lambda>m. cm_invoice_id m = Some i \<and> cm_status m = ''applied'') ms"

definition applied_credit_total :: "credit_memo list \<Rightarrow> uid \<Rightarrow> rat" where
  "applied_credit_total ms i = sum_list (map cm_amount (applied_memos ms i))"

definition net_payable_amount :: "credit_memo list \<Rightarrow> invoice \<Rightarrow> rat" where
  "net_payable_amount ms iv = dsub (amount iv) (applied_credit_total ms (inv_id iv))"

definition norm_currency :: "string option \<Rightarrow> string" where
  "norm_currency c = py_upper (py_strip (or_str c []))"

text \<open>The broken pairing and the memo's currency; \<open>None\<close> when every memo still pairs.\<close>

definition pairing_conflict ::
  "uid option \<Rightarrow> string option \<Rightarrow> credit_memo list \<Rightarrow> bool \<Rightarrow> (string \<times> string) option" where
  "pairing_conflict vendor cur ms blank_is_a_change =
     (if ms = [] then None
      else if vendor = None \<or> list_ex (\<lambda>m. Some (cm_vendor_id m) \<noteq> vendor) ms then Some (''vendor'', [])
      else let current = norm_currency cur
        in if current \<noteq> [] \<or> blank_is_a_change then
             (case List.find (\<lambda>m. norm_currency (cm_currency m) \<noteq> []
                  \<and> norm_currency (cm_currency m) \<noteq> current) ms of
                None \<Rightarrow> None
              | Some m \<Rightarrow> Some (''currency'', norm_currency (cm_currency m)))
           else None)"

definition applied_credit_conflict :: "credit_memo list \<Rightarrow> invoice \<Rightarrow> string option" where
  "applied_credit_conflict ms iv =
     map_option fst (pairing_conflict (vendor_id iv) (currency iv) (applied_memos ms (inv_id iv)) False)"

text \<open>The edit guard; the sum starts at \<open>Decimal("0")\<close> and runs in the context.\<close>

definition refuse_edit_stranding_applied_credits :: "credit_memo list \<Rightarrow> invoice \<Rightarrow> bool \<Rightarrow> exc + unit" where
  "refuse_edit_stranding_applied_credits ms iv currency_edited =
     (let mine = applied_memos ms (inv_id iv)
      in if mine = [] then Inr ()
         else case pairing_conflict (vendor_id iv) (currency iv) mine currency_edited of
             Some (k, _) \<Rightarrow> Inl (HttpError 409 (''applied_credit_'' @ k))
           | None \<Rightarrow> raise_if (amount iv < dsum (map cm_amount mine)) (HttpError 409 ''applied_credit_amount''))"

section \<open>Discounts\<close>

record applied_discount =
  ad_offer_id :: uid
  ad_amount :: rat
  ad_deadline :: date

text \<open>\<open>quantize(Decimal("0.01"))\<close> under the context's own half-even rounding.\<close>

definition quantize_cents :: "rat \<Rightarrow> exc + rat" where
  "quantize_cents r =
     (let n = round_half_even (r * 10 ^ 2)
      in if \<bar>n\<bar> < 10 ^ 28 then Inr (of_int n / 10 ^ 2) else Inl (PyError InvalidOperation))"

text \<open>\<open>ORDER BY accepted_at ASC NULLS LAST, id\<close>.\<close>

definition offer_order :: "discount_offer \<Rightarrow> bool \<times> int \<times> string" where
  "offer_order f = (of_accepted_at f = None, (case of_accepted_at f of None \<Rightarrow> 0 | Some t \<Rightarrow> t), of_id f)"

definition accepted_offers :: "discount_offer list \<Rightarrow> uid \<Rightarrow> discount_offer list" where
  "accepted_offers fs i = sort_key offer_order
     (filter (\<lambda>f. of_invoice_id f = Some i \<and> of_scope f = ''invoice'' \<and> of_status f = ''accepted'') fs)"

fun memo_figures :: "credit_memo list \<Rightarrow> exc + (rat \<times> string) list" where
  "memo_figures [] = Inr []"
| "memo_figures (m # ms) = bind_res (quantize_cents (cm_amount m)) (\<lambda>q.
     bind_res (memo_figures ms) (\<lambda>qs. Inr ((q, py_upper (or_str (cm_currency m) [])) # qs)))"

text \<open>
  The loop over one invoice's offers: \<open>continue\<close> recurses, \<open>break\<close> and success return. The
  memo figures are those of the invoice.
\<close>

fun discount_from ::
  "invoice \<Rightarrow> date \<Rightarrow> rat \<Rightarrow> (rat \<times> string) list \<Rightarrow> discount_offer list \<Rightarrow> exc + applied_discount option" where
  "discount_from iv pay_date net figures [] = Inr None"
| "discount_from iv pay_date net figures (f # fs) =
     (case of_accepted_tier f of
        None \<Rightarrow> discount_from iv pay_date net figures fs
      | Some t \<Rightarrow>
          bind_res (accepted_discount_deadline f) (\<lambda>deadline.
            case deadline of
              None \<Rightarrow> discount_from iv pay_date net figures fs
            | Some dl \<Rightarrow>
                if dl < pay_date then discount_from iv pay_date net figures fs
                else if or_str (currency iv) [] = []
                     \<or> py_upper (or_str (of_currency f) []) \<noteq> py_upper (or_str (currency iv) [])
                then discount_from iv pay_date net figures fs
                else bind_res (quantize_cents (of_base_amount f)) (\<lambda>base.
                  bind_res (quantize_cents (amount iv)) (\<lambda>owed.
                    if base \<noteq> owed then discount_from iv pay_date net figures fs
                    else bind_res (discount_savings base t) (\<lambda>savings.
                      if savings \<le> 0 \<or> net \<le> savings then discount_from iv pay_date net figures fs
                      else if (savings, py_upper (or_str (currency iv) [])) \<in> set figures then Inr None
                      else Inr (Some \<lparr>ad_offer_id = of_id f, ad_amount = savings, ad_deadline = dl\<rparr>))))))"

definition applicable_discount ::
  "tables \<Rightarrow> invoice \<Rightarrow> date \<Rightarrow> rat \<Rightarrow> exc + applied_discount option" where
  "applicable_discount tb iv pay_date net =
     (let offers = accepted_offers (tb_offers tb) (inv_id iv)
      in bind_res (if offers = [] then Inr [] else memo_figures (applied_memos (tb_memos tb) (inv_id iv)))
           (\<lambda>figures. discount_from iv pay_date net figures offers))"

record payable =
  pa_amount :: rat
  pa_net :: rat
  pa_discount :: "applied_discount option"

definition pa_offer_id :: "payable \<Rightarrow> uid option" where
  "pa_offer_id p = map_option ad_offer_id (pa_discount p)"

definition payable_amount :: "tables \<Rightarrow> invoice \<Rightarrow> date \<Rightarrow> exc + payable" where
  "payable_amount tb iv pay_date =
     (let net = net_payable_amount (tb_memos tb) iv
      in bind_res (applicable_discount tb iv pay_date net) (\<lambda>d.
           Inr \<lparr>pa_amount = (case d of None \<Rightarrow> net | Some a \<Rightarrow> dsub net (ad_amount a)),
                pa_net = net, pa_discount = d\<rparr>))"

definition booked_discount_mismatch :: "payment \<Rightarrow> payable \<Rightarrow> bool" where
  "booked_discount_mismatch p q = (py_discount_offer_id p \<noteq> pa_offer_id q)"

section \<open>What refuses an invoice\<close>

definition payable_invoice_statuses :: "inv_status list" where
  "payable_invoice_statuses = [Approved, PostedInErp, PaymentScheduled]"

definition is_live :: "payment \<Rightarrow> bool" where
  "is_live p = (py_status p \<notin> set live_payment_terminal_statuses)"

definition live_payment :: "payment list \<Rightarrow> uid \<Rightarrow> bool" where
  "live_payment ps i = list_ex (\<lambda>p. py_invoice_id p = i \<and> is_live p) ps"

record run_refusal =
  rr_reason :: string
  rr_only_method :: "string option"

text \<open>The entry of one invoice in \<open>run_refusal_reasons\<close>; no method is the queue's question.\<close>

definition run_refusal_reason :: "tables \<Rightarrow> invoice \<Rightarrow> string option \<Rightarrow> run_refusal option" where
  "run_refusal_reason tb iv method =
     (let i = inv_id iv; because = (\<lambda>r. Some \<lparr>rr_reason = r, rr_only_method = None\<rparr>)
      in case blocking_exception_type payment_blocking_exception_types {} (tb_exceptions tb) i of
           Some t \<Rightarrow> because t
         | None \<Rightarrow>
             if inactive_vendor_status (tb_vendors tb) iv \<noteq> None then because ''vendor_not_active''
             else if card_claimed (tb_cards tb) i method then
               Some \<lparr>rr_reason = ''live_virtual_card'', rr_only_method = Some ''virtual_card''\<rparr>
             else if applied_credit_conflict (tb_memos tb) iv \<noteq> None then because ''applied_credit_mismatch''
             else if net_payable_amount (tb_memos tb) iv \<le> 0 then because ''fully_credited''
             else if live_payment (tb_payments tb) i then because ''live_payment''
             else None)"

end
