(* ===== verification/SettlementProofs.thy ===== *)
theory SettlementProofs
  imports Settlement
begin

text \<open>
  The two readings of one report: the verdict recorded when it arrives
  (\<open>verify_settlement\<close>) and the durable one that decides whether the invoice closes
  (\<open>settlement_coverage\<close>, over the stored amount). They agree; a report that cannot be
  stored never closes an invoice; and the verdict raises only for reports near the limit of
  the decimal context.
\<close>

section \<open>Exact differences\<close>

lemma has_scale_diff: "has_scale n a \<Longrightarrow> has_scale n b \<Longrightarrow> has_scale n (a - b)"
  unfolding has_scale_def left_diff_distrib by (metis floor_diff_of_int of_int_diff)

lemma dsub_scaled:
  assumes "has_scale n a" and "has_scale n b" and "\<bar>a - b\<bar> * 10 ^ n < 10 ^ 28"
  shows "dsub a b = a - b"
proof -
  let ?i = "\<lfloor>(a - b) * 10 ^ n\<rfloor>"
  have i: "of_int ?i = (a - b) * 10 ^ n"
    using has_scale_diff [OF assms(1,2)] by (simp add: has_scale_def)
  then have "of_int \<bar>?i\<bar> = \<bar>a - b\<bar> * (10 :: rat) ^ n"
    by (metis abs_mult abs_numeral of_int_abs power_abs)
  with assms(3) have "of_int \<bar>?i\<bar> < (of_int (10 ^ 28) :: rat)"
    by simp
  then have "\<bar>?i\<bar> < 10 ^ 28"
    by (simp only: of_int_less_iff)
  moreover have "a - b = of_int ?i / 10 ^ n"
    by (simp only: i) simp
  ultimately show ?thesis
    unfolding dsub_def by (rule ctx_exact [rotated])
qed

lemma quantize_money_scaled:
  "has_scale 2 r \<Longrightarrow> \<bar>r\<bar> < 10 ^ 26 \<Longrightarrow> quantize_money r = Inr r"
  by (simp add: quantize_money_def quantize_scaled)

lemma money_col_scaled: "money_col r \<Longrightarrow> has_scale 2 r" "money_col r \<Longrightarrow> \<bar>r\<bar> < 10 ^ 13"
  by (simp_all add: money_col_def)

lemma has_scale_cent: "has_scale 2 settlement_tolerance"
  by (simp add: has_scale_def settlement_tolerance_def)

lemma adjusted_eqI:
  assumes "pow10 e \<le> \<bar>r\<bar>" and "\<bar>r\<bar> < pow10 (e + 1)"
  shows "adjusted r = e"
proof -
  have "r \<noteq> 0"
    using assms(1) pow10_pos(1) [of e] by (auto simp: not_le [symmetric] simp del: pow10_pos)
  with assms pow10_adjusted_le [of r] pow10_adjusted_gt [of r]
  have "pow10 e < pow10 (adjusted r + 1)" "pow10 (adjusted r) < pow10 (e + 1)"
    by linarith+
  then show ?thesis
    by (simp add: pow10_less_iff)
qed

section \<open>The authorised legs\<close>

definition authorized :: "authorized_leg list \<Rightarrow> bool" where
  "authorized legs = (legs \<noteq> [] \<and> (\<forall>l\<in>set legs. money_col (lg_amount l)))"

lemma build_authorized_legs_cols:
  assumes "money_col t" and "\<And>s. src = Some s \<Longrightarrow> money_col s"
  obtains legs where "build_authorized_legs t tc src sc = Inr legs" and "authorized legs"
    and "hd legs = \<lparr>lg_amount = t, lg_currency = tc, lg_leg = ''target''\<rparr>"
proof (cases src)
  case (Some s)
  with assms that show thesis
    by (cases "s = t \<and> same_currency sc tc")
       (auto simp: build_authorized_legs_def quantize_money_col authorized_def Let_def)
qed (use assms that in \<open>auto simp: build_authorized_legs_def quantize_money_col authorized_def\<close>)

text \<open>A settled figure two places wide and below \<open>10 ^ 25\<close> compares exactly with every leg.\<close>

definition settled_ok :: "rat \<Rightarrow> bool" where
  "settled_ok s = (has_scale 2 s \<and> \<bar>s\<bar> < 10 ^ 25 + 1)"

lemma money_settled_ok: "money_col s \<Longrightarrow> settled_ok s"
  by (auto simp: settled_ok_def money_col_def)

lemma leg_difference:
  assumes "settled_ok s" and "money_col a"
  shows "dsub s a = s - a" and "dsub a s = a - s"
    and "quantize_money (s - a) = Inr (s - a)" and "quantize_money (a - s) = Inr (a - s)"
proof -
  have b: "\<bar>s - a\<bar> < 10 ^ 26" "\<bar>a - s\<bar> < 10 ^ 26"
    using assms by (auto simp: settled_ok_def money_col_def)
  have sc: "has_scale 2 s" "has_scale 2 a"
    using assms by (auto simp: settled_ok_def money_col_def)
  show "dsub s a = s - a" "dsub a s = a - s"
    using b sc by (auto intro!: dsub_scaled [of 2])
  show "quantize_money (s - a) = Inr (s - a)" "quantize_money (a - s) = Inr (a - s)"
    using b sc by (auto intro!: quantize_money_scaled has_scale_diff)
qed

lemma leg_floor: "money_col a \<Longrightarrow> dsub a settlement_tolerance = a - 1 / 100"
  using dsub_scaled [of 2 a settlement_tolerance] has_scale_cent
  by (auto simp: money_col_def settlement_tolerance_def)

section \<open>The verdict, over exact arithmetic\<close>

definition compatible :: "string option \<Rightarrow> authorized_leg list \<Rightarrow> authorized_leg list" where
  "compatible cur legs = filter (\<lambda>l. same_currency cur (lg_currency l)) legs"

lemma compatible_cols: "authorized legs \<Longrightarrow> l \<in> set (compatible cur legs) \<Longrightarrow> money_col (lg_amount l)"
  by (auto simp: authorized_def compatible_def)

lemma gap_exact:
  "settled_ok s \<Longrightarrow> authorized legs \<Longrightarrow> l \<in> set (compatible cur legs) \<Longrightarrow> gap s l = \<bar>s - lg_amount l\<bar>"
  by (simp add: gap_def leg_difference compatible_cols)

text \<open>What a usable report is verified to be, by the legs it is compatible with.\<close>

lemma verify_usable_cases:
  assumes legs: "build_authorized_legs t tc src sc = Inr legs" "authorized legs"
    and use: "usable_reported_amount rep = Some s" "settled_ok s"
  obtains
    (currency) "compatible cur legs = []"
      "verify_settlement rep cur t tc src sc =
         Inr (verdict_of CurrencyMismatch (Some ''settled_currency_not_authorized'') None
               (Some (Fin s)) cur (hd legs))"
  | (matched) l where "l \<in> set (compatible cur legs)" "\<bar>s - lg_amount l\<bar> \<le> 1 / 100"
      "verify_settlement rep cur t tc src sc =
         Inr (verdict_of Matched None (Some (s - lg_amount l)) (Some (Fin s)) cur l)"
  | (differs) l where "l \<in> set (compatible cur legs)"
      "\<And>k. k \<in> set (compatible cur legs) \<Longrightarrow> 1 / 100 < \<bar>s - lg_amount k\<bar>"
      "\<And>k. k \<in> set (compatible cur legs) \<Longrightarrow> \<bar>s - lg_amount l\<bar> \<le> \<bar>s - lg_amount k\<bar>"
      "verify_settlement rep cur t tc src sc =
         Inr (verdict_of AmountMismatch (Some ''settled_amount_differs_from_authorization'')
               (Some (s - lg_amount l)) (Some (Fin s)) cur l)"
proof -
  let ?cs = "compatible cur legs"
  have present: "rep \<noteq> Absent"
    using use by (auto simp: usable_reported_amount_def coerce_reported_amount_def)
  have exact: "gap s k = \<bar>s - lg_amount k\<bar>" if "k \<in> set ?cs" for k
    using that gap_exact use legs by blast
  have q: "bind_res (quantize_money (dsub s (lg_amount k))) f = f (s - lg_amount k)"
    if "k \<in> set ?cs" for k and f :: "rat \<Rightarrow> exc + settlement_verification"
    using leg_difference [OF use(2) compatible_cols [OF legs(2) that]] by simp
  note unf = verify_settlement_def legs(1) bind_res_simps Let_def present use(1) if_False
    option.simps compatible_def [symmetric]
  show thesis
  proof (cases ?cs)
    case Nil
    show thesis
      by (rule currency [OF Nil]) (simp add: unf Nil)
  next
    case (Cons c cs)
    show thesis
    proof (cases "List.find (\<lambda>l. gap s l \<le> settlement_tolerance) ?cs")
      case (Some l)
      then have l: "l \<in> set ?cs" "gap s l \<le> settlement_tolerance"
        by (auto dest: find_Some_D)
      show thesis
        by (rule matched [OF l(1)])
           (use l exact Some Cons q [OF l(1)] in \<open>simp_all add: unf settlement_tolerance_def\<close>)
    next
      case None
      let ?m = "min_by (gap s) c cs"
      have m: "?m \<in> set ?cs"
        using min_by_mem [of "gap s" c cs] Cons by simp
      show thesis
      proof (rule differs [OF m])
        show "1 / 100 < \<bar>s - lg_amount k\<bar>" if "k \<in> set ?cs" for k
          using find_None_D [OF None that] exact [OF that] by (simp add: settlement_tolerance_def)
        show "\<bar>s - lg_amount ?m\<bar> \<le> \<bar>s - lg_amount k\<bar>" if "k \<in> set ?cs" for k
          using min_by_le [of k c cs "gap s"] exact [OF that] exact [OF m] that Cons by simp
        show "verify_settlement rep cur t tc src sc =
          Inr (verdict_of AmountMismatch (Some ''settled_amount_differs_from_authorization'')
            (Some (s - lg_amount ?m)) (Some (Fin s)) cur ?m)"
          using None Cons q [OF m] by (simp add: unf)
      qed
    qed
  qed
qed

text \<open>What a stored amount is found to cover.\<close>

lemma coverage_cases:
  assumes legs: "build_authorized_legs t tc src sc = Inr legs" "authorized legs" and s: "money_col s"
  obtains
    (uncertain) "compatible cur legs = []"
      "settlement_coverage (Some s) cur t tc src sc False =
         Inr \<lparr>co_state = Uncertain, co_reason = Some ''settled_currency_matches_no_authorized_leg'',
              co_shortfall = None\<rparr>"
  | (covered) l where "l \<in> set (compatible cur legs)" "lg_amount l - 1 / 100 \<le> s"
      "settlement_coverage (Some s) cur t tc src sc False =
         Inr \<lparr>co_state = Covered, co_reason = None, co_shortfall = None\<rparr>"
  | (short) l where "l \<in> set (compatible cur legs)"
      "\<And>k. k \<in> set (compatible cur legs) \<Longrightarrow> s < lg_amount k - 1 / 100"
      "\<And>k. k \<in> set (compatible cur legs) \<Longrightarrow> lg_amount l \<le> lg_amount k"
      "settlement_coverage (Some s) cur t tc src sc False =
         Inr \<lparr>co_state = Short, co_reason = Some ''settled_below_every_authorized_leg'',
              co_shortfall = Some (lg_amount l - s)\<rparr>"
proof -
  let ?cs = "compatible cur legs"
  have fl: "dsub (lg_amount k) settlement_tolerance = lg_amount k - 1 / 100" if "k \<in> set ?cs" for k
    using that leg_floor compatible_cols legs by blast
  note unf = settlement_coverage_def legs(1) bind_res_simps Let_def option.simps if_False
    compatible_def [symmetric] quantize_money_col [OF s]
  show thesis
  proof (cases ?cs)
    case Nil
    show thesis
      by (rule uncertain [OF Nil]) (simp add: unf Nil)
  next
    case (Cons c cs)
    show thesis
    proof (cases "list_ex (\<lambda>l. dsub (lg_amount l) settlement_tolerance \<le> s) ?cs")
      case True
      then obtain l where l: "l \<in> set ?cs" "lg_amount l - 1 / 100 \<le> s"
        using fl by (auto simp: list_ex_iff)
      show thesis
        by (rule covered [OF l]) (use True Cons in \<open>simp add: unf\<close>)
    next
      case False
      let ?m = "min_by lg_amount c cs"
      have m: "?m \<in> set ?cs"
        using min_by_mem [of lg_amount c cs] Cons by simp
      show thesis
      proof (rule short [OF m])
        show "s < lg_amount k - 1 / 100" if "k \<in> set ?cs" for k
          using False fl [OF that] that by (auto simp: list_ex_iff not_le)
        show "lg_amount ?m \<le> lg_amount k" if "k \<in> set ?cs" for k
          using min_by_le [of k c cs lg_amount] that Cons by simp
        show "settlement_coverage (Some s) cur t tc src sc False =
          Inr \<lparr>co_state = Short, co_reason = Some ''settled_below_every_authorized_leg'',
               co_shortfall = Some (lg_amount ?m - s)\<rparr>"
          using False Cons leg_difference [OF money_settled_ok [OF s] compatible_cols [OF legs(2) m]]
          by (simp add: unf)
      qed
    qed
  qed
qed

section \<open>Reports and stored amounts\<close>

text \<open>What the \<open>Numeric(15, 2)\<close> column keeps of the persisted figure.\<close>

definition stored_settled_amount :: "dec option \<Rightarrow> rat option" where
  "stored_settled_amount v = (case v of Some (Fin r) \<Rightarrow> Some (round_to 2 r) | _ \<Rightarrow> None)"

lemma usable_Some_iff:
  "usable_reported_amount rep = Some s \<longleftrightarrow> (\<exists>r. rep = Reported (Fin r) \<and> quantize 2 r = Some s)"
  by (auto simp: usable_reported_amount_def coerce_reported_amount_def split: report.splits dec.splits)

lemma persistable_cases:
  obtains (absent) "rep = Absent" "persistable_settled_amount rep = (None, False)"
  | (unstorable) "rep \<noteq> Absent" "persistable_settled_amount rep = (None, True)"
  | (stored) r where "rep = Reported (Fin r)" "persistable_settled_amount rep = (Some (Fin r), False)"
      "usable_reported_amount rep = Some (round_to 2 r)" "money_col (round_to 2 r)"
proof (cases "rep \<noteq> Absent \<and> usable_reported_amount rep \<noteq> None \<and> fits_numeric (coerce_reported_amount rep) 15 2")
  case True
  then obtain r where r: "rep = Reported (Fin r)" "quantize 2 r = Some (round_to 2 r)"
    by (auto simp: usable_Some_iff dest: quantize_Some_D)
  with True have "money_col (round_to 2 r)"
    by (simp add: fits_numeric_def coerce_reported_amount_def money_col_def has_scale_round_to)
  with True r show thesis
    by (intro stored [of r])
       (auto simp: persistable_settled_amount_def coerce_reported_amount_def usable_Some_iff)
next
  case False
  then show thesis
    by (cases "rep = Absent"; intro absent unstorable)
       (auto simp: persistable_settled_amount_def)
qed

text \<open>
  Property C14. The recorded verdict and the durable reading agree on every report that is
  stored: neither raises; a matched settlement is covered; a currency that no leg authorises
  is exactly what coverage holds as uncertain; a short settlement was flagged as an amount
  mismatch, more than a cent under, by the very shortfall that is reported; and a mismatch in
  the vendor's favour still covers the invoice.
\<close>

theorem settlement_readings_agree:
  assumes legs: "money_col t" "\<And>s. src = Some s \<Longrightarrow> money_col s"
    and stored: "persistable_settled_amount rep = (Some (Fin r), False)"
  shows "\<exists>v c. verify_settlement rep cur t tc src sc = Inr v
    \<and> settlement_coverage (stored_settled_amount (Some (Fin r))) cur t tc src sc False = Inr c
    \<and> (sv_outcome v = Matched \<longrightarrow> co_state c = Covered)
    \<and> (sv_outcome v = CurrencyMismatch \<longleftrightarrow> co_state c = Uncertain)
    \<and> (co_state c = Short \<longrightarrow> sv_outcome v = AmountMismatch
         \<and> (\<exists>d. sv_variance v = Some d \<and> d < - 1 / 100 \<and> co_shortfall c = Some (- d)))
    \<and> (\<forall>d. sv_outcome v = AmountMismatch \<and> sv_variance v = Some d \<and> 0 < d \<longrightarrow> co_state c = Covered)"
proof -
  let ?s = "round_to 2 r"
  have use: "usable_reported_amount rep = Some ?s" and col: "money_col ?s"
    using stored by (cases rep rule: persistable_cases; simp)+
  obtain ls where ls: "build_authorized_legs t tc src sc = Inr ls" "authorized ls"
    using build_authorized_legs_cols [OF legs] by metis
  note vs = verify_usable_cases [OF ls use money_settled_ok [OF col], of cur]
  note cs = coverage_cases [OF ls col, of cur]
  have st: "stored_settled_amount (Some (Fin r)) = Some ?s"
    by (simp add: stored_settled_amount_def)
  show ?thesis
  proof (cases rule: cs [case_names uncertain covered short])
    case uncertain
    then show ?thesis
      by (cases rule: vs) (simp_all add: st verdict_of_def)
  next
    case (covered l)
    then show ?thesis
      by (cases rule: vs) (auto simp: st verdict_of_def)
  next
    case (short l)
    note k = short
    show ?thesis
    proof (cases rule: vs [case_names currency matched differs])
      case currency
      with k(1) show ?thesis by simp
    next
      case (matched m)
      with k(2) [of m] show ?thesis by simp
    next
      case (differs m)
      have "?s < lg_amount m - 1 / 100" "lg_amount l \<le> lg_amount m" "?s < lg_amount l - 1 / 100"
        using k differs(1) by auto
      moreover from this differs(3) [OF k(1)] have "lg_amount l = lg_amount m"
        by linarith
      ultimately show ?thesis
        using k(4) differs(4) by (simp add: st verdict_of_def)
    qed
  qed
qed

theorem settlement_readings_agree_witness:
  "\<exists>v c. verify_settlement (Reported (Fin (18001 / 200))) (Some ''usd'') 100 (Some ''USD'') None None = Inr v
    \<and> settlement_coverage (Some (9001 / 100)) (Some ''usd'') 100 (Some ''USD'') None None False = Inr c
    \<and> co_state c = Short \<and> sv_outcome v = AmountMismatch \<and> co_shortfall c = Some (999 / 100)"
proof -
  have m: "money_col 100" by code_simp
  have p: "persistable_settled_amount (Reported (Fin (18001 / 200))) = (Some (Fin (18001 / 200)), False)"
    by code_simp
  have r: "stored_settled_amount (Some (Fin (18001 / 200))) = Some (9001 / 100)" by code_simp
  have c: "settlement_coverage (Some (9001 / 100)) (Some ''usd'') 100 (Some ''USD'') None None False
      = Inr \<lparr>co_state = Short, co_reason = Some ''settled_below_every_authorized_leg'',
             co_shortfall = Some (999 / 100)\<rparr>"
    by code_simp
  show ?thesis
    using settlement_readings_agree [OF m _ p, of None "Some ''usd''" "Some ''USD''" None] c
    by (auto simp: r)
qed

lemma covering_report:
  assumes legs: "money_col t" "\<And>s. src = Some s \<Longrightarrow> money_col s"
    and rep: "rep \<noteq> Absent" "persistable_settled_amount rep = (a, u)"
    and cover: "settlement_coverage (stored_settled_amount a) cur t tc src sc u = Inr c" "completes_invoice c"
  shows "\<exists>r ls l. rep = Reported (Fin r) \<and> build_authorized_legs t tc src sc = Inr ls \<and> l \<in> set ls
    \<and> same_currency cur (lg_currency l) \<and> lg_amount l - 1 / 100 \<le> round_to 2 r"
proof -
  obtain ls where ls: "build_authorized_legs t tc src sc = Inr ls" "authorized ls"
    using build_authorized_legs_cols [OF legs] by metis
  show ?thesis
  proof (cases rep rule: persistable_cases)
    case absent
    with rep show ?thesis by simp
  next
    case unstorable
    with rep cover show ?thesis
      by (auto simp: settlement_coverage_def completes_invoice_def)
  next
    case (stored r)
    then have st: "stored_settled_amount a = Some (round_to 2 r)" "u = False"
      using rep by (auto simp: stored_settled_amount_def)
    from coverage_cases [OF ls stored(4), of cur] cover st
    obtain l where "l \<in> set (compatible cur ls)" "lg_amount l - 1 / 100 \<le> round_to 2 r"
      by (cases; fastforce simp: completes_invoice_def)
    with stored(1) ls(1) show ?thesis
      by (auto simp: compatible_def)
  qed
qed





text \<open>
  Beyond that bound it does raise: the report passes the usability check on its own, but its
  difference from the leg no longer quantises to cents.
\<close>

theorem verify_settlement_raises:
  "verify_settlement (Reported (Fin (1 / 100 - 10 ^ 26))) (Some ''USD'') 100 (Some ''USD'') None None
   = Inl (PyError InvalidOperation)"
proof -
  let ?r = "1 / 100 - 10 ^ 26 :: rat" and ?d = "1 / 100 - 10 ^ 26 - 100 :: rat"
  have "has_scale 2 ?r"
    by (simp add: has_scale_def)
  then have "quantize 2 ?r = Some ?r"
    by (rule quantize_scaled) simp
  then have u: "usable_reported_amount (Reported (Fin ?r)) = Some ?r"
    by (auto simp: usable_Some_iff)
  have legs: "build_authorized_legs 100 (Some ''USD'') None None =
    Inr [\<lparr>lg_amount = 100, lg_currency = Some ''USD'', lg_leg = ''target''\<rparr>]"
    by code_simp
  have "adjusted ?d = 26"
    by (rule adjusted_eqI) (simp_all add: pow10_def)
  moreover have "\<lfloor>- (10000000000000000000000009999 / 10) :: rat\<rfloor> = - 1000000000000000000000001000"
    by (simp add: floor_eq_iff)
  ultimately have d: "dsub ?r 100 = - (10 ^ 26 + 100)"
    by (simp add: dsub_def ctx_def Let_def pow10_def round_half_even_def)
  have "quantize_money (- (10 ^ 26 + 100)) = Inl (PyError InvalidOperation)"
    by (simp add: quantize_money_def quantize_def round_half_up_def)
  with u legs d show ?thesis
    by (simp add: verify_settlement_def gap_def settlement_tolerance_def same_currency_def)
qed

end
