(* ===== verification/DiscountProofs.thy ===== *)
theory DiscountProofs
  imports DiscountOffers SettlementProofs
begin

text \<open>
  The bargain of an early-payment discount: what a date earns, what it is worth to the cent,
  and the life of the offer, from the tiers a supplier sends to the capture a void undoes.
\<close>

section \<open>Stored tiers\<close>

definition tier_ok :: "tier \<Rightarrow> bool" where
  "tier_ok t = (0 \<le> tr_days t \<and> has_scale 2 (tr_percent t) \<and> 0 \<le> tr_percent t \<and> tr_percent t \<le> 100)"

lemma percent_of_InrD:
  assumes "percent_of v = Inr q"
  shows "has_scale 2 q \<and> 0 \<le> q \<and> q \<le> 100"
proof -
  from assms obtain r where "percent_in_range (Fin r) = Inr True" and q: "q_pct r = Inr q"
    by (auto simp: percent_of_def bind_res_Inr_iff split: option.splits if_splits dec.splits)
  then have "0 < r" "r < 100"
    by (auto simp: percent_in_range_def split: if_splits)
  moreover from q have "q = round_to 2 r"
    by (auto simp: q_pct_def quantize_money_def dest: quantize_Some_D split: option.splits)
  moreover have "round_to 2 (0 :: rat) = 0" "round_to 2 (100 :: rat) = 100"
    by (simp_all add: round_to_scaled has_scale_def)
  ultimately show ?thesis
    using round_to_mono [of 0 r 2] round_to_mono [of r 100 2]
    by (simp add: has_scale_round_to)
qed

lemma normalize_tier_InrD: "normalize_tier v = Inr t \<Longrightarrow> tier_ok t"
  by (auto simp: normalize_tier_def bind_res_Inr_iff tier_ok_def
      dest!: percent_of_InrD split: pyval.splits option.splits if_splits)

lemma normalize_all_InrD: "normalize_all vs = Inr ts \<Longrightarrow> \<forall>t\<in>set ts. tier_ok t"
  by (induction vs arbitrary: ts) (auto simp: bind_res_Inr_iff dest: normalize_tier_InrD)

lemma parse_tiers_InrD:
  assumes "parse_tiers vs = Inr ts"
  shows "(\<forall>t\<in>set ts. tier_ok t) \<and> sorted (map tr_days ts) \<and> distinct (map tr_days ts)"
proof -
  from assms obtain us where "normalize_all vs = Inr us" "distinct (map tr_days us)" "ts = sort_key tr_days us"
    by (auto simp: parse_tiers_def bind_res_Inr_iff split: if_splits)
  moreover from this have "distinct (map tr_days ts)"
    by (metis distinct_map distinct_sort set_sort)
  ultimately show ?thesis
    using normalize_all_InrD by fastforce
qed

section \<open>What a date earns\<close>

lemma tier_achievable_iff:
  "tier_achievable t d vu r = Inr True \<Longrightarrow> \<not> past vu d \<and> d \<le> r + tr_days t"
  "tier_achievable t d vu r = Inr False \<Longrightarrow> past vu d \<or> r + tr_days t < d"
  by (auto simp: tier_achievable_def bind_res_Inr_iff add_days_def split: if_splits)

definition best_so_far :: "date \<Rightarrow> date option \<Rightarrow> date \<Rightarrow> tier list \<Rightarrow> tier option \<Rightarrow> bool" where
  "best_so_far d vu r seen best =
     ((\<forall>t\<in>set seen. \<exists>b. tier_achievable t d vu r = Inr b) \<and> (case best of
       None \<Rightarrow> \<forall>t\<in>set seen. tier_achievable t d vu r = Inr False
     | Some b \<Rightarrow> b \<in> set seen \<and> tier_achievable b d vu r = Inr True
         \<and> (\<forall>t\<in>set seen. tier_achievable t d vu r = Inr True \<longrightarrow> tr_percent t \<le> tr_percent b)))"

lemma best_tier_from_inv:
  "best_tier_from d vu r best ts = Inr res \<Longrightarrow> best_so_far d vu r seen best \<Longrightarrow>
     best_so_far d vu r (seen @ ts) res"
proof (induction ts arbitrary: best seen)
  case (Cons t ts)
  from Cons.prems(1) obtain ok where ok: "tier_achievable t d vu r = Inr ok"
    and rest: "best_tier_from d vu r
      (if ok \<and> (case best of None \<Rightarrow> True | Some b \<Rightarrow> tr_percent b < tr_percent t) then Some t else best) ts
      = Inr res"
    by (auto simp: bind_res_Inr_iff)
  have "best_so_far d vu r (seen @ [t])
      (if ok \<and> (case best of None \<Rightarrow> True | Some b \<Rightarrow> tr_percent b < tr_percent t) then Some t else best)"
    using Cons.prems(2) ok by (cases best; cases ok) (auto simp: best_so_far_def split: option.splits)
  from Cons.IH [OF rest this] show ?case
    by simp
qed (simp add: best_so_far_def)

text \<open>
  The tier picked for a date is one of the offer's, still open on that date, and
  the most generous of those; accepting it gives a pay-by date that has not passed; and when
  no tier is picked the offer has ended or every window has closed.
\<close>

theorem best_tier_still_payable:
  assumes ref: "offer_reference_date f = Some r"
    and best: "best_tier_for_date (of_tiers f) d (of_valid_until f) (Some r) = Inr res"
  shows "case res of
      None \<Rightarrow> past (of_valid_until f) d \<or> (\<forall>t\<in>set (of_tiers f). r + tr_days t < d)
    | Some t \<Rightarrow> t \<in> set (of_tiers f)
        \<and> (\<forall>u\<in>set (of_tiers f). d \<le> r + tr_days u \<longrightarrow> tr_percent u \<le> tr_percent t)
        \<and> (\<exists>pay_by. accepted_discount_deadline (f\<lparr>of_accepted_tier := Some t\<rparr>) = Inr (Some pay_by)
             \<and> d \<le> pay_by)"
proof (cases "past (of_valid_until f) d")
  case True
  with best show ?thesis
    by (simp add: best_tier_for_date_def split: option.splits)
next
  case False
  with best have "best_tier_from d (of_valid_until f) r None (of_tiers f) = Inr res"
    by (simp add: best_tier_for_date_def)
  from best_tier_from_inv [OF this, of "[]"]
  have inv: "best_so_far d (of_valid_until f) r (of_tiers f) res"
    by (simp add: best_so_far_def)
  have open_tier: "tier_achievable u d (of_valid_until f) r = Inr True"
    if "u \<in> set (of_tiers f)" "d \<le> r + tr_days u" for u
  proof -
    from inv that(1) obtain b where "tier_achievable u d (of_valid_until f) r = Inr b"
      unfolding best_so_far_def by blast
    with tier_achievable_iff(2) [of u d "of_valid_until f" r] that(2) False show ?thesis
      by (cases b) auto
  qed
  show ?thesis
  proof (cases res)
    case None
    with inv show ?thesis
      using tier_achievable_iff(2) by (fastforce simp: best_so_far_def)
  next
    case (Some t)
    with inv have t: "t \<in> set (of_tiers f)" "tier_achievable t d (of_valid_until f) r = Inr True"
      and top: "\<forall>u\<in>set (of_tiers f). tier_achievable u d (of_valid_until f) r = Inr True
        \<longrightarrow> tr_percent u \<le> tr_percent t"
      by (auto simp: best_so_far_def)
    have "\<exists>pay_by. accepted_discount_deadline (f\<lparr>of_accepted_tier := Some t\<rparr>) = Inr (Some pay_by)
        \<and> d \<le> pay_by"
    proof -
      from t(2) False obtain dl where dl: "add_days r (tr_days t) = Inr dl" "d \<le> dl"
        by (auto simp: tier_achievable_def bind_res_Inr_iff)
      have "offer_reference_date (f\<lparr>of_accepted_tier := Some t\<rparr>) = Some r"
        using ref by (cases "of_valid_from f") (simp_all add: offer_reference_date_def)
      with dl False show ?thesis
        by (cases "of_valid_until f")
           (simp_all add: accepted_discount_deadline_def tier_deadline_def past_def)
    qed
    with t(1) top open_tier Some show ?thesis
      by auto
  qed
qed

text \<open>A two-rung offer open since a fixed day: five days for three percent, thirty for one.\<close>

definition sample_offer :: discount_offer where
  "sample_offer = \<lparr>of_id = ''o-1'', of_scope = ''invoice'', of_invoice_id = Some ''inv-1'',
     of_vendor_id = None, of_status = ''offered'',
     of_tiers = [\<lparr>tr_days = 5, tr_percent = 3\<rparr>, \<lparr>tr_days = 30, tr_percent = 1\<rparr>],
     of_base_amount = 900, of_currency = Some ''USD'', of_valid_from = Some 739000,
     of_valid_until = Some 739060, of_created_at = Some 0, of_accepted_tier = None,
     of_accepted_at = None, of_accepted_by = None, of_captured_amount = None,
     of_captured_at = None, of_captured_by_payment_id = None\<rparr>"

theorem best_tier_still_payable_witness:
  "\<exists>t. best_tier_for_date (of_tiers sample_offer) 739006 (Some 739060) (Some 739000) = Inr (Some t)
    \<and> tr_percent t = 1
    \<and> (\<exists>pay_by. accepted_discount_deadline (sample_offer\<lparr>of_accepted_tier := Some t\<rparr>) = Inr (Some pay_by)
         \<and> 739006 \<le> pay_by)"
proof -
  let ?t = "\<lparr>tr_days = 30, tr_percent = 1\<rparr>"
  have "offer_reference_date sample_offer = Some 739000" "of_valid_until sample_offer = Some 739060"
    by (simp_all add: offer_reference_date_def sample_offer_def)
  moreover have "best_tier_for_date (of_tiers sample_offer) 739006 (Some 739060) (Some 739000) = Inr (Some ?t)"
    by code_simp
  ultimately show ?thesis
    using best_tier_still_payable [of sample_offer 739000 739006 "Some ?t"] by simp
qed

section \<open>What a tier is worth\<close>

lemma savings_exact:
  assumes "money_col b" and "tier_ok t"
  shows "ddiv (dmul b (tr_percent t)) 100 = b * tr_percent t / 100"
    and "\<bar>b * tr_percent t / 100\<bar> < 10 ^ 13"
proof -
  obtain i where i: "b = of_int i / 10 ^ 2" "\<bar>i\<bar> < 10 ^ 15"
    using assms(1) by (elim money_colE)
  let ?j = "\<lfloor>tr_percent t * 10 ^ 2\<rfloor>"
  have j: "tr_percent t = of_int ?j / 10 ^ 2"
    using assms(2) unfolding tier_ok_def has_scale_def
    by (metis nonzero_mult_div_cancel_right power_not_zero zero_neq_numeral)
  have jb: "0 \<le> ?j" "?j \<le> 10 ^ 4"
    using assms(2) by (simp_all add: tier_ok_def floor_le_iff)
  have "\<bar>i * ?j\<bar> \<le> 10 ^ 15 * 10 ^ 4"
    unfolding abs_mult using i(2) jb by (intro mult_mono) auto
  then have ij: "\<bar>i * ?j\<bar> < 10 ^ 28"
    by simp
  have "b * tr_percent t = of_int (i * ?j) / 10 ^ 4"
    by (subst j, subst i(1)) simp
  then have m: "dmul b (tr_percent t) = b * tr_percent t"
    unfolding dmul_def using ij by (rule ctx_exact)
  have "b * tr_percent t / 100 = of_int (i * ?j) / 10 ^ 6"
    by (subst j, subst i(1)) simp
  then show "ddiv (dmul b (tr_percent t)) 100 = b * tr_percent t / 100"
    unfolding ddiv_def m using ij by (rule ctx_exact)
  have "\<bar>b\<bar> * \<bar>tr_percent t\<bar> \<le> \<bar>b\<bar> * 100"
    using assms(2) by (intro mult_left_mono) (auto simp: tier_ok_def)
  then show "\<bar>b * tr_percent t / 100\<bar> < 10 ^ 13"
    using assms(1) by (simp add: money_col_def abs_mult)
qed

lemma round_to_scale_le: "has_scale n b \<Longrightarrow> r \<le> b \<Longrightarrow> round_to n r \<le> b"
  using round_to_mono [of r b n] by (simp add: round_to_scaled)

text \<open>
  The savings of an accepted tier never raise and are the exact percentage of
  the base, rounded half up to the cent: between nothing and the base itself, and more for a
  more generous tier.
\<close>

theorem discount_savings_exact:
  assumes "money_col b" and "0 \<le> b" and "normalize_tier v = Inr t"
  shows "\<exists>s. discount_savings b t = Inr s \<and> s = round_to 2 (b * tr_percent t / 100)
    \<and> 0 \<le> s \<and> s \<le> b \<and> money_col s
    \<and> (\<forall>w u. normalize_tier w = Inr u \<and> tr_percent t \<le> tr_percent u \<longrightarrow>
         (\<exists>s'. discount_savings b u = Inr s' \<and> s \<le> s'))"
proof -
  have q: "discount_savings b u = Inr (round_to 2 (b * tr_percent u / 100))"
    and bounds: "0 \<le> b * tr_percent u / 100" "b * tr_percent u / 100 \<le> b"
    if "tier_ok u" for u
  proof -
    let ?r = "b * tr_percent u / 100"
    show b0: "0 \<le> ?r" "?r \<le> b"
      using that assms(2) mult_left_mono [of "tr_percent u" 100 b] by (auto simp: tier_ok_def)
    have "money_col (round_to 2 ?r)"
      using b0 assms(1) round_to_scale_le [of 2 b ?r] round_to_nonneg [of ?r 2]
      by (simp add: money_col_def has_scale_round_to)
    then have "\<bar>round_half_up (?r * 10 ^ 2)\<bar> < 10 ^ 28"
      by (elim money_colE) (simp add: round_to_def)
    then show "discount_savings b u = Inr (round_to 2 ?r)"
      by (simp only: discount_savings_def quantize_money_def quantize_def
          savings_exact(1) [OF assms(1) that] if_True option.simps)
  qed
  have ok: "tier_ok t"
    using assms(3) by (rule normalize_tier_InrD)
  have "money_col (round_to 2 (b * tr_percent t / 100))"
    using bounds [OF ok] assms(1) round_to_scale_le [of 2 b "b * tr_percent t / 100"]
      round_to_nonneg [of "b * tr_percent t / 100" 2]
    by (simp add: money_col_def has_scale_round_to)
  moreover have "round_to 2 (b * tr_percent t / 100) \<le> round_to 2 (b * tr_percent u / 100)"
    if "tr_percent t \<le> tr_percent u" for u
    using that assms(2) by (intro round_to_mono divide_right_mono mult_left_mono) auto
  ultimately show ?thesis
    using q bounds ok round_to_nonneg round_to_scale_le assms(1) normalize_tier_InrD
    by (auto simp: money_col_def)
qed

theorem discount_savings_exact_witness:
  "\<exists>s. discount_savings (33335 / 100) \<lparr>tr_days = 10, tr_percent = 3 / 2\<rparr> = Inr s
    \<and> s = round_to 2 (33335 / 100 * (3 / 2) / 100) \<and> s = 5"
proof -
  have "normalize_tier (PDict [(''days'', PStr '' 1_0''), (''percent'', PStr ''1.5'')])
      = Inr \<lparr>tr_days = 10, tr_percent = 3 / 2\<rparr>"
    by code_simp
  moreover have "money_col (33335 / 100)" "round_to 2 (33335 / 100 * (3 / 2) / 100) = (5 :: rat)"
    by (code_simp, code_simp)
  ultimately show ?thesis
    using discount_savings_exact [of "33335 / 100"] by fastforce
qed

text \<open>
  The range check comes before the rounding: a percent under half a hundredth is stored as
  zero, and the stored tier is then one that \<open>accept_offer\<close> always refuses.
\<close>

theorem hairline_tier_unacceptable:
  "normalize_tier (PDict [(''days'', PInt 5), (''percent'', PDec (Fin (4 / 1000)))])
     = Inr \<lparr>tr_days = 5, tr_percent = 0\<rparr>
   \<and> accept_offer sample_offer (tier_json \<lparr>tr_days = 5, tr_percent = 0\<rparr>) a now = Inl (PyError ValueError)"
  by (simp add: normalize_tier_def days_of_def py_int_def percent_of_def percent_in_range_def q_pct_def
      quantize_money_def quantize_def round_to_def round_half_up_def accept_offer_def tier_json_def
      sample_offer_def floor_eq_iff)

section \<open>The life of an offer\<close>

inductive offer_step :: "discount_offer \<Rightarrow> discount_offer \<Rightarrow> bool" where
  accept: "accept_offer f t actor now = Inr g \<Longrightarrow> offer_step f g"
| decline: "decline_offer f today = Inr g \<Longrightarrow> offer_step f g"
| capture: "mark_captured f a now p = Inr g \<Longrightarrow> offer_step f g"
| reverse: "reverse_capture f = Inr (a, g) \<Longrightarrow> offer_step f g"
| expire: "expire_if_past f today = (True, g) \<Longrightarrow> offer_step f g"

inductive_cases offer_stepE: "offer_step f g"

definition fresh_offer :: "discount_offer \<Rightarrow> bool" where
  "fresh_offer f = (of_status f = ''offered'' \<and> of_accepted_tier f = None \<and> of_captured_amount f = None
     \<and> of_captured_at f = None \<and> of_captured_by_payment_id f = None)"

definition offer_ok :: "discount_offer \<Rightarrow> bool" where
  "offer_ok f =
     (of_status f \<in> {''offered'', ''accepted'', ''captured'', ''declined'', ''expired''}
      \<and> (of_captured_amount f \<noteq> None \<longleftrightarrow> of_status f = ''captured'')
      \<and> (of_captured_at f \<noteq> None \<longleftrightarrow> of_status f = ''captured'')
      \<and> (of_captured_by_payment_id f \<noteq> None \<longrightarrow> of_status f = ''captured'')
      \<and> (of_accepted_tier f \<noteq> None \<longleftrightarrow> of_status f \<in> {''accepted'', ''captured''})
      \<and> (\<forall>t. of_accepted_tier f = Some t \<longrightarrow> tier_ok t)
      \<and> (\<forall>a. of_captured_amount f = Some a \<longrightarrow> has_scale 2 a))"

lemma quantize_money_InrD: "quantize_money a = Inr q \<Longrightarrow> q = round_to 2 a"
  by (auto simp: quantize_money_def dest: quantize_Some_D split: option.splits)

lemmas offer_op_defs = accept_offer_def decline_offer_def mark_captured_def reverse_capture_def
  expire_if_past_def has_lapsed_def

lemma offer_step_ok: "offer_step f g \<Longrightarrow> offer_ok f \<Longrightarrow> offer_ok g"
  by (erule offer_stepE)
     (auto simp: offer_op_defs offer_ok_def bind_res_Inr_iff has_scale_round_to
       dest!: quantize_money_InrD normalize_tier_InrD split: if_splits)

lemma offer_step_terms:
  "offer_step f g \<Longrightarrow> of_base_amount g = of_base_amount f \<and> of_tiers g = of_tiers f
     \<and> of_currency g = of_currency f \<and> of_valid_until g = of_valid_until f"
  by (erule offer_stepE) (auto simp: offer_op_defs bind_res_Inr_iff split: if_splits)

lemma offer_step_tier:
  "offer_step f g \<Longrightarrow> offer_ok f \<Longrightarrow> of_accepted_tier f = Some t \<Longrightarrow> of_accepted_tier g = Some t"
  by (erule offer_stepE) (auto simp: offer_op_defs offer_ok_def bind_res_Inr_iff split: if_splits)

lemma offer_step_final: "offer_step f g \<Longrightarrow> of_status f \<notin> {''declined'', ''expired''}"
  by (erule offer_stepE) (auto simp: offer_op_defs split: if_splits)

text \<open>
  From a fresh offer, through every accept, decline, capture, reversal and
  expiry: the captured figures exist exactly while the offer is captured, an accepted tier
  exists exactly once it is accepted or captured and is then never replaced, the commercial
  terms never change, and a declined or expired offer is never revived.
\<close>

theorem offer_lifecycle:
  assumes "offer_step\<^sup>*\<^sup>* f g" and "fresh_offer f"
  shows "offer_ok g \<and> of_base_amount g = of_base_amount f \<and> of_tiers g = of_tiers f
    \<and> of_currency g = of_currency f \<and> of_valid_until g = of_valid_until f
    \<and> (\<forall>t h. of_accepted_tier g = Some t \<and> offer_step\<^sup>*\<^sup>* g h \<longrightarrow> of_accepted_tier h = Some t)
    \<and> (of_status g \<in> {''declined'', ''expired''} \<longrightarrow> (\<forall>h. \<not> offer_step g h))"
proof -
  from assms(2) have "offer_ok f"
    by (simp add: fresh_offer_def offer_ok_def)
  with assms(1) have g: "offer_ok g \<and> of_base_amount g = of_base_amount f \<and> of_tiers g = of_tiers f
    \<and> of_currency g = of_currency f \<and> of_valid_until g = of_valid_until f"
    by (induction rule: rtranclp_induct) (auto dest: offer_step_ok offer_step_terms)
  have "of_accepted_tier h = Some t \<and> offer_ok h"
    if "offer_step\<^sup>*\<^sup>* g h" "of_accepted_tier g = Some t" for t h
    using that g by (induction rule: rtranclp_induct) (auto dest: offer_step_ok offer_step_tier)
  with g show ?thesis
    using offer_step_final by blast
qed

theorem offer_lifecycle_witness:
  "offer_ok (sample_offer\<lparr>of_accepted_tier := Some \<lparr>tr_days = 5, tr_percent = 3\<rparr>,
     of_accepted_at := Some 7, of_accepted_by := Some ''u-ap'', of_status := ''accepted''\<rparr>)"
proof -
  let ?g = "sample_offer\<lparr>of_accepted_tier := Some \<lparr>tr_days = 5, tr_percent = 3\<rparr>,
     of_accepted_at := Some 7, of_accepted_by := Some ''u-ap'', of_status := ''accepted''\<rparr>"
  have "normalize_tier (tier_json \<lparr>tr_days = 5, tr_percent = 3\<rparr>) = Inr \<lparr>tr_days = 5, tr_percent = 3\<rparr>"
    by code_simp
  then have "accept_offer sample_offer (tier_json \<lparr>tr_days = 5, tr_percent = 3\<rparr>) (Some ''u-ap'') 7 = Inr ?g"
    by (simp add: accept_offer_def sample_offer_def)
  then have "offer_step\<^sup>*\<^sup>* sample_offer ?g"
    by (blast intro: offer_step.accept)
  moreover have "fresh_offer sample_offer"
    by (simp add: fresh_offer_def sample_offer_def)
  ultimately show ?thesis
    using offer_lifecycle by blast
qed

lemma reverse_of_capture:
  assumes "offer_ok f" and "mark_captured f a now p = Inr g"
  shows "of_captured_by_payment_id g = p" and "of_captured_amount g = Some (round_to 2 a)"
    and "reverse_capture g = Inr (round_to 2 a, f)"
proof -
  from assms(2) have st: "of_status f = ''accepted''" and q: "quantize_money a = Inr (round_to 2 a)"
    and g: "g = f\<lparr>of_captured_amount := Some (round_to 2 a), of_captured_at := Some now,
        of_captured_by_payment_id := p, of_status := ''captured''\<rparr>"
    by (auto simp: mark_captured_def bind_res_Inr_iff dest: quantize_money_InrD split: if_splits)
  from q have "quantize_money (round_to 2 a) = Inr (round_to 2 a)"
    by (simp add: quantize_money_def quantize_def round_to_def split: if_splits)
  moreover have "of_captured_amount f = None" "of_captured_at f = None" "of_captured_by_payment_id f = None"
    using assms(1) st by (auto simp: offer_ok_def)
  ultimately show "of_captured_by_payment_id g = p" "of_captured_amount g = Some (round_to 2 a)"
    "reverse_capture g = Inr (round_to 2 a, f)"
    using st by (simp_all add: reverse_capture_def g)
qed

text \<open>
  Voiding the payment that realised a discount restores the offer to exactly the
  accepted offer it was before the capture, and returns the amount that was recorded.
\<close>

theorem capture_reverse_roundtrip:
  assumes "offer_step\<^sup>*\<^sup>* f0 f" and "fresh_offer f0" and "mark_captured f a now p = Inr g"
  shows "of_captured_by_payment_id g = p \<and> reverse_capture g = Inr (round_to 2 a, f)"
proof -
  have "offer_ok f0"
    using assms(2) by (simp add: fresh_offer_def offer_ok_def)
  with assms(1) have "offer_ok f"
    by (induction rule: rtranclp_induct) (auto dest: offer_step_ok)
  from reverse_of_capture [OF this assms(3)] show ?thesis
    by simp
qed

theorem capture_reverse_roundtrip_witness:
  "\<exists>f g. mark_captured f 27 9 (Some ''p-1'') = Inr g \<and> reverse_capture g = Inr (round_to 2 27, f)"
proof -
  let ?f = "sample_offer\<lparr>of_accepted_tier := Some \<lparr>tr_days = 5, tr_percent = 3\<rparr>,
     of_accepted_at := Some 7, of_accepted_by := Some ''u-ap'', of_status := ''accepted''\<rparr>"
  have "normalize_tier (tier_json \<lparr>tr_days = 5, tr_percent = 3\<rparr>) = Inr \<lparr>tr_days = 5, tr_percent = 3\<rparr>"
    by code_simp
  then have "accept_offer sample_offer (tier_json \<lparr>tr_days = 5, tr_percent = 3\<rparr>) (Some ''u-ap'') 7 = Inr ?f"
    by (simp add: accept_offer_def sample_offer_def)
  then have step: "offer_step\<^sup>*\<^sup>* sample_offer ?f"
    by (blast intro: offer_step.accept)
  have fresh: "fresh_offer sample_offer"
    by (simp add: fresh_offer_def sample_offer_def)
  have "quantize_money 27 = Inr 27"
    by code_simp
  then obtain g where "mark_captured ?f 27 9 (Some ''p-1'') = Inr g"
    by (simp add: mark_captured_def)
  with capture_reverse_roundtrip [OF step fresh this] show ?thesis
    by blast
qed

section \<open>Invoices a discount can still be taken on\<close>

text \<open>Every invoice that is not settled can still reach a payable status.\<close>

lemma invoice_awaits_payment_iff: "invoice_awaits_payment s \<longleftrightarrow> s \<notin> {Paid, Done}"
  by (cases s) (simp_all add: invoice_awaits_payment_def awaits_search.simps all_statuses_def)

end
