(* ===== verification/RunBuilder.thy ===== *)
theory RunBuilder
  imports PaymentRuns SettlementProofs DiscountProofs
begin

text \<open>
  \<open>create_payment_run_for_invoices\<close> and \<open>dispatch_preflight\<close> of
  \<open>services/payment_runs.py\<close>, and what they promise each other: what the builder stages is
  payable, is staged once, carries the CFO flag its amount calls for, and passes the check
  made before its money moves. Audit rows and log lines are left out, and the two
  \<open>IntegrityError\<close> races with them.
\<close>

section \<open>Building a draft run\<close>

record run_item =
  ri_invoice_id :: uid
  ri_method :: string

record run_creation =
  cr_run :: payment_run
  cr_total_amount :: rat
  cr_payment_count :: nat
  cr_created :: bool
  cr_discount_total :: rat

fun res_map :: "('a \<Rightarrow> exc + 'b) \<Rightarrow> 'a list \<Rightarrow> exc + 'b list" where
  "res_map f [] = Inr []"
| "res_map f (x # xs) = bind_res (f x) (\<lambda>y. bind_res (res_map f xs) (\<lambda>ys. Inr (y # ys)))"

definition existing_run_for_plan :: "tables \<Rightarrow> string \<Rightarrow> run_creation option" where
  "existing_run_for_plan tb plan = map_option (\<lambda>r.
     (let ps = filter (\<lambda>p. py_run_id p = Some (pr_id r)) (tb_payments tb)
      in \<lparr>cr_run = r, cr_total_amount = (case pr_total_amount r of None \<Rightarrow> 0 | Some t \<Rightarrow> t),
          cr_payment_count = length ps, cr_created = False,
          cr_discount_total = sum_list (map (\<lambda>p. case py_discount_amount p of None \<Rightarrow> 0 | Some d \<Rightarrow> d)
            (filter (\<lambda>p. py_status p \<notin> {''cancelled'', ''voided''}) ps))\<rparr>))
     (List.find (\<lambda>r. pr_plan_id r = Some plan) (tb_runs tb))"

definition lock_run_invoices :: "tables \<Rightarrow> uid option \<Rightarrow> uid list \<Rightarrow> invoice list" where
  "lock_run_invoices tb scope ids = sort_key inv_id
     (filter (\<lambda>iv. inv_id iv \<in> set ids \<and> (scope = None \<or> entity_id iv = scope)) (tb_invoices tb))"

definition refusal_order :: "string list" where
  "refusal_order = [''vendor_not_active'', ''live_virtual_card'', ''applied_credit_mismatch'',
     ''fully_credited'', ''live_payment'']"

text \<open>Which of the batch's refusals names the 409: blocking exceptions, then the fixed order.\<close>

definition raise_refusals :: "run_refusal list \<Rightarrow> exc" where
  "raise_refusals rs = HttpError 409
     (if list_ex (\<lambda>r. rr_reason r \<in> set payment_blocking_exception_types) rs
      then ''payment_blocking_exception''
      else case List.find (\<lambda>c. c \<in> rr_reason ` set rs) refusal_order of
          None \<Rightarrow> ''cannot_be_paid'' | Some c \<Rightarrow> c)"

text \<open>The three running totals: paid, in the reporting currency, and whether a row had no rate.\<close>

record run_totals =
  rt_total :: rat
  rt_reporting :: rat
  rt_unconverted :: bool
  rt_discount :: rat

definition add_item :: "string \<Rightarrow> invoice \<Rightarrow> payable \<Rightarrow> run_totals \<Rightarrow> exc + run_totals" where
  "add_item rc iv p t =
     bind_res (reporting_amount_at_locked_rate (pa_amount p) (currency iv) rc (reporting_currency iv)
        (reporting_source_currency iv) (reporting_fx_rate iv)) (\<lambda>(reported, unconverted).
       Inr \<lparr>rt_total = dadd (rt_total t) (pa_amount p), rt_reporting = dadd (rt_reporting t) reported,
            rt_unconverted = (rt_unconverted t \<or> unconverted),
            rt_discount = dadd (rt_discount t) (case pa_discount p of None \<Rightarrow> 0 | Some d \<Rightarrow> ad_amount d)\<rparr>)"

fun add_items :: "string \<Rightarrow> (invoice \<times> payable) list \<Rightarrow> run_totals \<Rightarrow> exc + run_totals" where
  "add_items rc [] t = Inr t"
| "add_items rc ((iv, p) # xs) t = bind_res (add_item rc iv p t) (add_items rc xs)"

definition book_payment :: "uid \<Rightarrow> uid \<Rightarrow> invoice \<Rightarrow> payable \<Rightarrow> string \<Rightarrow> payment" where
  "book_payment i run_id iv p method =
     \<lparr>py_id = i, py_invoice_id = inv_id iv, py_run_id = Some run_id, py_amount = pa_amount p,
      py_method = Some method, py_status = ''pending'', py_provider_payment_id = None,
      py_failure_reason = None, py_retry_of = None, py_discount_offer_id = pa_offer_id p,
      py_discount_amount = map_option ad_amount (pa_discount p), py_dispatch_attempted_at = None,
      py_settled_amount = None, py_settled_currency = None, py_settled_unstorable = False,
      py_source_currency = None, py_source_amount = None, py_provider = None, py_reference = None,
      py_submitted_at = None, py_completed_at = None\<rparr>"

text \<open>\<open>uq_payments_one_live_per_invoice\<close>.\<close>

definition one_live :: "payment list \<Rightarrow> bool" where
  "one_live ps = distinct (map py_invoice_id (filter is_live ps))"

text \<open>The gates in the builder's order; what passes is the selected invoice of every item.\<close>

definition run_gates :: "tables \<Rightarrow> uid option \<Rightarrow> run_item list \<Rightarrow> exc + (run_item \<times> invoice) list" where
  "run_gates tb scope items =
     (let ids = map ri_invoice_id items;
          locked = lock_run_invoices tb scope ids;
          chosen = List.map_filter (\<lambda>it. map_option (Pair it) (List.find (\<lambda>iv. inv_id iv = ri_invoice_id it) locked)) items
      in if length (remdups (map inv_id locked)) \<noteq> length ids then Inl (HttpError 404 ''invoices_not_found'')
         else if 1 < length (remdups (map (\<lambda>(_, iv). or_str (currency iv) ''USD'') chosen))
         then Inl (HttpError 422 ''mixed_currencies'')
         else if list_ex (\<lambda>(_, iv). inv_status iv \<notin> set payable_invoice_statuses) chosen
         then Inl (HttpError 409 ''not_approved_for_payment'')
         else let refusals = List.map_filter (\<lambda>(it, iv). run_refusal_reason tb iv (Some (ri_method it))) chosen
           in if refusals \<noteq> [] then Inl (raise_refusals refusals) else Inr chosen)"

definition payment_settings :: "pyval \<Rightarrow> payment_config" where
  "payment_settings org_settings = (case org_settings of
       PDict d \<Rightarrow> (case pget d ''payments'' of PDict p \<Rightarrow> Some p | _ \<Rightarrow> None)
     | _ \<Rightarrow> None)"

text \<open>
  \<open>new_id\<close> draws the identifier of an item's payment, \<open>run_id\<close> that of the run. The insert
  runs under the unique index.
\<close>

definition insert_run ::
  "uid option \<Rightarrow> uid \<Rightarrow> uid \<Rightarrow> (uid \<Rightarrow> uid) \<Rightarrow> string option \<Rightarrow> (run_item \<times> invoice \<times> payable) list \<Rightarrow>
     run_totals \<Rightarrow> cfo_decision \<Rightarrow> tables \<Rightarrow> exc + run_creation \<times> tables" where
  "insert_run entity user run_id new_id plan priced t cfo tb =
     (let run = \<lparr>pr_id = run_id, pr_entity_id = entity, pr_status = ''draft'',
            pr_total_amount = Some (rt_total t), pr_initiated_by = Some user, pr_executed_at = None,
            pr_requires_cfo_approval = cd_required cfo, pr_cfo_approved_by = None,
            pr_cfo_approved_at = None, pr_plan_id = plan, pr_nacha_export_count = 0\<rparr>;
          booked = map (\<lambda>(it, iv, p). book_payment (new_id (ri_invoice_id it)) run_id iv p (ri_method it)) priced
      in if \<not> one_live (tb_payments tb @ booked) then Inl (HttpError 409 ''live_payment'')
         else Inr (\<lparr>cr_run = run, cr_total_amount = rt_total t, cr_payment_count = length priced,
                    cr_created = True, cr_discount_total = rt_discount t\<rparr>,
                   tb\<lparr>tb_payments := tb_payments tb @ booked, tb_runs := tb_runs tb @ [run]\<rparr>))"

definition no_totals :: run_totals where
  "no_totals = \<lparr>rt_total = 0, rt_reporting = 0, rt_unconverted = False, rt_discount = 0\<rparr>"

text \<open>What an item's invoice is worth today.\<close>

definition price_item :: "tables \<Rightarrow> date \<Rightarrow> run_item \<times> invoice \<Rightarrow> exc + run_item \<times> invoice \<times> payable" where
  "price_item tb today x = bind_res (payable_amount tb (snd x) today) (\<lambda>p. Inr (fst x, snd x, p))"

definition stage_run ::
  "string \<Rightarrow> pyval \<Rightarrow> uid option \<Rightarrow> uid option \<Rightarrow> uid \<Rightarrow> date \<Rightarrow> uid \<Rightarrow> (uid \<Rightarrow> uid) \<Rightarrow>
     run_item list \<Rightarrow> string option \<Rightarrow> tables \<Rightarrow> exc + run_creation \<times> tables" where
  "stage_run platform_default org_settings entity scope user today run_id new_id items plan tb =
     bind_res (run_gates tb scope items) (\<lambda>chosen.
     bind_res (res_map (price_item tb today) chosen) (\<lambda>priced.
     bind_res (resolve_reporting_currency platform_default org_settings) (\<lambda>rc.
     bind_res (add_items rc (map snd priced) no_totals) (\<lambda>t.
     bind_res (cfo_approval_decision (payment_settings org_settings) (rt_reporting t) rc (rt_unconverted t)) (\<lambda>cfo.
       insert_run entity user run_id new_id plan priced t cfo tb)))))"

definition create_payment_run ::
  "string \<Rightarrow> pyval \<Rightarrow> uid option \<Rightarrow> uid option \<Rightarrow> uid \<Rightarrow> date \<Rightarrow> uid \<Rightarrow> (uid \<Rightarrow> uid) \<Rightarrow>
     run_item list \<Rightarrow> string option \<Rightarrow> tables \<Rightarrow> exc + run_creation \<times> tables" where
  "create_payment_run platform_default org_settings entity scope user today run_id new_id items plan tb =
     (if items = [] then Inl (HttpError 422 ''at_least_one_invoice'')
      else case (case plan of None \<Rightarrow> None | Some p \<Rightarrow> existing_run_for_plan tb p) of
          Some c \<Rightarrow> Inr (c, tb)
        | None \<Rightarrow> stage_run platform_default org_settings entity scope user today run_id new_id items plan tb)"

section \<open>The check before money moves\<close>

definition dispatch_preflight :: "tables \<Rightarrow> payment \<Rightarrow> invoice \<Rightarrow> date \<Rightarrow> exc + string option" where
  "dispatch_preflight tb p iv as_of =
     (let i = inv_id iv
      in if inv_status iv \<notin> set payable_invoice_statuses
         then Inr (Some (''invoice_not_payable:'' @ status_value (inv_status iv)))
         else case blocking_exception_type payment_blocking_exception_types {} (tb_exceptions tb) i of
             Some t \<Rightarrow> Inr (Some (''invoice_blocked:'' @ t))
           | None \<Rightarrow>
         (case inactive_vendor_status (tb_vendors tb) iv of
             Some s \<Rightarrow> Inr (Some (''vendor_not_active:'' @ s))
           | None \<Rightarrow>
         if card_claimed (tb_cards tb) i (py_method p) then Inr (Some ''invoice_has_live_card'')
         else case applied_credit_conflict (tb_memos tb) iv of
             Some c \<Rightarrow> Inr (Some (''applied_credit_mismatch:'' @ c))
           | None \<Rightarrow> bind_res (payable_amount tb iv as_of) (\<lambda>cur.
               Inr (if booked_discount_mismatch p cur then Some ''discount_changed''
                    else if pa_amount cur \<noteq> py_amount p then Some ''net_amount_changed''
                    else None))))"

end
