(* ===== verification/RunLifecycle.thy ===== *)
theory RunLifecycle
  imports RunBuilder
begin

text \<open>
  The life of a payment run in \<open>api/payments.py\<close>: approve, cancel, execute, resume,
  retry-failed, record-outside, the bank file and its void, and the rollup a dispatch pass
  ends with. Each endpoint is its gate (\<open>services/payment_controls.py\<close>) followed by the write
  it makes to the run row; what the processor, the ERP and the per-payment services answer is
  an argument. A run's history is a list of successful calls.
\<close>

section \<open>The endpoints\<close>

definition approve_payment_run :: "uid \<Rightarrow> payment_config \<Rightarrow> stamp \<Rightarrow> payment_run \<Rightarrow> exc + payment_run" where
  "approve_payment_run actor c now r =
     bind_res (raise_refusal (run_approve_refusal r actor c)) (\<lambda>_.
       Inr (r\<lparr>pr_cfo_approved_by := Some actor, pr_cfo_approved_at := Some now\<rparr>))"

definition cancel_payment_run :: "payment_run \<Rightarrow> exc + payment_run" where
  "cancel_payment_run r =
     bind_res (raise_refusal (run_cancel_refusal r)) (\<lambda>_. Inr (r\<lparr>pr_status := ''cancelled''\<rparr>))"

text \<open>\<open>adapter\<close> is the answer of \<open>_require_payment_adapter\<close>.\<close>

definition execute_payment_run :: "uid \<Rightarrow> payment_config \<Rightarrow> exc + unit \<Rightarrow> payment_run \<Rightarrow> exc + payment_run" where
  "execute_payment_run actor c adapter r =
     bind_res (raise_refusal (run_execute_refusal r actor c)) (\<lambda>_.
     bind_res adapter (\<lambda>_. Inr (r\<lparr>pr_status := ''executing''\<rparr>)))"

definition resume_payment_run :: "uid \<Rightarrow> payment_config \<Rightarrow> exc + unit \<Rightarrow> payment_run \<Rightarrow> exc + payment_run" where
  "resume_payment_run actor c adapter r =
     bind_res (raise_if (pr_status r \<noteq> ''executing'') (HttpError 409 ''payment_run_not_resumable'')) (\<lambda>_.
     bind_res (check_run_segregation (pr_initiated_by r) actor c) (\<lambda>_.
     bind_res adapter (\<lambda>_. Inr r)))"

text \<open>The end of \<open>_dispatch_run_payments\<close>: the rollup over the run's rows as it finds them.\<close>

definition statuses_of :: "payment list \<Rightarrow> rollup" where
  "statuses_of ps = rollup_payment_statuses (map py_status ps)"

definition finish_dispatch :: "payment list \<Rightarrow> stamp \<Rightarrow> payment_run \<Rightarrow> payment_run" where
  "finish_dispatch rows now r =
     r\<lparr>pr_status := run_status (statuses_of (active_run_payments rows)), pr_executed_at := Some now\<rparr>"

definition retryable_payment_statuses :: "string list" where
  "retryable_payment_statuses = [''failed'', ''cancelled'']"

definition count_retryable_failures :: "payment list \<Rightarrow> int" where
  "count_retryable_failures active =
     int (length (filter (\<lambda>p. py_status p \<in> set retryable_payment_statuses \<and> is_retry_safe p) active))"

text \<open>The run side of \<open>retry_failed_payments\<close>; \<open>rows\<close> are the run's payments.\<close>

definition retry_failed_run ::
  "uid \<Rightarrow> payment_config \<Rightarrow> payment list \<Rightarrow> exc + unit \<Rightarrow> payment_run \<Rightarrow> exc + payment_run" where
  "retry_failed_run actor c rows adapter r =
     (let active = active_run_payments rows;
          effective = derive_run_status (Some (pr_status r)) (statuses_of active)
      in bind_res (raise_refusal (run_retry_failed_refusal r effective (count_retryable_failures active) actor c)) (\<lambda>_.
         bind_res adapter (\<lambda>_. Inr (r\<lparr>pr_status := ''executing''\<rparr>))))"

text \<open>
  A paid-on date may run one day past the UTC one.
  \<open>checks\<close> is the verdict of the per-payment refusals, asked of every payment before any is
  recorded; recording completes each.
\<close>

definition record_run_paid_outside ::
  "uid \<Rightarrow> payment_config \<Rightarrow> date \<Rightarrow> date \<Rightarrow> payment list \<Rightarrow> exc + unit \<Rightarrow> payment_run \<Rightarrow> exc + payment_run" where
  "record_run_paid_outside actor c today paid_on rows checks r =
     bind_res (raise_if (today + 1 < paid_on) (HttpError 422 ''paid_on_in_the_future'')) (\<lambda>_.
     bind_res (raise_refusal (run_record_outside_refusal r actor c None)) (\<lambda>_.
       let active = active_run_payments rows; pending = filter (\<lambda>p. py_status p = ''pending'') active
       in bind_res (raise_refusal (run_record_outside_refusal r actor c (Some (int (length pending))))) (\<lambda>_.
          bind_res checks (\<lambda>_.
            Inr (r\<lparr>pr_status := run_status (statuses_of
                     (map (\<lambda>p. if py_status p = ''pending'' then p\<lparr>py_status := ''completed''\<rparr> else p) active)),
                   pr_executed_at := Some ((paid_on - 719163) * (24 * hour))\<rparr>)))))"

text \<open>Monday is 0; ordinal 1 is a Monday.\<close>

definition weekday :: "date \<Rightarrow> int" where
  "weekday d = (d + 6) mod 7"

fun next_weekday :: "nat \<Rightarrow> date \<Rightarrow> date" where
  "next_weekday 0 d = d"
| "next_weekday (Suc n) d = (if 5 \<le> weekday d then next_weekday n (d + 1) else d)"

definition next_business_day :: "date \<Rightarrow> date" where
  "next_business_day today = next_weekday 2 (today + 1)"

definition nacha_file_id_modifiers :: string where
  "nacha_file_id_modifiers = ''ABCDEFGHIJKLMNOPQRSTUVWXYZ0123456789''"

definition file_id_modifier :: "nat \<Rightarrow> char" where
  "file_id_modifier prior = nacha_file_id_modifiers ! (prior mod length nacha_file_id_modifiers)"

definition resolve_effective_date :: "date \<Rightarrow> date option \<Rightarrow> exc + date" where
  "resolve_effective_date today requested = (case requested of
       None \<Rightarrow> Inr (next_business_day today)
     | Some d \<Rightarrow> if d < today then Inl (HttpError 422 ''effective_date_in_the_past'')
                 else if 5 \<le> weekday d then Inl (HttpError 422 ''effective_date_not_a_business_day'')
                 else Inr d)"

text \<open>\<open>file\<close> is the verdict of the per-payment checks and of building the file.\<close>

definition export_run_nacha ::
  "uid \<Rightarrow> payment_config \<Rightarrow> date \<Rightarrow> date option \<Rightarrow> bool \<Rightarrow> bool \<Rightarrow> string list \<Rightarrow> payment list \<Rightarrow> exc + unit \<Rightarrow>
     payment_run \<Rightarrow> exc + payment_run" where
  "export_run_nacha actor c today effective_date regenerate record_only problems rows file r =
     bind_res (resolve_effective_date today effective_date) (\<lambda>_.
       let pending = filter (\<lambda>p. py_status p = ''pending'') rows
       in bind_res (raise_refusal (run_nacha_export_refusal r actor c regenerate record_only problems
                      (int (length pending)))) (\<lambda>_.
          bind_res file (\<lambda>_.
            Inr (r\<lparr>pr_nacha_export_count := pr_nacha_export_count r + 1, pr_status := ''exported''\<rparr>))))"

definition void_nacha_export :: "string \<Rightarrow> payment_run \<Rightarrow> exc + payment_run" where
  "void_nacha_export reason r =
     bind_res (raise_if (py_strip reason = []) (HttpError 422 ''reason_blank'')) (\<lambda>_.
     bind_res (raise_refusal (run_nacha_void_refusal r)) (\<lambda>_. Inr (r\<lparr>pr_status := ''draft''\<rparr>)))"

section \<open>Booking the retries\<close>

text \<open>
  The first reason a failed payment is skipped; the sets are read before the loop. The card set
  is of the batch: a claim through any failed row counts for every row of the invoice.
\<close>

definition card_claimed_in :: "tables \<Rightarrow> payment list \<Rightarrow> uid \<Rightarrow> bool" where
  "card_claimed_in tb batch i =
     list_ex (\<lambda>p. py_invoice_id p = i \<and> card_claimed (tb_cards tb) i (py_method p)) batch"

definition retry_skip_reason :: "tables \<Rightarrow> date \<Rightarrow> payment list \<Rightarrow> payment \<Rightarrow> exc + (string, payable) sum" where
  "retry_skip_reason tb today batch p =
     (case List.find (\<lambda>iv. inv_id iv = py_invoice_id p) (tb_invoices tb) of
        None \<Rightarrow> Inr (Inl ''invoice_not_payable'')
      | Some iv \<Rightarrow>
          if inv_status iv \<notin> set payable_invoice_statuses then Inr (Inl ''invoice_not_payable'')
          else if blocking_exception_type payment_blocking_exception_types {} (tb_exceptions tb) (inv_id iv) \<noteq> None
          then Inr (Inl ''invoice_has_blocking_exception'')
          else if inactive_vendor_status (tb_vendors tb) iv \<noteq> None then Inr (Inl ''vendor_not_active'')
          else if card_claimed_in tb batch (inv_id iv) then Inr (Inl ''invoice_has_live_card'')
          else if \<not> is_retry_safe p then Inr (Inl ''needs_reconciliation'')
          else if live_payment (tb_payments tb) (inv_id iv) then Inr (Inl ''invoice_has_live_payment'')
          else if applied_credit_conflict (tb_memos tb) iv \<noteq> None then Inr (Inl ''applied_credit_mismatch'')
          else bind_res (payable_amount tb iv today) (\<lambda>q.
            if booked_discount_mismatch p q then Inr (Inl ''discount_changed'')
            else if pa_amount q \<noteq> py_amount p then Inr (Inl ''net_amount_changed'')
            else Inr (Inr q)))"

definition retry_payment :: "uid \<Rightarrow> uid \<Rightarrow> payment \<Rightarrow> payable \<Rightarrow> payment" where
  "retry_payment i run_id p q =
     \<lparr>py_id = i, py_invoice_id = py_invoice_id p, py_run_id = Some run_id, py_amount = pa_amount q,
      py_method = py_method p, py_status = ''pending'', py_provider_payment_id = None,
      py_failure_reason = None, py_retry_of = Some (py_id p), py_discount_offer_id = pa_offer_id q,
      py_discount_amount = map_option ad_amount (pa_discount q), py_dispatch_attempted_at = None,
      py_settled_amount = None, py_settled_currency = None, py_settled_unstorable = False,
      py_source_currency = None, py_source_amount = None, py_provider = None, py_reference = None,
      py_submitted_at = None, py_completed_at = None\<rparr>"

text \<open>Each insert runs in a savepoint: the unique index refuses a second live payment.\<close>

fun book_retries ::
  "tables \<Rightarrow> date \<Rightarrow> (uid \<Rightarrow> uid) \<Rightarrow> uid \<Rightarrow> payment list \<Rightarrow> payment list \<Rightarrow> payment list \<Rightarrow> string list \<Rightarrow>
     exc + payment list \<times> string list" where
  "book_retries tb today new_id run_id batch [] booked skipped = Inr (booked, skipped)"
| "book_retries tb today new_id run_id batch (p # ps) booked skipped =
     bind_res (retry_skip_reason tb today batch p) (\<lambda>v. case v of
         Inl reason \<Rightarrow> book_retries tb today new_id run_id batch ps booked (skipped @ [reason])
       | Inr q \<Rightarrow>
           (let r = retry_payment (new_id (py_id p)) run_id p q
            in if one_live (tb_payments tb @ booked @ [r])
               then book_retries tb today new_id run_id batch ps (booked @ [r]) skipped
               else book_retries tb today new_id run_id batch ps booked (skipped @ [''invoice_has_live_payment''])))"

definition run_rows :: "tables \<Rightarrow> uid \<Rightarrow> payment list" where
  "run_rows tb run_id = filter (\<lambda>p. py_run_id p = Some run_id) (tb_payments tb)"

text \<open>The whole endpoint up to the dispatch: the claimed run, the tables, and why rows were skipped.\<close>

definition retry_failed_payments ::
  "uid \<Rightarrow> payment_config \<Rightarrow> date \<Rightarrow> (uid \<Rightarrow> uid) \<Rightarrow> exc + unit \<Rightarrow> payment_run \<Rightarrow> tables \<Rightarrow>
     exc + payment_run \<times> tables \<times> string list" where
  "retry_failed_payments actor c today new_id adapter r tb =
     (let rows = run_rows tb (pr_id r);
          failed = filter (\<lambda>p. py_status p \<in> set retryable_payment_statuses) (active_run_payments rows)
      in bind_res (retry_failed_run actor c rows adapter r) (\<lambda>r'.
         bind_res (book_retries tb today new_id (pr_id r) failed failed [] []) (\<lambda>(booked, skipped).
           Inr (r', tb\<lparr>tb_payments := tb_payments tb @ booked\<rparr>, skipped))))"

section \<open>Histories\<close>

datatype run_event =
    Approve uid payment_config stamp
  | Cancel
  | Execute uid payment_config
  | Resume uid payment_config
  | RetryFailed uid payment_config "payment list"
  | RecordOutside uid payment_config date date "payment list"
  | ExportNacha uid payment_config date "date option" bool bool "string list" "payment list"
  | VoidNacha string
  | FinishDispatch "payment list" stamp
  | Recompute "payment list"

text \<open>One call, its external answers favourable: a refused one leaves the run as it was.\<close>

definition run_apply :: "run_event \<Rightarrow> payment_run \<Rightarrow> exc + payment_run" where
  "run_apply e r = (case e of
       Approve a c now \<Rightarrow> approve_payment_run a c now r
     | Cancel \<Rightarrow> cancel_payment_run r
     | Execute a c \<Rightarrow> execute_payment_run a c (Inr ()) r
     | Resume a c \<Rightarrow> resume_payment_run a c (Inr ()) r
     | RetryFailed a c rows \<Rightarrow> retry_failed_run a c rows (Inr ()) r
     | RecordOutside a c today paid rows \<Rightarrow> record_run_paid_outside a c today paid rows (Inr ()) r
     | ExportNacha a c today eff regen ro probs rows \<Rightarrow>
         export_run_nacha a c today eff regen ro probs rows (Inr ()) r
     | VoidNacha reason \<Rightarrow> void_nacha_export reason r
     | FinishDispatch rows now \<Rightarrow> Inr (finish_dispatch rows now r)
     | Recompute rows \<Rightarrow> Inr (recompute_run_status rows r))"

text \<open>The calls that hand payments to a processor, and all those that move or release money.\<close>

definition launches :: "run_event \<Rightarrow> bool" where
  "launches e = (case e of Execute _ _ \<Rightarrow> True | Resume _ _ \<Rightarrow> True | RetryFailed _ _ _ \<Rightarrow> True | _ \<Rightarrow> False)"

definition moves_money :: "run_event \<Rightarrow> (uid \<times> payment_config) option" where
  "moves_money e = (case e of
       Execute a c \<Rightarrow> Some (a, c)
     | Resume a c \<Rightarrow> Some (a, c)
     | RetryFailed a c _ \<Rightarrow> Some (a, c)
     | RecordOutside a c _ _ _ \<Rightarrow> Some (a, c)
     | ExportNacha a c _ _ _ _ _ _ \<Rightarrow> Some (a, c)
     | _ \<Rightarrow> None)"

text \<open>A pass only finishes if one was launched; what it finds is up to the world.\<close>

inductive run_trace :: "payment_run \<Rightarrow> run_event list \<Rightarrow> payment_run \<Rightarrow> bool" for r0 where
  start: "run_trace r0 [] r0"
| call: "run_trace r0 es r \<Longrightarrow> run_apply e r = Inr r' \<Longrightarrow>
    (\<And>rows now. e = FinishDispatch rows now \<Longrightarrow> list_ex launches es) \<Longrightarrow> run_trace r0 (es @ [e]) r'"

section \<open>What a call leaves\<close>

lemma raise_refusal_bind: "bind_res (raise_refusal x) f = Inr y \<longleftrightarrow> x = None \<and> f () = Inr y"
  by (auto simp: bind_res_Inr_iff)

lemmas run_op_defs = approve_payment_run_def cancel_payment_run_def execute_payment_run_def
  resume_payment_run_def retry_failed_run_def record_run_paid_outside_def export_run_nacha_def
  void_nacha_export_def finish_dispatch_def recompute_run_status_def

lemma run_apply_frame [frame]:
  assumes "run_apply e r = Inr r'"
  shows "pr_initiated_by r' = pr_initiated_by r" and "pr_requires_cfo_approval r' = pr_requires_cfo_approval r"
  using assms
  by (cases e; auto simp: run_apply_def run_op_defs Let_def raise_refusal_bind elim!: bind_res_InrE)+

lemma run_apply_cfo:
  "run_apply e r = Inr r' \<Longrightarrow> (pr_cfo_approved_at r' \<noteq> None \<longleftrightarrow>
     pr_cfo_approved_at r \<noteq> None \<or> (\<exists>a c now. e = Approve a c now))"
  by (cases e; auto simp: run_apply_def run_op_defs Let_def raise_refusal_bind elim!: bind_res_InrE)

lemma run_apply_approve:
  "run_apply (Approve a c now) r = Inr r' \<Longrightarrow> \<not> run_segregation_violated (pr_initiated_by r) (Some a) c"
  by (auto simp: run_apply_def run_op_defs raise_refusal_bind approve_cleared)

text \<open>Every money-moving call but \<open>/resume\<close> is cleared by its own gate.\<close>

lemma run_apply_moves:
  assumes "run_apply e r = Inr r'" and "moves_money e = Some (a, c)"
  shows "\<not> run_segregation_violated (pr_initiated_by r) (Some a) c"
    and "pr_requires_cfo_approval r \<Longrightarrow> pr_cfo_approved_at r = None \<Longrightarrow> pr_status r = ''executing''"
proof -
  have "cleared r a c \<or> pr_status r = ''executing'' \<and> \<not> run_segregation_violated (pr_initiated_by r) (Some a) c"
    using assms
    by (cases e)
       (auto simp: run_apply_def run_op_defs moves_money_def raise_refusal_bind Let_def execute_cleared
         retry_cleared record_cleared nacha_cleared check_run_segregation_def raise_if_def
         elim!: bind_res_InrE split: if_splits)
  then show "\<not> run_segregation_violated (pr_initiated_by r) (Some a) c"
    and "pr_requires_cfo_approval r \<Longrightarrow> pr_cfo_approved_at r = None \<Longrightarrow> pr_status r = ''executing''"
    by (auto simp: cleared_def)
qed

text \<open>A run leaves \<open>draft\<close> or \<open>cancelled\<close> for anything else only through a cleared call.\<close>

lemma run_apply_leaves:
  assumes "run_apply e r = Inr r'" and "pr_status r \<in> {''draft'', ''cancelled''}"
    and "pr_status r' \<notin> {''draft'', ''cancelled''}"
  shows "(\<exists>a c. moves_money e = Some (a, c)) \<or> (\<exists>rows now. e = FinishDispatch rows now)"
  using assms
  by (cases e)
     (auto simp: run_apply_def run_op_defs moves_money_def raise_refusal_bind Let_def derive_run_status_def
       or_str_def claim_run_statuses_def elim!: bind_res_InrE split: if_splits)

end
