(* ===== verification/RunBuilderProofs.thy ===== *)
theory RunBuilderProofs
  imports RunBuilder MoneyGates
begin

text \<open>
  What a built run promises: the rows it books, the check they pass before their money moves,
  the CFO flag, and the queue's answer to the same question.
\<close>

section \<open>The gates\<close>

lemma map_filter_all:
  "(\<And>x. x \<in> set xs \<Longrightarrow> \<exists>y. f x = Some (x, y)) \<Longrightarrow>
     map fst (List.map_filter f xs) = xs \<and> (\<forall>(x, y)\<in>set (List.map_filter f xs). f x = Some (x, y))"
proof (induction xs)
  case (Cons x xs)
  from Cons.prems [of x] obtain y where "f x = Some (x, y)"
    by auto
  with Cons show ?case
    by (auto simp: List.map_filter_simps)
qed (simp add: List.map_filter_simps)

lemma map_filter_empty: "List.map_filter f xs = [] \<Longrightarrow> x \<in> set xs \<Longrightarrow> f x = None"
  by (auto simp: List.map_filter_def filter_empty_conv)

lemma locked_ids:
  assumes "length (remdups (map inv_id (lock_run_invoices tb scope ids))) = length ids"
  shows "distinct ids" and "i \<in> set ids \<Longrightarrow> \<exists>iv. List.find (\<lambda>iv. inv_id iv = i) (lock_run_invoices tb scope ids) = Some iv"
proof -
  let ?l = "map inv_id (lock_run_invoices tb scope ids)"
  have sub: "set ?l \<subseteq> set ids"
    by (auto simp: lock_run_invoices_def)
  have c: "card (set ?l) = length ids"
    using assms by (metis distinct_card distinct_remdups set_remdups)
  with card_mono [OF _ sub] have "length ids \<le> card (set ids)"
    by simp
  then show "distinct ids"
    by (metis card_distinct card_length le_antisym)
  with c have eq: "set ?l = set ids"
    using sub by (intro card_subset_eq) (auto simp: distinct_card)
  show "\<exists>iv. List.find (\<lambda>iv. inv_id iv = i) (lock_run_invoices tb scope ids) = Some iv" if "i \<in> set ids"
  proof (cases "List.find (\<lambda>iv. inv_id iv = i) (lock_run_invoices tb scope ids)")
    case None
    have "i \<in> set ?l"
      using that eq by blast
    then obtain iv where "iv \<in> set (lock_run_invoices tb scope ids)" "inv_id iv = i"
      by auto
    with find_None_D [OF None] show ?thesis
      by blast
  qed simp
qed

lemma lock_run_invoices_mem: "iv \<in> set (lock_run_invoices tb scope ids) \<Longrightarrow> iv \<in> set (tb_invoices tb)"
  by (simp add: lock_run_invoices_def)

definition passed :: "tables \<Rightarrow> run_item \<times> invoice \<Rightarrow> bool" where
  "passed tb x = (case x of (it, iv) \<Rightarrow> iv \<in> set (tb_invoices tb) \<and> inv_id iv = ri_invoice_id it
     \<and> inv_status iv \<in> set payable_invoice_statuses \<and> run_refusal_reason tb iv (Some (ri_method it)) = None)"

lemma run_gates_InrD:
  assumes "run_gates tb scope items = Inr chosen"
  shows "distinct (map ri_invoice_id items)" and "map fst chosen = items" and "\<forall>x\<in>set chosen. passed tb x"
proof -
  let ?ids = "map ri_invoice_id items"
  let ?l = "lock_run_invoices tb scope ?ids"
  let ?f = "\<lambda>it. map_option (Pair it) (List.find (\<lambda>iv. inv_id iv = ri_invoice_id it) ?l)"
  from assms have n: "length (remdups (map inv_id ?l)) = length ?ids"
    and ch: "chosen = List.map_filter ?f items"
    and st: "\<not> list_ex (\<lambda>(_, iv). inv_status iv \<notin> set payable_invoice_statuses) chosen"
    and rf: "List.map_filter (\<lambda>(it, iv). run_refusal_reason tb iv (Some (ri_method it))) chosen = []"
    by (auto simp: run_gates_def Let_def split: if_splits)
  show "distinct ?ids"
    by (rule locked_ids(1) [OF n])
  have all: "\<exists>iv. ?f it = Some (it, iv)" if "it \<in> set items" for it
    using locked_ids(2) [OF n, of "ri_invoice_id it"] that by auto
  from map_filter_all [of items ?f, OF all] ch
  have fst: "map fst chosen = items" and f: "\<forall>(it, iv)\<in>set chosen. ?f it = Some (it, iv)"
    by simp_all
  show "map fst chosen = items"
    by (rule fst)
  show "\<forall>x\<in>set chosen. passed tb x"
  proof
    fix x assume x: "x \<in> set chosen"
    obtain it iv where xi: "x = (it, iv)" by force
    from f x xi have "List.find (\<lambda>iv. inv_id iv = ri_invoice_id it) ?l = Some iv"
      by auto
    then have "iv \<in> set ?l" "inv_id iv = ri_invoice_id it"
      by (auto dest: find_Some_D)
    moreover have "inv_status iv \<in> set payable_invoice_statuses"
      using st x xi by (auto simp: list_ex_iff)
    moreover have "run_refusal_reason tb iv (Some (ri_method it)) = None"
      using map_filter_empty [OF rf x] xi by simp
    ultimately show "passed tb x"
      using xi lock_run_invoices_mem by (auto simp: passed_def)
  qed
qed

section \<open>The pieces of a created run\<close>

lemma res_map_InrD: "res_map f xs = Inr ys \<Longrightarrow> list_all2 (\<lambda>x y. f x = Inr y) xs ys"
  by (induction xs arbitrary: ys) (auto simp: bind_res_Inr_iff)

definition priced_item :: "tables \<Rightarrow> date \<Rightarrow> run_item \<times> invoice \<times> payable \<Rightarrow> bool" where
  "priced_item tb today x = (case x of (it, iv, p) \<Rightarrow> passed tb (it, iv) \<and> payable_amount tb iv today = Inr p)"

lemma create_payment_run_staged:
  assumes "create_payment_run d org ent scope user today rid nid items plan tb = Inr (c, tb')" and "cr_created c"
  shows "stage_run d org ent scope user today rid nid items plan tb = Inr (c, tb')"
proof -
  have "\<not> cr_created c" if "existing_run_for_plan tb q = Some c" for q
    using that by (auto simp: existing_run_for_plan_def Let_def)
  with assms show ?thesis
    by (auto simp: create_payment_run_def split: if_splits option.splits)
qed

lemma insert_run_InrD:
  assumes "insert_run ent user rid nid plan priced t cfo tb = Inr (c, tb')"
  shows "tb' = tb\<lparr>tb_payments := tb_payments tb @
        map (\<lambda>(it, iv, p). book_payment (nid (ri_invoice_id it)) rid iv p (ri_method it)) priced,
      tb_runs := tb_runs tb @ [cr_run c]\<rparr>"
    and "one_live (tb_payments tb')"
    and "pr_id (cr_run c) = rid \<and> pr_status (cr_run c) = ''draft'' \<and> pr_initiated_by (cr_run c) = Some user
      \<and> pr_total_amount (cr_run c) = Some (rt_total t) \<and> pr_cfo_approved_at (cr_run c) = None
      \<and> pr_requires_cfo_approval (cr_run c) = cd_required cfo"
  using assms by (auto simp: insert_run_def Let_def split: if_splits)

lemma stage_run_InrE:
  assumes "stage_run d org ent scope user today rid nid items plan tb = Inr (c, tb')"
  obtains priced rc t cfo where
    "distinct (map ri_invoice_id items)" "map fst priced = items" "\<forall>x\<in>set priced. priced_item tb today x"
    "resolve_reporting_currency d org = Inr rc" "add_items rc (map snd priced) no_totals = Inr t"
    "cfo_approval_decision (payment_settings org) (rt_reporting t) rc (rt_unconverted t) = Inr cfo"
    "insert_run ent user rid nid plan priced t cfo tb = Inr (c, tb')"
proof -
  from assms obtain chosen priced rc t cfo where ch: "run_gates tb scope items = Inr chosen"
    and pr: "res_map (price_item tb today) chosen = Inr priced"
    and rest: "resolve_reporting_currency d org = Inr rc" "add_items rc (map snd priced) no_totals = Inr t"
      "cfo_approval_decision (payment_settings org) (rt_reporting t) rc (rt_unconverted t) = Inr cfo"
      "insert_run ent user rid nid plan priced t cfo tb = Inr (c, tb')"
    unfolding stage_run_def by (elim bind_res_InrE)
  note g = run_gates_InrD [OF ch]
  have one: "fst y = fst x \<and> priced_item tb today y"
    if "price_item tb today x = Inr y" "passed tb x" for x y
    using that by (cases x) (auto simp: price_item_def bind_res_Inr_iff priced_item_def)
  have l2: "list_all2 (\<lambda>x y. price_item tb today x = Inr y) chosen priced"
    by (rule res_map_InrD [OF pr])
  then have "list_all2 (\<lambda>x y. fst y = fst x \<and> priced_item tb today y) chosen priced"
    by (rule list.rel_mono_strong) (use one g(3) in blast)
  then have "map fst priced = map fst chosen \<and> (\<forall>y\<in>set priced. priced_item tb today y)"
    by (induction rule: list_all2_induct) auto
  then show thesis
    using that [OF g(1) _ _ rest] g(2) by simp
qed

section \<open>What is booked\<close>

lemma add_item_InrD:
  assumes "add_item rc iv p t = Inr u"
  obtains x f where "reporting_amount_at_locked_rate (pa_amount p) (currency iv) rc (reporting_currency iv)
      (reporting_source_currency iv) (reporting_fx_rate iv) = Inr (x, f)"
    and "rt_total u = dadd (rt_total t) (pa_amount p)" and "rt_reporting u = dadd (rt_reporting t) x"
    and "rt_unconverted u = (rt_unconverted t \<or> f)"
  using assms unfolding add_item_def by (elim bind_res_InrE) (force split: prod.splits)

lemma add_items_total:
  "add_items rc xs t = Inr u \<Longrightarrow> rt_total u = foldl dadd (rt_total t) (map (\<lambda>x. pa_amount (snd x)) xs)"
proof (induction xs arbitrary: t)
  case (Cons x xs)
  obtain iv p where x: "x = (iv, p)" by force
  with Cons.prems obtain t' where "add_item rc iv p t = Inr t'" "add_items rc xs t' = Inr u"
    by (auto elim: bind_res_InrE)
  with Cons.IH add_item_InrD x show ?case
    by (metis foldl_Cons list.simps(9) snd_conv)
qed simp

lemma blocking_none:
  assumes "blocking_exception_type bs ex rows i = None"
    and "e \<in> set rows" "ex_invoice_id e = Some i" "ex_type e \<in> set bs" "ex_id e \<notin> ex"
  shows "ex_status e \<in> {''resolved'', ''dismissed''}"
proof (rule ccontr)
  assume st: "ex_status e \<notin> {''resolved'', ''dismissed''}"
  let ?f = "\<lambda>held e. case held of None \<Rightarrow> Some (ex_type e)
    | Some h \<Rightarrow> if rank_in bs (ex_type e) < rank_in bs h then Some (ex_type e) else held"
  have keep: "foldl ?f (Some h) es \<noteq> None" for h es
    by (induction es arbitrary: h) auto
  then have some: "es \<noteq> [] \<Longrightarrow> foldl ?f None es \<noteq> None" for es
    by (cases es) auto
  have "filter (\<lambda>e. ex_invoice_id e = Some i \<and> ex_type e \<in> set bs
      \<and> ex_status e \<notin> {''resolved'', ''dismissed''} \<and> ex_id e \<notin> ex) rows \<noteq> []"
    using assms(2-5) st by (auto simp: filter_empty_conv)
  from some [OF this] assms(1) show False
    by (simp add: blocking_exception_type_def)
qed

lemma no_refusal:
  assumes "run_refusal_reason tb iv m = None"
  shows "blocking_exception_type payment_blocking_exception_types {} (tb_exceptions tb) (inv_id iv) = None"
    and "inactive_vendor_status (tb_vendors tb) iv = None" and "\<not> card_claimed (tb_cards tb) (inv_id iv) m"
    and "applied_credit_conflict (tb_memos tb) iv = None" and "0 < net_payable_amount (tb_memos tb) iv"
    and "\<not> live_payment (tb_payments tb) (inv_id iv)"
  using assms by (auto simp: run_refusal_reason_def Let_def split: option.splits if_splits)

text \<open>The payments a creation added, and the invoice and figures behind each.\<close>

definition new_payments :: "tables \<Rightarrow> tables \<Rightarrow> payment list" where
  "new_payments tb tb' = drop (length (tb_payments tb)) (tb_payments tb')"

lemma new_paymentsE:
  assumes "stage_run d org ent scope user today rid nid items plan tb = Inr (c, tb')"
    and "p \<in> set (new_payments tb tb')"
  obtains it iv q where "it \<in> set items" "passed tb (it, iv)" "payable_amount tb iv today = Inr q"
    "p = book_payment (nid (ri_invoice_id it)) (pr_id (cr_run c)) iv q (ri_method it)"
proof (rule stage_run_InrE [OF assms(1)])
  fix priced rc t cfo
  assume i: "map fst priced = items" and pr: "\<forall>x\<in>set priced. priced_item tb today x"
    and "insert_run ent user rid nid plan priced t cfo tb = Inr (c, tb')"
  from insert_run_InrD [OF this(3)] assms(2)
  have "p \<in> set (map (\<lambda>(it, iv, q). book_payment (nid (ri_invoice_id it)) (pr_id (cr_run c)) iv q (ri_method it)) priced)"
    by (simp add: new_payments_def)
  then obtain it iv q where x: "(it, iv, q) \<in> set priced"
    and p: "p = book_payment (nid (ri_invoice_id it)) (pr_id (cr_run c)) iv q (ri_method it)"
    by auto
  from x i have "it \<in> set items"
    by force
  with pr x p that show thesis
    by (auto simp: priced_item_def)
qed

lemma new_payment_facts:
  assumes "stage_run d org ent scope user today rid nid items plan tb = Inr (c, tb')"
    and "p \<in> set (new_payments tb tb')"
  shows "py_status p = ''pending''" and "py_run_id p = Some (pr_id (cr_run c))"
    and "\<not> live_payment (tb_payments tb) (py_invoice_id p)"
    and "blocking_exception_type payment_blocking_exception_types {} (tb_exceptions tb) (py_invoice_id p) = None"
    and "\<exists>iv\<in>set (tb_invoices tb). inv_id iv = py_invoice_id p \<and> inv_status iv \<in> set payable_invoice_statuses
      \<and> 0 < net_payable_amount (tb_memos tb) iv"
proof -
  from new_paymentsE [OF assms] obtain it iv q where pass: "passed tb (it, iv)"
    and p: "p = book_payment (nid (ri_invoice_id it)) (pr_id (cr_run c)) iv q (ri_method it)"
    by metis
  then have r: "run_refusal_reason tb iv (Some (ri_method it)) = None" and i: "py_invoice_id p = inv_id iv"
    by (simp_all add: passed_def book_payment_def)
  show "py_status p = ''pending''" "py_run_id p = Some (pr_id (cr_run c))"
    by (simp_all add: p book_payment_def)
  show "\<not> live_payment (tb_payments tb) (py_invoice_id p)"
    "blocking_exception_type payment_blocking_exception_types {} (tb_exceptions tb) (py_invoice_id p) = None"
    using no_refusal [OF r] i by simp_all
  show "\<exists>iv\<in>set (tb_invoices tb). inv_id iv = py_invoice_id p \<and> inv_status iv \<in> set payable_invoice_statuses
      \<and> 0 < net_payable_amount (tb_memos tb) iv"
    using pass i no_refusal(5) [OF r] by (auto simp: passed_def)
qed

text \<open>
  Property C11. A created run is a draft of the user who asked for it, totalling exactly what
  its payments move; it books one pending payment per selected invoice, and only for invoices
  that are payable, free of every unresolved blocking exception and of any live payment, with
  something left to pay; and the table still holds at most one live payment per invoice.
\<close>

theorem run_creation_sound:
  assumes "create_payment_run d org ent scope user today rid nid items plan tb = Inr (c, tb')" and "cr_created c"
  shows "pr_status (cr_run c) = ''draft'' \<and> pr_initiated_by (cr_run c) = Some user
    \<and> pr_cfo_approved_at (cr_run c) = None
    \<and> tb_payments tb' = tb_payments tb @ new_payments tb tb' \<and> one_live (tb_payments tb')
    \<and> map py_invoice_id (new_payments tb tb') = map ri_invoice_id items \<and> distinct (map ri_invoice_id items)
    \<and> pr_total_amount (cr_run c) = Some (foldl dadd 0 (map py_amount (new_payments tb tb')))
    \<and> (\<forall>p\<in>set (new_payments tb tb'). py_status p = ''pending'' \<and> py_run_id p = Some (pr_id (cr_run c))
         \<and> \<not> live_payment (tb_payments tb) (py_invoice_id p)
         \<and> (\<forall>e\<in>set (tb_exceptions tb). ex_invoice_id e = Some (py_invoice_id p)
              \<and> ex_type e \<in> set payment_blocking_exception_types \<longrightarrow> ex_status e \<in> {''resolved'', ''dismissed''})
         \<and> (\<exists>iv\<in>set (tb_invoices tb). inv_id iv = py_invoice_id p
              \<and> inv_status iv \<in> {Approved, PostedInErp, PaymentScheduled}
              \<and> 0 < net_payable_amount (tb_memos tb) iv))"
proof -
  note staged = create_payment_run_staged [OF assms]
  show ?thesis
  proof (rule stage_run_InrE [OF staged], intro conjI)
    fix priced rc t cfo
    assume d: "distinct (map ri_invoice_id items)" and i: "map fst priced = items"
      and pr: "\<forall>x\<in>set priced. priced_item tb today x" and t: "add_items rc (map snd priced) no_totals = Inr t"
      and ins: "insert_run ent user rid nid plan priced t cfo tb = Inr (c, tb')"
    note r = insert_run_InrD [OF ins]
    have new: "new_payments tb tb' = map (\<lambda>(it, iv, p).
        book_payment (nid (ri_invoice_id it)) (pr_id (cr_run c)) iv p (ri_method it)) priced"
      using r by (simp add: new_payments_def)
    show "pr_status (cr_run c) = ''draft''" "pr_initiated_by (cr_run c) = Some user"
      "pr_cfo_approved_at (cr_run c) = None" "one_live (tb_payments tb')" "distinct (map ri_invoice_id items)"
      using r d by auto
    show "tb_payments tb' = tb_payments tb @ new_payments tb tb'"
      using r new by simp
    have inv: "py_invoice_id (book_payment a b iv p m) = inv_id iv" "py_amount (book_payment a b iv p m) = pa_amount p"
      for a b iv p m
      by (simp_all add: book_payment_def)
    have "map py_invoice_id (new_payments tb tb') = map (\<lambda>(it, iv, p). inv_id iv) priced"
      by (simp add: new inv split_def)
    also have "\<dots> = map (ri_invoice_id \<circ> fst) priced"
      using pr by (intro map_cong) (auto simp: priced_item_def passed_def)
    finally show "map py_invoice_id (new_payments tb tb') = map ri_invoice_id items"
      using i by auto
    have "map py_amount (new_payments tb tb') = map (\<lambda>x. pa_amount (snd x)) (map snd priced)"
      by (simp add: new inv split_def)
    with add_items_total [OF t] r(3)
    show "pr_total_amount (cr_run c) = Some (foldl dadd 0 (map py_amount (new_payments tb tb')))"
      by (simp add: no_totals_def)
    show "\<forall>p\<in>set (new_payments tb tb'). py_status p = ''pending'' \<and> py_run_id p = Some (pr_id (cr_run c))
       \<and> \<not> live_payment (tb_payments tb) (py_invoice_id p)
       \<and> (\<forall>e\<in>set (tb_exceptions tb). ex_invoice_id e = Some (py_invoice_id p)
            \<and> ex_type e \<in> set payment_blocking_exception_types \<longrightarrow> ex_status e \<in> {''resolved'', ''dismissed''})
       \<and> (\<exists>iv\<in>set (tb_invoices tb). inv_id iv = py_invoice_id p
            \<and> inv_status iv \<in> {Approved, PostedInErp, PaymentScheduled}
            \<and> 0 < net_payable_amount (tb_memos tb) iv)"
    proof
      fix p assume p: "p \<in> set (new_payments tb tb')"
      note f = new_payment_facts [OF staged p]
      show "py_status p = ''pending'' \<and> py_run_id p = Some (pr_id (cr_run c))
         \<and> \<not> live_payment (tb_payments tb) (py_invoice_id p)
         \<and> (\<forall>e\<in>set (tb_exceptions tb). ex_invoice_id e = Some (py_invoice_id p)
              \<and> ex_type e \<in> set payment_blocking_exception_types \<longrightarrow> ex_status e \<in> {''resolved'', ''dismissed''})
         \<and> (\<exists>iv\<in>set (tb_invoices tb). inv_id iv = py_invoice_id p
              \<and> inv_status iv \<in> {Approved, PostedInErp, PaymentScheduled}
              \<and> 0 < net_payable_amount (tb_memos tb) iv)"
        using f(1-3) f(5) blocking_none [OF f(4)] by (simp add: payable_invoice_statuses_def)
    qed
  qed
qed

text \<open>
  Property C16. What is staged can be sent: on the day a run is built, every payment it booked
  passes \<open>dispatch_preflight\<close> against the tables the creation left, whatever its rail.
\<close>

theorem staged_run_dispatches:
  assumes "create_payment_run d org ent scope user today rid nid items plan tb = Inr (c, tb')" and "cr_created c"
    and "p \<in> set (new_payments tb tb')"
  shows "\<exists>iv\<in>set (tb_invoices tb'). inv_id iv = py_invoice_id p \<and> dispatch_preflight tb' p iv today = Inr None"
proof -
  note staged = create_payment_run_staged [OF assms(1,2)]
  have same: "tb_invoices tb' = tb_invoices tb" "tb_exceptions tb' = tb_exceptions tb"
    "tb_vendors tb' = tb_vendors tb" "tb_cards tb' = tb_cards tb" "tb_memos tb' = tb_memos tb"
    "tb_offers tb' = tb_offers tb"
    using staged by (auto elim!: stage_run_InrE dest!: insert_run_InrD(1))
  then have "payable_amount tb' iv today = payable_amount tb iv today" for iv
    by (simp add: payable_amount_def applicable_discount_def Let_def cong: if_cong)
  note pay = this
  from new_paymentsE [OF staged assms(3)] obtain it iv q where pass: "passed tb (it, iv)"
    and q: "payable_amount tb iv today = Inr q"
    and p: "p = book_payment (nid (ri_invoice_id it)) (pr_id (cr_run c)) iv q (ri_method it)"
    by metis
  from pass have iv: "iv \<in> set (tb_invoices tb)" "inv_status iv \<in> set payable_invoice_statuses"
    and r: "run_refusal_reason tb iv (Some (ri_method it)) = None"
    by (simp_all add: passed_def)
  have "dispatch_preflight tb' p iv today = Inr None"
    using no_refusal [OF r] iv q p
    by (simp add: dispatch_preflight_def pay same booked_discount_mismatch_def book_payment_def Let_def)
  with iv p same show ?thesis
    by (auto simp: book_payment_def)
qed

section \<open>The CFO flag\<close>

lemma locked_rate_priced:
  "reporting_amount_at_locked_rate raw (currency iv) rc (reporting_currency iv)
      (reporting_source_currency iv) (reporting_fx_rate iv) = Inr (x, False) \<Longrightarrow> priced_at iv rc raw x"
  by (cases "reporting_fx_rate iv")
     (auto simp: reporting_amount_at_locked_rate_def priced_at_def bind_res_Inr_iff Let_def split: if_splits)

lemma add_items_reported:
  assumes "add_items rc xs t = Inr u" and "\<not> rt_unconverted u"
  shows "\<not> rt_unconverted t \<and> (\<exists>ys. rt_reporting u = foldl dadd (rt_reporting t) ys
    \<and> list_all2 (\<lambda>x y. priced_at (fst x) rc (pa_amount (snd x)) y) xs ys)"
  using assms
proof (induction xs arbitrary: t)
  case (Cons x xs)
  obtain iv p where x: "x = (iv, p)" by force
  with Cons.prems(1) obtain t' where t': "add_item rc iv p t = Inr t'" "add_items rc xs t' = Inr u"
    by (auto elim: bind_res_InrE)
  from Cons.IH [OF t'(2) Cons.prems(2)] obtain ys where ys: "\<not> rt_unconverted t'"
    "rt_reporting u = foldl dadd (rt_reporting t') ys"
    "list_all2 (\<lambda>x y. priced_at (fst x) rc (pa_amount (snd x)) y) xs ys"
    by blast
  from add_item_InrD [OF t'(1)] obtain y f where y: "rt_reporting t' = dadd (rt_reporting t) y"
    "rt_unconverted t' = (rt_unconverted t \<or> f)" "reporting_amount_at_locked_rate (pa_amount p) (currency iv)
      rc (reporting_currency iv) (reporting_source_currency iv) (reporting_fx_rate iv) = Inr (y, f)"
    by metis
  with ys(1) have "priced_at iv rc (pa_amount p) y" "\<not> rt_unconverted t"
    using locked_rate_priced by auto
  with ys y(1) x show ?case
    by (intro conjI exI [of _ "y # ys"]) auto
qed simp

lemma cfo_silent:
  assumes "cfo_approval_decision c a rc u = Inr d" and "\<not> cd_required d"
    and "pget (config_or_empty c) ''cfo_approval_above'' \<noteq> PNone"
  obtains t where "decimal_of_str (pget (config_or_empty c) ''cfo_approval_above'') = Some t"
    and "dec_less (Fin 0) t = Some False \<or> \<not> u \<and> dec_less t (Fin a) = Some False"
proof (cases "decimal_of_str (pget (config_or_empty c) ''cfo_approval_above'')")
  case None
  with assms show thesis
    by (auto simp: cfo_approval_decision_def Let_def)
next
  case (Some t)
  with assms that [OF Some] show thesis
    by (cases t) (auto simp: cfo_approval_decision_def Let_def split: if_splits)
qed

text \<open>
  Property C17. A run escapes the CFO only for a reason: no threshold, a threshold that is not
  positive, or a threshold really compared with the sum of what its payments are worth in the
  organisation's reporting currency, each at face value or at a rate locked on its own invoice
  for that pair of currencies.
\<close>

theorem cfo_flag_measured:
  fixes org :: pyval
  defines "raw \<equiv> pget (config_or_empty (payment_settings org)) ''cfo_approval_above''"
  assumes "create_payment_run d org ent scope user today rid nid items plan tb = Inr (c, tb')" and "cr_created c"
    and "\<not> pr_requires_cfo_approval (cr_run c)"
  shows "raw = PNone \<or> (\<exists>t. decimal_of_str raw = Some t \<and> (dec_less (Fin 0) t = Some False
    \<or> (\<exists>rc ys. resolve_reporting_currency d org = Inr rc \<and> dec_less t (Fin (foldl dadd 0 ys)) = Some False
         \<and> list_all2 (\<lambda>p y. \<exists>iv\<in>set (tb_invoices tb). inv_id iv = py_invoice_id p \<and> priced_at iv rc (py_amount p) y)
              (new_payments tb tb') ys)))"
proof (cases "raw = PNone")
  case False
  show ?thesis
  proof (rule stage_run_InrE [OF create_payment_run_staged [OF assms(2,3)]])
    fix priced rc t cfo
    assume pr: "\<forall>x\<in>set priced. priced_item tb today x" and rc: "resolve_reporting_currency d org = Inr rc"
      and t: "add_items rc (map snd priced) no_totals = Inr t"
      and cfo: "cfo_approval_decision (payment_settings org) (rt_reporting t) rc (rt_unconverted t) = Inr cfo"
      and ins: "insert_run ent user rid nid plan priced t cfo tb = Inr (c, tb')"
    note r = insert_run_InrD [OF ins]
    have "\<not> cd_required cfo"
      using r(3) assms(4) by simp
    from cfo_silent [OF cfo this] False obtain w where w: "decimal_of_str raw = Some w"
      "dec_less (Fin 0) w = Some False \<or> \<not> rt_unconverted t \<and> dec_less w (Fin (rt_reporting t)) = Some False"
      unfolding raw_def by blast
    have "\<exists>ys. dec_less w (Fin (foldl dadd 0 ys)) = Some False
         \<and> list_all2 (\<lambda>p y. \<exists>iv\<in>set (tb_invoices tb). inv_id iv = py_invoice_id p \<and> priced_at iv rc (py_amount p) y)
              (new_payments tb tb') ys"
      if u: "\<not> rt_unconverted t" and less: "dec_less w (Fin (rt_reporting t)) = Some False"
    proof -
      from add_items_reported [OF t u] obtain ys where ys: "rt_reporting t = foldl dadd 0 ys"
        "list_all2 (\<lambda>x y. priced_at (fst x) rc (pa_amount (snd x)) y) (map snd priced) ys"
        by (auto simp: no_totals_def)
      have new: "new_payments tb tb' = map (\<lambda>(it, iv, p).
          book_payment (nid (ri_invoice_id it)) (pr_id (cr_run c)) iv p (ri_method it)) priced"
        using r by (simp add: new_payments_def)
      have "list_all2 (\<lambda>p y. \<exists>iv\<in>set (tb_invoices tb). inv_id iv = py_invoice_id p \<and> priced_at iv rc (py_amount p) y)
              (new_payments tb tb') ys"
        unfolding new list_all2_map1
        by (rule list.rel_mono_strong [OF ys(2) [unfolded list_all2_map1]])
           (use pr in \<open>force simp: book_payment_def priced_item_def passed_def split: prod.splits\<close>)
      with ys(1) less show ?thesis
        by auto
    qed
    with w rc show ?thesis
      by blast
  qed
qed simp

section \<open>What an invoice is worth\<close>

lemma discount_from_SomeD:
  "discount_from iv day net figures fs = Inr (Some a) \<Longrightarrow>
     \<exists>f\<in>set fs. \<exists>t base. of_id f = ad_offer_id a \<and> of_accepted_tier f = Some t
       \<and> accepted_discount_deadline f = Inr (Some (ad_deadline a)) \<and> day \<le> ad_deadline a
       \<and> py_upper (or_str (of_currency f) []) = py_upper (or_str (currency iv) [])
       \<and> quantize_cents (of_base_amount f) = Inr base \<and> quantize_cents (amount iv) = Inr base
       \<and> discount_savings base t = Inr (ad_amount a) \<and> 0 < ad_amount a \<and> ad_amount a < net"
proof (induction fs)
  case (Cons f fs)
  show ?case
  proof (cases "discount_from iv day net figures fs = Inr (Some a)")
    case True
    from Cons.IH [OF this] show ?thesis
      by auto
  next
    case False
    with Cons.prems show ?thesis
      by (auto simp: bind_res_Inr_iff Let_def split: option.splits if_splits)
  qed
qed simp

lemma has_scale_sum: "(\<And>x. x \<in> set xs \<Longrightarrow> has_scale n x) \<Longrightarrow> has_scale n (sum_list xs)"
proof (induction xs)
  case (Cons x xs)
  have "has_scale n (x - (0 - sum_list xs))"
    using Cons by (intro has_scale_diff) (auto simp: has_scale_def)
  then show ?case
    by simp
qed (simp add: has_scale_def)

lemma ctx_pos_D: "0 < ctx x \<Longrightarrow> 0 < x"
proof (rule ccontr)
  assume "0 < ctx x" and "\<not> 0 < x"
  then have "ctx x \<le> ctx 0"
    by (intro ctx_mono) simp
  with \<open>0 < ctx x\<close> show False
    by (simp add: ctx_def)
qed

lemma net_payable_exact:
  assumes "money_col (amount iv)"
    and "\<And>m. m \<in> set (applied_memos ms (inv_id iv)) \<Longrightarrow> money_col (cm_amount m) \<and> 0 \<le> cm_amount m"
    and "0 < net_payable_amount ms iv"
  shows "net_payable_amount ms iv = amount iv - applied_credit_total ms (inv_id iv)"
    and "0 \<le> applied_credit_total ms (inv_id iv)" and "money_col (net_payable_amount ms iv)"
proof -
  let ?c = "applied_credit_total ms (inv_id iv)"
  have sc: "has_scale 2 ?c"
    unfolding applied_credit_total_def
    by (rule has_scale_sum) (use assms(2) in \<open>auto simp: money_col_def\<close>)
  show c0: "0 \<le> ?c"
    unfolding applied_credit_total_def by (rule sum_list_nonneg) (use assms(2) in auto)
  have "0 < amount iv - ?c"
    using assms(3) by (auto simp: net_payable_amount_def dsub_def dest: ctx_pos_D)
  with c0 assms(1) have b: "\<bar>amount iv - ?c\<bar> < 10 ^ 13"
    by (auto simp: money_col_def)
  show eq: "net_payable_amount ms iv = amount iv - ?c"
    unfolding net_payable_amount_def
    by (rule dsub_scaled [of 2]) (use assms(1) sc b in \<open>auto simp: money_col_def\<close>)
  show "money_col (net_payable_amount ms iv)"
    using assms(1) sc b by (auto simp: eq money_col_def intro!: has_scale_diff)
qed

text \<open>
  Property C18. What a payment moves is exact: the invoice net of the credits applied to it,
  less at most one early-payment discount, which is one of its own accepted offers, in its own
  currency, made on its present amount and not past its pay-by date; and it never falls to
  nothing.
\<close>

theorem payable_amount_exact:
  assumes "money_col (amount iv)"
    and "\<And>m. m \<in> set (applied_memos (tb_memos tb) (inv_id iv)) \<Longrightarrow> money_col (cm_amount m) \<and> 0 \<le> cm_amount m"
    and "0 < net_payable_amount (tb_memos tb) iv" and "payable_amount tb iv day = Inr q"
  shows "pa_net q = amount iv - applied_credit_total (tb_memos tb) (inv_id iv)
    \<and> 0 < pa_amount q \<and> pa_amount q \<le> pa_net q
    \<and> (case pa_discount q of None \<Rightarrow> pa_amount q = pa_net q
       | Some a \<Rightarrow> pa_amount q = pa_net q - ad_amount a \<and> day \<le> ad_deadline a
           \<and> (\<exists>f\<in>set (tb_offers tb). of_id f = ad_offer_id a \<and> of_invoice_id f = Some (inv_id iv)
                \<and> of_status f = ''accepted'' \<and> accepted_discount_deadline f = Inr (Some (ad_deadline a))
                \<and> py_upper (or_str (of_currency f) []) = py_upper (or_str (currency iv) [])
                \<and> quantize_cents (of_base_amount f) = quantize_cents (amount iv)))"
proof -
  let ?n = "net_payable_amount (tb_memos tb) iv"
  note net = net_payable_exact [OF assms(1-3)]
  from assms(4) obtain d where d: "applicable_discount tb iv day ?n = Inr d"
    and q: "pa_net q = ?n" "pa_discount q = d"
      "pa_amount q = (case d of None \<Rightarrow> ?n | Some a \<Rightarrow> dsub ?n (ad_amount a))"
    by (auto simp: payable_amount_def Let_def elim!: bind_res_InrE)
  show ?thesis
  proof (cases d)
    case None
    with q net assms(3) show ?thesis by simp
  next
    case (Some a)
    with d obtain figures where
      "discount_from iv day ?n figures (accepted_offers (tb_offers tb) (inv_id iv)) = Inr (Some a)"
      by (auto simp: applicable_discount_def Let_def elim!: bind_res_InrE)
    from discount_from_SomeD [OF this] obtain f t base where
      f: "f \<in> set (accepted_offers (tb_offers tb) (inv_id iv))" "of_id f = ad_offer_id a"
        "accepted_discount_deadline f = Inr (Some (ad_deadline a))" "day \<le> ad_deadline a"
        "py_upper (or_str (of_currency f) []) = py_upper (or_str (currency iv) [])"
        "quantize_cents (of_base_amount f) = Inr base" "quantize_cents (amount iv) = Inr base"
      and a: "discount_savings base t = Inr (ad_amount a)" "0 < ad_amount a" "ad_amount a < ?n"
      by blast
    from a(1) have "has_scale 2 (ad_amount a)"
      unfolding discount_savings_def using quantize_money_InrD has_scale_round_to by metis
    then have "dsub ?n (ad_amount a) = ?n - ad_amount a"
      using a(2,3) net(3) by (intro dsub_scaled [of 2]) (auto simp: money_col_def)
    with q Some f a net(1) show ?thesis
      by (auto simp: accepted_offers_def)
  qed
qed

section \<open>The queue and the builder\<close>


section \<open>A concrete run\<close>

definition sample_tables :: tables where
  "sample_tables = \<lparr>tb_invoices = [sample_invoice\<lparr>inv_status := Approved\<rparr>], tb_exceptions = [],
     tb_vendors = [\<lparr>vr_id = ''v-1'', vr_status = Some ''active'', vr_payments_blocked = None,
       vr_screening_status = None\<rparr>],
     tb_memos = [\<lparr>cm_vendor_id = ''v-1'', cm_invoice_id = Some ''inv-1'', cm_amount = 100,
       cm_currency = Some ''USD'', cm_status = ''applied''\<rparr>],
     tb_cards = [], tb_offers = [], tb_payments = [], tb_runs = []\<rparr>"

definition threshold_settings :: "int \<Rightarrow> pyval" where
  "threshold_settings n = PDict [(''payments'', PDict [(''cfo_approval_above'', PInt n)])]"

definition sample_payment :: payment where
  "sample_payment = \<lparr>py_id = ''p-inv-1'', py_invoice_id = ''inv-1'', py_run_id = Some ''run-1'', py_amount = 800,
     py_method = Some ''ach'', py_status = ''pending'', py_provider_payment_id = None,
     py_failure_reason = None, py_retry_of = None, py_discount_offer_id = None,
     py_discount_amount = None, py_dispatch_attempted_at = None, py_settled_amount = None,
     py_settled_currency = None, py_settled_unstorable = False, py_source_currency = None,
     py_source_amount = None, py_provider = None, py_reference = None, py_submitted_at = None,
     py_completed_at = None\<rparr>"

definition sample_run :: "bool \<Rightarrow> payment_run" where
  "sample_run cfo = \<lparr>pr_id = ''run-1'', pr_entity_id = None, pr_status = ''draft'', pr_total_amount = Some 800,
     pr_initiated_by = Some ''u-ap'', pr_executed_at = None, pr_requires_cfo_approval = cfo,
     pr_cfo_approved_by = None, pr_cfo_approved_at = None, pr_plan_id = None, pr_nacha_export_count = 0\<rparr>"

definition sample_creation :: "int \<Rightarrow> exc + run_creation \<times> tables" where
  "sample_creation n = create_payment_run ''USD'' (threshold_settings n) None None ''u-ap'' 739000 ''run-1''
     (\<lambda>i. ''p-'' @ i) [\<lparr>ri_invoice_id = ''inv-1'', ri_method = ''ach''\<rparr>] None sample_tables"

definition sample_result :: "bool \<Rightarrow> run_creation \<times> tables" where
  "sample_result cfo = (\<lparr>cr_run = sample_run cfo, cr_total_amount = 800, cr_payment_count = 1,
       cr_created = True, cr_discount_total = 0\<rparr>,
     sample_tables\<lparr>tb_payments := [sample_payment], tb_runs := [sample_run cfo]\<rparr>)"

lemma sample_creation_eq:
  "sample_creation 500 = Inr (sample_result True)" "sample_creation 800 = Inr (sample_result False)"
  by (code_simp, code_simp)

lemma sample_creation_unfolded:
  "create_payment_run ''USD'' (threshold_settings 500) None None ''u-ap'' 739000 ''run-1'' (\<lambda>i. ''p-'' @ i)
     [\<lparr>ri_invoice_id = ''inv-1'', ri_method = ''ach''\<rparr>] None sample_tables
   = Inr (fst (sample_result True), snd (sample_result True))"
  "create_payment_run ''USD'' (threshold_settings 800) None None ''u-ap'' 739000 ''run-1'' (\<lambda>i. ''p-'' @ i)
     [\<lparr>ri_invoice_id = ''inv-1'', ri_method = ''ach''\<rparr>] None sample_tables
   = Inr (fst (sample_result False), snd (sample_result False))"
  using sample_creation_eq by (simp_all add: sample_creation_def)

lemma sample_result_facts:
  "cr_created (fst (sample_result b))" "cr_run (fst (sample_result b)) = sample_run b"
  "new_payments sample_tables (snd (sample_result b)) = [sample_payment]"
  by (simp_all add: sample_result_def new_payments_def sample_tables_def)

lemma run_creation_sound_witness:
  "one_live (tb_payments (snd (sample_result True))) \<and> pr_total_amount (sample_run True) = Some (foldl dadd 0 [800])"
proof -
  have "map py_amount [sample_payment] = [800]"
    by (simp add: sample_payment_def)
  with run_creation_sound [OF sample_creation_unfolded(1) sample_result_facts(1)] show ?thesis
    unfolding sample_result_facts by metis
qed

lemma staged_run_dispatches_witness:
  "\<exists>iv\<in>set (tb_invoices (snd (sample_result True))). inv_id iv = ''inv-1''
     \<and> dispatch_preflight (snd (sample_result True)) sample_payment iv 739000 = Inr None"
  using staged_run_dispatches [OF sample_creation_unfolded(1) sample_result_facts(1), of sample_payment]
  by (simp add: sample_result_facts) (simp add: sample_payment_def)

lemma cfo_flag_measured_witness:
  "\<exists>ys. dec_less (Fin 800) (Fin (foldl dadd 0 ys)) = Some False \<and> length ys = 1"
proof -
  let ?raw = "pget (config_or_empty (payment_settings (threshold_settings 800))) ''cfo_approval_above''"
  have raw: "?raw = PInt 800"
    by code_simp
  have "\<not> pr_requires_cfo_approval (cr_run (fst (sample_result False)))"
    by (simp add: sample_result_facts sample_run_def)
  from cfo_flag_measured [OF sample_creation_unfolded(2) sample_result_facts(1) this]
  show ?thesis
    unfolding raw by (auto simp: sample_result_facts dest!: list_all2_lengthD)
qed

lemma payable_amount_exact_witness:
  "\<exists>q. payable_amount sample_tables (sample_invoice\<lparr>inv_status := Approved\<rparr>) 739000 = Inr q
    \<and> 0 < pa_amount q \<and> pa_net q = 900 - 100"
proof -
  let ?iv = "sample_invoice\<lparr>inv_status := Approved\<rparr>"
  have memos: "applied_memos (tb_memos sample_tables) (inv_id ?iv) = tb_memos sample_tables"
    by (simp add: applied_memos_def sample_tables_def sample_invoice_def)
  have total: "applied_credit_total (tb_memos sample_tables) (inv_id ?iv) = 100"
    unfolding applied_credit_total_def memos by (simp add: sample_tables_def)
  have pay: "payable_amount sample_tables ?iv 739000
      = Inr \<lparr>pa_amount = 800, pa_net = 800, pa_discount = None\<rparr>"
    by code_simp
  have "money_col (amount ?iv)" "0 < net_payable_amount (tb_memos sample_tables) ?iv"
    by (code_simp, code_simp)
  moreover have "money_col (cm_amount m) \<and> 0 \<le> cm_amount m"
    if "m \<in> set (applied_memos (tb_memos sample_tables) (inv_id ?iv))" for m
    using that unfolding memos by (simp add: sample_tables_def money_col_def has_scale_def)
  ultimately show ?thesis
    using payable_amount_exact [OF _ _ _ pay] pay by (auto simp: total)
qed


end
