(* ===== verification/RunLifecycleProofs.thy ===== *)
theory RunLifecycleProofs
  imports RunLifecycle RunBuilderProofs
begin

text \<open>
  Safety of the run's life, over every history: who moved money and who signed, that a
  dispatched run is never reopened, and that a retry is a new, checked order for a failure the
  processor provably never took.
\<close>

section \<open>Who moves money\<close>

definition signed_off :: "payment_run \<Rightarrow> run_event list \<Rightarrow> bool" where
  "signed_off r0 es = (\<exists>b c t. Approve b c t \<in> set es \<and> \<not> run_segregation_violated (pr_initiated_by r0) (Some b) c)"

definition fresh_run :: "payment_run \<Rightarrow> bool" where
  "fresh_run r = (pr_status r = ''draft'' \<and> pr_cfo_approved_at r = None)"

definition money_inv :: "payment_run \<Rightarrow> run_event list \<Rightarrow> payment_run \<Rightarrow> bool" where
  "money_inv r0 es r =
     (pr_initiated_by r = pr_initiated_by r0 \<and> pr_requires_cfo_approval r = pr_requires_cfo_approval r0
      \<and> (pr_cfo_approved_at r \<noteq> None \<longrightarrow> signed_off r0 es)
      \<and> (pr_requires_cfo_approval r \<and> (pr_status r \<notin> {''draft'', ''cancelled''} \<or> list_ex launches es)
           \<longrightarrow> pr_cfo_approved_at r \<noteq> None))"

lemma launches_moves: "launches e \<Longrightarrow> \<exists>a c. moves_money e = Some (a, c)"
  by (cases e) (auto simp: launches_def moves_money_def)

lemma signed_off_snoc: "signed_off r0 es \<Longrightarrow> signed_off r0 (es @ [e])"
  by (auto simp: signed_off_def)

lemma money_inv_step:
  assumes "money_inv r0 es r" and "run_apply e r = Inr r'"
    and fin: "\<And>rows now. e = FinishDispatch rows now \<Longrightarrow> list_ex launches es"
  shows "money_inv r0 (es @ [e]) r'"
proof -
  note f = run_apply_frame [OF assms(2)] and cfo = run_apply_cfo [OF assms(2)]
  have signed: "pr_cfo_approved_at r' \<noteq> None \<longrightarrow> signed_off r0 (es @ [e])"
  proof
    assume "pr_cfo_approved_at r' \<noteq> None"
    with cfo consider "pr_cfo_approved_at r \<noteq> None" | a c now where "e = Approve a c now"
      by blast
    then show "signed_off r0 (es @ [e])"
    proof cases
      case 1
      with assms(1) signed_off_snoc show ?thesis by (auto simp: money_inv_def)
    next
      case 2
      with run_apply_approve assms(1,2) show ?thesis
        by (fastforce simp: signed_off_def money_inv_def)
    qed
  qed
  have "pr_cfo_approved_at r' \<noteq> None"
    if req: "pr_requires_cfo_approval r'"
      and out: "pr_status r' \<notin> {''draft'', ''cancelled''} \<or> list_ex launches (es @ [e])"
  proof (rule ccontr)
    assume "\<not> pr_cfo_approved_at r' \<noteq> None"
    with cfo have none: "pr_cfo_approved_at r = None"
      by blast
    with assms(1) req f have in_draft: "pr_status r \<in> {''draft'', ''cancelled''}" and no: "\<not> list_ex launches es"
      by (auto simp: money_inv_def)
    have not_moved: "moves_money e \<noteq> Some (a, c)" for a c
      using run_apply_moves(2) [OF assms(2)] req f none in_draft by auto
    from out no launches_moves [of e] not_moved have "pr_status r' \<notin> {''draft'', ''cancelled''}"
      by auto
    from run_apply_leaves [OF assms(2) in_draft this] not_moved fin no show False
      by blast
  qed
  with signed assms(1) f show ?thesis
    by (simp add: money_inv_def)
qed

lemma run_trace_inv: "run_trace r0 es r \<Longrightarrow> fresh_run r0 \<Longrightarrow> money_inv r0 es r"
proof (induction rule: run_trace.induct)
  case start
  then show ?case
    by (simp add: money_inv_def fresh_run_def)
next
  case (call es r e r')
  then show ?case
    using money_inv_step by blast
qed


text \<open>The history of a run that needed its CFO: approved by another, executed by a third.\<close>

definition signed_history :: "run_event list" where
  "signed_history = [Approve ''u-cfo'' None 5, Execute ''u-pay'' None,
     FinishDispatch [sample_payment\<lparr>py_status := ''submitted''\<rparr>] 9, Recompute [sample_payment\<lparr>py_status := ''completed''\<rparr>]]"

definition signed_run :: payment_run where
  "signed_run = (sample_run True)\<lparr>pr_status := ''completed'', pr_executed_at := Some 9,
     pr_cfo_approved_by := Some ''u-cfo'', pr_cfo_approved_at := Some 5\<rparr>"

lemma signed_trace: "run_trace (sample_run True) signed_history signed_run"
proof -
  let ?r = "sample_run True"
  let ?a = "?r\<lparr>pr_cfo_approved_by := Some ''u-cfo'', pr_cfo_approved_at := Some 5\<rparr>"
  let ?b = "?a\<lparr>pr_status := ''executing''\<rparr>"
  let ?c = "?b\<lparr>pr_status := ''submitted'', pr_executed_at := Some 9\<rparr>"
  let ?e1 = "Approve ''u-cfo'' None 5" and ?e2 = "Execute ''u-pay'' None"
  let ?e3 = "FinishDispatch [sample_payment\<lparr>py_status := ''submitted''\<rparr>] 9"
  let ?e4 = "Recompute [sample_payment\<lparr>py_status := ''completed''\<rparr>]"
  have a: "run_apply ?e1 ?r = Inr ?a" by code_simp
  have b: "run_apply ?e2 ?a = Inr ?b" by code_simp
  have c: "run_apply ?e3 ?b = Inr ?c" by code_simp
  have d: "run_apply ?e4 ?c = Inr signed_run" by code_simp
  have "run_trace ?r ([] @ [?e1]) ?a"
    by (rule run_trace.call [OF run_trace.start a]) simp
  then have "run_trace ?r (([] @ [?e1]) @ [?e2]) ?b"
    by (rule run_trace.call [OF _ b]) simp
  then have "run_trace ?r ((([] @ [?e1]) @ [?e2]) @ [?e3]) ?c"
    by (rule run_trace.call [OF _ c]) (simp add: launches_def)
  then have "run_trace ?r (((([] @ [?e1]) @ [?e2]) @ [?e3]) @ [?e4]) signed_run"
    by (rule run_trace.call [OF _ d]) simp
  then show ?thesis
    by (simp add: signed_history_def)
qed


section \<open>What a rollup says\<close>

lemma rollup_counts:
  "rollup_payment_statuses ss = \<lparr>ro_total = length ss,
     ro_completed = length (filter (\<lambda>s. s = ''completed'') ss),
     ro_failed = length (filter (\<lambda>s. s \<in> set live_payment_terminal_statuses) ss),
     ro_in_flight = length (filter (\<lambda>s. s \<in> set run_payment_in_flight_statuses) ss),
     ro_pending = length (filter (\<lambda>s. s = ''pending'') ss)\<rparr>"
proof (induction ss rule: rev_induct)
  case Nil
  then show ?case
    by (simp add: rollup_payment_statuses_def empty_rollup_def)
next
  case (snoc s ss)
  have "rollup_payment_statuses (ss @ [s]) = bucket (rollup_payment_statuses ss) s"
    by (simp add: rollup_payment_statuses_def)
  then show ?case
    by (simp add: snoc.IH bucket_def Let_def live_payment_terminal_statuses_def
        run_payment_in_flight_statuses_def)
qed

lemma filter_all: "length (filter P xs) = length xs \<longleftrightarrow> (\<forall>x\<in>set xs. P x)"
  by (metis filter_True length_filter_less less_irrefl)

lemma filter_none: "filter P xs = [] \<longleftrightarrow> \<not> (\<exists>x\<in>set xs. P x)"
  by (simp add: filter_empty_conv)

definition status_of_facts :: "bool \<Rightarrow> bool \<Rightarrow> bool \<Rightarrow> bool \<Rightarrow> bool \<Rightarrow> bool \<Rightarrow> string" where
  "status_of_facts F C I none P all =
     (if F \<and> \<not> (C \<or> I) then ''failed'' else if F then ''partial'' else if I then ''submitted''
      else if none then ''draft'' else if P then ''executing'' else if all then ''completed''
      else if C then ''partial'' else ''failed'')"

lemma status_of_facts_iff:
  "status_of_facts F C I none P all = ''completed'' \<longleftrightarrow> \<not> F \<and> \<not> I \<and> \<not> none \<and> \<not> P \<and> all"
  "status_of_facts F C I none P all = ''submitted'' \<longleftrightarrow> \<not> F \<and> I"
  "status_of_facts F C I none P all = ''draft'' \<longleftrightarrow> \<not> F \<and> \<not> I \<and> none"
  "status_of_facts F C I none P all = ''failed'' \<Longrightarrow> (F \<or> \<not> none) \<and> \<not> C \<and> \<not> I"
  by (cases F; cases C; cases I; cases none; cases P; cases all; simp add: status_of_facts_def)+

lemma run_status_read:
  "run_status (rollup_payment_statuses ss) = status_of_facts
     (\<exists>s\<in>set ss. s \<in> set live_payment_terminal_statuses) (\<exists>s\<in>set ss. s = ''completed'')
     (\<exists>s\<in>set ss. s \<in> set run_payment_in_flight_statuses) (ss = []) (\<exists>s\<in>set ss. s = ''pending'')
     (\<forall>s\<in>set ss. s = ''completed'')"
  unfolding run_status_def rollup_counts status_of_facts_def rollup.select_convs filter_all length_0_conv
    filter_none not_not
  by (rule refl)

lemma status_buckets:
  "\<forall>s\<in>set ss. s = ''completed'' \<Longrightarrow> \<not> (\<exists>s\<in>set ss. s \<in> set live_payment_terminal_statuses)"
  "\<forall>s\<in>set ss. s = ''completed'' \<Longrightarrow> \<not> (\<exists>s\<in>set ss. s \<in> set run_payment_in_flight_statuses)"
  "\<forall>s\<in>set ss. s = ''completed'' \<Longrightarrow> \<not> (\<exists>s\<in>set ss. s = ''pending'')"
  by (auto simp: live_payment_terminal_statuses_def run_payment_in_flight_statuses_def)

text \<open>
  A run never reports more than its payments did: it is completed exactly when
  it has payments and every one completed, failed only when none completed or is in flight,
  submitted only when something is in flight and nothing failed, a draft only without
  payments; and a status the code does not know is never success.
\<close>

theorem rollup_never_overstates:
  "(run_status (rollup_payment_statuses ss) = ''completed'' \<longleftrightarrow> ss \<noteq> [] \<and> (\<forall>s\<in>set ss. s = ''completed''))
   \<and> (run_status (rollup_payment_statuses ss) = ''failed'' \<longrightarrow>
        ss \<noteq> [] \<and> (\<forall>s\<in>set ss. s \<noteq> ''completed'' \<and> s \<notin> set run_payment_in_flight_statuses))
   \<and> (run_status (rollup_payment_statuses ss) = ''submitted'' \<longleftrightarrow>
        (\<exists>s\<in>set ss. s \<in> set run_payment_in_flight_statuses)
        \<and> (\<forall>s\<in>set ss. s \<notin> set live_payment_terminal_statuses))
   \<and> (run_status (rollup_payment_statuses ss) = ''draft'' \<longleftrightarrow> ss = [])
   \<and> (s \<in> set ss \<and> s \<notin> {''completed'', ''pending''} \<and> s \<notin> set live_payment_terminal_statuses
        \<and> s \<notin> set run_payment_in_flight_statuses \<longrightarrow>
        run_status (rollup_payment_statuses ss) \<notin> {''completed'', ''draft''})"
proof -
  note read = run_status_read status_of_facts_iff
  have completed: "run_status (rollup_payment_statuses ss) = ''completed'' \<longleftrightarrow> ss \<noteq> [] \<and> (\<forall>s\<in>set ss. s = ''completed'')"
    unfolding read using status_buckets [of ss] by blast
  have failed: "run_status (rollup_payment_statuses ss) = ''failed'' \<longrightarrow>
      ss \<noteq> [] \<and> (\<forall>s\<in>set ss. s \<noteq> ''completed'' \<and> s \<notin> set run_payment_in_flight_statuses)"
    unfolding run_status_read by (rule impI, drule status_of_facts_iff(4)) auto
  have submitted: "run_status (rollup_payment_statuses ss) = ''submitted'' \<longleftrightarrow>
      (\<exists>s\<in>set ss. s \<in> set run_payment_in_flight_statuses)
      \<and> (\<forall>s\<in>set ss. s \<notin> set live_payment_terminal_statuses)"
    unfolding read by blast
  have draft: "run_status (rollup_payment_statuses ss) = ''draft'' \<longleftrightarrow> ss = []"
    unfolding read by auto
  have unknown: "s \<in> set ss \<and> s \<notin> {''completed'', ''pending''} \<and> s \<notin> set live_payment_terminal_statuses
        \<and> s \<notin> set run_payment_in_flight_statuses \<longrightarrow>
        run_status (rollup_payment_statuses ss) \<notin> {''completed'', ''draft''}"
    using completed draft by force
  show ?thesis
    by (rule conjI [OF completed conjI [OF failed conjI [OF submitted conjI [OF draft unknown]]]])
qed

lemma rollup_never_overstates_witness:
  "run_status (rollup_payment_statuses [''completed'', ''settling'']) \<notin> {''completed'', ''draft''}"
  using rollup_never_overstates [of "[''completed'', ''settling'']" "''settling''"]
  by (simp add: live_payment_terminal_statuses_def run_payment_in_flight_statuses_def)

section \<open>A dispatched run is never reopened\<close>

definition reads_rows :: "run_event \<Rightarrow> payment list option" where
  "reads_rows e = (case e of
       RetryFailed _ _ rows \<Rightarrow> Some rows
     | RecordOutside _ _ _ _ rows \<Rightarrow> Some rows
     | FinishDispatch rows _ \<Rightarrow> Some rows
     | Recompute rows \<Rightarrow> Some rows
     | _ \<Rightarrow> None)"

definition past_draft :: "string set" where
  "past_draft = {''executing'', ''submitted'', ''partial'', ''failed'', ''completed''}"

lemma run_status_nonempty: "ps \<noteq> [] \<Longrightarrow> run_status (statuses_of ps) \<in> past_draft"
  by (auto simp: run_status_def statuses_of_def rollup_counts past_draft_def)

lemma past_draft_step:
  assumes "run_apply e r = Inr r'" and "pr_status r \<in> past_draft \<or> launches e"
    and "\<And>rows. reads_rows e = Some rows \<Longrightarrow> active_run_payments rows \<noteq> []"
  shows "pr_status r' \<in> past_draft"
proof (cases e)
  case (FinishDispatch rows now)
  with assms(1,3) run_status_nonempty show ?thesis
    by (auto simp: run_apply_def run_op_defs reads_rows_def)
next
  case (Recompute rows)
  with assms(3) have "run_status (statuses_of (active_run_payments rows)) \<in> past_draft"
    by (intro run_status_nonempty) (simp add: reads_rows_def)
  with assms(1,2) Recompute show ?thesis
    by (auto simp: run_apply_def run_op_defs derive_run_status_def or_str_def claim_run_statuses_def
        statuses_of_def past_draft_def launches_def)
qed (use assms(1,2) in \<open>auto simp: run_apply_def run_op_defs Let_def raise_refusal_bind launches_def past_draft_def
      approve_cleared run_cancel_refusal_def run_nacha_void_refusal_def guard_defs record_cleared nacha_cleared
      raise_if_def elim!: bind_res_InrE split: if_splits\<close>)

text \<open>
  Property C20. Once a run has been dispatched it can never be executed again, exported as a
  bank file, recorded as paid outside, or cancelled with its payments deleted, whatever
  happens to it afterwards, as long as the run keeps its payments.
\<close>

theorem dispatched_run_never_reopened:
  assumes "run_trace r0 es r" and "list_ex launches es"
    and "\<And>e rows. e \<in> set es \<Longrightarrow> reads_rows e = Some rows \<Longrightarrow> active_run_payments rows \<noteq> []"
    and "e = Cancel \<or> (\<exists>a c. e = Execute a c) \<or> (\<exists>a c t p rows. e = RecordOutside a c t p rows)
      \<or> (\<exists>a c t f g ro probs rows. e = ExportNacha a c t f g ro probs rows)"
  shows "\<exists>x. run_apply e r = Inl x"
proof -
  have "pr_status r \<in> past_draft"
    using assms(1-3)
  proof (induction rule: run_trace.induct)
    case (call es r e r')
    then show ?case
      by (intro past_draft_step [OF call.hyps(2)]) auto
  qed simp
  with assms(4) show ?thesis
    by (cases "run_apply e r")
       (auto simp: run_apply_def run_op_defs Let_def raise_refusal_bind past_draft_def
         execute_cleared run_cancel_refusal_def guard_defs record_cleared nacha_cleared
         elim!: bind_res_InrE split: if_splits)
qed

lemma dispatched_run_never_reopened_witness: "\<exists>x. run_apply Cancel signed_run = Inl x"
proof (rule dispatched_run_never_reopened [OF signed_trace])
  show "list_ex launches signed_history"
    by (simp add: signed_history_def launches_def)
  have "list_all (\<lambda>e. reads_rows e = None \<or> active_run_payments (the (reads_rows e)) \<noteq> []) signed_history"
    by code_simp
  then show "active_run_payments rows \<noteq> []" if "e \<in> set signed_history" "reads_rows e = Some rows" for e rows
    using that by (auto simp: list_all_iff)
qed simp

end
