(* ===== verification/RetryProofs.thy ===== *)
theory RetryProofs
  imports RunLifecycleProofs
begin

text \<open>
  What \<open>/retry-failed\<close> books: new orders only, each for a failure the processor provably never
  took, at the amount the failed attempt carried, on an invoice nothing else is paying.
\<close>

lemma retry_skip_InrE:
  assumes "retry_skip_reason tb today batch p = Inr (Inr q)" and "p \<in> set batch"
  obtains iv where "iv \<in> set (tb_invoices tb)" and "inv_id iv = py_invoice_id p"
    and "inv_status iv \<in> set payable_invoice_statuses"
    and "blocking_exception_type payment_blocking_exception_types {} (tb_exceptions tb) (inv_id iv) = None"
    and "inactive_vendor_status (tb_vendors tb) iv = None"
    and "\<not> card_claimed (tb_cards tb) (inv_id iv) (py_method p)"
    and "is_retry_safe p" and "\<not> live_payment (tb_payments tb) (py_invoice_id p)"
    and "applied_credit_conflict (tb_memos tb) iv = None"
    and "payable_amount tb iv today = Inr q" and "\<not> booked_discount_mismatch p q" and "pa_amount q = py_amount p"
proof -
  obtain iv where iv: "List.find (\<lambda>iv. inv_id iv = py_invoice_id p) (tb_invoices tb) = Some iv"
    using assms(1) by (auto simp: retry_skip_reason_def split: option.splits)
  note mem = find_Some_D [OF iv]
  with assms(2) have card: "card_claimed (tb_cards tb) (inv_id iv) (py_method p) \<Longrightarrow> card_claimed_in tb batch (inv_id iv)"
    by (auto simp: card_claimed_in_def list_ex_iff)
  show thesis
    by (rule that [of iv])
       (use assms(1) iv mem card in \<open>auto simp: retry_skip_reason_def elim!: bind_res_InrE split: if_splits\<close>)
qed

definition retry_booked :: "tables \<Rightarrow> date \<Rightarrow> (uid \<Rightarrow> uid) \<Rightarrow> uid \<Rightarrow> payment list \<Rightarrow> payment \<Rightarrow> bool" where
  "retry_booked tb today new_id run_id batch x = (\<exists>p\<in>set batch. \<exists>q.
     retry_skip_reason tb today batch p = Inr (Inr q) \<and> x = retry_payment (new_id (py_id p)) run_id p q)"

lemma book_retries_ConsE:
  assumes "book_retries tb today new_id run_id batch (p # ps) booked skipped = Inr res"
  obtains booked1 skipped1 where "book_retries tb today new_id run_id batch ps booked1 skipped1 = Inr res"
    and "length booked1 + length skipped1 = Suc (length booked + length skipped)"
    and "booked1 = booked \<or> (\<exists>q. retry_skip_reason tb today batch p = Inr (Inr q)
      \<and> booked1 = booked @ [retry_payment (new_id (py_id p)) run_id p q] \<and> one_live (tb_payments tb @ booked1))"
proof -
  obtain v where v: "retry_skip_reason tb today batch p = Inr v"
    using assms by (auto elim: bind_res_InrE)
  show thesis
  proof (cases v)
    case (Inl reason)
    with assms v that [of booked "skipped @ [reason]"] show ?thesis by simp
  next
    case (Inr q)
    with assms v that [of booked "skipped @ [''invoice_has_live_payment'']"]
      that [of "booked @ [retry_payment (new_id (py_id p)) run_id p q]" skipped]
    show ?thesis by (simp add: Let_def split: if_splits)
  qed
qed

text \<open>The loop's invariant: one live payment an invoice, and every row booked so far is a retry.\<close>

lemma book_retries_inv:
  assumes "book_retries tb today new_id run_id batch ps booked skipped = Inr (booked', skipped')"
    and "one_live (tb_payments tb @ booked)" and "set ps \<subseteq> set batch"
    and "\<forall>x\<in>set booked. retry_booked tb today new_id run_id batch x"
  shows "one_live (tb_payments tb @ booked') \<and> (\<forall>x\<in>set booked'. retry_booked tb today new_id run_id batch x)
    \<and> length booked' + length skipped' = length ps + length booked + length skipped"
  using assms
proof (induction ps arbitrary: booked skipped)
  case (Cons p ps)
  obtain booked1 skipped1 where step: "book_retries tb today new_id run_id batch ps booked1 skipped1 = Inr (booked', skipped')"
      "length booked1 + length skipped1 = Suc (length booked + length skipped)"
    and new: "booked1 = booked \<or> (\<exists>q. retry_skip_reason tb today batch p = Inr (Inr q)
      \<and> booked1 = booked @ [retry_payment (new_id (py_id p)) run_id p q] \<and> one_live (tb_payments tb @ booked1))"
    using book_retries_ConsE [OF Cons.prems(1)] by blast
  have "retry_booked tb today new_id run_id batch (retry_payment (new_id (py_id p)) run_id p q)"
    if "retry_skip_reason tb today batch p = Inr (Inr q)" for q
    using Cons.prems(3) that unfolding retry_booked_def by auto
  with new Cons.prems(2,4) have "one_live (tb_payments tb @ booked1)"
    and "\<forall>x\<in>set booked1. retry_booked tb today new_id run_id batch x"
    by auto
  with Cons.IH [OF step(1)] step(2) Cons.prems(3) show ?case
    by simp
qed simp

lemma retry_payment_dispatches:
  assumes "retry_skip_reason tb today batch p = Inr (Inr q)" and "p \<in> set batch"
  shows "\<exists>iv\<in>set (tb_invoices tb). inv_id iv = py_invoice_id p
    \<and> dispatch_preflight (tb\<lparr>tb_payments := ps\<rparr>) (retry_payment i run_id p q) iv today = Inr None"
proof -
  from assms obtain iv where iv: "iv \<in> set (tb_invoices tb)" "inv_id iv = py_invoice_id p"
    and f: "inv_status iv \<in> set payable_invoice_statuses"
      "blocking_exception_type payment_blocking_exception_types {} (tb_exceptions tb) (inv_id iv) = None"
      "inactive_vendor_status (tb_vendors tb) iv = None" "\<not> card_claimed (tb_cards tb) (inv_id iv) (py_method p)"
      "applied_credit_conflict (tb_memos tb) iv = None" "payable_amount tb iv today = Inr q"
    by (rule retry_skip_InrE)
  have "payable_amount (tb\<lparr>tb_payments := ps\<rparr>) iv today = payable_amount tb iv today"
    by (simp add: payable_amount_def applicable_discount_def Let_def)
  with f iv show ?thesis
    by (intro bexI [of _ iv])
       (simp_all add: dispatch_preflight_def retry_payment_def booked_discount_mismatch_def pa_offer_id_def)
qed

text \<open>
  Property C12. A retry never pays twice. The failed rows are kept as they are and every booked
  row is a new pending payment on the same run: it names the failed or cancelled attempt it
  replaces, which nothing had replaced before and which the processor provably never took; it
  carries that attempt's rail and amount; its invoice had no live payment, and no invoice has
  two afterwards; and it passes the check made before its money moves. Every failure is booked
  or named as skipped.
\<close>

theorem retry_sound:
  assumes "retry_failed_payments actor c today new_id adapter r tb = Inr (r', tb', skipped)"
    and "one_live (tb_payments tb)"
  shows "\<exists>booked. tb' = tb\<lparr>tb_payments := tb_payments tb @ booked\<rparr> \<and> one_live (tb_payments tb')
    \<and> length booked + length skipped = length (filter (\<lambda>p. py_status p \<in> {''failed'', ''cancelled''})
         (active_run_payments (run_rows tb (pr_id r))))
    \<and> (\<forall>x\<in>set booked. \<exists>p\<in>set (tb_payments tb). \<exists>iv\<in>set (tb_invoices tb).
          py_retry_of x = Some (py_id p) \<and> py_status x = ''pending'' \<and> py_run_id x = Some (pr_id r)
          \<and> py_invoice_id x = py_invoice_id p \<and> py_amount x = py_amount p \<and> py_method x = py_method p
          \<and> py_run_id p = Some (pr_id r) \<and> py_status p \<in> {''failed'', ''cancelled''} \<and> is_retry_safe p
          \<and> (\<forall>y\<in>set (tb_payments tb). py_run_id y = Some (pr_id r) \<longrightarrow> py_retry_of y \<noteq> Some (py_id p))
          \<and> \<not> live_payment (tb_payments tb) (py_invoice_id p)
          \<and> inv_id iv = py_invoice_id p \<and> dispatch_preflight tb' x iv today = Inr None)"
proof -
  let ?rows = "run_rows tb (pr_id r)"
  let ?failed = "filter (\<lambda>p. py_status p \<in> set retryable_payment_statuses) (active_run_payments ?rows)"
  obtain booked where b: "book_retries tb today new_id (pr_id r) ?failed ?failed [] [] = Inr (booked, skipped)"
    and tb': "tb' = tb\<lparr>tb_payments := tb_payments tb @ booked\<rparr>"
    using assms(1) by (auto simp: retry_failed_payments_def Let_def elim!: bind_res_InrE)
  have inv: "one_live (tb_payments tb @ booked)" "\<forall>x\<in>set booked. retry_booked tb today new_id (pr_id r) ?failed x"
    "length booked + length skipped = length ?failed"
    using book_retries_inv [OF b] assms(2) by simp_all
  have "\<exists>p\<in>set (tb_payments tb). \<exists>iv\<in>set (tb_invoices tb).
          py_retry_of x = Some (py_id p) \<and> py_status x = ''pending'' \<and> py_run_id x = Some (pr_id r)
          \<and> py_invoice_id x = py_invoice_id p \<and> py_amount x = py_amount p \<and> py_method x = py_method p
          \<and> py_run_id p = Some (pr_id r) \<and> py_status p \<in> {''failed'', ''cancelled''} \<and> is_retry_safe p
          \<and> (\<forall>y\<in>set (tb_payments tb). py_run_id y = Some (pr_id r) \<longrightarrow> py_retry_of y \<noteq> Some (py_id p))
          \<and> \<not> live_payment (tb_payments tb) (py_invoice_id p)
          \<and> inv_id iv = py_invoice_id p \<and> dispatch_preflight tb' x iv today = Inr None"
    if "x \<in> set booked" for x
  proof -
    from that inv(2) obtain p q where p: "p \<in> set ?failed"
      and q: "retry_skip_reason tb today ?failed p = Inr (Inr q)"
      and x: "x = retry_payment (new_id (py_id p)) (pr_id r) p q"
      by (auto simp: retry_booked_def)
    have row: "p \<in> set (tb_payments tb)" "py_run_id p = Some (pr_id r)" "py_status p \<in> {''failed'', ''cancelled''}"
      "\<forall>y\<in>set (tb_payments tb). py_run_id y = Some (pr_id r) \<longrightarrow> py_retry_of y \<noteq> Some (py_id p)"
      using p by (auto simp: active_run_payments_def superseded_payment_ids_def run_rows_def
          retryable_payment_statuses_def List.map_filter_def image_iff)
    obtain safe: "is_retry_safe p" "\<not> live_payment (tb_payments tb) (py_invoice_id p)" "pa_amount q = py_amount p"
      using retry_skip_InrE [OF q p] by blast
    obtain iv where "iv \<in> set (tb_invoices tb)" "inv_id iv = py_invoice_id p" "dispatch_preflight tb' x iv today = Inr None"
      using retry_payment_dispatches [OF q p, of "tb_payments tb @ booked"] by (auto simp: x tb')
    with row safe show ?thesis
      by (intro bexI [of _ p] bexI [of _ iv]) (simp_all add: x retry_payment_def)
  qed
  moreover have "one_live (tb_payments tb')" "length booked + length skipped = length ?failed"
    using inv(1,3) by (simp_all add: tb')
  ultimately show ?thesis
    using tb' by (auto simp: retryable_payment_statuses_def)
qed

text \<open>A run whose only payment failed at the rail's configuration, retried by another.\<close>

definition failed_tables :: tables where
  "failed_tables = sample_tables\<lparr>tb_payments :=
     [sample_payment\<lparr>py_status := ''failed'', py_failure_reason := Some ''ach_not_configured''\<rparr>]\<rparr>"

definition failed_run :: payment_run where
  "failed_run = (sample_run False)\<lparr>pr_status := ''failed'', pr_executed_at := Some 9\<rparr>"

lemma failed_run_retried:
  "retry_failed_payments ''u-pay'' None 738000 (\<lambda>i. ''r-'' @ i) (Inr ()) failed_run failed_tables
     = Inr (failed_run\<lparr>pr_status := ''executing''\<rparr>,
            failed_tables\<lparr>tb_payments := tb_payments failed_tables @
              [sample_payment\<lparr>py_id := ''r-p-inv-1'', py_retry_of := Some ''p-inv-1''\<rparr>]\<rparr>, [])"
  by code_simp

lemma retry_sound_witness:
  "one_live (tb_payments failed_tables @ [sample_payment\<lparr>py_id := ''r-p-inv-1'', py_retry_of := Some ''p-inv-1''\<rparr>])"
proof -
  have "one_live (tb_payments failed_tables)"
    by code_simp
  from retry_sound [OF failed_run_retried this]
  have "one_live (tb_payments (failed_tables\<lparr>tb_payments := tb_payments failed_tables @
      [sample_payment\<lparr>py_id := ''r-p-inv-1'', py_retry_of := Some ''p-inv-1''\<rparr>]\<rparr>))"
    by (elim exE conjE) assumption
  then show ?thesis
    by simp
qed

end
