(* ===== verification/ExceptionLifecycle.thy ===== *)
theory ExceptionLifecycle
  imports RunBuilder
begin

text \<open>
  \<open>services/exception_lifecycle.py\<close> and the row \<open>services/exception_service.py\<close> opens: the
  exception queue as a control. A decision is refused to whoever raised the finding or shaped
  the invoice it blocks, changes one row, and writes one immutable audit row.

  The re-attempt of an ERP-reported payment that follows a clearing decision is not modelled
  here, nor is the task-local marker \<open>deciding\<close>. The SHA-256 of a finding is an argument.
\<close>

section \<open>Vocabulary\<close>

definition exception_types :: "string list" where
  "exception_types =
     [''duplicate'', ''po_mismatch'', ''fraud_flag'', ''extraction_failed'', ''unverified_vendor'',
      ''review_rejected'', ''amount_exceeded'', ''missing_data'', ''quality_hold'', ''price_variance'',
      ''contract_noncompliant'', ''erp_reconciliation'', ''line_total_mismatch'',
      ''payment_compliance_hold'', ''payment_reconciliation'']"

definition exception_severity_rank :: "string \<Rightarrow> nat" where
  "exception_severity_rank s =
     (if s = ''error'' then 3 else if s = ''warning'' then 2 else if s = ''info'' then 1 else 0)"

definition resolution_status :: "string \<Rightarrow> string option" where
  "resolution_status verb =
     (if verb = ''resolve'' then Some ''resolved'' else if verb = ''escalate'' then Some ''escalated''
      else if verb = ''dismiss'' then Some ''dismissed'' else None)"

definition resolution_action :: "string \<Rightarrow> string" where
  "resolution_action verb = ''exception.'' @ (case resolution_status verb of None \<Rightarrow> [] | Some s \<Rightarrow> s)"

definition actionable_statuses :: "string list" where
  "actionable_statuses = [''open'', ''escalated'']"

definition clearing_actions :: "string set" where
  "clearing_actions = {''resolve'', ''dismiss''}"

definition is_payment_blocking :: "string \<Rightarrow> bool" where
  "is_payment_blocking t = (t \<in> set payment_blocking_exception_types)"

section \<open>Who may clear\<close>

text \<open>\<open>c\<close> is \<open>Organization.settings["exceptions"]\<close>, a JSON object or absent.\<close>

definition exception_segregation_enabled :: "payment_config \<Rightarrow> bool" where
  "exception_segregation_enabled c =
     (pget_default (config_or_empty c) ''require_segregation'' (PBool True) \<noteq> PBool False)"

definition exception_refusal ::
  "exception_row \<Rightarrow> invoice option \<Rightarrow> uid option \<Rightarrow> string \<Rightarrow> payment_config \<Rightarrow> string option" where
  "exception_refusal e iv actor action c =
     (if action \<notin> clearing_actions then None
      else if \<not> exception_segregation_enabled c then None
      else if \<not> is_payment_blocking (ex_type e) then None
      else case actor of
          None \<Rightarrow> None
        | Some a \<Rightarrow>
            if ex_raised_by e = Some a then Some ''segregation_raiser''
            else case iv of
                None \<Rightarrow> None
              | Some i \<Rightarrow> if violates_segregation i actor empty_approval_config
                          then Some ''segregation_implicated'' else None)"

text \<open>The rule as a segregation policy: who is refused the clearing of a row.\<close>

definition barred :: "exception_row \<times> invoice option \<Rightarrow> uid set" where
  "barred s = (if is_payment_blocking (ex_type (fst s))
     then set_option (ex_raised_by (fst s)) \<union> (case snd s of None \<Rightarrow> {} | Some i \<Rightarrow> implicated_actors i)
     else {})"

definition may_not_clear :: "exception_row \<times> invoice option \<Rightarrow> uid option \<Rightarrow> payment_config \<Rightarrow> bool" where
  "may_not_clear s actor c = (exception_refusal (fst s) (snd s) actor ''resolve'' c \<noteq> None)"

lemma segregation_default: "segregation_on empty_approval_config"
  by (simp add: segregation_on_def empty_approval_config_def)

interpretation clearing: seg_policy exception_segregation_enabled barred may_not_clear
proof unfold_locales
  fix s :: "exception_row \<times> invoice option" and a c
  show "may_not_clear s a c \<longleftrightarrow> exception_segregation_enabled c \<and> (\<exists>u. a = Some u \<and> u \<in> barred s)"
    using segregation_default
    by (cases s)
       (auto simp: may_not_clear_def exception_refusal_def barred_def clearing_actions_def shaping.violates_iff
         split: option.splits)
qed

text \<open>Both clearing verbs are refused to the same people.\<close>

lemma exception_refusal_iff:
  "exception_refusal e iv a act c \<noteq> None \<longleftrightarrow> act \<in> clearing_actions \<and> may_not_clear (e, iv) a c"
  by (auto simp: exception_refusal_def may_not_clear_def clearing_actions_def)

section \<open>Decisions\<close>

text \<open>\<open>int((stamp - created_at).total_seconds())\<close>: truncated towards zero.\<close>

definition whole_seconds :: "int \<Rightarrow> int" where
  "whole_seconds d = (if 0 \<le> d then d div 1000000 else - ((- d) div 1000000))"

definition apply_resolution ::
  "exception_row \<Rightarrow> string \<Rightarrow> string \<Rightarrow> string \<Rightarrow> stamp \<Rightarrow> exc + exception_row" where
  "apply_resolution e action resolution actor_name now =
     (case resolution_status action of
        None \<Rightarrow> Inl (PyError ValueError)
      | Some s \<Rightarrow>
          (let e1 = e\<lparr>ex_status := s, ex_resolution := Some resolution\<rparr>
           in Inr (if action = ''escalate'' then e1
                   else e1\<lparr>ex_resolved_by := Some actor_name, ex_resolved_at := Some now,
                     ex_seconds_to_resolution := (case ex_created_at e of
                         None \<Rightarrow> ex_seconds_to_resolution e
                       | Some t \<Rightarrow> Some (whole_seconds (now - t)))\<rparr>)))"

definition bind_fingerprint_to_decision ::
  "(invoice \<Rightarrow> exception_row \<Rightarrow> string) \<Rightarrow> invoice option \<Rightarrow> bool \<Rightarrow> exception_row \<Rightarrow> exception_row" where
  "bind_fingerprint_to_decision fingerprint iv person e =
     (if person \<and> or_str (ex_description_code e) [] \<noteq> []
         \<and> (case iv of None \<Rightarrow> False | Some i \<Rightarrow> ex_fingerprint e = Some (fingerprint i e))
      then e else e\<lparr>ex_fingerprint := None\<rparr>)"

definition base_details :: "exception_row \<Rightarrow> (string \<times> pyval) list" where
  "base_details e =
     [(''exception_id'', PStr (ex_id e)), (''exception_type'', PStr (ex_type e)),
      (''severity'', PStr (ex_severity e)),
      (''invoice_id'', case ex_invoice_id e of None \<Rightarrow> PNone | Some i \<Rightarrow> PStr i),
      (''payment_blocking'', PBool (is_payment_blocking (ex_type e)))]"

definition decision_details :: "exception_row \<Rightarrow> exception_row \<Rightarrow> string \<Rightarrow> string option \<Rightarrow> (string \<times> pyval) list" where
  "decision_details old e resolution via =
     base_details e @ [(''old_status'', PStr (ex_status old)), (''new_status'', PStr (ex_status e))]
     @ (if resolution = [] then [] else [(''resolution'', PStr (take 500 resolution))])
     @ (case ex_seconds_to_resolution e of None \<Rightarrow> [] | Some s \<Rightarrow> [(''time_to_resolution_seconds'', PInt s)])
     @ (if or_str via [] = [] then [] else [(''via'', PStr (or_str via []))])"

text \<open>
  \<open>record_decision\<close>, whose invoice is the row's when the caller passes none. The new row and
  its audit row; the follow-on for an ERP-reported payment is left out.
\<close>

definition decision_invoice :: "invoice list \<Rightarrow> exception_row \<Rightarrow> invoice option \<Rightarrow> invoice option" where
  "decision_invoice ivs e passed = (case passed of
       Some i \<Rightarrow> Some i
     | None \<Rightarrow> (case ex_invoice_id e of
         None \<Rightarrow> None | Some i \<Rightarrow> List.find (\<lambda>iv. inv_id iv = i) ivs))"

definition record_decision ::
  "(invoice \<Rightarrow> exception_row \<Rightarrow> string) \<Rightarrow> invoice list \<Rightarrow> exception_row \<Rightarrow> string \<Rightarrow> string \<Rightarrow> uid option \<Rightarrow>
     string \<Rightarrow> invoice option \<Rightarrow> string option \<Rightarrow> payment_config \<Rightarrow> stamp \<Rightarrow> effects \<Rightarrow> exc + exception_row \<times> effects" where
  "record_decision fingerprint ivs e action resolution actor actor_name passed via c now fx =
     (let iv = decision_invoice ivs e passed
      in case exception_refusal e iv actor action c of
           Some r \<Rightarrow> Inl (HttpError 403 r)
         | None \<Rightarrow>
             bind_res (apply_resolution e action resolution actor_name now) (\<lambda>e1.
               let e2 = (if ex_status e1 \<in> {''resolved'', ''dismissed''} \<and> or_str (ex_fingerprint e1) [] \<noteq> []
                         then bind_fingerprint_to_decision fingerprint iv (actor \<noteq> None \<and> or_str via [] = []) e1
                         else e1)
               in Inr (e2, dispatch_audit \<lparr>au_action = resolution_action action, au_actor = actor,
                     au_entity = ex_id e, au_details = decision_details e e2 resolution via\<rparr> fx)))"

definition record_assignment :: "exception_row \<Rightarrow> uid option \<Rightarrow> uid option \<Rightarrow> effects \<Rightarrow> effects" where
  "record_assignment e assignee actor fx =
     dispatch_audit \<lparr>au_action = ''exception.assigned'', au_actor = actor, au_entity = ex_id e,
       au_details = base_details e @ [(''assigned_to_user_id'',
         case assignee of None \<Rightarrow> PNone | Some u \<Rightarrow> PStr u)]\<rparr> fx"

section \<open>Raising\<close>

definition record_raised :: "exception_row \<Rightarrow> uid option \<Rightarrow> effects \<Rightarrow> effects" where
  "record_raised e actor fx =
     dispatch_audit \<lparr>au_action = ''exception.raised'', au_actor = actor, au_entity = ex_id e,
       au_details = base_details e @ [(''new_status'', PStr (ex_status e))]\<rparr> fx"

text \<open>The emit is best-effort and keyed by the row.\<close>

definition create_exception ::
  "uid \<Rightarrow> stamp \<Rightarrow> string \<Rightarrow> string \<Rightarrow> string \<Rightarrow> uid option \<Rightarrow> uid option \<Rightarrow> string option \<Rightarrow> string option \<Rightarrow>
     effects \<Rightarrow> exception_row \<times> effects" where
  "create_exception new_id now t severity st invoice_id raised_by description_code erp_kind fx =
     (let e = \<lparr>ex_id = new_id, ex_invoice_id = invoice_id, ex_type = t, ex_status = st, ex_severity = severity,
            ex_raised_by = raised_by, ex_created_at = Some now, ex_resolution = None, ex_resolved_by = None,
            ex_resolved_at = None, ex_seconds_to_resolution = None, ex_description_code = description_code,
            ex_fingerprint = None, ex_erp_kind = erp_kind\<rparr>;
          fx1 = record_raised e raised_by fx
      in (e, fx1\<lparr>fx_webhooks := fx_webhooks fx1 @ [(''exception.raised'', new_id)]\<rparr>))"

definition put_exception :: "exception_row \<Rightarrow> exception_row list \<Rightarrow> exception_row list" where
  "put_exception e rows = map (\<lambda>x. if ex_id x = ex_id e then e else x) rows"

section \<open>What a decision leaves\<close>

lemma record_decision_InrE:
  assumes "record_decision fp ivs e act res a name passed via c now fx = Inr (e', fx')"
  obtains s where "resolution_status act = Some s" and "ex_status e' = s" and "ex_id e' = ex_id e"
    and "ex_type e' = ex_type e" and "ex_invoice_id e' = ex_invoice_id e" and "ex_raised_by e' = ex_raised_by e"
    and "ex_erp_kind e' = ex_erp_kind e"
    and "act \<in> clearing_actions \<longrightarrow> \<not> may_not_clear (e, decision_invoice ivs e passed) a c"
    and "fx_audit fx' = fx_audit fx @ [\<lparr>au_action = resolution_action act, au_actor = a, au_entity = ex_id e,
           au_details = decision_details e e' res via\<rparr>]"
proof -
  let ?iv = "decision_invoice ivs e passed"
  have ok: "exception_refusal e ?iv a act c = None"
    using assms by (auto simp: record_decision_def Let_def split: option.splits)
  then have clear: "act \<in> clearing_actions \<longrightarrow> \<not> may_not_clear (e, ?iv) a c"
    using exception_refusal_iff [of e ?iv a act c] by simp
  obtain s where s: "resolution_status act = Some s"
    using assms ok by (auto simp: record_decision_def apply_resolution_def Let_def split: option.splits)
  with assms ok show thesis
    by (intro that [OF s])
       (auto simp: record_decision_def apply_resolution_def bind_fingerprint_to_decision_def dispatch_audit_def
         Let_def clear)
qed

lemma resolution_status_clears:
  "resolution_status act = Some s \<Longrightarrow> s \<in> {''resolved'', ''dismissed''} \<longleftrightarrow> act \<in> clearing_actions"
  by (auto simp: resolution_status_def clearing_actions_def split: if_splits)

end
