(* ===== verification/DiscountCapture.thy ===== *)
theory DiscountCapture
  imports RunBuilderProofs
begin

text \<open>
  The settlement legs of \<open>services/discount_capture.py\<close>: which accepted offer a settled payment
  realises, and what voiding that payment gives back. The offers table is a list of rows; the
  row locks are not modelled.
\<close>

section \<open>Capturing\<close>

definition put_offer :: "discount_offer \<Rightarrow> discount_offer list \<Rightarrow> discount_offer list" where
  "put_offer g fs = map (\<lambda>f. if of_id f = of_id g then g else f) fs"

text \<open>
  The scan of \<open>capture_offers_for_settled_payment\<close>: the first offer in the invoice's currency
  whose discounted payoff is exactly what was paid. A \<open>ValueError\<close> of the capture is skipped.
\<close>

fun capture_scan ::
  "rat \<Rightarrow> string \<Rightarrow> stamp \<Rightarrow> uid option \<Rightarrow> discount_offer list \<Rightarrow> exc + discount_offer option" where
  "capture_scan paid ccy now payment_id [] = Inr None"
| "capture_scan paid ccy now payment_id (f # fs) =
     (case of_accepted_tier f of
        None \<Rightarrow> capture_scan paid ccy now payment_id fs
      | Some t \<Rightarrow>
          if py_upper (or_str (of_currency f) []) \<noteq> ccy then capture_scan paid ccy now payment_id fs
          else bind_res (discount_savings (of_base_amount f) t) (\<lambda>savings.
            bind_res (quantize_cents (dsub (of_base_amount f) savings)) (\<lambda>payoff.
              if paid \<noteq> payoff then capture_scan paid ccy now payment_id fs
              else case mark_captured f savings now payment_id of
                  Inl (PyError ValueError) \<Rightarrow> capture_scan paid ccy now payment_id fs
                | Inl e \<Rightarrow> Inl e
                | Inr g \<Rightarrow> Inr (Some g))))"

text \<open>The table afterwards, and the offer captured.\<close>

definition capture_offers_for_settled_payment ::
  "discount_offer list \<Rightarrow> uid \<Rightarrow> rat \<Rightarrow> string option \<Rightarrow> stamp \<Rightarrow> uid option \<Rightarrow>
     exc + discount_offer list \<times> discount_offer option" where
  "capture_offers_for_settled_payment fs i paid_amount ccy now payment_id =
     (let offers = accepted_offers fs i
      in if offers = [] then Inr (fs, None)
         else bind_res (quantize_cents paid_amount) (\<lambda>paid.
           bind_res (capture_scan paid (py_upper (or_str ccy [])) now payment_id offers) (\<lambda>g.
             Inr (case g of None \<Rightarrow> (fs, None) | Some g \<Rightarrow> (put_offer g fs, Some g)))))"

definition capture_offer_for_settled_payment ::
  "discount_offer list \<Rightarrow> payment \<Rightarrow> string option \<Rightarrow> stamp \<Rightarrow> exc + discount_offer list \<times> discount_offer option" where
  "capture_offer_for_settled_payment fs p ccy now =
     (case py_discount_offer_id p of
        None \<Rightarrow> capture_offers_for_settled_payment fs (py_invoice_id p) (py_amount p) ccy now (Some (py_id p))
      | Some oid \<Rightarrow>
          (case List.find (\<lambda>f. of_id f = oid) fs of
             None \<Rightarrow> Inr (fs, None)
           | Some f \<Rightarrow>
               if of_status f \<noteq> ''accepted'' then Inr (fs, None)
               else bind_res (mark_captured f (case py_discount_amount p of None \<Rightarrow> 0 | Some d \<Rightarrow> d) now (Some (py_id p)))
                      (\<lambda>g. Inr (put_offer g fs, Some g))))"

section \<open>Reversing\<close>

fun reverse_all :: "discount_offer list \<Rightarrow> discount_offer list \<Rightarrow> exc + discount_offer list \<times> (discount_offer \<times> rat) list" where
  "reverse_all [] fs = Inr (fs, [])"
| "reverse_all (f # todo) fs = bind_res (reverse_capture f) (\<lambda>(a, g).
     bind_res (reverse_all todo (put_offer g fs)) (\<lambda>(fs', done). Inr (fs', (g, a) # done)))"

text \<open>Exactly what names the payment; else, by elimination, the captures that name none.\<close>

definition reverse_captures_for_voided_payment ::
  "discount_offer list \<Rightarrow> payment list \<Rightarrow> uid \<Rightarrow> uid \<Rightarrow> string option \<Rightarrow>
     exc + discount_offer list \<times> (discount_offer \<times> rat) list" where
  "reverse_captures_for_voided_payment fs ps i voided previous_status =
     (let exact = sort_key of_id (filter (\<lambda>f. of_captured_by_payment_id f = Some voided \<and> of_status f = ''captured'') fs)
      in if exact \<noteq> [] then reverse_all exact fs
         else if previous_status \<noteq> Some ''completed'' then Inr (fs, [])
         else if list_ex (\<lambda>p. py_invoice_id p = i \<and> py_id p \<noteq> voided \<and> py_status p = ''completed'') ps then Inr (fs, [])
         else reverse_all (sort_key of_id (filter (\<lambda>f. of_invoice_id f = Some i \<and> of_scope f = ''invoice''
                \<and> of_status f = ''captured'' \<and> of_captured_by_payment_id f = None) fs)) fs)"

section \<open>Facts\<close>

lemma capture_scan_SomeD:
  "capture_scan paid ccy now pid fs = Inr (Some g) \<Longrightarrow>
     \<exists>f\<in>set fs. \<exists>t savings. of_accepted_tier f = Some t \<and> py_upper (or_str (of_currency f) []) = ccy
       \<and> discount_savings (of_base_amount f) t = Inr savings
       \<and> quantize_cents (dsub (of_base_amount f) savings) = Inr paid
       \<and> mark_captured f savings now pid = Inr g"
proof (induction fs)
  case (Cons f fs)
  show ?case
  proof (cases "capture_scan paid ccy now pid fs = Inr (Some g)")
    case True
    with Cons.IH show ?thesis by auto
  next
    case False
    with Cons.prems obtain t where t: "of_accepted_tier f = Some t"
      by (cases "of_accepted_tier f") simp_all
    with False Cons.prems have c: "py_upper (or_str (of_currency f) []) = ccy"
      by (simp split: if_splits)
    let ?after = "\<lambda>savings payoff. if paid \<noteq> payoff then capture_scan paid ccy now pid fs
      else case mark_captured f savings now pid of
          Inl (PyError ValueError) \<Rightarrow> capture_scan paid ccy now pid fs
        | Inl e \<Rightarrow> Inl e | Inr g \<Rightarrow> Inr (Some g)"
    have "bind_res (discount_savings (of_base_amount f) t) (\<lambda>savings.
        bind_res (quantize_cents (dsub (of_base_amount f) savings)) (?after savings)) = Inr (Some g)"
      using Cons.prems t c by simp
    then obtain savings payoff where s: "discount_savings (of_base_amount f) t = Inr savings"
      "quantize_cents (dsub (of_base_amount f) savings) = Inr payoff" and rest: "?after savings payoff = Inr (Some g)"
      by (elim bind_res_InrE) blast
    with False have "paid = payoff"
      by (simp split: if_splits)
    moreover from rest False this have "mark_captured f savings now pid = Inr g"
      by (simp split: sum.splits exc.splits py_error.splits)
    ultimately show ?thesis
      using t c s by auto
  qed
qed simp

lemma put_offer_frame: "of_id f \<noteq> of_id g \<Longrightarrow> f \<in> set fs \<Longrightarrow> f \<in> set (put_offer g fs)"
  by (force simp: put_offer_def)

lemma put_offer_undo:
  "distinct (map of_id fs) \<Longrightarrow> f \<in> set fs \<Longrightarrow> of_id g = of_id f \<Longrightarrow> put_offer f (put_offer g fs) = fs"
  unfolding put_offer_def map_map
  by (rule map_idI) (auto simp: distinct_map inj_on_def)

lemma mark_captured_InrD:
  "mark_captured f a now p = Inr g \<Longrightarrow> of_status f = ''accepted'' \<and> of_id g = of_id f \<and> of_status g = ''captured''
     \<and> of_captured_by_payment_id g = p"
  by (auto simp: mark_captured_def bind_res_Inr_iff split: if_splits)

lemma filter_unique:
  assumes "distinct xs" and "g \<in> set xs" and "P g" and "\<And>x. x \<in> set xs \<Longrightarrow> P x \<Longrightarrow> x = g"
  shows "filter P xs = [g]"
proof -
  obtain ys zs where xs: "xs = ys @ g # zs"
    using split_list [OF assms(2)] by blast
  have "\<not> P x" if "x \<in> set ys \<union> set zs" for x
    using assms(1) assms(4) [of x] that by (auto simp: xs)
  then have "filter P ys = []" "filter P zs = []"
    by (simp_all add: filter_empty_conv)
  with assms(3) show ?thesis
    by (simp add: xs)
qed

text \<open>Whatever the leg, at most one accepted offer of the table was captured, for this payment.\<close>

lemma capture_InrE:
  assumes "capture_offer_for_settled_payment fs p ccy now = Inr (fs', Some g)"
  obtains f a where "f \<in> set fs" and "mark_captured f a now (Some (py_id p)) = Inr g" and "fs' = put_offer g fs"
proof (cases "py_discount_offer_id p")
  case None
  with assms obtain paid where "capture_scan paid (py_upper (or_str ccy [])) now (Some (py_id p))
      (accepted_offers fs (py_invoice_id p)) = Inr (Some g)" and fs': "fs' = put_offer g fs"
    by (auto simp: capture_offer_for_settled_payment_def capture_offers_for_settled_payment_def Let_def
        elim!: bind_res_InrE split: if_splits option.splits)
  from capture_scan_SomeD [OF this(1)] fs' that show thesis
    by (auto simp: accepted_offers_def)
next
  case (Some oid)
  with assms that show thesis
    by (auto simp: capture_offer_for_settled_payment_def elim!: bind_res_InrE split: option.splits if_splits
        dest: find_Some_D)
qed

text \<open>
  Property C23. Voiding undoes a settlement's discount exactly: when a payment that had captured
  nothing before settles and captures an offer, it is one accepted offer, recorded under that
  payment; and voiding the payment, whatever other payments and captures exist, gives back the
  very offers table of before, and names that offer and the amount recorded.
\<close>

theorem void_restores_offers:
  assumes "capture_offer_for_settled_payment fs p ccy now = Inr (fs', Some g)"
    and "distinct (map of_id fs)" and "\<forall>f\<in>set fs. offer_ok f"
    and "\<forall>f\<in>set fs. of_captured_by_payment_id f \<noteq> Some (py_id p)"
  shows "\<exists>f\<in>set fs. of_status f = ''accepted'' \<and> of_id g = of_id f \<and> of_captured_by_payment_id g = Some (py_id p)
    \<and> (\<exists>a. of_captured_amount g = Some a
         \<and> reverse_captures_for_voided_payment fs' ps i (py_id p) st = Inr (fs, [(f, a)]))"
proof -
  obtain f a where f: "f \<in> set fs" and g: "mark_captured f a now (Some (py_id p)) = Inr g" and fs': "fs' = put_offer g fs"
    using capture_InrE [OF assms(1)] by blast
  note d = mark_captured_InrD [OF g]
  have rev: "of_captured_amount g = Some (round_to 2 a)" "reverse_capture g = Inr (round_to 2 a, f)"
    using reverse_of_capture [OF _ g] assms(3) f by auto
  have only: "x = g" if "x \<in> set fs'" "of_captured_by_payment_id x = Some (py_id p)" for x
    using that assms(4) by (auto simp: fs' put_offer_def split: if_splits)
  have "filter (\<lambda>x. of_captured_by_payment_id x = Some (py_id p) \<and> of_status x = ''captured'') fs' = [g]"
  proof (rule filter_unique)
    have "map of_id fs' = map of_id fs"
      by (simp add: fs' put_offer_def)
    then show "distinct fs'"
      using assms(2) by (metis distinct_map)
    show "g \<in> set fs'"
      using f d by (force simp: fs' put_offer_def)
  qed (use d only in auto)
  moreover have "put_offer f fs' = fs"
    using put_offer_undo [OF assms(2) f] d by (simp add: fs')
  ultimately have "reverse_captures_for_voided_payment fs' ps i (py_id p) st = Inr (fs, [(f, round_to 2 a)])"
    using rev by (simp add: reverse_captures_for_voided_payment_def)
  with f d rev show ?thesis
    by auto
qed

text \<open>A payment booked with a discount settles, and is voided.\<close>

definition accepted_sample :: discount_offer where
  "accepted_sample = sample_offer\<lparr>of_accepted_tier := Some \<lparr>tr_days = 5, tr_percent = 3\<rparr>,
     of_accepted_at := Some 7, of_accepted_by := Some ''u-ap'', of_status := ''accepted''\<rparr>"

definition discounted_payment :: payment where
  "discounted_payment = sample_payment\<lparr>py_discount_offer_id := Some (of_id sample_offer), py_discount_amount := Some 27\<rparr>"

definition captured_sample :: discount_offer where
  "captured_sample = accepted_sample\<lparr>of_captured_amount := Some 27, of_captured_at := Some 9,
     of_captured_by_payment_id := Some ''p-inv-1'', of_status := ''captured''\<rparr>"

lemma void_restores_offers_witness:
  "reverse_captures_for_voided_payment [captured_sample] [] ''inv-1'' ''p-inv-1'' None
     = Inr ([accepted_sample], [(accepted_sample, 27)])"
proof -
  have "capture_offer_for_settled_payment [accepted_sample] discounted_payment (Some ''USD'') 9
      = Inr ([captured_sample], Some captured_sample)"
    by code_simp
  moreover have "distinct (map of_id [accepted_sample])" "\<forall>f\<in>set [accepted_sample]. offer_ok f"
    "\<forall>f\<in>set [accepted_sample]. of_captured_by_payment_id f \<noteq> Some (py_id discounted_payment)"
    by (simp_all add: accepted_sample_def sample_offer_def offer_ok_def tier_ok_def has_scale_def discounted_payment_def)
  ultimately show ?thesis
    using void_restores_offers [of "[accepted_sample]" discounted_payment "Some ''USD''" 9 "[captured_sample]"
        captured_sample "[]" "''inv-1''" None]
    by (simp add: discounted_payment_def sample_payment_def captured_sample_def)
qed

end
