(* ===== verification/ExternalPayment.thy ===== *)
theory ExternalPayment
  imports ExceptionLifecycle DiscountCapture RunLifecycle
begin

text \<open>
  \<open>services/external_payment.py\<close>: recording an invoice, or a whole run, as paid outside
  FeohLedger. The gates, the payment booked or completed, the discount captured, the invoice
  walked to \<open>paid\<close>, and the ERP reports the record answers. The state is the tables and the
  effects; a call that raises leaves neither changed, as the request rolls back. The detail
  figures of the payment's audit rows are left out.
\<close>

section \<open>State\<close>

type_synonym books = "tables \<times> effects"

text \<open>The clock, fresh identifiers by use, the AP managers' lookup and the hash of a finding.\<close>

record ambient =
  am_now :: stamp
  am_new_id :: "string \<Rightarrow> uid"
  am_ap_managers :: "uid list option"
  am_fingerprint :: "invoice \<Rightarrow> exception_row \<Rightarrow> string"

definition put_payment :: "payment \<Rightarrow> tables \<Rightarrow> tables" where
  "put_payment p tb = tb\<lparr>tb_payments := map (\<lambda>q. if py_id q = py_id p then p else q) (tb_payments tb)\<rparr>"

definition put_invoice :: "invoice \<Rightarrow> tables \<Rightarrow> tables" where
  "put_invoice iv tb = tb\<lparr>tb_invoices := map (\<lambda>x. if inv_id x = inv_id iv then iv else x) (tb_invoices tb)\<rparr>"

definition plain_audit :: "string \<Rightarrow> uid option \<Rightarrow> uid \<Rightarrow> effects \<Rightarrow> effects" where
  "plain_audit action actor entity fx =
     dispatch_audit \<lparr>au_action = action, au_actor = actor, au_entity = entity, au_details = []\<rparr> fx"

section \<open>Small readings\<close>

definition paid_on_timestamp :: "date \<Rightarrow> stamp" where
  "paid_on_timestamp d = (d - 719163) * (24 * hour)"

definition live_payments :: "tables \<Rightarrow> uid \<Rightarrow> payment list" where
  "live_payments tb i = filter (\<lambda>p. py_invoice_id p = i \<and> is_live p) (tb_payments tb)"

definition is_undispatched :: "payment \<Rightarrow> bool" where
  "is_undispatched p = (py_status p = ''pending'' \<and> py_provider_payment_id p = None \<and> py_submitted_at p = None)"

definition external_payment_provider :: string where
  "external_payment_provider = ''external''"

definition same_record :: "payment \<Rightarrow> string \<Rightarrow> date \<Rightarrow> bool" where
  "same_record p reference paid_on =
     (py_provider p = Some external_payment_provider \<and> py_status p = ''completed''
      \<and> or_str (py_reference p) [] = reference
      \<and> (case py_completed_at p of None \<Rightarrow> False | Some t \<Rightarrow> utc_date t = paid_on))"

section \<open>Gates\<close>

definition external_segregation_refusal :: "invoice \<Rightarrow> uid option \<Rightarrow> payment_config \<Rightarrow> refusal option" where
  "external_segregation_refusal iv actor c =
     (if actor = None then None
      else if \<not> run_segregation_enabled c then None
      else if violates_segregation iv actor empty_approval_config
      then refuse ''external_payment_segregation'' 403 else None)"

text \<open>The entry of one invoice in \<open>_state_refusals\<close>.\<close>

definition state_refusal :: "tables \<Rightarrow> uid set \<Rightarrow> invoice \<Rightarrow> refusal option" where
  "state_refusal tb answering iv =
     (case blocking_exception_type payment_blocking_exception_types answering (tb_exceptions tb) (inv_id iv) of
        Some t \<Rightarrow> Some \<lparr>rf_code = ''external_payment_blocking_exception'', rf_http = 409,
                        rf_params = [(''exception_type'', PStr t)]\<rparr>
      | None \<Rightarrow>
          if card_claimed (tb_cards tb) (inv_id iv) None then refuse ''external_payment_card_live'' 409
          else if applied_credit_conflict (tb_memos tb) iv \<noteq> None then refuse ''external_payment_credit_conflict'' 409
          else None)"

definition check_recordable :: "tables \<Rightarrow> payment_config \<Rightarrow> uid set \<Rightarrow> uid option \<Rightarrow> invoice \<Rightarrow> refusal option" where
  "check_recordable tb c answering actor iv =
     (if inv_status iv \<notin> set payable_invoice_statuses
      then Some \<lparr>rf_code = ''external_payment_not_payable'', rf_http = 409,
                 rf_params = [(''status'', PStr (status_value (inv_status iv)))]\<rparr>
      else case external_segregation_refusal iv actor c of
          Some r \<Rightarrow> Some r
        | None \<Rightarrow> state_refusal tb answering iv)"

definition nothing_to_pay :: refusal where
  "nothing_to_pay = \<lparr>rf_code = ''external_payment_nothing_to_pay'', rf_http = 409, rf_params = []\<rparr>"

text \<open>The entry of one queue row in \<open>record_outside_refusals\<close>.\<close>

definition record_outside_refusal :: "tables \<Rightarrow> invoice \<Rightarrow> refusal option" where
  "record_outside_refusal tb iv = (case state_refusal tb {} iv of
       Some r \<Rightarrow> Some r
     | None \<Rightarrow> if net_payable_amount (tb_memos tb) iv \<le> 0 then Some nothing_to_pay else None)"

section \<open>What is owed\<close>

definition discount_predates_acceptance :: "tables \<Rightarrow> uid \<Rightarrow> date \<Rightarrow> bool" where
  "discount_predates_acceptance tb oid paid_on =
     (case List.find (\<lambda>f. of_id f = oid) (tb_offers tb) of
        None \<Rightarrow> True
      | Some f \<Rightarrow> (case of_accepted_at f of None \<Rightarrow> True | Some t \<Rightarrow> paid_on < utc_date t))"

text \<open>A refusal, or the amount with the discount it carries; the pricing itself may raise.\<close>

definition amount_owed ::
  "tables \<Rightarrow> invoice \<Rightarrow> date \<Rightarrow> exc + (refusal, rat \<times> uid option \<times> rat option) sum" where
  "amount_owed tb iv paid_on =
     (let net = net_payable_amount (tb_memos tb) iv
      in if net \<le> 0 then Inr (Inl nothing_to_pay)
         else bind_res (payable_amount tb iv paid_on) (\<lambda>q.
           Inr (Inr (case pa_offer_id q of
               None \<Rightarrow> (pa_amount q, None, map_option ad_amount (pa_discount q))
             | Some oid \<Rightarrow> if discount_predates_acceptance tb oid paid_on then (net, None, None)
                           else (pa_amount q, Some oid, map_option ad_amount (pa_discount q))))))"

definition check_amount :: "rat option \<Rightarrow> rat \<Rightarrow> exc + unit" where
  "check_amount stated owed =
     raise_if (stated \<noteq> None \<and> stated \<noteq> Some owed) (HttpError 422 ''external_payment_amount_mismatch'')"

section \<open>Booking it\<close>

text \<open>\<open>_capture_discount_offers\<close>: best-effort, an exception leaves the offers as they were.\<close>

definition capture_discount_offers :: "payment \<Rightarrow> string option \<Rightarrow> stamp \<Rightarrow> uid option \<Rightarrow> books \<Rightarrow> books" where
  "capture_discount_offers p ccy now actor b =
     (case capture_offer_for_settled_payment (tb_offers (fst b)) p ccy now of
        Inl _ \<Rightarrow> b
      | Inr (fs, None) \<Rightarrow> b
      | Inr (fs, Some g) \<Rightarrow>
          ((fst b)\<lparr>tb_offers := fs\<rparr>, plain_audit ''discount_offer.captured'' actor (of_id g) (snd b)))"

definition live_erp_paid_reports :: "tables \<Rightarrow> uid \<Rightarrow> exception_row list" where
  "live_erp_paid_reports tb i =
     rev (sort_key (\<lambda>e. (case ex_created_at e of None \<Rightarrow> 0 | Some t \<Rightarrow> t, ex_id e))
       (filter (\<lambda>e. ex_invoice_id e = Some i \<and> ex_status e \<in> {''open'', ''escalated''}
          \<and> ex_erp_kind e = Some ''paid_not_recorded'') (tb_exceptions tb)))"

text \<open>\<open>close_erp_paid_reports\<close> of \<open>services/erp_status_sync.py\<close>, each close through the queue's rule.\<close>

fun close_reports ::
  "ambient \<Rightarrow> payment_config \<Rightarrow> invoice \<Rightarrow> uid option \<Rightarrow> string option \<Rightarrow> exception_row list \<Rightarrow> books \<Rightarrow> exc + books" where
  "close_reports am xc iv actor actor_name [] b = Inr b"
| "close_reports am xc iv actor actor_name (e # es) b =
     bind_res (record_decision (am_fingerprint am) (tb_invoices (fst b)) e ''resolve''
         ''Closed automatically: the payment the ERP reported has been recorded.'' actor
         (or_str actor_name ''FeohLedger'') (Some iv) (Some ''payment_recorded'') xc (am_now am) (snd b))
       (\<lambda>(e', fx). close_reports am xc iv actor actor_name es
          ((fst b)\<lparr>tb_exceptions := put_exception e' (tb_exceptions (fst b))\<rparr>, fx))"

definition completed_outside :: "invoice \<Rightarrow> string option \<Rightarrow> string \<Rightarrow> date \<Rightarrow> payment \<Rightarrow> payment" where
  "completed_outside iv method reference paid_on p =
     (let t = paid_on_timestamp paid_on; ccy = py_upper (or_str (currency iv) [])
      in p\<lparr>py_status := ''completed'', py_provider := Some external_payment_provider,
           py_method := (if or_str method [] = [] then py_method p else method),
           py_reference := Some reference, py_submitted_at := Some t, py_completed_at := Some t,
           py_settled_amount := Some (py_amount p),
           py_settled_currency := (if ccy = [] then None else Some ccy)\<rparr>)"

definition walk_to_paid :: "ambient \<Rightarrow> uid option \<Rightarrow> string \<Rightarrow> uid \<Rightarrow> invoice \<Rightarrow> effects \<Rightarrow> exc + invoice \<times> effects" where
  "walk_to_paid am actor source pid iv fx =
     (let details = [(''payment_id'', PStr pid), (''source'', PStr source)]
      in bind_res
           (if PaymentScheduled \<in> valid_transitions (inv_status iv)
            then transition_invoice (am_new_id am (''scheduled:'' @ pid)) (am_ap_managers am) actor ''invoice.payment_scheduled''
                   (details @ [(''result'', PStr ''recorded_outside'')]) PaymentScheduled iv fx
            else Inr (iv, fx))
           (\<lambda>(iv1, fx1). transition_invoice (am_new_id am (''paid:'' @ pid)) (am_ap_managers am) actor
              (if source = ''user'' then ''invoice.paid_outside'' else ''invoice.paid_via_erp_report'')
              details Paid iv1 fx1))"

text \<open>\<open>_complete\<close>: the payment row is already in the table.\<close>

definition complete_outside ::
  "ambient \<Rightarrow> payment_config \<Rightarrow> invoice \<Rightarrow> payment \<Rightarrow> string option \<Rightarrow> string \<Rightarrow> date \<Rightarrow> uid option \<Rightarrow> string \<Rightarrow>
     string option \<Rightarrow> books \<Rightarrow> exc + payment \<times> books" where
  "complete_outside am xc iv p method reference paid_on actor source actor_name b =
     (let p1 = completed_outside iv method reference paid_on p;
          b1 = (put_payment p1 (fst b), plain_audit ''payment.recorded_outside'' actor (py_id p1) (snd b));
          b2 = capture_discount_offers p1 (currency iv) (paid_on_timestamp paid_on) actor b1
      in bind_res (walk_to_paid am actor source (py_id p1) iv (snd b2)) (\<lambda>(iv1, fx).
         bind_res (close_reports am xc iv1 actor actor_name (live_erp_paid_reports (fst b2) (inv_id iv))
             (put_invoice iv1 (fst b2), fx)) (\<lambda>b3. Inr (p1, b3))))"

section \<open>Recording one invoice\<close>

text \<open>The live payment to complete in place, if the invoice has one FeohLedger never dispatched.\<close>

fun standalone_booking :: "payment list \<Rightarrow> payment option \<Rightarrow> exc + payment option" where
  "standalone_booking [] target = Inr target"
| "standalone_booking (p # ps) target =
     (if py_run_id p \<noteq> None then Inl (HttpError 409 ''external_payment_in_run'')
      else if \<not> is_undispatched p \<or> target \<noteq> None then Inl (HttpError 409 ''external_payment_payment_live'')
      else standalone_booking ps (Some p))"

definition outside_payment :: "uid \<Rightarrow> invoice \<Rightarrow> rat \<times> uid option \<times> rat option \<Rightarrow> string option \<Rightarrow> payment" where
  "outside_payment i iv owed method =
     \<lparr>py_id = i, py_invoice_id = inv_id iv, py_run_id = None, py_amount = fst owed, py_method = method,
      py_status = ''pending'', py_provider_payment_id = None, py_failure_reason = None, py_retry_of = None,
      py_discount_offer_id = fst (snd owed), py_discount_amount = snd (snd owed),
      py_dispatch_attempted_at = None, py_settled_amount = None, py_settled_currency = None,
      py_settled_unstorable = False, py_source_currency = None, py_source_amount = None,
      py_provider = None, py_reference = None, py_submitted_at = None, py_completed_at = None\<rparr>"

text \<open>The payment, whether this call recorded it, and the books.\<close>

definition record_invoice_paid_outside ::
  "ambient \<Rightarrow> payment_config \<Rightarrow> payment_config \<Rightarrow> invoice \<Rightarrow> string option \<Rightarrow> string \<Rightarrow> date \<Rightarrow> uid option \<Rightarrow> string \<Rightarrow>
     rat option \<Rightarrow> uid set \<Rightarrow> string option \<Rightarrow> books \<Rightarrow> exc + (payment \<times> bool) \<times> books" where
  "record_invoice_paid_outside am pc xc iv method reference paid_on actor source stated answering actor_name b =
     (let tb = fst b; live = live_payments tb (inv_id iv)
      in case (if inv_status iv = Paid then List.find (\<lambda>p. same_record p reference paid_on) live else None) of
           Some p \<Rightarrow> Inr ((p, False), b)
         | None \<Rightarrow>
             bind_res (raise_refusal (check_recordable tb pc answering actor iv)) (\<lambda>_.
             bind_res (standalone_booking live None) (\<lambda>target. case target of
                 Some t \<Rightarrow>
                   bind_res (check_amount stated (py_amount t)) (\<lambda>_.
                   bind_res (complete_outside am xc iv t method reference paid_on actor source actor_name b)
                     (\<lambda>(p, b'). Inr ((p, True), b')))
               | None \<Rightarrow>
                   bind_res (amount_owed tb iv paid_on) (\<lambda>v. case v of
                       Inl r \<Rightarrow> Inl (HttpError (rf_http r) (rf_code r))
                     | Inr owed \<Rightarrow>
                         bind_res (check_amount stated (fst owed)) (\<lambda>_.
                         let p = outside_payment (am_new_id am (''payment:'' @ inv_id iv)) iv owed method
                         in if \<not> one_live (tb_payments tb @ [p]) then Inl (HttpError 409 ''external_payment_payment_live'')
                            else bind_res (complete_outside am xc iv p method reference paid_on actor source actor_name
                                   (tb\<lparr>tb_payments := tb_payments tb @ [p]\<rparr>, snd b))
                                   (\<lambda>(p, b'). Inr ((p, True), b')))))))"

section \<open>Recording a run\<close>

definition run_payment_refusal ::
  "payment_config \<Rightarrow> tables \<Rightarrow> invoice \<Rightarrow> payment \<Rightarrow> uid option \<Rightarrow> date \<Rightarrow> exc + refusal option" where
  "run_payment_refusal pc tb iv p actor paid_on =
     (case check_recordable tb pc {} actor iv of
        Some r \<Rightarrow> Inr (Some r)
      | None \<Rightarrow>
          if \<not> is_undispatched p
          then Inr (Some \<lparr>rf_code = ''external_payment_payment_live'', rf_http = 409,
                          rf_params = [(''payment_status'', PStr (py_status p))]\<rparr>)
          else bind_res (amount_owed tb iv paid_on) (\<lambda>v. Inr (case v of
              Inl r \<Rightarrow> Some r
            | Inr owed \<Rightarrow> if fst owed \<noteq> py_amount p \<or> fst (snd owed) \<noteq> py_discount_offer_id p
                then refuse ''external_payment_amount_changed'' 409 else None)))"

definition record_run_payment_paid_outside ::
  "ambient \<Rightarrow> payment_config \<Rightarrow> payment_config \<Rightarrow> invoice \<Rightarrow> payment \<Rightarrow> string \<Rightarrow> date \<Rightarrow> uid option \<Rightarrow> books \<Rightarrow> exc + books" where
  "record_run_payment_paid_outside am pc xc iv p reference paid_on actor b =
     bind_res (run_payment_refusal pc (fst b) iv p actor paid_on) (\<lambda>r.
     bind_res (raise_refusal r) (\<lambda>_.
     bind_res (complete_outside am xc iv p None reference paid_on actor ''user'' None b) (\<lambda>(_, b'). Inr b')))"

definition payment_invoice :: "tables \<Rightarrow> payment \<Rightarrow> exc + invoice" where
  "payment_invoice tb p = (case List.find (\<lambda>iv. inv_id iv = py_invoice_id p) (tb_invoices tb) of
     None \<Rightarrow> Inl (HttpError 404 ''invoice_not_found'') | Some iv \<Rightarrow> Inr iv)"

text \<open>Every payment is checked before any is recorded.\<close>

fun check_run_payments :: "payment_config \<Rightarrow> tables \<Rightarrow> uid \<Rightarrow> date \<Rightarrow> payment list \<Rightarrow> exc + unit" where
  "check_run_payments pc tb actor paid_on [] = Inr ()"
| "check_run_payments pc tb actor paid_on (p # ps) =
     bind_res (payment_invoice tb p) (\<lambda>iv.
     bind_res (run_payment_refusal pc tb iv p (Some actor) paid_on) (\<lambda>r.
     bind_res (raise_refusal r) (\<lambda>_. check_run_payments pc tb actor paid_on ps)))"

fun record_run_payments ::
  "ambient \<Rightarrow> payment_config \<Rightarrow> payment_config \<Rightarrow> string \<Rightarrow> date \<Rightarrow> uid \<Rightarrow> payment list \<Rightarrow> books \<Rightarrow> exc + books" where
  "record_run_payments am pc xc reference paid_on actor [] b = Inr b"
| "record_run_payments am pc xc reference paid_on actor (p # ps) b =
     bind_res (payment_invoice (fst b) p) (\<lambda>iv.
     bind_res (record_run_payment_paid_outside am pc xc iv p reference paid_on (Some actor) b)
       (record_run_payments am pc xc reference paid_on actor ps))"

text \<open>The endpoint over the tables: the run's gates and row, and the payments recorded.\<close>

definition record_run_outside ::
  "ambient \<Rightarrow> payment_config \<Rightarrow> payment_config \<Rightarrow> uid \<Rightarrow> date \<Rightarrow> string \<Rightarrow> date \<Rightarrow> payment_run \<Rightarrow> books \<Rightarrow>
     exc + payment_run \<times> books" where
  "record_run_outside am pc xc actor today reference paid_on r b =
     (let rows = run_rows (fst b) (pr_id r);
          pending = filter (\<lambda>p. py_status p = ''pending'') (active_run_payments rows)
      in bind_res (record_run_paid_outside actor pc today paid_on rows
             (check_run_payments pc (fst b) actor paid_on pending) r) (\<lambda>r'.
         bind_res (record_run_payments am pc xc reference paid_on actor pending b) (\<lambda>(tb, fx).
           Inr (r', tb\<lparr>tb_runs := map (\<lambda>x. if pr_id x = pr_id r then r' else x) (tb_runs tb)\<rparr>,
                plain_audit ''payment_run.recorded_outside'' (Some actor) (pr_id r) fx))))"

end
