(* ===== verification/PaymentSettling.thy ===== *)
theory PaymentSettling
  imports ExternalPayment SettlementProofs
begin

text \<open>
  How a payment reaches \<open>completed\<close> and its invoice \<open>paid\<close>:
  \<open>services/payment_settlement_record.py\<close>, the processor's webhook (\<open>payment_webhook\<close> of
  \<open>api/payments.py\<close>, from the row it locks on), and the sync leg of
  \<open>services/payment_erp_sync.py\<close>.

  What the processor says is an argument: the event, and what \<open>fetch_settlement\<close> answers when
  asked for a missing figure. So is what the ERP adapter does. Signature checks and the
  de-duplication of events come before the part modelled. Description texts are left out.
\<close>

section \<open>Recording a settlement\<close>

text \<open>
  \<open>fetch_settlement\<close>: \<open>None\<close> when it raises, otherwise whether it is available, the amount and
  the currency.
\<close>

type_synonym fetch_answer = "(bool \<times> report \<times> string option) option"

definition with_fetched ::
  "payment \<Rightarrow> fetch_answer \<Rightarrow> report \<Rightarrow> string option \<Rightarrow> report \<times> string option" where
  "with_fetched p fetched reported cur =
     (if reported = Absent \<and> or_str (py_provider_payment_id p) [] \<noteq> []
      then case fetched of
          Some (available, r, c) \<Rightarrow> if available \<and> r \<noteq> Absent then (r, c) else (reported, cur)
        | None \<Rightarrow> (reported, cur)
      else (reported, cur))"

text \<open>What \<open>persistable_settled_amount\<close> is handed: the verdict's amount, not the report.\<close>

definition verdict_report :: "settlement_verification \<Rightarrow> report" where
  "verdict_report v = (case sv_settled_amount v of None \<Rightarrow> Absent | Some d \<Rightarrow> Reported d)"

definition store_settlement :: "settlement_verification \<Rightarrow> payment \<Rightarrow> payment" where
  "store_settlement v p =
     (let (storable, unstorable) = persistable_settled_amount (verdict_report v);
          p1 = (if storable \<noteq> None
                then p\<lparr>py_settled_amount := stored_settled_amount storable,
                       py_settled_currency := sv_settled_currency v\<rparr> else p)
      in if unstorable then p1\<lparr>py_settled_unstorable := True, py_settled_currency := sv_settled_currency v\<rparr> else p1)"

definition record_settlement ::
  "payment \<Rightarrow> invoice option \<Rightarrow> fetch_answer \<Rightarrow> report \<Rightarrow> string option \<Rightarrow> exc + payment \<times> settlement_verification" where
  "record_settlement p iv fetched reported cur =
     (let (r, c) = with_fetched p fetched reported cur
      in bind_res (verify_settlement r c (py_amount p) (case iv of None \<Rightarrow> None | Some i \<Rightarrow> currency i)
                     (py_source_amount p) (py_source_currency p)) (\<lambda>v.
         Inr (store_settlement v p, v)))"

section \<open>Realised exchange differences\<close>

definition gain_loss :: "rat \<Rightarrow> rat \<Rightarrow> exc + rat" where
  "gain_loss accrued paid_home_amount =
     bind_res (quantize_money paid_home_amount) (\<lambda>p. quantize_money (dsub accrued p))"

definition realized_fx_gain_loss ::
  "rat \<Rightarrow> string option \<Rightarrow> string option \<Rightarrow> rat option \<Rightarrow> rat option \<Rightarrow> string option \<Rightarrow> exc + rat option" where
  "realized_fx_gain_loss invoice_amount invoice_currency reporting rate paid_amount paid_currency =
     (case (paid_amount, rate) of
        (Some paid, Some r) \<Rightarrow>
          if r \<le> 0 then Inr None
          else if or_str invoice_currency [] \<noteq> [] \<and> or_str paid_currency [] \<noteq> []
                  \<and> py_upper (or_str invoice_currency []) = py_upper (or_str paid_currency []) then Inr None
          else if or_str reporting [] = [] \<or> or_str paid_currency [] = [] then Inr None
          else if py_upper (py_strip (or_str reporting [])) \<noteq> py_upper (py_strip (or_str paid_currency [])) then Inr None
          else bind_res (quantize_money (dmul invoice_amount r)) (\<lambda>accrued.
                 bind_res (gain_loss accrued paid) (\<lambda>g. Inr (Some g)))
      | _ \<Rightarrow> Inr None)"

record settlement_completion =
  sc_verification :: settlement_verification
  sc_realized_fx :: "rat option"

definition record_completion ::
  "payment \<Rightarrow> invoice option \<Rightarrow> fetch_answer \<Rightarrow> report \<Rightarrow> string option \<Rightarrow> exc + payment \<times> settlement_completion" where
  "record_completion p iv fetched reported cur =
     bind_res (record_settlement p iv fetched reported cur) (\<lambda>(p1, v).
     bind_res (case iv of
         None \<Rightarrow> Inr None
       | Some i \<Rightarrow> realized_fx_gain_loss (amount i) (currency i) (reporting_currency i) (reporting_fx_rate i)
                    (py_source_amount p1) (py_source_currency p1)) (\<lambda>g.
       Inr (p1, \<lparr>sc_verification = v, sc_realized_fx = g\<rparr>)))"

section \<open>Flags\<close>

text \<open>One open or escalated exception of a type on an invoice is enough.\<close>

definition live_of_type :: "exception_row list \<Rightarrow> uid \<Rightarrow> string \<Rightarrow> bool" where
  "live_of_type es i t =
     list_ex (\<lambda>e. ex_invoice_id e = Some i \<and> ex_type e = t \<and> ex_status e \<in> {''open'', ''escalated''}) es"

definition open_once ::
  "ambient \<Rightarrow> string \<Rightarrow> uid \<Rightarrow> uid option \<Rightarrow> string option \<Rightarrow> string option \<Rightarrow> books \<Rightarrow> books" where
  "open_once am t i raised_by description_code kind b =
     (if live_of_type (tb_exceptions (fst b)) i t then b
      else let (e, fx) = create_exception (am_new_id am (t @ '':'' @ i)) (am_now am) t ''error'' ''open'' (Some i)
                           raised_by description_code kind (snd b)
           in ((fst b)\<lparr>tb_exceptions := tb_exceptions (fst b) @ [e]\<rparr>, fx))"

definition open_settlement_mismatch_exception :: "ambient \<Rightarrow> invoice option \<Rightarrow> books \<Rightarrow> books" where
  "open_settlement_mismatch_exception am iv b =
     (case iv of None \<Rightarrow> b | Some i \<Rightarrow> open_once am ''fraud_flag'' (inv_id i) None None None b)"

section \<open>The processor's webhook\<close>

datatype processor_status = ProcPending | ProcSubmitted | ProcProcessing | ProcCompleted | ProcFailed | ProcCancelled

primrec processor_status_value :: "processor_status \<Rightarrow> string" where
  "processor_status_value ProcPending = ''pending''"
| "processor_status_value ProcSubmitted = ''submitted''"
| "processor_status_value ProcProcessing = ''processing''"
| "processor_status_value ProcCompleted = ''completed''"
| "processor_status_value ProcFailed = ''failed''"
| "processor_status_value ProcCancelled = ''cancelled''"

record webhook_event =
  we_provider_payment_id :: string
  we_status :: processor_status
  we_reference :: "string option"
  we_failure_reason :: "string option"
  we_amount :: report
  we_currency :: "string option"

definition find_invoice :: "tables \<Rightarrow> uid \<Rightarrow> invoice option" where
  "find_invoice tb i = List.find (\<lambda>iv. inv_id iv = i) (tb_invoices tb)"

definition in_flight :: "payment \<Rightarrow> bool" where
  "in_flight p = (py_status p \<in> {''pending'', ''submitted'', ''processing''})"

definition apply_event :: "stamp \<Rightarrow> webhook_event \<Rightarrow> payment \<Rightarrow> payment" where
  "apply_event now ev p =
     (let p1 = p\<lparr>py_status := processor_status_value (we_status ev)\<rparr>;
          p2 = (if or_str (we_reference ev) [] = [] then p1 else p1\<lparr>py_reference := we_reference ev\<rparr>);
          p3 = (if or_str (we_failure_reason ev) [] = [] then p2 else p2\<lparr>py_failure_reason := we_failure_reason ev\<rparr>)
      in if py_status p3 \<in> {''completed'', ''failed'', ''cancelled''} then p3\<lparr>py_completed_at := Some now\<rparr> else p3)"

definition completion_details :: "settlement_completion option \<Rightarrow> (string \<times> pyval) list" where
  "completion_details c = (case c of
       None \<Rightarrow> []
     | Some c \<Rightarrow>
         (''settlement'', PDict [
            (''outcome'', PStr (case sv_outcome (sc_verification c) of
               Matched \<Rightarrow> ''matched'' | AmountMismatch \<Rightarrow> ''amount_mismatch''
             | CurrencyMismatch \<Rightarrow> ''currency_mismatch'' | Unverified \<Rightarrow> ''unverified''))])
         # (case sc_realized_fx c of None \<Rightarrow> [] | Some g \<Rightarrow> [(''realized_fx_gain_loss'', PDec (Fin g))]))"

text \<open>
  The update of a locked row. The second component is the run whose sync is scheduled. More than
  one row under a processor's id is the unhandled error it is in the code.
\<close>

definition settle_event ::
  "ambient \<Rightarrow> webhook_event \<Rightarrow> fetch_answer \<Rightarrow> payment \<Rightarrow> books \<Rightarrow> exc + books" where
  "settle_event am ev fetched p b =
     (let p1 = apply_event (am_now am) ev p;
          done = we_status ev = ProcCompleted;
          iv = (if done then find_invoice (fst b) (py_invoice_id p) else None)
      in bind_res (if done then bind_res (record_completion p1 iv fetched (we_amount ev) (we_currency ev))
                                  (\<lambda>(p2, c). Inr (p2, Some c))
                   else Inr (p1, None)) (\<lambda>(p2, c).
         let b1 = (put_payment p2 (fst b), dispatch_audit
                \<lparr>au_action = ''payment.'' @ py_status p2, au_actor = None, au_entity = py_id p2,
                 au_details = [(''status'', PStr (py_status p2)), (''previous_status'', PStr (py_status p)),
                   (''source'', PStr ''webhook'')] @ completion_details c\<rparr> (snd b))
         in Inr (if \<not> done then b1
                 else if (case c of None \<Rightarrow> False | Some c \<Rightarrow> is_discrepancy (sv_outcome (sc_verification c)))
                 then open_settlement_mismatch_exception am iv b1
                 else case iv of
                     None \<Rightarrow> b1
                   | Some i \<Rightarrow> capture_discount_offers p2 (currency i)
                       (case py_completed_at p2 of None \<Rightarrow> am_now am | Some t \<Rightarrow> t) None b1)))"

definition payment_webhook ::
  "ambient \<Rightarrow> webhook_event \<Rightarrow> fetch_answer \<Rightarrow> books \<Rightarrow> exc + books \<times> uid option" where
  "payment_webhook am ev fetched b =
     (case filter (\<lambda>p. py_provider_payment_id p = Some (we_provider_payment_id ev)) (tb_payments (fst b)) of
        [] \<Rightarrow> Inr (b, None)
      | [p] \<Rightarrow>
          if \<not> in_flight p then Inr (b, None)
          else bind_res (settle_event am ev fetched p b) (\<lambda>b'.
                 Inr (b', if we_status ev = ProcCompleted then py_run_id p else None))
      | _ \<Rightarrow> Inl (HttpError 500 ''multiple_results_found''))"

section \<open>The ERP sync\<close>

datatype leg_outcome = LegSynced | LegSkipped | LegHeld | LegFailed

text \<open>
  What the ERP side of a leg does: the adapter cannot be resolved, there is none (or one whose
  bills do not sync back), or the write-back of a paid invoice returns or raises.
\<close>

datatype erp_answer = ErpUnusable | ErpNone | ErpWriteBack bool

definition erp_sync_failure_exception_type :: string where
  "erp_sync_failure_exception_type = ''erp_reconciliation''"

text \<open>\<open>_flag_sync_failure\<close>.\<close>

definition flag_sync_failure :: "ambient \<Rightarrow> uid \<Rightarrow> books \<Rightarrow> books" where
  "flag_sync_failure am pid b =
     (case List.find (\<lambda>p. py_id p = pid) (tb_payments (fst b)) of
        None \<Rightarrow> b
      | Some p \<Rightarrow> open_once am erp_sync_failure_exception_type (py_invoice_id p) None
                   (Some ''exception.erp_sync_back_failed'') (Some ''payment_sync_back_failed'') b)"

text \<open>The part of a leg up to its commit; an error leaves the books as they were.\<close>

definition sync_transition :: "ambient \<Rightarrow> payment \<Rightarrow> books \<Rightarrow> exc + (leg_outcome \<times> bool) \<times> books" where
  "sync_transition am p b =
     (case find_invoice (fst b) (py_invoice_id p) of
        None \<Rightarrow> Inr ((LegSynced, False), b)
      | Some iv \<Rightarrow>
          if inv_status iv \<noteq> PaymentScheduled then Inr ((LegSynced, False), b)
          else bind_res (payment_settlement_coverage p (Some iv)) (\<lambda>c.
            if \<not> completes_invoice c then Inr ((LegHeld, False), b)
            else bind_res (transition_invoice (am_new_id am (''synced:'' @ py_id p)) (am_ap_managers am) None
                     ''invoice.paid_via_erp_sync'' [(''payment_id'', PStr (py_id p))] Paid iv (snd b))
                   (\<lambda>(iv1, fx). Inr ((LegSynced, True), (put_invoice iv1 (fst b), fx)))))"

definition sync_one_leg :: "ambient \<Rightarrow> erp_answer \<Rightarrow> uid \<Rightarrow> books \<Rightarrow> (leg_outcome \<times> bool) \<times> books" where
  "sync_one_leg am erp pid b =
     (case List.find (\<lambda>p. py_id p = pid) (tb_payments (fst b)) of
        None \<Rightarrow> ((LegSkipped, False), b)
      | Some p \<Rightarrow>
          if py_status p \<noteq> ''completed'' then ((LegSkipped, False), b)
          else if py_provider p = Some external_payment_provider then ((LegSkipped, False), b)
          else if erp = ErpUnusable then ((LegFailed, False), flag_sync_failure am pid b)
          else case sync_transition am p b of
              Inl _ \<Rightarrow> ((LegFailed, False), flag_sync_failure am pid b)
            | Inr ((k, moved), b1) \<Rightarrow>
                if k = LegSynced \<and> erp = ErpWriteBack False
                   \<and> (case find_invoice (fst b1) (py_invoice_id p) of None \<Rightarrow> False | Some iv \<Rightarrow> inv_status iv = Paid)
                then ((LegFailed, False), flag_sync_failure am pid b1)
                else ((k, moved), b1))"

record sync_result =
  sr_synced :: nat
  sr_transitioned :: nat
  sr_skipped :: nat
  sr_held :: nat
  sr_failed :: nat

definition count_leg :: "leg_outcome \<times> bool \<Rightarrow> sync_result \<Rightarrow> sync_result" where
  "count_leg o1 r = (let r1 = (case fst o1 of
        LegSynced \<Rightarrow> r\<lparr>sr_synced := sr_synced r + 1\<rparr>
      | LegSkipped \<Rightarrow> r\<lparr>sr_skipped := sr_skipped r + 1\<rparr>
      | LegHeld \<Rightarrow> r\<lparr>sr_held := sr_held r + 1\<rparr>
      | LegFailed \<Rightarrow> r\<lparr>sr_failed := sr_failed r + 1\<rparr>)
     in if snd o1 then r1\<lparr>sr_transitioned := sr_transitioned r1 + 1\<rparr> else r1)"

text \<open>\<open>_sync_run_legs\<close>: one leg per payment, in id order; each leg commits on its own.\<close>

fun sync_legs :: "ambient \<Rightarrow> (uid \<Rightarrow> erp_answer) \<Rightarrow> uid list \<Rightarrow> sync_result \<Rightarrow> books \<Rightarrow> sync_result \<times> books" where
  "sync_legs am erp [] r b = (r, b)"
| "sync_legs am erp (i # is) r b =
     (let (o1, b1) = sync_one_leg am (erp i) i b in sync_legs am erp is (count_leg o1 r) b1)"

definition sync_run_legs :: "ambient \<Rightarrow> (uid \<Rightarrow> erp_answer) \<Rightarrow> uid \<Rightarrow> books \<Rightarrow> sync_result \<times> books" where
  "sync_run_legs am erp run_id b =
     sync_legs am erp (sort (map py_id (run_rows (fst b) run_id)))
       \<lparr>sr_synced = 0, sr_transitioned = 0, sr_skipped = 0, sr_held = 0, sr_failed = 0\<rparr> b"

end
