(* ===== verification/PaymentVoiding.thy ===== *)
theory PaymentVoiding
  imports PaymentSettling
begin

text \<open>
  What a person does to a payment after it was sent, in \<open>api/payments.py\<close>: voiding it, retrying
  the close of its card, accepting a short settlement, giving up on a compliance hold; and the
  flags these raise (\<open>api/vendors.py\<close>, \<open>services/payment_reconciler.py\<close>,
  \<open>services/erp_status_sync.py\<close>). The processor's and the card provider's answers are arguments;
  row locks and the write-backs after the commit are not modelled.
\<close>

section \<open>Closing the card\<close>

definition card_spent_statuses :: "string list" where
  "card_spent_statuses = [''charged'', ''completed'']"

text \<open>What asking the card's provider to close it comes to, and \<open>cancel_card_at_provider\<close>.\<close>

datatype provider_answer = CardsNotConfigured | ProviderUnknown | ProviderRaised string | ProviderConfirmed bool

definition cancel_card_at_provider :: "provider_answer \<Rightarrow> string" where
  "cancel_card_at_provider a = (case a of
       CardsNotConfigured \<Rightarrow> ''cards_not_configured''
     | ProviderUnknown \<Rightarrow> ''card_provider_not_configured''
     | ProviderRaised e \<Rightarrow> ''card_cancel_error:'' @ e
     | ProviderConfirmed ok \<Rightarrow> if ok then ''cancelled'' else ''card_cancel_rejected'')"

text \<open>Live first, then newest, then by id.\<close>

definition card_of_payment :: "virtual_card list \<Rightarrow> uid \<Rightarrow> virtual_card option" where
  "card_of_payment cards pid =
     (case sort_key (\<lambda>c. (vc_status c = ''cancelled'', - vc_created_at c, vc_id c))
             (filter (\<lambda>c. vc_payment_id c = Some pid) cards) of
        [] \<Rightarrow> None | c # _ \<Rightarrow> Some c)"

definition put_card :: "virtual_card \<Rightarrow> tables \<Rightarrow> tables" where
  "put_card c tb = tb\<lparr>tb_cards := map (\<lambda>x. if vc_id x = vc_id c then c else x) (tb_cards tb)\<rparr>"

text \<open>\<open>_cancel_card_for_void\<close>; \<open>answer\<close> is what the provider of a card says.\<close>

definition cancel_card_for_void ::
  "(virtual_card \<Rightarrow> provider_answer) \<Rightarrow> payment \<Rightarrow> uid \<Rightarrow> string \<Rightarrow> books \<Rightarrow> string option \<times> books" where
  "cancel_card_for_void answer p user via b =
     (if py_method p \<noteq> Some ''virtual_card'' then (None, b)
      else case card_of_payment (tb_cards (fst b)) (py_id p) of
          None \<Rightarrow> (Some ''no_card_linked'', b)
        | Some c \<Rightarrow>
            if vc_status c = ''cancelled'' then (Some ''card_already_cancelled'', b)
            else if vc_status c \<in> set card_spent_statuses then (Some ''card_already_charged'', b)
            else if cancel_card_at_provider (answer c) \<noteq> ''cancelled'' then (Some (cancel_card_at_provider (answer c)), b)
            else (Some ''card_cancelled'',
                  (put_card (c\<lparr>vc_status := ''cancelled''\<rparr>) (fst b),
                   dispatch_audit \<lparr>au_action = ''card.cancelled'', au_actor = Some user, au_entity = vc_id c,
                     au_details = [(''from'', PStr (vc_status c)), (''to'', PStr ''cancelled''),
                       (''via'', PStr via), (''payment_id'', PStr (py_id p))]\<rparr> (snd b))))"

definition card_cancel_disposition :: "string option \<Rightarrow> string option" where
  "card_cancel_disposition outcome = (case outcome of
       None \<Rightarrow> None
     | Some t \<Rightarrow>
         Some (if t \<in> {''card_cancelled'', ''cancelled'', ''card_already_cancelled''} then ''closed''
               else if t = ''no_card_linked'' then ''no_card''
               else if t = ''card_already_charged'' then ''not_closed_final''
               else ''not_closed_retryable''))"

section \<open>Flags\<close>

record bank_change =
  bc_vendor_id :: uid
  bc_change_type :: string
  bc_status :: string
  bc_reviewed_at :: "stamp option"
  bc_reviewed_by :: "uid option"

definition flag_invoice_for_bank_change :: "ambient \<Rightarrow> uid \<Rightarrow> uid option \<Rightarrow> books \<Rightarrow> books" where
  "flag_invoice_for_bank_change am i actor b = open_once am ''fraud_flag'' i actor None None b"

definition approved_bank_changes_since :: "bank_change list \<Rightarrow> uid \<Rightarrow> stamp \<Rightarrow> bank_change list" where
  "approved_bank_changes_since cs v since =
     filter (\<lambda>c. bc_vendor_id c = v \<and> bc_change_type c = ''bank_details'' \<and> bc_status c = ''approved''
       \<and> (case bc_reviewed_at c of None \<Rightarrow> False | Some t \<Rightarrow> since < t)) cs"

text \<open>The latest such change raises the flag in its reviewer's name.\<close>

definition reflag_voided_invoice_for_bank_change ::
  "ambient \<Rightarrow> bank_change list \<Rightarrow> invoice \<Rightarrow> stamp \<Rightarrow> books \<Rightarrow> books" where
  "reflag_voided_invoice_for_bank_change am cs iv paid_since b =
     (case vendor_id iv of
        None \<Rightarrow> b
      | Some v \<Rightarrow>
          (case sort_key (\<lambda>c. - (case bc_reviewed_at c of None \<Rightarrow> 0 | Some t \<Rightarrow> t)) (approved_bank_changes_since cs v paid_since) of
             [] \<Rightarrow> b
           | c # _ \<Rightarrow> flag_invoice_for_bank_change am (inv_id iv) (bc_reviewed_by c) b))"

definition flag_payment_for_reconciliation :: "ambient \<Rightarrow> payment \<Rightarrow> books \<Rightarrow> books" where
  "flag_payment_for_reconciliation am p b =
     open_once am ''payment_reconciliation'' (py_invoice_id p) None None None b"

definition flag_if_dispatch_in_doubt :: "ambient \<Rightarrow> payment \<Rightarrow> books \<Rightarrow> books" where
  "flag_if_dispatch_in_doubt am p b =
     (if py_dispatch_attempted_at p = None then b
      else if py_status p \<notin> set retryable_payment_statuses then b
      else flag_payment_for_reconciliation am p b)"

text \<open>\<open>erp_reference\<close> is the bill the invoice was posted as, read from its workflow instance.\<close>

definition flag_void_of_erp_reported_payment :: "ambient \<Rightarrow> string option \<Rightarrow> invoice \<Rightarrow> payment \<Rightarrow> books \<Rightarrow> books" where
  "flag_void_of_erp_reported_payment am erp_reference iv p b =
     (if py_provider p \<noteq> Some external_payment_provider then b
      else let bill = or_str erp_reference []
           in if bill = [] \<or> or_str (py_reference p) [] \<noteq> take 255 bill then b
              else open_once am ''payment_reconciliation'' (inv_id iv) None
                     (Some ''exception.erp_reported_payment_voided'') (Some ''erp_payment_voided'') b)"

section \<open>The parent run\<close>

definition put_run :: "payment_run \<Rightarrow> tables \<Rightarrow> tables" where
  "put_run r tb = tb\<lparr>tb_runs := map (\<lambda>x. if pr_id x = pr_id r then r else x) (tb_runs tb)\<rparr>"

definition recompute_parent_run_status :: "payment \<Rightarrow> books \<Rightarrow> books" where
  "recompute_parent_run_status p b =
     (case py_run_id p of
        None \<Rightarrow> b
      | Some rid \<Rightarrow> (case List.find (\<lambda>r. pr_id r = rid) (tb_runs (fst b)) of
          None \<Rightarrow> b
        | Some r \<Rightarrow> (put_run (recompute_run_status (run_rows (fst b) rid) r) (fst b), snd b)))"

section \<open>Void\<close>

record void_call =
  vo_user :: uid
  vo_user_name :: string
  vo_reason :: string
  vo_adapter_outcome :: "string option"
  vo_card_answer :: "virtual_card \<Rightarrow> provider_answer"
  vo_created_at :: stamp
  vo_bank_changes :: "bank_change list"
  vo_erp_reference :: "string option"

definition voided :: "ambient \<Rightarrow> void_call \<Rightarrow> payment \<Rightarrow> payment" where
  "voided am vc p = p\<lparr>py_status := ''voided'',
     py_failure_reason := Some (''Voided by '' @ vo_user_name vc @ '': '' @ vo_reason vc),
     py_completed_at := (if py_completed_at p = None then Some (am_now am) else py_completed_at p)\<rparr>"

text \<open>The invoice goes back to \<open>approved\<close> if this payment had scheduled or paid it.\<close>

definition reopen_invoice ::
  "ambient \<Rightarrow> bank_change list \<Rightarrow> stamp \<Rightarrow> uid \<Rightarrow> string \<Rightarrow> payment \<Rightarrow> invoice option \<Rightarrow> books \<Rightarrow> exc + books" where
  "reopen_invoice am cs created user reason p iv b =
     (case iv of
        None \<Rightarrow> Inr b
      | Some i \<Rightarrow>
          if inv_status i \<notin> {PaymentScheduled, Paid} then Inr b
          else bind_res (transition_invoice (am_new_id am (''voided:'' @ py_id p)) (am_ap_managers am) (Some user)
                  ''invoice.voided_return_to_approved''
                  [(''void_reason'', PStr reason), (''payment_id'', PStr (py_id p))] Approved i (snd b))
               (\<lambda>(i1, fx). Inr (reflag_voided_invoice_for_bank_change am cs i1 created (put_invoice i1 (fst b), fx))))"

definition reversal_audit :: "uid \<Rightarrow> payment \<Rightarrow> discount_offer \<times> rat \<Rightarrow> effects \<Rightarrow> effects" where
  "reversal_audit user p fa fx =
     dispatch_audit \<lparr>au_action = ''discount_offer.capture_reversed'', au_actor = Some user, au_entity = of_id (fst fa),
       au_details = [(''payment_id'', PStr (py_id p)), (''reversed_amount'', PDec (Fin (snd fa)))]\<rparr> fx"

definition reverse_captures ::
  "uid \<Rightarrow> payment \<Rightarrow> string \<Rightarrow> invoice option \<Rightarrow> books \<Rightarrow> exc + books" where
  "reverse_captures user p previous iv b =
     (case iv of
        None \<Rightarrow> Inr b
      | Some i \<Rightarrow>
          bind_res (reverse_captures_for_voided_payment (tb_offers (fst b)) (tb_payments (fst b)) (inv_id i) (py_id p) (Some previous))
            (\<lambda>(fs, done). Inr ((fst b)\<lparr>tb_offers := fs\<rparr>, fold (reversal_audit user p) done (snd b))))"

text \<open>The two best-effort legs' outcomes come back with the books.\<close>

definition void_payment :: "ambient \<Rightarrow> void_call \<Rightarrow> payment \<Rightarrow> books \<Rightarrow> exc + string option \<times> books" where
  "void_payment am vc p b =
     bind_res (raise_refusal (payment_void_refusal p)) (\<lambda>_.
       let iv = find_invoice (fst b) (py_invoice_id p);
           previous = py_status p;
           (card_outcome, b1) = cancel_card_for_void (vo_card_answer vc) p (vo_user vc) ''payment_void'' b;
           p1 = voided am vc p;
           b2 = (put_payment p1 (fst b1), snd b1)
       in bind_res (reopen_invoice am (vo_bank_changes vc) (vo_created_at vc) (vo_user vc) (vo_reason vc) p1 iv b2) (\<lambda>b3.
          bind_res (reverse_captures (vo_user vc) p1 previous iv b3) (\<lambda>b4.
            let b5 = (fst b4, dispatch_audit \<lparr>au_action = ''payment.voided'', au_actor = Some (vo_user vc),
                   au_entity = py_id p1, au_details =
                     [(''reason'', PStr (vo_reason vc)),
                      (''adapter_outcome'', case vo_adapter_outcome vc of None \<Rightarrow> PNone | Some s \<Rightarrow> PStr s),
                      (''card_outcome'', case card_outcome of None \<Rightarrow> PNone | Some s \<Rightarrow> PStr s),
                      (''previous_status'', PStr previous)]\<rparr> (snd b4));
                b6 = recompute_parent_run_status p1 b5
            in Inr (card_outcome,
                 case iv of
                   None \<Rightarrow> b6
                 | Some i \<Rightarrow> if previous = ''completed''
                             then flag_void_of_erp_reported_payment am (vo_erp_reference vc) i p1 b6 else b6))))"

definition retry_void_card_cancel ::
  "(virtual_card \<Rightarrow> provider_answer) \<Rightarrow> uid \<Rightarrow> payment \<Rightarrow> books \<Rightarrow> exc + string option \<times> books" where
  "retry_void_card_cancel answer user p b =
     (if py_status p \<noteq> ''voided'' then Inl (HttpError 409 ''payment_not_voided'')
      else if py_method p \<noteq> Some ''virtual_card'' then Inl (HttpError 409 ''payment_has_no_card'')
      else let (outcome, b1) = cancel_card_for_void answer p user ''payment_void_retry'' b
           in Inr (outcome, (fst b1, dispatch_audit
                \<lparr>au_action = ''payment.void_card_cancel_retried'', au_actor = Some user, au_entity = py_id p,
                 au_details =
                   [(''card_outcome'', case outcome of None \<Rightarrow> PNone | Some s \<Rightarrow> PStr s),
                    (''card_disposition'', case card_cancel_disposition outcome of None \<Rightarrow> PNone | Some s \<Rightarrow> PStr s)]\<rparr>
                (snd b1))))"

section \<open>Accepting a short settlement\<close>

definition accept_settlement :: "ambient \<Rightarrow> uid \<Rightarrow> string \<Rightarrow> payment \<Rightarrow> books \<Rightarrow> exc + books" where
  "accept_settlement am user reason p b =
     (let iv = find_invoice (fst b) (py_invoice_id p)
      in bind_res (settlement_accept_refusal p iv) (\<lambda>r.
         bind_res (raise_refusal r) (\<lambda>_.
         bind_res (payment_settlement_coverage p iv) (\<lambda>c.
           let state = (case co_state c of Covered \<Rightarrow> ''covered'' | Short \<Rightarrow> ''short'' | Uncertain \<Rightarrow> ''uncertain'');
               fx = dispatch_audit \<lparr>au_action = ''payment.settlement_accepted'', au_actor = Some user, au_entity = py_id p,
                 au_details = [(''reason'', PStr reason), (''coverage'', PStr state)]\<rparr> (snd b)
           in case iv of
               None \<Rightarrow> Inl (PyError AttributeError)
             | Some i \<Rightarrow>
                 bind_res (transition_invoice (am_new_id am (''accepted:'' @ py_id p)) (am_ap_managers am) (Some user)
                     ''invoice.paid_via_settlement_acceptance''
                     [(''payment_id'', PStr (py_id p)), (''coverage'', PStr state)] Paid i fx)
                   (\<lambda>(i1, fx1). Inr (put_invoice i1 (fst b), fx1))))))"

section \<open>Compliance holds\<close>

text \<open>\<open>_resolve_compliance_hold_exception\<close>: \<open>scalar_one_or_none\<close> over the open rows.\<close>

definition resolve_compliance_hold_exception ::
  "ambient \<Rightarrow> invoice \<Rightarrow> uid \<Rightarrow> string \<Rightarrow> string \<Rightarrow> books \<Rightarrow> exc + books" where
  "resolve_compliance_hold_exception am iv user user_name resolution b =
     (case filter (\<lambda>e. ex_invoice_id e = Some (inv_id iv) \<and> ex_type e = ''payment_compliance_hold''
             \<and> ex_status e = ''open'') (tb_exceptions (fst b)) of
        [] \<Rightarrow> Inr b
      | [e] \<Rightarrow>
          bind_res (record_decision (am_fingerprint am) (tb_invoices (fst b)) e ''resolve'' resolution (Some user)
              user_name (Some iv) None None (am_now am) (snd b))
            (\<lambda>(e1, fx). Inr ((fst b)\<lparr>tb_exceptions := put_exception e1 (tb_exceptions (fst b))\<rparr>, fx))
      | _ \<Rightarrow> Inl (HttpError 500 ''multiple_results_found''))"

definition dismissed :: "ambient \<Rightarrow> string \<Rightarrow> string \<Rightarrow> payment \<Rightarrow> payment" where
  "dismissed am user_name reason p = p\<lparr>py_status := ''failed'',
     py_failure_reason := Some (''compliance_dismissed by '' @ user_name @ '': '' @ reason),
     py_completed_at := Some (am_now am)\<rparr>"

definition dismiss_compliance_hold ::
  "ambient \<Rightarrow> uid \<Rightarrow> string \<Rightarrow> string \<Rightarrow> payment \<Rightarrow> books \<Rightarrow> exc + books" where
  "dismiss_compliance_hold am user user_name reason p b =
     bind_res (raise_refusal (compliance_hold_refusal p)) (\<lambda>_.
       let iv = find_invoice (fst b) (py_invoice_id p);
           p1 = dismissed am user_name reason p;
           b1 = flag_if_dispatch_in_doubt am p1 (put_payment p1 (fst b), snd b);
           b2 = (fst b1, dispatch_audit \<lparr>au_action = ''payment.compliance_dismissed'', au_actor = Some user,
                  au_entity = py_id p1, au_details = [(''reason'', PStr reason)]\<rparr> (snd b1))
       in bind_res (case iv of
              None \<Rightarrow> Inr b2
            | Some i \<Rightarrow> resolve_compliance_hold_exception am i user user_name (''dismissed: '' @ reason) b2)
            (\<lambda>b3. Inr (recompute_parent_run_status p1 b3)))"

end
