(* ===== verification/ExternalPaymentProofs.thy ===== *)
theory ExternalPaymentProofs
  imports ExternalPayment
begin

text \<open>
  What recording a payment made elsewhere leaves: one completed payment, a paid invoice, the
  controls that held; and that saying it twice changes nothing.
\<close>

section \<open>Frames\<close>

lemma capture_discount_offers_frame [frame]:
  "tb_payments (fst (capture_discount_offers p ccy now a b)) = tb_payments (fst b)"
  "tb_invoices (fst (capture_discount_offers p ccy now a b)) = tb_invoices (fst b)"
  "tb_exceptions (fst (capture_discount_offers p ccy now a b)) = tb_exceptions (fst b)"
  by (auto simp: capture_discount_offers_def split: sum.splits prod.splits option.splits)

lemma close_reports_frame [frame]:
  "close_reports am xc iv a n es b = Inr b' \<Longrightarrow>
     tb_payments (fst b') = tb_payments (fst b) \<and> tb_invoices (fst b') = tb_invoices (fst b)"
  by (induction es arbitrary: b) (fastforce elim!: bind_res_InrE)+

lemma walk_to_paid_InrD:
  assumes "walk_to_paid am a src pid iv fx = Inr (iv', fx')"
  shows "iv' = iv\<lparr>inv_status := Paid\<rparr> \<and> (inv_status iv = PaymentScheduled \<or> PaymentScheduled \<in> valid_transitions (inv_status iv))"
proof (cases "PaymentScheduled \<in> valid_transitions (inv_status iv)")
  case True
  with assms obtain iv1 fx1 where
    "transition_invoice (am_new_id am (''scheduled:'' @ pid)) (am_ap_managers am) a ''invoice.payment_scheduled''
       ([(''payment_id'', PStr pid), (''source'', PStr src)] @ [(''result'', PStr ''recorded_outside'')])
       PaymentScheduled iv fx = Inr (iv1, fx1)"
    and "transition_invoice (am_new_id am (''paid:'' @ pid)) (am_ap_managers am) a
       (if src = ''user'' then ''invoice.paid_outside'' else ''invoice.paid_via_erp_report'')
       [(''payment_id'', PStr pid), (''source'', PStr src)] Paid iv1 fx1 = Inr (iv', fx')"
    by (auto simp: walk_to_paid_def Let_def elim!: bind_res_InrE)
  with True show ?thesis
    by (auto elim!: transition_invoice_InrE)
next
  case False
  with assms have "transition_invoice (am_new_id am (''paid:'' @ pid)) (am_ap_managers am) a
       (if src = ''user'' then ''invoice.paid_outside'' else ''invoice.paid_via_erp_report'')
       [(''payment_id'', PStr pid), (''source'', PStr src)] Paid iv fx = Inr (iv', fx')"
    by (simp add: walk_to_paid_def Let_def)
  then show ?thesis
    by (cases "inv_status iv") (auto elim!: transition_invoice_InrE)
qed

lemma complete_outside_InrD:
  assumes "complete_outside am xc iv p method reference paid_on a src n b = Inr (p', b')"
  shows "p' = completed_outside iv method reference paid_on p"
    and "tb_payments (fst b') = map (\<lambda>q. if py_id q = py_id p then p' else q) (tb_payments (fst b))"
    and "tb_invoices (fst b') = map (\<lambda>x. if inv_id x = inv_id iv then iv\<lparr>inv_status := Paid\<rparr> else x) (tb_invoices (fst b))"
proof -
  let ?p1 = "completed_outside iv method reference paid_on p"
  let ?b1 = "(put_payment ?p1 (fst b), plain_audit ''payment.recorded_outside'' a (py_id ?p1) (snd b))"
  let ?b2 = "capture_discount_offers ?p1 (currency iv) (paid_on_timestamp paid_on) a ?b1"
  obtain iv1 fx where w: "walk_to_paid am a src (py_id ?p1) iv (snd ?b2) = Inr (iv1, fx)"
    and c: "close_reports am xc iv1 a n (live_erp_paid_reports (fst ?b2) (inv_id iv)) (put_invoice iv1 (fst ?b2), fx) = Inr b'"
    and p: "p' = ?p1"
    using assms by (auto simp: complete_outside_def Let_def elim!: bind_res_InrE)
  have id: "py_id ?p1 = py_id p"
    by (simp add: completed_outside_def Let_def)
  have iv1: "iv1 = iv\<lparr>inv_status := Paid\<rparr>"
    using walk_to_paid_InrD [OF w] by simp
  show "p' = ?p1"
    by (rule p)
  show "tb_payments (fst b') = map (\<lambda>q. if py_id q = py_id p then p' else q) (tb_payments (fst b))"
    "tb_invoices (fst b') = map (\<lambda>x. if inv_id x = inv_id iv then iv\<lparr>inv_status := Paid\<rparr> else x) (tb_invoices (fst b))"
    using close_reports_frame [OF c] by (simp_all add: frame put_invoice_def put_payment_def p id iv1)
qed

lemma completed_outside_simps [simp]:
  "py_id (completed_outside iv m ref d p) = py_id p"
  "py_invoice_id (completed_outside iv m ref d p) = py_invoice_id p"
  "py_amount (completed_outside iv m ref d p) = py_amount p"
  "py_run_id (completed_outside iv m ref d p) = py_run_id p"
  "py_status (completed_outside iv m ref d p) = ''completed''"
  "py_settled_amount (completed_outside iv m ref d p) = Some (py_amount p)"
  "is_live (completed_outside iv m ref d p)"
  by (simp_all add: completed_outside_def Let_def is_live_def live_payment_terminal_statuses_def)

lemma utc_date_paid_on [simp]: "utc_date (paid_on_timestamp d) = d"
  by (simp add: utc_date_def paid_on_timestamp_def hour_def)

lemma same_record_completed: "same_record (completed_outside iv m ref d p) ref d"
  by (simp add: same_record_def completed_outside_def Let_def or_str_def)

section \<open>One invoice\<close>

lemma standalone_booking_held: "standalone_booking ps (Some x) = Inr t \<Longrightarrow> ps = [] \<and> t = Some x"
  by (cases ps) (auto split: if_splits)

lemma standalone_booking_InrD:
  "standalone_booking ps None = Inr t \<Longrightarrow>
     (case t of None \<Rightarrow> ps = [] | Some p \<Rightarrow> ps = [p] \<and> py_run_id p = None \<and> is_undispatched p)"
  by (cases ps) (auto split: if_splits dest: standalone_booking_held)

text \<open>Where a recorded payment came from: completed in place, or a new row for what is owed.\<close>

lemma record_created_cases:
  assumes "record_invoice_paid_outside am pc xc iv m ref d a src stated ans n b = Inr ((p, True), b')"
  obtains
    (in_place) q where "check_recordable (fst b) pc ans a iv = None"
      and "live_payments (fst b) (inv_id iv) = [q]" and "is_undispatched q" and "py_run_id q = None"
      and "stated = None \<or> stated = Some (py_amount q)"
      and "complete_outside am xc iv q m ref d a src n b = Inr (p, b')"
  | (fresh) owed q where "check_recordable (fst b) pc ans a iv = None"
      and "live_payments (fst b) (inv_id iv) = []" and "amount_owed (fst b) iv d = Inr (Inr owed)"
      and "stated = None \<or> stated = Some (fst owed)"
      and "q = outside_payment (am_new_id am (''payment:'' @ inv_id iv)) iv owed m"
      and "one_live (tb_payments (fst b) @ [q])"
      and "complete_outside am xc iv q m ref d a src n ((fst b)\<lparr>tb_payments := tb_payments (fst b) @ [q]\<rparr>, snd b) = Inr (p, b')"
proof -
  have gate: "check_recordable (fst b) pc ans a iv = None"
    using assms by (auto simp: record_invoice_paid_outside_def Let_def raise_refusal_bind elim!: bind_res_InrE
        split: option.splits)
  obtain t where t: "standalone_booking (live_payments (fst b) (inv_id iv)) None = Inr t"
    using assms by (auto simp: record_invoice_paid_outside_def Let_def raise_refusal_bind elim!: bind_res_InrE
        split: option.splits)
  note live = standalone_booking_InrD [OF t]
  show thesis
  proof (cases t)
    case (Some q)
    with assms t gate have "stated = None \<or> stated = Some (py_amount q)"
      "complete_outside am xc iv q m ref d a src n b = Inr (p, b')"
      by (auto simp: record_invoice_paid_outside_def Let_def raise_refusal_bind check_amount_def
          elim!: bind_res_InrE split: option.splits)
    with in_place gate live Some show thesis
      by simp
  next
    case None
    with assms t gate obtain v where v: "amount_owed (fst b) iv d = Inr v"
      by (auto simp: record_invoice_paid_outside_def Let_def raise_refusal_bind elim!: bind_res_InrE split: option.splits)
    show thesis
    proof (cases v)
      case (Inl r)
      with assms t gate None v show thesis
        by (auto simp: record_invoice_paid_outside_def Let_def raise_refusal_bind split: option.splits)
    next
      case (Inr owed)
      let ?q = "outside_payment (am_new_id am (''payment:'' @ inv_id iv)) iv owed m"
      from assms t gate None v Inr have "stated = None \<or> stated = Some (fst owed)" "one_live (tb_payments (fst b) @ [?q])"
        "complete_outside am xc iv ?q m ref d a src n ((fst b)\<lparr>tb_payments := tb_payments (fst b) @ [?q]\<rparr>, snd b) = Inr (p, b')"
        by (auto simp: record_invoice_paid_outside_def Let_def raise_refusal_bind check_amount_def
            elim!: bind_res_InrE split: option.splits if_splits)
      with fresh [OF gate _ _ _ refl] live None v Inr show thesis
        by simp
    qed
  qed
qed


lemma check_recordable_None:
  assumes "check_recordable tb pc ans a iv = None"
  shows "inv_status iv \<in> {Approved, PostedInErp, PaymentScheduled}"
    and "run_segregation_enabled pc \<Longrightarrow> a = Some u \<Longrightarrow> u \<notin> implicated_actors iv"
    and "blocking_exception_type payment_blocking_exception_types ans (tb_exceptions tb) (inv_id iv) = None"
    and "\<not> live_card (tb_cards tb) (inv_id iv)" and "applied_credit_conflict (tb_memos tb) iv = None"
  using assms segregation_default
  by (auto simp: check_recordable_def external_segregation_refusal_def state_refusal_def refuse_def
      payable_invoice_statuses_def shaping.violates_iff card_claimed_def or_str_def py_strip_def py_lower_def
      split: option.splits if_splits)

text \<open>The table a successful record leaves, whichever way the payment came about.\<close>

lemma record_created:
  assumes "record_invoice_paid_outside am pc xc iv m ref d a src stated ans n b = Inr ((p, True), b')"
    and "distinct (map py_id (tb_payments (fst b)))" and "am_new_id am (''payment:'' @ inv_id iv) \<notin> py_id ` set (tb_payments (fst b))"
    and "one_live (tb_payments (fst b))"
  obtains q where "check_recordable (fst b) pc ans a iv = None" and "p = completed_outside iv m ref d q"
    and "tb_invoices (fst b') = map (\<lambda>x. if inv_id x = inv_id iv then iv\<lparr>inv_status := Paid\<rparr> else x) (tb_invoices (fst b))"
    and "live_payments (fst b') (inv_id iv) = [p]" and "one_live (tb_payments (fst b'))"
    and "stated = None \<or> stated = Some (py_amount q)"
    and "(q \<in> set (tb_payments (fst b)) \<and> is_undispatched q)
      \<or> (\<exists>owed. amount_owed (fst b) iv d = Inr (Inr owed) \<and> py_amount q = fst owed)"
proof -
  define ps where "ps = tb_payments (fst b)"
  obtain q qs where gate: "check_recordable (fst b) pc ans a iv = None"
    and p: "p = completed_outside iv m ref d q"
    and qs: "tb_payments (fst b') = map (\<lambda>x. if py_id x = py_id q then p else x) qs"
    and iv': "tb_invoices (fst b') = map (\<lambda>x. if inv_id x = inv_id iv then iv\<lparr>inv_status := Paid\<rparr> else x) (tb_invoices (fst b))"
    and dist: "distinct (map py_id qs)" and mem: "q \<in> set qs" and one: "one_live qs"
    and only: "filter (\<lambda>x. py_invoice_id x = inv_id iv \<and> is_live x) qs = [q]"
    and stated: "stated = None \<or> stated = Some (py_amount q)"
    and origin: "(q \<in> set ps \<and> is_undispatched q) \<or> (\<exists>owed. amount_owed (fst b) iv d = Inr (Inr owed) \<and> py_amount q = fst owed)"
    using assms(1)
  proof (cases rule: record_created_cases)
    case (in_place q)
    note c = complete_outside_InrD [OF in_place(6)]
    have "q \<in> set (live_payments (fst b) (inv_id iv))"
      using in_place(2) by simp
    then have "q \<in> set ps"
      by (simp add: live_payments_def ps_def)
    with in_place c assms(2,4) show thesis
      by (intro that [of q ps]) (simp_all add: ps_def live_payments_def)
  next
    case (fresh owed q)
    note c = complete_outside_InrD [OF fresh(7)]
    have q: "py_id q = am_new_id am (''payment:'' @ inv_id iv)" "py_invoice_id q = inv_id iv" "is_live q" "py_amount q = fst owed"
      by (simp_all add: fresh(5) outside_payment_def is_live_def live_payment_terminal_statuses_def)
    with fresh c assms(2,3) show thesis
      by (intro that [of q "ps @ [q]"]) (auto simp: ps_def live_payments_def)
  qed
  have "q \<in> set (filter (\<lambda>x. py_invoice_id x = inv_id iv \<and> is_live x) qs)"
    by (simp add: only)
  then have q: "py_invoice_id q = inv_id iv" "is_live q"
    by simp_all
  let ?f = "\<lambda>x. if py_id x = py_id q then p else x"
  have self: "x = q" if "x \<in> set qs" "py_id x = py_id q" for x
    using that dist mem by (auto simp: distinct_map dest: inj_onD)
  have keep: "py_invoice_id (?f x) = py_invoice_id x \<and> is_live (?f x) = is_live x" if "x \<in> set qs" for x
    using self [OF that] q by (auto simp: p)
  have "live_payments (fst b') (inv_id iv) = map ?f (filter (\<lambda>x. py_invoice_id x = inv_id iv \<and> is_live x) qs)"
    using keep by (simp add: live_payments_def qs filter_map comp_def cong: filter_cong)
  then have "live_payments (fst b') (inv_id iv) = [p]"
    by (simp add: only)
  moreover have "map py_invoice_id (filter is_live (tb_payments (fst b'))) = map py_invoice_id (filter is_live qs)"
    using keep by (simp add: qs filter_map comp_def cong: filter_cong)
  then have "one_live (tb_payments (fst b'))"
    using one by (simp add: one_live_def)
  ultimately show thesis
    using that [OF gate p iv'] stated origin by (simp add: ps_def)
qed

text \<open>
  Property C21. Recording a payment made elsewhere keeps every control and pays once: on success
  the invoice was payable, no person implicated in it recorded it where run segregation is on,
  every blocking exception on it is cleared or is one this record answers, and no live card is
  issued against it; afterwards the invoice is paid and carries exactly one live payment, the
  one recorded, completed for its whole amount, which is the amount stated and is either what
  FeohLedger had booked and never sent or exactly what the invoice owes on that day.
\<close>

theorem record_outside_sound:
  assumes "record_invoice_paid_outside am pc xc iv m ref d a src stated ans n b = Inr ((p, True), b')"
    and "distinct (map py_id (tb_payments (fst b)))" and "am_new_id am (''payment:'' @ inv_id iv) \<notin> py_id ` set (tb_payments (fst b))"
    and "iv \<in> set (tb_invoices (fst b))" and "one_live (tb_payments (fst b))"
  shows "inv_status iv \<in> {Approved, PostedInErp, PaymentScheduled}
    \<and> (\<forall>u. run_segregation_enabled pc \<and> a = Some u \<longrightarrow> u \<notin> implicated_actors iv)
    \<and> (\<forall>e\<in>set (tb_exceptions (fst b)). ex_invoice_id e = Some (inv_id iv) \<and> ex_type e \<in> set payment_blocking_exception_types
          \<longrightarrow> ex_status e \<in> {''resolved'', ''dismissed''} \<or> ex_id e \<in> ans)
    \<and> \<not> live_card (tb_cards (fst b)) (inv_id iv)
    \<and> iv\<lparr>inv_status := Paid\<rparr> \<in> set (tb_invoices (fst b'))
    \<and> live_payments (fst b') (inv_id iv) = [p] \<and> one_live (tb_payments (fst b'))
    \<and> py_status p = ''completed'' \<and> py_settled_amount p = Some (py_amount p)
    \<and> (stated = None \<or> stated = Some (py_amount p))
    \<and> ((\<exists>q\<in>set (tb_payments (fst b)). py_id q = py_id p \<and> py_amount q = py_amount p \<and> is_undispatched q)
       \<or> (\<exists>owed. amount_owed (fst b) iv d = Inr (Inr owed) \<and> py_amount p = fst owed))"
proof -
  obtain q where gate: "check_recordable (fst b) pc ans a iv = None" and p: "p = completed_outside iv m ref d q"
    and iv': "tb_invoices (fst b') = map (\<lambda>x. if inv_id x = inv_id iv then iv\<lparr>inv_status := Paid\<rparr> else x) (tb_invoices (fst b))"
    and live: "live_payments (fst b') (inv_id iv) = [p]" "one_live (tb_payments (fst b'))"
    and stated: "stated = None \<or> stated = Some (py_amount q)"
    and origin: "(q \<in> set (tb_payments (fst b)) \<and> is_undispatched q)
      \<or> (\<exists>owed. amount_owed (fst b) iv d = Inr (Inr owed) \<and> py_amount q = fst owed)"
    using record_created [OF assms(1-3,5)] by blast
  note g = check_recordable_None [OF gate]
  have "\<forall>e\<in>set (tb_exceptions (fst b)). ex_invoice_id e = Some (inv_id iv) \<and> ex_type e \<in> set payment_blocking_exception_types
      \<longrightarrow> ex_status e \<in> {''resolved'', ''dismissed''} \<or> ex_id e \<in> ans"
    using blocking_none [OF g(3)] by blast
  moreover have "iv\<lparr>inv_status := Paid\<rparr> \<in> set (tb_invoices (fst b'))"
    using assms(4) by (force simp: iv')
  moreover have "(\<exists>q\<in>set (tb_payments (fst b)). py_id q = py_id p \<and> py_amount q = py_amount p \<and> is_undispatched q)
       \<or> (\<exists>owed. amount_owed (fst b) iv d = Inr (Inr owed) \<and> py_amount p = fst owed)"
    using origin by (auto simp: p)
  ultimately show ?thesis
    using g(1,2,4) live stated by (simp add: p)
qed

text \<open>
  Recording is idempotent: once a call has recorded a payment, the same reference
  and paid-on date for that invoice answers with that payment and changes nothing, whoever
  repeats it, and whatever rail, amount or settings they repeat it with.
\<close>

theorem record_outside_idempotent:
  assumes "record_invoice_paid_outside am pc xc iv m ref d a src stated ans n b = Inr ((p, True), b')"
    and "distinct (map py_id (tb_payments (fst b)))" and "am_new_id am (''payment:'' @ inv_id iv) \<notin> py_id ` set (tb_payments (fst b))"
    and "one_live (tb_payments (fst b))"
  shows "record_invoice_paid_outside am' pc' xc' (iv\<lparr>inv_status := Paid\<rparr>) m' ref d a' src' stated' ans' n' b'
     = Inr ((p, False), b')"
proof -
  obtain q where p: "p = completed_outside iv m ref d q" and live: "live_payments (fst b') (inv_id iv) = [p]"
    using record_created [OF assms] by metis
  have "inv_id (iv\<lparr>inv_status := Paid\<rparr>) = inv_id iv" "same_record p ref d"
    using same_record_completed by (simp_all add: p)
  with live show ?thesis
    by (simp add: record_invoice_paid_outside_def)
qed

text \<open>A wire a colleague of the uploader records, net of the applied credit; and again.\<close>

definition sample_ambient :: ambient where
  "sample_ambient = \<lparr>am_now = 0, am_new_id = (\<lambda>l. l), am_ap_managers = None, am_fingerprint = (\<lambda>_ _. [])\<rparr>"

definition sample_record :: "exc + (payment \<times> bool) \<times> books" where
  "sample_record = record_invoice_paid_outside sample_ambient None None (sample_invoice\<lparr>inv_status := Approved\<rparr>)
     (Some ''wire'') ''REF-1'' 738500 (Some ''u-pay'') ''user'' (Some 800) {} None (sample_tables, no_effects)"

lemma sample_recorded:
  obtains p b' where "sample_record = Inr ((p, True), b')"
proof -
  have ok: "case_sum (\<lambda>_. False) (\<lambda>x. snd (fst x)) sample_record"
    by code_simp
  show thesis
  proof (cases sample_record)
    case (Inl e)
    from ok show thesis unfolding Inl by simp
  next
    case (Inr x)
    from ok have "snd (fst x)" unfolding Inr by simp
    with that [of "fst (fst x)" "snd x"] Inr show thesis
      by (metis (full_types) prod.collapse)
  qed
qed

lemma sample_fresh:
  "distinct (map py_id (tb_payments (fst (sample_tables, no_effects))))"
  "am_new_id sample_ambient (''payment:'' @ inv_id (sample_invoice\<lparr>inv_status := Approved\<rparr>))
     \<notin> py_id ` set (tb_payments (fst (sample_tables, no_effects)))"
  "sample_invoice\<lparr>inv_status := Approved\<rparr> \<in> set (tb_invoices (fst (sample_tables, no_effects)))"
  "one_live (tb_payments (fst (sample_tables, no_effects)))"
  by (simp_all add: sample_tables_def one_live_def)

lemma record_outside_sound_witness:
  "\<exists>p b'. sample_record = Inr ((p, True), b') \<and> live_payments (fst b') ''inv-1'' = [p] \<and> py_amount p = 800"
proof -
  obtain p b' where r: "sample_record = Inr ((p, True), b')"
    by (rule sample_recorded)
  from record_outside_sound [OF r [unfolded sample_record_def] sample_fresh]
  have "live_payments (fst b') (inv_id (sample_invoice\<lparr>inv_status := Approved\<rparr>)) = [p]" "Some 800 = Some (py_amount p)"
    by simp_all
  then have "live_payments (fst b') ''inv-1'' = [p] \<and> py_amount p = 800"
    by (simp add: sample_invoice_def)
  with r show ?thesis
    by blast
qed

lemma record_outside_idempotent_witness:
  "\<exists>p b'. sample_record = Inr ((p, True), b')
     \<and> record_invoice_paid_outside sample_ambient None None (sample_invoice\<lparr>inv_status := Paid\<rparr>) None ''REF-1'' 738500
         None ''erp'' None {} None b' = Inr ((p, False), b')"
proof -
  obtain p b' where r: "sample_record = Inr ((p, True), b')"
    by (rule sample_recorded)
  have "record_invoice_paid_outside sample_ambient None None (sample_invoice\<lparr>inv_status := Approved, inv_status := Paid\<rparr>)
      None ''REF-1'' 738500 None ''erp'' None {} None b' = Inr ((p, False), b')"
    by (rule record_outside_idempotent [OF r [unfolded sample_record_def] sample_fresh(1,2,4)])
  then have "record_invoice_paid_outside sample_ambient None None (sample_invoice\<lparr>inv_status := Paid\<rparr>)
      None ''REF-1'' 738500 None ''erp'' None {} None b' = Inr ((p, False), b')"
    by simp
  with r show ?thesis
    by blast
qed

end
