(* ===== verification/ExceptionProofs.thy ===== *)
theory ExceptionProofs
  imports ExceptionLifecycle RunBuilderProofs
begin

text \<open>
  The queue is a control on money: over every history of raised rows and decisions, a blocking
  row stops the payment of its invoice until someone entitled to clears it.
\<close>

section \<open>Histories of the queue\<close>

datatype queue_event =
    RowRaised uid
  | Decided (ev_row: uid) (ev_action: string) (ev_actor: "uid option") (ev_config: payment_config)
      (ev_invoices: "invoice list")

text \<open>A successful decision on a row of the table, the invoices as they are at that moment.\<close>

inductive queue_trace :: "exception_row list \<Rightarrow> queue_event list \<Rightarrow> exception_row list \<Rightarrow> bool" for rows0 where
  start: "queue_trace rows0 [] rows0"
| raised: "queue_trace rows0 es rows \<Longrightarrow> i \<notin> ex_id ` set rows \<Longrightarrow>
    create_exception i now t sev ''open'' inv_ref raiser dc ek fx = (e, fx') \<Longrightarrow>
    queue_trace rows0 (es @ [RowRaised i]) (rows @ [e])"
| decided: "queue_trace rows0 es rows \<Longrightarrow> e \<in> set rows \<Longrightarrow>
    record_decision fp ivs e act res a name None via c now fx = Inr (e', fx') \<Longrightarrow>
    queue_trace rows0 (es @ [Decided (ex_id e) act a c ivs]) (put_exception e' rows)"

text \<open>A clearing decision by someone the rule does not bar, if it is a person and enforced.\<close>

definition rightly_cleared :: "exception_row \<Rightarrow> uid \<Rightarrow> queue_event \<Rightarrow> bool" where
  "rightly_cleared e i ev = (\<exists>act a c ivs. ev = Decided (ex_id e) act a c ivs \<and> act \<in> {''resolve'', ''dismiss''}
     \<and> (\<forall>u. a = Some u \<and> exception_segregation_enabled c \<longrightarrow> ex_raised_by e \<noteq> Some u
          \<and> (\<forall>iv. List.find (\<lambda>iv. inv_id iv = i) ivs = Some iv \<longrightarrow> u \<notin> implicated_actors iv)))"

definition still_holds :: "exception_row \<Rightarrow> exception_row \<Rightarrow> bool" where
  "still_holds e0 e = (ex_id e = ex_id e0 \<and> ex_type e = ex_type e0 \<and> ex_invoice_id e = ex_invoice_id e0
     \<and> ex_raised_by e = ex_raised_by e0 \<and> ex_status e \<notin> {''resolved'', ''dismissed''})"

lemma put_exception_other: "x \<in> set rows \<Longrightarrow> ex_id x \<noteq> ex_id e \<Longrightarrow> x \<in> set (put_exception e rows)"
  by (force simp: put_exception_def)

lemma put_exception_self: "x \<in> set rows \<Longrightarrow> ex_id x = ex_id e \<Longrightarrow> e \<in> set (put_exception e rows)"
  by (force simp: put_exception_def)

lemma put_exception_ids: "map ex_id (put_exception e rows) = map ex_id rows"
  by (simp add: put_exception_def)

lemma decision_keeps:
  assumes "record_decision fp ivs e act res a name None via c now fx = Inr (e', fx')" and "still_holds e0 e"
    and "is_payment_blocking (ex_type e0)" and "ex_invoice_id e0 = Some i"
  shows "still_holds e0 e' \<or> rightly_cleared e0 i (Decided (ex_id e) act a c ivs)"
proof -
  from assms(1) obtain s where s: "resolution_status act = Some s" "ex_status e' = s"
    and same: "ex_id e' = ex_id e" "ex_type e' = ex_type e" "ex_invoice_id e' = ex_invoice_id e"
      "ex_raised_by e' = ex_raised_by e"
    and clear: "act \<in> clearing_actions \<longrightarrow> \<not> may_not_clear (e, decision_invoice ivs e None) a c"
    by (rule record_decision_InrE) blast
  show ?thesis
  proof (cases "act \<in> clearing_actions")
    case True
    with assms(2-4) clear have "rightly_cleared e0 i (Decided (ex_id e) act a c ivs)"
      by (auto simp: rightly_cleared_def clearing.violates_iff barred_def still_holds_def decision_invoice_def
          clearing_actions_def)
    then show ?thesis ..
  next
    case False
    with assms(2) s same show ?thesis
      using resolution_status_clears [OF s(1)] by (simp add: still_holds_def)
  qed
qed

lemma queue_trace_holds:
  assumes "queue_trace rows0 es rows" and "distinct (map ex_id rows0)" and "e0 \<in> set rows0"
    and "is_payment_blocking (ex_type e0)" and "ex_invoice_id e0 = Some i"
    and "ex_status e0 \<notin> {''resolved'', ''dismissed''}"
  shows "distinct (map ex_id rows) \<and>
    ((\<exists>ev\<in>set es. rightly_cleared e0 i ev) \<or> (\<exists>e\<in>set rows. still_holds e0 e))"
  using assms
proof (induction rule: queue_trace.induct)
  case start
  then show ?case
    by (auto simp: still_holds_def)
next
  case (raised es rows j now t sev inv_ref raiser dc ek fx e fx')
  then show ?case
    by (auto simp: create_exception_def Let_def image_iff)
next
  case (decided es rows e fp ivs act res a name via c now fx e' fx')
  have ids: "distinct (map ex_id rows)" and id: "ex_id e' = ex_id e"
    using decided.IH decided.prems decided.hyps(3) by (auto elim: record_decision_InrE)
  consider (cleared) ev where "ev \<in> set es" "rightly_cleared e0 i ev" | (open_row) x where "x \<in> set rows" "still_holds e0 x"
    using decided.IH decided.prems by auto
  then show ?case
  proof cases
    case cleared
    with ids show ?thesis by (auto simp: put_exception_ids)
  next
    case open_row
    show ?thesis
    proof (cases "x = e")
      case True
      have "still_holds e0 e' \<or> rightly_cleared e0 i (Decided (ex_id e) act a c ivs)"
        using decision_keeps [OF decided.hyps(3) _ decided.prems(3,4)] open_row(2) True by blast
      moreover have "e' \<in> set (put_exception e' rows)"
        using put_exception_self [OF decided.hyps(2)] id by simp
      ultimately show ?thesis
        using ids by (auto simp: put_exception_ids)
    next
      case False
      with ids open_row decided.hyps(2) have "ex_id x \<noteq> ex_id e"
        by (metis distinct_map inj_on_contraD)
      then have "x \<in> set (put_exception e' rows)"
        using put_exception_other [OF open_row(1)] id by simp
      with ids open_row(2) show ?thesis
        by (auto simp: put_exception_ids)
    qed
  qed
qed

text \<open>
  Property C22. Over every history of the queue, from the moment a payment-blocking exception is
  open on an invoice: either it was cleared by a resolve or a dismiss whose decider, where the
  rule is enforced, neither raised it nor shaped the invoice, or the invoice cannot be paid: the
  run builder and the queue refuse it, and a payment already staged is refused before its money
  moves.
\<close>

theorem blocking_exception_holds:
  assumes "queue_trace rows0 es rows" and "distinct (map ex_id rows0)" and "e0 \<in> set rows0"
    and "ex_type e0 \<in> set payment_blocking_exception_types" and "ex_invoice_id e0 = Some i"
    and "ex_status e0 \<notin> {''resolved'', ''dismissed''}" and "tb_exceptions tb = rows" and "inv_id iv = i"
  shows "(\<exists>ev\<in>set es. rightly_cleared e0 i ev)
    \<or> (run_refusal_reason tb iv m \<noteq> None \<and> (\<exists>reason. dispatch_preflight tb p iv d = Inr (Some reason)))"
proof -
  have "(\<exists>ev\<in>set es. rightly_cleared e0 i ev) \<or> (\<exists>e\<in>set rows. still_holds e0 e)"
    using queue_trace_holds [OF assms(1-3) _ assms(5,6)] assms(4) by (simp add: is_payment_blocking_def)
  then show ?thesis
  proof
    assume "\<exists>e\<in>set rows. still_holds e0 e"
    then obtain e where e: "e \<in> set rows" "still_holds e0 e"
      by blast
    have "blocking_exception_type payment_blocking_exception_types {} rows i \<noteq> None"
      using blocking_none [of payment_blocking_exception_types "{}" rows i e] e assms(4,5)
      by (auto simp: still_holds_def)
    then obtain t where "blocking_exception_type payment_blocking_exception_types {} rows i = Some t"
      by blast
    with assms(7,8) show ?thesis
      by (auto simp: run_refusal_reason_def dispatch_preflight_def Let_def)
  qed blast
qed

text \<open>A fraud flag the uploader may only escalate, and an unimplicated colleague resolves.\<close>

definition sample_flag :: exception_row where
  "sample_flag = fst (create_exception ''e-1'' 5 ''fraud_flag'' ''error'' ''open'' (Some ''inv-1'') None None None no_effects)"

definition escalated_flag :: exception_row where
  "escalated_flag = sample_flag\<lparr>ex_status := ''escalated'', ex_resolution := Some ''please look''\<rparr>"

lemma sample_flag_refused:
  "record_decision (\<lambda>_ _. []) [sample_invoice] sample_flag ''resolve'' ''fine'' (Some ''u-clerk'') ''Clerk'' None None None 9 no_effects
     = Inl (HttpError 403 ''segregation_implicated'')"
  by code_simp

lemma escalated_trace:
  "queue_trace [sample_flag] [Decided ''e-1'' ''escalate'' (Some ''u-clerk'') None [sample_invoice]] [escalated_flag]"
proof -
  obtain fx where "record_decision (\<lambda>_ _. []) [sample_invoice] sample_flag ''escalate'' ''please look''
      (Some ''u-clerk'') ''Clerk'' None None None 9 no_effects = Inr (escalated_flag, fx)"
  proof
    show "record_decision (\<lambda>_ _. []) [sample_invoice] sample_flag ''escalate'' ''please look''
      (Some ''u-clerk'') ''Clerk'' None None None 9 no_effects
      = Inr (escalated_flag, dispatch_audit \<lparr>au_action = ''exception.escalated'', au_actor = Some ''u-clerk'',
          au_entity = ''e-1'', au_details = decision_details sample_flag escalated_flag ''please look'' None\<rparr> no_effects)"
      by code_simp
  qed
  from queue_trace.decided [OF queue_trace.start _ this, of "[sample_flag]"] show ?thesis
    by (simp add: sample_flag_def create_exception_def put_exception_def escalated_flag_def Let_def)
qed

lemma blocking_exception_holds_witness:
  "run_refusal_reason (sample_tables\<lparr>tb_exceptions := [escalated_flag]\<rparr>) sample_invoice None \<noteq> None"
proof -
  have a: "distinct (map ex_id [sample_flag])" "sample_flag \<in> set [sample_flag]"
    "ex_type sample_flag \<in> set payment_blocking_exception_types" "ex_invoice_id sample_flag = Some ''inv-1''"
    "ex_status sample_flag \<notin> {''resolved'', ''dismissed''}"
    by (simp_all add: sample_flag_def create_exception_def Let_def payment_blocking_exception_types_def)
  have b: "tb_exceptions (sample_tables\<lparr>tb_exceptions := [escalated_flag]\<rparr>) = [escalated_flag]"
    "inv_id sample_invoice = ''inv-1''"
    by (simp_all add: sample_invoice_def)
  have "\<not> rightly_cleared sample_flag ''inv-1'' (Decided ''e-1'' ''escalate'' (Some ''u-clerk'') None [sample_invoice])"
    by (simp add: rightly_cleared_def)
  then show ?thesis
    using blocking_exception_holds [OF escalated_trace a b] by (simp only: list.set bex_simps) blast
qed

end
