(* ===== verification/PaymentOutcomeProofs.thy ===== *)
theory PaymentOutcomeProofs
  imports PaymentVoiding ExternalPaymentProofs ExceptionProofs
begin

text \<open>
  What the events of a sent payment can and cannot do to it: the processor's webhooks, the ERP
  sync, a void, an acceptance and a dismissal, one by one and in any order.
\<close>

section \<open>Histories of calls\<close>

text \<open>A call that raises leaves the state as it was.\<close>

inductive history :: "('c \<Rightarrow> 's \<Rightarrow> 'e + 's) \<Rightarrow> 's \<Rightarrow> 'c list \<Rightarrow> 's \<Rightarrow> bool" for step where
  start: "history step s [] s"
| took: "history step s (cs @ [c]) s''" if "history step s cs s'" and "step c s' = Inr s''"
| raised: "history step s (cs @ [c]) s'" if "history step s cs s'" and "step c s' = Inl e"

text \<open>
  A step whose effect is bounded by a preorder, on the states that satisfy a key constraint, which
  the preorder keeps.
\<close>

locale evolving_steps =
  fixes step :: "'c \<Rightarrow> 's \<Rightarrow> 'e + 's" and evolves :: "'s \<Rightarrow> 's \<Rightarrow> bool" and key :: "'s \<Rightarrow> bool"
  assumes refl: "evolves s s"
    and trans: "evolves s t \<Longrightarrow> evolves t u \<Longrightarrow> evolves s u"
    and keeps: "evolves s t \<Longrightarrow> key s \<Longrightarrow> key t"
    and moves: "step c s = Inr t \<Longrightarrow> key s \<Longrightarrow> evolves s t"
begin

lemma history_evolves: "history step s cs t \<Longrightarrow> key s \<Longrightarrow> evolves s t"
proof (induction rule: history.induct)
  case (start s)
  show ?case by (rule refl)
next
  case (took s cs s' c s'')
  then have "evolves s s'" by simp
  with took moves keeps trans show ?case by blast
qed simp

end

section \<open>Flags\<close>

lemma open_once_frame [frame]:
  "tb_payments (fst (open_once am t i r d k b)) = tb_payments (fst b)"
  "tb_invoices (fst (open_once am t i r d k b)) = tb_invoices (fst b)"
  "tb_offers (fst (open_once am t i r d k b)) = tb_offers (fst b)"
  "tb_cards (fst (open_once am t i r d k b)) = tb_cards (fst b)"
  "set (tb_exceptions (fst b)) \<subseteq> set (tb_exceptions (fst (open_once am t i r d k b)))"
  by (auto simp: open_once_def split: prod.splits)

lemma open_once_live: "live_of_type (tb_exceptions (fst (open_once am t i r d k b))) i t"
  by (auto simp: open_once_def live_of_type_def create_exception_def record_raised_def Let_def split: prod.splits)

lemma live_of_type_mono: "set es \<subseteq> set es' \<Longrightarrow> live_of_type es i t \<Longrightarrow> live_of_type es' i t"
  by (auto simp: live_of_type_def list_ex_iff)

text \<open>A live payment-blocking flag keeps the invoice out of every run.\<close>

lemma live_of_type_refuses:
  assumes "live_of_type (tb_exceptions tb) (inv_id iv) t" and "t \<in> set payment_blocking_exception_types"
  shows "run_refusal_reason tb iv m \<noteq> None"
proof -
  obtain e where e: "e \<in> set (tb_exceptions tb)" "ex_invoice_id e = Some (inv_id iv)" "ex_type e = t"
      "ex_status e \<in> {''open'', ''escalated''}"
    using assms(1) by (auto simp: live_of_type_def list_ex_iff)
  have "blocking_exception_type payment_blocking_exception_types {} (tb_exceptions tb) (inv_id iv) \<noteq> None"
  proof
    assume "blocking_exception_type payment_blocking_exception_types {} (tb_exceptions tb) (inv_id iv) = None"
    from blocking_none [OF this e(1,2)] e(3,4) assms(2) show False
      by auto
  qed
  then show ?thesis
    by (auto simp: run_refusal_reason_def Let_def)
qed

lemmas flag_defs = flag_sync_failure_def flag_invoice_for_bank_change_def flag_payment_for_reconciliation_def
  flag_if_dispatch_in_doubt_def flag_void_of_erp_reported_payment_def reflag_voided_invoice_for_bank_change_def
  open_settlement_mismatch_exception_def

lemma flags_frame [frame]:
  "tb_payments (fst (flag_sync_failure am i b)) = tb_payments (fst b)"
  "tb_invoices (fst (flag_sync_failure am i b)) = tb_invoices (fst b)"
  "tb_payments (fst (flag_if_dispatch_in_doubt am p b)) = tb_payments (fst b)"
  "tb_invoices (fst (flag_if_dispatch_in_doubt am p b)) = tb_invoices (fst b)"
  "tb_payments (fst (flag_void_of_erp_reported_payment am r iv p b)) = tb_payments (fst b)"
  "tb_invoices (fst (flag_void_of_erp_reported_payment am r iv p b)) = tb_invoices (fst b)"
  "tb_offers (fst (flag_void_of_erp_reported_payment am r iv p b)) = tb_offers (fst b)"
  "tb_cards (fst (flag_void_of_erp_reported_payment am r iv p b)) = tb_cards (fst b)"
  "set (tb_exceptions (fst b)) \<subseteq> set (tb_exceptions (fst (flag_void_of_erp_reported_payment am r iv p b)))"
  "tb_payments (fst (reflag_voided_invoice_for_bank_change am cs iv s b)) = tb_payments (fst b)"
  "tb_invoices (fst (reflag_voided_invoice_for_bank_change am cs iv s b)) = tb_invoices (fst b)"
  "tb_offers (fst (reflag_voided_invoice_for_bank_change am cs iv s b)) = tb_offers (fst b)"
  "tb_cards (fst (reflag_voided_invoice_for_bank_change am cs iv s b)) = tb_cards (fst b)"
  "set (tb_exceptions (fst b)) \<subseteq> set (tb_exceptions (fst (reflag_voided_invoice_for_bank_change am cs iv s b)))"
  "tb_payments (fst (open_settlement_mismatch_exception am iv' b)) = tb_payments (fst b)"
  "tb_invoices (fst (open_settlement_mismatch_exception am iv' b)) = tb_invoices (fst b)"
  "tb_offers (fst (open_settlement_mismatch_exception am iv' b)) = tb_offers (fst b)"
  by (simp_all add: flag_defs frame Let_def split: option.split list.split)

lemma recompute_parent_frame [frame]:
  "tb_payments (fst (recompute_parent_run_status p b)) = tb_payments (fst b)"
  "tb_invoices (fst (recompute_parent_run_status p b)) = tb_invoices (fst b)"
  "tb_offers (fst (recompute_parent_run_status p b)) = tb_offers (fst b)"
  "tb_cards (fst (recompute_parent_run_status p b)) = tb_cards (fst b)"
  "tb_exceptions (fst (recompute_parent_run_status p b)) = tb_exceptions (fst b)"
  by (simp_all add: recompute_parent_run_status_def put_run_def split: option.split)

lemma put_payment_simps [simp]:
  "tb_payments (put_payment p tb) = map (\<lambda>q. if py_id q = py_id p then p else q) (tb_payments tb)"
  "tb_invoices (put_payment p tb) = tb_invoices tb" "tb_exceptions (put_payment p tb) = tb_exceptions tb"
  "tb_offers (put_payment p tb) = tb_offers tb" "tb_cards (put_payment p tb) = tb_cards tb"
  by (simp_all add: put_payment_def)

lemma put_invoice_simps [simp]:
  "tb_invoices (put_invoice iv tb) = map (\<lambda>x. if inv_id x = inv_id iv then iv else x) (tb_invoices tb)"
  "tb_payments (put_invoice iv tb) = tb_payments tb" "tb_exceptions (put_invoice iv tb) = tb_exceptions tb"
  "tb_offers (put_invoice iv tb) = tb_offers tb" "tb_cards (put_invoice iv tb) = tb_cards tb"
  by (simp_all add: put_invoice_def)

lemma find_SomeD: "List.find P xs = Some x \<Longrightarrow> x \<in> set xs \<and> P x"
  by (induction xs) (auto split: if_splits)

lemma find_distinct: "x \<in> set xs \<Longrightarrow> distinct (map f xs) \<Longrightarrow> List.find (\<lambda>y. f y = f x) xs = Some x"
  by (induction xs) (auto simp: image_iff)

lemma find_invoiceD: "find_invoice tb i = Some iv \<Longrightarrow> iv \<in> set (tb_invoices tb) \<and> inv_id iv = i"
  by (auto simp: find_invoice_def dest: find_SomeD)

section \<open>How a payment's row may change\<close>

definition pay_key :: "payment \<Rightarrow> (uid \<times> uid \<times> uid option) \<times> (rat \<times> string option) \<times> rat option \<times> string option" where
  "pay_key p = ((py_id p, py_invoice_id p, py_run_id p), (py_amount p, py_method p), py_source_amount p, py_source_currency p)"

definition settled_key :: "payment \<Rightarrow> rat option \<times> string option \<times> bool" where
  "settled_key p = (py_settled_amount p, py_settled_currency p, py_settled_unstorable p)"

definition gone :: "payment \<Rightarrow> bool" where
  "gone p = (py_status p \<in> {''failed'', ''cancelled'', ''voided''})"

definition settled :: "payment \<Rightarrow> bool" where
  "settled p = (py_status p = ''completed'')"

definition pay_evolves :: "payment \<Rightarrow> payment \<Rightarrow> bool" where
  "pay_evolves p q \<longleftrightarrow> pay_key q = pay_key p \<and> (gone p \<longrightarrow> q = p)
     \<and> (settled p \<longrightarrow> (settled q \<or> py_status q = ''voided'') \<and> settled_key q = settled_key p
          \<and> (py_completed_at p \<noteq> None \<longrightarrow> py_completed_at q = py_completed_at p))
     \<and> (py_status p = ''pending_compliance'' \<longrightarrow> q = p \<or> py_status q = ''failed'')"

lemma pay_key_simps:
  "pay_key q = pay_key p \<longleftrightarrow> py_id q = py_id p \<and> py_invoice_id q = py_invoice_id p \<and> py_run_id q = py_run_id p
     \<and> py_amount q = py_amount p \<and> py_method q = py_method p \<and> py_source_amount q = py_source_amount p
     \<and> py_source_currency q = py_source_currency p"
  by (auto simp: pay_key_def)

lemma pay_evolves_refl [simp]: "pay_evolves p p"
  by (simp add: pay_evolves_def)

lemma gone_statuses: "py_status p = ''voided'' \<Longrightarrow> gone p" "py_status p = ''failed'' \<Longrightarrow> gone p"
  by (simp_all add: gone_def)

lemma pay_evolves_trans: "pay_evolves p q \<Longrightarrow> pay_evolves q r \<Longrightarrow> pay_evolves p r"
  unfolding pay_evolves_def using gone_statuses [of q] by metis

lemma is_live_iff: "is_live p \<longleftrightarrow> \<not> gone p"
  by (auto simp: is_live_def gone_def live_payment_terminal_statuses_def)

lemma pay_evolves_live: "pay_evolves p q \<Longrightarrow> is_live q \<Longrightarrow> is_live p"
  by (metis pay_evolves_def is_live_iff)

lemma in_flightD: "in_flight p \<Longrightarrow> \<not> gone p \<and> \<not> settled p \<and> py_status p \<noteq> ''pending_compliance''"
  by (auto simp: in_flight_def gone_def settled_def)

definition invoice_evolves :: "invoice \<Rightarrow> invoice \<Rightarrow> bool" where
  "invoice_evolves x y \<longleftrightarrow> y = x\<lparr>inv_status := inv_status y\<rparr>
     \<and> (inv_status y = inv_status x \<or> (inv_status x = PaymentScheduled \<and> inv_status y \<in> {Paid, Approved})
        \<or> (inv_status x = Paid \<and> inv_status y = Approved))"

lemma invoice_evolves_refl [simp]: "invoice_evolves x x"
  by (simp add: invoice_evolves_def)

lemma invoice_evolves_trans:
  assumes "invoice_evolves x y" and "invoice_evolves y z" shows "invoice_evolves x z"
proof -
  have "z = (x\<lparr>inv_status := inv_status y\<rparr>)\<lparr>inv_status := inv_status z\<rparr>"
    using assms unfolding invoice_evolves_def by metis
  with assms show ?thesis
    by (auto simp: invoice_evolves_def)
qed

definition books_evolve :: "books \<Rightarrow> books \<Rightarrow> bool" where
  "books_evolve b b' \<longleftrightarrow> list_all2 pay_evolves (tb_payments (fst b)) (tb_payments (fst b'))
     \<and> list_all2 invoice_evolves (tb_invoices (fst b)) (tb_invoices (fst b'))"

lemma books_evolve_refl [simp]: "books_evolve b b"
  by (simp add: books_evolve_def list_all2_refl)

lemma books_evolve_trans: "books_evolve a b \<Longrightarrow> books_evolve b c \<Longrightarrow> books_evolve a c"
  unfolding books_evolve_def
  using list_all2_trans [of pay_evolves pay_evolves pay_evolves] list_all2_trans [of invoice_evolves invoice_evolves invoice_evolves]
    pay_evolves_trans invoice_evolves_trans by metis

lemma books_evolve_same: "tb_payments (fst b') = tb_payments (fst b) \<Longrightarrow> tb_invoices (fst b') = tb_invoices (fst b) \<Longrightarrow> books_evolve b b'"
  by (simp add: books_evolve_def list_all2_refl)

lemma books_evolve_ids:
  "books_evolve b b' \<Longrightarrow> map py_id (tb_payments (fst b')) = map py_id (tb_payments (fst b))
     \<and> map inv_id (tb_invoices (fst b')) = map inv_id (tb_invoices (fst b))"
proof -
  have "list_all2 pay_evolves ps qs \<Longrightarrow> map py_id qs = map py_id ps" for ps qs
    by (induction rule: list_all2_induct) (auto simp: pay_evolves_def pay_key_simps)
  moreover have "list_all2 invoice_evolves xs ys \<Longrightarrow> map inv_id ys = map inv_id xs" for xs ys
  proof (induction rule: list_all2_induct)
    case (Cons x xs y ys)
    then have "y = x\<lparr>inv_status := inv_status y\<rparr>"
      by (simp add: invoice_evolves_def)
    then have "inv_id y = inv_id x"
      by (metis invoice.select_convs(1) invoice.surjective invoice.update_convs(2))
    with Cons show ?case by simp
  qed simp
  ultimately show "books_evolve b b' \<Longrightarrow> map py_id (tb_payments (fst b')) = map py_id (tb_payments (fst b))
     \<and> map inv_id (tb_invoices (fst b')) = map inv_id (tb_invoices (fst b))"
    by (simp add: books_evolve_def)
qed

text \<open>One row replaced by a later state of itself.\<close>

lemma put_evolves:
  assumes "x \<in> set xs" and "distinct (map f xs)" and "f y = f x" and "R x y" and "\<And>z. R z z"
  shows "list_all2 R xs (map (\<lambda>z. if f z = f y then y else z) xs)"
  using assms(1-4)
proof (induction xs)
  case (Cons z zs)
  have rest: "list_all2 R zs (map (\<lambda>z. z) zs)"
    by (simp add: list_all2_refl assms(5))
  show ?case
  proof (cases "f z = f x")
    case True
    moreover have "z = x"
      using Cons.prems True by (auto simp: image_iff)
    moreover have "map (\<lambda>z. if f z = f y then y else z) zs = zs"
      using Cons.prems(2,3) True by (intro map_idI) (auto simp: image_iff)
    ultimately show ?thesis
      using Cons.prems(3,4) rest by auto
  next
    case False
    with Cons show ?thesis
      by (auto simp: assms(5))
  qed
qed simp

lemma put_payment_evolves:
  assumes "p \<in> set (tb_payments tb)" and "distinct (map py_id (tb_payments tb))" and "pay_evolves p q"
    and "tb_payments (fst b') = tb_payments (put_payment q tb)" and "tb_invoices (fst b') = tb_invoices tb"
  shows "books_evolve (tb, fx) b'"
  using put_evolves [of p "tb_payments tb" py_id q pay_evolves] assms
  by (simp add: books_evolve_def list_all2_refl pay_evolves_def pay_key_simps)

lemma put_invoice_evolves:
  assumes "iv \<in> set (tb_invoices tb)" and "distinct (map inv_id (tb_invoices tb))"
    and "invoice_evolves iv (iv\<lparr>inv_status := s\<rparr>)"
    and "tb_invoices (fst b') = tb_invoices (put_invoice (iv\<lparr>inv_status := s\<rparr>) tb)" and "tb_payments (fst b') = tb_payments tb"
  shows "books_evolve (tb, fx) b'"
  using put_evolves [of iv "tb_invoices tb" inv_id "iv\<lparr>inv_status := s\<rparr>" invoice_evolves] assms
  by (simp add: books_evolve_def list_all2_refl)

section \<open>The events, one by one\<close>

definition keyed :: "books \<Rightarrow> bool" where
  "keyed b \<longleftrightarrow> distinct (map py_id (tb_payments (fst b))) \<and> distinct (map inv_id (tb_invoices (fst b)))"

lemma keyed_evolves: "books_evolve b b' \<Longrightarrow> keyed b \<Longrightarrow> keyed b'"
  using books_evolve_ids [of b b'] by (simp add: keyed_def)

lemma apply_event_evolves:
  "in_flight p \<Longrightarrow> pay_evolves p (apply_event now ev p)"
  using in_flightD [of p] by (simp add: pay_evolves_def pay_key_simps apply_event_def Let_def)

lemma store_settlement_keeps [simp]:
  "py_id (store_settlement v p) = py_id p" "py_invoice_id (store_settlement v p) = py_invoice_id p"
  "py_run_id (store_settlement v p) = py_run_id p" "py_amount (store_settlement v p) = py_amount p"
  "py_method (store_settlement v p) = py_method p" "py_source_amount (store_settlement v p) = py_source_amount p"
  "py_source_currency (store_settlement v p) = py_source_currency p" "py_status (store_settlement v p) = py_status p"
  "py_completed_at (store_settlement v p) = py_completed_at p"
  by (auto simp: store_settlement_def Let_def split: prod.splits)

lemma store_settlement_evolves: "in_flight p \<Longrightarrow> pay_evolves p q \<Longrightarrow> pay_evolves p (store_settlement v q)"
  using in_flightD [of p] by (simp add: pay_evolves_def pay_key_simps)

lemma record_completion_InrD:
  assumes "record_completion p iv fetched r c = Inr (p2, sc)"
  shows "p2 = store_settlement (sc_verification sc) p"
    and "(case with_fetched p fetched r c of (r, c) \<Rightarrow>
           verify_settlement r c (py_amount p) (case iv of None \<Rightarrow> None | Some i \<Rightarrow> currency i)
             (py_source_amount p) (py_source_currency p)) = Inr (sc_verification sc)"
  using assms by (auto simp: record_completion_def record_settlement_def Let_def bind_res_Inr_iff split: prod.splits)

text \<open>The books after an event: one payment's row, perhaps a flag, perhaps a captured offer.\<close>

lemma settle_event_cases:
  assumes "settle_event am ev fetched p b = Inr b'"
  obtains (other) "we_status ev \<noteq> ProcCompleted"
      and "tb_payments (fst b') = tb_payments (put_payment (apply_event (am_now am) ev p) (fst b))"
      and "tb_invoices (fst b') = tb_invoices (fst b)" and "tb_exceptions (fst b') = tb_exceptions (fst b)"
  | (settled) v where "we_status ev = ProcCompleted"
      and "(case with_fetched p fetched (we_amount ev) (we_currency ev) of (r, c) \<Rightarrow>
           verify_settlement r c (py_amount p) (case find_invoice (fst b) (py_invoice_id p) of None \<Rightarrow> None | Some i \<Rightarrow> currency i)
             (py_source_amount p) (py_source_currency p)) = Inr v"
      and "tb_payments (fst b') = tb_payments (put_payment (store_settlement v (apply_event (am_now am) ev p)) (fst b))"
      and "tb_invoices (fst b') = tb_invoices (fst b)"
      and "is_discrepancy (sv_outcome v) \<Longrightarrow> tb_offers (fst b') = tb_offers (fst b)
             \<and> tb_exceptions (fst b') = tb_exceptions (fst (open_settlement_mismatch_exception am (find_invoice (fst b) (py_invoice_id p)) b))"
      and "\<not> is_discrepancy (sv_outcome v) \<Longrightarrow> tb_exceptions (fst b') = tb_exceptions (fst b)"
proof (cases "we_status ev = ProcCompleted")
  case False
  with assms show thesis
    by (intro that(1)) (auto simp: settle_event_def Let_def)
next
  case True
  let ?p1 = "apply_event (am_now am) ev p" and ?iv = "find_invoice (fst b) (py_invoice_id p)"
  have "py_provider_payment_id ?p1 = py_provider_payment_id p"
    by (simp add: apply_event_def Let_def)
  then have wf: "with_fetched ?p1 fetched r c = with_fetched p fetched r c" for r c
    by (simp only: with_fetched_def)
  have keep: "py_amount ?p1 = py_amount p" "py_source_amount ?p1 = py_source_amount p" "py_source_currency ?p1 = py_source_currency p"
    by (simp_all add: apply_event_def Let_def)
  obtain p2 sc where rc: "record_completion ?p1 ?iv fetched (we_amount ev) (we_currency ev) = Inr (p2, sc)"
    using assms True by (auto simp: settle_event_def Let_def bind_res_Inr_iff)
  note d = record_completion_InrD [OF rc, unfolded wf keep]
  define fx where "fx = dispatch_audit
                \<lparr>au_action = ''payment.'' @ py_status p2, au_actor = None, au_entity = py_id p2,
                 au_details = [(''status'', PStr (py_status p2)), (''previous_status'', PStr (py_status p)),
                   (''source'', PStr ''webhook'')] @ completion_details (Some sc)\<rparr> (snd b)"
  let ?b1 = "(put_payment p2 (fst b), fx)"
  have b': "b' = (if is_discrepancy (sv_outcome (sc_verification sc)) then open_settlement_mismatch_exception am ?iv ?b1
      else case ?iv of None \<Rightarrow> ?b1 | Some i \<Rightarrow> capture_discount_offers p2 (currency i)
        (case py_completed_at p2 of None \<Rightarrow> am_now am | Some t \<Rightarrow> t) None ?b1)"
    using assms True rc by (cases ?iv) (auto simp: settle_event_def Let_def fx_def)
  have "tb_exceptions (fst (open_settlement_mismatch_exception am ?iv ?b1))
      = tb_exceptions (fst (open_settlement_mismatch_exception am ?iv b))"
    by (auto simp: open_settlement_mismatch_exception_def open_once_def create_exception_def Let_def split: option.split prod.splits)
  with True d b' show thesis
    by (intro that(2) [of "sc_verification sc"]) (auto simp: frame split: option.splits)
qed

lemma webhook_cases:
  assumes "payment_webhook am ev fetched b = Inr (b', run)"
  obtains (ignored) "b' = b"
  | (applied) p where "filter (\<lambda>p. py_provider_payment_id p = Some (we_provider_payment_id ev)) (tb_payments (fst b)) = [p]"
      and "in_flight p" and "p \<in> set (tb_payments (fst b))" and "settle_event am ev fetched p b = Inr b'"
proof (cases "filter (\<lambda>p. py_provider_payment_id p = Some (we_provider_payment_id ev)) (tb_payments (fst b))")
  case Nil
  with assms that(1) show thesis
    by (simp add: payment_webhook_def)
next
  case (Cons p ps)
  then have p: "p \<in> set (tb_payments (fst b))"
    by (metis filter_is_subset in_mono list.set_intros(1))
  show thesis
  proof (cases "ps = [] \<and> in_flight p")
    case True
    with assms Cons p show thesis
      by (intro that(2)) (auto simp: payment_webhook_def bind_res_Inr_iff)
  next
    case False
    with assms Cons show thesis
      by (intro that(1)) (auto simp: payment_webhook_def split: list.splits if_splits)
  qed
qed

lemma webhook_evolves:
  assumes "payment_webhook am ev fetched b = Inr (b', run)" and "keyed b"
  shows "books_evolve b b'"
  using assms(1)
proof (cases rule: webhook_cases)
  case (applied p)
  note ev = apply_event_evolves [OF applied(2), of "am_now am" ev]
  from applied(4) show ?thesis
  proof (cases rule: settle_event_cases)
    case other
    then show ?thesis
      using put_payment_evolves [OF applied(3) _ ev, of b' "snd b"] assms(2) by (simp add: keyed_def)
  next
    case (settled v)
    then show ?thesis
      using put_payment_evolves [OF applied(3) _ store_settlement_evolves [OF applied(2) ev], of b' v "snd b"] assms(2)
      by (simp add: keyed_def)
  qed
qed simp

lemma sync_transition_cases:
  assumes "sync_transition am p b = Inr ((k, moved), b')"
  obtains (unmoved) "\<not> moved" and "b' = b"
  | (moved) iv c where "moved" and "k = LegSynced" and "find_invoice (fst b) (py_invoice_id p) = Some iv"
      and "inv_status iv = PaymentScheduled" and "payment_settlement_coverage p (Some iv) = Inr c" and "completes_invoice c"
      and "fst b' = put_invoice (iv\<lparr>inv_status := Paid\<rparr>) (fst b)"
proof (cases "moved")
  case False
  with assms show thesis
    by (intro that(1)) (auto simp: sync_transition_def bind_res_Inr_iff split: option.splits if_splits prod.splits)
next
  case True
  then obtain iv c iv1 fx where k: "find_invoice (fst b) (py_invoice_id p) = Some iv" "inv_status iv = PaymentScheduled"
      "payment_settlement_coverage p (Some iv) = Inr c" "completes_invoice c" "k = LegSynced" "fst b' = put_invoice iv1 (fst b)"
    and t: "transition_invoice (am_new_id am (''synced:'' @ py_id p)) (am_ap_managers am) None
       ''invoice.paid_via_erp_sync'' [(''payment_id'', PStr (py_id p))] Paid iv (snd b) = Inr (iv1, fx)"
    using assms by (auto simp: sync_transition_def bind_res_Inr_iff split: option.splits if_splits)
  from t have "iv1 = iv\<lparr>inv_status := Paid\<rparr>"
    by (rule transition_invoice_InrE)
  with k True that(2) show thesis
    by blast
qed

lemma invoice_evolves_status:
  "inv_status iv = PaymentScheduled \<Longrightarrow> invoice_evolves iv (iv\<lparr>inv_status := Paid\<rparr>)"
  "inv_status iv \<in> {PaymentScheduled, Paid} \<Longrightarrow> invoice_evolves iv (iv\<lparr>inv_status := Approved\<rparr>)"
  by (auto simp: invoice_evolves_def)

lemma sync_transition_evolves:
  assumes "sync_transition am p b = Inr ((k, moved), b')" and "keyed b"
  shows "books_evolve b b'"
  using assms(1)
proof (cases rule: sync_transition_cases)
  case (moved iv c)
  then show ?thesis
    using put_invoice_evolves [of iv "fst b" Paid b' "snd b"] find_invoiceD [of "fst b" "py_invoice_id p" iv]
      invoice_evolves_status(1) [of iv] assms(2)
    by (simp add: keyed_def)
qed simp

lemma sync_one_leg_evolves:
  assumes "sync_one_leg am erp i b = (o1, b')" and "keyed b"
  shows "books_evolve b b'"
proof -
  have flag: "books_evolve c (flag_sync_failure am i c)" for c
    by (rule books_evolve_same) (simp_all add: frame)
  consider "b' = b" | "b' = flag_sync_failure am i b"
    | p k moved b1 where "sync_transition am p b = Inr ((k, moved), b1)" and "b' = b1 \<or> b' = flag_sync_failure am i b1"
    using assms(1) by (auto simp: sync_one_leg_def split: option.splits if_splits sum.splits prod.splits)
  then show ?thesis
  proof cases
    case 3
    then show ?thesis
      using sync_transition_evolves [OF 3(1) assms(2)] flag [of b1] books_evolve_trans by blast
  qed (simp_all add: flag)
qed

lemma sync_legs_evolve: "sync_legs am erp is r b = (r', b') \<Longrightarrow> keyed b \<Longrightarrow> books_evolve b b'"
proof (induction "is" arbitrary: r b)
  case (Cons i "is")
  obtain o1 b1 where leg: "sync_one_leg am (erp i) i b = (o1, b1)"
    by (cases "sync_one_leg am (erp i) i b")
  note e = sync_one_leg_evolves [OF leg Cons.prems(2)]
  have "sync_legs am erp is (count_leg o1 r) b1 = (r', b')"
    using Cons.prems(1) leg by simp
  from Cons.IH [OF this keyed_evolves [OF e Cons.prems(2)]] e show ?case
    using books_evolve_trans by blast
qed simp

section \<open>A void\<close>

lemma cancel_card_frame [frame]:
  "tb_payments (fst (snd (cancel_card_for_void answer p u via b))) = tb_payments (fst b)"
  "tb_invoices (fst (snd (cancel_card_for_void answer p u via b))) = tb_invoices (fst b)"
  "tb_exceptions (fst (snd (cancel_card_for_void answer p u via b))) = tb_exceptions (fst b)"
  "tb_offers (fst (snd (cancel_card_for_void answer p u via b))) = tb_offers (fst b)"
  by (auto simp: cancel_card_for_void_def put_card_def split: option.split)

lemma voided_simps [simp]:
  "py_id (voided am vc p) = py_id p" "py_invoice_id (voided am vc p) = py_invoice_id p" "py_status (voided am vc p) = ''voided''"
  "py_run_id (voided am vc p) = py_run_id p" "py_provider (voided am vc p) = py_provider p" "py_reference (voided am vc p) = py_reference p"
  by (simp_all add: voided_def)

text \<open>What is open to a void, and the row it leaves.\<close>

lemma void_refusal_None:
  assumes "payment_void_refusal p = None"
  shows "py_status p \<in> {''submitted'', ''processing'', ''completed''} \<or> (py_status p = ''pending'' \<and> py_run_id p = None)"
  using assms by (auto simp: payment_void_refusal_def refuse_def voidable_payment_statuses_def split: if_splits)

lemma voided_evolves:
  assumes "payment_void_refusal p = None"
  shows "pay_evolves p (voided am vc p)"
proof -
  have "\<not> gone p" "py_status p \<noteq> ''pending_compliance''"
    using void_refusal_None [OF assms] by (auto simp: gone_def)
  then show ?thesis
    by (simp add: pay_evolves_def pay_key_simps settled_key_def voided_def)
qed

lemma reopen_invoice_InrD:
  assumes "reopen_invoice am cs t u r p iv b = Inr b'"
  shows "tb_payments (fst b') = tb_payments (fst b)" and "tb_offers (fst b') = tb_offers (fst b)"
    and "tb_cards (fst b') = tb_cards (fst b)" and "set (tb_exceptions (fst b)) \<subseteq> set (tb_exceptions (fst b'))"
    and "tb_invoices (fst b') = (case iv of None \<Rightarrow> tb_invoices (fst b) | Some i \<Rightarrow>
           if inv_status i \<in> {PaymentScheduled, Paid}
           then tb_invoices (put_invoice (i\<lparr>inv_status := Approved\<rparr>) (fst b)) else tb_invoices (fst b))"
    and "\<And>i. iv = Some i \<Longrightarrow> inv_status i \<in> {PaymentScheduled, Paid} \<Longrightarrow>
           (\<exists>c. b' = reflag_voided_invoice_for_bank_change am cs (i\<lparr>inv_status := Approved\<rparr>) t c)"
proof -
  consider "b' = b" and "iv = None \<or> (\<exists>i. iv = Some i \<and> inv_status i \<notin> {PaymentScheduled, Paid})"
    | i fx where "iv = Some i" and "inv_status i \<in> {PaymentScheduled, Paid}"
      and "b' = reflag_voided_invoice_for_bank_change am cs (i\<lparr>inv_status := Approved\<rparr>) t
             (put_invoice (i\<lparr>inv_status := Approved\<rparr>) (fst b), fx)"
  proof (cases "\<exists>i. iv = Some i \<and> inv_status i \<in> {PaymentScheduled, Paid}")
    case True
    then obtain i where i: "iv = Some i" "inv_status i \<in> {PaymentScheduled, Paid}"
      by blast
    with assms obtain i1 fx where
      "transition_invoice (am_new_id am (''voided:'' @ py_id p)) (am_ap_managers am) (Some u)
         ''invoice.voided_return_to_approved'' [(''void_reason'', PStr r), (''payment_id'', PStr (py_id p))] Approved i (snd b) = Inr (i1, fx)"
      and "b' = reflag_voided_invoice_for_bank_change am cs i1 t (put_invoice i1 (fst b), fx)"
      by (auto simp: reopen_invoice_def bind_res_Inr_iff)
    with i that(2) show thesis
      by (metis transition_invoice_InrE)
  next
    case False
    with assms that(1) show thesis
      by (cases iv) (auto simp: reopen_invoice_def)
  qed
  note c = this
  show "tb_payments (fst b') = tb_payments (fst b)" "tb_offers (fst b') = tb_offers (fst b)" "tb_cards (fst b') = tb_cards (fst b)"
    by (cases rule: c; simp add: frame)+
  show "set (tb_exceptions (fst b)) \<subseteq> set (tb_exceptions (fst b'))"
  proof (cases rule: c)
    case (2 i fx)
    then show ?thesis
      using flags_frame(14) [of "(put_invoice (i\<lparr>inv_status := Approved\<rparr>) (fst b), fx)"] by simp
  qed simp
  show "tb_invoices (fst b') = (case iv of None \<Rightarrow> tb_invoices (fst b) | Some i \<Rightarrow>
           if inv_status i \<in> {PaymentScheduled, Paid}
           then tb_invoices (put_invoice (i\<lparr>inv_status := Approved\<rparr>) (fst b)) else tb_invoices (fst b))"
    by (cases rule: c) (auto simp: frame)
  show "\<And>i. iv = Some i \<Longrightarrow> inv_status i \<in> {PaymentScheduled, Paid} \<Longrightarrow>
           (\<exists>c. b' = reflag_voided_invoice_for_bank_change am cs (i\<lparr>inv_status := Approved\<rparr>) t c)"
    by (cases rule: c) auto
qed

lemma reverse_captures_InrD:
  assumes "reverse_captures u p s iv b = Inr b'"
  shows "tb_payments (fst b') = tb_payments (fst b)" and "tb_invoices (fst b') = tb_invoices (fst b)"
    and "tb_cards (fst b') = tb_cards (fst b)" and "tb_exceptions (fst b') = tb_exceptions (fst b)"
  using assms by (auto simp: reverse_captures_def bind_res_Inr_iff split: option.splits)

text \<open>A void step by step.\<close>

lemma void_payment_InrE:
  assumes "void_payment am vc p b = Inr (out, b')"
  obtains b1 b3 b4 fx where "payment_void_refusal p = None"
    and "cancel_card_for_void (vo_card_answer vc) p (vo_user vc) ''payment_void'' b = (out, b1)"
    and "reopen_invoice am (vo_bank_changes vc) (vo_created_at vc) (vo_user vc) (vo_reason vc) (voided am vc p)
           (find_invoice (fst b) (py_invoice_id p)) (put_payment (voided am vc p) (fst b1), snd b1) = Inr b3"
    and "reverse_captures (vo_user vc) (voided am vc p) (py_status p) (find_invoice (fst b) (py_invoice_id p)) b3 = Inr b4"
    and "b' = (let b6 = recompute_parent_run_status (voided am vc p) (fst b4, fx)
           in case find_invoice (fst b) (py_invoice_id p) of None \<Rightarrow> b6
              | Some i \<Rightarrow> if py_status p = ''completed''
                  then flag_void_of_erp_reported_payment am (vo_erp_reference vc) i (voided am vc p) b6 else b6)"
proof -
  have ok: "payment_void_refusal p = None"
    using assms by (auto simp: void_payment_def raise_refusal_def split: option.splits)
  obtain o1 b1 where c: "cancel_card_for_void (vo_card_answer vc) p (vo_user vc) ''payment_void'' b = (o1, b1)"
    by (cases "cancel_card_for_void (vo_card_answer vc) p (vo_user vc) ''payment_void'' b")
  obtain b3 where b3: "reopen_invoice am (vo_bank_changes vc) (vo_created_at vc) (vo_user vc) (vo_reason vc) (voided am vc p)
           (find_invoice (fst b) (py_invoice_id p)) (put_payment (voided am vc p) (fst b1), snd b1) = Inr b3"
    using assms ok c by (auto simp: void_payment_def raise_refusal_def Let_def bind_res_Inr_iff)
  obtain b4 where b4: "reverse_captures (vo_user vc) (voided am vc p) (py_status p) (find_invoice (fst b) (py_invoice_id p)) b3 = Inr b4"
    using assms ok c b3 by (auto simp: void_payment_def raise_refusal_def Let_def bind_res_Inr_iff)
  have "o1 = out" and "\<exists>fx. b' = (let b6 = recompute_parent_run_status (voided am vc p) (fst b4, fx)
           in case find_invoice (fst b) (py_invoice_id p) of None \<Rightarrow> b6
              | Some i \<Rightarrow> if py_status p = ''completed''
                  then flag_void_of_erp_reported_payment am (vo_erp_reference vc) i (voided am vc p) b6 else b6)"
    using assms ok c b3 b4 by (auto simp: void_payment_def raise_refusal_def Let_def)
  with ok c b3 b4 that show thesis
    by blast
qed

lemma void_payment_books:
  assumes "void_payment am vc p b = Inr (out, b')"
  shows "tb_payments (fst b') = tb_payments (put_payment (voided am vc p) (fst b))"
    and "tb_invoices (fst b') = (case find_invoice (fst b) (py_invoice_id p) of None \<Rightarrow> tb_invoices (fst b) | Some i \<Rightarrow>
           if inv_status i \<in> {PaymentScheduled, Paid}
           then tb_invoices (put_invoice (i\<lparr>inv_status := Approved\<rparr>) (fst b)) else tb_invoices (fst b))"
    and "tb_cards (fst b') = tb_cards (fst (snd (cancel_card_for_void (vo_card_answer vc) p (vo_user vc) ''payment_void'' b)))"
proof -
  obtain b1 b3 b4 fx where v: "cancel_card_for_void (vo_card_answer vc) p (vo_user vc) ''payment_void'' b = (out, b1)"
    "reopen_invoice am (vo_bank_changes vc) (vo_created_at vc) (vo_user vc) (vo_reason vc) (voided am vc p)
           (find_invoice (fst b) (py_invoice_id p)) (put_payment (voided am vc p) (fst b1), snd b1) = Inr b3"
    "reverse_captures (vo_user vc) (voided am vc p) (py_status p) (find_invoice (fst b) (py_invoice_id p)) b3 = Inr b4"
    "b' = (let b6 = recompute_parent_run_status (voided am vc p) (fst b4, fx)
           in case find_invoice (fst b) (py_invoice_id p) of None \<Rightarrow> b6
              | Some i \<Rightarrow> if py_status p = ''completed''
                  then flag_void_of_erp_reported_payment am (vo_erp_reference vc) i (voided am vc p) b6 else b6)"
    using assms by (rule void_payment_InrE)
  have b1: "b1 = snd (cancel_card_for_void (vo_card_answer vc) p (vo_user vc) ''payment_void'' b)"
    using v(1) by simp
  note d = reopen_invoice_InrD [OF v(2)] reverse_captures_InrD [OF v(3)]
  have b': "tb_payments (fst b') = tb_payments (fst b4)" "tb_invoices (fst b') = tb_invoices (fst b4)" "tb_cards (fst b') = tb_cards (fst b4)"
    using v(4) by (simp_all add: Let_def frame split: option.split)
  show "tb_payments (fst b') = tb_payments (put_payment (voided am vc p) (fst b))"
    using b' d(1,7) by (simp add: b1 frame)
  show "tb_cards (fst b') = tb_cards (fst (snd (cancel_card_for_void (vo_card_answer vc) p (vo_user vc) ''payment_void'' b)))"
    using b' d(3,9) by (simp add: b1)
  show "tb_invoices (fst b') = (case find_invoice (fst b) (py_invoice_id p) of None \<Rightarrow> tb_invoices (fst b) | Some i \<Rightarrow>
           if inv_status i \<in> {PaymentScheduled, Paid}
           then tb_invoices (put_invoice (i\<lparr>inv_status := Approved\<rparr>) (fst b)) else tb_invoices (fst b))"
    using b' d(5,8) by (simp add: b1 frame split: option.split)
qed

lemma void_evolves:
  assumes "void_payment am vc p b = Inr (out, b')" and "keyed b" and "p \<in> set (tb_payments (fst b))"
  shows "books_evolve b b'"
proof -
  note v = void_payment_books [OF assms(1)]
  have ok: "payment_void_refusal p = None"
    using assms(1) by (rule void_payment_InrE)
  define c where "c = (put_payment (voided am vc p) (fst b), snd b)"
  have c: "books_evolve b c"
    using put_payment_evolves [OF assms(3) _ voided_evolves [OF ok, of am vc], where b' = c and fx = "snd b"] assms(2)
    by (simp add: c_def keyed_def)
  have "books_evolve c b'"
  proof (cases "\<exists>i. find_invoice (fst b) (py_invoice_id p) = Some i \<and> inv_status i \<in> {PaymentScheduled, Paid}")
    case True
    then obtain i where i: "find_invoice (fst b) (py_invoice_id p) = Some i" "inv_status i \<in> {PaymentScheduled, Paid}"
      by blast
    with v keyed_evolves [OF c assms(2)] find_invoiceD [OF i(1)] show ?thesis
      using put_invoice_evolves [of i "fst c" Approved b' "snd c", OF _ _ invoice_evolves_status(2)]
      by (auto simp: c_def keyed_def)
  next
    case False
    with v show ?thesis
      by (intro books_evolve_same) (auto simp: c_def split: option.splits)
  qed
  with c show ?thesis
    by (rule books_evolve_trans)
qed

section \<open>Acceptance, dismissal and the card's retry\<close>

lemma accept_settlement_InrE:
  assumes "accept_settlement am u r p b = Inr b'"
  obtains i c where "find_invoice (fst b) (py_invoice_id p) = Some i" and "py_status p = ''completed''"
    and "inv_status i = PaymentScheduled" and "payment_settlement_coverage p (Some i) = Inr c" and "\<not> completes_invoice c"
    and "fst b' = put_invoice (i\<lparr>inv_status := Paid\<rparr>) (fst b)"
proof -
  let ?iv = "find_invoice (fst b) (py_invoice_id p)"
  obtain ref where ref: "settlement_accept_refusal p ?iv = Inr ref" "raise_refusal ref = Inr ()"
    using assms by (auto simp: accept_settlement_def Let_def elim!: bind_res_InrE)
  then have none: "settlement_accept_refusal p ?iv = Inr None"
    by (auto simp: raise_refusal_def split: option.splits)
  then obtain i c where i: "?iv = Some i" "py_status p = ''completed''" "inv_status i = PaymentScheduled"
      "payment_settlement_coverage p (Some i) = Inr c" "\<not> completes_invoice c"
    by (auto simp: settlement_accept_refusal_def refuse_def bind_res_Inr_iff split: if_splits option.splits)
  with assms none obtain fx d i1 fx1 where
    "transition_invoice (am_new_id am (''accepted:'' @ py_id p)) (am_ap_managers am) (Some u)
       ''invoice.paid_via_settlement_acceptance'' d Paid i fx = Inr (i1, fx1)" and "fst b' = put_invoice i1 (fst b)"
    by (auto simp: accept_settlement_def Let_def raise_refusal_def elim!: bind_res_InrE)
  with i that show thesis
    by (metis transition_invoice_InrE)
qed

lemma accept_evolves:
  assumes "accept_settlement am u r p b = Inr b'" and "keyed b"
  shows "books_evolve b b'"
proof -
  obtain i where "find_invoice (fst b) (py_invoice_id p) = Some i" and "inv_status i = PaymentScheduled"
    and "fst b' = put_invoice (i\<lparr>inv_status := Paid\<rparr>) (fst b)"
    using accept_settlement_InrE [OF assms(1)] by metis
  then show ?thesis
    using put_invoice_evolves [of i "fst b" Paid b' "snd b"] find_invoiceD [of "fst b" "py_invoice_id p" i]
      invoice_evolves_status(1) [of i] assms(2)
    by (simp add: keyed_def)
qed

lemma resolve_hold_frame:
  assumes "resolve_compliance_hold_exception am iv u n r b = Inr b'"
  shows "tb_payments (fst b') = tb_payments (fst b)" and "tb_invoices (fst b') = tb_invoices (fst b)"
  using assms by (auto simp: resolve_compliance_hold_exception_def bind_res_Inr_iff split: list.splits)

lemma dismiss_evolves:
  assumes "dismiss_compliance_hold am u n r p b = Inr b'" and "keyed b" and "p \<in> set (tb_payments (fst b))"
  shows "books_evolve b b'"
proof -
  let ?q = "dismissed am n r p"
  have hold: "py_status p = ''pending_compliance''"
    using assms(1) by (auto simp: dismiss_compliance_hold_def compliance_hold_refusal_def refuse_def raise_refusal_def split: if_splits)
  obtain b2 b3 where b': "b' = recompute_parent_run_status ?q b3"
    and b2: "tb_payments (fst b2) = tb_payments (put_payment ?q (fst b))" "tb_invoices (fst b2) = tb_invoices (fst b)"
    and b3: "b3 = b2 \<or> (\<exists>i. resolve_compliance_hold_exception am i u n (''dismissed: '' @ r) b2 = Inr b3)"
  proof -
    let ?b1 = "flag_if_dispatch_in_doubt am ?q (put_payment ?q (fst b), snd b)"
    let ?b2 = "(fst ?b1, dispatch_audit \<lparr>au_action = ''payment.compliance_dismissed'', au_actor = Some u,
                  au_entity = py_id ?q, au_details = [(''reason'', PStr r)]\<rparr> (snd ?b1))"
    have "bind_res (case find_invoice (fst b) (py_invoice_id p) of
              None \<Rightarrow> Inr ?b2
            | Some i \<Rightarrow> resolve_compliance_hold_exception am i u n (''dismissed: '' @ r) ?b2)
            (\<lambda>b3. Inr (recompute_parent_run_status ?q b3)) = Inr b'"
      using assms(1) by (auto simp: dismiss_compliance_hold_def Let_def elim!: bind_res_InrE)
    then show thesis
      by (rule bind_res_InrE, intro that [of _ ?b2]) (auto simp: frame split: option.splits)
  qed
  then have b3: "tb_payments (fst b3) = tb_payments (put_payment ?q (fst b))" "tb_invoices (fst b3) = tb_invoices (fst b)"
    using resolve_hold_frame [of am _ u n _ b2 b3] by auto
  have "pay_evolves p ?q"
    using hold by (simp add: pay_evolves_def pay_key_simps gone_def settled_def dismissed_def)
  from put_payment_evolves [OF assms(3) _ this, of b' "snd b"] assms(2) b3 show ?thesis
    by (simp add: keyed_def b' frame)
qed

lemma retry_card_evolves:
  assumes "retry_void_card_cancel answer u p b = Inr (out, b')"
  shows "books_evolve b b'"
proof (rule books_evolve_same)
  have "fst b' = fst (snd (cancel_card_for_void answer p u ''payment_void_retry'' b))"
    using assms by (auto simp: retry_void_card_cancel_def Let_def split: prod.splits if_splits)
  then show "tb_payments (fst b') = tb_payments (fst b)" "tb_invoices (fst b') = tb_invoices (fst b)"
    by (simp_all add: frame)
qed

section \<open>Any interleaving\<close>

datatype payment_call =
    CallWebhook webhook_event fetch_answer
  | CallSync uid "uid \<Rightarrow> erp_answer"
  | CallVoid uid void_call
  | CallRetryCard uid uid "virtual_card \<Rightarrow> provider_answer"
  | CallAccept uid uid string
  | CallDismiss uid uid string string

definition find_payment :: "books \<Rightarrow> uid \<Rightarrow> exc + payment" where
  "find_payment b i = (case List.find (\<lambda>p. py_id p = i) (tb_payments (fst b)) of
     None \<Rightarrow> Inl (HttpError 404 ''payment_not_found'') | Some p \<Rightarrow> Inr p)"

fun payment_step :: "ambient \<Rightarrow> payment_call \<Rightarrow> books \<Rightarrow> exc + books" where
  "payment_step am (CallWebhook ev f) b = bind_res (payment_webhook am ev f b) (\<lambda>(b', _). Inr b')"
| "payment_step am (CallSync run erp) b = Inr (snd (sync_run_legs am erp run b))"
| "payment_step am (CallVoid i vc) b =
     bind_res (find_payment b i) (\<lambda>p. bind_res (void_payment am vc p b) (\<lambda>(_, b'). Inr b'))"
| "payment_step am (CallRetryCard i u answer) b =
     bind_res (find_payment b i) (\<lambda>p. bind_res (retry_void_card_cancel answer u p b) (\<lambda>(_, b'). Inr b'))"
| "payment_step am (CallAccept i u r) b = bind_res (find_payment b i) (\<lambda>p. accept_settlement am u r p b)"
| "payment_step am (CallDismiss i u n r) b = bind_res (find_payment b i) (\<lambda>p. dismiss_compliance_hold am u n r p b)"

lemma find_payment_InrD: "find_payment b i = Inr p \<Longrightarrow> p \<in> set (tb_payments (fst b))"
  by (auto simp: find_payment_def split: option.splits dest: find_SomeD)

lemma payment_step_evolves:
  assumes "payment_step am c b = Inr b'" and "keyed b"
  shows "books_evolve b b'"
proof (cases c)
  case (CallWebhook ev f)
  with assms obtain run where "payment_webhook am ev f b = Inr (b', run)"
    by (auto elim!: bind_res_InrE)
  then show ?thesis
    using assms(2) by (rule webhook_evolves)
next
  case (CallSync run erp)
  with assms sync_legs_evolve show ?thesis
    by (cases "sync_run_legs am erp run b") (auto simp: sync_run_legs_def)
next
  case (CallVoid i vc)
  with assms obtain p out where "find_payment b i = Inr p" and "void_payment am vc p b = Inr (out, b')"
    by (auto elim!: bind_res_InrE)
  then show ?thesis
    using assms(2) void_evolves find_payment_InrD by metis
next
  case (CallRetryCard i u answer)
  with assms obtain p out where "retry_void_card_cancel answer u p b = Inr (out, b')"
    by (auto elim!: bind_res_InrE)
  then show ?thesis
    by (rule retry_card_evolves)
next
  case (CallAccept i u r)
  with assms obtain p where "accept_settlement am u r p b = Inr b'"
    by (auto elim!: bind_res_InrE)
  then show ?thesis
    using assms(2) by (rule accept_evolves)
next
  case (CallDismiss i u n r)
  with assms obtain p where "find_payment b i = Inr p" and "dismiss_compliance_hold am u n r p b = Inr b'"
    by (auto elim!: bind_res_InrE)
  then show ?thesis
    using assms(2) dismiss_evolves find_payment_InrD by metis
qed

text \<open>What is proved of one call, transferred to any sequence of calls.\<close>

interpretation payment_events: evolving_steps "\<lambda>(am, c). payment_step am c" books_evolve keyed
proof unfold_locales
  fix c :: "ambient \<times> payment_call" and b b' :: books
  assume "(case c of (am, c) \<Rightarrow> payment_step am c) b = Inr b'" and "keyed b"
  then show "books_evolve b b'"
    using payment_step_evolves by (cases c) auto
qed (use books_evolve_trans keyed_evolves in auto)

abbreviation payment_history :: "books \<Rightarrow> (ambient \<times> payment_call) list \<Rightarrow> books \<Rightarrow> bool" where
  "payment_history \<equiv> history (\<lambda>(am, c). payment_step am c)"

lemmas payment_history_evolves = payment_events.history_evolves

end
