(* ===== verification/PaymentOutcomes.thy ===== *)
theory PaymentOutcomes
  imports PaymentOutcomeProofs
begin

text \<open>
  The properties of a payment after it was sent: its trail over any interleaving of events, a
  settlement that does not match, what makes an invoice \<open>paid\<close>, and what a void undoes.
\<close>

section \<open>The trail of a payment\<close>

lemma live_invoices_evolve:
  "list_all2 pay_evolves ps qs \<Longrightarrow>
     py_invoice_id ` set (filter is_live qs) \<subseteq> py_invoice_id ` set (filter is_live ps) \<and> (one_live ps \<longrightarrow> one_live qs)"
proof (induction rule: list_all2_induct)
  case (Cons p ps q qs)
  have k: "py_invoice_id q = py_invoice_id p" and l: "is_live q \<Longrightarrow> is_live p"
    using Cons.hyps(1) pay_evolves_live by (simp_all add: pay_evolves_def pay_key_simps)
  from Cons.IH have sub: "py_invoice_id ` set (filter is_live qs) \<subseteq> py_invoice_id ` set (filter is_live ps)"
    and one: "one_live ps \<longrightarrow> one_live qs"
    by blast+
  show ?case
    using sub one k l unfolding one_live_def by (cases "is_live q"; cases "is_live p") auto
qed (simp add: one_live_def)

lemma one_live_evolves: "books_evolve b b' \<Longrightarrow> one_live (tb_payments (fst b)) \<Longrightarrow> one_live (tb_payments (fst b'))"
  unfolding books_evolve_def using live_invoices_evolve by blast

lemma list_all2_ex: "list_all2 R xs ys \<Longrightarrow> x \<in> set xs \<Longrightarrow> \<exists>y\<in>set ys. R x y"
  by (induction rule: list_all2_induct) auto

text \<open>
  Property C24. Over every interleaving of webhooks, ERP syncs, voids, card retries, acceptances
  and dismissals, each of which may also fail: no payment is created, no invoice gets a second
  live payment, and no payment changes its amount or its invoice. A failed, cancelled or voided
  payment never changes again; a completed one keeps what was settled and when, and can only be
  voided; a held one can only fail. And an invoice changes nothing but its status, from
  \<open>payment_scheduled\<close> to \<open>paid\<close> or back to \<open>approved\<close>.
\<close>

theorem payment_trail:
  assumes "payment_history b cs b'" and "keyed b" and "one_live (tb_payments (fst b))"
  shows "one_live (tb_payments (fst b')) \<and> map py_id (tb_payments (fst b')) = map py_id (tb_payments (fst b))
    \<and> (\<forall>p\<in>set (tb_payments (fst b)). \<exists>q\<in>set (tb_payments (fst b')). py_id q = py_id p
        \<and> py_amount q = py_amount p \<and> py_invoice_id q = py_invoice_id p
        \<and> (py_status p \<in> {''failed'', ''cancelled'', ''voided''} \<longrightarrow> q = p)
        \<and> (py_status p = ''completed'' \<longrightarrow> py_status q \<in> {''completed'', ''voided''}
             \<and> py_settled_amount q = py_settled_amount p
             \<and> (py_completed_at p \<noteq> None \<longrightarrow> py_completed_at q = py_completed_at p))
        \<and> (py_status p = ''pending_compliance'' \<longrightarrow> q = p \<or> py_status q = ''failed''))
    \<and> (\<forall>x\<in>set (tb_invoices (fst b)). \<exists>y\<in>set (tb_invoices (fst b')). y = x\<lparr>inv_status := inv_status y\<rparr>
        \<and> (inv_status y = inv_status x \<or> (inv_status x = PaymentScheduled \<and> inv_status y \<in> {Paid, Approved})
           \<or> (inv_status x = Paid \<and> inv_status y = Approved)))"
proof (intro conjI ballI)
  have e: "books_evolve b b'"
    by (rule payment_history_evolves [OF assms(1,2)])
  show "one_live (tb_payments (fst b'))"
    by (rule one_live_evolves [OF e assms(3)])
  show "map py_id (tb_payments (fst b')) = map py_id (tb_payments (fst b))"
    using books_evolve_ids [OF e] by simp
  fix p assume "p \<in> set (tb_payments (fst b))"
  with e obtain q where q: "q \<in> set (tb_payments (fst b'))" "pay_evolves p q"
    unfolding books_evolve_def using list_all2_ex by metis
  then show "\<exists>q\<in>set (tb_payments (fst b')). py_id q = py_id p \<and> py_amount q = py_amount p \<and> py_invoice_id q = py_invoice_id p
        \<and> (py_status p \<in> {''failed'', ''cancelled'', ''voided''} \<longrightarrow> q = p)
        \<and> (py_status p = ''completed'' \<longrightarrow> py_status q \<in> {''completed'', ''voided''}
             \<and> py_settled_amount q = py_settled_amount p
             \<and> (py_completed_at p \<noteq> None \<longrightarrow> py_completed_at q = py_completed_at p))
        \<and> (py_status p = ''pending_compliance'' \<longrightarrow> q = p \<or> py_status q = ''failed'')"
    by (intro bexI [of _ q])
       (simp_all add: pay_evolves_def pay_key_simps gone_def settled_def settled_key_def)
next
  fix x assume x: "x \<in> set (tb_invoices (fst b))"
  have "list_all2 invoice_evolves (tb_invoices (fst b)) (tb_invoices (fst b'))"
    using payment_history_evolves [OF assms(1,2)] by (simp add: books_evolve_def)
  then obtain y where y: "y \<in> set (tb_invoices (fst b'))" "invoice_evolves x y"
    using list_all2_ex [OF _ x] by blast
  show "\<exists>y\<in>set (tb_invoices (fst b')). y = x\<lparr>inv_status := inv_status y\<rparr>
        \<and> (inv_status y = inv_status x \<or> (inv_status x = PaymentScheduled \<and> inv_status y \<in> {Paid, Approved})
           \<or> (inv_status x = Paid \<and> inv_status y = Approved))"
    using y(2) [unfolded invoice_evolves_def] by (intro bexI [OF _ y(1)])
qed

section \<open>A settlement that does not match\<close>

lemma put_in_map: "p \<in> set ps \<Longrightarrow> py_id q = py_id p \<Longrightarrow> q \<in> set (map (\<lambda>x. if py_id x = py_id q then q else x) ps)"
  by force

lemma apply_event_simps [simp]:
  "py_id (apply_event t ev p) = py_id p" "py_invoice_id (apply_event t ev p) = py_invoice_id p"
  "py_amount (apply_event t ev p) = py_amount p" "py_status (apply_event t ev p) = processor_status_value (we_status ev)"
  "py_source_amount (apply_event t ev p) = py_source_amount p" "py_source_currency (apply_event t ev p) = py_source_currency p"
  by (simp_all add: apply_event_def Let_def)

text \<open>The webhook that completes a payment, and the row it leaves.\<close>

lemma completing_webhook:
  assumes "payment_webhook am ev fetched b = Inr (b', run)" and "we_status ev = ProcCompleted"
    and "filter (\<lambda>p. py_provider_payment_id p = Some (we_provider_payment_id ev)) (tb_payments (fst b)) = [p]" and "in_flight p"
    and "with_fetched p fetched (we_amount ev) (we_currency ev) = (r, cur)"
  obtains v where "p \<in> set (tb_payments (fst b))"
    and "verify_settlement r cur (py_amount p)
           (case find_invoice (fst b) (py_invoice_id p) of None \<Rightarrow> None | Some i \<Rightarrow> currency i)
           (py_source_amount p) (py_source_currency p) = Inr v"
    and "tb_payments (fst b') = tb_payments (put_payment (store_settlement v (apply_event (am_now am) ev p)) (fst b))"
    and "tb_invoices (fst b') = tb_invoices (fst b)"
    and "is_discrepancy (sv_outcome v) \<Longrightarrow> tb_offers (fst b') = tb_offers (fst b)
           \<and> tb_exceptions (fst b') = tb_exceptions (fst (open_settlement_mismatch_exception am (find_invoice (fst b) (py_invoice_id p)) b))"
    and "\<not> is_discrepancy (sv_outcome v) \<Longrightarrow> tb_exceptions (fst b') = tb_exceptions (fst b)"
proof -
  have "p \<in> set (filter (\<lambda>p. py_provider_payment_id p = Some (we_provider_payment_id ev)) (tb_payments (fst b)))"
    by (simp add: assms(3))
  then have p: "p \<in> set (tb_payments (fst b))"
    by simp
  have "settle_event am ev fetched p b = Inr b'"
    using assms(1,3,4) by (auto simp: payment_webhook_def bind_res_Inr_iff)
  then show thesis
  proof (cases rule: settle_event_cases)
    case (settled v)
    with that [OF p, of v] assms(5) show thesis
      by simp
  qed (use assms(2) in simp)
qed

text \<open>
  Property C26. A settlement the processor reports at another amount or in another currency than
  was authorised is contained: the payment is recorded as completed, a payment-blocking fraud flag
  is live on its invoice, which no run can then book, and no early-payment discount is counted as
  earned. A settlement that matches, or on which nothing is reported, raises no flag.
\<close>

theorem webhook_contains_discrepancy:
  assumes "payment_webhook am ev fetched b = Inr (b', run)" and "we_status ev = ProcCompleted"
    and "filter (\<lambda>p. py_provider_payment_id p = Some (we_provider_payment_id ev)) (tb_payments (fst b)) = [p]" and "in_flight p"
    and "with_fetched p fetched (we_amount ev) (we_currency ev) = (r, cur)"
    and "find_invoice (fst b) (py_invoice_id p) = Some iv"
    and "verify_settlement r cur (py_amount p) (currency iv) (py_source_amount p) (py_source_currency p) = Inr v"
  shows "(\<exists>q\<in>set (tb_payments (fst b')). py_id q = py_id p \<and> py_status q = ''completed'' \<and> py_amount q = py_amount p)
    \<and> (if sv_outcome v = AmountMismatch \<or> sv_outcome v = CurrencyMismatch
       then tb_offers (fst b') = tb_offers (fst b)
         \<and> (\<exists>e\<in>set (tb_exceptions (fst b')). ex_invoice_id e = Some (inv_id iv) \<and> ex_type e = ''fraud_flag''
              \<and> ex_status e \<in> {''open'', ''escalated''})
         \<and> (\<forall>i m. inv_id i = inv_id iv \<longrightarrow> run_refusal_reason (fst b') i m \<noteq> None)
       else tb_exceptions (fst b') = tb_exceptions (fst b))"
proof -
  from completing_webhook [OF assms(1-5)] obtain w where p: "p \<in> set (tb_payments (fst b))"
    and w: "verify_settlement r cur (py_amount p) (currency iv) (py_source_amount p) (py_source_currency p) = Inr w"
    and pays: "tb_payments (fst b') = tb_payments (put_payment (store_settlement w (apply_event (am_now am) ev p)) (fst b))"
    and disc: "is_discrepancy (sv_outcome w) \<Longrightarrow> tb_offers (fst b') = tb_offers (fst b)
           \<and> tb_exceptions (fst b') = tb_exceptions (fst (open_settlement_mismatch_exception am (Some iv) b))"
      "\<not> is_discrepancy (sv_outcome w) \<Longrightarrow> tb_exceptions (fst b') = tb_exceptions (fst b)"
    using assms(6) by auto
  have v: "w = v"
    using w assms(7) by simp
  have row: "\<exists>q\<in>set (tb_payments (fst b')). py_id q = py_id p \<and> py_status q = ''completed'' \<and> py_amount q = py_amount p"
    using put_in_map [OF p, of "store_settlement w (apply_event (am_now am) ev p)"] pays assms(2)
    by (intro bexI [of _ "store_settlement w (apply_event (am_now am) ev p)"]) simp_all
  show ?thesis
  proof (cases "is_discrepancy (sv_outcome v)")
    case True
    with disc(1) v have live: "live_of_type (tb_exceptions (fst b')) (inv_id iv) ''fraud_flag''"
      by (simp add: open_settlement_mismatch_exception_def open_once_live)
    then have "run_refusal_reason (fst b') i m \<noteq> None" if "inv_id i = inv_id iv" for i m
      using live_of_type_refuses [of "fst b'" i "''fraud_flag''"] that
      by (simp add: payment_blocking_exception_types_def)
    with True live row disc(1) v show ?thesis
      by (auto simp: is_discrepancy_def live_of_type_def list_ex_iff)
  next
    case False
    with disc(2) v row show ?thesis
      by (simp add: is_discrepancy_def)
  qed
qed

section \<open>What makes an invoice paid\<close>

text \<open>What is stored of a verdict discharges an invoice only on a report that covers it.\<close>

lemma verdict_of_simps [simp]:
  "sv_settled_amount (verdict_of o1 r v a c l) = a" "sv_settled_currency (verdict_of o1 r v a c l) = c"
  "sv_outcome (verdict_of o1 r v a c l) = o1"
  by (simp_all add: verdict_of_def)

lemma verdict_amount:
  assumes "verify_settlement r cur t tc src sc = Inr v" and "r = Reported d"
  shows "sv_settled_amount v = (case usable_reported_amount r of None \<Rightarrow> Some d | Some s \<Rightarrow> Some (Fin s))"
    and "sv_settled_currency v = cur"
proof -
  obtain legs where legs: "build_authorized_legs t tc src sc = Inr legs"
    using assms(1) by (auto simp: verify_settlement_def elim!: bind_res_InrE)
  have "sv_settled_amount v = (case usable_reported_amount r of None \<Rightarrow> Some d | Some s \<Rightarrow> Some (Fin s))
      \<and> sv_settled_currency v = cur"
  proof (cases "usable_reported_amount r")
    case None
    with assms legs show ?thesis
      by (auto simp: verify_settlement_def coerce_reported_amount_def)
  next
    case (Some s)
    let ?cs = "filter (\<lambda>l. same_currency cur (lg_currency l)) legs"
    show ?thesis
    proof (cases ?cs)
      case Nil
      with assms legs Some show ?thesis
        by (auto simp: verify_settlement_def Let_def)
    next
      case (Cons c cs)
      with assms legs Some show ?thesis
        by (cases "List.find (\<lambda>l. gap s l \<le> settlement_tolerance) (c # cs)")
           (auto simp del: find.simps simp: verify_settlement_def Let_def elim!: bind_res_InrE)
    qed
  qed
  then show "sv_settled_amount v = (case usable_reported_amount r of None \<Rightarrow> Some d | Some s \<Rightarrow> Some (Fin s))"
    and "sv_settled_currency v = cur"
    by simp_all
qed

lemma usable_scaled: "usable_reported_amount (Reported (Fin x)) = Some s \<Longrightarrow> s = round_to 2 x \<and> round_to 2 s = s"
  using quantize_Some_D [of 2 x s] has_scale_round_to [of 2 x] round_to_scaled
  by (simp add: usable_reported_amount_def coerce_reported_amount_def)

lemma stored_verdict_covers:
  assumes v: "verify_settlement r cur t tc src sc = Inr v"
    and cols: "money_col t" "\<And>s. src = Some s \<Longrightarrow> money_col s"
    and q: "settled_key q = settled_key (store_settlement v p)"
    and c: "settlement_coverage (py_settled_amount q) (py_settled_currency q) t tc src sc (py_settled_unstorable q) = Inr c"
      "completes_invoice c"
  shows "r = Absent \<or> r = NotANumber \<or> (\<exists>x ls l. r = Reported (Fin x) \<and> build_authorized_legs t tc src sc = Inr ls
     \<and> l \<in> set ls \<and> same_currency cur (lg_currency l) \<and> lg_amount l - 1 / 100 \<le> round_to 2 x)"
proof (cases r)
  case (Reported d)
  note d = verdict_amount [OF v Reported]
  have "\<not> py_settled_unstorable q"
    using c by (auto simp: settlement_coverage_def completes_invoice_def split: if_splits)
  with q have ok: "\<not> py_settled_unstorable (store_settlement v p)"
    by (simp add: settled_key_def)
  show ?thesis
  proof (cases "usable_reported_amount r")
    case None
    with d(1) Reported have "persistable_settled_amount (verdict_report v) = (None, True)"
      by (simp add: verdict_report_def persistable_settled_amount_def)
    with ok show ?thesis
      by (simp add: store_settlement_def)
  next
    case (Some s)
    then obtain x where x: "d = Fin x"
      using Reported by (cases d) (auto simp: usable_reported_amount_def coerce_reported_amount_def)
    with Some Reported have s: "s = round_to 2 x" "round_to 2 s = s"
      using usable_scaled by auto
    have rep: "verdict_report v = Reported (Fin s)"
      using d(1) Some by (simp add: verdict_report_def)
    obtain a u where pa: "persistable_settled_amount (Reported (Fin s)) = (a, u)"
      by (cases "persistable_settled_amount (Reported (Fin s))")
    with ok rep have "\<not> u"
      by (auto simp: store_settlement_def split: if_splits)
    with pa have a: "a = Some (Fin s)"
      by (auto simp: persistable_settled_amount_def coerce_reported_amount_def split: if_splits)
    with pa rep \<open>\<not> u\<close> q d(2) have key: "py_settled_amount q = stored_settled_amount a" "py_settled_currency q = cur"
      by (simp_all add: store_settlement_def settled_key_def)
    have "settlement_coverage (stored_settled_amount a) cur t tc src sc u = Inr c"
      using c(1) key \<open>\<not> u\<close> \<open>\<not> py_settled_unstorable q\<close> by simp
    from covering_report [OF cols _ pa this c(2)] s x Reported show ?thesis
      by auto
  qed
qed simp_all

lemma evolved_payment:
  assumes "books_evolve b b'" and "keyed b" and "p \<in> set (tb_payments (fst b))"
  obtains q where "List.find (\<lambda>x. py_id x = py_id p) (tb_payments (fst b')) = Some q" and "pay_evolves p q"
proof -
  obtain q where q: "q \<in> set (tb_payments (fst b'))" "pay_evolves p q"
    using assms(1,3) list_all2_ex unfolding books_evolve_def by metis
  then have "py_id q = py_id p" "distinct (map py_id (tb_payments (fst b')))"
    using keyed_evolves [OF assms(1,2)] by (simp_all add: pay_evolves_def pay_key_simps keyed_def)
  with q that show thesis
    using find_distinct [of q "tb_payments (fst b')" py_id] by metis
qed

lemma evolved_currency:
  assumes "list_all2 invoice_evolves xs ys" and "List.find (\<lambda>y. inv_id y = i) ys = Some y"
  shows "\<exists>x. List.find (\<lambda>x. inv_id x = i) xs = Some x \<and> currency x = currency y"
  using assms
proof (induction rule: list_all2_induct)
  case (Cons x xs z ys)
  have z: "z = x\<lparr>inv_status := inv_status z\<rparr>"
    using Cons.hyps(1) by (simp add: invoice_evolves_def)
  have "inv_id z = inv_id x" "currency z = currency x"
    by (subst z, simp)+
  with Cons show ?case
    by (auto split: if_splits)
qed simp

text \<open>
  Property C25. The ERP sync moves an invoice to \<open>paid\<close> only for money that discharges it, from
  the processor's report to the ledger: if a webhook completed the payment on some report, and
  after any further events a sync leg moves the invoice, then the invoice was scheduled and is
  now paid, and the processor reported nothing usable as a number, or an amount not below an
  authorised leg of the payment in that leg's currency by more than a cent.
\<close>

theorem paid_means_discharged:
  assumes "payment_webhook am ev fetched b = Inr (b1, run)" and "we_status ev = ProcCompleted"
    and "filter (\<lambda>p. py_provider_payment_id p = Some (we_provider_payment_id ev)) (tb_payments (fst b)) = [p]" and "in_flight p"
    and "with_fetched p fetched (we_amount ev) (we_currency ev) = (r, cur)"
    and "payment_history b1 cs b2" and "sync_one_leg am' erp (py_id p) b2 = ((k, True), b3)"
    and "keyed b" and "money_col (py_amount p)" and "\<And>s. py_source_amount p = Some s \<Longrightarrow> money_col s"
  shows "\<exists>iv. find_invoice (fst b2) (py_invoice_id p) = Some iv \<and> inv_status iv = PaymentScheduled
    \<and> iv\<lparr>inv_status := Paid\<rparr> \<in> set (tb_invoices (fst b3))
    \<and> (r = Absent \<or> r = NotANumber \<or> (\<exists>x ls l. r = Reported (Fin x)
        \<and> build_authorized_legs (py_amount p) (currency iv) (py_source_amount p) (py_source_currency p) = Inr ls
        \<and> l \<in> set ls \<and> same_currency cur (lg_currency l) \<and> lg_amount l - 1 / 100 \<le> round_to 2 x))"
proof -
  from completing_webhook [OF assms(1-5)] obtain v where p: "p \<in> set (tb_payments (fst b))"
    and v: "verify_settlement r cur (py_amount p)
           (case find_invoice (fst b) (py_invoice_id p) of None \<Rightarrow> None | Some i \<Rightarrow> currency i)
           (py_source_amount p) (py_source_currency p) = Inr v"
    and pays: "tb_payments (fst b1) = tb_payments (put_payment (store_settlement v (apply_event (am_now am) ev p)) (fst b))"
    and ivs: "tb_invoices (fst b1) = tb_invoices (fst b)"
    by metis
  let ?p2 = "store_settlement v (apply_event (am_now am) ev p)"
  have e1: "books_evolve b b1"
    by (rule webhook_evolves [OF assms(1,8)])
  note k1 = keyed_evolves [OF e1 assms(8)]
  have e2: "books_evolve b1 b2"
    by (rule payment_history_evolves [OF assms(6) k1])
  have p2: "?p2 \<in> set (tb_payments (fst b1))"
    using put_in_map [OF p, of ?p2] pays by simp
  obtain q where q: "List.find (\<lambda>x. py_id x = py_id p) (tb_payments (fst b2)) = Some q" "pay_evolves ?p2 q"
    using evolved_payment [OF e2 k1 p2] by auto
  have key: "settled_key q = settled_key ?p2" "pay_key q = pay_key ?p2"
    using q(2) assms(2) by (simp_all add: pay_evolves_def settled_def)
  then have fields: "py_amount q = py_amount p" "py_source_amount q = py_source_amount p"
      "py_source_currency q = py_source_currency p" "py_invoice_id q = py_invoice_id p"
    by (simp_all add: pay_key_simps)
  obtain b' where "sync_transition am' q b2 = Inr ((k, True), b')" and b': "b' = b3"
    using assms(7) q(1) by (auto simp: sync_one_leg_def split: if_splits sum.splits prod.splits)
  then show ?thesis
  proof (cases rule: sync_transition_cases)
    case (moved iv c)
    have "\<exists>i. find_invoice (fst b) (py_invoice_id p) = Some i \<and> currency i = currency iv"
      using evolved_currency [of "tb_invoices (fst b1)" "tb_invoices (fst b2)" "py_invoice_id p" iv] e2 moved(3) ivs fields
      by (simp add: books_evolve_def find_invoice_def)
    with v have v: "verify_settlement r cur (py_amount p) (currency iv) (py_source_amount p) (py_source_currency p) = Inr v"
      by auto
    have c: "settlement_coverage (py_settled_amount q) (py_settled_currency q) (py_amount p) (currency iv)
        (py_source_amount p) (py_source_currency p) (py_settled_unstorable q) = Inr c"
      using moved(5) by (simp add: payment_settlement_coverage_def fields)
    have "iv\<lparr>inv_status := Paid\<rparr> \<in> set (tb_invoices (fst b3))"
      using moved(7) find_invoiceD [OF moved(3)] b' by force
    with stored_verdict_covers [OF v assms(9,10) key(1) c moved(6)] moved(3,4) fields show ?thesis
      by (intro exI [of _ iv]) simp
  qed simp
qed

section \<open>What a void undoes\<close>

lemma reverse_capture_InrD:
  "reverse_capture f = Inr (a, g) \<Longrightarrow> of_id g = of_id f \<and> of_status g = ''accepted''"
  by (auto simp: reverse_capture_def bind_res_Inr_iff split: if_splits)

lemma reverse_all_left:
  "reverse_all todo fs = Inr (fs', d) \<Longrightarrow> f \<in> set fs' \<Longrightarrow> of_status f = ''captured'' \<Longrightarrow>
     f \<in> set fs \<and> of_id f \<notin> of_id ` set todo"
proof (induction todo arbitrary: fs fs' d)
  case (Cons g todo)
  from Cons.prems(1) obtain a h d' where g: "reverse_capture g = Inr (a, h)" and rest: "reverse_all todo (put_offer h fs) = Inr (fs', d')"
    by (auto elim!: bind_res_InrE)
  note h = reverse_capture_InrD [OF g]
  from Cons.IH [OF rest Cons.prems(2,3)] h Cons.prems(3) show ?case
    by (auto simp: put_offer_def split: if_splits)
qed simp

lemma reversed_offers:
  assumes "reverse_captures_for_voided_payment fs ps i pid st = Inr (fs', d)" and "f \<in> set fs'"
    and "of_captured_by_payment_id f = Some pid"
  shows "of_status f \<noteq> ''captured''"
proof
  assume c: "of_status f = ''captured''"
  define exact where "exact = sort_key of_id (filter (\<lambda>f. of_captured_by_payment_id f = Some pid \<and> of_status f = ''captured'') fs)"
  have in_exact: "f \<in> set exact \<longleftrightarrow> f \<in> set fs"
    using assms(3) c by (simp add: exact_def)
  show False
  proof (cases "exact = []")
    case False
    with assms(1) have "reverse_all exact fs = Inr (fs', d)"
      by (simp add: reverse_captures_for_voided_payment_def Let_def exact_def)
    from reverse_all_left [OF this assms(2) c] in_exact show False
      by blast
  next
    case True
    with assms(1) obtain todo where "fs' = fs \<or> reverse_all todo fs = Inr (fs', d)"
      by (auto simp: reverse_captures_for_voided_payment_def Let_def exact_def [symmetric] split: if_splits)
    with reverse_all_left [OF _ assms(2) c] assms(2) have "f \<in> set fs"
      by blast
    with in_exact True show False
      by simp
  qed
qed

text \<open>The card picked is a live one whenever there is one.\<close>

lemma card_of_payment_live:
  assumes "card_of_payment cards pid = Some c" and "x \<in> set cards" and "vc_payment_id x = Some pid" and "vc_status x \<noteq> ''cancelled''"
  shows "vc_status c \<noteq> ''cancelled''" and "c \<in> set cards" and "vc_payment_id c = Some pid"
proof -
  let ?k = "\<lambda>c. (vc_status c = ''cancelled'', - vc_created_at c, vc_id c)"
  let ?xs = "sort_key ?k (filter (\<lambda>c. vc_payment_id c = Some pid) cards)"
  obtain cs where xs: "?xs = c # cs"
    using assms(1) by (auto simp: card_of_payment_def split: list.splits)
  have "sorted (map ?k ?xs)"
    by (rule sorted_sort_key)
  moreover have "x \<in> set ?xs"
    using assms(2,3) by simp
  ultimately have "?k c \<le> ?k x"
    unfolding xs by auto
  with assms(4) show "vc_status c \<noteq> ''cancelled''"
    by (auto simp: less_eq_prod_def)
  have "c \<in> set ?xs"
    by (simp only: xs list.set_intros)
  then show "c \<in> set cards" "vc_payment_id c = Some pid"
    by simp_all
qed

lemma closed_tags:
  "card_cancel_disposition out = Some ''closed'' \<longleftrightarrow> out \<in> {Some ''card_cancelled'', Some ''cancelled'', Some ''card_already_cancelled''}"
  by (auto simp: card_cancel_disposition_def split: option.splits if_splits)

lemma provider_tags: "cancel_card_at_provider a \<notin> {''card_cancelled'', ''card_already_cancelled''}"
  by (auto simp: cancel_card_at_provider_def split: provider_answer.splits if_splits)

text \<open>At most one card of a payment is live, as \<open>uq_virtual_cards_one_live_per_invoice\<close> has it.\<close>

definition single_live_card :: "virtual_card list \<Rightarrow> uid \<Rightarrow> bool" where
  "single_live_card cards pid \<longleftrightarrow> (\<forall>x\<in>set cards. \<forall>y\<in>set cards. vc_payment_id x = Some pid \<and> vc_payment_id y = Some pid
     \<and> vc_status x \<noteq> ''cancelled'' \<and> vc_status y \<noteq> ''cancelled'' \<longrightarrow> vc_id x = vc_id y)"

text \<open>A close reported as done leaves no live card behind the payment.\<close>

lemma cancel_card_closed:
  assumes "cancel_card_for_void answer p u via b = (out, b')" and "card_cancel_disposition out = Some ''closed''"
    and one: "single_live_card (tb_cards (fst b)) (py_id p)"
    and x: "x \<in> set (tb_cards (fst b'))" "vc_payment_id x = Some (py_id p)"
  shows "vc_status x = ''cancelled''"
proof (rule ccontr)
  assume live: "vc_status x \<noteq> ''cancelled''"
  from assms(1,2) obtain c where c: "card_of_payment (tb_cards (fst b)) (py_id p) = Some c"
    using closed_tags by (auto simp: cancel_card_for_void_def split: if_splits option.splits)
  show False
  proof (cases "vc_status c = ''cancelled''")
    case True
    with assms(1) c have "b' = b"
      by (auto simp: cancel_card_for_void_def split: if_splits)
    with card_of_payment_live(1) [OF c] x live True show False
      by blast
  next
    case False
    have m: "py_method p = Some ''virtual_card''"
      using assms(1,2) by (auto simp: cancel_card_for_void_def card_cancel_disposition_def split: if_splits)
    have "vc_status c \<notin> set card_spent_statuses"
    proof
      assume "vc_status c \<in> set card_spent_statuses"
      with assms(1) c m False have "out = Some ''card_already_charged''"
        by (simp add: cancel_card_for_void_def)
      with assms(2) show False
        by (simp add: card_cancel_disposition_def)
    qed
    moreover have "cancel_card_at_provider (answer c) = ''cancelled''"
    proof (rule ccontr)
      assume n: "cancel_card_at_provider (answer c) \<noteq> ''cancelled''"
      with assms(1) c m False calculation have "out = Some (cancel_card_at_provider (answer c))"
        by (simp add: cancel_card_for_void_def)
      with assms(2) n provider_tags [of "answer c"] show False
        by (simp add: closed_tags)
    qed
    ultimately have "tb_cards (fst b') = tb_cards (put_card (c\<lparr>vc_status := ''cancelled''\<rparr>) (fst b))"
      using assms(1) c m False by (auto simp: cancel_card_for_void_def)
    then have cards: "tb_cards (fst b') = map (\<lambda>x. if vc_id x = vc_id c then c\<lparr>vc_status := ''cancelled''\<rparr> else x) (tb_cards (fst b))"
      by (simp add: put_card_def)
    with x(1) live have x': "x \<in> set (tb_cards (fst b))" "vc_id x \<noteq> vc_id c"
      by (auto split: if_splits)
    from card_of_payment_live [OF c x'(1) x(2) live] one x' x(2) live show False
      unfolding single_live_card_def by blast
  qed
qed

lemma reflag_blocks:
  assumes "vendor_id iv = Some v" and "approved_bank_changes_since cs v t \<noteq> []"
  shows "live_of_type (tb_exceptions (fst (reflag_voided_invoice_for_bank_change am cs iv t b))) (inv_id iv) ''fraud_flag''"
proof -
  have "sort_key (\<lambda>c. - (case bc_reviewed_at c of None \<Rightarrow> 0 | Some t \<Rightarrow> t)) (approved_bank_changes_since cs v t) \<noteq> []"
    using assms(2) by (metis length_0_conv length_sort)
  with assms(1) show ?thesis
    by (auto simp: reflag_voided_invoice_for_bank_change_def flag_invoice_for_bank_change_def open_once_live split: list.split)
qed

text \<open>A void leaves the invoice flagged where its re-payment needs a second look.\<close>

definition needs_second_look :: "void_call \<Rightarrow> payment \<Rightarrow> invoice \<Rightarrow> bool" where
  "needs_second_look vc p iv \<longleftrightarrow>
     (inv_status iv \<in> {PaymentScheduled, Paid} \<and> (\<exists>v. vendor_id iv = Some v
        \<and> approved_bank_changes_since (vo_bank_changes vc) v (vo_created_at vc) \<noteq> []))
     \<or> (py_status p = ''completed'' \<and> py_provider p = Some ''external''
        \<and> or_str (vo_erp_reference vc) [] \<noteq> [] \<and> or_str (py_reference p) [] = take 255 (or_str (vo_erp_reference vc) []))"

lemma void_flags:
  assumes "void_payment am vc p b = Inr (out, b')" and "find_invoice (fst b) (py_invoice_id p) = Some iv"
    and "needs_second_look vc p iv"
  shows "live_of_type (tb_exceptions (fst b')) (inv_id iv) ''fraud_flag''
      \<or> live_of_type (tb_exceptions (fst b')) (inv_id iv) ''payment_reconciliation''"
proof -
  obtain b1 b3 b4 fx where
    reopen: "reopen_invoice am (vo_bank_changes vc) (vo_created_at vc) (vo_user vc) (vo_reason vc) (voided am vc p)
           (Some iv) (put_payment (voided am vc p) (fst b1), snd b1) = Inr b3"
    and offers: "reverse_captures (vo_user vc) (voided am vc p) (py_status p) (Some iv) b3 = Inr b4"
    and b': "b' = (let b6 = recompute_parent_run_status (voided am vc p) (fst b4, fx)
           in if py_status p = ''completed''
              then flag_void_of_erp_reported_payment am (vo_erp_reference vc) iv (voided am vc p) b6 else b6)"
    by (rule void_payment_InrE [OF assms(1)]) (auto simp: assms(2))
  define b6 where "b6 = recompute_parent_run_status (voided am vc p) (fst b4, fx)"
  have "tb_exceptions (fst b6) = tb_exceptions (fst b3)"
    using reverse_captures_InrD(4) [OF offers] by (simp add: b6_def frame)
  then have kept: "set (tb_exceptions (fst b3)) \<subseteq> set (tb_exceptions (fst b'))"
    using flags_frame(9) [of b6 am "vo_erp_reference vc" iv "voided am vc p"] b' by (simp add: b6_def [symmetric] Let_def)
  show ?thesis
    using assms(3) unfolding needs_second_look_def
  proof
    assume "inv_status iv \<in> {PaymentScheduled, Paid} \<and> (\<exists>v. vendor_id iv = Some v
           \<and> approved_bank_changes_since (vo_bank_changes vc) v (vo_created_at vc) \<noteq> [])"
    then obtain v c where v: "vendor_id (iv\<lparr>inv_status := Approved\<rparr>) = Some v"
        "approved_bank_changes_since (vo_bank_changes vc) v (vo_created_at vc) \<noteq> []"
      and c: "b3 = reflag_voided_invoice_for_bank_change am (vo_bank_changes vc) (iv\<lparr>inv_status := Approved\<rparr>) (vo_created_at vc) c"
      using reopen_invoice_InrD(6) [OF reopen] by auto
    have "live_of_type (tb_exceptions (fst b3)) (inv_id iv) ''fraud_flag''"
      using reflag_blocks [OF v] c by simp
    with kept show ?thesis
      using live_of_type_mono by blast
  next
    assume "py_status p = ''completed'' \<and> py_provider p = Some ''external''
           \<and> or_str (vo_erp_reference vc) [] \<noteq> [] \<and> or_str (py_reference p) [] = take 255 (or_str (vo_erp_reference vc) [])"
    then show ?thesis
      using b' by (simp add: flag_void_of_erp_reported_payment_def external_payment_provider_def Let_def open_once_live)
  qed
qed

lemma void_offers:
  assumes "void_payment am vc p b = Inr (out, b')" and "find_invoice (fst b) (py_invoice_id p) = Some iv"
    and "f \<in> set (tb_offers (fst b'))" and "of_captured_by_payment_id f = Some (py_id p)"
  shows "of_status f \<noteq> ''captured''"
proof -
  obtain b3 b4 fx where offers: "reverse_captures (vo_user vc) (voided am vc p) (py_status p) (Some iv) b3 = Inr b4"
    and b': "b' = (let b6 = recompute_parent_run_status (voided am vc p) (fst b4, fx)
           in if py_status p = ''completed''
              then flag_void_of_erp_reported_payment am (vo_erp_reference vc) iv (voided am vc p) b6 else b6)"
    by (rule void_payment_InrE [OF assms(1)]) (auto simp: assms(2))
  then obtain d where "reverse_captures_for_voided_payment (tb_offers (fst b3)) (tb_payments (fst b3)) (inv_id iv) (py_id p)
      (Some (py_status p)) = Inr (tb_offers (fst b4), d)"
    by (auto simp: reverse_captures_def elim!: bind_res_InrE)
  moreover have "tb_offers (fst b') = tb_offers (fst b4)"
    using b' by (simp add: Let_def frame)
  ultimately show ?thesis
    using reversed_offers assms(3,4) by metis
qed

text \<open>
  Property C27. A successful void undoes the payment everywhere it reached. It is only taken on a
  payment that left or was to leave on its own; the row is voided and keeps its settlement date;
  the invoice it had scheduled or paid is back at \<open>approved\<close>; no discount stays captured in its
  name; a card whose close is reported as done leaves no spendable card behind the payment. And the
  invoice is kept out of every run until a person looks at it where the vendor's bank details were
  changed since, or where the ERP still shows the voided payment as made.
\<close>

theorem void_undoes:
  assumes "void_payment am vc p b = Inr (out, b')" and "p \<in> set (tb_payments (fst b))" and "keyed b"
    and "find_invoice (fst b) (py_invoice_id p) = Some iv"
    and "single_live_card (tb_cards (fst b)) (py_id p)"
  shows "(py_status p \<in> {''submitted'', ''processing'', ''completed''} \<or> (py_status p = ''pending'' \<and> py_run_id p = None))
    \<and> (\<exists>q\<in>set (tb_payments (fst b')). py_id q = py_id p \<and> py_status q = ''voided''
         \<and> (py_completed_at p \<noteq> None \<longrightarrow> py_completed_at q = py_completed_at p))
    \<and> (inv_status iv \<in> {PaymentScheduled, Paid} \<longrightarrow> iv\<lparr>inv_status := Approved\<rparr> \<in> set (tb_invoices (fst b')))
    \<and> (\<forall>f\<in>set (tb_offers (fst b')). of_captured_by_payment_id f = Some (py_id p) \<longrightarrow> of_status f \<noteq> ''captured'')
    \<and> (card_cancel_disposition out = Some ''closed'' \<longrightarrow>
         (\<forall>c\<in>set (tb_cards (fst b')). vc_payment_id c = Some (py_id p) \<longrightarrow> vc_status c = ''cancelled''))
    \<and> (needs_second_look vc p iv \<longrightarrow> (\<forall>i m. inv_id i = inv_id iv \<longrightarrow> run_refusal_reason (fst b') i m \<noteq> None))"
proof (intro conjI impI allI ballI)
  note books = void_payment_books [OF assms(1)]
  show "py_status p \<in> {''submitted'', ''processing'', ''completed''} \<or> (py_status p = ''pending'' \<and> py_run_id p = None)"
    by (rule void_payment_InrE [OF assms(1)]) (rule void_refusal_None)
  show "\<exists>q\<in>set (tb_payments (fst b')). py_id q = py_id p \<and> py_status q = ''voided''
         \<and> (py_completed_at p \<noteq> None \<longrightarrow> py_completed_at q = py_completed_at p)"
    using put_in_map [OF assms(2), of "voided am vc p"] books(1)
    by (intro bexI [of _ "voided am vc p"]) (simp_all add: voided_def)
  show "iv\<lparr>inv_status := Approved\<rparr> \<in> set (tb_invoices (fst b'))" if "inv_status iv \<in> {PaymentScheduled, Paid}"
    using that books(2) find_invoiceD [OF assms(4)] assms(4) by force
  show "of_status f \<noteq> ''captured''" if "f \<in> set (tb_offers (fst b'))" "of_captured_by_payment_id f = Some (py_id p)" for f
    by (rule void_offers [OF assms(1,4) that])
  show "vc_status c = ''cancelled''"
    if "card_cancel_disposition out = Some ''closed''" "c \<in> set (tb_cards (fst b'))" "vc_payment_id c = Some (py_id p)" for c
  proof -
    obtain b1 where call: "cancel_card_for_void (vo_card_answer vc) p (vo_user vc) ''payment_void'' b = (out, b1)"
      by (rule void_payment_InrE [OF assms(1)])
    have "c \<in> set (tb_cards (fst b1))"
      using that(2) unfolding books(3) call by simp
    then show ?thesis
      using that(3) by (rule cancel_card_closed [OF call that(1) assms(5)])
  qed
  show "run_refusal_reason (fst b') i m \<noteq> None" if "needs_second_look vc p iv" "inv_id i = inv_id iv" for i m
  proof -
    have "live_of_type (tb_exceptions (fst b')) (inv_id i) ''fraud_flag''
        \<or> live_of_type (tb_exceptions (fst b')) (inv_id i) ''payment_reconciliation''"
      unfolding that(2) by (rule void_flags [OF assms(1,4) that(1)])
    then show ?thesis
      by (elim disjE) (erule live_of_type_refuses, simp add: payment_blocking_exception_types_def)+
  qed
qed

section \<open>Concrete instances\<close>

text \<open>
  A card payment of 800 in flight on a scheduled invoice, the card open, and the processor
  reporting 750 for it; then the supplier's bank details change, and the payment is voided.
\<close>

definition sent_payment :: payment where
  "sent_payment = sample_payment\<lparr>py_status := ''submitted'', py_provider_payment_id := Some ''tr-1'',
     py_method := Some ''virtual_card''\<rparr>"

definition sent_books :: books where
  "sent_books = (sample_tables\<lparr>tb_invoices := [sample_invoice\<lparr>inv_status := PaymentScheduled\<rparr>], tb_payments := [sent_payment],
     tb_cards := [\<lparr>vc_id = ''card-1'', vc_invoice_id = Some ''inv-1'', vc_payment_id = Some ''p-inv-1'',
                   vc_status = ''active'', vc_created_at = 1\<rparr>]\<rparr>, no_effects)"

definition settled_report :: "rat \<Rightarrow> webhook_event" where
  "settled_report a = \<lparr>we_provider_payment_id = ''tr-1'', we_status = ProcCompleted, we_reference = None,
     we_failure_reason = None, we_amount = Reported (Fin a), we_currency = Some ''USD''\<rparr>"

definition sample_void :: void_call where
  "sample_void = \<lparr>vo_user = ''u-cfo'', vo_user_name = ''C. Fo'', vo_reason = ''wrong amount'', vo_adapter_outcome = None,
     vo_card_answer = (\<lambda>_. ProviderConfirmed True), vo_created_at = 5,
     vo_bank_changes = [\<lparr>bc_vendor_id = ''v-1'', bc_change_type = ''bank_details'', bc_status = ''approved'',
       bc_reviewed_at = Some 7, bc_reviewed_by = Some ''u-ap''\<rparr>], vo_erp_reference = None\<rparr>"

lemma case_sum_InrE:
  assumes "case_sum (\<lambda>_. False) P r"
  obtains x where "r = Inr x" and "P x"
  using assms by (cases r) auto

lemma sent_books_facts:
  "keyed sent_books" "one_live (tb_payments (fst sent_books))" "sent_payment \<in> set (tb_payments (fst sent_books))"
  "filter (\<lambda>p. py_provider_payment_id p = Some (we_provider_payment_id (settled_report a))) (tb_payments (fst sent_books)) = [sent_payment]"
  "in_flight sent_payment" "with_fetched sent_payment None (we_amount (settled_report a)) (we_currency (settled_report a))
     = (Reported (Fin a), Some ''USD'')"
  "find_invoice (fst sent_books) (py_invoice_id sent_payment) = Some (sample_invoice\<lparr>inv_status := PaymentScheduled\<rparr>)"
  "money_col (py_amount sent_payment)" "py_source_amount sent_payment = None"
  by (simp_all add: sent_books_def sent_payment_def sample_payment_def keyed_def one_live_def settled_report_def in_flight_def
      with_fetched_def find_invoice_def sample_invoice_def money_col_def has_scale_def)

lemma short_verdict:
  obtains v where "verify_settlement (Reported (Fin 750)) (Some ''USD'') (py_amount sent_payment)
      (currency (sample_invoice\<lparr>inv_status := PaymentScheduled\<rparr>)) (py_source_amount sent_payment) (py_source_currency sent_payment) = Inr v"
    and "sv_outcome v = AmountMismatch"
proof (rule case_sum_InrE)
  show "case_sum (\<lambda>_. False) (\<lambda>v. sv_outcome v = AmountMismatch) (verify_settlement (Reported (Fin 750)) (Some ''USD'')
      (py_amount sent_payment) (currency (sample_invoice\<lparr>inv_status := PaymentScheduled\<rparr>)) (py_source_amount sent_payment)
      (py_source_currency sent_payment))"
    by code_simp
qed

lemma short_webhook:
  obtains b' run where "payment_webhook sample_ambient (settled_report 750) None sent_books = Inr (b', run)"
proof -
  obtain v where v: "verify_settlement (Reported (Fin 750)) (Some ''USD'') (py_amount sent_payment)
      (currency (sample_invoice\<lparr>inv_status := PaymentScheduled\<rparr>)) (py_source_amount sent_payment) (py_source_currency sent_payment) = Inr v"
    by (rule short_verdict)
  let ?p1 = "apply_event (am_now sample_ambient) (settled_report 750) sent_payment"
  have "record_completion ?p1 (Some (sample_invoice\<lparr>inv_status := PaymentScheduled\<rparr>)) None
      (we_amount (settled_report 750)) (we_currency (settled_report 750))
    = Inr (store_settlement v ?p1, \<lparr>sc_verification = v, sc_realized_fx = None\<rparr>)"
    using v sent_books_facts(9)
    by (simp add: record_completion_def record_settlement_def with_fetched_def settled_report_def realized_fx_gain_loss_def)
  then have "\<exists>x. payment_webhook sample_ambient (settled_report 750) None sent_books = Inr x"
    using sent_books_facts(4,5,7) by (simp add: payment_webhook_def settle_event_def Let_def)
  with that show thesis
    by (metis prod.collapse)
qed

lemma payment_trail_witness:
  "\<exists>b'. payment_history sent_books [(sample_ambient, CallWebhook (settled_report 750) None)] b' \<and> one_live (tb_payments (fst b'))"
proof -
  obtain b' run where "payment_webhook sample_ambient (settled_report 750) None sent_books = Inr (b', run)"
    by (rule short_webhook)
  then have "payment_step sample_ambient (CallWebhook (settled_report 750) None) sent_books = Inr b'"
    by simp
  then have h: "payment_history sent_books [(sample_ambient, CallWebhook (settled_report 750) None)] b'"
    using history.took [OF history.start, of "\<lambda>(am, c). payment_step am c" "(sample_ambient, CallWebhook (settled_report 750) None)"] by simp
  with payment_trail [OF h sent_books_facts(1,2)] show ?thesis
    by blast
qed

lemma webhook_contains_discrepancy_witness:
  "\<exists>b' run. payment_webhook sample_ambient (settled_report 750) None sent_books = Inr (b', run)
     \<and> (\<exists>e\<in>set (tb_exceptions (fst b')). ex_type e = ''fraud_flag'')"
proof -
  obtain b' run where w: "payment_webhook sample_ambient (settled_report 750) None sent_books = Inr (b', run)"
    by (rule short_webhook)
  obtain v where v: "verify_settlement (Reported (Fin 750)) (Some ''USD'') (py_amount sent_payment)
      (currency (sample_invoice\<lparr>inv_status := PaymentScheduled\<rparr>)) (py_source_amount sent_payment) (py_source_currency sent_payment) = Inr v"
    and out: "sv_outcome v = AmountMismatch"
    by (rule short_verdict)
  have "\<exists>e\<in>set (tb_exceptions (fst b')). ex_type e = ''fraud_flag''"
    using webhook_contains_discrepancy [OF w _ sent_books_facts(4-7) v] out
    by (auto simp: settled_report_def)
  with w show ?thesis
    by blast
qed

text \<open>The same payment settled in full, and the sync that follows.\<close>

definition paid_payment :: payment where
  "paid_payment = sent_payment\<lparr>py_status := ''completed'', py_completed_at := Some 0, py_settled_amount := Some 800,
     py_settled_currency := Some ''USD''\<rparr>"

lemma full_webhook:
  obtains fx where "payment_webhook sample_ambient (settled_report 800) None sent_books
    = Inr ((put_payment paid_payment (fst sent_books), fx), Some ''run-1'')"
proof -
  let ?v = "\<lparr>sv_outcome = Matched, sv_reason = None, sv_variance = Some 0, sv_settled_amount = Some (Fin 800),
     sv_settled_currency = Some ''USD'', sv_authorized_amount = 800, sv_authorized_currency = Some ''USD'',
     sv_authorized_leg = ''target''\<rparr>"
  let ?p1 = "apply_event (am_now sample_ambient) (settled_report 800) sent_payment"
  have v: "verify_settlement (Reported (Fin 800)) (Some ''USD'') (py_amount sent_payment)
      (currency (sample_invoice\<lparr>inv_status := PaymentScheduled\<rparr>)) (py_source_amount sent_payment) (py_source_currency sent_payment) = Inr ?v"
    by code_simp
  have st: "persistable_settled_amount (Reported (Fin 800)) = (Some (Fin 800), False)" "stored_settled_amount (Some (Fin 800)) = Some 800"
    by code_simp+
  have p2: "store_settlement ?v ?p1 = paid_payment"
    by (simp add: store_settlement_def verdict_report_def st apply_event_def settled_report_def paid_payment_def sent_payment_def
        sample_payment_def sample_ambient_def)
  have s2: "py_source_amount paid_payment = None"
    using sent_books_facts(9) by (simp add: paid_payment_def)
  have "record_completion ?p1 (Some (sample_invoice\<lparr>inv_status := PaymentScheduled\<rparr>)) None
      (we_amount (settled_report 800)) (we_currency (settled_report 800))
    = Inr (paid_payment, \<lparr>sc_verification = ?v, sc_realized_fx = None\<rparr>)"
    using v sent_books_facts(9) s2
    by (simp add: record_completion_def record_settlement_def with_fetched_def settled_report_def realized_fx_gain_loss_def p2 [unfolded settled_report_def])
  moreover have "capture_discount_offers paid_payment c t a (put_payment paid_payment (fst sent_books), fx)
      = (put_payment paid_payment (fst sent_books), fx)" for c t a fx
    by (simp add: capture_discount_offers_def capture_offer_for_settled_payment_def capture_offers_for_settled_payment_def
        paid_payment_def sent_payment_def sample_payment_def sent_books_def sample_tables_def accepted_offers_def put_payment_def)
  moreover have "py_run_id sent_payment = Some ''run-1''"
    by (simp add: sent_payment_def sample_payment_def)
  ultimately have "\<exists>fx. payment_webhook sample_ambient (settled_report 800) None sent_books
      = Inr ((put_payment paid_payment (fst sent_books), fx), Some ''run-1'')"
    using sent_books_facts(4,5,7)
    by (simp add: payment_webhook_def settle_event_def Let_def is_discrepancy_def)
       (simp add: settled_report_def)
  with that show thesis
    by blast
qed

lemma full_sync:
  obtains b3 where "sync_one_leg sample_ambient ErpNone (py_id sent_payment) (put_payment paid_payment (fst sent_books), fx)
    = ((LegSynced, True), b3)"
proof -
  let ?iv = "sample_invoice\<lparr>inv_status := PaymentScheduled\<rparr>"
  have pays: "tb_payments (fst sent_books) = [sent_payment]" and ivs: "tb_invoices (fst sent_books) = [?iv]"
    by (simp_all add: sent_books_def)
  have p: "py_id paid_payment = py_id sent_payment" "py_invoice_id paid_payment = inv_id ?iv" "py_status paid_payment = ''completed''"
    "py_provider paid_payment = None"
    by (simp_all add: paid_payment_def sent_payment_def sample_payment_def sample_invoice_def)
  have c: "payment_settlement_coverage paid_payment (Some ?iv)
      = Inr \<lparr>co_state = Covered, co_reason = None, co_shortfall = None\<rparr>"
    by code_simp
  have "passes (transition_invoice o1 m a n d Paid ?iv fx)" for o1 m a n d
    by (simp add: transition_invoice_passes)
  then obtain x where "transition_invoice (am_new_id sample_ambient (''synced:'' @ py_id sent_payment)) (am_ap_managers sample_ambient) None
       ''invoice.paid_via_erp_sync'' [(''payment_id'', PStr (py_id sent_payment))] Paid ?iv fx = Inr x"
    unfolding passes_def by (rule case_sum_InrE)
  then have "\<exists>b3. sync_one_leg sample_ambient ErpNone (py_id sent_payment) (put_payment paid_payment (fst sent_books), fx)
      = ((LegSynced, True), b3)"
    using p c by (simp add: sync_one_leg_def sync_transition_def find_invoice_def pays ivs completes_invoice_def external_payment_provider_def
        split: prod.split)
  with that show thesis
    by blast
qed

lemma paid_means_discharged_witness:
  "\<exists>b1 run b3. payment_webhook sample_ambient (settled_report 800) None sent_books = Inr (b1, run)
     \<and> sync_one_leg sample_ambient ErpNone (py_id sent_payment) b1 = ((LegSynced, True), b3)
     \<and> sample_invoice\<lparr>inv_status := Paid\<rparr> \<in> set (tb_invoices (fst b3))"
proof -
  obtain fx where w: "payment_webhook sample_ambient (settled_report 800) None sent_books
      = Inr ((put_payment paid_payment (fst sent_books), fx), Some ''run-1'')"
    by (rule full_webhook)
  obtain b3 where y: "sync_one_leg sample_ambient ErpNone (py_id sent_payment) (put_payment paid_payment (fst sent_books), fx)
      = ((LegSynced, True), b3)"
    by (rule full_sync)
  have c: "we_status (settled_report 800) = ProcCompleted"
    by (simp add: settled_report_def)
  have "find_invoice (put_payment paid_payment (fst sent_books)) (py_invoice_id sent_payment)
      = Some (sample_invoice\<lparr>inv_status := PaymentScheduled\<rparr>)"
    using sent_books_facts(7) by (simp add: find_invoice_def)
  with paid_means_discharged [OF w c sent_books_facts(4-6) history.start y sent_books_facts(1,8)] sent_books_facts(9)
  have "sample_invoice\<lparr>inv_status := Paid\<rparr> \<in> set (tb_invoices (fst b3))"
    by simp
  with w y show ?thesis
    by blast
qed

lemma void_undoes_witness:
  "\<exists>b'. void_payment sample_ambient sample_void sent_payment sent_books = Inr (Some ''card_cancelled'', b')
     \<and> (\<exists>q\<in>set (tb_payments (fst b')). py_status q = ''voided'')
     \<and> (\<forall>c\<in>set (tb_cards (fst b')). vc_payment_id c = Some (py_id sent_payment) \<longrightarrow> vc_status c = ''cancelled'')
     \<and> run_refusal_reason (fst b') sample_invoice None \<noteq> None"
proof -
  have "case_sum (\<lambda>_. False) (\<lambda>x. fst x = Some ''card_cancelled'') (void_payment sample_ambient sample_void sent_payment sent_books)"
    by code_simp
  then obtain b' where v: "void_payment sample_ambient sample_void sent_payment sent_books = Inr (Some ''card_cancelled'', b')"
    by (rule case_sum_InrE) (metis prod.collapse)
  have one: "single_live_card (tb_cards (fst sent_books)) (py_id sent_payment)"
    by (simp add: single_live_card_def sent_books_def)
  have closed: "card_cancel_disposition (Some ''card_cancelled'') = Some ''closed''"
    by (simp add: card_cancel_disposition_def)
  have look: "needs_second_look sample_void sent_payment (sample_invoice\<lparr>inv_status := PaymentScheduled\<rparr>)"
    by (simp add: needs_second_look_def sample_void_def approved_bank_changes_since_def sample_invoice_def)
  have "(\<exists>q\<in>set (tb_payments (fst b')). py_status q = ''voided'')
    \<and> (\<forall>c\<in>set (tb_cards (fst b')). vc_payment_id c = Some (py_id sent_payment) \<longrightarrow> vc_status c = ''cancelled'')
    \<and> run_refusal_reason (fst b') sample_invoice None \<noteq> None"
    using void_undoes [OF v sent_books_facts(3,1,7) one] closed look by auto
  with v show ?thesis
    by blast
qed

end
