(* ===== verification/Banking.thy ===== *)
theory Banking
  imports CurrencyLock
begin

text \<open>
  \<open>utils/banking.py\<close>: the structural checks on bank identifiers. A validator answers a boolean,
  but for the routing number, whose \<open>int(c)\<close> raises on a character \<open>isdigit\<close> admits and \<open>int\<close>
  does not (a superscript).
\<close>

section \<open>Tables\<close>

definition iban_lengths :: "(string \<times> nat) list" where
  "iban_lengths =
     [
      (''AD'', 24), (''AE'', 23), (''AL'', 28), (''AT'', 20), (''AZ'', 28), (''BA'', 20),
      (''BE'', 16), (''BG'', 22), (''BH'', 22), (''BR'', 29), (''BY'', 28), (''CH'', 21),
      (''CR'', 22), (''CY'', 28), (''CZ'', 24), (''DE'', 22), (''DK'', 18), (''DO'', 28),
      (''EE'', 20), (''EG'', 29), (''ES'', 24), (''FI'', 18), (''FO'', 18), (''FR'', 27),
      (''GB'', 22), (''GE'', 22), (''GI'', 23), (''GL'', 18), (''GR'', 27), (''GT'', 28),
      (''HR'', 21), (''HU'', 28), (''IE'', 22), (''IL'', 23), (''IQ'', 23), (''IS'', 26),
      (''IT'', 27), (''JO'', 30), (''KW'', 30), (''KZ'', 20), (''LB'', 28), (''LC'', 32),
      (''LI'', 21), (''LT'', 20), (''LU'', 20), (''LV'', 21), (''MC'', 27), (''MD'', 24),
      (''ME'', 22), (''MK'', 19), (''MR'', 27), (''MT'', 31), (''MU'', 30), (''NL'', 18),
      (''NO'', 15), (''PK'', 24), (''PL'', 28), (''PS'', 29), (''PT'', 25), (''QA'', 29),
      (''RO'', 24), (''RS'', 22), (''SA'', 24), (''SC'', 31), (''SE'', 24), (''SI'', 19),
      (''SK'', 24), (''SM'', 27), (''ST'', 25), (''SV'', 28), (''TL'', 23), (''TN'', 24),
      (''TR'', 26), (''UA'', 29), (''VA'', 22), (''VG'', 24), (''XK'', 20)
     ]"

definition sepa_countries :: "string list" where
  "sepa_countries =
     [
      ''AT'', ''BE'', ''BG'', ''CH'', ''CY'', ''CZ'', ''DE'', ''DK'', ''EE'', ''ES'', ''FI'',
      ''FR'', ''GB'', ''GI'', ''GR'', ''HR'', ''HU'', ''IE'', ''IS'', ''IT'', ''LI'', ''LT'',
      ''LU'', ''LV'', ''MC'', ''MT'', ''NL'', ''NO'', ''PL'', ''PT'', ''RO'', ''SE'', ''SI'',
      ''SK'', ''SM'', ''VA''
     ]"

section \<open>IBAN\<close>

definition normalize_iban :: "string \<Rightarrow> string" where
  "normalize_iban raw = py_upper (py_despace raw)"

definition country_from_iban :: "string option \<Rightarrow> string option" where
  "country_from_iban iban =
     (let n = normalize_iban (or_str iban [])
      in if or_str iban [] = [] \<or> length n < 2 \<or> \<not> py_isalpha (take 2 n) then None else Some (take 2 n))"

text \<open>A letter counts as its code point less 55, so \<open>A\<close> is 10.\<close>

definition iban_digits :: "string \<Rightarrow> string" where
  "iban_digits s = concat (map (\<lambda>c. if chr_isdigit c then [c] else str_nat (code c - 55)) s)"

definition iban_rearranged :: "string \<Rightarrow> string" where
  "iban_rearranged n = drop 4 n @ take 4 n"

definition validate_iban :: "string option \<Rightarrow> bool" where
  "validate_iban iban =
     (if or_str iban [] = [] then False
      else let n = normalize_iban (or_str iban [])
           in if \<not> py_isalnum n then False
              else if length n < 15 \<or> 34 < length n then False
              else if \<not> py_isalpha (take 2 n) then False
              else if \<not> py_isdigit (take 2 (drop 2 n)) then False
              else if (case map_of iban_lengths (take 2 n) of None \<Rightarrow> False | Some k \<Rightarrow> length n \<noteq> k) then False
              else (case py_int_digits (iban_digits (iban_rearranged n)) of
                  None \<Rightarrow> False
                | Some v \<Rightarrow> v mod 97 = 1))"

section \<open>SWIFT and BIC\<close>

definition validate_swift_bic :: "string option \<Rightarrow> bool" where
  "validate_swift_bic bic =
     (if or_str bic [] = [] then False
      else let c = py_upper (py_despace (or_str bic []))
           in if length c \<notin> {8, 11} then False
              else if \<not> py_isalnum c then False
              else if \<not> py_isalpha (take 4 c) then False
              else if \<not> py_isalpha (take 2 (drop 4 c)) then False
              else if c ! 6 = CHR ''0'' then False
              else \<not> (length c = 11 \<and> \<not> py_isalnum (drop 8 c)))"

section \<open>US routing numbers\<close>

definition int_of_char :: "char \<Rightarrow> exc + nat" where
  "int_of_char c = (if is_ascii_digit c then Inr (digit_val c) else Inl (PyError ValueError))"

fun ints_of :: "string \<Rightarrow> exc + nat list" where
  "ints_of [] = Inr []"
| "ints_of (c # cs) = bind_res (int_of_char c) (\<lambda>d. bind_res (ints_of cs) (\<lambda>ds. Inr (d # ds)))"

definition aba_checksum :: "nat list \<Rightarrow> nat" where
  "aba_checksum d = 3 * (d ! 0 + d ! 3 + d ! 6) + 7 * (d ! 1 + d ! 4 + d ! 7) + (d ! 2 + d ! 5 + d ! 8)"

definition validate_aba_routing :: "string option \<Rightarrow> exc + bool" where
  "validate_aba_routing routing_number =
     (if or_str routing_number [] = [] then Inr False
      else let digits = py_despace (or_str routing_number [])
           in if length digits \<noteq> 9 \<or> \<not> py_isdigit digits then Inr False
              else bind_res (ints_of digits) (\<lambda>d. Inr (aba_checksum d mod 10 = 0)))"

section \<open>UK identifiers\<close>

definition validate_uk_sort_code :: "string option \<Rightarrow> bool" where
  "validate_uk_sort_code sort_code =
     (if or_str sort_code [] = [] then False
      else (case py_split CHR ''-'' (py_strip (or_str sort_code [])) of
          [a, b, c] \<Rightarrow>
            if \<not> list_all (\<lambda>p. length p = 2 \<and> py_isdigit p) [a, b, c] then False
            else length (a @ b @ c) = 6 \<and> py_isdigit (a @ b @ c)
        | [a] \<Rightarrow> length a = 6 \<and> py_isdigit a
        | _ \<Rightarrow> False))"

definition validate_uk_account_number :: "string option \<Rightarrow> bool" where
  "validate_uk_account_number account_number =
     (if or_str account_number [] = [] then False
      else let digits = py_despace (or_str account_number []) in length digits = 8 \<and> py_isdigit digits)"

definition is_sepa_country :: "string option \<Rightarrow> bool" where
  "is_sepa_country c = (or_str c [] \<noteq> [] \<and> py_upper (or_str c []) \<in> set sepa_countries)"

section \<open>What the routing checksum catches\<close>

lemma ints_of_digits: "list_all is_ascii_digit s \<Longrightarrow> ints_of s = Inr (map digit_val s)"
  by (induction s) (simp_all add: int_of_char_def)

lemma digits_isdigit: "list_all is_ascii_digit s \<Longrightarrow> list_all chr_isdigit s"
  by (auto simp: list_all_iff chr_isdigit_def)

lemma digits_despace: "list_all is_ascii_digit s \<Longrightarrow> py_despace s = s"
  by (auto simp: list_all_iff py_despace_def is_ascii_digit_def chr_isspace_def intro!: filter_True)

lemma validate_aba_digits:
  assumes "list_all is_ascii_digit s" and "length s = 9"
  shows "validate_aba_routing (Some s) = Inr (aba_checksum (map digit_val s) mod 10 = 0)"
proof -
  have "s \<noteq> []"
    using assms(2) by auto
  with assms show ?thesis
    by (simp add: validate_aba_routing_def or_str_def digits_despace ints_of_digits py_isdigit_def digits_isdigit)
qed

lemma mod10_cancel:
  fixes u v :: nat
  assumes "(R + u) mod 10 = 0" and "(R + v) mod 10 = 0"
  shows "u mod 10 = v mod 10"
proof -
  have "int ((R + u) mod 10) = int ((R + v) mod 10)"
    using assms by simp
  then have "(int R + int u) mod 10 = (int R + int v) mod 10"
    by (simp add: zmod_int)
  then have "int u mod 10 = int v mod 10"
    by (simp add: mod_eq_dvd_iff)
  then show ?thesis
    by (metis of_nat_eq_iff of_nat_numeral zmod_int)
qed

lemma weighted_digit:
  fixes a b :: nat
  assumes ab: "a < 10" "b < 10" and w: "w = 1 \<or> w = 3 \<or> w = 7"
    and "(R + w * a) mod 10 = 0" and "(R + w * b) mod 10 = 0"
  shows "a = b"
proof -
  have "a = 0 \<or> a = 1 \<or> a = 2 \<or> a = 3 \<or> a = 4 \<or> a = 5 \<or> a = 6 \<or> a = 7 \<or> a = 8 \<or> a = 9"
    "b = 0 \<or> b = 1 \<or> b = 2 \<or> b = 3 \<or> b = 4 \<or> b = 5 \<or> b = 6 \<or> b = 7 \<or> b = 8 \<or> b = 9"
    using ab by arith+
  with w mod10_cancel [OF assms(4,5)] show ?thesis
    by (elim disjE) simp_all
qed

definition aba_weight :: "nat \<Rightarrow> nat" where
  "aba_weight i = (if i mod 3 = 0 then 3 else if i mod 3 = 1 then 7 else 1)"

lemma aba_checksum_split:
  assumes "length d = 9" and "i < 9"
  obtains R where "\<And>x. aba_checksum (d[i := x]) = R + aba_weight i * x"
proof -
  have i: "i = 0 \<or> i = 1 \<or> i = 2 \<or> i = 3 \<or> i = 4 \<or> i = 5 \<or> i = 6 \<or> i = 7 \<or> i = 8"
    using assms(2) by arith
  have "aba_checksum (d[i := x]) = aba_checksum (d[i := 0]) + aba_weight i * x" for x
    using i assms(1) by (elim disjE) (simp_all add: aba_checksum_def aba_weight_def)
  with that show thesis
    by blast
qed

lemma digit_val_eq:
  assumes "is_ascii_digit a" and "is_ascii_digit b" and "digit_val a = digit_val b"
  shows "a = b"
proof -
  have "code a = code b"
    using assms unfolding digit_val_def is_ascii_digit_def by linarith
  then show ?thesis
    by simp
qed

lemma digit_val_lt: "is_ascii_digit a \<Longrightarrow> digit_val a < 10"
  unfolding digit_val_def is_ascii_digit_def by linarith

text \<open>
  A typing error in one digit of a US routing number does not pass: from nine ASCII
  digits that \<open>validate_aba_routing\<close> accepts, replacing the digit at any position by another one
  gives a number it refuses.
\<close>

theorem aba_substitution:
  assumes s: "list_all is_ascii_digit s" "length s = 9" and "validate_aba_routing (Some s) = Inr True"
    and i: "i < 9" and c: "is_ascii_digit c" "c \<noteq> s ! i"
  shows "validate_aba_routing (Some (s[i := c])) = Inr False"
proof -
  have s': "list_all is_ascii_digit (s[i := c])" "length (s[i := c]) = 9"
    using s c set_update_subset_insert [of s i c] by (auto simp: list_all_iff)
  obtain R where R: "\<And>x. aba_checksum ((map digit_val s)[i := x]) = R + aba_weight i * x"
    using aba_checksum_split [of "map digit_val s" i] s(2) i by auto
  have si: "is_ascii_digit (s ! i)"
    using s i by (simp add: list_all_length)
  have "(R + aba_weight i * digit_val (s ! i)) mod 10 = 0"
    using assms(3) validate_aba_digits [OF s] R [of "digit_val (s ! i)"] s(2) i
    by (simp add: list_update_id flip: map_update)
  moreover have "aba_weight i = 1 \<or> aba_weight i = 3 \<or> aba_weight i = 7"
    by (simp add: aba_weight_def)
  ultimately have "(R + aba_weight i * digit_val c) mod 10 \<noteq> 0"
    using weighted_digit digit_val_lt digit_val_eq si c by metis
  with validate_aba_digits [OF s'] R show ?thesis
    by (simp add: map_update)
qed

theorem aba_substitution_witness: "validate_aba_routing (Some (''021000021''[4 := CHR ''7''])) = Inr False"
  by (rule aba_substitution) code_simp+

section \<open>What the IBAN checksum catches\<close>

definition iban_char :: "char \<Rightarrow> bool" where
  "iban_char c = (is_ascii_digit c \<or> is_ascii_upper c)"

lemma iban_char_normal: "list_all iban_char n \<Longrightarrow> normalize_iban n = n"
proof -
  assume n: "list_all iban_char n"
  have "py_despace n = n"
    using n by (auto simp: list_all_iff py_despace_def iban_char_def is_ascii_digit_def is_ascii_upper_def chr_isspace_def
        intro!: filter_True)
  moreover have "py_upper n = n"
    using n by (intro py_upper_fixed)
      (auto simp: list_all_iff iban_char_def is_ascii_digit_def is_ascii_upper_def is_ascii_lower_def chr_upper_def)
  ultimately show ?thesis
    by (simp add: normalize_iban_def)
qed

text \<open>The digits a character contributes, and their number.\<close>

lemma iban_digits_append: "iban_digits (xs @ ys) = iban_digits xs @ iban_digits ys"
  by (simp add: iban_digits_def)

definition iban_val :: "char \<Rightarrow> nat" where
  "iban_val c = (if is_ascii_digit c then digit_val c else code c - 55)"

lemma iban_digits_char:
  assumes "iban_char c"
  shows "digits_val (iban_digits [c]) = iban_val c" and "length (iban_digits [c]) = (if is_ascii_digit c then 1 else 2)"
proof -
  show "digits_val (iban_digits [c]) = iban_val c"
    using assms by (auto simp: iban_digits_def iban_val_def iban_char_def chr_isdigit_def is_ascii_upper_def is_ascii_digit_def
        digits_val_str_nat) (simp add: digits_val_def)
  show "length (iban_digits [c]) = (if is_ascii_digit c then 1 else 2)"
  proof (cases "is_ascii_digit c")
    case False
    with assms have u: "65 \<le> code c" "code c \<le> 90"
      by (auto simp: iban_char_def is_ascii_upper_def)
    then have "\<not> chr_isdigit c" "10 \<le> code c - 55" "(code c - 55) div 10 < 10"
      by (auto simp: chr_isdigit_def is_ascii_digit_def)
    then show ?thesis
      using False by (simp add: iban_digits_def str_nat.simps [of "code c - 55"] str_nat.simps [of "(code c - 55) div 10"])
  qed (simp add: iban_digits_def chr_isdigit_def)
qed

lemma iban_digits_around:
  assumes "iban_char c"
  shows "digits_val (iban_digits (xs @ c # ys)) =
    (digits_val (iban_digits xs) * 10 ^ (if is_ascii_digit c then 1 else 2) + iban_val c) * 10 ^ length (iban_digits ys)
      + digits_val (iban_digits ys)"
proof -
  have "iban_digits (xs @ c # ys) = iban_digits xs @ iban_digits [c] @ iban_digits ys"
    by (simp add: iban_digits_def)
  with iban_digits_char [OF assms] show ?thesis
    by (simp add: digits_val_append algebra_simps power_add)
qed

lemma iban_val_lt: "iban_char c \<Longrightarrow> iban_val c < 97"
  unfolding iban_val_def iban_char_def is_ascii_upper_def is_ascii_digit_def digit_val_def by (auto split: if_splits)

lemma iban_val_eq:
  assumes "iban_char a" and "iban_char b" and "is_ascii_digit a = is_ascii_digit b" and "iban_val a = iban_val b"
  shows "a = b"
proof (cases "is_ascii_digit a")
  case True
  with assms show ?thesis
    using digit_val_eq by (simp add: iban_val_def)
next
  case False
  with assms(1,2,3) have "55 \<le> code a" "55 \<le> code b"
    by (auto simp: iban_char_def is_ascii_upper_def)
  moreover have "code a - 55 = code b - 55"
    using assms(3,4) False by (simp add: iban_val_def)
  ultimately have "code a = code b"
    by linarith
  then show ?thesis
    by simp
qed

lemma weighted_mod_97:
  fixes A B X Y :: nat
  assumes "A < 97" and "B < 97" and "((X + A) * 10 ^ k + Y) mod 97 = ((X + B) * 10 ^ k + Y) mod 97"
  shows "A = B"
proof -
  have "coprime (10 :: int) 97"
    by code_simp
  then have c: "coprime (97 :: int) (10 ^ k)"
    by (simp add: ac_simps)
  have "int (((X + A) * 10 ^ k + Y) mod 97) = int (((X + B) * 10 ^ k + Y) mod 97)"
    using assms(3) by simp
  then have "((int X + int A) * 10 ^ k + int Y) mod 97 = ((int X + int B) * 10 ^ k + int Y) mod 97"
    by (simp add: zmod_int)
  then have "97 dvd ((int X + int A) * 10 ^ k + int Y) - ((int X + int B) * 10 ^ k + int Y)"
    by (rule mod_eq_dvd_iff [THEN iffD1])
  then have "97 dvd (int A - int B) * 10 ^ k"
    by (simp add: left_diff_distrib distrib_right)
  with c have "97 dvd int A - int B"
    by (simp add: coprime_dvd_mult_left_iff)
  then have "int A mod 97 = int B mod 97"
    by (rule mod_eq_dvd_iff [THEN iffD2])
  with assms(1,2) show ?thesis
    by simp
qed

lemma iban_value_differs:
  assumes "iban_char a" and "iban_char b" and "a \<noteq> b" and "is_ascii_digit a = is_ascii_digit b"
  shows "digits_val (iban_digits (xs @ a # ys)) mod 97 \<noteq> digits_val (iban_digits (xs @ b # ys)) mod 97"
  using assms iban_val_eq weighted_mod_97 [OF iban_val_lt iban_val_lt, OF assms(1,2)]
  by (auto simp: iban_digits_around)

lemma rearranged_update:
  assumes "i < length n" and "4 \<le> length n"
  obtains xs ys where "\<And>c. iban_rearranged (n[i := c]) = xs @ c # ys" and "iban_rearranged n = xs @ (n ! i) # ys"
proof (cases "i < 4")
  case True
  then have "take 4 (n[i := c]) = take i n @ c # drop (Suc i) (take 4 n)" for c
    using assms by (simp add: take_update_swap upd_conv_take_nth_drop min_def take_Cons' drop_take)
  then have "iban_rearranged (n[i := c]) = (drop 4 n @ take i n) @ c # drop (Suc i) (take 4 n)" for c
    using True by (simp add: iban_rearranged_def drop_update_cancel)
  from this and this [of "n ! i"] show thesis
    using that by (metis list_update_id)
next
  case False
  have "iban_rearranged (n[i := c]) = take (i - 4) (drop 4 n) @ c # (drop (Suc i) n @ take 4 n)" for c
    using assms False by (simp add: iban_rearranged_def upd_conv_take_nth_drop drop_take)
  from this and this [of "n ! i"] show thesis
    using that by (metis list_update_id)
qed

lemma validate_iban_mod:
  assumes "list_all iban_char n" and "validate_iban (Some n)"
  shows "4 \<le> length n" and "digits_val (iban_digits (iban_rearranged n)) mod 97 = 1"
  using assms iban_char_normal [OF assms(1)]
  by (auto simp: validate_iban_def or_str_def Let_def py_int_digits_def split: if_splits option.splits)

text \<open>The remainder taken digit by digit, for evaluation.\<close>

definition mod_97 :: "string \<Rightarrow> nat" where
  "mod_97 s = foldl (\<lambda>n c. (10 * n + digit_val c) mod 97) 0 s"

lemma mod_97_digits: "digits_val s mod 97 = mod_97 s"
proof (induction s rule: rev_induct)
  case (snoc c s)
  have "(10 * digits_val s + digit_val c) mod 97 = (10 * (digits_val s mod 97) + digit_val c) mod 97"
    by (metis mod_add_left_eq mod_mult_right_eq)
  with snoc show ?case
    by (simp add: mod_97_def)
qed (simp add: mod_97_def)

lemma iban_digits_digits: "list_all iban_char n \<Longrightarrow> list_all is_ascii_digit (iban_digits n)"
  by (induction n) (auto simp: iban_digits_def iban_char_def chr_isdigit_def str_nat_digits is_ascii_digit_def is_ascii_upper_def)

lemma validate_iban_chars:
  assumes "list_all iban_char n" and "py_isalnum n" and "15 \<le> length n" and "length n \<le> 34"
    and "py_isalpha (take 2 n)" and "py_isdigit (take 2 (drop 2 n))"
    and "map_of iban_lengths (take 2 n) = Some (length n)" and "mod_97 (iban_digits (iban_rearranged n)) = 1"
  shows "validate_iban (Some n)"
proof -
  let ?d = "iban_digits (iban_rearranged n)"
  have "list_all iban_char (iban_rearranged n)"
    using assms(1) by (auto simp: iban_rearranged_def list_all_iff dest: in_set_takeD in_set_dropD)
  then have "list_all is_ascii_digit ?d"
    by (rule iban_digits_digits)
  moreover have "?d \<noteq> []"
    using assms(8) by (auto simp: mod_97_def)
  ultimately have "py_int_digits ?d = Some (digits_val ?d)"
    by (simp add: py_int_digits_def)
  moreover have "digits_val ?d mod 97 = 1"
    using assms(8) by (simp add: mod_97_digits)
  ultimately show ?thesis
    using assms(2-7) iban_char_normal [OF assms(1)] by (auto simp: validate_iban_def or_str_def Let_def)
qed

lemma sample_iban: "validate_iban (Some ''GB82WEST12345698765432'')"
  by (rule validate_iban_chars) code_simp+

text \<open>
  A typing error in one character of an IBAN does not pass: from an accepted IBAN of
  upper-case letters and digits, replacing the character at any position by a different one of
  its class, a digit by a digit or a letter by a letter, gives an IBAN \<open>validate_iban\<close> refuses.
\<close>

theorem iban_substitution:
  assumes "list_all iban_char n" and "validate_iban (Some n)"
    and "i < length n" and "iban_char c" and "c \<noteq> n ! i" and "is_ascii_digit c = is_ascii_digit (n ! i)"
  shows "\<not> validate_iban (Some (n[i := c]))"
proof
  assume "validate_iban (Some (n[i := c]))"
  moreover have "list_all iban_char (n[i := c])"
    using assms(1,4) set_update_subset_insert [of n i c] by (auto simp: list_all_iff)
  ultimately have "digits_val (iban_digits (iban_rearranged (n[i := c]))) mod 97 = 1"
    by (rule validate_iban_mod(2) [rotated])
  moreover obtain xs ys where
    "\<And>c. iban_rearranged (n[i := c]) = xs @ c # ys" "iban_rearranged n = xs @ (n ! i) # ys"
    using rearranged_update [OF assms(3) validate_iban_mod(1) [OF assms(1,2)]] by metis
  moreover have "iban_char (n ! i)"
    using assms(1,3) by (simp add: list_all_length)
  ultimately show False
    using iban_value_differs [OF assms(4) _ assms(5,6)] validate_iban_mod(2) [OF assms(1,2)] by metis
qed

theorem iban_substitution_witness: "\<not> validate_iban (Some (''GB82WEST12345698765432''[10 := CHR ''4'']))"
  by (rule iban_substitution) (code_simp, rule sample_iban, code_simp+)

end
