(* ===== verification/NachaFile.thy ===== *)
theory NachaFile
  imports Banking PyDecimal
begin

text \<open>
  \<open>services/nacha.py\<close>: the NACHA file of ACH credits a customer uploads to its own bank. A file
  is a header, one batch and a trailer in records of 94 characters, padded to whole blocks of
  ten. The calendar arguments are given by their fields, the only use of them being
  \<open>strftime\<close>. The folding of a name to ASCII is Unicode's NFKD on the Latin-1 code points.
\<close>

section \<open>Data\<close>

datatype nacha_error = NachaError | RecordLength nat | RoutingNotNumeric | RoutingTooShort

record nacha_originator =
  no_company_name :: string
  no_company_id :: string
  no_odfi_routing :: string
  no_bank_name :: string

record nacha_entry =
  ne_routing :: string
  ne_account :: string
  ne_account_type :: string
  ne_amount :: rat
  ne_individual_id :: string
  ne_name :: string

record civil =
  c_year :: nat
  c_month :: nat
  c_day :: nat
  c_hour :: nat
  c_minute :: nat

definition record_length :: nat where "record_length = 94"
definition blocking_factor :: nat where "blocking_factor = 10"
definition sec_codes :: "string list" where "sec_codes = [''CCD'', ''PPD'']"
definition txn_checking_credit :: string where "txn_checking_credit = ''22''"
definition txn_savings_credit :: string where "txn_savings_credit = ''32''"
definition nacha_max_entry_amount :: rat where "nacha_max_entry_amount = 9999999999 / 100"
definition company_entry_description :: string where "company_entry_description = ''PAYABLES''"

section \<open>The originator and the entries\<close>

definition originator_problems :: "pyval \<Rightarrow> exc + string list" where
  "originator_problems config =
     (let cfg = (case config of PDict d \<Rightarrow> d | _ \<Rightarrow> []);
          name_bad = (case pget cfg ''company_name'' of
              PStr s \<Rightarrow> py_strip s = [] \<or> 16 < length (py_strip s) | _ \<Rightarrow> True);
          id_bad = (case pget cfg ''company_id'' of PStr s \<Rightarrow> length s \<noteq> 10 \<or> \<not> py_isascii s | _ \<Rightarrow> True);
          bank_bad = (case pget cfg ''bank_name'' of PNone \<Rightarrow> False | PStr s \<Rightarrow> 23 < length s | _ \<Rightarrow> True)
      in bind_res
          (case pget cfg ''odfi_routing'' of PStr s \<Rightarrow> validate_aba_routing (Some s) | _ \<Rightarrow> Inr False)
          (\<lambda>routing_ok. Inr
            ((if name_bad then [''company_name''] else []) @
             (if id_bad then [''company_id''] else []) @
             (if \<not> routing_ok then [''odfi_routing''] else []) @
             (if bank_bad then [''bank_name''] else []))))"

definition str_of :: "pyval \<Rightarrow> string" where
  "str_of v = (case v of PStr s \<Rightarrow> s | _ \<Rightarrow> [])"

text \<open>The configuration problems raise \<open>NachaError\<close>, a \<open>ValueError\<close>.\<close>

definition originator_from_settings :: "pyval \<Rightarrow> exc + nacha_originator" where
  "originator_from_settings config =
     bind_res (originator_problems config) (\<lambda>problems.
       if problems \<noteq> [] then Inl (PyError ValueError)
       else let cfg = (case config of PDict d \<Rightarrow> d | _ \<Rightarrow> []) in Inr
         \<lparr> no_company_name = py_strip (str_of (pget cfg ''company_name'')),
           no_company_id = str_of (pget cfg ''company_id''),
           no_odfi_routing = py_despace (str_of (pget cfg ''odfi_routing'')),
           no_bank_name = py_strip (str_of (pget cfg ''bank_name'')) \<rparr>)"

definition account_char :: "char \<Rightarrow> bool" where
  "account_char c = (is_ascii_upper c \<or> is_ascii_digit c)"

definition normalize_account_number :: "pyval \<Rightarrow> string option" where
  "normalize_account_number raw =
     (case raw of
        PStr s \<Rightarrow>
          let cleaned = py_upper (filter (\<lambda>c. \<not> chr_isspace c \<and> c \<noteq> CHR ''-'') s)
          in if list_all account_char cleaned \<and> 1 \<le> length cleaned \<and> length cleaned \<le> 17 then Some cleaned
             else None
      | _ \<Rightarrow> None)"

definition entry_from_bank_details ::
  "pyval \<Rightarrow> rat \<Rightarrow> string \<Rightarrow> string \<Rightarrow> exc + nacha_entry option" where
  "entry_from_bank_details bank_details amt individual_id payee =
     (let bank = (case bank_details of PDict d \<Rightarrow> d | _ \<Rightarrow> [])
      in case pget bank ''routing_number'' of
          PStr routing \<Rightarrow> bind_res (validate_aba_routing (Some routing)) (\<lambda>routing_ok.
            if \<not> routing_ok then Inr None
            else (case normalize_account_number (pget bank ''account_number'') of
                None \<Rightarrow> Inr None
              | Some account \<Rightarrow> Inr (Some
                  \<lparr> ne_routing = py_despace routing,
                    ne_account = account,
                    ne_account_type =
                      (if py_lower (str_of (pget bank ''account_type'')) = ''savings'' then ''savings'' else ''checking''),
                    ne_amount = amt,
                    ne_individual_id = individual_id,
                    ne_name = payee \<rparr>)))
        | _ \<Rightarrow> Inr None)"

section \<open>Fields\<close>

text \<open>The ASCII part of the NFKD form of a code point.\<close>

definition nfkd_ascii :: "char \<Rightarrow> string" where
  "nfkd_ascii c =
     (let k = code c in
      if k < 128 then [c]
      else if k \<in> {160, 168, 175, 180, 184} then '' ''
      else if k = 170 then ''a'' else if k = 186 then ''o''
      else if k = 178 then ''2'' else if k = 179 then ''3'' else if k = 185 then ''1''
      else if k = 188 then ''14'' else if k = 189 then ''12'' else if k = 190 then ''34''
      else if k \<in> {192..197} then ''A'' else if k = 199 then ''C'' else if k \<in> {200..203} then ''E''
      else if k \<in> {204..207} then ''I'' else if k = 209 then ''N'' else if k \<in> {210..214} then ''O''
      else if k \<in> {217..220} then ''U'' else if k = 221 then ''Y''
      else if k \<in> {224..229} then ''a'' else if k = 231 then ''c'' else if k \<in> {232..235} then ''e''
      else if k \<in> {236..239} then ''i'' else if k = 241 then ''n'' else if k \<in> {242..246} then ''o''
      else if k \<in> {249..252} then ''u'' else if k \<in> {253, 255} then ''y''
      else [])"

definition nacha_allowed :: "char \<Rightarrow> bool" where
  "nacha_allowed c = (is_ascii_upper c \<or> is_ascii_digit c \<or> c \<in> set '' .,&/-'' \<or> code c \<in> {39, 40, 41})"

definition text_field :: "string \<Rightarrow> nat \<Rightarrow> string" where
  "text_field v width =
     (let folded = concat (map nfkd_ascii v);
          cleaned = map (\<lambda>c. if nacha_allowed c then c else CHR '' '') (py_upper folded)
      in py_ljust (take width cleaned) width)"

definition num_field :: "int \<Rightarrow> nat \<Rightarrow> nacha_error + string" where
  "num_field v width =
     (if width < length (str_int v) then Inl NachaError else Inr (py_rjust (str_int v) width CHR ''0''))"

definition cents_of :: "rat \<Rightarrow> nacha_error + int" where
  "cents_of amt =
     (let cents = dmul amt 100
      in if of_int \<lfloor>cents\<rfloor> \<noteq> cents then Inl NachaError else Inr \<lfloor>cents\<rfloor>)"

definition nacha_record :: "string list \<Rightarrow> nacha_error + string" where
  "nacha_record parts =
     (if length (concat parts) \<noteq> record_length then Inl (RecordLength (length (concat parts)))
      else Inr (concat parts))"

definition two_digits :: "nat \<Rightarrow> string" where
  "two_digits n = py_rjust (str_nat n) 2 CHR ''0''"

definition strf_ymd :: "civil \<Rightarrow> string" where
  "strf_ymd d = two_digits (c_year d mod 100) @ two_digits (c_month d) @ two_digits (c_day d)"

definition strf_hm :: "civil \<Rightarrow> string" where
  "strf_hm d = two_digits (c_hour d) @ two_digits (c_minute d)"

definition spaces :: "nat \<Rightarrow> string" where
  "spaces n = replicate n CHR '' ''"

section \<open>The records\<close>

definition file_header :: "nacha_originator \<Rightarrow> civil \<Rightarrow> string \<Rightarrow> nacha_error + string" where
  "file_header originator created_at file_id_modifier =
     nacha_record
       [''1'', ''01'', '' '' @ no_odfi_routing originator, take 10 (py_ljust (no_company_id originator) 10),
        strf_ymd created_at, strf_hm created_at, py_upper file_id_modifier, ''094'', ''10'', ''1'',
        text_field (no_bank_name originator) 23, text_field (no_company_name originator) 23, spaces 8]"

definition batch_header :: "nacha_originator \<Rightarrow> string \<Rightarrow> civil \<Rightarrow> nacha_error + string" where
  "batch_header originator sec_code effective_date =
     bind_res (num_field 1 7) (\<lambda>batch.
       nacha_record
         [''5'', ''220'', text_field (no_company_name originator) 16, spaces 20,
          take 10 (py_ljust (no_company_id originator) 10), sec_code, text_field company_entry_description 10,
          spaces 6, strf_ymd effective_date, spaces 3, ''1'', take 8 (no_odfi_routing originator), batch])"

definition entry_detail :: "string \<Rightarrow> int \<Rightarrow> nacha_entry \<Rightarrow> int \<Rightarrow> nacha_error + string" where
  "entry_detail odfi8 sq e cents =
     (if length (ne_routing e) \<le> 8 then Inl RoutingTooShort
      else bind_res (num_field cents 10) (\<lambda>amt.
        bind_res (num_field sq 7) (\<lambda>trace.
          nacha_record
            [''6'', if ne_account_type e = ''savings'' then txn_savings_credit else txn_checking_credit,
             take 8 (ne_routing e), [ne_routing e ! 8], py_ljust (ne_account e) 17, amt,
             text_field (ne_individual_id e) 15, text_field (ne_name e) 22, ''  '', ''0'', odfi8 @ trace])))"

text \<open>The loop over the entries: the running hash and total, and the records so far.\<close>

fun entry_records ::
  "string \<Rightarrow> int \<Rightarrow> nacha_entry list \<Rightarrow> int \<Rightarrow> int \<Rightarrow> string list \<Rightarrow> nacha_error + (int \<times> int \<times> string list)" where
  "entry_records odfi8 sq [] h tot records = Inr (h, tot, records)"
| "entry_records odfi8 sq (e # es) h tot records =
     (if ne_amount e \<le> 0 \<or> nacha_max_entry_amount < ne_amount e then Inl NachaError
      else bind_res (cents_of (ne_amount e)) (\<lambda>cents.
        (case py_int_digits (take 8 (ne_routing e)) of
           None \<Rightarrow> Inl RoutingNotNumeric
         | Some r \<Rightarrow> bind_res (entry_detail odfi8 sq e cents) (\<lambda>line.
             entry_records odfi8 (sq + 1) es (h + int r) (tot + cents) (records @ [line])))))"

definition batch_control :: "nacha_originator \<Rightarrow> int \<Rightarrow> string \<Rightarrow> int \<Rightarrow> nacha_error + string" where
  "batch_control originator count hash10 total_credit =
     bind_res (num_field count 6) (\<lambda>n.
     bind_res (num_field 0 12) (\<lambda>debit.
     bind_res (num_field total_credit 12) (\<lambda>credit.
     bind_res (num_field 1 7) (\<lambda>batch.
       nacha_record
         [''8'', ''220'', n, hash10, debit, credit, take 10 (py_ljust (no_company_id originator) 10),
          spaces 19, spaces 6, take 8 (no_odfi_routing originator), batch]))))"

definition file_control :: "int \<Rightarrow> int \<Rightarrow> string \<Rightarrow> int \<Rightarrow> nacha_error + string" where
  "file_control block_count count hash10 total_credit =
     bind_res (num_field 1 6) (\<lambda>batches.
     bind_res (num_field block_count 6) (\<lambda>blocks.
     bind_res (num_field count 8) (\<lambda>n.
     bind_res (num_field 0 12) (\<lambda>debit.
     bind_res (num_field total_credit 12) (\<lambda>credit.
       nacha_record [''9'', batches, blocks, n, hash10, debit, credit, spaces 39])))))"

section \<open>The file\<close>

definition crlf :: string where
  "crlf = [char_of (13 :: nat), char_of (10 :: nat)]"

definition nacha_records ::
  "nacha_originator \<Rightarrow> nacha_entry list \<Rightarrow> string \<Rightarrow> civil \<Rightarrow> civil \<Rightarrow> string \<Rightarrow> nacha_error + string list" where
  "nacha_records originator entries sec_code effective_date created_at file_id_modifier =
     (if sec_code \<notin> set sec_codes then Inl NachaError
      else if entries = [] then Inl NachaError
      else if \<not> (length file_id_modifier = 1 \<and> py_isalnum file_id_modifier) then Inl NachaError
      else
        bind_res (file_header originator created_at file_id_modifier) (\<lambda>fh.
        bind_res (batch_header originator sec_code effective_date) (\<lambda>bh.
        bind_res (entry_records (take 8 (no_odfi_routing originator)) 1 entries 0 0 [fh, bh])
          (\<lambda>(entry_hash, total_credit, records).
        bind_res (num_field (entry_hash mod 10 ^ 10) 10) (\<lambda>hash10.
        bind_res (batch_control originator (int (length entries)) hash10 total_credit) (\<lambda>bc.
          let rs = records @ [bc];
              block_count = (length rs + 1 + 9) div blocking_factor
          in bind_res (file_control (int block_count) (int (length entries)) hash10 total_credit) (\<lambda>fc.
               let rs = rs @ [fc]
               in Inr (rs @ replicate (block_count * blocking_factor - length rs)
                                (replicate record_length CHR ''9'')))))))))"

text \<open>The records joined by CRLF, with a last CRLF.\<close>

fun py_join :: "string \<Rightarrow> string list \<Rightarrow> string" where
  "py_join sep [] = []"
| "py_join sep [x] = x"
| "py_join sep (x # y # ys) = x @ sep @ py_join sep (y # ys)"

definition build_nacha_file ::
  "nacha_originator \<Rightarrow> nacha_entry list \<Rightarrow> string \<Rightarrow> civil \<Rightarrow> civil \<Rightarrow> string \<Rightarrow> nacha_error + string" where
  "build_nacha_file originator entries sec_code effective_date created_at file_id_modifier =
     bind_res (nacha_records originator entries sec_code effective_date created_at file_id_modifier)
       (\<lambda>rs. Inr (py_join crlf rs @ crlf))"

end
