(* ===== verification/NachaProofs.thy ===== *)
theory NachaProofs
  imports NachaFile
begin

text \<open>
  The bank's reading of a NACHA file, written from the record layout alone, and the proof that
  it reads back what \<open>build_nacha_file\<close> was given: the framing of the records, the fields of
  each entry, and the control totals.
\<close>

section \<open>The reader\<close>

text \<open>A file is read in records of 94 characters, each followed by CRLF.\<close>

function split_records :: "string \<Rightarrow> string list option" where
  "split_records s =
     (if s = [] then Some []
      else if length s < 96 \<or> take 2 (drop 94 s) \<noteq> crlf then None
      else map_option (Cons (take 94 s)) (split_records (drop 96 s)))"
  by pat_completeness auto
termination
  by (relation "measure length") auto

declare split_records.simps [simp del]

definition num_at :: "nat \<Rightarrow> nat \<Rightarrow> string \<Rightarrow> nat option" where
  "num_at p n r = py_int_digits (take n (drop p r))"

type_synonym wire_entry = "string \<times> string \<times> bool \<times> nat"

text \<open>The routing number, the account, whether it is a savings account, and the cents.\<close>

definition read_entry :: "string \<Rightarrow> wire_entry" where
  "read_entry r =
     (take 9 (drop 3 r), takeWhile (\<lambda>c. c \<noteq> CHR '' '') (take 17 (drop 12 r)),
      take 2 (drop 1 r) = ''32'', digits_val (take 10 (drop 29 r)))"

definition wire_hash :: "wire_entry \<Rightarrow> nat" where
  "wire_hash w = digits_val (take 8 (fst w))"

definition wire_cents :: "wire_entry \<Rightarrow> nat" where
  "wire_cents w = snd (snd (snd w))"

text \<open>The file is accepted when both control records agree with the entries they follow.\<close>

definition controls_agree :: "wire_entry list \<Rightarrow> nat \<Rightarrow> string \<Rightarrow> string \<Rightarrow> bool" where
  "controls_agree es blocks bc fc =
     (let n = Some (length es); h = Some (sum_list (map wire_hash es) mod 10 ^ 10);
          t = Some (sum_list (map wire_cents es))
      in num_at 4 6 bc = n \<and> num_at 10 10 bc = h \<and> num_at 20 12 bc = Some 0 \<and> num_at 32 12 bc = t \<and>
         num_at 7 6 fc = Some blocks \<and> num_at 13 8 fc = n \<and> num_at 21 10 fc = h \<and>
         num_at 31 12 fc = Some 0 \<and> num_at 43 12 fc = t)"

definition starts :: "string \<Rightarrow> string \<Rightarrow> bool" where
  "starts p r = (take (length p) r = p)"

definition read_file :: "string \<Rightarrow> wire_entry list option" where
  "read_file s =
     (case split_records s of
        Some (fh # bh # body) \<Rightarrow>
          let es = takeWhile (starts ''6'') body
          in (case dropWhile (starts ''6'') body of
                bc # fc # fill \<Rightarrow>
                  if starts ''101'' fh \<and> starts ''5220'' bh \<and> starts ''8220'' bc \<and> starts ''9000001'' fc \<and>
                     list_all (list_all (\<lambda>c. c = CHR ''9'')) fill \<and> (length body + 2) mod 10 = 0 \<and>
                     controls_agree (map read_entry es) ((length body + 2) div 10) bc fc
                  then Some (map read_entry es) else None
              | _ \<Rightarrow> None)
      | _ \<Rightarrow> None)"

section \<open>Framing\<close>

lemma split_records_framed:
  "list_all (\<lambda>r. length r = 94) rs \<Longrightarrow> split_records (concat (map (\<lambda>r. r @ crlf) rs)) = Some rs"
proof (induction rs)
  case (Cons r rs)
  then show ?case
    by (subst split_records.simps) (simp add: crlf_def)
qed (simp add: split_records.simps)

lemma py_join_framed: "rs \<noteq> [] \<Longrightarrow> py_join sep rs @ sep = concat (map (\<lambda>r. r @ sep) rs)"
  by (induction sep rs rule: py_join.induct) auto

lemma nacha_record_length: "nacha_record ps = Inr r \<Longrightarrow> length r = 94"
  by (auto simp: nacha_record_def record_length_def split: if_splits)

lemma entry_detail_length: "entry_detail o8 sq e cents = Inr r \<Longrightarrow> length r = 94"
  by (auto simp: entry_detail_def bind_res_Inr_iff dest: nacha_record_length split: if_splits)

lemma entry_records_length:
  assumes "entry_records o8 sq es h t rs = Inr (h', t', rs')" and "list_all (\<lambda>r. length r = 94) rs"
  shows "list_all (\<lambda>r. length r = 94) rs'"
  using assms
proof (induction o8 sq es h t rs rule: entry_records.induct)
  case (2 o8 sq e es h t rs)
  from "2.prems"(1) obtain cents r line where
      "cents_of (ne_amount e) = Inr cents" "py_int_digits (take 8 (ne_routing e)) = Some r"
      "entry_detail o8 sq e cents = Inr line"
      "\<not> (ne_amount e \<le> 0 \<or> nacha_max_entry_amount < ne_amount e)"
      "entry_records o8 (sq + 1) es (h + int r) (t + cents) (rs @ [line]) = Inr (h', t', rs')"
    by (auto simp: bind_res_Inr_iff split: if_splits option.splits)
  with "2.IH" "2.prems"(2) entry_detail_length show ?case
    by fastforce
qed simp

lemma nacha_records_framed:
  assumes "nacha_records originator es sec eff cre m = Inr rs"
  shows "rs \<noteq> []" and "list_all (\<lambda>r. length r = 94) rs" and "length rs mod 10 = 0"
proof -
  from assms obtain fh bh h t rs0 h10 bc fc where
      r: "file_header originator cre m = Inr fh" "batch_header originator sec eff = Inr bh"
        "entry_records (take 8 (no_odfi_routing originator)) 1 es 0 0 [fh, bh] = Inr (h, t, rs0)"
        "batch_control originator (int (length es)) h10 t = Inr bc"
        "file_control (int ((length (rs0 @ [bc]) + 1 + 9) div blocking_factor)) (int (length es)) h10 t = Inr fc"
      and rs: "rs = (rs0 @ [bc]) @ [fc] @ replicate ((length (rs0 @ [bc]) + 1 + 9) div blocking_factor * blocking_factor
          - length ((rs0 @ [bc]) @ [fc])) (replicate record_length CHR ''9'')"
    unfolding nacha_records_def
    by (auto simp: Let_def elim!: bind_res_InrE split: if_splits prod.splits)
  have "length fh = 94" "length bh = 94" "length bc = 94" "length fc = 94"
    using r by (auto simp: file_header_def batch_header_def batch_control_def file_control_def
        dest: nacha_record_length elim!: bind_res_InrE)
  moreover from this have "list_all (\<lambda>r. length r = 94) rs0"
    using entry_records_length [OF r(3)] by simp
  ultimately show "list_all (\<lambda>r. length r = 94) rs"
    by (auto simp: rs list_all_iff record_length_def)
  let ?n = "length rs0 + 2"
  have le: "?n \<le> (?n + 9) div 10 * 10"
    by presburger
  have "length rs = ?n + ((?n + 9) div 10 * 10 - ?n)"
    by (simp add: rs blocking_factor_def)
  with le have "length rs = (?n + 9) div 10 * 10"
    by (metis le_add_diff_inverse)
  then show "length rs mod 10 = 0"
    by (metis mod_mult_self2_is_0)
  show "rs \<noteq> []"
    by (simp add: rs)
qed

text \<open>
  Every file the builder returns is a whole number of blocks of ten records of
  exactly 94 characters, each followed by CRLF, so that a reader of the format can frame it;
  whatever the originator and the entries are, a field that does not fit raises.
\<close>

theorem nacha_file_framed:
  assumes "build_nacha_file originator es sec eff cre m = Inr content"
  shows "\<exists>rs. split_records content = Some rs \<and> rs \<noteq> [] \<and> length rs mod 10 = 0 \<and>
    length content = 96 * length rs"
proof -
  from assms obtain rs where rs: "nacha_records originator es sec eff cre m = Inr rs" "content = py_join crlf rs @ crlf"
    by (auto simp: build_nacha_file_def elim: bind_res_InrE)
  note f = nacha_records_framed [OF rs(1)]
  have c: "content = concat (map (\<lambda>r. r @ crlf) rs)"
    using f(1) rs(2) py_join_framed by simp
  have "length (concat (map (\<lambda>r. r @ crlf) rs)) = 96 * length rs"
    using f(2) by (induction rs) (simp_all add: crlf_def)
  with c f split_records_framed show ?thesis
    by metis
qed

section \<open>Fields\<close>

lemma num_field_fits:
  assumes "0 \<le> v" and "v < 10 ^ w" and "0 < w"
  obtains f where "num_field v w = Inr f" and "length f = w" and "py_int_digits f = Some (nat v)"
proof -
  have "nat v < 10 ^ w"
    using assms by (simp add: nat_less_iff)
  then have "length (str_nat (nat v)) \<le> w"
    using assms(3) by (rule str_nat_length)
  with assms(1) have "num_field v w = Inr (py_rjust (str_nat (nat v)) w CHR ''0'')"
    by (simp add: num_field_def str_int_def)
  with \<open>length (str_nat (nat v)) \<le> w\<close> show thesis
    using that by (simp add: py_rjust_length py_int_digits_rjust)
qed

lemma text_field_length [simp]: "length (text_field v w) = w"
  by (simp add: text_field_def Let_def py_ljust_length)

lemma spaces_length [simp]: "length (spaces n) = n"
  by (simp add: spaces_def)

lemma two_digits_length: "n < 100 \<Longrightarrow> length (two_digits n) = 2"
  using str_nat_length [of n 2] by (simp add: two_digits_def py_rjust_length)

definition civil_ok :: "civil \<Rightarrow> bool" where
  "civil_ok d = (c_month d \<le> 12 \<and> c_day d \<le> 31 \<and> c_hour d < 24 \<and> c_minute d < 60)"

lemma strf_length: "civil_ok d \<Longrightarrow> length (strf_ymd d) = 6" "civil_ok d \<Longrightarrow> length (strf_hm d) = 4"
  by (simp_all add: civil_ok_def strf_ymd_def strf_hm_def two_digits_length)

lemma nacha_record_ok: "length (concat ps) = 94 \<Longrightarrow> nacha_record ps = Inr (concat ps)"
  by (simp add: nacha_record_def record_length_def)

lemma cents_money:
  assumes "money_col a"
  shows "cents_of a = Inr \<lfloor>a * 100\<rfloor>" and "of_int \<lfloor>a * 100\<rfloor> = a * 100"
proof -
  obtain i where i: "a = of_int i / 10 ^ 2" "\<bar>i\<bar> < 10 ^ 15"
    using assms by (rule money_colE)
  then have "a * 100 = of_int i"
    by simp
  moreover have "ctx (of_int i) = of_int i"
    using i(2) by (intro ctx_exact [of _ i 0]) simp_all
  ultimately show "cents_of a = Inr \<lfloor>a * 100\<rfloor>" "of_int \<lfloor>a * 100\<rfloor> = a * 100"
    by (simp_all add: cents_of_def dmul_def Let_def)
qed

section \<open>Entries\<close>

text \<open>What \<open>entry_from_bank_details\<close> establishes of the entry it returns.\<close>

definition entry_ready :: "nacha_entry \<Rightarrow> bool" where
  "entry_ready e =
     (list_all is_ascii_digit (ne_routing e) \<and> length (ne_routing e) = 9 \<and>
      list_all account_char (ne_account e) \<and> length (ne_account e) \<le> 17)"

lemma aba_ready:
  assumes "validate_aba_routing (Some s) = Inr True"
  shows "list_all is_ascii_digit (py_despace s)" and "length (py_despace s) = 9"
proof -
  have d: "ints_of t = Inr ds \<Longrightarrow> list_all is_ascii_digit t" for t ds
    by (induction t arbitrary: ds) (auto simp: int_of_char_def elim!: bind_res_InrE split: if_splits)
  show "list_all is_ascii_digit (py_despace s)" "length (py_despace s) = 9"
    using assms by (auto simp: validate_aba_routing_def Let_def or_str_def elim!: bind_res_InrE dest: d split: if_splits)
qed

lemma account_normal:
  "normalize_account_number v = Some a \<Longrightarrow> list_all account_char a \<and> length a \<le> 17"
  by (cases v) (simp_all add: normalize_account_number_def Let_def split: if_splits)

lemma entry_from_bank_ready:
  assumes "entry_from_bank_details bank amt ident payee = Inr (Some e)"
  shows "entry_ready e"
proof -
  define b where "b = (case bank of PDict d \<Rightarrow> d | _ \<Rightarrow> [])"
  note a = assms [unfolded entry_from_bank_details_def Let_def, folded b_def]
  obtain routing where r: "pget b ''routing_number'' = PStr routing"
    using a by (cases "pget b ''routing_number''") simp_all
  then obtain ok where v: "validate_aba_routing (Some routing) = Inr ok"
    using a by (simp, elim bind_res_InrE) blast
  moreover have ok
    using a r v by (cases ok) simp_all
  moreover obtain acc where "normalize_account_number (pget b ''account_number'') = Some acc"
    using a r v \<open>ok\<close> by (cases "normalize_account_number (pget b ''account_number'')") simp_all
  moreover from this have "ne_routing e = py_despace routing" "ne_account e = acc"
    using a r v \<open>ok\<close> by auto
  ultimately show ?thesis
    using aba_ready [of routing] account_normal by (simp add: entry_ready_def)
qed

definition entry_cents :: "nacha_entry \<Rightarrow> nat" where
  "entry_cents e = nat \<lfloor>ne_amount e * 100\<rfloor>"

definition wire_of :: "nacha_entry \<Rightarrow> wire_entry" where
  "wire_of e = (ne_routing e, ne_account e, ne_account_type e = ''savings'', entry_cents e)"

definition amount_ok :: "nacha_entry \<Rightarrow> bool" where
  "amount_ok e = (money_col (ne_amount e) \<and> 0 < ne_amount e \<and> ne_amount e \<le> nacha_max_entry_amount)"

lemma cents_bounds:
  assumes "amount_ok e"
  shows "0 < \<lfloor>ne_amount e * 100\<rfloor>" and "\<lfloor>ne_amount e * 100\<rfloor> < 10 ^ 10"
proof -
  have "of_int \<lfloor>ne_amount e * 100\<rfloor> = ne_amount e * 100"
    using assms by (simp add: amount_ok_def cents_money)
  moreover have "0 < ne_amount e * 100" "ne_amount e * 100 < 10 ^ 10"
    using assms by (simp_all add: amount_ok_def nacha_max_entry_amount_def)
  ultimately have "(of_int 0 :: rat) < of_int \<lfloor>ne_amount e * 100\<rfloor>" "of_int \<lfloor>ne_amount e * 100\<rfloor> < (of_int (10 ^ 10) :: rat)"
    by (simp_all only:) simp_all
  then show "0 < \<lfloor>ne_amount e * 100\<rfloor>" "\<lfloor>ne_amount e * 100\<rfloor> < 10 ^ 10"
    by (simp_all only: of_int_less_iff)
qed

lemma account_field: "list_all account_char a \<Longrightarrow> takeWhile (\<lambda>c. c \<noteq> CHR '' '') (py_ljust a n) = a"
proof -
  assume "list_all account_char a"
  then have "\<forall>c \<in> set a. c \<noteq> CHR '' ''"
    by (auto simp: list_all_iff account_char_def is_ascii_upper_def is_ascii_digit_def)
  then show ?thesis
    by (auto simp: py_ljust_def takeWhile_append2)
qed

lemma entry_detail_reads:
  assumes e: "entry_ready e" and c: "0 \<le> cents" "cents < 10 ^ 10" and q: "0 \<le> sq" "sq < 10 ^ 7" and o8: "length o8 = 8"
  obtains r where "entry_detail o8 sq e cents = Inr r" and "length r = 94" and "starts ''6'' r"
    and "read_entry r = (ne_routing e, ne_account e, ne_account_type e = ''savings'', nat cents)"
proof -
  obtain f where f: "num_field cents 10 = Inr f" "length f = 10" "py_int_digits f = Some (nat cents)"
    by (rule num_field_fits [OF c]) simp_all
  obtain g where g: "num_field sq 7 = Inr g" "length g = 7"
    by (rule num_field_fits [OF q]) simp_all
  have dv: "digits_val f = nat cents"
    using f(3) by (auto simp: py_int_digits_def split: if_splits)
  have l: "length (ne_routing e) = 9" "length (ne_account e) \<le> 17"
    using e by (simp_all add: entry_ready_def)
  have r9: "take 8 (ne_routing e) @ [ne_routing e ! 8] = ne_routing e"
    using l(1) take_Suc_conv_app_nth [of 8 "ne_routing e"] by simp
  define txn where "txn = (if ne_account_type e = ''savings'' then txn_savings_credit else txn_checking_credit)"
  have txn: "length txn = 2" "txn = ''32'' \<longleftrightarrow> ne_account_type e = ''savings''"
    by (simp_all add: txn_def txn_savings_credit_def txn_checking_credit_def)
  define r where "r = ''6'' @ txn @ ne_routing e @ py_ljust (ne_account e) 17 @ f @ text_field (ne_individual_id e) 15 @
    text_field (ne_name e) 22 @ ''  '' @ ''0'' @ o8 @ g"
  have r_len: "length r = 94"
    using l f(2) g(2) o8 txn(1) by (simp add: r_def py_ljust_length)
  have cc: "concat [''6'', txn, take 8 (ne_routing e), [ne_routing e ! 8], py_ljust (ne_account e) 17, f,
      text_field (ne_individual_id e) 15, text_field (ne_name e) 22, ''  '', ''0'', o8 @ g] = r"
    unfolding r_def by (subst r9 [symmetric]) simp
  have "entry_detail o8 sq e cents = Inr r"
    using l(1) f(1) g(1) cc r_len by (simp add: entry_detail_def nacha_record_ok flip: txn_def del: concat.simps)
  moreover have "read_entry r = (ne_routing e, ne_account e, ne_account_type e = ''savings'', nat cents)"
    using l f(2) txn e by (simp add: r_def read_entry_def py_ljust_length account_field entry_ready_def dv)
  moreover have "starts ''6'' r"
    by (simp add: r_def starts_def)
  ultimately show thesis
    using that r_len by blast
qed

section \<open>The whole file\<close>

text \<open>The loop adds up the hash and the total, and appends one readable record per entry.\<close>

lemma routing_prefix:
  assumes "entry_ready e"
  shows "py_int_digits (take 8 (ne_routing e)) = Some (wire_hash (wire_of e))"
proof -
  have "list_all is_ascii_digit (take 8 (ne_routing e))" "take 8 (ne_routing e) \<noteq> []"
    using assms by (auto simp: entry_ready_def list_all_iff dest: in_set_takeD)
  then show ?thesis
    by (simp add: py_int_digits_def wire_hash_def wire_of_def)
qed

definition reads_as :: "nacha_entry \<Rightarrow> string \<Rightarrow> bool" where
  "reads_as e r = (length r = 94 \<and> starts ''6'' r \<and> read_entry r = wire_of e)"

lemma entry_records_reads:
  assumes "list_all entry_ready es" and "list_all amount_ok es" and "length o8 = 8"
    and "0 \<le> sq" and "sq + int (length es) \<le> 10 ^ 7"
  obtains ls where "list_all2 reads_as es ls"
    and "entry_records o8 sq es h t rs =
      Inr (h + int (sum_list (map (\<lambda>e. wire_hash (wire_of e)) es)), t + int (sum_list (map entry_cents es)), rs @ ls)"
  using assms
proof (induction es arbitrary: sq h t rs thesis)
  case (Cons e es)
  note e = \<open>list_all entry_ready (e # es)\<close> \<open>list_all amount_ok (e # es)\<close>
  let ?c = "\<lfloor>ne_amount e * 100\<rfloor>"
  have ok: "entry_ready e" "amount_ok e"
    using e by simp_all
  note b = cents_bounds [OF ok(2)]
  have sq: "0 \<le> sq" "sq < 10 ^ 7"
    using Cons.prems(5,6) by simp_all
  obtain r where r: "entry_detail o8 sq e ?c = Inr r" "reads_as e r"
    using entry_detail_reads [OF ok(1) less_imp_le [OF b(1)] b(2) sq Cons.prems(4)]
    by (auto simp: reads_as_def wire_of_def entry_cents_def)
  obtain ls where ls: "list_all2 reads_as es ls"
    "entry_records o8 (sq + 1) es (h + int (wire_hash (wire_of e))) (t + ?c) (rs @ [r]) =
      Inr (h + int (wire_hash (wire_of e)) + int (sum_list (map (\<lambda>e. wire_hash (wire_of e)) es)),
        t + ?c + int (sum_list (map entry_cents es)), (rs @ [r]) @ ls)"
    by (rule Cons.IH [of "sq + 1" "h + int (wire_hash (wire_of e))" "t + ?c" "rs @ [r]"])
      (use Cons.prems e sq in simp_all)
  have "entry_records o8 sq (e # es) h t rs =
      entry_records o8 (sq + 1) es (h + int (wire_hash (wire_of e))) (t + ?c) (rs @ [r])"
    using ok(2) cents_money(1) [of "ne_amount e"] routing_prefix [OF ok(1)] r(1)
    by (simp add: amount_ok_def)
  moreover have "?c = int (entry_cents e)"
    using b(1) by (simp add: entry_cents_def)
  ultimately have "entry_records o8 sq (e # es) h t rs =
      Inr (h + int (sum_list (map (\<lambda>e. wire_hash (wire_of e)) (e # es))),
        t + int (sum_list (map entry_cents (e # es))), rs @ r # ls)"
    using ls(2) by (simp del: entry_records.simps)
  with ls(1) r(2) Cons.prems(1) [of "r # ls"] show ?case
    by (simp del: entry_records.simps)
qed simp

lemma nacha_record_reads:
  assumes "length (concat ps) = 94" and "starts p (concat ps)"
  obtains r where "nacha_record ps = Inr r" and "length r = 94" and "starts p r" and "r = concat ps"
  using assms nacha_record_ok by blast

definition originator_ready :: "nacha_originator \<Rightarrow> bool" where
  "originator_ready orig = (length (no_odfi_routing orig) = 9)"

lemma originator_from_settings_ready:
  assumes "originator_from_settings config = Inr orig"
  shows "originator_ready orig"
proof -
  define b where "b = (case config of PDict d \<Rightarrow> d | _ \<Rightarrow> [])"
  have p: "originator_problems config = Inr []"
    and o: "no_odfi_routing orig = py_despace (str_of (pget b ''odfi_routing''))"
    using assms by (auto simp: originator_from_settings_def b_def Let_def elim!: bind_res_InrE split: if_splits)
  from p obtain s where s: "pget b ''odfi_routing'' = PStr s" "validate_aba_routing (Some s) = Inr True"
    unfolding originator_problems_def Let_def b_def [symmetric]
    by (cases "pget b ''odfi_routing''") (auto elim!: bind_res_InrE split: if_splits)
  show ?thesis
    using aba_ready(2) [OF s(2)] s(1) o by (simp add: originator_ready_def str_of_def)
qed

lemma ljust_width [simp]: "min (length (py_ljust s w)) w = w"
  by (simp add: py_ljust_def)

lemma file_header_reads:
  assumes "originator_ready orig" and "civil_ok d" and "length (py_upper m) = 1"
  obtains r where "file_header orig d m = Inr r" and "length r = 94" and "starts ''101'' r"
  by (rule nacha_record_reads [where p = "''101''" and ps = "[''1'', ''01'', '' '' @ no_odfi_routing orig,
        take 10 (py_ljust (no_company_id orig) 10), strf_ymd d, strf_hm d, py_upper m, ''094'', ''10'', ''1'',
        text_field (no_bank_name orig) 23, text_field (no_company_name orig) 23, spaces 8]"])
    (use assms that in \<open>simp_all add: file_header_def originator_ready_def strf_length starts_def\<close>)

lemma batch_header_reads:
  assumes "originator_ready orig" and "civil_ok d" and "sec \<in> set sec_codes"
  obtains r where "batch_header orig sec d = Inr r" and "length r = 94" and "starts ''5220'' r"
proof -
  obtain f where f: "num_field 1 7 = Inr f" "length f = 7"
    by (rule num_field_fits [of 1 7]) simp_all
  have sec: "length sec = 3"
    using assms(3) by (auto simp: sec_codes_def)
  show thesis
    by (rule nacha_record_reads [where p = "''5220''" and ps = "[''5'', ''220'', text_field (no_company_name orig) 16,
          spaces 20, take 10 (py_ljust (no_company_id orig) 10), sec, text_field company_entry_description 10,
          spaces 6, strf_ymd d, spaces 3, ''1'', take 8 (no_odfi_routing orig), f]"])
      (use assms(1,2) sec f that in \<open>simp_all add: batch_header_def originator_ready_def strf_length starts_def\<close>)
qed

definition batch_control_reads :: "nat \<Rightarrow> nat \<Rightarrow> nat \<Rightarrow> string \<Rightarrow> bool" where
  "batch_control_reads n h t r =
     (length r = 94 \<and> starts ''8220'' r \<and> num_at 4 6 r = Some n \<and> num_at 10 10 r = Some h \<and>
      num_at 20 12 r = Some 0 \<and> num_at 32 12 r = Some t)"

definition file_control_reads :: "nat \<Rightarrow> nat \<Rightarrow> nat \<Rightarrow> nat \<Rightarrow> string \<Rightarrow> bool" where
  "file_control_reads k n h t r =
     (length r = 94 \<and> starts ''9000001'' r \<and> num_at 7 6 r = Some k \<and> num_at 13 8 r = Some n \<and>
      num_at 21 10 r = Some h \<and> num_at 31 12 r = Some 0 \<and> num_at 43 12 r = Some t)"

lemma nat_field_fits:
  assumes "n < 10 ^ w" and "0 < w"
  obtains f where "num_field (int n) w = Inr f" and "length f = w" and "py_int_digits f = Some n"
  by (rule num_field_fits [of "int n" w]) (use assms in \<open>simp_all add: nat_less_iff flip: of_nat_power\<close>)

lemma batch_control_ok:
  assumes "originator_ready orig" and "n < 10 ^ 6" and "t < 10 ^ 12"
    and h: "length h10 = 10" "py_int_digits h10 = Some h"
  obtains r where "batch_control orig (int n) h10 (int t) = Inr r" and "batch_control_reads n h t r"
proof -
  obtain a where a: "num_field (int n) 6 = Inr a" "length a = 6" "py_int_digits a = Some n"
    by (rule nat_field_fits [OF assms(2)]) simp_all
  obtain b where b: "num_field 0 12 = Inr b" "length b = 12" "py_int_digits b = Some 0"
    by (rule nat_field_fits [of 0 12]) simp_all
  obtain c where c: "num_field (int t) 12 = Inr c" "length c = 12" "py_int_digits c = Some t"
    by (rule nat_field_fits [OF assms(3)]) simp_all
  obtain d where d: "num_field 1 7 = Inr d" "length d = 7"
    by (rule nat_field_fits [of 1 7]) simp_all
  show thesis
    by (rule nacha_record_reads [where p = "''8220''" and ps = "[''8'', ''220'', a, h10, b, c,
          take 10 (py_ljust (no_company_id orig) 10), spaces 19, spaces 6, take 8 (no_odfi_routing orig), d]"])
      (use assms(1) a b c d h that in
        \<open>simp_all add: batch_control_def originator_ready_def starts_def batch_control_reads_def num_at_def\<close>)
qed

lemma file_control_ok:
  assumes "k < 10 ^ 6" and "n < 10 ^ 8" and "t < 10 ^ 12"
    and h: "length h10 = 10" "py_int_digits h10 = Some h"
  obtains r where "file_control (int k) (int n) h10 (int t) = Inr r" and "file_control_reads k n h t r"
proof -
  have one: "num_field 1 6 = Inr ''000001''"
    by code_simp
  obtain a where a: "num_field (int k) 6 = Inr a" "length a = 6" "py_int_digits a = Some k"
    by (rule nat_field_fits [OF assms(1)]) simp_all
  obtain n' where n': "num_field (int n) 8 = Inr n'" "length n' = 8" "py_int_digits n' = Some n"
    by (rule nat_field_fits [OF assms(2)]) simp_all
  obtain b where b: "num_field 0 12 = Inr b" "length b = 12" "py_int_digits b = Some 0"
    by (rule nat_field_fits [of 0 12]) simp_all
  obtain c where c: "num_field (int t) 12 = Inr c" "length c = 12" "py_int_digits c = Some t"
    by (rule nat_field_fits [OF assms(3)]) simp_all
  show thesis
    by (rule nacha_record_reads [where p = "''9000001''" and ps = "[''9'', ''000001'', a, n', h10, b, c, spaces 39]"])
      (use a b c n' h that in \<open>simp_all add: file_control_def one starts_def file_control_reads_def num_at_def\<close>)
qed

definition exported_total :: "nacha_entry list \<Rightarrow> nat" where
  "exported_total es = sum_list (map entry_cents es)"

definition exported_hash :: "nacha_entry list \<Rightarrow> nat" where
  "exported_hash es = sum_list (map (\<lambda>e. wire_hash (wire_of e)) es)"

text \<open>What the endpoint hands the builder.\<close>

definition export_ready ::
  "nacha_originator \<Rightarrow> nacha_entry list \<Rightarrow> string \<Rightarrow> civil \<Rightarrow> civil \<Rightarrow> string \<Rightarrow> bool" where
  "export_ready orig es sec eff cre m =
     (originator_ready orig \<and> list_all entry_ready es \<and> list_all amount_ok es \<and> es \<noteq> [] \<and>
      length es < 10 ^ 6 \<and> exported_total es < 10 ^ 12 \<and> sec \<in> set sec_codes \<and> civil_ok eff \<and> civil_ok cre \<and>
      length m = 1 \<and> py_isalnum m \<and> length (py_upper m) = 1)"

lemma nacha_records_reads:
  assumes ready: "export_ready orig es sec eff cre m"
  defines "k \<equiv> (length es + 13) div 10"
  obtains fh bh ls bc fc where
    "nacha_records orig es sec eff cre m = Inr (fh # bh # ls @ bc # fc # replicate (k * 10 - (length es + 4)) (replicate 94 CHR ''9''))"
    and "starts ''101'' fh" and "starts ''5220'' bh" and "list_all2 reads_as es ls"
    and "batch_control_reads (length es) (exported_hash es mod 10 ^ 10) (exported_total es) bc"
    and "file_control_reads k (length es) (exported_hash es mod 10 ^ 10) (exported_total es) fc"
proof -
  note r = ready [unfolded export_ready_def]
  obtain fh where fh: "file_header orig cre m = Inr fh" "length fh = 94" "starts ''101'' fh"
    by (rule file_header_reads [of orig cre m]) (use r in simp_all)
  obtain bh where bh: "batch_header orig sec eff = Inr bh" "length bh = 94" "starts ''5220'' bh"
    by (rule batch_header_reads [of orig eff sec]) (use r in simp_all)
  obtain ls where ls: "list_all2 reads_as es ls"
    "entry_records (take 8 (no_odfi_routing orig)) 1 es 0 0 [fh, bh] =
      Inr (0 + int (exported_hash es), 0 + int (exported_total es), [fh, bh] @ ls)"
    unfolding exported_hash_def exported_total_def
    by (rule entry_records_reads [of es "take 8 (no_odfi_routing orig)" 1 0 0 "[fh, bh]"])
      (use r in \<open>simp_all add: originator_ready_def\<close>)
  obtain h10 where h10: "num_field (int (exported_hash es mod 10 ^ 10)) 10 = Inr h10" "length h10 = 10"
    "py_int_digits h10 = Some (exported_hash es mod 10 ^ 10)"
    by (rule nat_field_fits [of "exported_hash es mod 10 ^ 10" 10]) simp_all
  obtain bc where bc: "batch_control orig (int (length es)) h10 (int (exported_total es)) = Inr bc"
    "batch_control_reads (length es) (exported_hash es mod 10 ^ 10) (exported_total es) bc"
    by (rule batch_control_ok [OF _ _ _ h10(2,3), of orig "length es" "exported_total es"]) (use r in simp_all)
  have kn: "length es < 10 ^ 8" "k < 10 ^ 6"
    using r by (simp_all add: k_def div_less_iff_less_mult)
  obtain fc where fc: "file_control (int k) (int (length es)) h10 (int (exported_total es)) = Inr fc"
    "file_control_reads k (length es) (exported_hash es mod 10 ^ 10) (exported_total es) fc"
    by (rule file_control_ok [OF kn(2,1) _ h10(2,3), of "exported_total es"]) (use r in simp_all)
  have len: "length ls = length es"
    using ls(1) by (simp add: list_all2_lengthD)
  have k: "k = 1 + (3 + length es) div 10"
    unfolding k_def by presburger
  have h: "num_field (int (exported_hash es) mod 10 ^ 10) 10 = Inr h10"
    using h10(1) by (simp add: zmod_int)
  have "nacha_records orig es sec eff cre m = Inr (fh # bh # ls @ bc # fc #
      replicate (k * 10 - (length es + 4)) (replicate 94 CHR ''9''))"
    using r fh(1) bh(1) ls(2) h bc(1) fc(1) [unfolded k]
    by (simp add: nacha_records_def Let_def blocking_factor_def record_length_def len k)
  with that fh(3) bh(3) ls(1) bc(2) fc(2) show thesis
    by blast
qed

lemma reads_as_all: "list_all2 reads_as es ls \<Longrightarrow> map read_entry ls = map wire_of es \<and> list_all (starts ''6'') ls \<and>
    list_all (\<lambda>r. length r = 94) ls"
  by (induction es ls rule: list_all2_induct) (simp_all add: reads_as_def)

lemma starts_other: "starts (c # p) r \<Longrightarrow> c \<noteq> d \<Longrightarrow> \<not> starts [d] r"
  by (cases r) (simp_all add: starts_def)

lemma read_file_records:
  assumes ls: "list_all2 reads_as es ls" and h: "starts ''101'' fh" "starts ''5220'' bh" "length fh = 94" "length bh = 94"
    and bc: "batch_control_reads (length es) (exported_hash es mod 10 ^ 10) (exported_total es) bc"
    and fc: "file_control_reads k (length es) (exported_hash es mod 10 ^ 10) (exported_total es) fc"
    and k: "length es + 4 + f = k * 10"
  shows "read_file (concat (map (\<lambda>r. r @ crlf) (fh # bh # ls @ bc # fc # replicate f (replicate 94 CHR ''9'')))) =
    Some (map wire_of es)"
proof -
  let ?rs = "fh # bh # ls @ bc # fc # replicate f (replicate 94 CHR ''9'')"
  note l = reads_as_all [OF ls]
  have len: "length ls = length es"
    using ls by (simp add: list_all2_lengthD)
  have "list_all (\<lambda>r. length r = 94) ?rs"
    using l h bc fc by (auto simp: batch_control_reads_def file_control_reads_def list_all_iff)
  then have split: "split_records (concat (map (\<lambda>r. r @ crlf) ?rs)) = Some ?rs"
    by (rule split_records_framed)
  have "\<not> starts ''6'' bc"
    using bc by (intro starts_other [of "CHR ''8''"]) (auto simp: batch_control_reads_def)
  then have tw: "takeWhile (starts ''6'') (ls @ bc # t) = ls" "dropWhile (starts ''6'') (ls @ bc # t) = bc # t" for t
    using l by (simp_all add: list_all_iff takeWhile_append2 dropWhile_append2)
  have n: "length (ls @ bc # fc # replicate f (replicate 94 CHR ''9'')) + 2 = k * 10"
    using k len by simp
  have "sum_list (map wire_cents (map wire_of es)) = exported_total es"
    "sum_list (map wire_hash (map wire_of es)) = exported_hash es"
    by (simp_all add: exported_total_def exported_hash_def wire_cents_def wire_of_def comp_def)
  then have "controls_agree (map wire_of es) k bc fc"
    using bc fc by (simp add: controls_agree_def batch_control_reads_def file_control_reads_def)
  then show ?thesis
    using l h(1,2) bc fc unfolding read_file_def split
    by (simp add: tw n [simplified] batch_control_reads_def file_control_reads_def list_all_iff)
qed

lemma export_ready_reads:
  assumes "export_ready orig es sec eff cre m"
  shows "\<exists>content. build_nacha_file orig es sec eff cre m = Inr content \<and> read_file content = Some (map wire_of es)"
proof -
  define k where "k = (length es + 13) div 10"
  define f where "f = k * 10 - (length es + 4)"
  obtain fh bh ls bc fc where
      r: "nacha_records orig es sec eff cre m = Inr (fh # bh # ls @ bc # fc # replicate f (replicate 94 CHR ''9''))"
    and h: "starts ''101'' fh" "starts ''5220'' bh" and ls: "list_all2 reads_as es ls"
    and c: "batch_control_reads (length es) (exported_hash es mod 10 ^ 10) (exported_total es) bc"
      "file_control_reads k (length es) (exported_hash es mod 10 ^ 10) (exported_total es) fc"
    using nacha_records_reads [OF assms] unfolding f_def k_def by metis
  have "length fh = 94" "length bh = 94"
    using nacha_records_framed(2) [OF r] by simp_all
  moreover have "length es + 4 + f = k * 10"
  proof -
    have "length es + 4 \<le> k * 10"
      unfolding k_def by presburger
    then show ?thesis
      by (simp add: f_def)
  qed
  ultimately have "read_file (concat (map (\<lambda>r. r @ crlf) (fh # bh # ls @ bc # fc # replicate f (replicate 94 CHR ''9'')))) =
      Some (map wire_of es)"
    using read_file_records [OF ls h _ _ c] by blast
  with r show ?thesis
    by (simp add: build_nacha_file_def py_join_framed del: py_join.simps concat.simps list.map)
qed

text \<open>
  Property C28. What the customer uploads to its bank carries exactly the payments it was built
  from: for an originator \<open>originator_from_settings\<close> accepts and at least one entry made by
  \<open>entry_from_bank_details\<close> for a stored amount between one cent and the largest ACH entry,
  within the count and total the control fields hold, the builder returns a file, and a reader
  of the record layout frames it, finds both control records in agreement with the entries
  (count, hash, credit and debit totals, blocks), and reads back every routing number, account
  number, account type and amount, in order.
\<close>

theorem nacha_file_reads_back:
  assumes "originator_from_settings config = Inr orig"
    and "list_all2 (\<lambda>(bank, ident, payee) e. entry_from_bank_details bank (ne_amount e) ident payee = Inr (Some e)) banks es"
    and "list_all amount_ok es" and "es \<noteq> []" and "length es < 10 ^ 6" and "sum_list (map entry_cents es) < 10 ^ 12"
    and "sec \<in> set sec_codes" and "civil_ok eff" and "civil_ok cre"
    and "length m = 1" and "py_isalnum m" and "length (py_upper m) = 1"
  shows "\<exists>content. build_nacha_file orig es sec eff cre m = Inr content \<and>
    read_file content = Some (map (\<lambda>e. (ne_routing e, ne_account e, ne_account_type e = ''savings'', entry_cents e)) es)"
proof -
  have "list_all entry_ready es"
    using assms(2) by (induction banks es rule: list_all2_induct) (auto dest: entry_from_bank_ready)
  then have "export_ready orig es sec eff cre m"
    using assms originator_from_settings_ready by (simp add: export_ready_def exported_total_def)
  then show ?thesis
    using export_ready_reads by (simp add: wire_of_def [abs_def])
qed

section \<open>Witnesses\<close>

definition sample_config :: pyval where
  "sample_config = PDict [(''company_name'', PStr ''ACME LLC''), (''company_id'', PStr ''1234567890''),
     (''odfi_routing'', PStr ''021 000 021'')]"

definition sample_originator :: nacha_originator where
  "sample_originator = \<lparr> no_company_name = ''ACME LLC'', no_company_id = ''1234567890'', no_odfi_routing = ''021000021'',
     no_bank_name = [] \<rparr>"

definition sample_bank :: pyval where
  "sample_bank = PDict [(''routing_number'', PStr ''011401533''), (''account_number'', PStr ''12-345 a''),
     (''account_type'', PStr ''Savings'')]"

definition sample_entry :: nacha_entry where
  "sample_entry = \<lparr> ne_routing = ''011401533'', ne_account = ''12345A'', ne_account_type = ''savings'',
     ne_amount = 12345 / 100, ne_individual_id = ''INV-1'', ne_name = ''Vendor'' \<rparr>"

definition sample_day :: civil where
  "sample_day = \<lparr> c_year = 2026, c_month = 7, c_day = 4, c_hour = 12, c_minute = 5 \<rparr>"

lemma sample_conditions:
  "originator_from_settings sample_config = Inr sample_originator"
  "list_all2 (\<lambda>(bank, ident, payee) e. entry_from_bank_details bank (ne_amount e) ident payee = Inr (Some e))
     [(sample_bank, ''INV-1'', ''Vendor'')] [sample_entry]"
  "list_all amount_ok [sample_entry]" "civil_ok sample_day" "length (py_upper ''A'') = 1" "py_isalnum ''A''"
  "''CCD'' \<in> set sec_codes" "sum_list (map entry_cents [sample_entry]) = 12345"
proof -
  show "originator_from_settings sample_config = Inr sample_originator" by code_simp
  show "list_all2 (\<lambda>(bank, ident, payee) e. entry_from_bank_details bank (ne_amount e) ident payee = Inr (Some e))
     [(sample_bank, ''INV-1'', ''Vendor'')] [sample_entry]" by code_simp
  show "list_all amount_ok [sample_entry]" 
    by (simp add: sample_entry_def amount_ok_def money_col_def has_scale_def nacha_max_entry_amount_def)
  show "civil_ok sample_day" "length (py_upper ''A'') = 1" "py_isalnum ''A''" "''CCD'' \<in> set sec_codes" by code_simp+
  show "sum_list (map entry_cents [sample_entry]) = 12345"
    by (simp add: sample_entry_def entry_cents_def)
qed

theorem nacha_file_reads_back_witness:
  "\<exists>content. build_nacha_file sample_originator [sample_entry] ''CCD'' sample_day sample_day ''A'' = Inr content \<and>
    read_file content = Some [(''011401533'', ''12345A'', True, 12345)]"
proof -
  have "\<exists>content. build_nacha_file sample_originator [sample_entry] ''CCD'' sample_day sample_day ''A'' = Inr content \<and>
    read_file content = Some (map (\<lambda>e. (ne_routing e, ne_account e, ne_account_type e = ''savings'', entry_cents e)) [sample_entry])"
    by (rule nacha_file_reads_back [OF sample_conditions(1,2,3)])
      (simp_all only: sample_conditions, simp_all)
  then show ?thesis
    by (simp add: sample_entry_def entry_cents_def)
qed

lemma sample_ready: "export_ready sample_originator [sample_entry] ''CCD'' sample_day sample_day ''A''"
  using sample_conditions(3-8)
  by (simp add: export_ready_def exported_total_def sample_originator_def originator_ready_def)
    (simp add: entry_ready_def sample_entry_def is_ascii_digit_def account_char_def is_ascii_upper_def)

theorem nacha_file_framed_witness:
  "\<exists>content rs. build_nacha_file sample_originator [sample_entry] ''CCD'' sample_day sample_day ''A'' = Inr content \<and>
    split_records content = Some rs \<and> rs \<noteq> [] \<and> length rs mod 10 = 0 \<and> length content = 96 * length rs"
proof -
  obtain content where c: "build_nacha_file sample_originator [sample_entry] ''CCD'' sample_day sample_day ''A'' = Inr content"
    using export_ready_reads [OF sample_ready] by blast
  obtain rs where "split_records content = Some rs" "rs \<noteq> []" "length rs mod 10 = 0" "length content = 96 * length rs"
    using nacha_file_framed [OF c] by metis
  with c show ?thesis
    by (intro exI conjI)
qed

section \<open>What the checks let through\<close>

text \<open>A company id holding a line break passes the configuration check, being ten ASCII characters.\<close>

lemma company_id_line_break:
  "originator_problems (PDict [(''company_name'', PStr ''ACME''), (''company_id'', PStr (''12345678'' @ crlf)),
     (''odfi_routing'', PStr ''021000021'')]) = Inr []"
  by code_simp

text \<open>A letter that does not decompose is dropped from a name, where a disallowed one becomes a space.\<close>

lemma text_drops_letter:
  "text_field [CHR ''A'', CHR 0xD8, CHR ''B''] 4 = ''AB  ''" "text_field ''A$B'' 4 = ''A B ''"
  by code_simp+

text \<open>Nine characters that satisfy \<open>isdigit\<close>, one of them a superscript, raise in the routing check.\<close>

lemma aba_superscript_raises:
  "validate_aba_routing (Some (''02100002'' @ [CHR 0xB2])) = Inl (PyError ValueError)"
  by code_simp

end
