(* ===== verification/Calendar.thy ===== *)
theory Calendar
  imports PyString
begin

text \<open>
  Python's \<open>datetime.date\<close> as the recurring schedules use it: the proleptic Gregorian calendar
  of the years 1 to 9999, compared field by field. A constructor call outside that range
  raises.
\<close>

section \<open>Dates\<close>

datatype ymd = YMD (ymd_year: int) (ymd_month: int) (ymd_day: int)

instantiation ymd :: linorder
begin

definition less_eq_ymd :: "ymd \<Rightarrow> ymd \<Rightarrow> bool" where
  "less_eq_ymd a b =
     (ymd_year a < ymd_year b \<or> (ymd_year a = ymd_year b \<and>
        (ymd_month a < ymd_month b \<or> (ymd_month a = ymd_month b \<and> ymd_day a \<le> ymd_day b))))"

definition less_ymd :: "ymd \<Rightarrow> ymd \<Rightarrow> bool" where
  "less_ymd a b = (a \<le> b \<and> \<not> b \<le> a)"

instance
  by standard (auto simp: less_eq_ymd_def less_ymd_def intro: ymd.expand)

end

definition leap_year :: "int \<Rightarrow> bool" where
  "leap_year y = (y mod 4 = 0 \<and> (y mod 100 \<noteq> 0 \<or> y mod 400 = 0))"

definition days_in_month :: "int \<Rightarrow> int \<Rightarrow> int" where
  "days_in_month y m =
     (if m = 2 then (if leap_year y then 29 else 28) else if m \<in> {4, 6, 9, 11} then 30 else 31)"

definition valid_ymd :: "ymd \<Rightarrow> bool" where
  "valid_ymd d = (1 \<le> ymd_year d \<and> ymd_year d \<le> 9999 \<and> 1 \<le> ymd_month d \<and> ymd_month d \<le> 12 \<and>
     1 \<le> ymd_day d \<and> ymd_day d \<le> days_in_month (ymd_year d) (ymd_month d))"

text \<open>\<open>date(y, m, d)\<close>\<close>

definition py_date :: "int \<Rightarrow> int \<Rightarrow> int \<Rightarrow> exc + ymd" where
  "py_date y m d = (if valid_ymd (YMD y m d) then Inr (YMD y m d) else Inl (PyError ValueError))"

text \<open>\<open>d + timedelta(days=1)\<close>\<close>

definition next_day :: "ymd \<Rightarrow> exc + ymd" where
  "next_day d =
     (if ymd_day d < days_in_month (ymd_year d) (ymd_month d) then Inr (YMD (ymd_year d) (ymd_month d) (ymd_day d + 1))
      else if ymd_month d < 12 then Inr (YMD (ymd_year d) (ymd_month d + 1) 1)
      else if ymd_year d < 9999 then Inr (YMD (ymd_year d + 1) 1 1)
      else Inl (PyError OverflowError))"

text \<open>A month as a number; a month of the calendar lies between 12 and 119999.\<close>

definition month_index :: "ymd \<Rightarrow> int" where
  "month_index d = ymd_year d * 12 + (ymd_month d - 1)"

definition of_month :: "int \<Rightarrow> int \<Rightarrow> ymd" where
  "of_month i d = YMD (i div 12) (i mod 12 + 1) d"

section \<open>Lemmas\<close>

lemma month_index_of_month [simp]: "month_index (of_month i d) = i"
  by (simp add: month_index_def of_month_def)

lemma of_month_sel [simp]: "ymd_day (of_month i d) = d" "ymd_year (of_month i d) = i div 12"
    "ymd_month (of_month i d) = i mod 12 + 1"
  by (simp_all add: of_month_def)

lemma of_month_index: "valid_ymd d \<Longrightarrow> of_month (month_index d) k = YMD (ymd_year d) (ymd_month d) k"
proof -
  assume v: "valid_ymd d"
  define m where "m = ymd_month d - 1"
  have "0 \<le> m" "m < 12"
    using v by (simp_all add: valid_ymd_def m_def)
  then have "(m + ymd_year d * 12) div 12 = ymd_year d" "(m + ymd_year d * 12) mod 12 = m"
    by simp_all
  then show ?thesis
    by (simp add: of_month_def month_index_def m_def add.commute)
qed

lemma days_in_month_28: "28 \<le> days_in_month y m"
  by (simp add: days_in_month_def)

lemma days_in_month_31: "days_in_month y m \<le> 31"
  by (simp add: days_in_month_def)

lemma valid_of_month: "1 \<le> d \<Longrightarrow> d \<le> 28 \<Longrightarrow> valid_ymd (of_month i d) \<longleftrightarrow> 12 \<le> i \<and> i < 120000"
proof -
  assume d: "1 \<le> d" "d \<le> 28"
  have "i mod 12 + 1 \<le> 12" "1 \<le> i mod 12 + 1"
    by presburger+
  moreover have "1 \<le> i div 12 \<and> i div 12 \<le> 9999 \<longleftrightarrow> 12 \<le> i \<and> i < 120000"
    by presburger
  ultimately show ?thesis
    using d days_in_month_28 [of "i div 12" "i mod 12 + 1"] by (auto simp: valid_ymd_def)
qed

lemma month_index_range: "valid_ymd d \<Longrightarrow> 12 \<le> month_index d \<and> month_index d < 120000"
  by (auto simp: valid_ymd_def month_index_def)

text \<open>Dates are ordered first by their month.\<close>

lemma ymd_le_iff:
  assumes "1 \<le> ymd_month a" "ymd_month a \<le> 12" "1 \<le> ymd_month b" "ymd_month b \<le> 12"
  shows "a \<le> b \<longleftrightarrow> month_index a < month_index b \<or> (month_index a = month_index b \<and> ymd_day a \<le> ymd_day b)"
  using assms unfolding less_eq_ymd_def month_index_def by presburger

lemma of_month_le: "of_month i d \<le> of_month j e \<longleftrightarrow> i < j \<or> (i = j \<and> d \<le> e)"
proof -
  have "i mod 12 + 1 \<le> 12" "1 \<le> i mod 12 + 1" "j mod 12 + 1 \<le> 12" "1 \<le> j mod 12 + 1"
    by presburger+
  then show ?thesis
    by (subst ymd_le_iff) simp_all
qed

lemma of_month_less: "of_month i d < of_month j e \<longleftrightarrow> i < j \<or> (i = j \<and> d < e)"
  using of_month_le [of i d j e] of_month_le [of j e i d] by (auto simp: less_ymd_def)

lemma ymd_of_month: "valid_ymd d \<Longrightarrow> d = of_month (month_index d) (ymd_day d)"
  by (simp add: of_month_index)

end
