(* ===== verification/Schedule.thy ===== *)
theory Schedule
  imports Calendar
begin

text \<open>
  The calendar of a recurring template (\<open>services/recurring_invoices.py\<close>, the pure date
  functions): the month arithmetic, the period keys, the first occurrence on or after a day,
  the current one, the projection; and that the two searches end where they should.
\<close>

section \<open>Month arithmetic and keys\<close>

definition add_months :: "ymd \<Rightarrow> int \<Rightarrow> exc + ymd" where
  "add_months d months =
     (let total = ymd_year d * 12 + (ymd_month d - 1) + months;
          y = total div 12; m = total mod 12 + 1
      in bind_res
          (if m = 12 then Inr 31
           else bind_res (py_date y (m + 1) 1) (\<lambda>_. bind_res (py_date y m 1) (\<lambda>_. Inr (days_in_month y m))))
          (\<lambda>last_day. py_date y m (min (ymd_day d) last_day)))"

definition months_per_period :: "string \<Rightarrow> int" where
  "months_per_period cadence = (if cadence = ''quarterly'' then 3 else if cadence = ''annual'' then 12 else 1)"

definition padded :: "nat \<Rightarrow> int \<Rightarrow> string" where
  "padded w n = py_rjust (str_nat (nat n)) w CHR ''0''"

definition period_key_for :: "string \<Rightarrow> ymd \<Rightarrow> string" where
  "period_key_for cadence d =
     (if cadence = ''annual'' then padded 4 (ymd_year d)
      else if cadence = ''quarterly'' then padded 4 (ymd_year d) @ ''-Q'' @ str_nat (nat ((ymd_month d - 1) div 3 + 1))
      else padded 4 (ymd_year d) @ ''-'' @ padded 2 (ymd_month d))"

text \<open>One period on, on the day of the period.\<close>

definition next_occurrence :: "string \<Rightarrow> int \<Rightarrow> ymd \<Rightarrow> exc + ymd" where
  "next_occurrence cadence day c =
     bind_res (add_months c (months_per_period cadence)) (\<lambda>d. py_date (ymd_year d) (ymd_month d) day)"

lemma months_per_period_pos: "0 < months_per_period cadence"
  by (simp add: months_per_period_def)

lemma py_date_Inr: "py_date y m d = Inr r \<longleftrightarrow> r = YMD y m d \<and> valid_ymd r"
  by (auto simp: py_date_def)

lemma add_months_Inr:
  assumes "add_months d k = Inr r"
  shows "valid_ymd r" and "month_index r = month_index d + k"
  using assms by (auto simp: add_months_def Let_def py_date_Inr month_index_def elim!: bind_res_InrE)

lemma next_occurrence_Inr:
  assumes "next_occurrence cadence day c = Inr r"
  shows "valid_ymd r" and "month_index r = month_index c + months_per_period cadence" and "ymd_day r = day"
proof -
  from assms obtain d where d: "add_months c (months_per_period cadence) = Inr d" "r = YMD (ymd_year d) (ymd_month d) day" "valid_ymd r"
    unfolding next_occurrence_def by (elim bind_res_InrE) (auto simp: py_date_Inr)
  then show "valid_ymd r" "month_index r = month_index c + months_per_period cadence" "ymd_day r = day"
    using add_months_Inr [OF d(1)] by (simp_all add: month_index_def)
qed

section \<open>The searches\<close>

text \<open>Each step moves to a later month, and no month follows December 9999.\<close>

lemma occurrence_measure:
  "next_occurrence cadence day c = Inr r \<Longrightarrow> month_index c < month_index r \<and> month_index c < 120000"
  using next_occurrence_Inr [of cadence day c r] month_index_range [of r] months_per_period_pos [of cadence] by linarith

function walk_forward :: "string \<Rightarrow> int \<Rightarrow> ymd \<Rightarrow> ymd \<Rightarrow> exc + ymd" where
  "walk_forward cadence day floor c =
     (if c < floor then bind_res (next_occurrence cadence day c) (\<lambda>d. walk_forward cadence day floor d) else Inr c)"
  by pat_completeness auto
termination
  by (relation "measure (\<lambda>(_, _, _, c). nat (120000 - month_index c))") (auto dest: occurrence_measure)

function walk_due :: "string \<Rightarrow> int \<Rightarrow> ymd \<Rightarrow> ymd \<Rightarrow> exc + ymd" where
  "walk_due cadence day ceiling c =
     bind_res (next_occurrence cadence day c) (\<lambda>d.
       if ceiling < d then Inr c else walk_due cadence day ceiling d)"
  by pat_completeness auto
termination
  by (relation "measure (\<lambda>(_, _, _, c). nat (120000 - month_index c))") (auto dest: occurrence_measure)

declare walk_forward.simps [simp del] walk_due.simps [simp del]

definition compute_next_run_on ::
  "string \<Rightarrow> int \<Rightarrow> ymd \<Rightarrow> ymd \<Rightarrow> ymd option \<Rightarrow> exc + ymd option" where
  "compute_next_run_on cadence day after start_date end_date =
     (let floor = max after start_date in
      bind_res (py_date (ymd_year start_date) (ymd_month start_date) 1) (\<lambda>first.
      bind_res (add_months first 0) (\<lambda>c.
      bind_res (py_date (ymd_year c) (ymd_month c) day) (\<lambda>c.
      bind_res (walk_forward cadence day floor c) (\<lambda>c.
        Inr (case end_date of None \<Rightarrow> Some c | Some e \<Rightarrow> if e < c then None else Some c))))))"

definition current_due_run_on :: "string \<Rightarrow> int \<Rightarrow> ymd \<Rightarrow> ymd \<Rightarrow> exc + ymd" where
  "current_due_run_on cadence day today start_date =
     bind_res (py_date (ymd_year start_date) (ymd_month start_date) day) (\<lambda>first.
     bind_res (if first < start_date then next_occurrence cadence day first else Inr first) (\<lambda>first.
       let ceiling = max today start_date
       in if ceiling < first then Inr first else walk_due cadence day ceiling first))"

fun project_from :: "string \<Rightarrow> int \<Rightarrow> ymd option \<Rightarrow> nat \<Rightarrow> ymd \<Rightarrow> exc + (string \<times> ymd) list" where
  "project_from cadence day end_date 0 run_on = Inr []"
| "project_from cadence day end_date (Suc n) run_on =
     (if (case end_date of None \<Rightarrow> False | Some e \<Rightarrow> e < run_on) then Inr []
      else bind_res (next_occurrence cadence day run_on) (\<lambda>d.
           bind_res (project_from cadence day end_date n d) (\<lambda>rest.
             Inr ((period_key_for cadence run_on, run_on) # rest))))"

text \<open>\<open>start\<close> is the date asked from, or the template's cursor.\<close>

definition project_schedule ::
  "string \<Rightarrow> int \<Rightarrow> ymd option \<Rightarrow> int \<Rightarrow> ymd option \<Rightarrow> exc + (string \<times> ymd) list" where
  "project_schedule cadence day end_date n start =
     (if n \<le> 0 then Inr []
      else case start of
          None \<Rightarrow> Inr []
        | Some s \<Rightarrow>
            bind_res (py_date (ymd_year s) (ymd_month s) day) (\<lambda>run_on.
            bind_res (if run_on < s then next_occurrence cadence day run_on else Inr run_on) (\<lambda>run_on.
              project_from cadence day end_date (nat n) run_on)))"

section \<open>The occurrences of a schedule\<close>

text \<open>The \<open>k\<close>-th occurrence counted from the month of the start date.\<close>

definition occurrence :: "string \<Rightarrow> int \<Rightarrow> ymd \<Rightarrow> nat \<Rightarrow> ymd" where
  "occurrence cadence day start k = of_month (month_index start + int k * months_per_period cadence) day"

definition day_ok :: "int \<Rightarrow> bool" where
  "day_ok day = (1 \<le> day \<and> day \<le> 28)"

lemma occurrence_valid:
  "day_ok day \<Longrightarrow> valid_ymd (occurrence cadence day start k) \<longleftrightarrow>
     12 \<le> month_index (occurrence cadence day start k) \<and> month_index (occurrence cadence day start k) < 120000"
  by (simp add: occurrence_def day_ok_def valid_of_month)

lemma occurrence_month: "month_index (occurrence cadence day start k) = month_index start + int k * months_per_period cadence"
  by (simp add: occurrence_def)

lemma occurrence_in_range:
  assumes "day_ok day" and "valid_ymd start" and "ymd_year (occurrence cadence day start k) \<le> 9999"
  shows "valid_ymd (occurrence cadence day start k)"
proof -
  have "month_index (occurrence cadence day start k) < 120000"
    using assms(3) by (simp add: occurrence_def)
  moreover have "12 \<le> month_index (occurrence cadence day start k)"
    using month_index_range [OF assms(2)] mult_nonneg_nonneg [of "int k" "months_per_period cadence"]
      months_per_period_pos [of cadence] unfolding occurrence_month by linarith
  ultimately show ?thesis
    using assms(1) by (simp add: occurrence_valid)
qed

lemma occurrence_mono: "j < k \<Longrightarrow> occurrence cadence day start j < occurrence cadence day start k"
  using months_per_period_pos [of cadence] by (simp add: occurrence_def of_month_less)

lemma add_months_ok:
  assumes d: "valid_ymd d" "ymd_day d \<le> 28" and r: "month_index d + k < 120000" "0 \<le> k"
  shows "add_months d k = Inr (of_month (month_index d + k) (ymd_day d))"
proof -
  let ?i = "month_index d + k"
  have i: "12 \<le> ?i"
    using month_index_range [OF d(1)] r(2) by linarith
  have day: "1 \<le> ymd_day d"
    using d(1) by (simp add: valid_ymd_def)
  then have v: "valid_ymd (of_month ?i (ymd_day d))" "valid_ymd (of_month ?i 1)"
    using i r(1) d(2) by (simp_all add: valid_of_month)
  have nxt: "valid_ymd (YMD (?i div 12) (2 + ?i mod 12) 1)" if "?i mod 12 + 1 \<noteq> 12"
  proof -
    have "?i mod 12 < 12" "0 \<le> ?i mod 12"
      by presburger+
    moreover have "1 \<le> days_in_month (?i div 12) (2 + ?i mod 12)"
      using days_in_month_28 [of "?i div 12" "2 + ?i mod 12"] by linarith
    ultimately show ?thesis
      using that v(2) by (auto simp: valid_ymd_def)
  qed
  have t: "ymd_year d * 12 + (ymd_month d - 1) + k = ?i"
    by (simp add: month_index_def)
  have m: "min (ymd_day d) (days_in_month (?i div 12) (?i mod 12 + 1)) = ymd_day d"
    using days_in_month_28 [of "?i div 12" "?i mod 12 + 1"] d(2) by linarith
  have "min (ymd_day d) 31 = ymd_day d"
    using d(2) by simp
  with v nxt m show ?thesis
    unfolding add_months_def t Let_def
    by (cases "?i mod 12 + 1 = 12") (simp_all add: py_date_def of_month_def)
qed

lemma next_occurrence_of:
  assumes "day_ok day" and "valid_ymd (occurrence cadence day start k)" and "valid_ymd (occurrence cadence day start (Suc k))"
  shows "next_occurrence cadence day (occurrence cadence day start k) = Inr (occurrence cadence day start (Suc k))"
proof -
  let ?o = "occurrence cadence day start k"
  have m: "month_index ?o + months_per_period cadence = month_index start + int (Suc k) * months_per_period cadence"
    by (simp add: occurrence_month algebra_simps)
  moreover have "month_index ?o + months_per_period cadence < 120000"
    unfolding m using month_index_range [OF assms(3)] unfolding occurrence_month by simp
  moreover have "ymd_day ?o = day"
    by (simp add: occurrence_def)
  moreover have "of_month (month_index ?o + months_per_period cadence) day = occurrence cadence day start (Suc k)"
    unfolding m by (simp add: occurrence_def)
  ultimately have "add_months ?o (months_per_period cadence) = Inr (occurrence cadence day start (Suc k))"
    using add_months_ok [OF assms(2)] assms(1) months_per_period_pos [of cadence]
    by (simp add: day_ok_def less_imp_le)
  moreover have "YMD (ymd_year (occurrence cadence day start (Suc k))) (ymd_month (occurrence cadence day start (Suc k))) day =
      occurrence cadence day start (Suc k)"
    by (simp add: occurrence_def of_month_def)
  ultimately show ?thesis
    using assms(3) by (simp add: next_occurrence_def py_date_def)
qed

section \<open>The search for the next occurrence\<close>

lemma walk_forward_finds:
  assumes "day_ok day" and "valid_ymd start" and "valid_ymd floor" and "ymd_year floor \<le> 9998"
  obtains n where "\<And>j. j < n \<Longrightarrow> occurrence cadence day start j < floor"
    and "floor \<le> occurrence cadence day start n" and "valid_ymd (occurrence cadence day start n)"
    and "walk_forward cadence day floor (occurrence cadence day start 0) = Inr (occurrence cadence day start n)"
proof -
  let ?o = "occurrence cadence day start" and ?p = "months_per_period cadence"
  note pos = months_per_period_pos [of cadence]
  have fl: "month_index floor < 119988"
    using assms(3,4) by (auto simp: valid_ymd_def month_index_def)
  have st: "12 \<le> month_index start"
    using month_index_range [OF assms(2)] by simp
  have later: "floor \<le> ?o k" if "month_index floor < month_index start + int k * ?p" for k
    using that ymd_of_month [OF assms(3)] by (metis occurrence_def of_month_le)
  have small: "month_index start + int k * ?p \<le> month_index floor" if "?o k < floor" for k
    using later [of k] that by (meson leD linorder_not_le)
  define n where "n = (LEAST k. floor \<le> ?o k)"
  have "floor \<le> ?o (nat (month_index floor))"
  proof (rule later)
    have "int (nat (month_index floor)) * 1 \<le> int (nat (month_index floor)) * ?p"
      using pos by (intro mult_left_mono) simp_all
    then show "month_index floor < month_index start + int (nat (month_index floor)) * ?p"
      using st by linarith
  qed
  then have n: "floor \<le> ?o n" "\<And>j. j < n \<Longrightarrow> ?o j < floor"
    unfolding n_def by (rule LeastI) (use not_less_Least in force)
  have p12: "?p \<le> 12"
    by (simp add: months_per_period_def)
  have val: "valid_ymd (?o j)" if "j \<le> n" for j
  proof (cases j)
    case 0
    then show ?thesis
      using month_index_range [OF assms(2)] assms(1) by (simp add: occurrence_valid occurrence_month)
  next
    case (Suc i)
    with that n(2) have "?o i < floor"
      by simp
    then have "month_index start + int i * ?p \<le> month_index floor"
      by (rule small)
    then have "month_index (?o j) < 120000"
      using fl p12 Suc by (simp add: occurrence_month algebra_simps)
    moreover have "12 \<le> month_index (?o j)"
      using st mult_nonneg_nonneg [of "int j" ?p] pos unfolding occurrence_month by linarith
    ultimately show ?thesis
      using assms(1) by (simp add: occurrence_valid)
  qed
  have "walk_forward cadence day floor (?o (n - j)) = Inr (?o n)" if "j \<le> n" for j
    using that
  proof (induction j)
    case 0
    then show ?case
      using n(1) by (subst walk_forward.simps) (simp add: not_less [symmetric])
  next
    case (Suc j)
    then have k: "Suc (n - Suc j) = n - j" "n - Suc j < n"
      by simp_all
    then have "next_occurrence cadence day (?o (n - Suc j)) = Inr (?o (n - j))"
      using next_occurrence_of [OF assms(1) val val, of "n - Suc j"] by simp
    with n(2) [OF k(2)] Suc show ?case
      by (subst walk_forward.simps) simp
  qed
  then have "walk_forward cadence day floor (?o 0) = Inr (?o n)"
    by (metis diff_self_eq_0 order_refl)
  with n val [of n] that show thesis
    by blast
qed

lemma compute_next_finds:
  assumes "day_ok day" and "valid_ymd start" and "valid_ymd after" and "ymd_year (max after start) \<le> 9998"
  shows "\<exists>n. compute_next_run_on cadence day after start end_date =
      Inr (case end_date of None \<Rightarrow> Some (occurrence cadence day start n)
           | Some e \<Rightarrow> if e < occurrence cadence day start n then None else Some (occurrence cadence day start n)) \<and>
    max after start \<le> occurrence cadence day start n \<and>
    (\<forall>j<n. occurrence cadence day start j < max after start)"
proof -
  have v: "valid_ymd (max after start)"
    using assms(2,3) by (simp add: max_def)
  obtain n where n: "\<And>j. j < n \<Longrightarrow> occurrence cadence day start j < max after start"
    "max after start \<le> occurrence cadence day start n"
    "walk_forward cadence day (max after start) (occurrence cadence day start 0) = Inr (occurrence cadence day start n)"
    by (rule walk_forward_finds [OF assms(1,2) v assms(4), of cadence]) blast
  note r = month_index_range [OF assms(2)]
  let ?f = "YMD (ymd_year start) (ymd_month start) 1"
  have f: "?f = of_month (month_index start) 1"
    by (simp add: of_month_index [OF assms(2)])
  then have vf: "valid_ymd ?f"
    using r by (simp add: valid_of_month)
  have a: "add_months ?f 0 = Inr ?f"
    using add_months_ok [OF vf, of 0] r by (simp add: f)
  have c: "YMD (ymd_year start) (ymd_month start) day = occurrence cadence day start 0"
    using of_month_index [OF assms(2), of day] by (simp add: occurrence_def)
  moreover have "valid_ymd (occurrence cadence day start 0)"
    using r assms(1) by (simp add: occurrence_valid occurrence_month)
  ultimately have "compute_next_run_on cadence day after start end_date =
      Inr (case end_date of None \<Rightarrow> Some (occurrence cadence day start n)
           | Some e \<Rightarrow> if e < occurrence cadence day start n then None else Some (occurrence cadence day start n))"
    using n(3) vf a by (simp add: compute_next_run_on_def Let_def py_date_def)
  with n(1,2) show ?thesis
    by blast
qed

section \<open>The period keys\<close>

lemma padded_val: "digits_val (padded w n) = nat n"
  using py_int_digits_rjust [of "nat n" w] by (auto simp: padded_def py_int_digits_def split: if_splits)

lemma padded_length: "n < 10 ^ w \<Longrightarrow> 0 < w \<Longrightarrow> length (padded w n) = w"
  by (simp add: padded_def py_rjust_length str_nat_length nat_less_iff)

lemma padded_inj: "0 \<le> m \<Longrightarrow> 0 \<le> n \<Longrightarrow> padded w m = padded w n \<Longrightarrow> m = n"
  using padded_val [of w m] padded_val [of w n] by simp

text \<open>Two dates share a key exactly when they share a period.\<close>

lemma period_key_year:
  assumes "period_key_for cadence a = period_key_for cadence b" and "valid_ymd a" and "valid_ymd b"
  shows "ymd_year a = ymd_year b" and "cadence = ''quarterly'' \<Longrightarrow> (ymd_month a - 1) div 3 = (ymd_month b - 1) div 3"
    and "cadence \<noteq> ''quarterly'' \<Longrightarrow> cadence \<noteq> ''annual'' \<Longrightarrow> ymd_month a = ymd_month b"
proof -
  have y: "0 \<le> ymd_year a" "0 \<le> ymd_year b" "ymd_year a < 10 ^ 4" "ymd_year b < 10 ^ 4"
    and m: "1 \<le> ymd_month a" "1 \<le> ymd_month b"
    using assms(2,3) by (auto simp: valid_ymd_def)
  have l: "length (padded 4 (ymd_year a)) = 4" "length (padded 4 (ymd_year b)) = 4"
    using y padded_length [of _ 4] by simp_all
  have "padded 4 (ymd_year a) = padded 4 (ymd_year b)"
    using assms(1) l by (auto simp: period_key_for_def split: if_splits)
  then show "ymd_year a = ymd_year b"
    using padded_inj y by blast
  show "(ymd_month a - 1) div 3 = (ymd_month b - 1) div 3" if q: "cadence = ''quarterly''"
  proof -
    have "str_nat (nat ((ymd_month a - 1) div 3 + 1)) = str_nat (nat ((ymd_month b - 1) div 3 + 1))"
      using assms(1) l q by (simp add: period_key_for_def)
    then have "nat ((ymd_month a - 1) div 3 + 1) = nat ((ymd_month b - 1) div 3 + 1)"
      by (metis digits_val_str_nat)
    moreover have "0 \<le> (ymd_month a - 1) div 3" "0 \<le> (ymd_month b - 1) div 3"
      using m by (simp_all add: pos_imp_zdiv_nonneg_iff)
    ultimately show ?thesis
      by linarith
  qed
  show "ymd_month a = ymd_month b" if "cadence \<noteq> ''quarterly''" "cadence \<noteq> ''annual''"
  proof -
    have "padded 2 (ymd_month a) = padded 2 (ymd_month b)"
      using assms(1) l that by (simp add: period_key_for_def)
    then show ?thesis
      using padded_inj [of "ymd_month a" "ymd_month b" 2] m by simp
  qed
qed

lemma quarter_of_index:
  fixes i j n :: int
  assumes "i div 12 = j div 12" and "i mod 12 div 3 = j mod 12 div 3" and "j = i + 3 * n"
  shows "n = 0"
  using assms by presburger

lemma occurrence_keys_differ:
  assumes "day_ok day" and "valid_ymd (occurrence cadence day start i)" and "valid_ymd (occurrence cadence day start j)"
    and "period_key_for cadence (occurrence cadence day start i) = period_key_for cadence (occurrence cadence day start j)"
  shows "i = j"
proof -
  let ?a = "month_index start + int i * months_per_period cadence"
  let ?b = "month_index start + int j * months_per_period cadence"
  note k = period_key_year [OF assms(4,2,3)]
  have y: "?a div 12 = ?b div 12"
    using k(1) by (simp add: occurrence_def)
  have "int j - int i = 0"
  proof (cases "cadence = ''quarterly''")
    case True
    then have "?a mod 12 div 3 = ?b mod 12 div 3"
      using k(2) by (simp add: occurrence_def)
    moreover have "?b = ?a + 3 * (int j - int i)"
      using True by (simp add: months_per_period_def)
    ultimately show ?thesis
      using y quarter_of_index by blast
  next
    case nq: False
    show ?thesis
    proof (cases "cadence = ''annual''")
      case True
      then have "?b = ?a + (int j - int i) * 12"
        by (simp add: months_per_period_def)
      then have "?b div 12 = ?a div 12 + (int j - int i)"
        by (metis add.commute div_mult_self1 zero_neq_numeral)
      with y show ?thesis
        by linarith
    next
      case False
      with nq k(3) have "?a mod 12 = ?b mod 12"
        by (simp add: occurrence_def)
      with y have "?a = ?b"
        by (metis div_mult_mod_eq)
      with nq False show ?thesis
        by (simp add: months_per_period_def)
    qed
  qed
  then show ?thesis
    by simp
qed

section \<open>Properties\<close>

text \<open>
  Property C32. The search for the next run ends, and on the right day: for a day of the period between 1
  and 28 and dates up to the year 9998, \<open>compute_next_run_on\<close> returns, and what it returns is
  the first occurrence of the schedule on or after both the asked day and the start date, or
  nothing when that occurrence is past the end date.
\<close>

theorem next_run_is_first_due:
  assumes "day_ok day" and "valid_ymd start" and "valid_ymd after" and "ymd_year (max after start) \<le> 9998"
  shows "\<exists>n. compute_next_run_on cadence day after start end_date =
      Inr (case end_date of None \<Rightarrow> Some (occurrence cadence day start n)
           | Some e \<Rightarrow> if e < occurrence cadence day start n then None else Some (occurrence cadence day start n)) \<and>
    max after start \<le> occurrence cadence day start n \<and>
    (\<forall>j<n. occurrence cadence day start j < max after start)"
  by (rule compute_next_finds [OF assms])

theorem next_run_is_first_due_witness:
  "\<exists>n. compute_next_run_on ''quarterly'' 15 (YMD 2026 3 16) (YMD 2025 11 20) (Some (YMD 2026 12 31)) =
      Inr (case Some (YMD 2026 12 31) of None \<Rightarrow> Some (occurrence ''quarterly'' 15 (YMD 2025 11 20) n)
           | Some e \<Rightarrow> if e < occurrence ''quarterly'' 15 (YMD 2025 11 20) n then None
                       else Some (occurrence ''quarterly'' 15 (YMD 2025 11 20) n)) \<and>
    max (YMD 2026 3 16) (YMD 2025 11 20) \<le> occurrence ''quarterly'' 15 (YMD 2025 11 20) n \<and>
    (\<forall>j<n. occurrence ''quarterly'' 15 (YMD 2025 11 20) j < max (YMD 2026 3 16) (YMD 2025 11 20))"
  by (rule next_run_is_first_due) code_simp+

end
