(* ===== verification/Recurring.thy ===== *)
theory Recurring
  imports Schedule ApprovalConfig "HOL-Library.List_Lexorder" "HOL-Library.Char_ord"
begin

text \<open>
  Recurring invoices: the template row (\<open>models/recurring_invoice.py\<close>), generation and the sweep
  (\<open>services/recurring_invoices.py\<close>), and the endpoints that change a template
  (\<open>api/recurring.py\<close>). The workflow definition snapshot, fresh identifiers and the clock are
  arguments. A generated invoice is its row with the two columns of the idempotency index and
  its date.
\<close>

section \<open>Rows\<close>

record template =
  rt_id :: uid
  rt_entity_id :: "uid option"
  rt_name :: string
  rt_vendor_id :: "uid option"
  rt_vendor_name :: "string option"
  rt_description :: "string option"
  rt_amount :: "rat option"
  rt_currency :: string
  rt_gl_account :: "string option"
  rt_cost_center :: "string option"
  rt_department :: "string option"
  rt_project :: "string option"
  rt_po_number :: "string option"
  rt_payment_terms :: "string option"
  rt_cadence :: string
  rt_day :: int
  rt_start :: ymd
  rt_end :: "ymd option"
  rt_next :: "ymd option"
  rt_last_key :: "string option"
  rt_last_at :: "stamp option"
  rt_count :: nat
  rt_status :: string
  rt_variance :: "rat option"
  rt_notes :: "string option"
  rt_meta :: "(string \<times> pyval) list option"
  rt_created_by :: "uid option"
  rt_editors :: "uid list option"

record generated =
  gi_template :: uid
  gi_period :: string
  gi_date :: ymd
  gi_row :: invoice
  gi_instance :: instance_row

record recurring_state =
  rs_templates :: "template list"
  rs_generated :: "generated list"
  rs_fx :: effects

definition status_active :: string where "status_active = ''active''"
definition status_paused :: string where "status_paused = ''paused''"
definition status_ended :: string where "status_ended = ''ended''"

section \<open>Templates that cannot generate\<close>

definition max_consecutive_skips :: int where
  "max_consecutive_skips = 3"

definition not_generatable_reason :: "template \<Rightarrow> string option" where
  "not_generatable_reason t =
     (let missing_amount = (rt_amount t = None); missing_vendor = (or_str (rt_vendor_name t) [] = [])
      in if missing_amount \<and> missing_vendor then Some ''missing_amount_and_vendor''
         else if missing_amount then Some ''missing_amount''
         else if missing_vendor then Some ''missing_vendor''
         else None)"

definition meta_or_empty :: "template \<Rightarrow> (string \<times> pyval) list" where
  "meta_or_empty t = (case rt_meta t of None \<Rightarrow> [] | Some m \<Rightarrow> m)"

definition skip_marker :: "template \<Rightarrow> (string \<times> pyval) list" where
  "skip_marker t = (case pget (meta_or_empty t) ''generation_skip'' of PDict d \<Rightarrow> d | _ \<Rightarrow> [])"

text \<open>
  \<open>int(v or 0) + 1\<close>, one where the conversion raises: a number is truncated, a text must be an
  optional sign and digits (underscores among them are not modelled).
\<close>

definition int_of_text :: "string \<Rightarrow> int option" where
  "int_of_text s =
     (case py_strip s of
        [] \<Rightarrow> None
      | c # ds \<Rightarrow>
          if c = CHR ''-'' then map_option (\<lambda>n. - int n) (py_int_digits ds)
          else if c = CHR ''+'' then map_option int (py_int_digits ds)
          else map_option int (py_int_digits (c # ds)))"

definition consecutive_after :: "pyval \<Rightarrow> int" where
  "consecutive_after v =
     (if \<not> py_truthy v then 1
      else case v of
          PInt i \<Rightarrow> i + 1
        | PBool _ \<Rightarrow> 2
        | PFloat (Fin r) \<Rightarrow> (if 0 \<le> r then \<lfloor>r\<rfloor> else \<lceil>r\<rceil>) + 1
        | PStr s \<Rightarrow> (case int_of_text s of None \<Rightarrow> 1 | Some i \<Rightarrow> i + 1)
        | _ \<Rightarrow> 1)"

definition set_key :: "string \<Rightarrow> pyval \<Rightarrow> (string \<times> pyval) list \<Rightarrow> (string \<times> pyval) list" where
  "set_key k v d = (if k \<in> fst ` set d then map (\<lambda>kv. if fst kv = k then (k, v) else kv) d else d @ [(k, v)])"

definition record_generation_skip :: "string \<Rightarrow> string \<Rightarrow> string \<Rightarrow> template \<Rightarrow> template \<times> int" where
  "record_generation_skip period_key reason at_iso t =
     (let n = consecutive_after (pget (skip_marker t) ''consecutive'');
          marker = PDict [(''reason'', PStr reason), (''period_key'', PStr period_key), (''consecutive'', PInt n),
            (''last_skipped_at'', PStr at_iso)]
      in (t\<lparr>rt_meta := Some (set_key ''generation_skip'' marker (meta_or_empty t))\<rparr>, n))"

definition clear_generation_skip :: "template \<Rightarrow> template" where
  "clear_generation_skip t =
     (if ''generation_skip'' \<notin> fst ` set (meta_or_empty t) then t
      else let rest = filter (\<lambda>kv. fst kv \<noteq> ''generation_skip'') (meta_or_empty t)
           in t\<lparr>rt_meta := if rest = [] then None else Some rest\<rparr>)"

definition clear_generation_skip_if_resolved :: "template \<Rightarrow> template" where
  "clear_generation_skip_if_resolved t =
     (if not_generatable_reason t = None then clear_generation_skip t else t)"

section \<open>Who is implicated\<close>

definition material_fields :: "string list" where
  "material_fields = [''vendor_id'', ''amount'', ''currency'', ''gl_account'', ''cost_center'', ''department'',
     ''project'', ''po_number'', ''payment_terms'', ''cadence'', ''day_of_period'', ''start_date'', ''end_date'',
     ''entity_id'']"

definition material_edit_fields :: "string list \<Rightarrow> string list" where
  "material_edit_fields changed = filter (\<lambda>f. f \<in> set material_fields) changed"

definition editors_of :: "template \<Rightarrow> uid list" where
  "editors_of t = (case rt_editors t of None \<Rightarrow> [] | Some xs \<Rightarrow> xs)"

definition record_material_editor :: "uid \<Rightarrow> template \<Rightarrow> template" where
  "record_material_editor u t =
     (if u \<in> set (editors_of t) then t
      else t\<lparr>rt_editors := Some (sort (remdups (u # editors_of t)))\<rparr>)"

definition implicated_actor_ids :: "uid option \<Rightarrow> template \<Rightarrow> uid list option" where
  "implicated_actor_ids uploader t =
     (let ids = remdups (editors_of t @ (case rt_created_by t of None \<Rightarrow> [] | Some u \<Rightarrow> [u]));
          ids = filter (\<lambda>u. uploader \<noteq> Some u) ids
      in if ids = [] then None else Some (sort ids))"

section \<open>Generation\<close>

record gen_env =
  ge_inv_id :: uid
  ge_tail :: string
  ge_now :: stamp
  ge_now_iso :: string
  ge_definition :: definition_row
  ge_variant :: "step_config steps_config option"

definition generated_invoice :: "gen_env \<Rightarrow> uid option \<Rightarrow> string \<Rightarrow> rat \<Rightarrow> template \<Rightarrow> invoice" where
  "generated_invoice e uploader period_key amt t =
     \<lparr> uploaded_by_id = uploader, segregation_actor_ids = implicated_actor_ids uploader t,
       inv_id = ge_inv_id e, inv_status = ReadyForReview, entity_id = rt_entity_id t,
       vendor_id = rt_vendor_id t, vendor_name = or_str (rt_vendor_name t) [],
       invoice_number = ''REC-'' @ period_key @ ''-'' @ ge_tail e,
       amount = amt, currency = Some (rt_currency t), description = rt_description t, due_date = None,
       po_number = rt_po_number t, po_match = PNone, gl_account = rt_gl_account t,
       cost_center = rt_cost_center t, department = rt_department t,
       reporting_currency = None, reporting_amount = None, reporting_fx_rate = None,
       reporting_source_currency = None, reporting_fx_locked_at = None, approval_date = None,
       approved_by = None, rejected_by = None, assigned_to_id = None, assigned_to = None \<rparr>"

definition in_period :: "uid \<Rightarrow> string \<Rightarrow> generated \<Rightarrow> bool" where
  "in_period tid key g = (gi_template g = tid \<and> gi_period g = key)"

definition generation_audits :: "gen_env \<Rightarrow> uid option \<Rightarrow> string \<Rightarrow> template \<Rightarrow> effects \<Rightarrow> effects" where
  "generation_audits e actor period_key t fx =
     dispatch_audit
       \<lparr>au_action = ''recurring_template.generated'', au_actor = actor, au_entity = rt_id t,
        au_details = [(''invoice_id'', PStr (ge_inv_id e)), (''period_key'', PStr period_key)]\<rparr>
       (dispatch_audit
         \<lparr>au_action = ''invoice.created'', au_actor = actor, au_entity = ge_inv_id e,
          au_details = [(''source'', PStr ''recurring_template''), (''recurring_template_id'', PStr (rt_id t)),
            (''period_key'', PStr period_key), (''status'', PStr (status_value ReadyForReview))]\<rparr> fx)"

definition advanced_cursor :: "ymd \<Rightarrow> template \<Rightarrow> exc + ymd option" where
  "advanced_cursor run_on t =
     bind_res (add_months run_on (months_per_period (rt_cadence t))) (\<lambda>nxt.
       compute_next_run_on (rt_cadence t) (rt_day t) nxt (rt_start t) (rt_end t))"

text \<open>
  The row whose insertion the unique index refuses is answered with the one that holds the
  period. The result is the invoice, whether it is new, and the template and tables left.
\<close>

definition generate_one ::
  "gen_env \<Rightarrow> uid option \<Rightarrow> ymd \<Rightarrow> template \<Rightarrow> generated list \<Rightarrow> effects \<Rightarrow>
     exc + generated option \<times> template \<times> generated list \<times> effects" where
  "generate_one e actor run_on t gs fx =
     (case (not_generatable_reason t, rt_amount t) of
        (None, Some amt) \<Rightarrow>
          let t = clear_generation_skip t;
              period_key = period_key_for (rt_cadence t) run_on;
              uploader = (if actor \<noteq> None then actor else rt_created_by t)
          in (case find (in_period (rt_id t) period_key) gs of
                Some g \<Rightarrow> Inr (Some g, t, gs, fx)
              | None \<Rightarrow>
                  let g = \<lparr>gi_template = rt_id t, gi_period = period_key, gi_date = run_on,
                           gi_row = generated_invoice e uploader period_key amt t,
                           gi_instance = create_workflow_instance (ge_definition e) (ge_variant e)\<rparr>
                  in bind_res (advanced_cursor run_on t) (\<lambda>cursor.
                       Inr (Some g,
                         t\<lparr>rt_count := rt_count t + 1, rt_last_key := Some period_key, rt_last_at := Some (ge_now e),
                           rt_next := cursor\<rparr>,
                         gs @ [g], generation_audits e actor period_key t fx)))
      | _ \<Rightarrow> Inr (None, t, gs, fx))"

section \<open>Variance of an arrived invoice\<close>

definition default_variance_tolerance :: rat where
  "default_variance_tolerance = 10"

text \<open>The percentage is rounded half to even to one decimal. The result is the warning's code and figures.\<close>

definition flag_template_variance :: "rat option \<Rightarrow> template \<Rightarrow> exc + (string \<times> rat \<times> rat \<times> rat) option" where
  "flag_template_variance arrived t =
     (case (arrived, rt_amount t) of
        (Some actual, Some expected) \<Rightarrow>
          if expected = 0 then Inr None
          else let tolerance = (case rt_variance t of None \<Rightarrow> default_variance_tolerance | Some v \<Rightarrow> v);
                   delta = dsub actual expected;
                   n = round_half_even (dmul (ddiv delta expected) 100 * 10)
               in if 10 ^ 28 \<le> \<bar>n\<bar> then Inl (PyError InvalidOperation)
                  else if \<bar>of_int n / 10\<bar> < tolerance then Inr None
                  else Inr (Some (if 0 < delta then ''recurring_variance_over'' else ''recurring_variance_under'',
                    actual, of_int n / 10, expected))
      | _ \<Rightarrow> Inr None)"

section \<open>The sweep\<close>

definition past_end_date :: "template \<Rightarrow> ymd \<Rightarrow> bool" where
  "past_end_date t run_on = (case rt_end t of None \<Rightarrow> False | Some e \<Rightarrow> e < run_on)"

definition still_due :: "template \<Rightarrow> ymd \<Rightarrow> bool" where
  "still_due t today =
     (rt_status t = status_active \<and> (case rt_next t of None \<Rightarrow> False | Some d \<Rightarrow> d \<le> today))"

definition advance_cursor :: "ymd \<Rightarrow> template \<Rightarrow> exc + template" where
  "advance_cursor run_on t =
     (case rt_next t of
        None \<Rightarrow> Inr t
      | Some d \<Rightarrow> if run_on < d then Inr t
                  else bind_res (advanced_cursor run_on t) (\<lambda>c. Inr (t\<lparr>rt_next := c\<rparr>)))"

definition skipped_audit :: "string \<Rightarrow> string \<Rightarrow> int \<Rightarrow> template \<Rightarrow> audit_row" where
  "skipped_audit reason period_key n t =
     \<lparr>au_action = ''recurring_template.generation_skipped'', au_actor = None, au_entity = rt_id t,
      au_details = [(''reason'', PStr reason), (''period_key'', PStr period_key), (''consecutive'', PInt n)]\<rparr>"

definition paused_audit :: "string \<Rightarrow> int \<Rightarrow> template \<Rightarrow> audit_row" where
  "paused_audit reason n t =
     \<lparr>au_action = ''recurring_template.paused'', au_actor = None, au_entity = rt_id t,
      au_details = [(''status'', PStr status_paused), (''source'', PStr ''sweep''), (''reason'', PStr reason),
        (''consecutive_skips'', PInt n)]\<rparr>"

text \<open>The result also says whether the template was paused.\<close>

definition handle_non_generatable ::
  "gen_env \<Rightarrow> string \<Rightarrow> string \<Rightarrow> template \<Rightarrow> effects \<Rightarrow> template \<times> effects \<times> bool" where
  "handle_non_generatable e period_key reason t fx =
     (let (t, n) = record_generation_skip period_key reason (ge_now_iso e) t;
          fx = dispatch_audit (skipped_audit reason period_key n t) fx
      in if max_consecutive_skips \<le> n \<and> rt_status t = status_active
         then (t\<lparr>rt_status := status_paused\<rparr>, dispatch_audit (paused_audit reason n t) fx, True)
         else (t, fx, False))"

datatype sweep_outcome = NotDue | Withdrawn | Skipped bool | AlreadyGenerated | Generated

text \<open>One template of the loop, from the locked row on.\<close>

definition sweep_template ::
  "gen_env \<Rightarrow> ymd \<Rightarrow> template \<Rightarrow> generated list \<Rightarrow> effects \<Rightarrow>
     exc + sweep_outcome \<times> template \<times> generated list \<times> effects" where
  "sweep_template e today t gs fx =
     (case rt_next t of
        None \<Rightarrow> Inr (NotDue, t, gs, fx)
      | Some run_on \<Rightarrow>
          if \<not> still_due t today then Inr (NotDue, t, gs, fx)
          else if past_end_date t run_on then Inr (Withdrawn, t\<lparr>rt_next := None\<rparr>, gs, fx)
          else let period_key = period_key_for (rt_cadence t) run_on
               in (case not_generatable_reason t of
                     Some reason \<Rightarrow>
                       let (t, fx, paused) = handle_non_generatable e period_key reason t fx
                       in bind_res (advance_cursor run_on t) (\<lambda>t. Inr (Skipped paused, t, gs, fx))
                   | None \<Rightarrow>
                       let t = clear_generation_skip t
                       in if find (in_period (rt_id t) period_key) gs \<noteq> None then
                            bind_res (advance_cursor run_on t) (\<lambda>t. Inr (AlreadyGenerated, t, gs, fx))
                          else
                            bind_res (generate_one e None run_on t gs fx) (\<lambda>(g, t, gs, fx).
                            bind_res (advance_cursor run_on t) (\<lambda>t.
                              Inr (if g \<noteq> None then Generated else NotDue, t, gs, fx)))))"

definition put_template :: "template \<Rightarrow> template list \<Rightarrow> template list" where
  "put_template t ts = map (\<lambda>x. if rt_id x = rt_id t then t else x) ts"

definition find_template :: "uid \<Rightarrow> template list \<Rightarrow> template option" where
  "find_template tid ts = find (\<lambda>t. rt_id t = tid) ts"

text \<open>A template deleted since its id was read is passed over.\<close>

definition sweep_one ::
  "gen_env \<Rightarrow> ymd \<Rightarrow> uid \<Rightarrow> recurring_state \<Rightarrow> exc + sweep_outcome \<times> recurring_state" where
  "sweep_one e today tid s =
     (case find_template tid (rs_templates s) of
        None \<Rightarrow> Inr (NotDue, s)
      | Some t \<Rightarrow> bind_res (sweep_template e today t (rs_generated s) (rs_fx s)) (\<lambda>(r, t, gs, fx).
          Inr (r, s\<lparr>rs_templates := put_template t (rs_templates s), rs_generated := gs, rs_fx := fx\<rparr>)))"

record tenant_outcome =
  to_generated :: nat
  to_skipped :: nat
  to_paused :: nat
  to_failures :: nat

definition count_outcome :: "sweep_outcome \<Rightarrow> tenant_outcome \<Rightarrow> tenant_outcome" where
  "count_outcome r o' =
     (case r of
        Generated \<Rightarrow> o'\<lparr>to_generated := to_generated o' + 1\<rparr>
      | Skipped paused \<Rightarrow> o'\<lparr>to_skipped := to_skipped o' + 1, to_paused := to_paused o' + (if paused then 1 else 0)\<rparr>
      | _ \<Rightarrow> o')"

text \<open>A template whose generation raises is rolled back and counted; the others go on.\<close>

fun sweep_ids ::
  "(uid \<Rightarrow> gen_env) \<Rightarrow> ymd \<Rightarrow> uid list \<Rightarrow> tenant_outcome \<Rightarrow> recurring_state \<Rightarrow> tenant_outcome \<times> recurring_state" where
  "sweep_ids env today [] o' s = (o', s)"
| "sweep_ids env today (tid # ids) o' s =
     (case sweep_one (env tid) today tid s of
        Inl _ \<Rightarrow> sweep_ids env today ids (o'\<lparr>to_failures := to_failures o' + 1\<rparr>) s
      | Inr (r, s') \<Rightarrow> sweep_ids env today ids (count_outcome r o') s')"

definition due_ids :: "nat \<Rightarrow> ymd \<Rightarrow> template list \<Rightarrow> uid list" where
  "due_ids cap today ts =
     take cap (map rt_id (sort_key (the \<circ> rt_next) (sort_key rt_id (filter (\<lambda>t. still_due t today) ts))))"

definition sweep_tenant ::
  "(uid \<Rightarrow> gen_env) \<Rightarrow> nat \<Rightarrow> ymd \<Rightarrow> recurring_state \<Rightarrow> tenant_outcome \<times> recurring_state" where
  "sweep_tenant env cap today s =
     sweep_ids env today (due_ids cap today (rs_templates s))
       \<lparr>to_generated = 0, to_skipped = 0, to_paused = 0, to_failures = 0\<rparr> s"

end
