(* ===== verification/RecurringApi.thy ===== *)
theory RecurringApi
  imports Recurring
begin

text \<open>
  The endpoints that create, change and drive a recurring template (\<open>api/recurring.py\<close>). The
  vendor's name and the check of a GL code against the chart are arguments; a null sent for a
  column that is not nullable fails at the flush and is not modelled.
\<close>

definition seed_next_run_on :: "ymd \<Rightarrow> template \<Rightarrow> exc + template" where
  "seed_next_run_on after t =
     (let run = (\<lambda>d. compute_next_run_on (rt_cadence t) (rt_day t) d (rt_start t) (rt_end t))
      in bind_res (run after) (\<lambda>candidate.
           (case candidate of
              Some c \<Rightarrow>
                if rt_last_key t = Some (period_key_for (rt_cadence t) c)
                then bind_res (next_day c) (\<lambda>d. bind_res (run d) (\<lambda>candidate. Inr (t\<lparr>rt_next := candidate\<rparr>)))
                else Inr (t\<lparr>rt_next := Some c\<rparr>)
            | None \<Rightarrow> Inr (t\<lparr>rt_next := None\<rparr>))))"

record template_body =
  tb_name :: string
  tb_vendor_id :: "uid option"
  tb_description :: "string option"
  tb_amount :: "rat option"
  tb_currency :: string
  tb_gl_account :: "string option"
  tb_cost_center :: "string option"
  tb_department :: "string option"
  tb_project :: "string option"
  tb_po_number :: "string option"
  tb_payment_terms :: "string option"
  tb_cadence :: string
  tb_day :: int
  tb_start :: ymd
  tb_end :: "ymd option"
  tb_variance :: "rat option"
  tb_notes :: "string option"

definition template_audit :: "string \<Rightarrow> uid \<Rightarrow> template \<Rightarrow> (string \<times> pyval) list \<Rightarrow> audit_row" where
  "template_audit action actor t details =
     \<lparr>au_action = action, au_actor = Some actor, au_entity = rt_id t, au_details = details\<rparr>"

definition template_of_body :: "uid \<Rightarrow> uid option \<Rightarrow> uid \<Rightarrow> string option \<Rightarrow> template_body \<Rightarrow> template" where
  "template_of_body new_id entity user vname b =
     \<lparr> rt_id = new_id, rt_entity_id = entity, rt_name = tb_name b, rt_vendor_id = tb_vendor_id b,
       rt_vendor_name = vname, rt_description = tb_description b, rt_amount = tb_amount b,
       rt_currency = py_upper (if tb_currency b = [] then ''USD'' else tb_currency b),
       rt_gl_account = tb_gl_account b, rt_cost_center = tb_cost_center b, rt_department = tb_department b,
       rt_project = tb_project b, rt_po_number = tb_po_number b, rt_payment_terms = tb_payment_terms b,
       rt_cadence = tb_cadence b, rt_day = tb_day b, rt_start = tb_start b, rt_end = tb_end b, rt_next = None,
       rt_last_key = None, rt_last_at = None, rt_count = 0, rt_status = status_active,
       rt_variance = tb_variance b, rt_notes = tb_notes b, rt_meta = None, rt_created_by = Some user,
       rt_editors = None \<rparr>"

definition create_template ::
  "(uid \<Rightarrow> string option) \<Rightarrow> (string option \<Rightarrow> exc + unit) \<Rightarrow> uid \<Rightarrow> uid option \<Rightarrow> uid \<Rightarrow> template_body \<Rightarrow>
     recurring_state \<Rightarrow> exc + recurring_state" where
  "create_template vendor_name_of gl_check new_id entity user b s =
     bind_res (gl_check (tb_gl_account b)) (\<lambda>_.
     bind_res (seed_next_run_on (tb_start b)
         (template_of_body new_id entity user (Option.bind (tb_vendor_id b) vendor_name_of) b)) (\<lambda>t.
       Inr (s\<lparr>rs_templates := rs_templates s @ [t],
              rs_fx := dispatch_audit (template_audit ''recurring_template.created'' user t
                [(''name'', PStr (rt_name t)), (''cadence'', PStr (rt_cadence t))]) (rs_fx s)\<rparr>)))"

section \<open>Editing\<close>

datatype template_edit = SetName string | SetVendor "uid option" | SetDescription "string option"
  | SetAmount "rat option" | SetCurrency string | SetGl "string option" | SetCostCenter "string option"
  | SetDepartment "string option" | SetProject "string option" | SetPoNumber "string option"
  | SetPaymentTerms "string option" | SetCadence string | SetDay int | SetStart ymd | SetEnd "ymd option"
  | SetVariance "rat option" | SetNotes "string option"

primrec edit_field :: "template_edit \<Rightarrow> string" where
  "edit_field (SetName _) = ''name''"
| "edit_field (SetVendor _) = ''vendor_id''"
| "edit_field (SetDescription _) = ''description''"
| "edit_field (SetAmount _) = ''amount''"
| "edit_field (SetCurrency _) = ''currency''"
| "edit_field (SetGl _) = ''gl_account''"
| "edit_field (SetCostCenter _) = ''cost_center''"
| "edit_field (SetDepartment _) = ''department''"
| "edit_field (SetProject _) = ''project''"
| "edit_field (SetPoNumber _) = ''po_number''"
| "edit_field (SetPaymentTerms _) = ''payment_terms''"
| "edit_field (SetCadence _) = ''cadence''"
| "edit_field (SetDay _) = ''day_of_period''"
| "edit_field (SetStart _) = ''start_date''"
| "edit_field (SetEnd _) = ''end_date''"
| "edit_field (SetVariance _) = ''variance_tolerance_pct''"
| "edit_field (SetNotes _) = ''notes''"

primrec edited :: "(uid \<Rightarrow> string option) \<Rightarrow> template_edit \<Rightarrow> template \<Rightarrow> template" where
  "edited vn (SetName v) t = t\<lparr>rt_name := v\<rparr>"
| "edited vn (SetVendor v) t =
     (if v = rt_vendor_id t then t else t\<lparr>rt_vendor_id := v, rt_vendor_name := Option.bind v vn\<rparr>)"
| "edited vn (SetDescription v) t = t\<lparr>rt_description := v\<rparr>"
| "edited vn (SetAmount v) t = t\<lparr>rt_amount := v\<rparr>"
| "edited vn (SetCurrency v) t = t\<lparr>rt_currency := py_upper v\<rparr>"
| "edited vn (SetGl v) t = t\<lparr>rt_gl_account := v\<rparr>"
| "edited vn (SetCostCenter v) t = t\<lparr>rt_cost_center := v\<rparr>"
| "edited vn (SetDepartment v) t = t\<lparr>rt_department := v\<rparr>"
| "edited vn (SetProject v) t = t\<lparr>rt_project := v\<rparr>"
| "edited vn (SetPoNumber v) t = t\<lparr>rt_po_number := v\<rparr>"
| "edited vn (SetPaymentTerms v) t = t\<lparr>rt_payment_terms := v\<rparr>"
| "edited vn (SetCadence v) t = t\<lparr>rt_cadence := v\<rparr>"
| "edited vn (SetDay v) t = t\<lparr>rt_day := v\<rparr>"
| "edited vn (SetStart v) t = t\<lparr>rt_start := v\<rparr>"
| "edited vn (SetEnd v) t = t\<lparr>rt_end := v\<rparr>"
| "edited vn (SetVariance v) t = t\<lparr>rt_variance := v\<rparr>"
| "edited vn (SetNotes v) t = t\<lparr>rt_notes := v\<rparr>"

text \<open>The fields whose value the edit changed, in the order of the request.\<close>

fun apply_edits ::
  "(uid \<Rightarrow> string option) \<Rightarrow> template_edit list \<Rightarrow> template \<times> string list \<Rightarrow> template \<times> string list" where
  "apply_edits vn [] r = r"
| "apply_edits vn (ed # eds) (t, changed) =
     (let t' = edited vn ed t
      in apply_edits vn eds (t', if t' = t then changed else changed @ [edit_field ed]))"

definition new_gl :: "template_edit list \<Rightarrow> string option" where
  "new_gl eds = (case find (\<lambda>ed. edit_field ed = ''gl_account'') eds of Some (SetGl v) \<Rightarrow> v | _ \<Rightarrow> None)"

definition schedule_fields :: "string list" where
  "schedule_fields = [''cadence'', ''day_of_period'', ''start_date'']"

definition reanchored :: "ymd \<Rightarrow> string list \<Rightarrow> template \<Rightarrow> exc + template" where
  "reanchored today changed t =
     (if rt_status t = status_active \<and> list_ex (\<lambda>f. f \<in> set schedule_fields) changed
      then seed_next_run_on (max today (rt_start t)) t
      else if rt_status t = status_active \<and> ''end_date'' \<in> set changed
      then seed_next_run_on (case rt_next t of None \<Rightarrow> max today (rt_start t) | Some d \<Rightarrow> d) t
      else Inr t)"

definition update_template ::
  "(uid \<Rightarrow> string option) \<Rightarrow> (string option \<Rightarrow> exc + unit) \<Rightarrow> ymd \<Rightarrow> uid \<Rightarrow> template_edit list \<Rightarrow> template \<Rightarrow>
     effects \<Rightarrow> exc + template \<times> effects" where
  "update_template vn gl_check today user eds t fx =
     bind_res (if or_str (new_gl eds) [] \<noteq> [] \<and> new_gl eds \<noteq> rt_gl_account t then gl_check (new_gl eds) else Inr ()) (\<lambda>_.
       let (t, changed) = apply_edits vn eds (t, [])
       in bind_res (reanchored today changed t) (\<lambda>t.
            let material = material_edit_fields changed;
                t = (if material \<noteq> [] then record_material_editor user t else t);
                t = (if changed \<noteq> [] then clear_generation_skip_if_resolved t else t)
            in Inr (t, if changed = [] then fx
                       else dispatch_audit (template_audit ''recurring_template.updated'' user t
                         [(''changed'', PList (map PStr (sort changed))), (''material'', PList (map PStr (sort material)))]) fx)))"

definition delete_template :: "uid \<Rightarrow> template \<Rightarrow> recurring_state \<Rightarrow> exc + recurring_state" where
  "delete_template user t s =
     (if list_ex (\<lambda>g. gi_template g = rt_id t) (rs_generated s) then Inl (HttpError 409 [])
      else Inr (s\<lparr>rs_templates := filter (\<lambda>x. rt_id x \<noteq> rt_id t) (rs_templates s),
                  rs_fx := dispatch_audit (template_audit ''recurring_template.deleted'' user t
                    [(''name'', PStr (rt_name t))]) (rs_fx s)\<rparr>))"

section \<open>Pause, resume, end\<close>

definition lifecycle_audit :: "string \<Rightarrow> uid \<Rightarrow> template \<Rightarrow> effects \<Rightarrow> effects" where
  "lifecycle_audit action user t fx = dispatch_audit (template_audit action user t [(''status'', PStr (rt_status t))]) fx"

definition pause_template :: "uid \<Rightarrow> template \<Rightarrow> effects \<Rightarrow> exc + template \<times> effects" where
  "pause_template user t fx =
     (if rt_status t \<noteq> status_active then Inl (HttpError 409 [])
      else let t = t\<lparr>rt_status := status_paused\<rparr>
           in Inr (t, lifecycle_audit ''recurring_template.paused'' user t fx))"

definition resume_template :: "ymd \<Rightarrow> uid \<Rightarrow> template \<Rightarrow> effects \<Rightarrow> exc + template \<times> effects" where
  "resume_template today user t fx =
     (if rt_status t \<noteq> status_paused then Inl (HttpError 409 [])
      else bind_res (seed_next_run_on (max today (rt_start t)) (t\<lparr>rt_status := status_active\<rparr>)) (\<lambda>t.
        let t = clear_generation_skip_if_resolved t
        in Inr (t, lifecycle_audit ''recurring_template.resumed'' user t fx)))"

definition end_template :: "uid \<Rightarrow> template \<Rightarrow> effects \<Rightarrow> exc + template \<times> effects" where
  "end_template user t fx =
     (if rt_status t = status_ended then Inl (HttpError 409 [])
      else let t = t\<lparr>rt_status := status_ended, rt_next := None\<rparr>
           in Inr (t, lifecycle_audit ''recurring_template.ended'' user t fx))"

section \<open>Generate now\<close>

definition generate_now ::
  "gen_env \<Rightarrow> ymd \<Rightarrow> uid \<Rightarrow> template \<Rightarrow> generated list \<Rightarrow> effects \<Rightarrow>
     exc + generated \<times> template \<times> generated list \<times> effects" where
  "generate_now e today user t gs fx =
     (if rt_status t = status_ended then Inl (HttpError 409 [])
      else if not_generatable_reason t \<noteq> None then Inl (HttpError 422 [])
      else bind_res (current_due_run_on (rt_cadence t) (rt_day t) today (rt_start t)) (\<lambda>run_on.
        if past_end_date t run_on then Inl (HttpError 409 [])
        else (case find (in_period (rt_id t) (period_key_for (rt_cadence t) run_on)) gs of
                Some g \<Rightarrow> Inr (g, clear_generation_skip t, gs, fx)
              | None \<Rightarrow> bind_res (generate_one e (Some user) run_on t gs fx) (\<lambda>(g, t, gs, fx).
                  (case g of None \<Rightarrow> Inl (HttpError 422 []) | Some g \<Rightarrow> Inr (g, t, gs, fx))))))"

section \<open>A call on a template\<close>

datatype template_call = Edit uid "template_edit list" | Pause uid | Resume uid | End uid | GenerateNow uid

definition call_template ::
  "(uid \<Rightarrow> string option) \<Rightarrow> (string option \<Rightarrow> exc + unit) \<Rightarrow> gen_env \<Rightarrow> ymd \<Rightarrow> template_call \<Rightarrow> template \<Rightarrow>
     generated list \<Rightarrow> effects \<Rightarrow> exc + template \<times> generated list \<times> effects" where
  "call_template vn gl_check e today c t gs fx =
     (case c of
        Edit u eds \<Rightarrow> bind_res (update_template vn gl_check today u eds t fx) (\<lambda>(t, fx). Inr (t, gs, fx))
      | Pause u \<Rightarrow> bind_res (pause_template u t fx) (\<lambda>(t, fx). Inr (t, gs, fx))
      | Resume u \<Rightarrow> bind_res (resume_template today u t fx) (\<lambda>(t, fx). Inr (t, gs, fx))
      | End u \<Rightarrow> bind_res (end_template u t fx) (\<lambda>(t, fx). Inr (t, gs, fx))
      | GenerateNow u \<Rightarrow> bind_res (generate_now e today u t gs fx) (\<lambda>(_, t, gs, fx). Inr (t, gs, fx)))"

text \<open>\<open>_get_scoped\<close>: a template that is not there is a 404.\<close>

definition on_template ::
  "(uid \<Rightarrow> string option) \<Rightarrow> (string option \<Rightarrow> exc + unit) \<Rightarrow> gen_env \<Rightarrow> ymd \<Rightarrow> template_call \<Rightarrow> uid \<Rightarrow>
     recurring_state \<Rightarrow> exc + recurring_state" where
  "on_template vn gl_check e today c tid s =
     (case find_template tid (rs_templates s) of
        None \<Rightarrow> Inl (HttpError 404 [])
      | Some t \<Rightarrow> bind_res (call_template vn gl_check e today c t (rs_generated s) (rs_fx s)) (\<lambda>(t, gs, fx).
          Inr (s\<lparr>rs_templates := put_template t (rs_templates s), rs_generated := gs, rs_fx := fx\<rparr>)))"

end
