(* ===== verification/RecurringProofs.thy ===== *)
theory RecurringProofs
  imports RecurringApi ReviewProofs
begin

text \<open>
  What holds of recurring invoices over every interleaving of edits, lifecycle calls,
  generate-now and sweeps: one invoice per template and period, nobody who shaped a template can
  approve what it raised, the sweep raises nothing early and leaves nothing owed behind.
\<close>

section \<open>One template\<close>

definition shapers :: "template \<Rightarrow> uid set" where
  "shapers t = set (editors_of t) \<union> (case rt_created_by t of None \<Rightarrow> {} | Some u \<Rightarrow> {u})"

text \<open>The terms of the payable a template raises.\<close>

definition terms ::
  "template \<Rightarrow> (uid option \<times> rat option \<times> string \<times> string option \<times> string option \<times> string option \<times> string option) \<times>
     (string option \<times> string option \<times> string \<times> int \<times> ymd \<times> ymd option)" where
  "terms t = ((rt_vendor_id t, rt_amount t, rt_currency t, rt_gl_account t, rt_cost_center t, rt_department t, rt_project t),
     (rt_po_number t, rt_payment_terms t, rt_cadence t, rt_day t, rt_start t, rt_end t))"

definition same_people :: "template \<Rightarrow> template \<Rightarrow> bool" where
  "same_people t t' = (rt_id t' = rt_id t \<and> rt_created_by t' = rt_created_by t \<and> rt_editors t' = rt_editors t)"

lemma same_people_shapers: "same_people t t' \<Longrightarrow> shapers t' = shapers t \<and> rt_id t' = rt_id t"
  by (simp add: same_people_def shapers_def editors_of_def)

lemma same_people_refl [simp]: "same_people t t"
  by (simp add: same_people_def)

lemma same_people_trans: "same_people t u \<Longrightarrow> same_people u v \<Longrightarrow> same_people t v"
  by (simp add: same_people_def)

lemma clear_skip_same [simp]: "same_people t (clear_generation_skip t)" "terms (clear_generation_skip t) = terms t"
  "rt_next (clear_generation_skip t) = rt_next t" "rt_status (clear_generation_skip t) = rt_status t"
  "not_generatable_reason (clear_generation_skip t) = not_generatable_reason t" "rt_id (clear_generation_skip t) = rt_id t"
  "rt_cadence (clear_generation_skip t) = rt_cadence t" "rt_created_by (clear_generation_skip t) = rt_created_by t"
  "rt_amount (clear_generation_skip t) = rt_amount t" "rt_day (clear_generation_skip t) = rt_day t"
  "rt_start (clear_generation_skip t) = rt_start t" "rt_end (clear_generation_skip t) = rt_end t"
  by (simp_all add: clear_generation_skip_def same_people_def terms_def Let_def not_generatable_reason_def)

lemma clear_if_resolved_same [simp]: "same_people t (clear_generation_skip_if_resolved t)"
  "terms (clear_generation_skip_if_resolved t) = terms t"
  by (simp_all add: clear_generation_skip_if_resolved_def)

lemma seed_same:
  assumes "seed_next_run_on after t = Inr t'"
  shows "same_people t t'" and "terms t' = terms t"
  using assms by (auto simp: seed_next_run_on_def Let_def same_people_def terms_def elim!: bind_res_InrE
      split: option.splits if_splits)

lemma advance_same:
  assumes "advance_cursor run_on t = Inr t'"
  shows "same_people t t'" and "terms t' = terms t"
  using assms by (auto simp: advance_cursor_def same_people_def terms_def elim!: bind_res_InrE split: option.splits if_splits)

lemma skip_same:
  "same_people t (fst (record_generation_skip k r a t)) \<and> terms (fst (record_generation_skip k r a t)) = terms t"
  by (simp_all add: record_generation_skip_def same_people_def terms_def Let_def)

lemma handle_same:
  assumes "handle_non_generatable e k r t fx = (t', fx', p)"
  shows "same_people t t'" and "terms t' = terms t"
  using assms skip_same [of t k r "ge_now_iso e"]
  by (auto simp: handle_non_generatable_def Let_def same_people_def terms_def split: prod.splits if_splits)

lemma implicated_generated:
  "shapers t \<union> (case up of None \<Rightarrow> {} | Some u \<Rightarrow> {u}) = implicated_actors (generated_invoice e up k amt t)"
  by (auto simp: implicated_actors_def generated_invoice_def implicated_actor_ids_def shapers_def Let_def
      filter_empty_conv split: option.splits if_splits)

text \<open>A new row belongs to the template, is the only one of its period, and names who shaped it.\<close>

definition new_row :: "gen_env \<Rightarrow> uid option \<Rightarrow> template \<Rightarrow> generated list \<Rightarrow> generated \<Rightarrow> bool" where
  "new_row e actor t gs g =
     (gi_template g = rt_id t \<and> inv_id (gi_row g) = ge_inv_id e \<and>
      list_all (\<lambda>h. (gi_template h, gi_period h) \<noteq> (gi_template g, gi_period g)) gs \<and>
      shapers t \<subseteq> implicated_actors (gi_row g) \<and> (\<forall>u. actor = Some u \<longrightarrow> u \<in> implicated_actors (gi_row g)))"

lemma generate_one_spec:
  assumes "generate_one e actor run_on t gs fx = Inr (r, t', gs', fx')"
  shows "same_people t t' \<and> terms t' = terms t \<and>
    (gs' = gs \<or> (\<exists>g. gs' = gs @ [g] \<and> new_row e actor t gs g \<and> gi_date g = run_on \<and>
       gi_period g = period_key_for (rt_cadence t) run_on))"
proof (cases "not_generatable_reason t = None \<and> rt_amount t \<noteq> None")
  case False
  with assms show ?thesis
    by (auto simp: generate_one_def split: option.splits)
next
  case True
  then obtain amt where amt: "rt_amount t = Some amt" "not_generatable_reason t = None"
    by auto
  let ?t = "clear_generation_skip t" and ?k = "period_key_for (rt_cadence t) run_on"
  let ?up = "if actor \<noteq> None then actor else rt_created_by ?t"
  note a = assms [unfolded generate_one_def amt option.case prod.case Let_def]
  show ?thesis
  proof (cases "find (in_period (rt_id t) ?k) gs")
    case (Some g)
    with a clear_skip_same(1,2) [of t] show ?thesis
      by auto
  next
    case None
    define g where "g = \<lparr>gi_template = rt_id t, gi_period = ?k, gi_date = run_on,
      gi_row = generated_invoice e ?up ?k amt ?t,
      gi_instance = create_workflow_instance (ge_definition e) (ge_variant e)\<rparr>"
    from a None obtain cur where t': "gs' = gs @ [g]"
        "t' = ?t\<lparr>rt_count := rt_count ?t + 1, rt_last_key := Some ?k, rt_last_at := Some (ge_now e), rt_next := cur\<rparr>"
      unfolding g_def by (auto elim!: bind_res_InrE)
    have "shapers ?t = shapers t"
      using same_people_shapers [of t ?t] by simp
    then have "implicated_actors (gi_row g) = shapers t \<union> (case ?up of None \<Rightarrow> {} | Some u \<Rightarrow> {u})"
      using implicated_generated [of ?t ?up e ?k amt] by (simp add: g_def)
    moreover have "list_all (\<lambda>h. (gi_template h, gi_period h) \<noteq> (rt_id t, ?k)) gs"
      using None by (auto simp: find_None_iff in_period_def list_all_iff)
    ultimately have "new_row e actor t gs g"
      by (auto simp: new_row_def g_def generated_invoice_def)
    moreover have "same_people t t'" "terms t' = terms t"
      using clear_skip_same(1,2) [of t] by (simp_all add: t'(2) same_people_def terms_def)
    ultimately show ?thesis
      using t'(1) by (auto simp: g_def)
  qed
qed

lemma sweep_template_spec:
  assumes "sweep_template e today t gs fx = Inr (r, t', gs', fx')"
  shows "same_people t t' \<and> terms t' = terms t \<and>
    (gs' = gs \<or> (\<exists>g. gs' = gs @ [g] \<and> new_row e None t gs g \<and> still_due t today \<and> rt_next t = Some (gi_date g) \<and>
       \<not> past_end_date t (gi_date g) \<and> not_generatable_reason t = None \<and>
       gi_period g = period_key_for (rt_cadence t) (gi_date g)))"
proof (cases "rt_next t")
  case None
  with assms show ?thesis
    by (simp add: sweep_template_def)
next
  case (Some run_on)
  let ?t = "clear_generation_skip t" and ?k = "period_key_for (rt_cadence t) run_on"
  note a = assms [unfolded sweep_template_def Some option.case Let_def]
  show ?thesis
  proof (cases "still_due t today \<and> \<not> past_end_date t run_on")
    case False
    with a show ?thesis
      by (auto simp: same_people_def terms_def split: if_splits)
  next
    case due: True
    show ?thesis
    proof (cases "not_generatable_reason t")
      case (Some reason)
      obtain t1 fx1 p where h: "handle_non_generatable e ?k reason t fx = (t1, fx1, p)"
        by (metis prod_cases3)
      with a due Some obtain "advance_cursor run_on t1 = Inr t'" "gs' = gs"
        by (auto elim: bind_res_InrE)
      then show ?thesis
        using handle_same [OF h] advance_same [of run_on t1 t'] same_people_trans [of t t1 t'] by simp
    next
      case ok: None
      show ?thesis
      proof (cases "find (in_period (rt_id t) ?k) gs")
        case (Some g)
        with a due ok obtain "advance_cursor run_on ?t = Inr t'" "gs' = gs"
          by (auto elim: bind_res_InrE)
        then show ?thesis
          using advance_same [of run_on ?t t'] same_people_trans [of t ?t t'] by simp
      next
        case None
        with a due ok obtain g t1 gs1 fx1 where
            g: "generate_one e None run_on ?t gs fx = Inr (g, t1, gs1, fx1)" "advance_cursor run_on t1 = Inr t'" "gs' = gs1"
          by (auto elim!: bind_res_InrE)
        note spec = generate_one_spec [OF g(1)]
        have "same_people ?t t'" "terms t' = terms t"
          using spec advance_same [OF g(2)] same_people_trans [of ?t t1 t'] by simp_all
        then have "same_people t t'"
          using same_people_trans [of t ?t t'] by simp
        moreover have "new_row e None ?t gs h \<longleftrightarrow> new_row e None t gs h" for h
          using same_people_shapers [of t ?t] by (simp add: new_row_def)
        ultimately show ?thesis
          using spec g(3) due ok Some \<open>terms t' = terms t\<close> by auto
      qed
    qed
  qed
qed

section \<open>The calls\<close>

lemma apply_edits_spec:
  assumes "apply_edits vn eds (t, changed) = (t', changed')"
  shows "same_people t t' \<and> set changed \<subseteq> set changed' \<and> (terms t' \<noteq> terms t \<longrightarrow> material_edit_fields changed' \<noteq> [])"
  using assms
proof (induction eds arbitrary: t changed)
  case (Cons ed eds)
  let ?t = "edited vn ed t"
  let ?ch = "if ?t = t then changed else changed @ [edit_field ed]"
  have one: "same_people t ?t" "terms ?t \<noteq> terms t \<Longrightarrow> edit_field ed \<in> set material_fields"
    by (cases ed; simp add: same_people_def terms_def material_fields_def split: if_splits)+
  have ih: "same_people ?t t'" "set ?ch \<subseteq> set changed'" "terms t' \<noteq> terms ?t \<longrightarrow> material_edit_fields changed' \<noteq> []"
    using Cons.IH [of ?t ?ch] Cons.prems by (simp_all add: Let_def)
  have "material_edit_fields changed' \<noteq> []" if "terms ?t \<noteq> terms t"
  proof -
    from that have "?t \<noteq> t"
      by auto
    with ih(2) have "edit_field ed \<in> set changed'"
      by auto
    with one(2) [OF that] show ?thesis
      by (auto simp: material_edit_fields_def filter_empty_conv)
  qed
  with ih one(1) show ?case
    using same_people_trans by (auto split: if_splits)
qed simp

lemma material_editor_shapers:
  "shapers (record_material_editor u t) = insert u (shapers t)" "rt_id (record_material_editor u t) = rt_id t"
  "terms (record_material_editor u t) = terms t"
  by (auto simp: record_material_editor_def shapers_def editors_of_def terms_def)

lemma reanchored_same: "reanchored today ch t = Inr t' \<Longrightarrow> same_people t t' \<and> terms t' = terms t"
  by (auto simp: reanchored_def dest: seed_same split: if_splits)

lemma update_template_spec:
  assumes "update_template vn gl today u eds t fx = Inr (t', fx')"
  shows "rt_id t' = rt_id t \<and> shapers t \<subseteq> shapers t' \<and> (terms t' \<noteq> terms t \<longrightarrow> u \<in> shapers t')"
proof -
  obtain t1 ch where e: "apply_edits vn eds (t, []) = (t1, ch)"
    by (metis surj_pair)
  with assms obtain t2 where r: "reanchored today ch t1 = Inr t2"
    and t': "t' = (let t = (if material_edit_fields ch \<noteq> [] then record_material_editor u t2 else t2)
       in if ch \<noteq> [] then clear_generation_skip_if_resolved t else t)"
    unfolding update_template_def by (elim bind_res_InrE) (auto simp: Let_def elim!: bind_res_InrE)
  define t3 where "t3 = (if material_edit_fields ch \<noteq> [] then record_material_editor u t2 else t2)"
  have "same_people t3 t' \<and> terms t' = terms t3"
    by (simp add: t' t3_def Let_def)
  then have "shapers t' = shapers t3" "rt_id t' = rt_id t3" "terms t' = terms t3"
    using same_people_shapers by simp_all
  moreover have "shapers t2 = shapers t" "rt_id t2 = rt_id t" "terms t2 = terms t1"
    using apply_edits_spec [OF e] reanchored_same [OF r] same_people_trans [of t t1 t2] same_people_shapers [of t t2]
    by simp_all
  ultimately show ?thesis
    using apply_edits_spec [OF e] by (auto simp: t3_def material_editor_shapers)
qed

lemma generate_now_spec:
  assumes "generate_now e today u t gs fx = Inr (r, t', gs', fx')"
  shows "same_people t t' \<and> terms t' = terms t \<and> (gs' = gs \<or> (\<exists>g. gs' = gs @ [g] \<and> new_row e (Some u) t gs g))"
proof -
  from assms obtain run_on where
      "(case find (in_period (rt_id t) (period_key_for (rt_cadence t) run_on)) gs of
          Some g \<Rightarrow> Inr (g, clear_generation_skip t, gs, fx)
        | None \<Rightarrow> bind_res (generate_one e (Some u) run_on t gs fx) (\<lambda>(g, t, gs, fx).
            (case g of None \<Rightarrow> Inl (HttpError 422 []) | Some g \<Rightarrow> Inr (g, t, gs, fx)))) = Inr (r, t', gs', fx')"
    by (auto simp: generate_now_def elim!: bind_res_InrE split: if_splits)
  then consider (old) "t' = clear_generation_skip t" "gs' = gs"
    | (new) g where "generate_one e (Some u) run_on t gs fx = Inr (Some g, t', gs', fx')"
    by (auto elim!: bind_res_InrE split: option.splits)
  then show ?thesis
    using generate_one_spec by cases (simp, blast)
qed

text \<open>What any call on a template does to who shaped it and to the generated rows.\<close>

definition by_caller :: "template_call \<Rightarrow> uid option" where
  "by_caller c = (case c of GenerateNow u \<Rightarrow> Some u | _ \<Rightarrow> None)"

lemma call_template_spec:
  assumes "call_template vn gl e today c t gs fx = Inr (t', gs', fx')"
  shows "rt_id t' = rt_id t \<and> shapers t \<subseteq> shapers t' \<and>
    (terms t' \<noteq> terms t \<longrightarrow> (\<exists>u eds. c = Edit u eds \<and> u \<in> shapers t')) \<and>
    (gs' = gs \<or> (\<exists>g. gs' = gs @ [g] \<and> new_row e (by_caller c) t gs g))"
proof (cases c)
  case (Edit u eds)
  with assms have "update_template vn gl today u eds t fx = Inr (t', fx')" "gs' = gs"
    by (auto simp: call_template_def elim!: bind_res_InrE)
  with update_template_spec [OF this(1)] Edit show ?thesis
    by blast
next
  case (Resume u)
  with assms obtain t1 where "seed_next_run_on (max today (rt_start t)) (t\<lparr>rt_status := status_active\<rparr>) = Inr t1"
      "t' = clear_generation_skip_if_resolved t1" "gs' = gs"
    by (auto simp: call_template_def resume_template_def Let_def elim!: bind_res_InrE split: if_splits)
  moreover have "same_people t (t\<lparr>rt_status := status_active\<rparr>)" "terms (t\<lparr>rt_status := status_active\<rparr>) = terms t"
    by (simp_all add: same_people_def terms_def)
  ultimately have "same_people t t'" "terms t' = terms t"
    using seed_same [of "max today (rt_start t)" "t\<lparr>rt_status := status_active\<rparr>" t1]
      same_people_trans [of t "t\<lparr>rt_status := status_active\<rparr>" t1] same_people_trans [of t t1 t'] by simp_all
  then show ?thesis
    using same_people_shapers \<open>gs' = gs\<close> by simp
next
  case (GenerateNow u)
  with assms obtain g where "generate_now e today u t gs fx = Inr (g, t', gs', fx')"
    by (auto simp: call_template_def elim!: bind_res_InrE)
  note spec = generate_now_spec [OF this]
  then have "shapers t' = shapers t" "rt_id t' = rt_id t" "terms t' = terms t"
    using same_people_shapers by simp_all
  moreover have "by_caller c = Some u"
    by (simp add: GenerateNow by_caller_def)
  ultimately show ?thesis
    using spec by simp
next
  case (Pause u)
  with assms have "t' = t\<lparr>rt_status := status_paused\<rparr>" "gs' = gs"
    by (auto simp: call_template_def pause_template_def Let_def elim!: bind_res_InrE split: if_splits)
  then show ?thesis
    by (simp add: shapers_def editors_of_def terms_def)
next
  case (End u)
  with assms have "t' = t\<lparr>rt_status := status_ended, rt_next := None\<rparr>" "gs' = gs"
    by (auto simp: call_template_def end_template_def Let_def elim!: bind_res_InrE split: if_splits)
  then show ?thesis
    by (simp add: shapers_def editors_of_def terms_def)
qed

end
