(* ===== verification/RecurringHistory.thy ===== *)
theory RecurringHistory
  imports RecurringProofs
begin

text \<open>
  Histories of the recurring tables: any interleaving of creations, edits, lifecycle calls,
  generate-now, sweeps of single templates by any number of replicas, and deletions, on any
  days. Two records are kept beside the tables, from the calls alone: who created or changed
  the terms of a template, and who had done so when an invoice was raised.
\<close>

section \<open>Histories\<close>

definition terms_in where
  "terms_in tid s = map_option terms (find_template tid (rs_templates s))"

definition edited_by :: "template_call \<Rightarrow> uid \<Rightarrow> recurring_state \<Rightarrow> recurring_state \<Rightarrow> (uid \<times> uid) set" where
  "edited_by c tid s s' =
     (case c of Edit u _ \<Rightarrow> if terms_in tid s' \<noteq> terms_in tid s then {(tid, u)} else {} | _ \<Rightarrow> {})"

definition raised_by ::
  "gen_env \<Rightarrow> uid \<Rightarrow> uid option \<Rightarrow> (uid \<times> uid) set \<Rightarrow> recurring_state \<Rightarrow> recurring_state \<Rightarrow> (uid \<times> uid) set" where
  "raised_by e tid actor sh s s' =
     (if rs_generated s' = rs_generated s then {}
      else {(ge_inv_id e, v) | v. (tid, v) \<in> sh \<or> actor = Some v})"

definition fresh_invoice :: "gen_env \<Rightarrow> recurring_state \<Rightarrow> bool" where
  "fresh_invoice e s = list_all (\<lambda>g. inv_id (gi_row g) \<noteq> ge_inv_id e) (rs_generated s)"

inductive recurring_history :: "recurring_state \<Rightarrow> (uid \<times> uid) set \<Rightarrow> (uid \<times> uid) set \<Rightarrow> bool" where
  started: "distinct (map rt_id ts) \<Longrightarrow>
     recurring_history \<lparr>rs_templates = ts, rs_generated = [], rs_fx = fx\<rparr> {} {}"
| created: "recurring_history s sh im \<Longrightarrow> create_template vn gl nid ent u b s = Inr s' \<Longrightarrow>
     nid \<notin> rt_id ` set (rs_templates s) \<Longrightarrow> nid \<notin> fst ` sh \<Longrightarrow>
     recurring_history s' (insert (nid, u) sh) im"
| called: "recurring_history s sh im \<Longrightarrow> on_template vn gl e today c tid s = Inr s' \<Longrightarrow> fresh_invoice e s \<Longrightarrow>
     recurring_history s' (sh \<union> edited_by c tid s s') (im \<union> raised_by e tid (by_caller c) sh s s')"
| swept: "recurring_history s sh im \<Longrightarrow> sweep_one e today tid s = Inr (r, s') \<Longrightarrow> fresh_invoice e s \<Longrightarrow>
     recurring_history s' sh (im \<union> raised_by e tid None sh s s')"
| deleted: "recurring_history s sh im \<Longrightarrow> delete_template u t s = Inr s' \<Longrightarrow> recurring_history s' sh im"

section \<open>The invariant\<close>

definition period_of :: "generated \<Rightarrow> uid \<times> string" where
  "period_of g = (gi_template g, gi_period g)"

definition history_ok :: "recurring_state \<Rightarrow> (uid \<times> uid) set \<Rightarrow> (uid \<times> uid) set \<Rightarrow> bool" where
  "history_ok s sh im =
     (distinct (map rt_id (rs_templates s)) \<and>
      (\<forall>t \<in> set (rs_templates s). \<forall>v. (rt_id t, v) \<in> sh \<longrightarrow> v \<in> shapers t) \<and>
      distinct (map period_of (rs_generated s)) \<and>
      distinct (map (\<lambda>g. inv_id (gi_row g)) (rs_generated s)) \<and>
      fst ` im \<subseteq> (\<lambda>g. inv_id (gi_row g)) ` set (rs_generated s) \<and>
      (\<forall>g \<in> set (rs_generated s). \<forall>v. (inv_id (gi_row g), v) \<in> im \<longrightarrow> v \<in> implicated_actors (gi_row g)))"

lemma find_template_Some: "find_template tid ts = Some t \<Longrightarrow> t \<in> set ts \<and> rt_id t = tid"
  by (auto simp: find_template_def find_Some_iff)

lemma put_template_ids: "rt_id t' \<in> rt_id ` set ts \<Longrightarrow> map rt_id (put_template t' ts) = map rt_id ts"
  by (auto simp: put_template_def)

lemma put_template_set: "x \<in> set (put_template t' ts) \<Longrightarrow> x = t' \<or> (x \<in> set ts \<and> rt_id x \<noteq> rt_id t')"
  by (auto simp: put_template_def split: if_splits)

lemma find_put_template:
  assumes "find_template tid ts = Some t" and "rt_id t' = tid"
  shows "find_template tid (put_template t' ts) = Some t'"
  using assms by (induction ts) (auto simp: find_template_def put_template_def split: if_splits)

lemma history_ok_row:
  assumes "history_ok s sh im" and "find_template tid (rs_templates s) = Some t" and "new_row e actor t (rs_generated s) g"
    and "fresh_invoice e s"
  shows "history_ok (s\<lparr>rs_generated := rs_generated s @ [g]\<rparr>) sh
    (im \<union> {(ge_inv_id e, v) | v. (tid, v) \<in> sh \<or> actor = Some v})"
proof -
  note ok = assms(1) [unfolded history_ok_def]
  have t: "t \<in> set (rs_templates s)" "rt_id t = tid"
    using find_template_Some [OF assms(2)] by simp_all
  have g: "inv_id (gi_row g) = ge_inv_id e" "period_of g \<notin> period_of ` set (rs_generated s)"
    "shapers t \<subseteq> implicated_actors (gi_row g)" "\<And>u. actor = Some u \<Longrightarrow> u \<in> implicated_actors (gi_row g)"
    using assms(3) by (auto simp: new_row_def list_all_iff period_of_def)
  have f: "ge_inv_id e \<notin> (\<lambda>g. inv_id (gi_row g)) ` set (rs_generated s)"
    using assms(4) by (auto simp: fresh_invoice_def list_all_iff)
  then have other: "inv_id (gi_row h) \<noteq> ge_inv_id e" if "h \<in> set (rs_generated s)" for h
    using that by force
  from f have "(ge_inv_id e, v) \<notin> im" for v
    using ok by force
  moreover have "v \<in> implicated_actors (gi_row g)" if "(tid, v) \<in> sh" for v
    using that ok t g(3) by blast
  ultimately have "\<forall>v. (ge_inv_id e, v) \<in> im \<union> {(ge_inv_id e, v) | v. (tid, v) \<in> sh \<or> actor = Some v} \<longrightarrow>
      v \<in> implicated_actors (gi_row g)"
    using g(4) by blast
  then show ?thesis
    using ok f g(1,2) other unfolding history_ok_def by auto
qed

lemma history_ok_template:
  assumes "history_ok s sh im" and "find_template tid (rs_templates s) = Some t" and "rt_id t' = rt_id t"
    and "shapers t \<subseteq> shapers t'" and "\<And>x v. (x, v) \<in> E \<Longrightarrow> x = tid \<and> v \<in> shapers t'"
  shows "history_ok (s\<lparr>rs_templates := put_template t' (rs_templates s), rs_fx := fx\<rparr>) (sh \<union> E) im"
proof -
  note ok = assms(1) [unfolded history_ok_def]
  have t: "t \<in> set (rs_templates s)" "rt_id t = tid"
    using find_template_Some [OF assms(2)] by simp_all
  have "map rt_id (put_template t' (rs_templates s)) = map rt_id (rs_templates s)"
    using t assms(3) by (intro put_template_ids) auto
  moreover have "v \<in> shapers x" if x: "x \<in> set (put_template t' (rs_templates s))" and v: "(rt_id x, v) \<in> sh \<union> E" for x v
    using put_template_set [OF x]
  proof
    assume "x = t'"
    with v ok t assms(3-5) show ?thesis
      by auto
  next
    assume "x \<in> set (rs_templates s) \<and> rt_id x \<noteq> rt_id t'"
    with v ok t assms(3,5) show ?thesis
      by auto
  qed
  ultimately show ?thesis
    using ok unfolding history_ok_def by simp
qed

lemma history_ok_step:
  assumes ok: "history_ok s sh im" and f: "find_template tid (rs_templates s) = Some t" and t': "rt_id t' = rt_id t"
    and mono: "shapers t \<subseteq> shapers t'" and E: "\<And>x v. (x, v) \<in> E \<Longrightarrow> x = tid \<and> v \<in> shapers t'"
    and gs: "gs' = rs_generated s \<or> (\<exists>g. gs' = rs_generated s @ [g] \<and> new_row e actor t (rs_generated s) g)"
    and fresh: "fresh_invoice e s"
    and s': "s' = s\<lparr>rs_templates := put_template t' (rs_templates s), rs_generated := gs', rs_fx := fx'\<rparr>"
  shows "history_ok s' (sh \<union> E) (im \<union> raised_by e tid actor sh s s')"
  using gs
proof
  assume "gs' = rs_generated s"
  then have "s' = s\<lparr>rs_templates := put_template t' (rs_templates s), rs_fx := fx'\<rparr>" "raised_by e tid actor sh s s' = {}"
    by (simp_all add: s' raised_by_def)
  then show ?thesis
    using history_ok_template [OF ok f t' mono E] by simp
next
  assume "\<exists>g. gs' = rs_generated s @ [g] \<and> new_row e actor t (rs_generated s) g"
  then obtain g where g: "gs' = rs_generated s @ [g]" "new_row e actor t (rs_generated s) g"
    by blast
  let ?s = "s\<lparr>rs_generated := rs_generated s @ [g]\<rparr>"
  have "history_ok ?s sh (im \<union> {(ge_inv_id e, v) | v. (tid, v) \<in> sh \<or> actor = Some v})"
    by (rule history_ok_row [OF ok f g(2) fresh])
  moreover have "find_template tid (rs_templates ?s) = Some t"
    using f by simp
  ultimately have "history_ok (?s\<lparr>rs_templates := put_template t' (rs_templates ?s), rs_fx := fx'\<rparr>) (sh \<union> E)
      (im \<union> {(ge_inv_id e, v) | v. (tid, v) \<in> sh \<or> actor = Some v})"
    using history_ok_template [OF _ _ t' mono E] by blast
  moreover have "?s\<lparr>rs_templates := put_template t' (rs_templates ?s), rs_fx := fx'\<rparr> = s'"
    by (simp add: s' g(1))
  moreover have "raised_by e tid actor sh s s' = {(ge_inv_id e, v) | v. (tid, v) \<in> sh \<or> actor = Some v}"
    by (simp add: raised_by_def s' g(1))
  ultimately show ?thesis
    by simp
qed

lemma template_of_body_people:
  assumes "seed_next_run_on after (template_of_body nid ent u vn b) = Inr t"
  shows "rt_id t = nid" and "shapers t = {u}"
proof -
  have "same_people (template_of_body nid ent u vn b) t"
    by (rule seed_same [OF assms])
  then show "rt_id t = nid" "shapers t = {u}"
    by (simp_all add: same_people_def template_of_body_def shapers_def editors_of_def)
qed

theorem history_is_ok: "recurring_history s sh im \<Longrightarrow> history_ok s sh im"
proof (induction rule: recurring_history.induct)
  case (created s sh im vn gl nid ent u b s')
  from created.hyps(2) obtain t fx where t: "seed_next_run_on (tb_start b)
      (template_of_body nid ent u (Option.bind (tb_vendor_id b) vn) b) = Inr t"
    "s' = s\<lparr>rs_templates := rs_templates s @ [t], rs_fx := fx\<rparr>"
    unfolding create_template_def by (elim bind_res_InrE) auto
  note p = template_of_body_people [OF t(1)]
  have "(nid, v) \<notin> sh" for v
    using created.hyps(4) by force
  moreover have "rt_id x \<noteq> nid" if "x \<in> set (rs_templates s)" for x
    using that created.hyps(3) by blast
  ultimately show ?case
    using created.IH created.hyps(3) p unfolding history_ok_def t(2) by auto
next
  case (called s sh im vn gl e today c tid s')
  from called.hyps(2) obtain t t' gs' fx' where t: "find_template tid (rs_templates s) = Some t"
    and c: "call_template vn gl e today c t (rs_generated s) (rs_fx s) = Inr (t', gs', fx')"
    and s': "s' = s\<lparr>rs_templates := put_template t' (rs_templates s), rs_generated := gs', rs_fx := fx'\<rparr>"
    unfolding on_template_def by (auto elim!: bind_res_InrE split: option.splits)
  note spec = call_template_spec [OF c]
  have id: "rt_id t' = tid"
    using spec find_template_Some [OF t] by simp
  have E: "x = tid \<and> v \<in> shapers t'" if "(x, v) \<in> edited_by c tid s s'" for x v
  proof -
    have "terms_in tid s' = Some (terms t')" "terms_in tid s = Some (terms t)"
      using find_put_template [OF t id] t by (simp_all add: terms_in_def s')
    with that spec show ?thesis
      by (auto simp: edited_by_def split: template_call.splits if_splits)
  qed
  show ?case
    by (rule history_ok_step [OF called.IH t _ _ E _ called.hyps(3) s']) (use spec in blast)+
next
  case (swept s sh im e today tid r s')
  show ?case
  proof (cases "find_template tid (rs_templates s)")
    case None
    with swept.hyps(2) have "s' = s"
      by (simp add: sweep_one_def)
    with swept.IH show ?thesis
      by (simp add: raised_by_def)
  next
    case (Some t)
    with swept.hyps(2) obtain t' gs' fx' where c: "sweep_template e today t (rs_generated s) (rs_fx s) = Inr (r, t', gs', fx')"
      and s': "s' = s\<lparr>rs_templates := put_template t' (rs_templates s), rs_generated := gs', rs_fx := fx'\<rparr>"
      unfolding sweep_one_def by (auto elim!: bind_res_InrE)
    note spec = sweep_template_spec [OF c]
    then have "rt_id t' = rt_id t" "shapers t \<subseteq> shapers t'"
      using same_people_shapers by auto
    then have "history_ok s' (sh \<union> {}) (im \<union> raised_by e tid None sh s s')"
      by (intro history_ok_step [OF swept.IH Some _ _ _ _ swept.hyps(3) s']) (use spec in blast)+
    then show ?thesis
      by simp
  qed
next
  case (deleted s sh im u t s')
  then have "rs_templates s' = filter (\<lambda>x. rt_id x \<noteq> rt_id t) (rs_templates s)" "rs_generated s' = rs_generated s"
    by (auto simp: delete_template_def split: if_splits)
  with deleted.IH show ?case
    unfolding history_ok_def by (auto simp: distinct_map_filter)
qed (simp add: history_ok_def)

section \<open>What the sweep leaves owed\<close>

abbreviation occ :: "template \<Rightarrow> nat \<Rightarrow> ymd" where
  "occ t k \<equiv> occurrence (rt_cadence t) (rt_day t) (rt_start t) k"

text \<open>An active template that can generate, whose cursor is on its schedule.\<close>

definition on_schedule :: "template \<Rightarrow> nat \<Rightarrow> bool" where
  "on_schedule t j =
     (rt_status t = status_active \<and> not_generatable_reason t = None \<and> day_ok (rt_day t) \<and> valid_ymd (rt_start t) \<and>
      rt_next t = Some (occ t j))"

lemma advanced_cursor_next:
  assumes "day_ok (rt_day t)" and "valid_ymd (rt_start t)" and "valid_ymd (occ t j)" and "ymd_year (occ t j) \<le> 9997"
  shows "advanced_cursor (occ t j) t = Inr (if past_end_date t (occ t (Suc j)) then None else Some (occ t (Suc j)))"
proof -
  let ?p = "months_per_period (rt_cadence t)" and ?n = "occ t (Suc j)"
  have p: "0 < ?p" "?p \<le> 12"
    by (simp_all add: months_per_period_def)
  have i: "month_index ?n = month_index (occ t j) + ?p"
    by (simp add: occurrence_month algebra_simps)
  have "month_index (occ t j) < 119976"
    using assms(3,4) by (auto simp: valid_ymd_def month_index_def)
  moreover have "12 \<le> month_index (occ t j)"
    using month_index_range [OF assms(3)] by simp
  ultimately have n: "12 \<le> month_index ?n" "month_index ?n < 119988"
    using p unfolding i by linarith+
  then have vn: "valid_ymd ?n"
    using assms(1) by (simp add: occurrence_valid)
  have yn: "ymd_year ?n \<le> 9998"
    using n(2) vn by (auto simp: valid_ymd_def month_index_def)
  have "of_month (month_index (occ t j) + ?p) (rt_day t) = ?n"
    unfolding i [symmetric] by (simp add: occurrence_def)
  then have a: "add_months (occ t j) ?p = Inr ?n"
    using add_months_ok [OF assms(3), of ?p] assms(1) n(2) p unfolding i by (simp add: day_ok_def occurrence_def)
  have "month_index (rt_start t) < month_index ?n"
    using p unfolding occurrence_month by (simp add: add_pos_nonneg)
  then have "rt_start t \<le> ?n"
    using ymd_of_month [OF assms(2)] by (metis occurrence_month occurrence_def of_month_le)
  then have m: "max ?n (rt_start t) = ?n"
    by (simp add: max_def)
  obtain k where k: "compute_next_run_on (rt_cadence t) (rt_day t) ?n (rt_start t) (rt_end t) =
      Inr (case rt_end t of None \<Rightarrow> Some (occ t k) | Some e \<Rightarrow> if e < occ t k then None else Some (occ t k))"
    "?n \<le> occ t k" "\<And>i. i < k \<Longrightarrow> occ t i < ?n"
    using compute_next_finds [OF assms(1,2) vn, of "rt_cadence t" "rt_end t"] m yn by auto
  have "k = Suc j"
  proof (cases k "Suc j" rule: linorder_cases)
    case less
    then have "occ t k < ?n"
      by (rule occurrence_mono)
    with k(2) show ?thesis
      by simp
  next
    case greater
    then have "?n < ?n"
      by (rule k(3))
    then show ?thesis
      by simp
  qed
  with a k(1) show ?thesis
    by (auto simp: advanced_cursor_def past_end_date_def split: option.splits)
qed

lemma sweep_template_next:
  assumes t: "on_schedule t j" and v: "valid_ymd (occ t j)" "ymd_year (occ t j) \<le> 9997"
    and due: "occ t j \<le> today" "\<not> past_end_date t (occ t j)"
  obtains r t' gs' fx' where "sweep_template e today t gs fx = Inr (r, t', gs', fx')"
    and "set gs \<subseteq> set gs'" and "\<exists>g \<in> set gs'. in_period (rt_id t) (period_key_for (rt_cadence t) (occ t j)) g"
    and "same_people t t'" and "terms t' = terms t" and "rt_status t' = rt_status t"
    and "not_generatable_reason t' = None"
    and "rt_next t' = (if past_end_date t (occ t (Suc j)) then None else Some (occ t (Suc j)))"
proof -
  let ?t = "clear_generation_skip t" and ?k = "period_key_for (rt_cadence t) (occ t j)"
  note s = t [unfolded on_schedule_def]
  have cur: "advanced_cursor (occ t j) t = Inr (if past_end_date t (occ t (Suc j)) then None else Some (occ t (Suc j)))"
    using advanced_cursor_next [OF _ _ v] s by simp
  then have cur': "advanced_cursor (occ t j) ?t = Inr (if past_end_date t (occ t (Suc j)) then None else Some (occ t (Suc j)))"
    by (simp add: advanced_cursor_def)
  have lt: "occ t j < occ t (Suc j)"
    by (rule occurrence_mono) simp
  have sd: "still_due t today"
    using s due by (simp add: still_due_def)
  show thesis
  proof (cases "find (in_period (rt_id t) ?k) gs")
    case (Some g)
    then have "g \<in> set gs" "in_period (rt_id t) ?k g"
      by (auto simp: find_Some_iff)
    moreover have "sweep_template e today t gs fx = Inr (AlreadyGenerated,
        ?t\<lparr>rt_next := if past_end_date t (occ t (Suc j)) then None else Some (occ t (Suc j))\<rparr>, gs, fx)"
      using s due sd Some cur' by (simp add: sweep_template_def advance_cursor_def Let_def)
    moreover have "same_people t (?t\<lparr>rt_next := c\<rparr>)" "terms (?t\<lparr>rt_next := c\<rparr>) = terms t"
        "not_generatable_reason (?t\<lparr>rt_next := c\<rparr>) = None" for c
      using clear_skip_same [of t] s by (simp_all add: same_people_def terms_def not_generatable_reason_def)
    ultimately show thesis
      using that by force
  next
    case None
    obtain amt where amt: "rt_amount t = Some amt"
      using s by (auto simp: not_generatable_reason_def Let_def split: if_splits)
    define g where "g = \<lparr>gi_template = rt_id t, gi_period = ?k, gi_date = occ t j,
      gi_row = generated_invoice e (rt_created_by t) ?k amt ?t,
      gi_instance = create_workflow_instance (ge_definition e) (ge_variant e)\<rparr>"
    define t1 where "t1 = ?t\<lparr>rt_count := rt_count ?t + 1, rt_last_key := Some ?k, rt_last_at := Some (ge_now e),
      rt_next := if past_end_date t (occ t (Suc j)) then None else Some (occ t (Suc j))\<rparr>"
    have idem: "clear_generation_skip ?t = ?t"
      by (auto simp: clear_generation_skip_def Let_def meta_or_empty_def)
    have "generate_one e None (occ t j) ?t gs fx = Inr (Some g, t1, gs @ [g], generation_audits e None ?k ?t fx)"
      using s amt None cur' by (simp add: generate_one_def idem g_def t1_def Let_def)
    moreover have "advance_cursor (occ t j) t1 = Inr t1"
      using lt by (simp add: advance_cursor_def t1_def)
    ultimately have "sweep_template e today t gs fx = Inr (Generated, t1, gs @ [g], generation_audits e None ?k ?t fx)"
      using s due sd None by (simp add: sweep_template_def Let_def)
    moreover have "same_people t t1" "terms t1 = terms t" "not_generatable_reason t1 = None" "rt_status t1 = rt_status t"
      using clear_skip_same [of t] s by (simp_all add: t1_def same_people_def terms_def not_generatable_reason_def)
    moreover have "in_period (rt_id t) ?k g"
      by (simp add: g_def in_period_def)
    ultimately show thesis
      using that by (force simp: t1_def)
  qed
qed

primrec sweeps :: "(nat \<Rightarrow> gen_env) \<Rightarrow> ymd \<Rightarrow> uid \<Rightarrow> nat \<Rightarrow> recurring_state \<Rightarrow> exc + recurring_state" where
  "sweeps env today tid 0 s = Inr s"
| "sweeps env today tid (Suc n) s = bind_res (sweep_one (env n) today tid s) (\<lambda>(_, s). sweeps env today tid n s)"

definition has_period :: "uid \<Rightarrow> string \<Rightarrow> recurring_state \<Rightarrow> bool" where
  "has_period tid key s = list_ex (in_period tid key) (rs_generated s)"

lemma sweep_one_next:
  assumes f: "find_template tid (rs_templates s) = Some t" and t: "on_schedule t j"
    and v: "valid_ymd (occ t j)" "ymd_year (occ t j) \<le> 9997"
    and due: "occ t j \<le> today" "\<not> past_end_date t (occ t j)"
  obtains r s' t' where "sweep_one e today tid s = Inr (r, s')" and "find_template tid (rs_templates s') = Some t'"
    and "set (rs_generated s) \<subseteq> set (rs_generated s')" and "has_period tid (period_key_for (rt_cadence t) (occ t j)) s'"
    and "terms t' = terms t" and "past_end_date t (occ t (Suc j)) \<or> on_schedule t' (Suc j)"
proof -
  have id: "rt_id t = tid"
    using find_template_Some [OF f] by simp
  obtain r t' gs' fx' where n: "sweep_template e today t (rs_generated s) (rs_fx s) = Inr (r, t', gs', fx')"
    "set (rs_generated s) \<subseteq> set gs'" "\<exists>g \<in> set gs'. in_period (rt_id t) (period_key_for (rt_cadence t) (occ t j)) g"
    "same_people t t'" "terms t' = terms t" "rt_status t' = rt_status t" "not_generatable_reason t' = None"
    "rt_next t' = (if past_end_date t (occ t (Suc j)) then None else Some (occ t (Suc j)))"
    by (rule sweep_template_next [OF t v due])
  let ?s' = "s\<lparr>rs_templates := put_template t' (rs_templates s), rs_generated := gs', rs_fx := fx'\<rparr>"
  have eq: "rt_cadence t' = rt_cadence t" "rt_day t' = rt_day t" "rt_start t' = rt_start t"
    using n(5) by (simp_all add: terms_def)
  have "sweep_one e today tid s = Inr (r, ?s')"
    using f n(1) by (simp add: sweep_one_def)
  moreover have "find_template tid (rs_templates ?s') = Some t'"
    using find_put_template [OF f, of t'] n(4) id by (simp add: same_people_def)
  moreover have "has_period tid (period_key_for (rt_cadence t) (occ t j)) ?s'"
    using n(3) id by (auto simp: has_period_def list_ex_iff)
  moreover have "past_end_date t (occ t (Suc j)) \<or> on_schedule t' (Suc j)"
    using t n(6,7,8) eq by (simp add: on_schedule_def)
  ultimately show thesis
    using that n(2,5) by force
qed

lemma has_period_mono: "has_period tid k s \<Longrightarrow> set (rs_generated s) \<subseteq> set (rs_generated s') \<Longrightarrow> has_period tid k s'"
  by (auto simp: has_period_def list_ex_iff)

lemma occ_month_bound:
  assumes "occ t j \<le> today" and "ymd_year today \<le> 9997" 
  shows "ymd_year (occ t j) \<le> 9997"
  using assms by (auto simp: less_eq_ymd_def)

lemma sweeps_cover:
  assumes "find_template tid (rs_templates s) = Some t" and "on_schedule t j" and "day_ok (rt_day t)"
    and "valid_ymd (rt_start t)" and "ymd_year today \<le> 9997" and "occ t (j + n) \<le> today" and "\<not> past_end_date t (occ t (j + n))"
  shows "\<exists>s'. sweeps env today tid (Suc n) s = Inr s' \<and> set (rs_generated s) \<subseteq> set (rs_generated s') \<and>
    (\<forall>i \<le> n. has_period tid (period_key_for (rt_cadence t) (occ t (j + i))) s')"
  using assms
proof (induction n arbitrary: s t j)
  case (0 s t j)
  have y: "ymd_year (occ t j) \<le> 9997"
    by (rule occ_month_bound) (use "0.prems"(5,6) in simp_all)
  have v: "valid_ymd (occ t j)"
    by (rule occurrence_in_range) (use "0.prems"(3,4) y in simp_all)
  obtain r s' t' where "sweep_one (env 0) today tid s = Inr (r, s')" "set (rs_generated s) \<subseteq> set (rs_generated s')"
      "has_period tid (period_key_for (rt_cadence t) (occ t j)) s'"
    by (rule sweep_one_next [OF "0.prems"(1,2) v y, of today "env 0"]) (use "0.prems"(6,7) in simp_all)
  then show ?case
    by simp
next
  case (Suc n s t j)
  have le: "occ t j \<le> occ t (j + Suc n)" "occ t (Suc j) \<le> occ t (j + Suc n)"
    using occurrence_mono [of j "j + Suc n" "rt_cadence t" "rt_day t" "rt_start t"]
      occurrence_mono [of "Suc j" "j + Suc n" "rt_cadence t" "rt_day t" "rt_start t"] by (cases n; force)+
  then have due: "occ t j \<le> today" "\<not> past_end_date t (occ t j)" "\<not> past_end_date t (occ t (Suc j))"
    using Suc.prems(6,7) by (auto simp: past_end_date_def split: option.splits)
  have y: "ymd_year (occ t j) \<le> 9997"
    by (rule occ_month_bound [OF due(1)]) (use Suc.prems(5) in simp)
  have v: "valid_ymd (occ t j)"
    by (rule occurrence_in_range) (use Suc.prems(3,4) y in simp_all)
  obtain r s' t' where one: "sweep_one (env (Suc n)) today tid s = Inr (r, s')" "find_template tid (rs_templates s') = Some t'"
      "set (rs_generated s) \<subseteq> set (rs_generated s')" "has_period tid (period_key_for (rt_cadence t) (occ t j)) s'"
      "terms t' = terms t" "on_schedule t' (Suc j)"
    using sweep_one_next [OF Suc.prems(1,2) v y due(1,2)] due(3) by metis
  have eq: "rt_cadence t' = rt_cadence t" "rt_day t' = rt_day t" "rt_start t' = rt_start t" "rt_end t' = rt_end t"
    using one(5) by (simp_all add: terms_def)
  then have pe: "past_end_date t' d = past_end_date t d" for d
    by (simp add: past_end_date_def)
  obtain s'' where rest: "sweeps env today tid (Suc n) s' = Inr s''" "set (rs_generated s') \<subseteq> set (rs_generated s'')"
      "\<forall>i \<le> n. has_period tid (period_key_for (rt_cadence t) (occ t (Suc j + i))) s''"
    using Suc.IH [OF one(2,6)] Suc.prems eq pe by auto
  have "has_period tid (period_key_for (rt_cadence t) (occ t (j + i))) s''" if "i \<le> Suc n" for i
  proof (cases i)
    case 0
    with one(4) rest(2) show ?thesis
      using has_period_mono by simp
  next
    case (Suc k)
    with that rest(3) show ?thesis
      by simp
  qed
  moreover have "sweeps env today tid (Suc (Suc n)) s = Inr s''"
    using one(1) rest(1) by simp
  ultimately show ?case
    using one(3) rest(2) by blast
qed

end
