(* ===== verification/RecurringOutcomes.thy ===== *)
theory RecurringOutcomes
  imports RecurringHistory
begin

text \<open>
  The properties of recurring invoices, each with a concrete history of a template that is
  edited, swept and asked to generate.
\<close>

section \<open>Sample history\<close>

definition sample_template :: template where
  "sample_template = \<lparr> rt_id = ''t1'', rt_entity_id = None, rt_name = ''Rent'', rt_vendor_id = Some ''v-1'',
     rt_vendor_name = Some ''Acme'', rt_description = None, rt_amount = Some 900, rt_currency = ''USD'',
     rt_gl_account = None, rt_cost_center = None, rt_department = None, rt_project = None, rt_po_number = None,
     rt_payment_terms = None, rt_cadence = ''monthly'', rt_day = 5, rt_start = YMD 2026 1 2, rt_end = None,
     rt_next = Some (YMD 2026 1 5), rt_last_key = None, rt_last_at = None, rt_count = 0, rt_status = status_active,
     rt_variance = None, rt_notes = None, rt_meta = None, rt_created_by = Some ''u-author'', rt_editors = None \<rparr>"

definition recurring_start :: recurring_state where
  "recurring_start = \<lparr>rs_templates = [sample_template], rs_generated = [], rs_fx = no_effects\<rparr>"

definition sample_definition :: definition_row where
  "sample_definition = \<lparr>wd_id = ''d1'', wd_org = ''o1'', wd_entity = None, wd_active = True, wd_default = True,
     wd_created_at = 0, wd_steps = None\<rparr>"

definition sample_gen :: "uid \<Rightarrow> gen_env" where
  "sample_gen i = \<lparr>ge_inv_id = i, ge_tail = ''abcdef'', ge_now = 1, ge_now_iso = ''2026-01-07T00:00:00'',
     ge_definition = sample_definition, ge_variant = None\<rparr>"

definition after_edit :: "exc + recurring_state" where
  "after_edit = on_template (\<lambda>_. Some ''Acme'') (\<lambda>_. Inr ()) (sample_gen ''i0'') (YMD 2026 1 3)
     (Edit ''u-editor'' [SetAmount (Some 800)]) ''t1'' recurring_start"

definition after_sweep :: "exc + sweep_outcome \<times> recurring_state" where
  "after_sweep = bind_res after_edit (sweep_one (sample_gen ''i1'') (YMD 2026 1 7) ''t1'')"

definition raised_row :: "exc + generated" where
  "raised_row = bind_res after_sweep (\<lambda>(_, s). case rs_generated s of [g] \<Rightarrow> Inr g | _ \<Rightarrow> Inl (PyError ValueError))"

lemma sample_history:
  obtains s sh im g where "recurring_history s sh im" and "rs_generated s = [g]" and "raised_row = Inr g"
    and "(inv_id (gi_row g), ''u-editor'') \<in> im"
proof -
  have start: "recurring_history recurring_start {} {}"
    unfolding recurring_start_def by (rule started) simp
  have "passes (bind_res after_edit (\<lambda>s. if terms_in ''t1'' s \<noteq> terms_in ''t1'' recurring_start \<and> rs_generated s = []
      then Inr () else Inl (PyError ValueError)))"
    by code_simp
  then obtain s1 where s1: "after_edit = Inr s1" "terms_in ''t1'' s1 \<noteq> terms_in ''t1'' recurring_start" "rs_generated s1 = []"
    by (auto simp: passes_iff bind_res_Inr_iff split: if_splits)
  have "recurring_history s1 ({} \<union> edited_by (Edit ''u-editor'' [SetAmount (Some 800)]) ''t1'' recurring_start s1)
      ({} \<union> raised_by (sample_gen ''i0'') ''t1'' (by_caller (Edit ''u-editor'' [SetAmount (Some 800)])) {} recurring_start s1)"
    by (rule called [OF start s1(1) [unfolded after_edit_def]]) (simp add: fresh_invoice_def recurring_start_def)
  then have h1: "recurring_history s1 {(''t1'', ''u-editor'')} {}"
    using s1 by (simp add: edited_by_def raised_by_def recurring_start_def)
  have "passes raised_row"
    by code_simp
  then obtain g where g: "raised_row = Inr g"
    by (auto simp: passes_iff)
  then obtain r s2 where s2: "after_sweep = Inr (r, s2)" "rs_generated s2 = [g]"
    unfolding raised_row_def by (auto elim!: bind_res_InrE split: list.splits)
  then have sw: "sweep_one (sample_gen ''i1'') (YMD 2026 1 7) ''t1'' s1 = Inr (r, s2)"
    by (simp add: after_sweep_def s1(1))
  have h2: "recurring_history s2 {(''t1'', ''u-editor'')}
      ({} \<union> raised_by (sample_gen ''i1'') ''t1'' None {(''t1'', ''u-editor'')} s1 s2)"
    by (rule swept [OF h1 sw]) (simp add: fresh_invoice_def s1(3))
  have "bind_res raised_row (\<lambda>g. Inr (inv_id (gi_row g))) = Inr ''i1''"
    by code_simp
  then have "inv_id (gi_row g) = ''i1''"
    by (simp add: g)
  then have "(inv_id (gi_row g), ''u-editor'') \<in>
      {} \<union> raised_by (sample_gen ''i1'') ''t1'' None {(''t1'', ''u-editor'')} s1 s2"
    by (simp add: raised_by_def s1(3) s2(2) sample_gen_def)
  with h2 s2(2) g that show thesis
    by blast
qed

section \<open>Properties\<close>



text \<open>
  Property C29. Whoever created a template, changed a term of what it pays (vendor, amount, currency,
  coding, purchase order, payment terms, schedule) or asked for the generation, before an invoice was raised
  from it, cannot approve that invoice while segregation of duties is on: over every history,
  \<open>approve_invoice\<close> answers the row with the segregation refusal.
\<close>

theorem shapers_cannot_approve:
  assumes "recurring_history s sh im" and "g \<in> set (rs_generated s)" and "(inv_id (gi_row g), u) \<in> im"
    and "uploaded_by_id iv = uploaded_by_id (gi_row g)" and "segregation_actor_ids iv = segregation_actor_ids (gi_row g)"
    and "resolve_approval_config e iv inst = Some c" and "segregation_on c"
  shows "approve_invoice e u name roles cor recorders iv inst fx = Inl (HttpError 403 ''approval_segregation'')"
proof -
  have "u \<in> implicated_actors (gi_row g)"
    using history_is_ok [OF assms(1)] assms(2,3) unfolding history_ok_def by blast
  then have "u \<in> implicated_actors iv"
    using assms(4,5) by (simp add: implicated_actors_def)
  then have "check_segregation iv (Some u) c = Inl (HttpError 403 ''approval_segregation'')"
    using assms(7) by (simp add: check_segregation_def violates_segregation_def)
  then show ?thesis
    using assms(6) by (simp add: approve_invoice_def identity_gates_def config_or_empty_def)
qed

theorem shapers_cannot_approve_witness:
  "\<exists>g. raised_row = Inr g \<and> approve_invoice (sample_env cfo_config) ''u-editor'' ''Eve'' {''cfo''} None None (gi_row g) None
     no_effects = Inl (HttpError 403 ''approval_segregation'')"
proof -
  obtain s sh im g where h: "recurring_history s sh im" "rs_generated s = [g]" "raised_row = Inr g"
      "(inv_id (gi_row g), ''u-editor'') \<in> im"
    by (rule sample_history)
  have "bind_res raised_row (\<lambda>g. Inr (resolve_approval_config (sample_env cfo_config) (gi_row g) None)) = Inr (Some cfo_config)"
    by code_simp
  then have "resolve_approval_config (sample_env cfo_config) (gi_row g) None = Some cfo_config"
    by (simp add: h(3))
  moreover have "segregation_on cfo_config"
    by code_simp
  ultimately have "approve_invoice (sample_env cfo_config) ''u-editor'' ''Eve'' {''cfo''} None None (gi_row g) None
     no_effects = Inl (HttpError 403 ''approval_segregation'')"
    using h by (intro shapers_cannot_approve [OF h(1) _ h(4)]) simp_all
  with h(3) show ?thesis
    by blast
qed

text \<open>
  The sweep raises nothing early: whatever state it finds a template in, it adds
  at most one invoice, and then for an active template that can generate, dated and keyed by the
  cursor of its row, not after today and not past the end date, and straight into review.
\<close>

theorem sweep_never_early:
  assumes "sweep_one e today tid s = Inr (r, s')" and "rs_generated s' \<noteq> rs_generated s"
  shows "\<exists>t g. find_template tid (rs_templates s) = Some t \<and> rs_generated s' = rs_generated s @ [g] \<and>
    gi_template g = tid \<and> rt_status t = ''active'' \<and> not_generatable_reason t = None \<and> rt_next t = Some (gi_date g) \<and>
    gi_date g \<le> today \<and> (\<forall>d. rt_end t = Some d \<longrightarrow> gi_date g \<le> d) \<and>
    gi_period g = period_key_for (rt_cadence t) (gi_date g)"
proof -
  from assms obtain t where f: "find_template tid (rs_templates s) = Some t"
    by (cases "find_template tid (rs_templates s)") (auto simp: sweep_one_def)
  with assms(1) obtain t' gs' fx' where c: "sweep_template e today t (rs_generated s) (rs_fx s) = Inr (r, t', gs', fx')"
    and "rs_generated s' = gs'"
    by (auto simp: sweep_one_def elim!: bind_res_InrE)
  with sweep_template_spec [OF c] assms(2) obtain g where g: "rs_generated s' = rs_generated s @ [g]"
      "new_row e None t (rs_generated s) g" "still_due t today" "rt_next t = Some (gi_date g)"
      "\<not> past_end_date t (gi_date g)" "not_generatable_reason t = None"
      "gi_period g = period_key_for (rt_cadence t) (gi_date g)"
    by auto
  have "gi_template g = tid"
    using g(2) find_template_Some [OF f] by (simp add: new_row_def)
  moreover have "rt_status t = ''active''" "gi_date g \<le> today"
    using g(3,4) by (simp_all add: still_due_def status_active_def)
  moreover have "\<forall>d. rt_end t = Some d \<longrightarrow> gi_date g \<le> d"
    using g(5) by (auto simp: past_end_date_def not_less)
  ultimately show ?thesis
    using f g by blast
qed

theorem sweep_never_early_witness:
  "\<exists>r s' g. sweep_one (sample_gen ''i1'') (YMD 2026 1 7) ''t1'' recurring_start = Inr (r, s') \<and>
     rs_generated s' = [g] \<and> gi_date g \<le> YMD 2026 1 7"
proof -
  have "bind_res (sweep_one (sample_gen ''i1'') (YMD 2026 1 7) ''t1'' recurring_start)
      (\<lambda>(_, s). Inr (length (rs_generated s))) = Inr 1"
    by code_simp
  then obtain r s' where w: "sweep_one (sample_gen ''i1'') (YMD 2026 1 7) ''t1'' recurring_start = Inr (r, s')"
      "length (rs_generated s') = 1"
    by (auto elim!: bind_res_InrE)
  moreover have "rs_generated recurring_start = []"
    by (simp add: recurring_start_def)
  ultimately show ?thesis
    using sweep_never_early [OF w(1)] by fastforce
qed

text \<open>
  Property C31. The sweep catches up: for an active template that can generate and whose cursor is the
  \<open>j\<close>-th occurrence of its schedule, if the \<open>j+n\<close>-th occurrence is due and within the end date,
  then \<open>n+1\<close> sweeps all succeed and leave an invoice for every period from the cursor to that
  occurrence, under \<open>n+1\<close> different period keys.
\<close>

theorem sweeps_catch_up:
  assumes "find_template tid (rs_templates s) = Some t" and "rt_status t = ''active''" and "not_generatable_reason t = None"
    and "1 \<le> rt_day t" and "rt_day t \<le> 28" and "valid_ymd (rt_start t)" and "rt_next t = Some (occ t j)"
    and "ymd_year today \<le> 9997" and "occ t (j + n) \<le> today" and "\<not> past_end_date t (occ t (j + n))"
  shows "\<exists>s'. sweeps env today tid (Suc n) s = Inr s' \<and>
    (\<forall>i \<le> n. has_period tid (period_key_for (rt_cadence t) (occ t (j + i))) s') \<and>
    distinct (map (\<lambda>i. period_key_for (rt_cadence t) (occ t (j + i))) [0..<Suc n])"
proof -
  have d: "day_ok (rt_day t)" and t: "on_schedule t j"
    using assms by (simp_all add: day_ok_def on_schedule_def status_active_def)
  have v: "valid_ymd (occ t (j + i))" if "i \<le> n" for i
  proof (rule occurrence_in_range [OF d assms(6)])
    have "occ t (j + i) \<le> occ t (j + n)"
      using occurrence_mono [of "j + i" "j + n" "rt_cadence t" "rt_day t" "rt_start t"] that by (cases "i = n") auto
    with assms(8,9) show "ymd_year (occ t (j + i)) \<le> 9999"
      by (auto simp: less_eq_ymd_def)
  qed
  have "inj_on (\<lambda>i. period_key_for (rt_cadence t) (occ t (j + i))) (set [0..<Suc n])"
    using occurrence_keys_differ [OF d v v] by (fastforce intro: inj_onI)
  then have "distinct (map (\<lambda>i. period_key_for (rt_cadence t) (occ t (j + i))) [0..<Suc n])"
    by (simp add: distinct_map)
  moreover obtain s' where "sweeps env today tid (Suc n) s = Inr s'"
      "\<forall>i \<le> n. has_period tid (period_key_for (rt_cadence t) (occ t (j + i))) s'"
    using sweeps_cover [OF assms(1) t d assms(6,8-10), of env] by blast
  ultimately show ?thesis
    by blast
qed

theorem sweeps_catch_up_witness:
  "\<exists>s'. sweeps (\<lambda>k. sample_gen (''i'' @ str_nat k)) (YMD 2026 4 1) ''t1'' 3 recurring_start = Inr s' \<and>
    has_period ''t1'' ''2026-03'' s'"
proof -
  have "\<exists>s'. sweeps (\<lambda>k. sample_gen (''i'' @ str_nat k)) (YMD 2026 4 1) ''t1'' (Suc 2) recurring_start = Inr s' \<and>
    (\<forall>i \<le> 2. has_period ''t1'' (period_key_for (rt_cadence sample_template) (occ sample_template (0 + i))) s') \<and>
    distinct (map (\<lambda>i. period_key_for (rt_cadence sample_template) (occ sample_template (0 + i))) [0..<Suc 2])"
    by (rule sweeps_catch_up) code_simp+
  then obtain s' where s': "sweeps (\<lambda>k. sample_gen (''i'' @ str_nat k)) (YMD 2026 4 1) ''t1'' (Suc 2) recurring_start = Inr s'"
      "\<forall>i \<le> 2. has_period ''t1'' (period_key_for (rt_cadence sample_template) (occ sample_template (0 + i))) s'"
    by blast
  then have "has_period ''t1'' (period_key_for (rt_cadence sample_template) (occ sample_template (0 + 2))) s'"
    by blast
  moreover have "period_key_for (rt_cadence sample_template) (occ sample_template (0 + 2)) = ''2026-03''"
    by code_simp
  ultimately show ?thesis
    using s'(1) by (simp only: numeral_3_eq_3 numeral_2_eq_2) blast
qed

section \<open>A manual generation over a backlog\<close>

text \<open>
  Asked in March with the cursor still in January, \<open>generate_now\<close> raises March and moves the
  cursor to April: January and February are never raised by any sweep.
\<close>

definition after_generate_now :: "exc + generated \<times> template \<times> generated list \<times> effects" where
  "after_generate_now = generate_now (sample_gen ''i9'') (YMD 2026 3 10) ''u-mgr'' sample_template [] no_effects"

lemma generate_now_skips_owed:
  "\<exists>g t gs fx. after_generate_now = Inr (g, t, gs, fx) \<and> gi_period g = ''2026-03'' \<and> rt_next t = Some (YMD 2026 4 5)"
  "rt_next sample_template = Some (YMD 2026 1 5)"
proof -
  have due: "current_due_run_on (rt_cadence sample_template) (rt_day sample_template) (YMD 2026 3 10) (rt_start sample_template) =
      Inr (YMD 2026 3 5)"
    by code_simp
  have "bind_res (generate_one (sample_gen ''i9'') (Some ''u-mgr'') (YMD 2026 3 5) sample_template [] no_effects)
      (\<lambda>(g, t, _, _). Inr (map_option gi_period g, rt_next t)) = Inr (Some ''2026-03'', Some (YMD 2026 4 5))"
    by code_simp
  then obtain g t gs fx where g: "generate_one (sample_gen ''i9'') (Some ''u-mgr'') (YMD 2026 3 5) sample_template [] no_effects =
      Inr (Some g, t, gs, fx)" "gi_period g = ''2026-03''" "rt_next t = Some (YMD 2026 4 5)"
    by (auto elim!: bind_res_InrE)
  moreover have "rt_status sample_template \<noteq> status_ended" "not_generatable_reason sample_template = None"
      "\<not> past_end_date sample_template (YMD 2026 3 5)"
    by code_simp+
  ultimately show "\<exists>g t gs fx. after_generate_now = Inr (g, t, gs, fx) \<and> gi_period g = ''2026-03'' \<and> rt_next t = Some (YMD 2026 4 5)"
    by (simp add: after_generate_now_def generate_now_def due)
  show "rt_next sample_template = Some (YMD 2026 1 5)"
    by (simp add: sample_template_def)
qed

end
