(* ===== verification/MatchRules.thy ===== *)
theory MatchRules
  imports ApprovalConfig
begin

text \<open>
  \<open>services/matching_rules.py\<close>: the tolerance and the inspection requirement a purchase-order
  match runs under, by vendor, by commodity (the header GL account), by organisation, and the
  strictest rule any commodity could select. The settings are a JSON object or absent.
\<close>

record match_rule =
  mr_require_inspection :: bool
  mr_tolerance_pct :: rat
  mr_source :: string

definition default_require_inspection :: bool where "default_require_inspection = False"
definition default_tolerance_pct :: rat where "default_tolerance_pct = 5"

definition rule_for :: "pyval \<Rightarrow> string option \<Rightarrow> (string \<times> pyval) list" where
  "rule_for rules key =
     (case (key, rules) of
        (Some k, PDict d) \<Rightarrow> (case pget d k of PDict r \<Rightarrow> r | _ \<Rightarrow> [])
      | _ \<Rightarrow> [])"

definition coerce_inspection :: "(string \<times> pyval) list \<Rightarrow> bool option" where
  "coerce_inspection rule = map_option py_truthy (map_of rule ''require_inspection'')"

text \<open>A number or the text of one, finite; a boolean is not a number here.\<close>

definition coerce_tolerance :: "(string \<times> pyval) list \<Rightarrow> rat option" where
  "coerce_tolerance rule =
     (case map_of rule ''tolerance_pct'' of
        None \<Rightarrow> None
      | Some v \<Rightarrow> (case decimal_of_str v of Some (Fin r) \<Rightarrow> Some r | _ \<Rightarrow> None))"

type_synonym org_settings = "(string \<times> pyval) list option"

definition matching_of :: "org_settings \<Rightarrow> (string \<times> pyval) list" where
  "matching_of s = (case pget (case s of None \<Rightarrow> [] | Some d \<Rightarrow> d) ''matching'' of PDict d \<Rightarrow> d | _ \<Rightarrow> [])"

definition resolve_match_rule :: "org_settings \<Rightarrow> uid option \<Rightarrow> string option \<Rightarrow> match_rule" where
  "resolve_match_rule s vendor gl =
     (let matching = matching_of s;
          vendor_rule = rule_for (pget matching ''vendor_rules'') vendor;
          commodity_rule = rule_for (pget matching ''commodity_rules'') gl;
          (require, src) = (case coerce_inspection vendor_rule of
              Some b \<Rightarrow> (b, ''vendor'')
            | None \<Rightarrow> (case coerce_inspection commodity_rule of
                Some b \<Rightarrow> (b, ''commodity'')
              | None \<Rightarrow> (case coerce_inspection matching of
                  Some b \<Rightarrow> (b, ''org'')
                | None \<Rightarrow> (default_require_inspection, ''default''))));
          tolerance = (case coerce_tolerance vendor_rule of
              Some r \<Rightarrow> r
            | None \<Rightarrow> (case coerce_tolerance commodity_rule of
                Some r \<Rightarrow> r
              | None \<Rightarrow> (case coerce_tolerance matching of
                  Some r \<Rightarrow> r
                | None \<Rightarrow> default_tolerance_pct)))
      in \<lparr>mr_require_inspection = require, mr_tolerance_pct = tolerance, mr_source = src\<rparr>)"

definition commodity_keys :: "org_settings \<Rightarrow> string option list" where
  "commodity_keys s =
     None # (case pget (matching_of s) ''commodity_rules'' of PDict d \<Rightarrow> map (Some \<circ> fst) d | _ \<Rightarrow> [])"

definition strictest_rule_for_any_commodity :: "org_settings \<Rightarrow> uid option \<Rightarrow> match_rule" where
  "strictest_rule_for_any_commodity s vendor =
     (let rules = map (resolve_match_rule s vendor) (commodity_keys s)
      in \<lparr>mr_require_inspection = list_ex mr_require_inspection rules,
          mr_tolerance_pct = Min (set (map mr_tolerance_pct rules)), mr_source = ''strictest''\<rparr>)"

section \<open>The strictest rule bounds every rule\<close>

text \<open>A rule at least as strict as another.\<close>

definition stricter :: "match_rule \<Rightarrow> match_rule \<Rightarrow> bool" where
  "stricter r q = (mr_tolerance_pct r \<le> mr_tolerance_pct q \<and> (mr_require_inspection q \<longrightarrow> mr_require_inspection r))"

lemma stricter_refl [simp]: "stricter r r"
  by (simp add: stricter_def)

lemma unconfigured_commodity:
  assumes "Some gl \<notin> set (commodity_keys s)"
  shows "resolve_match_rule s v (Some gl) = resolve_match_rule s v None"
proof -
  have "pget d gl = PNone" if "pget (matching_of s) ''commodity_rules'' = PDict d" for d
  proof -
    have "gl \<notin> fst ` set d"
      using assms that by (auto simp: commodity_keys_def)
    then show ?thesis
      by (simp add: pget_def map_of_eq_None_iff [THEN iffD2])
  qed
  then have "rule_for (pget (matching_of s) ''commodity_rules'') (Some gl) =
      rule_for (pget (matching_of s) ''commodity_rules'') None"
    by (simp add: rule_for_def split: pyval.splits)
  then show ?thesis
    by (simp add: resolve_match_rule_def)
qed

lemma strictest_below:
  "stricter (strictest_rule_for_any_commodity s v) (resolve_match_rule s v gl)"
proof -
  have mem: "resolve_match_rule s v gl \<in> set (map (resolve_match_rule s v) (commodity_keys s))"
  proof (cases "gl \<in> set (commodity_keys s)")
    case False
    then obtain g where "gl = Some g"
      by (cases gl) (auto simp: commodity_keys_def)
    with False have "resolve_match_rule s v gl = resolve_match_rule s v None"
      by (simp add: unconfigured_commodity)
    then show ?thesis
      by (simp add: commodity_keys_def)
  qed simp
  then have "Min (set (map mr_tolerance_pct (map (resolve_match_rule s v) (commodity_keys s)))) \<le>
      mr_tolerance_pct (resolve_match_rule s v gl)"
    by (intro Min_le) auto
  then show ?thesis
    using mem by (auto simp: stricter_def strictest_rule_for_any_commodity_def Let_def list_ex_iff)
qed

end
