(* ===== verification/PoMatching.thy ===== *)
theory PoMatching
  imports MatchRules Segregation
begin

text \<open>
  \<open>services/po_matching.py\<close>: an invoice against its purchase order (2-way), the goods receipts
  (3-way) and the quality inspection (4-way). The tables are lists of rows, a row of the order
  and receipt tables extending the columns segregation reads. A receipt of no order carries an
  identifier that is no order's. An issue is its code: the parameters and sentences, and the
  \<open>details\<close> dict, which repeats fields of the result, are not modelled. A quantity column has four
  decimal places and at most twelve digits, which its float prints exactly.
\<close>

section \<open>Rows\<close>

record po_line =
  pol_id :: uid
  pol_quantity :: "rat option"
  pol_description :: "string option"
  pol_catalog_item :: "uid option"
  pol_sku :: "string option"

record po_row = purchase_order +
  po_total_of :: rat
  po_currency_of :: "string option"
  po_status_of :: string
  po_unverifiable :: "string option"
  po_created :: stamp
  po_lines :: "po_line list"

record gr_line =
  grl_po_line :: "uid option"
  grl_quantity :: "rat option"
  grl_description :: "string option"
  grl_catalog_item :: "uid option"
  grl_sku :: "string option"

record gr_row = goods_receipt +
  gr_id :: uid
  gr_number :: string
  gr_received_date :: "date option"
  gr_created :: stamp
  gr_key :: "string option"
  gr_lines :: "gr_line list"

record inspection_row =
  qi_id :: uid
  qi_po_id :: "uid option"
  qi_gr_id :: "uid option"
  qi_result :: string
  qi_accepted :: "rat option"
  qi_notes :: "string option"
  qi_source :: "string option"
  qi_recorded_by :: "uid option"
  qi_created :: stamp

record procurement =
  pm_pos :: "po_row list"
  pm_receipts :: "gr_row list"
  pm_inspections :: "inspection_row list"

definition cancelled_po_statuses :: "string list" where
  "cancelled_po_statuses = [''cancelled'', ''voided'']"

section \<open>Helpers\<close>

definition quantity_of :: "rat option \<Rightarrow> rat" where
  "quantity_of v = (case v of None \<Rightarrow> 0 | Some r \<Rightarrow> r)"

definition po_currency_code :: "string option \<Rightarrow> string option" where
  "po_currency_code v =
     (case v of
        None \<Rightarrow> None
      | Some s \<Rightarrow> let code = py_upper (py_strip s)
                  in if length code = 3 \<and> py_isascii code \<and> py_isalpha code then Some code else None)"

definition currency_same :: string where "currency_same = ''same''"
definition currency_different :: string where "currency_different = ''different''"
definition currency_unknown :: string where "currency_unknown = ''unknown''"

definition compare_currencies :: "string option \<Rightarrow> string option \<Rightarrow> string" where
  "compare_currencies inv_code po_code =
     (case (po_currency_code inv_code, po_currency_code po_code) of
        (Some i, Some p) \<Rightarrow> if i = p then currency_same else currency_different
      | _ \<Rightarrow> currency_unknown)"

text \<open>\<open>ORDER BY created_at DESC\<close>, and its first row.\<close>

definition newest_first :: "('a \<Rightarrow> stamp) \<Rightarrow> 'a list \<Rightarrow> 'a list" where
  "newest_first created xs = sort_key (\<lambda>x. - created x) xs"

definition newest :: "('a \<Rightarrow> stamp) \<Rightarrow> 'a list \<Rightarrow> 'a option" where
  "newest created xs = (case newest_first created xs of [] \<Rightarrow> None | x # _ \<Rightarrow> Some x)"

definition in_entity :: "uid option \<Rightarrow> uid option \<Rightarrow> bool" where
  "in_entity e column = (e = None \<or> column = e)"

definition receipt_live :: "('a goods_receipt_scheme) \<Rightarrow> bool" where
  "receipt_live g = (py_lower (case gr_status g of None \<Rightarrow> [] | Some s \<Rightarrow> s) \<notin> set cancelled_gr_statuses)"

section \<open>The result\<close>

record match_result =
  ma_type :: string
  ma_status :: string
  ma_po_id :: "uid option"
  ma_po_number :: "string option"
  ma_po_total :: "rat option"
  ma_po_currency :: "string option"
  ma_currency_check :: "string option"
  ma_unverifiable :: "string option"
  ma_cancelled :: bool
  ma_gr_id :: "uid option"
  ma_variance :: "rat option"
  ma_variance_pct :: "rat option"
  ma_within :: bool
  ma_inspection_id :: "uid option"
  ma_inspection_result :: "string option"
  ma_accepted :: "rat option"
  ma_inspection_required :: bool
  ma_deviation :: "string option"
  ma_over_receipt :: bool
  ma_ordered :: "rat option"
  ma_received :: "rat option"
  ma_received_value :: "rat option"
  ma_billed_beyond :: bool
  ma_issues :: "string list"

definition no_match :: match_result where
  "no_match = \<lparr>ma_type = ''none'', ma_status = ''no_po'', ma_po_id = None, ma_po_number = None,
     ma_po_total = None, ma_po_currency = None, ma_currency_check = None, ma_unverifiable = None,
     ma_cancelled = False, ma_gr_id = None, ma_variance = Some 0, ma_variance_pct = Some 0,
     ma_within = False, ma_inspection_id = None, ma_inspection_result = None, ma_accepted = None,
     ma_inspection_required = False, ma_deviation = None, ma_over_receipt = False, ma_ordered = None,
     ma_received = None, ma_received_value = None, ma_billed_beyond = False, ma_issues = []\<rparr>"

definition add_issue :: "string \<Rightarrow> match_result \<Rightarrow> match_result" where
  "add_issue i r = r\<lparr>ma_issues := ma_issues r @ [i]\<rparr>"

section \<open>The order\<close>

definition citable_pos :: "procurement \<Rightarrow> invoice \<Rightarrow> string \<Rightarrow> po_row list" where
  "citable_pos pm iv n = filter (\<lambda>p. po_number_of p = n \<and> in_entity (entity_id iv) (po_entity_id p)
     \<and> (vendor_id iv = None \<or> po_vendor_id p = vendor_id iv)) (pm_pos pm)"

definition found_po :: "procurement \<Rightarrow> invoice \<Rightarrow> po_row option" where
  "found_po pm iv = newest po_created (citable_pos pm iv (or_str (po_number iv) []))"

definition with_po :: "invoice \<Rightarrow> po_row \<Rightarrow> match_result \<Rightarrow> match_result" where
  "with_po iv p r =
     (let inv_code = po_currency_code (currency iv); po_code = po_currency_code (po_currency_of p)
      in r\<lparr>ma_po_id := Some (po_id p), ma_po_number := Some (po_number_of p), ma_po_total := Some (po_total_of p),
           ma_po_currency := po_code, ma_currency_check := Some (compare_currencies inv_code po_code),
           ma_type := ''2-way'',
           ma_unverifiable := (if or_str (po_unverifiable p) [] = [] then None else po_unverifiable p)\<rparr>)"

section \<open>The amount\<close>

definition refused_amount :: "string \<Rightarrow> match_result \<Rightarrow> match_result" where
  "refused_amount i r =
     add_issue i (r\<lparr>ma_variance := None, ma_variance_pct := None, ma_within := False, ma_status := ''mismatch''\<rparr>)"

definition amount_variance_pct :: "rat \<Rightarrow> rat \<Rightarrow> rat" where
  "amount_variance_pct amt tot =
     (if 0 < tot then dmul (ddiv (dsub amt tot) tot) 100 else if 0 < amt then 100 else 0)"

definition amount_mismatch_issue :: "string option \<Rightarrow> string option \<Rightarrow> string" where
  "amount_mismatch_issue inv_code po_code =
     (if inv_code = None then ''amount_mismatch_currency_unknown''
      else if po_code = None then ''amount_mismatch_po_currency_unknown'' else ''amount_mismatch'')"

definition amount_leg :: "rat \<Rightarrow> invoice \<Rightarrow> po_row \<Rightarrow> match_result \<Rightarrow> match_result" where
  "amount_leg tolerance iv p r =
     (if po_status_of p \<in> set cancelled_po_statuses then
        refused_amount ''po_cancelled'' (r\<lparr>ma_cancelled := True\<rparr>)
      else if ma_unverifiable r \<noteq> None then refused_amount ''po_total_unverifiable'' (r\<lparr>ma_po_total := None\<rparr>)
      else if ma_currency_check r = Some currency_different then refused_amount ''currency_mismatch'' r
      else let pct = amount_variance_pct (amount iv) (po_total_of p);
               r = r\<lparr>ma_variance := Some (dsub (amount iv) (po_total_of p)), ma_variance_pct := Some pct,
                     ma_within := (\<bar>pct\<bar> \<le> tolerance)\<rparr>
           in if \<not> ma_within r then
                add_issue (amount_mismatch_issue (po_currency_code (currency iv)) (ma_po_currency r))
                  (r\<lparr>ma_status := ''mismatch''\<rparr>)
              else r\<lparr>ma_status := ''matched''\<rparr>)"

section \<open>The receipts\<close>

definition receipts_of :: "procurement \<Rightarrow> invoice \<Rightarrow> po_row \<Rightarrow> gr_row list" where
  "receipts_of pm iv p =
     filter (\<lambda>g. gr_po_id g = po_id p \<and> in_entity (entity_id iv) (gr_entity_id g)) (pm_receipts pm)"

definition live_receipts :: "procurement \<Rightarrow> invoice \<Rightarrow> po_row \<Rightarrow> gr_row list" where
  "live_receipts pm iv p = newest_first gr_created (filter receipt_live (receipts_of pm iv p))"

definition decimal_sum :: "rat list \<Rightarrow> rat" where
  "decimal_sum xs = foldl dadd 0 xs"

definition ordered_quantity :: "po_row \<Rightarrow> rat" where
  "ordered_quantity p = decimal_sum (map (quantity_of \<circ> pol_quantity) (po_lines p))"

definition received_quantity :: "gr_row list \<Rightarrow> rat" where
  "received_quantity grs = decimal_sum (map (quantity_of \<circ> grl_quantity) (concat (map gr_lines grs)))"

text \<open>Does the invoice bill beyond the part of the order the receipts cover?\<close>

definition received_value_of :: "rat \<Rightarrow> rat \<Rightarrow> rat \<Rightarrow> rat" where
  "received_value_of tot received ordered = ddiv (dmul tot received) ordered"

definition billed_beyond :: "rat \<Rightarrow> rat \<Rightarrow> rat \<Rightarrow> bool" where
  "billed_beyond tolerance amt received_value =
     (if 0 < received_value then tolerance < dmul (ddiv (dsub amt received_value) received_value) 100
      else 0 < amt)"

definition quantity_check :: "rat \<Rightarrow> invoice \<Rightarrow> po_row \<Rightarrow> rat \<Rightarrow> rat \<Rightarrow> match_result \<Rightarrow> match_result" where
  "quantity_check tolerance iv p ordered received r =
     (let r = r\<lparr>ma_ordered := Some ordered, ma_received := Some received\<rparr>
      in if 0 < ordered \<and> received < ordered then
           let r = add_issue ''partial_receipt'' r;
               r = (if ma_status r = ''matched'' then r\<lparr>ma_status := ''partial''\<rparr> else r)
           in if ma_currency_check r \<noteq> Some currency_different \<and> ma_unverifiable r = None then
                let rv = received_value_of (po_total_of p) received ordered
                in r\<lparr>ma_received_value := Some rv, ma_billed_beyond := billed_beyond tolerance (amount iv) rv\<rparr>
              else r
         else if 0 < ordered \<and> ordered < received then add_issue ''over_receipt'' (r\<lparr>ma_over_receipt := True\<rparr>)
         else r)"

definition receipt_leg :: "procurement \<Rightarrow> rat \<Rightarrow> invoice \<Rightarrow> po_row \<Rightarrow> match_result \<Rightarrow> match_result" where
  "receipt_leg pm tolerance iv p r =
     (let grs = live_receipts pm iv p;
          all_cancelled = (grs = [] \<and> receipts_of pm iv p \<noteq> [])
      in if grs \<noteq> [] \<or> all_cancelled then
           let r = r\<lparr>ma_type := ''3-way'', ma_gr_id := (case grs of [] \<Rightarrow> None | g # _ \<Rightarrow> Some (gr_id g))\<rparr>
           in if po_lines p \<noteq> [] \<and> (all_cancelled \<or> list_ex (\<lambda>g. gr_lines g \<noteq> []) grs)
              then quantity_check tolerance iv p (ordered_quantity p) (received_quantity grs) r
              else r
         else r)"

section \<open>The inspection\<close>

definition latest_inspection :: "procurement \<Rightarrow> uid option \<Rightarrow> uid \<Rightarrow> inspection_row option" where
  "latest_inspection pm gr po =
     (let of_receipt = (case gr of
            None \<Rightarrow> None
          | Some g \<Rightarrow> newest qi_created (filter (\<lambda>q. qi_gr_id q = Some g) (pm_inspections pm)))
      in if of_receipt \<noteq> None then of_receipt
         else newest qi_created (filter (\<lambda>q. qi_po_id q = Some po \<and> qi_gr_id q = None) (pm_inspections pm)))"

definition inspection_leg :: "procurement \<Rightarrow> bool \<Rightarrow> po_row \<Rightarrow> match_result \<Rightarrow> match_result" where
  "inspection_leg pm require_inspection p r =
     (case latest_inspection pm (ma_gr_id r) (po_id p) of
        None \<Rightarrow> if require_inspection then add_issue ''inspection_required_missing'' (r\<lparr>ma_inspection_required := True\<rparr>)
                else r
      | Some q \<Rightarrow>
          let r = r\<lparr>ma_type := ''4-way'', ma_inspection_id := Some (qi_id q), ma_inspection_result := Some (qi_result q),
                    ma_accepted := (if qi_accepted q \<noteq> None then qi_accepted q else ma_accepted r),
                    ma_deviation := qi_notes q\<rparr>
          in if qi_result q = ''fail'' then
               add_issue (if or_str (qi_notes q) [] \<noteq> [] then ''inspection_failed_notes'' else ''inspection_failed'')
                 (r\<lparr>ma_status := ''mismatch''\<rparr>)
             else if qi_result q = ''partial'' then
               add_issue (if ma_accepted r \<noteq> None then ''partial_acceptance'' else ''partial_acceptance_unquantified'')
                 (if ma_status r = ''matched'' then r\<lparr>ma_status := ''partial''\<rparr> else r)
             else r)"

section \<open>The match\<close>

definition match_invoice_to_po :: "procurement \<Rightarrow> invoice \<Rightarrow> rat \<Rightarrow> bool \<Rightarrow> match_result" where
  "match_invoice_to_po pm iv tolerance require_inspection =
     (if or_str (po_number iv) [] = [] then no_match
      else case found_po pm iv of
          None \<Rightarrow> add_issue ''po_not_found'' no_match
        | Some p \<Rightarrow> inspection_leg pm require_inspection p
                     (receipt_leg pm tolerance iv p (amount_leg tolerance iv p (with_po iv p no_match))))"

definition match_invoice_under_org_rules :: "procurement \<Rightarrow> invoice \<Rightarrow> org_settings \<Rightarrow> match_result" where
  "match_invoice_under_org_rules pm iv s =
     (let rule = resolve_match_rule s (vendor_id iv) (gl_account iv)
      in match_invoice_to_po pm iv (mr_tolerance_pct rule) (mr_require_inspection rule))"

end
