(* ===== verification/PoHolds.thy ===== *)
theory PoHolds
  imports PoMatching ExceptionLifecycle Review
begin

text \<open>
  The holds a purchase-order match raises and lifts (\<open>services/invoice_warnings.py\<close>,
  \<open>_refresh_po_match\<close> to \<open>receipts_clear_hold\<close>, and \<open>_ensure_exception\<close> for the types that carry no
  fingerprint). A hold is an exception row with the columns only this code reads: the order named
  by the finding it was raised for, and what the ERP sync noted on it, whose kind is
  \<open>ex_erp_kind\<close>. A finding is its code, severity and order number. The other detectors of
  \<open>refresh_warnings\<close>, assignment and due dates are not modelled; the JSON rendering of a match,
  fresh identifiers, the clock and the rows an agent is deciding are arguments.
\<close>

section \<open>Rows and context\<close>

record hold =
  h_row :: exception_row
  h_po :: "string option"
  h_report :: "(string \<times> pyval) list"

record finding =
  fn_code :: string
  fn_severity :: string
  fn_po :: string

record refresh_env =
  re_now :: stamp
  re_today_iso :: string
  re_fresh :: "uid \<Rightarrow> string \<Rightarrow> uid"
  re_settings :: org_settings
  re_sync :: "pyval option"
  re_deciding :: "uid set"
  re_env :: env
  re_instance :: "uid \<Rightarrow> instance_row option"
  re_fingerprint :: "invoice \<Rightarrow> exception_row \<Rightarrow> string"
  re_render :: "match_result \<Rightarrow> pyval"

definition po_match_exception_types :: "string list" where
  "po_match_exception_types = [''po_mismatch'', ''quality_hold'']"

definition erp_report_po_rematch_clears :: string where
  "erp_report_po_rematch_clears = ''po_rematch_clears''"

definition auto_close_actor :: string where "auto_close_actor = ''PO match''"

definition auto_close_resolution :: string where
  "auto_close_resolution =
     ''Cleared automatically: the purchase-order match no longer reports this finding.''"

definition open_row :: "uid \<Rightarrow> string \<Rightarrow> hold \<Rightarrow> bool" where
  "open_row i t h = (ex_invoice_id (h_row h) = Some i \<and> ex_type (h_row h) = t
     \<and> ex_status (h_row h) \<in> set actionable_statuses)"

definition ensure_exception ::
  "refresh_env \<Rightarrow> invoice \<Rightarrow> string \<Rightarrow> string \<Rightarrow> finding \<Rightarrow> hold list \<times> effects \<Rightarrow> hold list \<times> effects" where
  "ensure_exception e iv t severity f st =
     (let (hs, fx) = st in
      if list_ex (open_row (inv_id iv) t) hs then (hs, fx)
      else let (row, fx) = create_exception (re_fresh e (inv_id iv) t) (re_now e) t severity ''open''
             (Some (inv_id iv)) None (Some (fn_code f)) None fx
           in (hs @ [\<lparr>h_row = row, h_po = Some (fn_po f), h_report = []\<rparr>], fx))"

section \<open>What a match warns of and holds for\<close>

text \<open>The sentence of the amount or receipt leg, and whether it blocks payment.\<close>

definition status_finding :: "invoice \<Rightarrow> match_result \<Rightarrow> (finding \<times> bool) option" where
  "status_finding iv m =
     (let named = (\<lambda>c. \<lparr>fn_code = c, fn_severity = ''warning'', fn_po = or_str (ma_po_number m) []\<rparr>)
      in if ma_status m = ''no_po'' then
           Some (\<lparr>fn_code = ''po_not_found'', fn_severity = ''error'', fn_po = or_str (po_number iv) []\<rparr>, True)
         else if ma_status m = ''mismatch'' \<and> ma_cancelled m then Some (named ''po_cancelled'', True)
         else if ma_status m = ''mismatch'' \<and> ma_unverifiable m \<noteq> None then
           Some (named ''po_total_unverifiable'', True)
         else if ma_status m = ''mismatch'' \<and> ma_currency_check m = Some currency_different then
           Some (named ''po_currency_mismatch'', True)
         else if ma_status m = ''mismatch'' \<and> \<not> ma_within m \<and> ma_variance_pct m \<noteq> None then
           Some (named (if ma_currency_check m = Some currency_unknown
                        then ''po_amount_variance_po_currency_unknown'' else ''po_amount_variance''),
             case ma_variance m of None \<Rightarrow> False | Some v \<Rightarrow> 0 < v)
         else (case (ma_ordered m, ma_received m) of
             (Some ordered, Some received) \<Rightarrow>
               if ma_status m = ''partial'' \<and> received < ordered then
                 Some ((named ''po_partial_receipt'')\<lparr>fn_severity := ''info''\<rparr>, False)
               else None
           | _ \<Rightarrow> None))"

definition partial_receipt_flag :: "match_result \<Rightarrow> finding" where
  "partial_receipt_flag m =
     \<lparr>fn_code = ''po_partial_receipt'', fn_severity = ''info'', fn_po = or_str (ma_po_number m) []\<rparr>"

definition po_ref :: "invoice \<Rightarrow> match_result \<Rightarrow> string" where
  "po_ref iv m = or_str (ma_po_number m) (or_str (po_number iv) [])"

definition quality_finding :: "invoice \<Rightarrow> match_result \<Rightarrow> finding option" where
  "quality_finding iv m =
     (let named = (\<lambda>c s. \<lparr>fn_code = c, fn_severity = s, fn_po = po_ref iv m\<rparr>)
      in if ma_inspection_result m = Some ''fail'' then
           Some (named (if or_str (ma_deviation m) [] \<noteq> [] then ''quality_inspection_failed_notes''
                        else ''quality_inspection_failed'') ''error'')
         else if ma_inspection_required m \<and> ma_inspection_result m = None then
           Some (named ''quality_inspection_missing'' ''warning'')
         else if ma_inspection_result m = Some ''partial'' then
           Some (named (if ma_accepted m \<noteq> None then ''quality_partial_acceptance''
                        else ''quality_partial_acceptance_unquantified'') ''info'')
         else None)"

definition match_warnings :: "invoice \<Rightarrow> match_result \<Rightarrow> finding list" where
  "match_warnings iv m =
     (let st = status_finding iv m
      in (case st of None \<Rightarrow> [] | Some (f, _) \<Rightarrow> [f])
         @ (if ma_billed_beyond m \<and> map_option (fn_code \<circ> fst) st \<noteq> Some ''po_partial_receipt''
            then [partial_receipt_flag m] else [])
         @ (if ma_over_receipt m then
              [\<lparr>fn_code = (if ma_received m \<noteq> None \<and> ma_ordered m \<noteq> None then ''po_over_receipt''
                           else ''po_over_receipt_unquantified''),
                fn_severity = ''warning'', fn_po = po_ref iv m\<rparr>] else [])
         @ (case quality_finding iv m of None \<Rightarrow> [] | Some f \<Rightarrow> [f]))"

text \<open>The calls of \<open>_raise\<close>, in order: exception type, severity, finding.\<close>

definition match_raises :: "invoice \<Rightarrow> match_result \<Rightarrow> (string \<times> string \<times> finding) list" where
  "match_raises iv m =
     (case status_finding iv m of Some (f, True) \<Rightarrow> [(''po_mismatch'', fn_severity f, f)] | _ \<Rightarrow> [])
     @ (if ma_billed_beyond m then [(''po_mismatch'', ''warning'', partial_receipt_flag m)] else [])
     @ (case quality_finding iv m of None \<Rightarrow> [] | Some f \<Rightarrow> [(''quality_hold'', fn_severity f, f)])"

definition blocking_finding_types :: "match_result \<Rightarrow> string set" where
  "blocking_finding_types m =
     (if ma_status m = ''no_po'' then {''po_mismatch''}
      else if ma_status m = ''mismatch'' \<and> ma_cancelled m then {''po_mismatch''}
      else if ma_status m = ''mismatch'' \<and> ma_unverifiable m \<noteq> None then {''po_mismatch''}
      else if ma_status m = ''mismatch'' \<and> ma_currency_check m = Some currency_different then {''po_mismatch''}
      else if ma_status m = ''mismatch'' \<and> \<not> ma_within m \<and> ma_variance_pct m \<noteq> None
        \<and> (case ma_variance m of None \<Rightarrow> False | Some v \<Rightarrow> 0 < v) then {''po_mismatch''}
      else {})
     \<union> (if ma_billed_beyond m then {''po_mismatch''} else {})
     \<union> (if ma_inspection_result m \<in> {Some ''fail'', Some ''partial''}
          \<or> (ma_inspection_required m \<and> ma_inspection_result m = None) then {''quality_hold''} else {})"

section \<open>What may lift a hold\<close>

definition exceptions_config :: "org_settings \<Rightarrow> payment_config" where
  "exceptions_config s =
     (case pget (case s of None \<Rightarrow> [] | Some d \<Rightarrow> d) ''exceptions'' of PDict d \<Rightarrow> Some d | _ \<Rightarrow> None)"

definition pre_approval_with_segregation :: "refresh_env \<Rightarrow> invoice \<Rightarrow> bool" where
  "pre_approval_with_segregation e iv =
     (inv_status iv \<in> pre_approval_statuses \<and>
      segregation_on (config_or_empty (resolve_approval_config (re_env e) iv (re_instance e (inv_id iv)))))"

definition inspection_clears_hold :: "procurement \<Rightarrow> invoice \<Rightarrow> uid option \<Rightarrow> bool" where
  "inspection_clears_hold pm iv qid =
     (case qid of
        None \<Rightarrow> True
      | Some i \<Rightarrow> (case List.find (\<lambda>q. qi_id q = i) (pm_inspections pm) of
            None \<Rightarrow> False
          | Some q \<Rightarrow> if qi_source q = Some ''qms'' then True
                      else if qi_recorded_by q = None then False
                      else \<not> violates_segregation iv (qi_recorded_by q) empty_approval_config))"

definition receipts_clear_hold :: "procurement \<Rightarrow> invoice \<Rightarrow> uid option \<Rightarrow> bool" where
  "receipts_clear_hold pm iv poid =
     (case poid of
        None \<Rightarrow> True
      | Some p \<Rightarrow> list_all (\<lambda>g. gr_recorded_by g \<noteq> None \<and>
            \<not> violates_segregation iv (gr_recorded_by g) empty_approval_config)
          (filter (\<lambda>g. gr_po_id g = p \<and> gr_source g = Some ''manual'' \<and> receipt_live g
             \<and> in_entity (entity_id iv) (gr_entity_id g)) (pm_receipts pm)))"

text \<open>The findings still there under the strictest rule a GL code could select.\<close>

definition still_found :: "refresh_env \<Rightarrow> procurement \<Rightarrow> invoice \<Rightarrow> match_rule \<Rightarrow> string set" where
  "still_found e pm iv rule =
     (if exception_segregation_enabled (exceptions_config (re_settings e)) \<and> inv_status iv \<notin> pre_approval_statuses then
        let strict = strictest_rule_for_any_commodity (re_settings e) (vendor_id iv)
        in if (mr_tolerance_pct strict, mr_require_inspection strict) \<noteq> (mr_tolerance_pct rule, mr_require_inspection rule)
           then blocking_finding_types
             (match_invoice_to_po pm iv (mr_tolerance_pct strict) (mr_require_inspection strict))
           else {}
      else {})"

definition may_auto_close ::
  "refresh_env \<Rightarrow> procurement \<Rightarrow> invoice \<Rightarrow> match_rule \<Rightarrow> match_result \<Rightarrow> hold \<Rightarrow> bool" where
  "may_auto_close e pm iv rule m h =
     (let segregation = exception_segregation_enabled (exceptions_config (re_settings e));
          relink_allowed = (\<not> segregation \<or> pre_approval_with_segregation e iv);
          inspection_ok = (\<not> segregation \<or> inspection_clears_hold pm iv (ma_inspection_id m));
          receipts_ok = (\<not> segregation \<or> receipts_clear_hold pm iv (ma_po_id m));
          t = ex_type (h_row h)
      in ex_id (h_row h) \<notin> re_deciding e
         \<and> (h_po h = Some (po_ref iv m) \<or> relink_allowed)
         \<and> \<not> (t = ''quality_hold'' \<and> \<not> inspection_ok)
         \<and> \<not> (t = ''po_mismatch'' \<and> \<not> receipts_ok)
         \<and> t \<notin> still_found e pm iv rule)"

fun close_cleared_po_exceptions ::
  "refresh_env \<Rightarrow> procurement \<Rightarrow> invoice \<Rightarrow> match_rule \<Rightarrow> match_result \<Rightarrow> (hold \<Rightarrow> bool) \<Rightarrow> hold list \<Rightarrow> effects \<Rightarrow>
     exc + hold list \<times> effects" where
  "close_cleared_po_exceptions e pm iv rule m gone [] fx = Inr ([], fx)"
| "close_cleared_po_exceptions e pm iv rule m gone (h # hs) fx =
     (if gone h \<and> re_settings e \<noteq> None \<and> may_auto_close e pm iv rule m h then
        bind_res (record_decision (re_fingerprint e) [] (h_row h) ''resolve'' auto_close_resolution None
            auto_close_actor (Some iv) (Some ''po_match_refresh'') None (re_now e) fx) (\<lambda>(row, fx).
        bind_res (close_cleared_po_exceptions e pm iv rule m gone hs fx) (\<lambda>(hs, fx).
          Inr (h\<lparr>h_row := row\<rparr> # hs, fx)))
      else
        bind_res (close_cleared_po_exceptions e pm iv rule m gone hs fx) (\<lambda>(hs, fx). Inr (h # hs, fx)))"

section \<open>The refresh\<close>

definition po_row_of :: "invoice \<Rightarrow> hold \<Rightarrow> bool" where
  "po_row_of iv h = (\<exists>t \<in> set po_match_exception_types. open_row (inv_id iv) t h)"

text \<open>The finding is back: the note that it had cleared is dropped.\<close>

definition drop_stale_note :: "invoice \<Rightarrow> string set \<Rightarrow> hold \<Rightarrow> hold" where
  "drop_stale_note iv found h =
     (if po_row_of iv h \<and> ex_type (h_row h) \<in> found \<and> ex_erp_kind (h_row h) = Some erp_report_po_rematch_clears
      then h\<lparr>h_row := (h_row h)\<lparr>ex_erp_kind := None\<rparr>, h_report := []\<rparr> else h)"

definition note_rematch :: "refresh_env \<Rightarrow> invoice \<Rightarrow> match_result \<Rightarrow> pyval \<Rightarrow> hold \<Rightarrow> hold" where
  "note_rematch e iv m erp_type h =
     h\<lparr>h_row := (h_row h)\<lparr>ex_erp_kind := Some erp_report_po_rematch_clears\<rparr>,
       h_report := [(''erp_type'', erp_type),
         (''po_number'', if po_ref iv m = [] then PNone else PStr (po_ref iv m)),
         (''observed_on'', PStr (re_today_iso e))]\<rparr>"

definition reconcile_po_exceptions ::
  "refresh_env \<Rightarrow> procurement \<Rightarrow> invoice \<Rightarrow> match_rule \<Rightarrow> match_result \<Rightarrow> string set \<Rightarrow> hold list \<Rightarrow> effects \<Rightarrow>
     exc + hold list \<times> effects" where
  "reconcile_po_exceptions e pm iv rule m found hs fx =
     (let hs = map (drop_stale_note iv found) hs;
          gone = (\<lambda>h. po_row_of iv h \<and> ex_type (h_row h) \<notin> found)
      in case re_sync e of
          Some erp_type \<Rightarrow> Inr (map (\<lambda>h. if gone h then note_rematch e iv m erp_type h else h) hs, fx)
        | None \<Rightarrow> close_cleared_po_exceptions e pm iv rule m gone hs fx)"

definition raise_all ::
  "refresh_env \<Rightarrow> invoice \<Rightarrow> (string \<times> string \<times> finding) list \<Rightarrow> hold list \<times> effects \<Rightarrow> hold list \<times> effects" where
  "raise_all e iv rs st = foldl (\<lambda>st (t, severity, f). ensure_exception e iv t severity f st) st rs"

definition refresh_po_match ::
  "refresh_env \<Rightarrow> procurement \<Rightarrow> invoice \<Rightarrow> hold list \<Rightarrow> effects \<Rightarrow>
     exc + invoice \<times> finding list \<times> hold list \<times> effects" where
  "refresh_po_match e pm iv hs fx =
     (let rule = resolve_match_rule (re_settings e) (vendor_id iv) (gl_account iv);
          m = match_invoice_to_po pm iv (mr_tolerance_pct rule) (mr_require_inspection rule);
          raises = match_raises iv m;
          (hs, fx) = raise_all e iv raises (hs, fx)
      in bind_res (reconcile_po_exceptions e pm iv rule m (set (map fst raises)) hs fx) (\<lambda>(hs, fx).
           Inr (iv\<lparr>po_match := re_render e m\<rparr>, match_warnings iv m, hs, fx)))"

text \<open>The call of \<open>refresh_warnings\<close>.\<close>

definition refresh_invoice_match ::
  "refresh_env \<Rightarrow> procurement \<Rightarrow> invoice \<Rightarrow> hold list \<Rightarrow> effects \<Rightarrow>
     exc + invoice \<times> finding list \<times> hold list \<times> effects" where
  "refresh_invoice_match e pm iv hs fx =
     (if or_str (po_number iv) [] \<noteq> [] \<and> inv_status iv \<noteq> New then refresh_po_match e pm iv hs fx
      else Inr (iv\<lparr>po_match := PNone\<rparr>, [], hs, fx))"

section \<open>Every invoice that cites an order\<close>

record match_state =
  ms_pm :: procurement
  ms_invoices :: "invoice list"
  ms_holds :: "hold list"
  ms_fx :: effects

definition cites :: "refresh_env \<Rightarrow> string set \<Rightarrow> uid option \<Rightarrow> invoice \<Rightarrow> bool" where
  "cites e numbers ent iv =
     (or_str (po_number iv) [] \<in> numbers - {[]} \<and>
      (re_sync e = None \<or> inv_status iv \<notin> {Paid, Done} \<and> (ent = None \<or> entity_id iv = ent \<or> entity_id iv = None)))"

fun refresh_citing ::
  "refresh_env \<Rightarrow> procurement \<Rightarrow> (invoice \<Rightarrow> bool) \<Rightarrow> invoice list \<Rightarrow> hold list \<Rightarrow> effects \<Rightarrow>
     exc + invoice list \<times> hold list \<times> effects" where
  "refresh_citing e pm sel [] hs fx = Inr ([], hs, fx)"
| "refresh_citing e pm sel (iv # ivs) hs fx =
     (if sel iv then
        bind_res (refresh_invoice_match e pm iv hs fx) (\<lambda>(iv, _, hs, fx).
        bind_res (refresh_citing e pm sel ivs hs fx) (\<lambda>(ivs, hs, fx). Inr (iv # ivs, hs, fx)))
      else bind_res (refresh_citing e pm sel ivs hs fx) (\<lambda>(ivs, hs, fx). Inr (iv # ivs, hs, fx)))"

text \<open>In a best-effort call an error rolls back to the state before it.\<close>

definition refresh_invoices_citing_pos ::
  "refresh_env \<Rightarrow> string set \<Rightarrow> bool \<Rightarrow> uid option \<Rightarrow> match_state \<Rightarrow> exc + match_state" where
  "refresh_invoices_citing_pos e numbers best_effort ent s =
     (case bind_res (refresh_citing e (ms_pm s) (cites e numbers ent) (ms_invoices s) (ms_holds s) (ms_fx s))
        (\<lambda>(ivs, hs, fx). Inr (s\<lparr>ms_invoices := ivs, ms_holds := hs, ms_fx := fx\<rparr>)) of
        Inl x \<Rightarrow> if best_effort then Inr s else Inl x
      | Inr s' \<Rightarrow> Inr s')"

end
