(* ===== verification/GoodsReceipts.thy ===== *)
theory GoodsReceipts
  imports PoHolds
begin

text \<open>
  \<open>services/goods_receipts.py\<close>: recording a delivery against an order and cancelling one, with
  the re-match of the invoices that cite the order. The planned push to the commerce channel and
  the race of two requests with one key are not modelled.
\<close>

definition gr_source_manual :: string where "gr_source_manual = ''manual''"
definition gr_status_cancelled :: string where "gr_status_cancelled = ''cancelled''"

definition receipt_cancelled_po_statuses :: "string list" where
  "receipt_cancelled_po_statuses = [''cancelled'', ''canceled'', ''void'', ''voided'']"

definition auto_number_attempts :: nat where "auto_number_attempts = 50"

record receipt_line =
  ri_po_line :: "uid option"
  ri_description :: "string option"
  ri_quantity :: rat

section \<open>What has arrived\<close>

text \<open>Per order line, and in total, over every live receipt; the sums are the database's.\<close>

definition lines_received :: "procurement \<Rightarrow> po_row \<Rightarrow> gr_line list" where
  "lines_received pm p = concat (map gr_lines (filter (\<lambda>g. gr_po_id g = po_id p \<and> receipt_live g
     \<and> in_entity (po_entity_id p) (gr_entity_id g)) (pm_receipts pm)))"

definition received_quantities :: "procurement \<Rightarrow> po_row \<Rightarrow> (uid \<Rightarrow> rat option) \<times> rat" where
  "received_quantities pm p =
     (let lines = lines_received pm p;
          sum_of = (\<lambda>i. sum_list (map (quantity_of \<circ> grl_quantity) (filter (\<lambda>l. grl_po_line l = i) lines)));
          per_line = (\<lambda>i. if Some i \<in> set (map grl_po_line lines) then Some (sum_of (Some i)) else None)
      in (per_line, decimal_sum (map sum_of (remdups (map grl_po_line lines)))))"

section \<open>Recording\<close>

definition lock_po :: "procurement \<Rightarrow> uid \<Rightarrow> uid option \<Rightarrow> exc + po_row" where
  "lock_po pm i ent =
     (case List.find (\<lambda>p. po_id p = i \<and> in_entity ent (po_entity_id p)) (pm_pos pm) of
        None \<Rightarrow> Inl (HttpError 404 [])
      | Some p \<Rightarrow> Inr p)"

definition number_taken :: "gr_row list \<Rightarrow> string \<Rightarrow> bool" where
  "number_taken grs n = list_ex (\<lambda>g. py_lower (gr_number g) = py_lower n) grs"

definition auto_number :: "gr_row list \<Rightarrow> po_row \<Rightarrow> exc + string" where
  "auto_number grs p =
     (let count = length (filter (\<lambda>g. gr_po_id g = po_id p) grs);
          candidates = map (\<lambda>n. take 100 (''GR-'' @ po_number_of p @ ''-'' @ str_nat n))
            [count + 1 ..< count + 1 + auto_number_attempts]
      in case List.find (\<lambda>c. \<not> number_taken grs c) candidates of
           None \<Rightarrow> Inl (HttpError 409 ''goods_receipt_number_taken'')
         | Some c \<Rightarrow> Inr c)"

definition by_idempotency_key :: "gr_row list \<Rightarrow> string \<Rightarrow> gr_row option" where
  "by_idempotency_key grs k = List.find (\<lambda>g. gr_key g = Some k) grs"

definition sent_lines :: "receipt_line list \<Rightarrow> (string \<times> rat) list" where
  "sent_lines lines = sort (map (\<lambda>l. (or_str (ri_po_line l) [], ri_quantity l)) lines)"

definition stored_lines :: "gr_row \<Rightarrow> (string \<times> rat) list" where
  "stored_lines g = sort (map (\<lambda>l. (or_str (grl_po_line l) [], quantity_of (grl_quantity l))) (gr_lines g))"

definition replay :: "gr_row \<Rightarrow> uid \<Rightarrow> date \<Rightarrow> receipt_line list \<Rightarrow> exc + gr_row" where
  "replay g i d lines =
     (if gr_po_id g \<noteq> i \<or> gr_received_date g \<noteq> Some d \<or> sent_lines lines \<noteq> stored_lines g
      then Inl (HttpError 409 ''goods_receipt_idempotency_reused'') else Inr g)"

text \<open>Each line with the order line it names, the lines seen so far being \<open>seen\<close>.\<close>

fun pair_lines ::
  "po_line list \<Rightarrow> uid set \<Rightarrow> receipt_line list \<Rightarrow> exc + (po_line option \<times> receipt_line) list" where
  "pair_lines pls seen [] = Inr []"
| "pair_lines pls seen (l # ls) =
     (if pls \<noteq> [] then
        (case ri_po_line l of
           None \<Rightarrow> Inl (HttpError 422 ''goods_receipt_line_not_on_po'')
         | Some i \<Rightarrow>
             (case List.find (\<lambda>p. pol_id p = i) pls of
                None \<Rightarrow> Inl (HttpError 422 ''goods_receipt_line_not_on_po'')
              | Some p \<Rightarrow>
                  if i \<in> seen then Inl (HttpError 422 ''goods_receipt_line_duplicated'')
                  else bind_res (pair_lines pls (insert i seen) ls) (\<lambda>ps. Inr ((Some p, l) # ps))))
      else if ri_po_line l \<noteq> None then Inl (HttpError 422 ''goods_receipt_line_not_on_po'')
      else if py_strip (or_str (ri_description l) []) = [] then Inl (HttpError 422 ''goods_receipt_line_required'')
      else bind_res (pair_lines pls seen ls) (\<lambda>ps. Inr ((None, l) # ps)))"

definition validate_lines ::
  "receipt_line list \<Rightarrow> po_line list \<Rightarrow> exc + (po_line option \<times> receipt_line) list" where
  "validate_lines lines pls =
     bind_res (pair_lines pls {} lines) (\<lambda>ps.
       if list_ex (\<lambda>(_, l). 0 < ri_quantity l) ps then Inr ps
       else Inl (HttpError 422 ''goods_receipt_nothing_received''))"

definition stored_line :: "po_line option \<times> receipt_line \<Rightarrow> gr_line" where
  "stored_line pl =
     (case pl of (p, l) \<Rightarrow>
       \<lparr>grl_po_line = map_option pol_id p, grl_quantity = Some (ri_quantity l),
        grl_description = (case p of None \<Rightarrow> ri_description l | Some q \<Rightarrow> pol_description q),
        grl_catalog_item = (case p of None \<Rightarrow> None | Some q \<Rightarrow> pol_catalog_item q),
        grl_sku = (case p of None \<Rightarrow> None | Some q \<Rightarrow> pol_sku q)\<rparr>)"

record receipt_request =
  rq_po :: uid
  rq_date :: date
  rq_number :: "string option"
  rq_lines :: "receipt_line list"
  rq_key :: "string option"

definition new_receipt ::
  "uid \<Rightarrow> stamp \<Rightarrow> uid \<Rightarrow> receipt_request \<Rightarrow> po_row \<Rightarrow> string \<Rightarrow> (po_line option \<times> receipt_line) list \<Rightarrow> gr_row" where
  "new_receipt i now actor rq p number paired =
     \<lparr>gr_po_id = po_id p, gr_entity_id = po_entity_id p, gr_recorded_by = Some actor,
      gr_source = Some gr_source_manual, gr_status = Some ''received'', gr_id = i, gr_number = number,
      gr_received_date = Some (rq_date rq), gr_created = now,
      gr_key = (if or_str (rq_key rq) [] = [] then None else rq_key rq),
      gr_lines = map stored_line paired\<rparr>"

definition rematch :: "refresh_env \<Rightarrow> string \<Rightarrow> match_state \<Rightarrow> exc + match_state" where
  "rematch e number s = refresh_invoices_citing_pos (e\<lparr>re_sync := None\<rparr>) {number} False None s"

text \<open>The audit row; the total quantity and the date it prints, which nothing reads back, are left out.\<close>

definition receipt_audit :: "string \<Rightarrow> uid \<Rightarrow> gr_row \<Rightarrow> (string \<times> pyval) list \<Rightarrow> effects \<Rightarrow> effects" where
  "receipt_audit action actor g details fx =
     dispatch_audit \<lparr>au_action = action, au_actor = Some actor, au_entity = gr_id g,
       au_details = (''gr_number'', PStr (gr_number g)) # details\<rparr> fx"

text \<open>The receipt, and whether it is new.\<close>

definition create_goods_receipt ::
  "refresh_env \<Rightarrow> uid \<Rightarrow> uid \<Rightarrow> uid option \<Rightarrow> receipt_request \<Rightarrow> match_state \<Rightarrow>
     exc + gr_row \<times> bool \<times> match_state" where
  "create_goods_receipt e new_id actor ent rq s =
     bind_res (lock_po (ms_pm s) (rq_po rq) ent) (\<lambda>p.
       let grs = pm_receipts (ms_pm s);
           key = or_str (rq_key rq) [];
           existing = (if key = [] then None else by_idempotency_key grs key);
           number = py_strip (or_str (rq_number rq) [])
       in case existing of
            Some g \<Rightarrow> bind_res (replay g (po_id p) (rq_date rq) (rq_lines rq)) (\<lambda>g. Inr (g, False, s))
          | None \<Rightarrow>
              if py_lower (py_strip (po_status_of p)) \<in> set receipt_cancelled_po_statuses
              then Inl (HttpError 409 ''goods_receipt_po_cancelled'')
              else bind_res (validate_lines (rq_lines rq) (po_lines p)) (\<lambda>paired.
                bind_res (if number \<noteq> [] then
                            if number_taken grs number then Inl (HttpError 409 ''goods_receipt_number_taken'')
                            else Inr number
                          else auto_number grs p) (\<lambda>number.
                  let g = new_receipt new_id (re_now e) actor rq p number paired;
                      s = s\<lparr>ms_pm := (ms_pm s)\<lparr>pm_receipts := grs @ [g]\<rparr>,
                            ms_fx := receipt_audit ''goods_receipt.created'' actor g
                              [(''po_number'', PStr (po_number_of p)), (''line_count'', PInt (int (length paired)))]
                              (ms_fx s)\<rparr>
                  in bind_res (rematch e (po_number_of p) s) (\<lambda>s. Inr (g, True, s)))))"

section \<open>Cancelling\<close>

definition put_receipt :: "gr_row \<Rightarrow> procurement \<Rightarrow> procurement" where
  "put_receipt g pm = pm\<lparr>pm_receipts := map (\<lambda>x. if gr_id x = gr_id g then g else x) (pm_receipts pm)\<rparr>"

definition cancel_goods_receipt ::
  "refresh_env \<Rightarrow> uid \<Rightarrow> uid option \<Rightarrow> uid \<Rightarrow> match_state \<Rightarrow> exc + gr_row \<times> match_state" where
  "cancel_goods_receipt e actor ent i s =
     (case List.find (\<lambda>g. gr_id g = i \<and> in_entity ent (gr_entity_id g)) (pm_receipts (ms_pm s)) of
        None \<Rightarrow> Inl (HttpError 404 [])
      | Some g \<Rightarrow>
          if gr_source g \<noteq> Some gr_source_manual then Inl (HttpError 409 ''goods_receipt_not_manual'')
          else if py_lower (py_strip (or_str (gr_status g) [])) \<in> set cancelled_gr_statuses
          then Inl (HttpError 409 ''goods_receipt_already_cancelled'')
          else
            let g' = g\<lparr>gr_status := Some gr_status_cancelled\<rparr>;
                number = or_str (map_option po_number_of (List.find (\<lambda>p. po_id p = gr_po_id g) (pm_pos (ms_pm s)))) [];
                s = s\<lparr>ms_pm := put_receipt g' (ms_pm s),
                      ms_fx := receipt_audit ''goods_receipt.cancelled'' actor g'
                        [(''po_number'', if number = [] then PNone else PStr number),
                         (''old_status'', case gr_status g of None \<Rightarrow> PNone | Some t \<Rightarrow> PStr t),
                         (''new_status'', PStr gr_status_cancelled)] (ms_fx s)\<rparr>
            in if number = [] then Inr (g', s)
               else bind_res (rematch e number s) (\<lambda>s. Inr (g', s)))"

end
