(* ===== verification/PoProofs.thy ===== *)
theory PoProofs
  imports GoodsReceipts PaymentOutcomeProofs
begin

text \<open>
  What the purchase-order match guarantees: when it says \<open>matched\<close>, what it holds for, and that
  a hold is lifted only on evidence nobody implicated in the invoice could have produced.
\<close>

section \<open>The amount leg is exact\<close>

text \<open>
  The variance percentage goes through three roundings to 28 digits; on money columns and a
  tolerance of at most four decimals none of them changes the verdict.
\<close>

lemma tolerance_exact:
  assumes i: "\<bar>i\<bar> < 10 ^ 16" and j: "0 < j" "j < 10 ^ 15" and k: "k < 10 ^ 13"
  shows "\<bar>dmul (ddiv (of_int i / 10 ^ 2) (of_int j / 10 ^ 2)) 100\<bar> \<le> of_int k / 10 ^ 4
    \<longleftrightarrow> \<bar>i\<bar> * 10 ^ 6 \<le> k * j"
proof -
  have abs: "\<bar>dmul (ddiv (of_int i / 10 ^ 2) (of_int j / 10 ^ 2)) 100\<bar> = ctx (ctx (of_int \<bar>i\<bar> / of_int j) * 100)"
  proof (cases "0 \<le> i")
    case True
    then have "0 \<le> ctx (ctx (of_int i / of_int j) * 100)"
      using j by (intro ctx_nonneg mult_nonneg_nonneg) auto
    with True show ?thesis
      by (simp add: dmul_def ddiv_def)
  next
    case False
    then have "0 \<le> ctx (ctx (of_int (- i) / of_int j) * 100)"
      using j by (intro ctx_nonneg mult_nonneg_nonneg divide_nonneg_nonneg) auto
    moreover have "dmul (ddiv (of_int i / 10 ^ 2) (of_int j / 10 ^ 2)) 100 = - ctx (ctx (of_int (- i) / of_int j) * 100)"
      by (simp add: dmul_def ddiv_def ctx_minus)
    ultimately show ?thesis
      using False by simp
  qed
  show ?thesis
  proof (cases "k < 0")
    case True
    have "0 \<le> ctx (ctx (of_int \<bar>i\<bar> / of_int j) * 100)"
      using j by (intro ctx_nonneg mult_nonneg_nonneg divide_nonneg_nonneg) auto
    moreover have "of_int k / (10 ^ 4 :: rat) < 0"
      using True by simp
    ultimately have "\<not> ctx (ctx (of_int \<bar>i\<bar> / of_int j) * 100) \<le> of_int k / 10 ^ 4"
      by linarith
    moreover have "k * j < 0"
      using True j by (simp add: mult_neg_pos)
    then have "k * j < \<bar>i\<bar> * 10 ^ 6"
      by (rule less_le_trans) simp
    then have "\<not> \<bar>i\<bar> * 10 ^ 6 \<le> k * j"
      by (simp only: not_le)
    ultimately show ?thesis
      unfolding abs by blast
  next
    case False
    show ?thesis
    proof
      assume le: "\<bar>i\<bar> * 10 ^ 6 \<le> k * j"
      then have "(of_int (\<bar>i\<bar> * 10 ^ 6) :: rat) \<le> of_int (k * j)"
        by (simp only: of_int_le_iff)
      then have "of_int \<bar>i\<bar> / of_int j \<le> (of_int k / 10 ^ 6 :: rat)"
        using j by (simp add: divide_le_eq mult.commute)
      then have "ctx (of_int \<bar>i\<bar> / of_int j) \<le> of_int k / 10 ^ 6"
        using ctx_mono ctx_exact [of "of_int k / 10 ^ 6" k 6] False k by fastforce
      then have "ctx (of_int \<bar>i\<bar> / of_int j) * 100 \<le> of_int k / 10 ^ 4"
        by simp
      then show "\<bar>dmul (ddiv (of_int i / 10 ^ 2) (of_int j / 10 ^ 2)) 100\<bar> \<le> of_int k / 10 ^ 4"
        unfolding abs using ctx_mono ctx_exact [of "of_int k / 10 ^ 4" k 4] False k by fastforce
    next
      assume le: "\<bar>dmul (ddiv (of_int i / 10 ^ 2) (of_int j / 10 ^ 2)) 100\<bar> \<le> of_int k / 10 ^ 4"
      let ?n = "k * 10 ^ 15 + 1"
      have n: "\<bar>?n\<bar> < 10 ^ 28"
        using False k by simp
      show "\<bar>i\<bar> * 10 ^ 6 \<le> k * j"
      proof (rule ccontr)
        assume "\<not> ?thesis"
        then have "k * j + 1 \<le> \<bar>i\<bar> * 10 ^ 6"
          by simp
        then have "(k * j + 1) * 10 ^ 15 \<le> \<bar>i\<bar> * 10 ^ 6 * 10 ^ 15"
          by (intro mult_right_mono) auto
        moreover have "?n * j \<le> (k * j + 1) * 10 ^ 15"
          using j by (simp add: algebra_simps)
        ultimately have "?n * j \<le> \<bar>i\<bar> * 10 ^ 21"
          by simp
        then have "(of_int (?n * j) :: rat) \<le> of_int (\<bar>i\<bar> * 10 ^ 21)"
          by (simp only: of_int_le_iff)
        then have "of_int ?n / 10 ^ 21 \<le> (of_int \<bar>i\<bar> / of_int j :: rat)"
          using j by (simp add: divide_le_eq le_divide_eq mult.commute)
        then have "of_int ?n / 10 ^ 21 \<le> ctx (of_int \<bar>i\<bar> / of_int j)"
          using ctx_mono [of "of_int ?n / 10 ^ 21" "of_int \<bar>i\<bar> / of_int j"] ctx_exact [OF refl n, of 21] by simp
        then have "of_int ?n / 10 ^ 19 \<le> ctx (of_int \<bar>i\<bar> / of_int j) * 100"
          by simp
        then have "of_int ?n / 10 ^ 19 \<le> ctx (ctx (of_int \<bar>i\<bar> / of_int j) * 100)"
          using ctx_mono [of "of_int ?n / 10 ^ 19"] ctx_exact [OF refl n, of 19] by fastforce
        with le have "of_int ?n / 10 ^ 19 \<le> (of_int k / 10 ^ 4 :: rat)"
          unfolding abs by simp
        then show False
          by simp
      qed
    qed
  qed
qed

text \<open>The variance the leg compares, as the inequality over exact rationals it stands for.\<close>

lemma amount_gate_exact:
  assumes "money_col a" and "money_col t" and "0 < t" and "has_scale 4 tol" and "tol < 10 ^ 9"
  shows "\<bar>amount_variance_pct a t\<bar> \<le> tol \<longleftrightarrow> \<bar>a - t\<bar> * 100 \<le> tol * t"
proof -
  obtain i j where ij: "a = of_int i / 10 ^ 2" "\<bar>i\<bar> < 10 ^ 15" "t = of_int j / 10 ^ 2" "\<bar>j\<bar> < 10 ^ 15"
    using assms(1,2) by (elim money_colE)
  obtain k where k: "tol = of_int k / 10 ^ 4"
    using assms(4) by (metis has_scale_def nonzero_eq_divide_eq power_not_zero zero_neq_numeral)
  have "(of_int k :: rat) < of_int (10 ^ 13)"
    using assms(5) by (simp add: k divide_less_eq)
  then have k13: "k < 10 ^ 13"
    by (simp only: of_int_less_iff)
  have j: "0 < j"
    using assms(3) by (simp add: ij(3) zero_less_divide_iff)
  have "dsub a t = of_int (i - j) / 10 ^ 2"
    using dsub_money [OF assms(1,2)] by (simp add: ij diff_divide_distrib)
  then have "amount_variance_pct a t = dmul (ddiv (of_int (i - j) / 10 ^ 2) (of_int j / 10 ^ 2)) 100"
    using assms(3) unfolding amount_variance_pct_def ij(3) by (simp only: if_True)
  moreover have "\<bar>i - j\<bar> < 10 ^ 16" "j < 10 ^ 15"
    using ij(2,4) by simp_all
  ultimately have "\<bar>amount_variance_pct a t\<bar> \<le> tol \<longleftrightarrow> \<bar>i - j\<bar> * 10 ^ 6 \<le> k * j"
    unfolding k using tolerance_exact [of "i - j" j k] j k13 by (simp only:)
  also have "\<dots> \<longleftrightarrow> (of_int (\<bar>i - j\<bar> * 10 ^ 6) :: rat) \<le> of_int (k * j)"
    by (simp only: of_int_le_iff)
  also have "\<dots> \<longleftrightarrow> \<bar>a - t\<bar> * 100 \<le> tol * t"
  proof -
    have "\<bar>a - t\<bar> * 100 = of_int \<bar>i - j\<bar>"
      by (simp add: ij(1,3) diff_divide_distrib [symmetric])
    then have A: "of_int (\<bar>i - j\<bar> * 10 ^ 6) = \<bar>a - t\<bar> * 100 * 10 ^ 6"
      by simp
    have B: "of_int (k * j) = tol * t * 10 ^ 6"
      by (simp add: ij(3) k)
    show ?thesis
      unfolding A B by (simp only: mult_le_cancel_right) simp
  qed
  finally show ?thesis .
qed

section \<open>The legs\<close>

text \<open>What refuses to compare the amounts at all.\<close>

definition refused_po :: "invoice \<Rightarrow> po_row \<Rightarrow> bool" where
  "refused_po iv p = (po_status_of p \<in> set cancelled_po_statuses \<or> or_str (po_unverifiable p) [] \<noteq> [] \<or>
     compare_currencies (po_currency_code (currency iv)) (po_currency_code (po_currency_of p)) = currency_different)"

definition all_cancelled :: "procurement \<Rightarrow> invoice \<Rightarrow> po_row \<Rightarrow> bool" where
  "all_cancelled pm iv p = (live_receipts pm iv p = [] \<and> receipts_of pm iv p \<noteq> [])"

text \<open>The receipts show that less than the order arrived.\<close>

definition short_receipt :: "procurement \<Rightarrow> invoice \<Rightarrow> po_row \<Rightarrow> bool" where
  "short_receipt pm iv p = (po_lines p \<noteq> [] \<and>
     (all_cancelled pm iv p \<or> list_ex (\<lambda>g. gr_lines g \<noteq> []) (live_receipts pm iv p)) \<and>
     0 < ordered_quantity p \<and> received_quantity (live_receipts pm iv p) < ordered_quantity p)"

definition newest_receipt :: "procurement \<Rightarrow> invoice \<Rightarrow> po_row \<Rightarrow> uid option" where
  "newest_receipt pm iv p = (case live_receipts pm iv p of [] \<Rightarrow> None | g # _ \<Rightarrow> Some (gr_id g))"

definition verdict :: "procurement \<Rightarrow> invoice \<Rightarrow> po_row \<Rightarrow> string option" where
  "verdict pm iv p = map_option qi_result (latest_inspection pm (newest_receipt pm iv p) (po_id p))"

lemma add_issue_simps [simp]:
  "ma_status (add_issue i r) = ma_status r" "ma_within (add_issue i r) = ma_within r"
  "ma_variance (add_issue i r) = ma_variance r" "ma_variance_pct (add_issue i r) = ma_variance_pct r"
  "ma_cancelled (add_issue i r) = ma_cancelled r" "ma_unverifiable (add_issue i r) = ma_unverifiable r"
  "ma_currency_check (add_issue i r) = ma_currency_check r" "ma_gr_id (add_issue i r) = ma_gr_id r"
  "ma_billed_beyond (add_issue i r) = ma_billed_beyond r" "ma_po_id (add_issue i r) = ma_po_id r"
  "ma_inspection_result (add_issue i r) = ma_inspection_result r" "ma_po_number (add_issue i r) = ma_po_number r"
  "ma_inspection_required (add_issue i r) = ma_inspection_required r" "ma_accepted (add_issue i r) = ma_accepted r"
  "ma_inspection_id (add_issue i r) = ma_inspection_id r" "ma_po_total (add_issue i r) = ma_po_total r"
  by (simp_all add: add_issue_def)

text \<open>The result of the first leg, whatever the tolerance, and where it depends on it.\<close>

definition first_leg :: "rat \<Rightarrow> invoice \<Rightarrow> po_row \<Rightarrow> match_result" where
  "first_leg tol iv p = amount_leg tol iv p (with_po iv p no_match)"

lemmas leg_defs = first_leg_def amount_leg_def with_po_def refused_amount_def no_match_def Let_def

lemma first_leg_simps [simp]:
  "ma_po_id (first_leg tol iv p) = Some (po_id p)" "ma_po_number (first_leg tol iv p) = Some (po_number_of p)"
  "ma_currency_check (first_leg tol iv p) =
     Some (compare_currencies (po_currency_code (currency iv)) (po_currency_code (po_currency_of p)))"
  "ma_unverifiable (first_leg tol iv p) = (if or_str (po_unverifiable p) [] = [] then None else po_unverifiable p)"
  "ma_cancelled (first_leg tol iv p) \<longleftrightarrow> po_status_of p \<in> set cancelled_po_statuses"
  "ma_gr_id (first_leg tol iv p) = None" "\<not> ma_billed_beyond (first_leg tol iv p)"
  "ma_inspection_result (first_leg tol iv p) = None" "\<not> ma_inspection_required (first_leg tol iv p)"
  by (simp_all add: leg_defs)

lemma or_str_empty: "or_str s [] = [] \<longleftrightarrow> s = None \<or> s = Some []"
  by (cases s) (auto simp: or_str_def)

lemma first_leg_status:
  "ma_status (first_leg tol iv p) =
     (if \<not> refused_po iv p \<and> \<bar>amount_variance_pct (amount iv) (po_total_of p)\<bar> \<le> tol then ''matched'' else ''mismatch'')"
  "ma_within (first_leg tol iv p) \<longleftrightarrow>
     \<not> refused_po iv p \<and> \<bar>amount_variance_pct (amount iv) (po_total_of p)\<bar> \<le> tol"
  "ma_variance (first_leg tol iv p) = (if refused_po iv p then None else Some (dsub (amount iv) (po_total_of p)))"
  "ma_variance_pct (first_leg tol iv p) =
     (if refused_po iv p then None else Some (amount_variance_pct (amount iv) (po_total_of p)))"
  by (auto simp: leg_defs refused_po_def or_str_empty)

lemma quantity_check_simps [simp]:
  "ma_po_id (quantity_check tol iv p q v r) = ma_po_id r" "ma_po_number (quantity_check tol iv p q v r) = ma_po_number r"
  "ma_currency_check (quantity_check tol iv p q v r) = ma_currency_check r"
  "ma_unverifiable (quantity_check tol iv p q v r) = ma_unverifiable r"
  "ma_cancelled (quantity_check tol iv p q v r) = ma_cancelled r" "ma_within (quantity_check tol iv p q v r) = ma_within r"
  "ma_gr_id (quantity_check tol iv p q v r) = ma_gr_id r" "ma_variance (quantity_check tol iv p q v r) = ma_variance r"
  "ma_variance_pct (quantity_check tol iv p q v r) = ma_variance_pct r"
  "ma_inspection_result (quantity_check tol iv p q v r) = ma_inspection_result r"
  "ma_inspection_required (quantity_check tol iv p q v r) = ma_inspection_required r"
  by (simp_all add: quantity_check_def Let_def)

lemma receipt_leg_simps [simp]:
  "ma_po_id (receipt_leg pm tol iv p r) = ma_po_id r" "ma_po_number (receipt_leg pm tol iv p r) = ma_po_number r"
  "ma_currency_check (receipt_leg pm tol iv p r) = ma_currency_check r"
  "ma_unverifiable (receipt_leg pm tol iv p r) = ma_unverifiable r"
  "ma_cancelled (receipt_leg pm tol iv p r) = ma_cancelled r" "ma_within (receipt_leg pm tol iv p r) = ma_within r"
  "ma_variance (receipt_leg pm tol iv p r) = ma_variance r"
  "ma_variance_pct (receipt_leg pm tol iv p r) = ma_variance_pct r"
  "ma_inspection_result (receipt_leg pm tol iv p r) = ma_inspection_result r"
  "ma_inspection_required (receipt_leg pm tol iv p r) = ma_inspection_required r"
  by (simp_all add: receipt_leg_def Let_def)

lemma quantity_check_status:
  "ma_status (quantity_check tol iv p q v r) =
     (if 0 < q \<and> v < q \<and> ma_status r = ''matched'' then ''partial'' else ma_status r)"
  "\<not> ma_billed_beyond r \<Longrightarrow> ma_billed_beyond (quantity_check tol iv p q v r) \<longleftrightarrow>
     0 < q \<and> v < q \<and> ma_currency_check r \<noteq> Some currency_different \<and> ma_unverifiable r = None
     \<and> billed_beyond tol (amount iv) (received_value_of (po_total_of p) v q)"
  by (auto simp: quantity_check_def Let_def add_issue_def)

text \<open>The value of what arrived, as the receipt leg reads it.\<close>

definition received_value :: "procurement \<Rightarrow> invoice \<Rightarrow> po_row \<Rightarrow> rat" where
  "received_value pm iv p =
     received_value_of (po_total_of p) (received_quantity (live_receipts pm iv p)) (ordered_quantity p)"

lemma receipt_leg_status:
  "ma_status (receipt_leg pm tol iv p r) =
     (if short_receipt pm iv p \<and> ma_status r = ''matched'' then ''partial'' else ma_status r)"
  "\<not> ma_billed_beyond r \<Longrightarrow> ma_billed_beyond (receipt_leg pm tol iv p r) \<longleftrightarrow>
     short_receipt pm iv p \<and> ma_currency_check r \<noteq> Some currency_different \<and> ma_unverifiable r = None
     \<and> billed_beyond tol (amount iv) (received_value pm iv p)"
  by (cases "live_receipts pm iv p";
      auto simp: receipt_leg_def Let_def short_receipt_def all_cancelled_def quantity_check_status received_value_def)+

lemma receipt_leg_newest:
  "ma_gr_id r = None \<Longrightarrow> ma_gr_id (receipt_leg pm tol iv p r) = newest_receipt pm iv p"
  by (auto simp: receipt_leg_def Let_def newest_receipt_def split: list.splits)

lemma inspection_leg_simps [simp]:
  "ma_po_id (inspection_leg pm ins p r) = ma_po_id r" "ma_po_number (inspection_leg pm ins p r) = ma_po_number r"
  "ma_currency_check (inspection_leg pm ins p r) = ma_currency_check r"
  "ma_unverifiable (inspection_leg pm ins p r) = ma_unverifiable r"
  "ma_cancelled (inspection_leg pm ins p r) = ma_cancelled r" "ma_within (inspection_leg pm ins p r) = ma_within r"
  "ma_variance (inspection_leg pm ins p r) = ma_variance r" "ma_gr_id (inspection_leg pm ins p r) = ma_gr_id r"
  "ma_variance_pct (inspection_leg pm ins p r) = ma_variance_pct r"
  "ma_billed_beyond (inspection_leg pm ins p r) = ma_billed_beyond r"
  by (simp_all add: inspection_leg_def Let_def split: option.splits)

lemma inspection_leg_status:
  fixes pm ins p r
  defines "v \<equiv> map_option qi_result (latest_inspection pm (ma_gr_id r) (po_id p))"
  shows "ma_status (inspection_leg pm ins p r) =
     (if v = Some ''fail'' then ''mismatch''
      else if v = Some ''partial'' \<and> ma_status r = ''matched'' then ''partial'' else ma_status r)"
    and "ma_inspection_result r = None \<Longrightarrow> ma_inspection_result (inspection_leg pm ins p r) = v"
    and "\<not> ma_inspection_required r \<Longrightarrow> ma_inspection_required (inspection_leg pm ins p r) \<longleftrightarrow> ins \<and> v = None"
  by (auto simp: inspection_leg_def v_def Let_def split: option.splits)

section \<open>The match as a whole\<close>

lemma match_unfold:
  "match_invoice_to_po pm iv tol ins =
     (if or_str (po_number iv) [] = [] then no_match
      else case found_po pm iv of
          None \<Rightarrow> add_issue ''po_not_found'' no_match
        | Some p \<Rightarrow> inspection_leg pm ins p (receipt_leg pm tol iv p (first_leg tol iv p)))"
  by (simp add: match_invoice_to_po_def first_leg_def split: option.split)

lemma match_status:
  assumes "or_str (po_number iv) [] \<noteq> []" and "found_po pm iv = Some p"
  shows "ma_status (match_invoice_to_po pm iv tol ins) =
    (if verdict pm iv p = Some ''fail'' \<or> refused_po iv p \<or> \<not> \<bar>amount_variance_pct (amount iv) (po_total_of p)\<bar> \<le> tol
     then ''mismatch''
     else if verdict pm iv p = Some ''partial'' \<or> short_receipt pm iv p then ''partial'' else ''matched'')"
  using assms
  by (auto simp: match_unfold inspection_leg_status(1) receipt_leg_status(1) first_leg_status(1) receipt_leg_newest
      verdict_def)

lemma refused_parts:
  "refused_po iv p \<longleftrightarrow> po_status_of p \<in> set cancelled_po_statuses \<or> ma_unverifiable (first_leg tol iv p) \<noteq> None \<or>
     ma_currency_check (first_leg tol iv p) = Some currency_different"
  by (auto simp: refused_po_def or_str_empty)

text \<open>What each blocking type rests on.\<close>

lemma blocking_iff:
  assumes n: "or_str (po_number iv) [] \<noteq> []" and f: "found_po pm iv = Some p"
  shows "''po_mismatch'' \<in> blocking_finding_types (match_invoice_to_po pm iv tol ins) \<longleftrightarrow>
      refused_po iv p
      \<or> tol < \<bar>amount_variance_pct (amount iv) (po_total_of p)\<bar> \<and> 0 < dsub (amount iv) (po_total_of p)
      \<or> short_receipt pm iv p \<and> billed_beyond tol (amount iv) (received_value pm iv p)
         \<and> ma_currency_check (first_leg tol iv p) \<noteq> Some currency_different \<and> ma_unverifiable (first_leg tol iv p) = None"
    and "''quality_hold'' \<in> blocking_finding_types (match_invoice_to_po pm iv tol ins) \<longleftrightarrow>
      verdict pm iv p \<in> {Some ''fail'', Some ''partial''} \<or> ins \<and> verdict pm iv p = None"
    and "blocking_finding_types (match_invoice_to_po pm iv tol ins) \<subseteq> {''po_mismatch'', ''quality_hold''}"
proof -
  let ?m = "match_invoice_to_po pm iv tol ins"
  have m: "?m = inspection_leg pm ins p (receipt_leg pm tol iv p (first_leg tol iv p))"
    using n f by (simp add: match_unfold)
  have st: "ma_status ?m \<noteq> ''no_po''"
    using match_status [OF n f] by simp
  have refused: "ma_status ?m = ''mismatch''" if "refused_po iv p"
    using match_status [OF n f] that by simp
  have over: "ma_status ?m = ''mismatch''" if "tol < \<bar>amount_variance_pct (amount iv) (po_total_of p)\<bar>"
    using match_status [OF n f] that by simp
  have fields: "ma_cancelled ?m \<longleftrightarrow> po_status_of p \<in> set cancelled_po_statuses"
      "ma_unverifiable ?m = ma_unverifiable (first_leg tol iv p)"
      "ma_currency_check ?m = ma_currency_check (first_leg tol iv p)"
      "ma_within ?m \<longleftrightarrow> \<not> refused_po iv p \<and> \<bar>amount_variance_pct (amount iv) (po_total_of p)\<bar> \<le> tol"
      "ma_variance ?m = (if refused_po iv p then None else Some (dsub (amount iv) (po_total_of p)))"
      "ma_variance_pct ?m = (if refused_po iv p then None else Some (amount_variance_pct (amount iv) (po_total_of p)))"
      "ma_billed_beyond ?m \<longleftrightarrow> short_receipt pm iv p \<and> billed_beyond tol (amount iv) (received_value pm iv p)
         \<and> ma_currency_check (first_leg tol iv p) \<noteq> Some currency_different \<and> ma_unverifiable (first_leg tol iv p) = None"
    unfolding m by (auto simp: first_leg_status receipt_leg_status(2))
  have insp: "ma_inspection_result ?m = verdict pm iv p" "ma_inspection_required ?m \<longleftrightarrow> ins \<and> verdict pm iv p = None"
    unfolding m by (simp_all add: inspection_leg_status(2,3) receipt_leg_newest verdict_def)
  show "''quality_hold'' \<in> blocking_finding_types ?m \<longleftrightarrow>
      verdict pm iv p \<in> {Some ''fail'', Some ''partial''} \<or> ins \<and> verdict pm iv p = None"
    by (auto simp: blocking_finding_types_def insp)
  show "blocking_finding_types ?m \<subseteq> {''po_mismatch'', ''quality_hold''}"
    by (auto simp: blocking_finding_types_def)
  show "''po_mismatch'' \<in> blocking_finding_types ?m \<longleftrightarrow>
      refused_po iv p
      \<or> tol < \<bar>amount_variance_pct (amount iv) (po_total_of p)\<bar> \<and> 0 < dsub (amount iv) (po_total_of p)
      \<or> short_receipt pm iv p \<and> billed_beyond tol (amount iv) (received_value pm iv p)
         \<and> ma_currency_check (first_leg tol iv p) \<noteq> Some currency_different \<and> ma_unverifiable (first_leg tol iv p) = None"
  proof (cases "refused_po iv p")
    case True
    then have "po_status_of p \<in> set cancelled_po_statuses \<or> ma_unverifiable ?m \<noteq> None \<or>
        ma_currency_check ?m = Some currency_different"
      using refused_parts [of iv p tol] by (simp only: fields)
    then show ?thesis
      using True refused by (auto simp: blocking_finding_types_def fields(1))
  next
    case False
    then have "\<not> ma_cancelled ?m" "ma_unverifiable ?m = None" "ma_currency_check ?m \<noteq> Some currency_different"
      using refused_parts [of iv p tol] by (simp_all only: fields not_not) auto
    with False st over show ?thesis
      unfolding blocking_finding_types_def fields(4-7) by (auto simp: fields(1) not_le)
  qed
qed

lemma billed_beyond_mono: "billed_beyond t a v \<Longrightarrow> s \<le> t \<Longrightarrow> billed_beyond s a v"
  by (auto simp: billed_beyond_def split: if_splits)

text \<open>A stricter rule finds at least as much.\<close>

lemma blocking_stricter:
  assumes "stricter r q"
  shows "blocking_finding_types (match_invoice_to_po pm iv (mr_tolerance_pct q) (mr_require_inspection q)) \<subseteq>
    blocking_finding_types (match_invoice_to_po pm iv (mr_tolerance_pct r) (mr_require_inspection r))"
proof (cases "or_str (po_number iv) [] \<noteq> [] \<and> found_po pm iv \<noteq> None")
  case True
  then obtain p where p: "or_str (po_number iv) [] \<noteq> []" "found_po pm iv = Some p"
    by auto
  show ?thesis
  proof
    fix t
    assume t: "t \<in> blocking_finding_types (match_invoice_to_po pm iv (mr_tolerance_pct q) (mr_require_inspection q))"
    with blocking_iff(3) [OF p] consider "t = ''po_mismatch''" | "t = ''quality_hold''"
      by blast
    then show "t \<in> blocking_finding_types (match_invoice_to_po pm iv (mr_tolerance_pct r) (mr_require_inspection r))"
    proof cases
      case 1
      with t assms show ?thesis
        unfolding stricter_def by (auto simp: blocking_iff(1) [OF p] intro: billed_beyond_mono)
    next
      case 2
      with t assms show ?thesis
        unfolding stricter_def by (auto simp: blocking_iff(2) [OF p])
    qed
  qed
next
  case False
  then show ?thesis
    by (auto simp: match_unfold)
qed

lemma newest_SomeD:
  assumes "newest created xs = Some x"
  shows "x \<in> set xs" and "\<forall>y \<in> set xs. created y \<le> created x"
proof -
  obtain ys where ys: "sort_key (\<lambda>x. - created x) xs = x # ys"
    using assms by (auto simp: newest_def newest_first_def split: list.splits)
  then have "set xs = set (x # ys)"
    by (metis set_sort)
  then show "x \<in> set xs"
    by simp
  have "sorted (map (\<lambda>x. - created x) (x # ys))"
    by (metis sorted_sort_key ys)
  with \<open>set xs = set (x # ys)\<close> show "\<forall>y \<in> set xs. created y \<le> created x"
    by auto
qed

lemma found_poD:
  assumes "found_po pm iv = Some p"
  shows "p \<in> set (pm_pos pm)" and "po_number_of p = or_str (po_number iv) []"
    and "entity_id iv = None \<or> po_entity_id p = entity_id iv" and "vendor_id iv = None \<or> po_vendor_id p = vendor_id iv"
  using newest_SomeD(1) [OF assms [unfolded found_po_def]] by (auto simp: citable_pos_def in_entity_def)

section \<open>The refresh\<close>

lemma status_finding_blocks:
  "(\<exists>f. status_finding iv m = Some (f, True)) \<longleftrightarrow> ma_status m = ''no_po'' \<or> ma_status m = ''mismatch'' \<and>
     (ma_cancelled m \<or> ma_unverifiable m \<noteq> None \<or> ma_currency_check m = Some currency_different \<or>
      \<not> ma_within m \<and> ma_variance_pct m \<noteq> None \<and> (\<exists>v. ma_variance m = Some v \<and> 0 < v))"
proof (cases "ma_status m = ''no_po'' \<or> ma_status m = ''mismatch'' \<and>
     (ma_cancelled m \<or> ma_unverifiable m \<noteq> None \<or> ma_currency_check m = Some currency_different)")
  case True
  then show ?thesis
    by (auto simp: status_finding_def Let_def)
next
  case False
  then have "status_finding iv m = (if ma_status m = ''mismatch'' \<and> \<not> ma_within m \<and> ma_variance_pct m \<noteq> None
       then Some (\<lparr>fn_code = (if ma_currency_check m = Some currency_unknown
                        then ''po_amount_variance_po_currency_unknown'' else ''po_amount_variance''),
               fn_severity = ''warning'', fn_po = or_str (ma_po_number m) []\<rparr>,
             case ma_variance m of None \<Rightarrow> False | Some v \<Rightarrow> 0 < v)
       else (case (ma_ordered m, ma_received m) of
             (Some ordered, Some received) \<Rightarrow>
               if ma_status m = ''partial'' \<and> received < ordered then Some (partial_receipt_flag m, False) else None
           | _ \<Rightarrow> None))"
    by (auto simp: status_finding_def Let_def partial_receipt_flag_def split: option.split)
  with False show ?thesis
    by (auto split: option.splits if_splits)
qed

lemma quality_finding_iff:
  "quality_finding iv m \<noteq> None \<longleftrightarrow> ma_inspection_result m \<in> {Some ''fail'', Some ''partial''} \<or>
     ma_inspection_required m \<and> ma_inspection_result m = None"
  by (auto simp: quality_finding_def Let_def)

lemma blocking_parts:
  "blocking_finding_types m =
     (if ma_status m = ''no_po'' \<or> ma_status m = ''mismatch'' \<and>
        (ma_cancelled m \<or> ma_unverifiable m \<noteq> None \<or> ma_currency_check m = Some currency_different \<or>
         \<not> ma_within m \<and> ma_variance_pct m \<noteq> None \<and> (\<exists>v. ma_variance m = Some v \<and> 0 < v)) \<or> ma_billed_beyond m
      then {''po_mismatch''} else {}) \<union>
     (if ma_inspection_result m \<in> {Some ''fail'', Some ''partial''} \<or>
        ma_inspection_required m \<and> ma_inspection_result m = None then {''quality_hold''} else {})"
proof -
  have chain: "(if a then S else if s \<and> b then S else if s \<and> c then S else if s \<and> d then S
      else if s \<and> f \<and> g \<and> h then S else {}) \<union> (if x then S else {}) =
    (if a \<or> s \<and> (b \<or> c \<or> d \<or> f \<and> g \<and> h) \<or> x then S else {})" for a b c d f g h s x and S :: "string set"
    by auto
  have over: "(case v of None \<Rightarrow> False | Some y \<Rightarrow> 0 < y) \<longleftrightarrow> (\<exists>y. v = Some y \<and> 0 < y)" for v :: "rat option"
    by (cases v) simp_all
  show ?thesis
    unfolding blocking_finding_types_def chain over by (rule refl)
qed

lemma match_raises_types: "set (map fst (match_raises iv m)) = blocking_finding_types m"
proof -
  have "set (map fst (match_raises iv m)) =
     (if (\<exists>f. status_finding iv m = Some (f, True)) \<or> ma_billed_beyond m then {''po_mismatch''} else {}) \<union>
     (if quality_finding iv m \<noteq> None then {''quality_hold''} else {})"
  proof -
    have 1: "set (map fst (case x of Some (f, True) \<Rightarrow> [(''po_mismatch'', fn_severity f, f)] | _ \<Rightarrow> [])) =
        (if \<exists>f. x = Some (f, True) then {''po_mismatch''} else {})" for x
    proof (cases x)
      case (Some z)
      then show ?thesis
        by (cases z; cases "snd z") simp_all
    qed simp
    have 2: "set (map fst (case y of None \<Rightarrow> [] | Some f \<Rightarrow> [(''quality_hold'', fn_severity f, f)])) =
        (if y \<noteq> None then {''quality_hold''} else {})" for y
      by (cases y) simp_all
    show ?thesis
      unfolding match_raises_def map_append set_append 1 2 by auto
  qed
  then show ?thesis
    unfolding status_finding_blocks quality_finding_iff blocking_parts by simp
qed

definition same_hold :: "hold \<Rightarrow> hold \<Rightarrow> bool" where
  "same_hold h h' = (ex_id (h_row h') = ex_id (h_row h) \<and> ex_type (h_row h') = ex_type (h_row h) \<and>
     ex_invoice_id (h_row h') = ex_invoice_id (h_row h) \<and> h_po h' = h_po h)"

text \<open>How one row may move in a refresh.\<close>

definition hold_step ::
  "refresh_env \<Rightarrow> procurement \<Rightarrow> invoice \<Rightarrow> match_rule \<Rightarrow> match_result \<Rightarrow> hold \<Rightarrow> hold \<Rightarrow> bool" where
  "hold_step e pm iv rule m h h' = (same_hold h h' \<and>
     (ex_status (h_row h') = ex_status (h_row h) \<or>
      ex_status (h_row h') = ''resolved'' \<and> po_row_of iv h \<and> ex_type (h_row h) \<notin> blocking_finding_types m \<and>
      re_sync e = None \<and> re_settings e \<noteq> None \<and> may_auto_close e pm iv rule m h))"

lemma same_hold_reads:
  assumes "same_hold h h'" and "ex_status (h_row h') = ex_status (h_row h)"
  shows "po_row_of iv h' = po_row_of iv h" and "may_auto_close e pm iv rule m h' = may_auto_close e pm iv rule m h"
    and "open_row i t h' = open_row i t h"
  using assms by (simp_all add: same_hold_def po_row_of_def open_row_def may_auto_close_def)

lemma auto_close_row:
  "\<exists>row' fx'. record_decision fp ivs row ''resolve'' res None name (Some iv) via c now fx = Inr (row', fx') \<and>
     ex_status row' = ''resolved'' \<and> ex_id row' = ex_id row \<and> ex_type row' = ex_type row \<and>
     ex_invoice_id row' = ex_invoice_id row"
  by (auto simp: record_decision_def exception_refusal_def apply_resolution_def resolution_status_def Let_def
      bind_fingerprint_to_decision_def split: option.splits)

lemma close_cleared_total:
  "\<exists>hs' fx'. close_cleared_po_exceptions e pm iv rule m dropped hs fx = Inr (hs', fx') \<and>
     list_all2 (\<lambda>h h'. h' = h \<or> same_hold h h' \<and> ex_status (h_row h') = ''resolved'' \<and> dropped h \<and> re_settings e \<noteq> None \<and>
       may_auto_close e pm iv rule m h) hs hs'"
proof (induction hs arbitrary: fx)
  case (Cons h hs)
  show ?case
  proof (cases "dropped h \<and> re_settings e \<noteq> None \<and> may_auto_close e pm iv rule m h")
    case True
    obtain row fx1 where row: "record_decision (re_fingerprint e) [] (h_row h) ''resolve'' auto_close_resolution None
        auto_close_actor (Some iv) (Some ''po_match_refresh'') None (re_now e) fx = Inr (row, fx1)"
      "ex_status row = ''resolved''" "ex_id row = ex_id (h_row h)" "ex_type row = ex_type (h_row h)"
      "ex_invoice_id row = ex_invoice_id (h_row h)"
      using auto_close_row by blast
    with Cons.IH [of fx1] True show ?thesis
      by (auto simp: same_hold_def)
  next
    case False
    with Cons.IH [of fx] show ?thesis
      by auto
  qed
qed simp

lemma drop_note_same: "same_hold h (drop_stale_note iv found h)"
    "ex_status (h_row (drop_stale_note iv found h)) = ex_status (h_row h)"
  by (simp_all add: drop_stale_note_def same_hold_def)

lemma reconcile_total:
  "\<exists>hs' fx'. reconcile_po_exceptions e pm iv rule m (blocking_finding_types m) hs fx = Inr (hs', fx') \<and>
     list_all2 (hold_step e pm iv rule m) hs hs'"
proof (cases "re_sync e")
  case None
  let ?found = "blocking_finding_types m"
  let ?d = "map (drop_stale_note iv ?found) hs"
  obtain hs' fx' where c: "close_cleared_po_exceptions e pm iv rule m
      (\<lambda>h. po_row_of iv h \<and> ex_type (h_row h) \<notin> ?found) ?d fx = Inr (hs', fx')"
    and all: "list_all2 (\<lambda>h h'. h' = h \<or> same_hold h h' \<and> ex_status (h_row h') = ''resolved'' \<and>
      (po_row_of iv h \<and> ex_type (h_row h) \<notin> ?found) \<and> re_settings e \<noteq> None \<and> may_auto_close e pm iv rule m h) ?d hs'"
    using close_cleared_total by blast
  have "list_all2 (hold_step e pm iv rule m) hs hs'"
  proof (rule list_all2_all_nthI)
    show "length hs = length hs'"
      using list_all2_lengthD [OF all] by simp
    fix i
    assume i: "i < length hs"
    let ?h = "hs ! i"
    have d: "same_hold ?h (drop_stale_note iv ?found ?h)"
        "ex_status (h_row (drop_stale_note iv ?found ?h)) = ex_status (h_row ?h)"
      by (rule drop_note_same)+
    from list_all2_nthD [OF all, of i] i d same_hold_reads [OF d]
    show "hold_step e pm iv rule m ?h (hs' ! i)"
      by (auto simp: hold_step_def None same_hold_def)
  qed
  with c show ?thesis
    by (simp add: reconcile_po_exceptions_def None Let_def)
next
  case (Some t)
  have "list_all2 (hold_step e pm iv rule m) hs
      (map (\<lambda>h. if po_row_of iv h \<and> ex_type (h_row h) \<notin> blocking_finding_types m then note_rematch e iv m t h else h)
        (map (drop_stale_note iv (blocking_finding_types m)) hs))"
    using drop_note_same by (simp add: list_all2_map2 list.rel_refl_strong hold_step_def note_rematch_def same_hold_def)
  then show ?thesis
    by (simp add: reconcile_po_exceptions_def Some Let_def)
qed

text \<open>Raising only appends, and leaves an open row for every type raised.\<close>

lemma ensure_exception_adds:
  "\<exists>new fx'. ensure_exception e iv t sev f (hs, fx) = (hs @ new, fx') \<and> (\<forall>h \<in> set new. open_row (inv_id iv) t h) \<and>
     (\<exists>h \<in> set (hs @ new). open_row (inv_id iv) t h)"
  by (auto simp: ensure_exception_def create_exception_def Let_def list_ex_iff open_row_def actionable_statuses_def)

lemma raise_all_adds:
  "\<exists>new fx'. raise_all e iv rs (hs, fx) = (hs @ new, fx') \<and>
     (\<forall>h \<in> set new. \<exists>t \<in> set (map fst rs). open_row (inv_id iv) t h) \<and>
     (\<forall>t \<in> set (map fst rs). \<exists>h \<in> set (hs @ new). open_row (inv_id iv) t h)"
proof (induction rs arbitrary: hs fx)
  case (Cons r rs)
  obtain t sev f where r: "r = (t, sev, f)"
    by (cases r)
  obtain new1 fx1 where 1: "ensure_exception e iv t sev f (hs, fx) = (hs @ new1, fx1)"
      "\<forall>h \<in> set new1. open_row (inv_id iv) t h" "\<exists>h \<in> set (hs @ new1). open_row (inv_id iv) t h"
    using ensure_exception_adds by blast
  obtain new2 fx2 where 2: "raise_all e iv rs (hs @ new1, fx1) = ((hs @ new1) @ new2, fx2)"
      "\<forall>h \<in> set new2. \<exists>t \<in> set (map fst rs). open_row (inv_id iv) t h"
      "\<forall>t \<in> set (map fst rs). \<exists>h \<in> set ((hs @ new1) @ new2). open_row (inv_id iv) t h"
    using Cons.IH by blast
  have "raise_all e iv (r # rs) (hs, fx) = (hs @ new1 @ new2, fx2)"
    using 1(1) 2(1) by (simp add: raise_all_def r)
  with 1(2,3) 2(2,3) r show ?case
    by (intro exI [of _ "new1 @ new2"] exI [of _ fx2]) auto
qed (simp add: raise_all_def)

definition own_rule :: "refresh_env \<Rightarrow> invoice \<Rightarrow> match_rule" where
  "own_rule e iv = resolve_match_rule (re_settings e) (vendor_id iv) (gl_account iv)"

definition own_match :: "refresh_env \<Rightarrow> procurement \<Rightarrow> invoice \<Rightarrow> match_result" where
  "own_match e pm iv = match_invoice_under_org_rules pm iv (re_settings e)"

text \<open>A refresh always returns, and this is what it leaves.\<close>

lemma refresh_total:
  "\<exists>hs' fx' new. refresh_po_match e pm iv hs fx =
       Inr (iv\<lparr>po_match := re_render e (own_match e pm iv)\<rparr>, match_warnings iv (own_match e pm iv), hs', fx') \<and>
     list_all2 (hold_step e pm iv (own_rule e iv) (own_match e pm iv)) (hs @ new) hs' \<and>
     (\<forall>h \<in> set new. \<exists>t \<in> blocking_finding_types (own_match e pm iv). open_row (inv_id iv) t h) \<and>
     (\<forall>t \<in> blocking_finding_types (own_match e pm iv). \<exists>h \<in> set (hs @ new). open_row (inv_id iv) t h)"
proof -
  let ?m = "own_match e pm iv"
  obtain new fx1 where r: "raise_all e iv (match_raises iv ?m) (hs, fx) = (hs @ new, fx1)"
      "\<forall>h \<in> set new. \<exists>t \<in> set (map fst (match_raises iv ?m)). open_row (inv_id iv) t h"
      "\<forall>t \<in> set (map fst (match_raises iv ?m)). \<exists>h \<in> set (hs @ new). open_row (inv_id iv) t h"
    using raise_all_adds by blast
  obtain hs' fx' where c: "reconcile_po_exceptions e pm iv (own_rule e iv) ?m (blocking_finding_types ?m) (hs @ new) fx1 =
      Inr (hs', fx')" "list_all2 (hold_step e pm iv (own_rule e iv) ?m) (hs @ new) hs'"
    using reconcile_total by blast
  have "refresh_po_match e pm iv hs fx = Inr (iv\<lparr>po_match := re_render e ?m\<rparr>, match_warnings iv ?m, hs', fx')"
    using r(1) c(1)
    by (simp add: refresh_po_match_def own_match_def own_rule_def match_invoice_under_org_rules_def Let_def
        match_raises_types [unfolded set_map])
  with r(2,3) c(2) show ?thesis
    unfolding match_raises_types by blast
qed

end
