(* ===== verification/PoHistory.thy ===== *)
theory PoHistory
  imports PoProofs
begin

text \<open>
  Histories of procurement: invoices saved, receipts recorded and cancelled, rows decided by
  people. What the refreshes leave, invoice by invoice.
\<close>

section \<open>What a match reads\<close>

lemma match_ignores:
  "match_invoice_to_po pm (iv\<lparr>po_match := x\<rparr>) tol ins = match_invoice_to_po pm iv tol ins"
  "match_invoice_to_po pm (iv\<lparr>gl_account := y\<rparr>) tol ins = match_invoice_to_po pm iv tol ins"
proof -
  have *: "match_invoice_to_po pm iv' tol ins = match_invoice_to_po pm iv tol ins"
    if "po_number iv' = po_number iv" "entity_id iv' = entity_id iv" "vendor_id iv' = vendor_id iv"
      "currency iv' = currency iv" "amount iv' = amount iv" for iv'
  proof -
    have c: "citable_pos pm iv' = citable_pos pm iv"
      by (intro ext) (simp only: citable_pos_def that)
    have f: "found_po pm iv' = found_po pm iv"
      by (simp add: found_po_def c that)
    have a: "first_leg tol iv' p = first_leg tol iv p" for p
      by (simp add: leg_defs that)
    have q: "quantity_check tol iv' = quantity_check tol iv"
      by (intro ext) (simp only: quantity_check_def that)
    have r: "receipts_of pm iv' = receipts_of pm iv"
      by (intro ext) (simp only: receipts_of_def that)
    have "receipt_leg pm tol iv' p = receipt_leg pm tol iv p" for p
      by (intro ext) (simp only: receipt_leg_def q r live_receipts_def)
    then show ?thesis
      by (cases "found_po pm iv") (simp_all add: match_unfold f a that)
  qed
  show "match_invoice_to_po pm (iv\<lparr>po_match := x\<rparr>) tol ins = match_invoice_to_po pm iv tol ins"
    "match_invoice_to_po pm (iv\<lparr>gl_account := y\<rparr>) tol ins = match_invoice_to_po pm iv tol ins"
    by (rule *; simp)+
qed

lemma rules_match_ignores [simp]:
  "match_invoice_under_org_rules pm (iv\<lparr>po_match := x\<rparr>) st = match_invoice_under_org_rules pm iv st"
  by (simp add: match_invoice_under_org_rules_def match_ignores)

text \<open>A match reads the receipts and inspections of the one order it found.\<close>

lemma match_receipts_cong:
  assumes "pm_pos pm' = pm_pos pm" and "pm_inspections pm' = pm_inspections pm"
    and "\<And>p. found_po pm iv = Some p \<Longrightarrow> receipts_of pm' iv p = receipts_of pm iv p"
  shows "match_invoice_to_po pm' iv tol ins = match_invoice_to_po pm iv tol ins"
proof -
  have "citable_pos pm' = citable_pos pm"
    by (intro ext) (simp add: citable_pos_def assms(1))
  then have f: "found_po pm' iv = found_po pm iv"
    by (simp add: found_po_def)
  have "latest_inspection pm' = latest_inspection pm"
    by (intro ext) (simp only: latest_inspection_def assms(2))
  then have i: "inspection_leg pm' = inspection_leg pm"
    by (intro ext) (simp only: inspection_leg_def)
  have "receipt_leg pm' tol iv p r = receipt_leg pm tol iv p r" if "found_po pm iv = Some p" for p r
    by (simp add: receipt_leg_def live_receipts_def assms(3) [OF that])
  then show ?thesis
    by (cases "found_po pm iv") (simp_all add: match_unfold f i)
qed

section \<open>Held\<close>

definition checked :: "invoice \<Rightarrow> bool" where
  "checked iv = (or_str (po_number iv) [] \<noteq> [] \<and> inv_status iv \<noteq> New)"

definition findings :: "org_settings \<Rightarrow> procurement \<Rightarrow> invoice \<Rightarrow> string set" where
  "findings st pm iv = (if checked iv then blocking_finding_types (match_invoice_under_org_rules pm iv st) else {})"

definition held :: "hold list \<Rightarrow> uid \<Rightarrow> string set \<Rightarrow> bool" where
  "held hs i ts = (\<forall>t \<in> ts. \<exists>h \<in> set hs. open_row i t h)"

text \<open>The open rows of another invoice stay.\<close>

lemma hold_step_other:
  assumes "hold_step e pm iv rule m h h'" and "open_row i t h" and "i \<noteq> inv_id iv"
  shows "open_row i t h'"
proof -
  have "\<not> po_row_of iv h"
    using assms(2,3) by (auto simp: po_row_of_def open_row_def)
  with assms(1,2) show ?thesis
    by (auto simp: hold_step_def same_hold_def open_row_def)
qed

lemma hold_step_found:
  assumes "hold_step e pm iv rule m h h'" and "open_row i t h" and "t \<in> blocking_finding_types m"
  shows "open_row i t h'"
  using assms by (auto simp: hold_step_def same_hold_def open_row_def)

lemma findings_ignore [simp]: "findings st pm (iv\<lparr>po_match := x\<rparr>) = findings st pm iv"
  by (simp add: findings_def checked_def)

definition same_invoice :: "invoice \<Rightarrow> invoice \<Rightarrow> bool" where
  "same_invoice iv iv' = (\<exists>x. iv' = iv\<lparr>po_match := x\<rparr>)"

lemma same_invoice_refl: "same_invoice iv iv"
  unfolding same_invoice_def by (rule exI [of _ "po_match iv"]) simp

lemma same_invoice_reads:
  "same_invoice iv iv' \<Longrightarrow> inv_id iv' = inv_id iv \<and> findings st pm iv' = findings st pm iv"
  by (auto simp: same_invoice_def)

lemma refresh_leaves:
  obtains iv' ws hs' fx' where "refresh_invoice_match e pm iv hs fx = Inr (iv', ws, hs', fx')" and "same_invoice iv iv'"
    and "held hs' (inv_id iv) (findings (re_settings e) pm iv)"
    and "\<forall>i ts. i \<noteq> inv_id iv \<and> held hs i ts \<longrightarrow> held hs' i ts"
proof (cases "checked iv")
  case True
  let ?m = "own_match e pm iv"
  obtain hs' fx' new where r: "refresh_po_match e pm iv hs fx =
       Inr (iv\<lparr>po_match := re_render e ?m\<rparr>, match_warnings iv ?m, hs', fx')"
    and step: "list_all2 (hold_step e pm iv (own_rule e iv) ?m) (hs @ new) hs'"
    and found: "\<forall>t \<in> blocking_finding_types ?m. \<exists>h \<in> set (hs @ new). open_row (inv_id iv) t h"
    using refresh_total by blast
  have img: "\<exists>h' \<in> set hs'. hold_step e pm iv (own_rule e iv) ?m h h'" if "h \<in> set (hs @ new)" for h
    using step that by (metis list_all2_conv_all_nth nth_mem in_set_conv_nth)
  have "held hs' (inv_id iv) (blocking_finding_types ?m)"
    unfolding held_def using found img hold_step_found by meson
  moreover have "held hs' i ts" if other: "i \<noteq> inv_id iv" and before: "held hs i ts" for i ts
    unfolding held_def
  proof
    fix t
    assume "t \<in> ts"
    then obtain h where h: "h \<in> set (hs @ new)" "open_row i t h"
      using before by (auto simp: held_def)
    then show "\<exists>h \<in> set hs'. open_row i t h"
      using img [OF h(1)] hold_step_other [OF _ h(2) other] by blast
  qed
  moreover have "refresh_invoice_match e pm iv hs fx =
      Inr (iv\<lparr>po_match := re_render e ?m\<rparr>, match_warnings iv ?m, hs', fx')"
    using r True by (simp add: refresh_invoice_match_def checked_def)
  moreover have "findings (re_settings e) pm iv = blocking_finding_types ?m"
    using True by (simp add: findings_def own_match_def)
  moreover have "same_invoice iv (iv\<lparr>po_match := re_render e ?m\<rparr>)"
    unfolding same_invoice_def by blast
  ultimately show thesis
    using that by simp
next
  case False
  then have "refresh_invoice_match e pm iv hs fx = Inr (iv\<lparr>po_match := PNone\<rparr>, [], hs, fx)"
    by (auto simp: refresh_invoice_match_def checked_def)
  moreover have "same_invoice iv (iv\<lparr>po_match := PNone\<rparr>)"
    unfolding same_invoice_def by blast
  ultimately show thesis
    using that False by (fastforce simp: findings_def held_def)
qed

text \<open>A sweep over the invoices that cite an order leaves each of them held.\<close>

lemma refresh_citing_leaves:
  assumes "distinct (map inv_id ivs)"
  shows "\<exists>ivs' hs' fx'. refresh_citing e pm sel ivs hs fx = Inr (ivs', hs', fx') \<and> list_all2 same_invoice ivs ivs' \<and>
     (\<forall>iv \<in> set ivs. sel iv \<longrightarrow> held hs' (inv_id iv) (findings (re_settings e) pm iv)) \<and>
     (\<forall>i ts. (\<forall>iv \<in> set ivs. sel iv \<longrightarrow> inv_id iv \<noteq> i) \<and> held hs i ts \<longrightarrow> held hs' i ts)"
  using assms
proof (induction ivs arbitrary: hs fx)
  case (Cons iv ivs)
  have d: "distinct (map inv_id ivs)" "\<forall>v \<in> set ivs. inv_id v \<noteq> inv_id iv"
    using Cons.prems by (simp_all add: image_iff) metis
  show ?case
  proof (cases "sel iv")
    case True
    obtain iv' ws hs1 fx1 where 1: "refresh_invoice_match e pm iv hs fx = Inr (iv', ws, hs1, fx1)"
        "same_invoice iv iv'" "held hs1 (inv_id iv) (findings (re_settings e) pm iv)"
        "\<forall>i ts. i \<noteq> inv_id iv \<and> held hs i ts \<longrightarrow> held hs1 i ts"
      by (rule refresh_leaves [of e pm iv hs fx])
    obtain ivs' hs' fx' where 2: "refresh_citing e pm sel ivs hs1 fx1 = Inr (ivs', hs', fx')"
        "list_all2 same_invoice ivs ivs'"
        "\<forall>iv \<in> set ivs. sel iv \<longrightarrow> held hs' (inv_id iv) (findings (re_settings e) pm iv)"
        "\<forall>i ts. (\<forall>iv \<in> set ivs. sel iv \<longrightarrow> inv_id iv \<noteq> i) \<and> held hs1 i ts \<longrightarrow> held hs' i ts"
      using Cons.IH [OF d(1)] by blast
    have "refresh_citing e pm sel (iv # ivs) hs fx = Inr (iv' # ivs', hs', fx')"
      using True 1(1) 2(1) by simp
    moreover have "list_all2 same_invoice (iv # ivs) (iv' # ivs')"
      using 1(2) 2(2) by simp
    moreover have "held hs' (inv_id iv) (findings (re_settings e) pm iv)"
      using 1(3) 2(4) d(2) by blast
    ultimately show ?thesis
      using 1(4) 2(3,4) True by (intro exI conjI) auto
  next
    case False
    then show ?thesis
      using Cons.IH [OF d(1), of hs fx] same_invoice_refl by fastforce
  qed
qed (simp add: held_def)

section \<open>A receipt written or cancelled\<close>

lemma rematch_leaves:
  assumes "distinct (map inv_id (ms_invoices s))" and "rematch e n s = Inr s'" and "n \<noteq> []"
  shows "ms_pm s' = ms_pm s" and "list_all2 same_invoice (ms_invoices s) (ms_invoices s')"
    and "\<forall>iv \<in> set (ms_invoices s). or_str (po_number iv) [] = n \<longrightarrow>
      held (ms_holds s') (inv_id iv) (findings (re_settings e) (ms_pm s) iv)"
    and "\<forall>iv \<in> set (ms_invoices s). or_str (po_number iv) [] \<noteq> n \<and> held (ms_holds s) (inv_id iv) ts \<longrightarrow>
      held (ms_holds s') (inv_id iv) ts"
proof -
  let ?e = "e\<lparr>re_sync := None\<rparr>"
  obtain ivs' hs' fx' where c: "refresh_citing ?e (ms_pm s) (cites ?e {n} None) (ms_invoices s) (ms_holds s) (ms_fx s) =
      Inr (ivs', hs', fx')" "list_all2 same_invoice (ms_invoices s) ivs'"
    and h: "\<forall>iv \<in> set (ms_invoices s). cites ?e {n} None iv \<longrightarrow>
      held hs' (inv_id iv) (findings (re_settings ?e) (ms_pm s) iv)"
    and o: "\<forall>i ts. (\<forall>iv \<in> set (ms_invoices s). cites ?e {n} None iv \<longrightarrow> inv_id iv \<noteq> i) \<and> held (ms_holds s) i ts \<longrightarrow> held hs' i ts"
    using refresh_citing_leaves [OF assms(1), of ?e "ms_pm s" "cites ?e {n} None" "ms_holds s" "ms_fx s"] by blast
  have s': "s' = s\<lparr>ms_invoices := ivs', ms_holds := hs', ms_fx := fx'\<rparr>"
    using assms(2) c(1) by (simp add: rematch_def refresh_invoices_citing_pos_def)
  have sel: "cites ?e {n} None iv \<longleftrightarrow> or_str (po_number iv) [] = n" for iv
    using assms(3) by (auto simp: cites_def)
  show "ms_pm s' = ms_pm s" "list_all2 same_invoice (ms_invoices s) (ms_invoices s')"
    using s' c(2) by simp_all
  show "\<forall>iv \<in> set (ms_invoices s). or_str (po_number iv) [] = n \<longrightarrow>
      held (ms_holds s') (inv_id iv) (findings (re_settings e) (ms_pm s) iv)"
    using h sel s' by simp
  show "\<forall>iv \<in> set (ms_invoices s). or_str (po_number iv) [] \<noteq> n \<and> held (ms_holds s) (inv_id iv) ts \<longrightarrow>
      held (ms_holds s') (inv_id iv) ts"
  proof (intro ballI impI)
    fix iv
    assume iv: "iv \<in> set (ms_invoices s)" "or_str (po_number iv) [] \<noteq> n \<and> held (ms_holds s) (inv_id iv) ts"
    have "\<forall>v \<in> set (ms_invoices s). cites ?e {n} None v \<longrightarrow> inv_id v \<noteq> inv_id iv"
      using iv sel assms(1) by (metis distinct_map inj_onD)
    with o iv(2) show "held (ms_holds s') (inv_id iv) ts"
      using s' by simp
  qed
qed

text \<open>Evidence on one order changes the findings of no invoice that cites another number.\<close>

lemma evidence_elsewhere:
  assumes "pm_pos pm' = pm_pos pm" and "pm_inspections pm' = pm_inspections pm"
    and "\<And>p. po_id p \<noteq> i \<Longrightarrow> receipts_of pm' iv p = receipts_of pm iv p"
    and "\<And>p. p \<in> set (pm_pos pm) \<Longrightarrow> po_id p = i \<Longrightarrow> po_number_of p = n"
    and "or_str (po_number iv) [] \<noteq> n"
  shows "findings st pm' iv = findings st pm iv"
proof -
  have "match_invoice_to_po pm' iv tol ins = match_invoice_to_po pm iv tol ins" for tol ins
  proof (rule match_receipts_cong [OF assms(1,2)])
    fix p
    assume "found_po pm iv = Some p"
    from found_poD(1,2) [OF this] have "po_id p \<noteq> i"
      using assms(4,5) by metis
    then show "receipts_of pm' iv p = receipts_of pm iv p"
      by (rule assms(3))
  qed
  then show ?thesis
    by (simp add: findings_def match_invoice_under_org_rules_def)
qed

definition tables_ok :: "match_state \<Rightarrow> bool" where
  "tables_ok s = (distinct (map po_id (pm_pos (ms_pm s))) \<and> distinct (map gr_id (pm_receipts (ms_pm s))) \<and>
     distinct (map inv_id (ms_invoices s)))"

definition all_held :: "org_settings \<Rightarrow> uid set \<Rightarrow> match_state \<Rightarrow> bool" where
  "all_held st cleared_by s = (\<forall>iv \<in> set (ms_invoices s). inv_id iv \<notin> cleared_by \<longrightarrow>
     held (ms_holds s) (inv_id iv) (findings st (ms_pm s) iv))"

text \<open>A change of the receipts of one order, followed by the re-match of its number.\<close>

lemma receipts_changed:
  assumes ok: "tables_ok s" and h: "all_held st C s" and e: "re_settings e = st" and n: "n \<noteq> []"
    and pm: "pm_pos pm' = pm_pos (ms_pm s)" "pm_inspections pm' = pm_inspections (ms_pm s)"
      "distinct (map gr_id (pm_receipts pm'))"
    and elsewhere: "\<And>iv p. po_id p \<noteq> i \<Longrightarrow> receipts_of pm' iv p = receipts_of (ms_pm s) iv p"
    and number: "\<And>p. p \<in> set (pm_pos (ms_pm s)) \<Longrightarrow> po_id p = i \<Longrightarrow> po_number_of p = n"
    and r: "rematch e n (s\<lparr>ms_pm := pm', ms_fx := fx\<rparr>) = Inr s'"
  shows "tables_ok s' \<and> all_held st C s'"
proof -
  let ?s = "s\<lparr>ms_pm := pm', ms_fx := fx\<rparr>"
  have d: "distinct (map inv_id (ms_invoices ?s))"
    using ok by (simp add: tables_ok_def)
  note left = rematch_leaves [OF d r n]
  have ids: "map inv_id (ms_invoices s') = map inv_id (ms_invoices s)"
    using left(2) same_invoice_reads by (simp add: list_all2_conv_all_nth list_eq_iff_nth_eq)
  have "all_held st C s'"
    unfolding all_held_def
  proof (intro ballI impI)
    fix iv'
    assume iv': "iv' \<in> set (ms_invoices s')" "inv_id iv' \<notin> C"
    then obtain k where k: "k < length (ms_invoices s')" "iv' = ms_invoices s' ! k"
      by (auto simp: in_set_conv_nth)
    define iv where "iv = ms_invoices s ! k"
    have iv: "iv \<in> set (ms_invoices s)" "same_invoice iv iv'"
      using k list_all2_lengthD [OF left(2)] list_all2_nthD2 [OF left(2), of k] by (simp_all add: iv_def)
    have same: "inv_id iv' = inv_id iv" "findings st (ms_pm s') iv' = findings st pm' iv"
      using same_invoice_reads [OF iv(2)] left(1) by simp_all
    show "held (ms_holds s') (inv_id iv') (findings st (ms_pm s') iv')"
    proof (cases "or_str (po_number iv) [] = n")
      case True
      then show ?thesis
        using left(3) iv(1) e same by simp
    next
      case False
      have "findings st pm' iv = findings st (ms_pm s) iv"
        using evidence_elsewhere [OF pm(1,2) elsewhere number False] .
      moreover have "held (ms_holds s) (inv_id iv) (findings st (ms_pm s) iv)"
        using h iv(1) iv'(2) same(1) by (simp add: all_held_def)
      ultimately show ?thesis
        using left(4) iv(1) False same by simp
    qed
  qed
  moreover have "tables_ok s'"
    using ok pm left(1) ids by (simp add: tables_ok_def)
  ultimately show ?thesis
    by simp
qed

text \<open>What recording and cancelling a receipt do to the tables.\<close>

lemma create_InrE:
  assumes "create_goods_receipt e i actor ent rq s = Inr (g, created, s')"
  obtains (replayed) "\<not> created" "s' = s" "g \<in> set (pm_receipts (ms_pm s))"
  | (booked) p number paired fx where "created" and "p \<in> set (pm_pos (ms_pm s))" and "po_id p = rq_po rq"
      and "in_entity ent (po_entity_id p)" and "validate_lines (rq_lines rq) (po_lines p) = Inr paired"
      and "g = new_receipt i (re_now e) actor rq p number paired"
      and "or_str (rq_key rq) [] = [] \<or> by_idempotency_key (pm_receipts (ms_pm s)) (or_str (rq_key rq) []) = None"
      and "rematch e (po_number_of p)
        (s\<lparr>ms_pm := (ms_pm s)\<lparr>pm_receipts := pm_receipts (ms_pm s) @ [g]\<rparr>, ms_fx := fx\<rparr>) = Inr s'"
proof -
  obtain p where p: "lock_po (ms_pm s) (rq_po rq) ent = Inr p"
    using assms by (auto simp: create_goods_receipt_def elim!: bind_res_InrE)
  then have find: "List.find (\<lambda>p. po_id p = rq_po rq \<and> in_entity ent (po_entity_id p)) (pm_pos (ms_pm s)) = Some p"
    by (auto simp: lock_po_def split: option.splits)
  note found = find_SomeD [OF find]
  let ?ex = "if or_str (rq_key rq) [] = [] then None
    else by_idempotency_key (pm_receipts (ms_pm s)) (or_str (rq_key rq) [])"
  show thesis
  proof (cases ?ex)
    case (Some g0)
    then have "bind_res (replay g0 (po_id p) (rq_date rq) (rq_lines rq)) (\<lambda>g. Inr (g, False, s)) = Inr (g, created, s')"
      using assms p by (simp add: create_goods_receipt_def Let_def split: if_splits)
    moreover have "g0 \<in> set (pm_receipts (ms_pm s))"
      using Some find_SomeD by (fastforce simp: by_idempotency_key_def split: if_splits)
    ultimately show thesis
      by (intro replayed) (auto simp: replay_def elim!: bind_res_InrE split: if_splits)
  next
    case None
    with assms p found that(2) show thesis
      by (auto simp: create_goods_receipt_def Let_def elim!: bind_res_InrE split: if_splits)
  qed
qed

lemma put_receipt_ids [simp]: "map gr_id (pm_receipts (put_receipt g pm)) = map gr_id (pm_receipts pm)"
  by (simp add: put_receipt_def)

lemma put_receipt_elsewhere:
  assumes "g \<in> set (pm_receipts pm)" and "distinct (map gr_id (pm_receipts pm))"
    and "gr_id g' = gr_id g" and "gr_po_id g' = gr_po_id g" and "po_id p \<noteq> gr_po_id g"
  shows "receipts_of (put_receipt g' pm) iv p = receipts_of pm iv p"
proof -
  have "gr_po_id x \<noteq> po_id p" if "x \<in> set (pm_receipts pm)" "gr_id x = gr_id g" for x
    using that assms(1,2,5) by (metis distinct_map inj_onD)
  then have flt: "filter P (map (\<lambda>x. if gr_id x = gr_id g' then g' else x) xs) = filter P xs"
    if "set xs \<subseteq> set (pm_receipts pm)" "\<And>x. P x \<Longrightarrow> gr_po_id x = po_id p" for P xs
    using that assms(3-5) by (induction xs) auto
  have "pm_receipts (put_receipt g' pm) = map (\<lambda>x. if gr_id x = gr_id g' then g' else x) (pm_receipts pm)"
    by (simp add: put_receipt_def)
  then show ?thesis
    unfolding receipts_of_def by (simp only:) (rule flt; simp)
qed

lemma cancel_InrE:
  assumes "cancel_goods_receipt e actor ent i s = Inr (g', s')"
  obtains g fx n where "g \<in> set (pm_receipts (ms_pm s))" and "gr_id g = i" and "gr_source g = Some ''manual''"
    and "g' = g\<lparr>gr_status := Some gr_status_cancelled\<rparr>"
    and "n = or_str (map_option po_number_of (List.find (\<lambda>p. po_id p = gr_po_id g) (pm_pos (ms_pm s)))) []"
    and "if n = [] then s' = s\<lparr>ms_pm := put_receipt g' (ms_pm s), ms_fx := fx\<rparr>
      else rematch e n (s\<lparr>ms_pm := put_receipt g' (ms_pm s), ms_fx := fx\<rparr>) = Inr s'"
proof -
  obtain g where f: "List.find (\<lambda>g. gr_id g = i \<and> in_entity ent (gr_entity_id g)) (pm_receipts (ms_pm s)) = Some g"
    using assms by (auto simp: cancel_goods_receipt_def split: option.splits)
  note find_SomeD [OF f]
  moreover have "gr_source g = Some gr_source_manual"
      "\<not> py_lower (py_strip (or_str (gr_status g) [])) \<in> set cancelled_gr_statuses"
    using assms f by (auto simp: cancel_goods_receipt_def split: if_splits)
  moreover define n where "n = or_str (map_option po_number_of (List.find (\<lambda>p. po_id p = gr_po_id g) (pm_pos (ms_pm s)))) []"
  ultimately show thesis
    using assms f
    by (intro that [where g = g and n = n and fx = "receipt_audit ''goods_receipt.cancelled'' actor
          (g\<lparr>gr_status := Some gr_status_cancelled\<rparr>) [(''po_number'', if n = [] then PNone else PStr n),
            (''old_status'', case gr_status g of None \<Rightarrow> PNone | Some t \<Rightarrow> PStr t),
            (''new_status'', PStr gr_status_cancelled)] (ms_fx s)"])
       (auto simp: cancel_goods_receipt_def Let_def gr_source_manual_def n_def elim!: bind_res_InrE split: if_splits)
qed

section \<open>Histories\<close>

text \<open>
  From any tables with no invoice: an invoice is saved (created or edited in any way), a receipt
  recorded or cancelled, a row decided by a person or an agent. The last component collects the
  invoices a decision was taken on. The settings do not change.
\<close>

inductive procurement_history :: "org_settings \<Rightarrow> match_state \<Rightarrow> uid set \<Rightarrow> bool" for st where
  opened: "distinct (map po_id (pm_pos pm)) \<Longrightarrow> distinct (map gr_id (pm_receipts pm)) \<Longrightarrow>
    procurement_history st \<lparr>ms_pm = pm, ms_invoices = [], ms_holds = [], ms_fx = fx\<rparr> {}"
| saved: "procurement_history st s C \<Longrightarrow> re_settings e = st \<Longrightarrow>
    refresh_invoice_match e (ms_pm s) iv (ms_holds s) (ms_fx s) = Inr (iv', ws, hs, fx) \<Longrightarrow>
    procurement_history st
      (s\<lparr>ms_invoices := filter (\<lambda>x. inv_id x \<noteq> inv_id iv) (ms_invoices s) @ [iv'], ms_holds := hs, ms_fx := fx\<rparr>) C"
| recorded: "procurement_history st s C \<Longrightarrow> re_settings e = st \<Longrightarrow> i \<notin> gr_id ` set (pm_receipts (ms_pm s)) \<Longrightarrow>
    po_number_of p \<noteq> [] \<Longrightarrow> p \<in> set (pm_pos (ms_pm s)) \<Longrightarrow> po_id p = rq_po rq \<Longrightarrow>
    create_goods_receipt e i actor ent rq s = Inr (g, created, s') \<Longrightarrow> procurement_history st s' C"
| withdrawn: "procurement_history st s C \<Longrightarrow> re_settings e = st \<Longrightarrow>
    cancel_goods_receipt e actor ent i s = Inr (g, s') \<Longrightarrow> procurement_history st s' C"
| decided: "procurement_history st s C \<Longrightarrow> ms_holds s = xs @ h # ys \<Longrightarrow>
    record_decision fp ivs (h_row h) act res a name given via c now fx = Inr (row, fx') \<Longrightarrow>
    procurement_history st (s\<lparr>ms_holds := xs @ h\<lparr>h_row := row\<rparr> # ys, ms_fx := fx'\<rparr>)
      (C \<union> set_option (ex_invoice_id (h_row h)))"

lemma history_held:
  assumes "procurement_history st s C"
  shows "tables_ok s \<and> all_held st C s"
  using assms
proof induction
  case (opened pm fx)
  then show ?case
    by (simp add: tables_ok_def all_held_def)
next
  case (saved s C e iv iv' ws hs fx)
  let ?others = "filter (\<lambda>x. inv_id x \<noteq> inv_id iv) (ms_invoices s)"
  obtain iv2 ws2 hs2 fx2 where 2: "refresh_invoice_match e (ms_pm s) iv (ms_holds s) (ms_fx s) = Inr (iv2, ws2, hs2, fx2)"
      "same_invoice iv iv2" "held hs2 (inv_id iv) (findings (re_settings e) (ms_pm s) iv)"
      "\<forall>i ts. i \<noteq> inv_id iv \<and> held (ms_holds s) i ts \<longrightarrow> held hs2 i ts"
    by (rule refresh_leaves [of e "ms_pm s" iv "ms_holds s" "ms_fx s"])
  with saved.hyps(3) have eq: "iv2 = iv'" "hs2 = hs"
    by simp_all
  have id: "inv_id iv' = inv_id iv" "findings st (ms_pm s) iv' = findings st (ms_pm s) iv"
    using same_invoice_reads [OF 2(2)] eq by simp_all
  have "distinct (map inv_id (?others @ [iv']))"
    using saved.IH id by (auto simp: tables_ok_def distinct_map_filter)
  then show ?case
    using saved.IH saved.hyps(2) 2(3,4) eq id by (auto simp: tables_ok_def all_held_def)
next
  case (recorded s C e i p rq actor ent g created s')
  from recorded.hyps(7) show ?case
  proof (cases rule: create_InrE)
    case replayed
    then show ?thesis
      using recorded.IH by simp
  next
    case (booked q number paired fx)
    have q: "q = p"
      using booked(2,3) recorded.hyps(5,6) recorded.IH unfolding tables_ok_def distinct_map by (metis inj_onD)
    have po: "gr_po_id g = po_id p" "gr_id g = i"
      using booked(6) by (simp_all add: new_receipt_def q)
    show ?thesis
    proof (rule receipts_changed [where pm' = "(ms_pm s)\<lparr>pm_receipts := pm_receipts (ms_pm s) @ [g]\<rparr>"
          and i = "po_id p" and n = "po_number_of p" and fx = fx and e = e])
      show "rematch e (po_number_of p) (s\<lparr>ms_pm := (ms_pm s)\<lparr>pm_receipts := pm_receipts (ms_pm s) @ [g]\<rparr>, ms_fx := fx\<rparr>) =
          Inr s'"
        using booked(8) q by simp
      show "po_number_of r = po_number_of p" if "r \<in> set (pm_pos (ms_pm s))" "po_id r = po_id p" for r
        using that recorded.hyps(5) recorded.IH unfolding tables_ok_def distinct_map by (metis inj_onD)
    qed (use recorded po in \<open>auto simp: tables_ok_def receipts_of_def\<close>)
  qed
next
  case (withdrawn s C e actor ent i g s')
  from withdrawn.hyps(3) obtain g0 fx n where c: "g0 \<in> set (pm_receipts (ms_pm s))" "gr_id g0 = i"
      "g = g0\<lparr>gr_status := Some gr_status_cancelled\<rparr>"
      "n = or_str (map_option po_number_of (List.find (\<lambda>p. po_id p = gr_po_id g0) (pm_pos (ms_pm s)))) []"
      "if n = [] then s' = s\<lparr>ms_pm := put_receipt g (ms_pm s), ms_fx := fx\<rparr>
       else rematch e n (s\<lparr>ms_pm := put_receipt g (ms_pm s), ms_fx := fx\<rparr>) = Inr s'"
    by (elim cancel_InrE)
  have number: "po_number_of p = n" if "p \<in> set (pm_pos (ms_pm s))" "po_id p = gr_po_id g0" for p
    using find_distinct [OF that(1), of po_id] that(2) withdrawn.IH c(4) by (auto simp: tables_ok_def or_str_def)
  have elsewhere: "receipts_of (put_receipt g (ms_pm s)) iv p = receipts_of (ms_pm s) iv p"
    if "po_id p \<noteq> gr_po_id g0" for iv p
    using put_receipt_elsewhere [OF c(1) _ _ _ that] withdrawn.IH c(3) by (simp add: tables_ok_def)
  have frame: "pm_pos (put_receipt g (ms_pm s)) = pm_pos (ms_pm s)"
      "pm_inspections (put_receipt g (ms_pm s)) = pm_inspections (ms_pm s)"
    by (simp_all add: put_receipt_def)
  show ?case
  proof (cases "n = []")
    case True
    have "findings st (put_receipt g (ms_pm s)) iv = findings st (ms_pm s) iv" for iv
    proof (cases "checked iv")
      case True
      then show ?thesis
        using evidence_elsewhere [OF frame elsewhere number] \<open>n = []\<close> by (simp add: checked_def)
    qed (simp add: findings_def)
    with True c(5) withdrawn.IH frame show ?thesis
      by (simp add: tables_ok_def all_held_def)
  next
    case False
    show ?thesis
    proof (rule receipts_changed [where pm' = "put_receipt g (ms_pm s)" and i = "gr_po_id g0" and n = n and fx = fx and e = e])
      show "rematch e n (s\<lparr>ms_pm := put_receipt g (ms_pm s), ms_fx := fx\<rparr>) = Inr s'"
        using c(5) False by simp
    qed (use withdrawn frame False number elsewhere in \<open>auto simp: tables_ok_def\<close>)
  qed
next
  case (decided s C xs h ys fp ivs act res a name given via c now fx row fx')
  have "held (xs @ h\<lparr>h_row := row\<rparr> # ys) i ts" if "held (ms_holds s) i ts" "ex_invoice_id (h_row h) \<noteq> Some i" for i ts
    using that decided.hyps(2) by (fastforce simp: held_def open_row_def)
  then show ?case
    using decided.IH by (auto simp: tables_ok_def all_held_def)
qed

end
