(* ===== verification/PoOutcomes.thy ===== *)
theory PoOutcomes
  imports PoHistory ReviewProofs
begin

text \<open>
  The properties of the purchase-order match, its holds and the receipts, each with a concrete
  order that is received and billed.
\<close>

section \<open>Sample order\<close>

definition sample_po :: po_row where
  "sample_po = \<lparr>po_id = ''po1'', po_number_of = ''PO-1'', po_entity_id = None, po_vendor_id = Some ''v-1'',
     po_total_of = 1000, po_currency_of = Some ''USD'', po_status_of = ''open'', po_unverifiable = None, po_created = 1,
     po_lines = [\<lparr>pol_id = ''l1'', pol_quantity = Some 10, pol_description = None, pol_catalog_item = None,
       pol_sku = None\<rparr>]\<rparr>"

definition sample_receipt :: "uid \<Rightarrow> stamp \<Rightarrow> string option \<Rightarrow> uid option \<Rightarrow> rat \<Rightarrow> gr_row" where
  "sample_receipt i t src by q = \<lparr>gr_po_id = ''po1'', gr_entity_id = None, gr_recorded_by = by, gr_source = src,
     gr_status = Some ''received'', gr_id = i, gr_number = i, gr_received_date = None, gr_created = t, gr_key = None,
     gr_lines = [\<lparr>grl_po_line = Some ''l1'', grl_quantity = Some q, grl_description = None, grl_catalog_item = None,
       grl_sku = None\<rparr>]\<rparr>"

definition sample_bill :: invoice where
  "sample_bill = sample_invoice\<lparr>inv_status := Approved, amount := 1000, po_number := Some ''PO-1''\<rparr>"

definition sample_refresh :: refresh_env where
  "sample_refresh = \<lparr>re_now = 5, re_today_iso = ''2026-01-07'', re_fresh = (\<lambda>i t. i @ ''-'' @ t), re_settings = Some [],
     re_sync = None, re_deciding = {}, re_env = sample_env empty_approval_config, re_instance = (\<lambda>_. None),
     re_fingerprint = (\<lambda>_ _. ''fp''), re_render = (\<lambda>_. PNone)\<rparr>"

definition sample_hold :: "string \<Rightarrow> hold" where
  "sample_hold t = \<lparr>h_row = \<lparr>ex_id = ''x1'', ex_invoice_id = Some ''inv-1'', ex_type = t, ex_status = ''open'',
       ex_severity = ''warning'', ex_raised_by = None, ex_created_at = Some 1, ex_resolution = None, ex_resolved_by = None,
       ex_resolved_at = None, ex_seconds_to_resolution = None, ex_description_code = Some ''po_partial_receipt'',
       ex_fingerprint = None, ex_erp_kind = None\<rparr>,
     h_po = Some ''PO-1'', h_report = []\<rparr>"

definition received_pm :: procurement where
  "received_pm = \<lparr>pm_pos = [sample_po], pm_receipts = [sample_receipt ''g1'' 2 (Some ''manual'') (Some ''u-dock'') 10],
     pm_inspections = []\<rparr>"

definition sample_queue :: "exception_row list \<Rightarrow> tables" where
  "sample_queue es = \<lparr>tb_invoices = [], tb_exceptions = es, tb_vendors = [], tb_memos = [], tb_cards = [], tb_offers = [],
     tb_payments = [], tb_runs = []\<rparr>"

section \<open>Cancelling a receipt can lift a quality hold\<close>

text \<open>
  Ten units arrived twice; the second delivery, keyed by the invoice's own uploader, failed
  inspection and holds the invoice. Cancelling that receipt makes the first one the receipt whose
  inspection is read: there is none, and the hold is closed without anyone deciding it.
\<close>

definition failed_delivery :: match_state where
  "failed_delivery = \<lparr>ms_pm = \<lparr>pm_pos = [sample_po],
       pm_receipts = [sample_receipt ''g1'' 2 None None 10, sample_receipt ''g2'' 3 (Some ''manual'') (Some ''u-clerk'') 10],
       pm_inspections = [\<lparr>qi_id = ''q1'', qi_po_id = None, qi_gr_id = Some ''g2'', qi_result = ''fail'', qi_accepted = None,
         qi_notes = None, qi_source = Some ''qms'', qi_recorded_by = None, qi_created = 4\<rparr>]\<rparr>,
     ms_invoices = [sample_bill], ms_holds = [sample_hold ''quality_hold''], ms_fx = no_effects\<rparr>"

lemma cancel_lifts_quality_hold:
  "findings (Some []) (ms_pm failed_delivery) sample_bill = {''quality_hold''}"
  "''u-clerk'' \<in> implicated_actors sample_bill"
  "\<exists>g s. cancel_goods_receipt sample_refresh ''u-clerk'' None ''g2'' failed_delivery = Inr (g, s) \<and>
     map (ex_status \<circ> h_row) (ms_holds s) = [''resolved'']"
proof -
  show "findings (Some []) (ms_pm failed_delivery) sample_bill = {''quality_hold''}"
    by code_simp
  show "''u-clerk'' \<in> implicated_actors sample_bill"
    by (simp add: implicated_actors_def sample_bill_def sample_invoice_def)
  have "bind_res (cancel_goods_receipt sample_refresh ''u-clerk'' None ''g2'' failed_delivery)
      (\<lambda>(_, s). Inr (map (ex_status \<circ> h_row) (ms_holds s))) = Inr [''resolved'']"
    by code_simp
  then show "\<exists>g s. cancel_goods_receipt sample_refresh ''u-clerk'' None ''g2'' failed_delivery = Inr (g, s) \<and>
     map (ex_status \<circ> h_row) (ms_holds s) = [''resolved'']"
    by (auto elim!: bind_res_InrE)
qed

text \<open>
  The total of an order that is both called off and no longer vouched for stays in the result,
  though the total of a live order that is not vouched for is withheld.
\<close>

lemma cancelled_keeps_unvouched_total:
  "or_str (po_unverifiable p) [] \<noteq> [] \<Longrightarrow>
     ma_po_total (first_leg tol iv p) =
       (if po_status_of p \<in> set cancelled_po_statuses then Some (po_total_of p) else None)"
  by (auto simp: leg_defs or_str_empty)

section \<open>Recording twice\<close>

lemma pair_lines_InrD:
  "pair_lines pls seen ls = Inr ps \<Longrightarrow> map snd ps = ls \<and> (\<forall>(q, l) \<in> set ps. map_option pol_id q = ri_po_line l)"
proof (induction pls seen ls arbitrary: ps rule: pair_lines.induct)
  case (2 pls seen l ls)
  then show ?case
    by (fastforce elim!: bind_res_InrE dest: find_SomeD split: if_splits option.splits)
qed simp

lemma stored_as_sent:
  assumes "validate_lines (rq_lines rq) pls = Inr paired"
  shows "stored_lines (new_receipt i now actor rq p number paired) = sent_lines (rq_lines rq)"
proof -
  from assms have p: "map snd paired = rq_lines rq" "\<forall>(q, l) \<in> set paired. map_option pol_id q = ri_po_line l"
    using pair_lines_InrD by (fastforce simp: validate_lines_def elim!: bind_res_InrE split: if_splits)+
  have "map (\<lambda>l. (or_str (grl_po_line l) [], quantity_of (grl_quantity l))) (map stored_line paired) =
      map (\<lambda>l. (or_str (ri_po_line l) [], ri_quantity l)) (map snd paired)"
    using p(2) by (auto simp: stored_line_def quantity_of_def)
  then show ?thesis
    by (simp add: stored_lines_def sent_lines_def new_receipt_def p(1) del: map_map)
qed

lemma rematch_keeps_tables: "rematch e n s = Inr s' \<Longrightarrow> ms_pm s' = ms_pm s"
  by (auto simp: rematch_def refresh_invoices_citing_pos_def elim!: bind_res_InrE split: sum.splits)

lemma find_append_None: "List.find P xs = None \<Longrightarrow> List.find P (xs @ ys) = List.find P ys"
  by (induction xs) (auto split: if_splits)

section \<open>Properties\<close>

text \<open>
  Property C33. An invoice reads \<open>matched\<close> exactly when the order it cites stands behind it: an order of
  its number, entity and vendor, not called off, with a total the ERP vouches for and no other
  currency known; the amount within the tolerance percentage of the total, computed exactly;
  nothing the receipts show as missing; and no failing or partial inspection.
\<close>

theorem matched_iff_order_supports:
  assumes "money_col (amount iv)" and "\<forall>p \<in> set (pm_pos pm). money_col (po_total_of p)"
    and "has_scale 4 tol" and "tol < 10 ^ 9"
  shows "ma_status (match_invoice_to_po pm iv tol ins) = ''matched'' \<longleftrightarrow>
    or_str (po_number iv) [] \<noteq> [] \<and> (\<exists>p \<in> set (pm_pos pm). found_po pm iv = Some p \<and>
      po_number_of p = or_str (po_number iv) [] \<and> (entity_id iv = None \<or> po_entity_id p = entity_id iv) \<and>
      (vendor_id iv = None \<or> po_vendor_id p = vendor_id iv) \<and>
      po_status_of p \<notin> {''cancelled'', ''voided''} \<and> or_str (po_unverifiable p) [] = [] \<and>
      compare_currencies (po_currency_code (currency iv)) (po_currency_code (po_currency_of p)) \<noteq> ''different'' \<and>
      (if 0 < po_total_of p then \<bar>amount iv - po_total_of p\<bar> * 100 \<le> tol * po_total_of p
       else (if 0 < amount iv then 100 else 0) \<le> tol) \<and>
      \<not> short_receipt pm iv p \<and> verdict pm iv p \<notin> {Some ''fail'', Some ''partial''})"
proof (cases "or_str (po_number iv) [] \<noteq> [] \<and> found_po pm iv \<noteq> None")
  case True
  then obtain p where p: "or_str (po_number iv) [] \<noteq> []" "found_po pm iv = Some p"
    by auto
  note facts = found_poD [OF p(2)]
  have "\<bar>amount_variance_pct (amount iv) (po_total_of p)\<bar> \<le> tol \<longleftrightarrow>
      (if 0 < po_total_of p then \<bar>amount iv - po_total_of p\<bar> * 100 \<le> tol * po_total_of p
       else (if 0 < amount iv then 100 else 0) \<le> tol)"
    using amount_gate_exact [OF assms(1) _ _ assms(3,4)] assms(2) facts(1) by (simp add: amount_variance_pct_def)
  then show ?thesis
    using facts p
    by (auto simp: match_status [OF p] refused_po_def cancelled_po_statuses_def currency_different_def)
next
  case False
  then show ?thesis
    by (auto simp: match_unfold no_match_def)
qed

theorem matched_iff_order_supports_witness:
  "ma_status (match_invoice_to_po received_pm sample_bill 5 False) = ''matched''"
proof -
  have tot: "money_col 1000"
    by code_simp
  then have m: "money_col (amount sample_bill)" "\<forall>p \<in> set (pm_pos received_pm). money_col (po_total_of p)"
    by (simp_all add: sample_bill_def received_pm_def sample_po_def)
  have t: "has_scale 4 5" "(5 :: rat) < 10 ^ 9"
    by (simp_all add: has_scale_def)
  have f: "found_po received_pm sample_bill = Some sample_po" "\<not> short_receipt received_pm sample_bill sample_po"
      "verdict received_pm sample_bill sample_po = None" "or_str (po_number sample_bill) [] = ''PO-1''"
      "compare_currencies (po_currency_code (currency sample_bill)) (po_currency_code (po_currency_of sample_po)) = ''same''"
    by code_simp+
  show ?thesis
    unfolding matched_iff_order_supports [OF m t]
    using f by (simp add: received_pm_def sample_po_def sample_bill_def sample_invoice_def or_str_def)
qed

text \<open>
  Property C34. Over every history of invoices saved, receipts recorded and cancelled and rows decided, in
  any order, an invoice with a payment-blocking finding (no such order, order called off or
  unverifiable, another currency, billed above the order or above what arrived, rejected goods or
  a missing inspection) is refused by every payment run, unless a decision was taken on a row of it.
\<close>

theorem findings_keep_invoice_unpaid:
  assumes "procurement_history st s C" and "iv \<in> set (ms_invoices s)" and "inv_id iv \<notin> C"
    and "or_str (po_number iv) [] \<noteq> []" and "inv_status iv \<noteq> New"
    and "blocking_finding_types (match_invoice_under_org_rules (ms_pm s) iv st) \<noteq> {}"
    and "tb_exceptions tb = map h_row (ms_holds s)"
  shows "run_refusal_reason tb iv m \<noteq> None"
proof -
  have "held (ms_holds s) (inv_id iv) (findings st (ms_pm s) iv)"
    using history_held [OF assms(1)] assms(2,3) unfolding all_held_def by blast
  moreover have "findings st (ms_pm s) iv = blocking_finding_types (match_invoice_under_org_rules (ms_pm s) iv st)"
    using assms(4,5) by (simp add: findings_def checked_def)
  ultimately have "held (ms_holds s) (inv_id iv) (blocking_finding_types (match_invoice_under_org_rules (ms_pm s) iv st))"
    by simp
  moreover obtain t where t: "t \<in> blocking_finding_types (match_invoice_under_org_rules (ms_pm s) iv st)"
    using assms(6) by blast
  ultimately obtain h where "h \<in> set (ms_holds s)" "open_row (inv_id iv) t h"
    by (auto simp: held_def)
  then have "live_of_type (tb_exceptions tb) (inv_id iv) t"
    using assms(7) by (auto simp: live_of_type_def list_ex_iff open_row_def actionable_statuses_def)
  moreover have "t \<in> set payment_blocking_exception_types"
    using t by (auto simp: blocking_parts payment_blocking_exception_types_def split: if_splits)
  ultimately show ?thesis
    by (rule live_of_type_refuses)
qed

theorem findings_keep_invoice_unpaid_witness:
  "\<exists>s iv. procurement_history (Some []) s {} \<and> iv \<in> set (ms_invoices s) \<and> amount iv = 1200 \<and>
     run_refusal_reason (sample_queue (map h_row (ms_holds s))) iv None \<noteq> None"
proof -
  let ?pm = "received_pm" and ?iv = "sample_bill\<lparr>amount := 1200\<rparr>"
  have h0: "procurement_history (Some []) \<lparr>ms_pm = ?pm, ms_invoices = [], ms_holds = [], ms_fx = no_effects\<rparr> {}"
    by (rule opened) (simp_all add: received_pm_def)
  obtain iv' ws hs fx where r: "refresh_invoice_match sample_refresh ?pm ?iv [] no_effects = Inr (iv', ws, hs, fx)"
      "same_invoice ?iv iv'"
    by (rule refresh_leaves [of sample_refresh ?pm ?iv "[]" no_effects])
  let ?s = "\<lparr>ms_pm = ?pm, ms_invoices = [iv'], ms_holds = hs, ms_fx = fx\<rparr>"
  have h: "procurement_history (Some []) ?s {}"
    using saved [OF h0, of sample_refresh ?iv iv' ws hs fx] r(1) by (simp add: sample_refresh_def)
  have f: "or_str (po_number ?iv) [] \<noteq> []" "found_po ?pm ?iv = Some sample_po" "money_col 1200" "money_col 1000"
      "resolve_match_rule (Some []) (vendor_id ?iv) (gl_account ?iv) =
        \<lparr>mr_require_inspection = False, mr_tolerance_pct = 5, mr_source = ''default''\<rparr>"
    by code_simp+
  have "5 < \<bar>amount_variance_pct 1200 1000\<bar>"
    using amount_gate_exact [OF f(3,4), of 5] by (simp add: has_scale_def not_le)
  moreover have "0 < dsub 1200 1000"
    using dsub_money [OF f(3,4)] by simp
  ultimately have "''po_mismatch'' \<in> blocking_finding_types (match_invoice_under_org_rules ?pm ?iv (Some []))"
    using f(5) blocking_iff(1) [OF f(1,2), of 5 False]
    by (simp add: match_invoice_under_org_rules_def sample_po_def)
  then have "blocking_finding_types (match_invoice_under_org_rules ?pm iv' (Some [])) \<noteq> {}"
    using r(2) by (auto simp: same_invoice_def)
  moreover have "or_str (po_number iv') [] \<noteq> []" "inv_status iv' \<noteq> New" "amount iv' = 1200"
    using r(2) by (auto simp: same_invoice_def sample_bill_def or_str_def)
  ultimately have "run_refusal_reason (sample_queue (map h_row (ms_holds ?s))) iv' None \<noteq> None"
    by (intro findings_keep_invoice_unpaid [OF h]) (simp_all add: sample_queue_def)
  with h \<open>amount iv' = 1200\<close> show ?thesis
    by (intro exI [of _ ?s] exI [of _ iv']) simp
qed



text \<open>
  Property C36. Recording a delivery with a key books it once: the receipt names its recorder and is
  appended, and the same request sent again, by anyone and however often, answers the receipt already
  booked and changes nothing.
\<close>

theorem receipt_booked_once:
  assumes "create_goods_receipt e i actor ent rq s = Inr (g, True, s')" and "or_str (rq_key rq) [] \<noteq> []"
  shows "gr_recorded_by g = Some actor \<and> gr_source g = Some ''manual'' \<and>
    pm_receipts (ms_pm s') = pm_receipts (ms_pm s) @ [g] \<and>
    create_goods_receipt e2 i2 actor2 ent rq s' = Inr (g, False, s')"
  using assms(1)
proof (cases rule: create_InrE)
  case (booked p number paired fx)
  have pm: "ms_pm s' = (ms_pm s)\<lparr>pm_receipts := pm_receipts (ms_pm s) @ [g]\<rparr>"
    using rematch_keeps_tables [OF booked(8)] by simp
  obtain q where q: "lock_po (ms_pm s) (rq_po rq) ent = Inr q"
    using assms(1) by (auto simp: create_goods_receipt_def elim!: bind_res_InrE)
  then have q': "lock_po (ms_pm s') (rq_po rq) ent = Inr q" "po_id q = rq_po rq"
    using find_SomeD by (fastforce simp: lock_po_def pm split: option.splits)+
  have "List.find (\<lambda>x. gr_key x = Some (or_str (rq_key rq) [])) (pm_receipts (ms_pm s) @ [g]) = Some g"
    using booked(6,7) assms(2)
    by (subst find_append_None) (auto simp: by_idempotency_key_def new_receipt_def or_str_def split: option.splits)
  then have "by_idempotency_key (pm_receipts (ms_pm s')) (or_str (rq_key rq) []) = Some g"
    by (simp add: by_idempotency_key_def pm)
  moreover have "stored_lines g = sent_lines (rq_lines rq)"
    unfolding booked(6) by (rule stored_as_sent [OF booked(5)])
  then have "replay g (po_id q) (rq_date rq) (rq_lines rq) = Inr g"
    using booked(3,6) q'(2) by (simp add: replay_def new_receipt_def)
  ultimately have "create_goods_receipt e2 i2 actor2 ent rq s' = Inr (g, False, s')"
    using q'(1) assms(2) by (simp add: create_goods_receipt_def Let_def)
  then show ?thesis
    using booked(6) pm by (simp add: new_receipt_def gr_source_manual_def)
qed simp

definition sample_request :: receipt_request where
  "sample_request = \<lparr>rq_po = ''po1'', rq_date = 7, rq_number = Some ''DN-1'',
     rq_lines = [\<lparr>ri_po_line = Some ''l1'', ri_description = None, ri_quantity = 4\<rparr>], rq_key = Some ''k1''\<rparr>"

definition sample_dock :: match_state where
  "sample_dock = \<lparr>ms_pm = received_pm, ms_invoices = [], ms_holds = [], ms_fx = no_effects\<rparr>"

theorem receipt_booked_once_witness:
  "\<exists>g s'. create_goods_receipt sample_refresh ''g9'' ''u-dock'' None sample_request sample_dock = Inr (g, True, s') \<and>
     create_goods_receipt sample_refresh ''g10'' ''u-other'' None sample_request s' = Inr (g, False, s')"
proof -
  have "bind_res (create_goods_receipt sample_refresh ''g9'' ''u-dock'' None sample_request sample_dock)
      (\<lambda>(_, created, _). Inr created) = Inr True"
    by code_simp
  then obtain g s' where r: "create_goods_receipt sample_refresh ''g9'' ''u-dock'' None sample_request sample_dock =
      Inr (g, True, s')"
    by (auto elim!: bind_res_InrE)
  have "or_str (rq_key sample_request) [] \<noteq> []"
    by code_simp
  with r show ?thesis
    using receipt_booked_once [OF r] by blast
qed

end
