(* ===== verification/CsvText.thy ===== *)
theory CsvText
  imports PyDecimal Calendar
begin

text \<open>
  Reading an uploaded text: Python's \<open>csv.reader\<close> in its default dialect over the lines of a
  string, dates as banks print them (\<open>utils/dates.py\<close> and the \<open>strptime\<close> formats it uses), and
  the ordinal of a date.
\<close>

section \<open>\<open>csv.reader\<close>\<close>

datatype csv_state = StartRecord | StartField | InField | InQuoted | QuoteInQuoted | EatNewline

text \<open>
  The state, the characters of the field and the fields of the record so far, both newest
  first. Outside quotes a line break ends the record; another character after a lone carriage
  return is \<open>csv.Error\<close>, here \<open>None\<close>.
\<close>

type_synonym csv_buffer = "csv_state \<times> string \<times> string list"

definition end_field :: "csv_state \<Rightarrow> string \<Rightarrow> string list \<Rightarrow> csv_buffer option" where
  "end_field st f fs = Some (st, [], rev f # fs)"

definition is_newline :: "char \<Rightarrow> bool" where
  "is_newline c = (code c = 10 \<or> code c = 13)"

definition is_quote :: "char \<Rightarrow> bool" where "is_quote c = (code c = 34)"

definition start_field :: "char \<Rightarrow> string list \<Rightarrow> csv_buffer option" where
  "start_field c fs =
     (if is_newline c then end_field EatNewline [] fs
      else if is_quote c then Some (InQuoted, [], fs)
      else if c = CHR '','' then end_field StartField [] fs
      else Some (InField, [c], fs))"

fun csv_char :: "char \<Rightarrow> csv_buffer \<Rightarrow> csv_buffer option" where
  "csv_char c (StartRecord, f, fs) = (if is_newline c then Some (EatNewline, f, fs) else start_field c fs)"
| "csv_char c (StartField, f, fs) = start_field c fs"
| "csv_char c (InField, f, fs) =
     (if is_newline c then end_field EatNewline f fs
      else if c = CHR '','' then end_field StartField f fs
      else Some (InField, c # f, fs))"
| "csv_char c (InQuoted, f, fs) = (if is_quote c then Some (QuoteInQuoted, f, fs) else Some (InQuoted, c # f, fs))"
| "csv_char c (QuoteInQuoted, f, fs) =
     (if is_quote c then Some (InQuoted, c # f, fs)
      else if c = CHR '','' then end_field StartField f fs
      else if is_newline c then end_field EatNewline f fs
      else Some (InField, c # f, fs))"
| "csv_char c (EatNewline, f, fs) = (if is_newline c then Some (EatNewline, f, fs) else None)"

text \<open>The end of a line: the buffer, and the record when it is complete.\<close>

fun csv_line_end :: "csv_buffer \<Rightarrow> csv_buffer \<times> string list option" where
  "csv_line_end (InQuoted, f, fs) = ((InQuoted, f, fs), None)"
| "csv_line_end (st, f, fs) =
     ((StartRecord, [], []), Some (rev (if st \<in> {StartRecord, EatNewline} then fs else rev f # fs)))"

text \<open>The lines of the text, as iterating a text stream yields them, each with its line feed.\<close>

fun csv_rows_from :: "string \<Rightarrow> csv_buffer \<Rightarrow> string list list option" where
  "csv_rows_from [] (st, f, fs) =
     (if st = StartRecord then Some []
      else case csv_line_end (st, f, fs) of
          (_, Some row) \<Rightarrow> Some [row]
        | (_, None) \<Rightarrow> Some [rev (rev f # fs)])"
| "csv_rows_from (c # cs) b =
     (case csv_char c b of
        None \<Rightarrow> None
      | Some b1 \<Rightarrow>
          if code c = 10 then
            (case csv_line_end b1 of
               (b2, None) \<Rightarrow> csv_rows_from cs b2
             | (b2, Some row) \<Rightarrow> map_option (\<lambda>rows. row # rows) (csv_rows_from cs b2))
          else csv_rows_from cs b1)"

definition csv_rows :: "string \<Rightarrow> string list list option" where
  "csv_rows text = csv_rows_from text (StartRecord, [], [])"

section \<open>Ordinals\<close>

definition days_before_year :: "int \<Rightarrow> int" where
  "days_before_year y = 365 * (y - 1) + (y - 1) div 4 - (y - 1) div 100 + (y - 1) div 400"

definition days_before_month :: "int \<Rightarrow> int \<Rightarrow> int" where
  "days_before_month y m = sum_list (map (days_in_month y) [1..m - 1])"

text \<open>\<open>d.toordinal()\<close>; 1970-01-01 is 719163.\<close>

definition toordinal :: "ymd \<Rightarrow> date" where
  "toordinal d = days_before_year (ymd_year d) + days_before_month (ymd_year d) (ymd_month d) + ymd_day d"

definition last_ordinal :: date where "last_ordinal = 3652059"

section \<open>Dates in a text\<close>

text \<open>\<open>%Y\<close>, \<open>%m\<close> and \<open>%d\<close> of \<open>strptime\<close>: the day may carry a leading blank.\<close>

definition year_field :: "string \<Rightarrow> int option" where
  "year_field s = (if length s = 4 then map_option int (py_int_digits s) else None)"

definition short_field :: "nat \<Rightarrow> string \<Rightarrow> int option" where
  "short_field bound s =
     (case py_int_digits s of
        Some n \<Rightarrow> if length s \<le> 2 \<and> 1 \<le> n \<and> n \<le> bound then Some (int n) else None
      | None \<Rightarrow> None)"

definition month_field :: "string \<Rightarrow> int option" where "month_field s = short_field 12 s"

definition day_field :: "string \<Rightarrow> int option" where
  "day_field s =
     (case s of c # d # [] \<Rightarrow> if c = CHR '' '' then short_field 9 [d] else short_field 31 s | _ \<Rightarrow> short_field 31 s)"

definition date_of_fields :: "string \<Rightarrow> string \<Rightarrow> string \<Rightarrow> ymd option" where
  "date_of_fields y m d =
     (case (year_field y, month_field m, day_field d) of
        (Some y, Some m, Some d) \<Rightarrow> if valid_ymd (YMD y m d) then Some (YMD y m d) else None
      | _ \<Rightarrow> None)"

datatype field_order = YearFirst | MonthFirst | DayFirst

definition strptime_date :: "field_order \<Rightarrow> char \<Rightarrow> string \<Rightarrow> ymd option" where
  "strptime_date order sep s =
     (case py_split sep s of
        [a, b, c] \<Rightarrow> (case order of YearFirst \<Rightarrow> date_of_fields a b c
                                | MonthFirst \<Rightarrow> date_of_fields c a b
                                | DayFirst \<Rightarrow> date_of_fields c b a)
      | _ \<Rightarrow> None)"

definition or_else :: "'a option \<Rightarrow> 'a option \<Rightarrow> 'a option" where
  "or_else a b = (case a of None \<Rightarrow> b | Some x \<Rightarrow> Some x)"

definition parse_ambiguous_date :: "string \<Rightarrow> bool \<Rightarrow> ymd option" where
  "parse_ambiguous_date raw day_first =
     (let raw = py_strip raw; slash = CHR ''/''; dash = CHR ''-''
      in if slash \<notin> set raw \<and> dash \<notin> set raw then None
         else let sep = (if slash \<in> set raw then slash else dash);
                  (p, q) = (if day_first then (DayFirst, MonthFirst) else (MonthFirst, DayFirst))
              in or_else (strptime_date p sep raw) (strptime_date q sep raw))"

definition resolve_day_first_preference :: "pyval \<Rightarrow> exc + bool" where
  "resolve_day_first_preference settings =
     (case settings of
        PDict kvs \<Rightarrow>
          (case pget kvs ''company'' of
             PDict c \<Rightarrow>
               (let v = pget c ''companies_house_number''
                in case v of
                     PStr s \<Rightarrow> Inr (py_strip s \<noteq> [])
                   | _ \<Rightarrow> if py_truthy v then Inl (PyError AttributeError) else Inr False)
           | _ \<Rightarrow> Inr False)
      | _ \<Rightarrow> Inr False)"

end
