(* ===== verification/BankStatements.thy ===== *)
theory BankStatements
  imports CsvText CurrencyLock PaymentControls Settlement "HOL-Library.AList"
begin

text \<open>
  Bank statements and their import (\<open>services/bank_reconciliation.py\<close>, \<open>parse_csv_statement\<close>;
  \<open>models/bank_reconciliation.py\<close>): from the text of an export to a statement and its lines. The
  decoding of the bytes, the log lines and the balances nothing sets are left out; a date is its
  ordinal.
\<close>

section \<open>Rows\<close>

record bank_statement =
  bs_id :: uid
  bs_org_id :: uid
  bs_account :: string
  bs_currency :: string
  bs_start :: date
  bs_end :: date
  bs_hash :: "string option"
  bs_imported_by :: "uid option"
  bs_count :: nat
  bs_matched :: nat

record bank_line =
  bl_id :: uid
  bl_statement :: uid
  bl_date :: date
  bl_amount :: rat
  bl_currency :: string
  bl_description :: "string option"
  bl_counterparty :: "string option"
  bl_reference :: "string option"
  bl_direction :: string
  bl_raw :: "(string \<times> string) list"
  bl_payment :: "uid option"
  bl_method :: "string option"
  bl_confidence :: "rat option"
  bl_matched_at :: "stamp option"

section \<open>Columns\<close>

definition date_headers :: "string list" where
  "date_headers = [''date'', ''transaction date'', ''transaction_date'', ''posted date'', ''post date'']"

definition amount_headers :: "string list" where
  "amount_headers = [''amount'', ''transaction amount'', ''amount (usd)'', ''value'']"

definition debit_headers :: "string list" where
  "debit_headers = [''debit'', ''withdrawal'', ''withdrawals'']"

definition credit_headers :: "string list" where
  "credit_headers = [''credit'', ''deposit'', ''deposits'']"

definition desc_headers :: "string list" where
  "desc_headers = [''description'', ''memo'', ''details'', ''note'', ''narrative'']"

definition reference_headers :: "string list" where
  "reference_headers = [''reference'', ''ref'', ''trace number'', ''trace'', ''check number'']"

definition counterparty_headers :: "string list" where
  "counterparty_headers = [''counterparty'', ''payee'', ''name'', ''merchant'', ''vendor'']"

definition find_col :: "string list \<Rightarrow> string list \<Rightarrow> string option" where
  "find_col headers candidates = List.find (\<lambda>h. py_lower (py_strip h) \<in> set candidates) headers"

text \<open>\<open>header_to_idx\<close>: of two columns with one name the dict keeps the later.\<close>

definition column_index :: "string list \<Rightarrow> string \<Rightarrow> nat" where
  "column_index headers h = last (0 # filter (\<lambda>i. headers ! i = h) [0..<length headers])"

section \<open>Cells\<close>

definition statement_numeric :: "nat \<times> nat" where "statement_numeric = (18, 2)"

definition parse_date :: "string \<Rightarrow> bool \<Rightarrow> ymd option" where
  "parse_date raw day_first =
     (let raw = py_strip raw
      in or_else (strptime_date YearFirst CHR ''-'' raw)
           (or_else (strptime_date YearFirst CHR ''/'' raw) (parse_ambiguous_date raw day_first)))"

definition strip_chars :: "char list \<Rightarrow> string \<Rightarrow> string" where
  "strip_chars cs s = rev (dropWhile (\<lambda>c. c \<in> set cs) (rev (dropWhile (\<lambda>c. c \<in> set cs) s)))"

definition parse_amount :: "string \<Rightarrow> rat option" where
  "parse_amount raw =
     (let s = py_strip raw in
      if s = [] then None
      else let negative = (py_startswith s ''('' \<and> py_endswith s '')'');
               s = py_strip (filter (\<lambda>c. c \<noteq> CHR '','' \<and> c \<noteq> CHR ''$'') (strip_chars ''()'' s));
               (negative, s) = (if py_startswith s ''-'' then (True, tl s) else (negative, s))
           in case parse_decimal s of
                Some (Fin r) \<Rightarrow>
                  if fits_numeric (Some (Fin r)) (fst statement_numeric) (snd statement_numeric)
                  then Some (if negative then ctx (- r) else r) else None
              | _ \<Rightarrow> None)"

section \<open>The import\<close>

record parsed_row =
  sr_date :: ymd
  sr_amount :: rat
  sr_direction :: string
  sr_description :: "string option"
  sr_counterparty :: "string option"
  sr_reference :: "string option"
  sr_raw :: "(string \<times> string) list"

record statement_columns =
  sc_headers :: "string list"
  sc_date :: string
  sc_amount :: "string option"
  sc_debit :: "string option"
  sc_credit :: "string option"
  sc_desc :: "string option"
  sc_ref :: "string option"
  sc_cp :: "string option"

datatype import_failure = StatementImportError string | CsvError

definition statement_columns_of :: "string list \<Rightarrow> import_failure + statement_columns" where
  "statement_columns_of row =
     (let hs = map py_strip row; amount = find_col hs amount_headers;
          debit = find_col hs debit_headers; credit = find_col hs credit_headers
      in case find_col hs date_headers of
           None \<Rightarrow> Inl (StatementImportError ''no date column'')
         | Some d \<Rightarrow>
             if amount = None \<and> \<not> (debit \<noteq> None \<or> credit \<noteq> None)
             then Inl (StatementImportError ''no amount column'')
             else Inr \<lparr>sc_headers = hs, sc_date = d, sc_amount = amount, sc_debit = debit, sc_credit = credit,
                       sc_desc = find_col hs desc_headers, sc_ref = find_col hs reference_headers,
                       sc_cp = find_col hs counterparty_headers\<rparr>)"

definition pad_row :: "nat \<Rightarrow> string list \<Rightarrow> string list" where
  "pad_row n row = row @ replicate (n - length row) []"

text \<open>The signed or the split columns: how much, and which way.\<close>

definition amount_and_direction ::
  "statement_columns \<Rightarrow> (string \<Rightarrow> string) \<Rightarrow> (rat \<times> string) option" where
  "amount_and_direction c cell =
     (case sc_amount c of
        Some h \<Rightarrow> map_option (\<lambda>a. (ctx \<bar>a\<bar>, if a < 0 then ''debit'' else ''credit'')) (parse_amount (cell h))
      | None \<Rightarrow>
          let value = (\<lambda>col. case col of None \<Rightarrow> None | Some h \<Rightarrow> parse_amount (cell h))
          in case value (sc_debit c) of
               Some d \<Rightarrow>
                 if d \<noteq> 0 then Some (ctx \<bar>d\<bar>, ''debit'')
                 else (case value (sc_credit c) of
                         Some k \<Rightarrow> if k \<noteq> 0 then Some (ctx \<bar>k\<bar>, ''credit'') else None
                       | None \<Rightarrow> None)
             | None \<Rightarrow> (case value (sc_credit c) of
                         Some k \<Rightarrow> if k \<noteq> 0 then Some (ctx \<bar>k\<bar>, ''credit'') else None
                       | None \<Rightarrow> None))"

definition text_cell :: "(string \<Rightarrow> string) \<Rightarrow> string option \<Rightarrow> string option" where
  "text_cell cell col =
     (case col of None \<Rightarrow> None
      | Some h \<Rightarrow> if py_strip (cell h) = [] then None else Some (py_strip (cell h)))"

definition parse_row :: "statement_columns \<Rightarrow> bool \<Rightarrow> string list \<Rightarrow> parsed_row option" where
  "parse_row c day_first row =
     (if list_all (\<lambda>x. py_strip x = []) row then None
      else let row = pad_row (length (sc_headers c)) row;
               cell = (\<lambda>h. row ! column_index (sc_headers c) h)
           in case parse_date (cell (sc_date c)) day_first of
                None \<Rightarrow> None
              | Some d \<Rightarrow>
                  (case amount_and_direction c cell of
                     None \<Rightarrow> None
                   | Some (a, dir) \<Rightarrow>
                       Some \<lparr>sr_date = d, sr_amount = a, sr_direction = dir,
                             sr_description = text_cell cell (sc_desc c), sr_counterparty = text_cell cell (sc_cp c),
                             sr_reference = text_cell cell (sc_ref c),
                             sr_raw = foldl (\<lambda>kvs (k, v). AList.update k v kvs) [] (zip (sc_headers c) row)\<rparr>))"

record statement_request =
  sq_org :: uid
  sq_account :: string
  sq_start :: date
  sq_end :: date
  sq_currency :: string
  sq_imported_by :: "uid option"
  sq_day_first :: bool

definition statement_of :: "statement_request \<Rightarrow> uid \<Rightarrow> nat \<Rightarrow> bank_statement" where
  "statement_of q sid n =
     \<lparr>bs_id = sid, bs_org_id = sq_org q, bs_account = sq_account q, bs_currency = sq_currency q,
      bs_start = sq_start q, bs_end = sq_end q, bs_hash = None, bs_imported_by = sq_imported_by q,
      bs_count = n, bs_matched = 0\<rparr>"

definition line_of :: "statement_request \<Rightarrow> uid \<Rightarrow> uid \<Rightarrow> parsed_row \<Rightarrow> bank_line" where
  "line_of q sid i r =
     \<lparr>bl_id = i, bl_statement = sid, bl_date = toordinal (sr_date r), bl_amount = sr_amount r,
      bl_currency = sq_currency q, bl_description = sr_description r, bl_counterparty = sr_counterparty r,
      bl_reference = sr_reference r, bl_direction = sr_direction r, bl_raw = sr_raw r,
      bl_payment = None, bl_method = None, bl_confidence = None, bl_matched_at = None\<rparr>"

text \<open>The preference of the upload decides ambiguous dates. The rows take their identifiers from \<open>sid\<close> and \<open>lid\<close>.\<close>

definition parse_csv_statement ::
  "statement_request \<Rightarrow> uid \<Rightarrow> (nat \<Rightarrow> uid) \<Rightarrow> string \<Rightarrow> import_failure + bank_statement \<times> bank_line list" where
  "parse_csv_statement q sid lid text =
     (case csv_rows text of
        None \<Rightarrow> Inl CsvError
      | Some rows \<Rightarrow>
          if length rows < 2 then Inl (StatementImportError ''no data rows'')
          else bind_res (statement_columns_of (hd rows)) (\<lambda>c.
            let parsed = List.map_filter (parse_row c (sq_day_first q)) (tl rows)
            in if parsed = [] then Inl (StatementImportError ''no parseable transactions'')
               else Inr (statement_of q sid (length parsed),
                         map (\<lambda>(i, r). line_of q sid (lid i) r) (enumerate 0 parsed))))"

end
