(* ===== verification/BankMatching.thy ===== *)
theory BankMatching
  imports BankStatements DiscountOffers
begin

text \<open>
  Matching the debits of a statement to payments (\<open>services/bank_reconciliation.py\<close>): which
  payment a line names, by reference, by amount and date, or by the vendor's name, and whether
  it reconciles. A payment carries the creation stamp the window falls back on. The order of the
  list of payments stands for the order of the query. The confidence of a fuzzy match, which the
  code computes with doubles, is written with exact arithmetic: names as wide as their columns
  have at most 256 words, and no such quotient is near a rounding tie.
\<close>

section \<open>Vocabulary\<close>

record bank_payment = payment +
  py_created_at :: "stamp option"

definition default_match_window_days :: int where "default_match_window_days = 5"

definition confidence_provider_id :: rat where "confidence_provider_id = 100"
definition confidence_amount_date :: rat where "confidence_amount_date = 80"
definition fuzzy_min_jaccard :: rat where "fuzzy_min_jaccard = 1 / 2"

definition match_method_provider_id :: string where "match_method_provider_id = ''provider_id''"
definition match_method_amount_date :: string where "match_method_amount_date = ''amount_date''"
definition match_method_fuzzy_vendor :: string where "match_method_fuzzy_vendor = ''fuzzy_vendor''"
definition match_method_manual :: string where "match_method_manual = ''manual''"
definition match_method_amount_mismatch :: string where "match_method_amount_mismatch = ''amount_mismatch''"
definition match_method_currency_mismatch :: string where "match_method_currency_mismatch = ''currency_mismatch''"
definition match_method_status_conflict :: string where "match_method_status_conflict = ''status_conflict''"

lemmas match_method_defs = match_method_provider_id_def match_method_amount_date_def
  match_method_fuzzy_vendor_def match_method_manual_def match_method_amount_mismatch_def
  match_method_currency_mismatch_def match_method_status_conflict_def

definition unreconciled_match_methods :: "string list" where
  "unreconciled_match_methods =
     [match_method_amount_mismatch, match_method_currency_mismatch, match_method_status_conflict]"

definition expected_to_clear_statuses :: "string list" where
  "expected_to_clear_statuses = [''completed'', ''submitted'', ''processing'']"

definition amount_match_tolerance :: rat where "amount_match_tolerance = 1 / 100"

section \<open>The classification\<close>

text \<open>\<open>(x or '''').strip().upper()\<close>\<close>

definition currency_key :: "string option \<Rightarrow> string" where
  "currency_key s = py_upper (py_strip (or_str s []))"

definition settlement_amount_and_currency :: "('a payment_scheme) \<Rightarrow> string option \<Rightarrow> rat \<times> string" where
  "settlement_amount_and_currency p invoice_currency =
     (case (py_source_amount p, py_source_currency p) of
        (Some a, Some c) \<Rightarrow> if c \<noteq> [] then (a, py_upper c) else (py_amount p, currency_key invoice_currency)
      | _ \<Rightarrow> (py_amount p, currency_key invoice_currency))"

text \<open>
  \<open>quantize\<close> rounds half to even here; the columns are below \<open>10^16\<close>, so it always has room.
\<close>

definition match_variance :: "rat \<Rightarrow> rat \<Rightarrow> rat" where
  "match_variance bank_amount payment_amount =
     of_int (round_half_even (dsub bank_amount payment_amount * 100)) / 100"

definition is_amount_mismatch :: "rat \<Rightarrow> rat \<Rightarrow> bool" where
  "is_amount_mismatch bank_amount payment_amount =
     (amount_match_tolerance < \<bar>match_variance bank_amount payment_amount\<bar>)"

definition classify_discrepancy ::
  "rat \<Rightarrow> string option \<Rightarrow> rat \<Rightarrow> string option \<Rightarrow> string option \<Rightarrow> string option" where
  "classify_discrepancy bank_amount bank_currency payment_amount payment_currency payment_status =
     (let bank_ccy = currency_key bank_currency; pay_ccy = currency_key payment_currency
      in if bank_ccy \<noteq> [] \<and> pay_ccy \<noteq> [] \<and> bank_ccy \<noteq> pay_ccy then Some match_method_currency_mismatch
         else if is_amount_mismatch bank_amount payment_amount then Some match_method_amount_mismatch
         else if or_str payment_status [] \<notin> set expected_to_clear_statuses then Some match_method_status_conflict
         else None)"

definition is_reconciled :: "string option \<Rightarrow> uid option \<Rightarrow> bool" where
  "is_reconciled m p = (p \<noteq> None \<and> (case m of None \<Rightarrow> True | Some s \<Rightarrow> s \<notin> set unreconciled_match_methods))"

section \<open>Vendor names\<close>

definition name_suffixes :: "string list" where
  "name_suffixes = ['' inc'', '' inc.'', '' llc'', '' ltd'', '' ltd.'', '' corp'', '' corp.'', '' co'', '' co.'',
     '' company'', '' group'', '' plc'', '' gmbh'', '' pty'', '' pty.'', '' limited'', '' incorporated'']"

definition drop_suffix :: "string \<Rightarrow> string \<Rightarrow> string" where
  "drop_suffix suffix s = (if py_endswith s suffix then py_strip (take (length s - length suffix) s) else s)"

definition words :: "string \<Rightarrow> string list" where
  "words s = filter (\<lambda>w. w \<noteq> []) (py_split CHR '' '' s)"

definition normalize_name :: "string \<Rightarrow> string" where
  "normalize_name name =
     (let name = fold drop_suffix name_suffixes (py_strip (py_lower name));
          name = filter (\<lambda>c. chr_isalnum c \<or> c = CHR '' '') name
      in concat (case words name of [] \<Rightarrow> [] | w # ws \<Rightarrow> w # map (\<lambda>v. CHR '' '' # v) ws))"

text \<open>The Jaccard score of the words.\<close>

definition similarity :: "string \<Rightarrow> string \<Rightarrow> rat" where
  "similarity a b =
     (let ta = remdups (words a); tb = remdups (words b)
      in if ta = [] \<or> tb = [] then 0
         else of_nat (length (filter (\<lambda>w. w \<in> set tb) ta)) / of_nat (length (remdups (ta @ tb))))"

definition fuzzy_confidence :: "rat \<Rightarrow> rat" where
  "fuzzy_confidence score =
     of_int (round_half_even ((50 + (score - fuzzy_min_jaccard) / (1 - fuzzy_min_jaccard) * 20) * 100)) / 100"

section \<open>Candidates\<close>

record invoice_facts =
  if_currency :: string
  if_vendor :: "string option"

definition unknown_invoice :: invoice_facts where
  "unknown_invoice = \<lparr>if_currency = [], if_vendor = None\<rparr>"

definition load_invoice_facts :: "invoice list \<Rightarrow> uid \<Rightarrow> invoice_facts" where
  "load_invoice_facts ivs i =
     (case List.find (\<lambda>v. inv_id v = i) ivs of
        None \<Rightarrow> unknown_invoice
      | Some v \<Rightarrow> \<lparr>if_currency = currency_key (currency v), if_vendor = Some (vendor_name v)\<rparr>)"

definition sent_at :: "bank_payment \<Rightarrow> stamp option" where
  "sent_at p = or_else (py_submitted_at p) (or_else (py_completed_at p) (py_created_at p))"

text \<open>A window that leaves the calendar raises \<open>OverflowError\<close>.\<close>

definition candidate_payments_in_window ::
  "bank_payment list \<Rightarrow> rat \<Rightarrow> date \<Rightarrow> int \<Rightarrow> exc + bank_payment list" where
  "candidate_payments_in_window ps a d window_days =
     (if d - window_days < 1 \<or> last_ordinal < d + window_days then Inl (PyError OverflowError)
      else Inr (filter (\<lambda>p. (py_amount p = a \<or> py_source_amount p = Some a)
             \<and> py_status p \<in> set expected_to_clear_statuses
             \<and> (case sent_at p of None \<Rightarrow> False
                | Some t \<Rightarrow> d - window_days \<le> utc_date t \<and> utc_date t \<le> d + window_days)) ps))"

definition settles_as :: "invoice list \<Rightarrow> bank_payment \<Rightarrow> rat \<Rightarrow> string option \<Rightarrow> bool" where
  "settles_as ivs p a ccy =
     (let (settled_amount, settled_currency) =
            settlement_amount_and_currency p (Some (if_currency (load_invoice_facts ivs (py_invoice_id p))))
      in settled_amount = a \<and>
         (settled_currency = [] \<or> currency_key ccy = [] \<or> settled_currency = currency_key ccy))"

text \<open>Exactly one payment of the first column that names any.\<close>

definition payment_by_reference :: "bank_payment list \<Rightarrow> string \<Rightarrow> bank_payment option" where
  "payment_by_reference ps r =
     (case filter (\<lambda>p. py_provider_payment_id p = Some r) ps of
        [p] \<Rightarrow> Some p
      | _ # _ \<Rightarrow> None
      | [] \<Rightarrow> (case filter (\<lambda>p. py_reference p = Some r) ps of [p] \<Rightarrow> Some p | _ \<Rightarrow> None))"

definition better_match ::
  "invoice list \<Rightarrow> string \<Rightarrow> (bank_payment \<times> rat) option \<Rightarrow> bank_payment \<Rightarrow> (bank_payment \<times> rat) option" where
  "better_match ivs cp_key best p =
     (case if_vendor (load_invoice_facts ivs (py_invoice_id p)) of
        None \<Rightarrow> best
      | Some name \<Rightarrow>
          if name = [] then best
          else let score = similarity cp_key (normalize_name name)
               in if score < fuzzy_min_jaccard then best
                  else let c = fuzzy_confidence score
                       in case best of
                            None \<Rightarrow> Some (p, c)
                          | Some (_, b) \<Rightarrow> if b < c then Some (p, c) else best)"

definition fuzzy_vendor_match ::
  "invoice list \<Rightarrow> bank_payment list \<Rightarrow> string \<Rightarrow> (bank_payment \<times> rat) option" where
  "fuzzy_vendor_match ivs candidates counterparty =
     (if candidates = [] \<or> counterparty = [] \<or> normalize_name counterparty = [] then None
      else foldl (better_match ivs (normalize_name counterparty)) None candidates)"

section \<open>One line\<close>

record match_attempt =
  at_payment :: uid
  at_method :: string
  at_confidence :: rat

text \<open>Which payment the reference names, and what the classification makes of it.\<close>

definition reference_attempt ::
  "bank_payment list \<Rightarrow> invoice list \<Rightarrow> uid set \<Rightarrow> bank_line \<Rightarrow> match_attempt option" where
  "reference_attempt ps ivs claimed l =
     (if or_str (bl_reference l) [] = [] then None
      else case payment_by_reference ps (or_str (bl_reference l) []) of
          None \<Rightarrow> None
        | Some p \<Rightarrow>
            if py_id p \<in> claimed then None
            else let (a, c) = settlement_amount_and_currency p
                       (Some (if_currency (load_invoice_facts ivs (py_invoice_id p))))
                 in Some \<lparr>at_payment = py_id p,
                          at_method = or_str (classify_discrepancy (bl_amount l) (Some (bl_currency l)) a (Some c)
                            (Some (py_status p))) match_method_provider_id,
                          at_confidence = confidence_provider_id\<rparr>)"

definition match_line ::
  "bank_payment list \<Rightarrow> invoice list \<Rightarrow> int \<Rightarrow> uid set \<Rightarrow> bank_line \<Rightarrow> exc + match_attempt option" where
  "match_line ps ivs window_days claimed l =
     (case reference_attempt ps ivs claimed l of
        Some a \<Rightarrow> Inr (Some a)
      | None \<Rightarrow>
          bind_res (candidate_payments_in_window ps (bl_amount l) (bl_date l) window_days) (\<lambda>cs.
            let cs = filter (\<lambda>p. settles_as ivs p (bl_amount l) (Some (bl_currency l)))
                       (filter (\<lambda>p. py_id p \<notin> claimed) cs)
            in Inr (case cs of
                 [p] \<Rightarrow> Some \<lparr>at_payment = py_id p, at_method = match_method_amount_date,
                            at_confidence = confidence_amount_date\<rparr>
               | _ \<Rightarrow> map_option (\<lambda>(p, c). \<lparr>at_payment = py_id p, at_method = match_method_fuzzy_vendor,
                                            at_confidence = c\<rparr>)
                       (fuzzy_vendor_match ivs cs (or_str (bl_counterparty l) [])))))"

section \<open>The statement\<close>

record match_counts =
  mc_matched :: nat
  mc_unmatched :: nat
  mc_skipped :: nat
  mc_amount :: nat
  mc_currency :: nat
  mc_status :: nat

definition no_counts :: match_counts where
  "no_counts = \<lparr>mc_matched = 0, mc_unmatched = 0, mc_skipped = 0, mc_amount = 0, mc_currency = 0, mc_status = 0\<rparr>"

definition count_method :: "string \<Rightarrow> match_counts \<Rightarrow> match_counts" where
  "count_method m k =
     (if m = match_method_amount_mismatch then k\<lparr>mc_amount := Suc (mc_amount k)\<rparr>
      else if m = match_method_currency_mismatch then k\<lparr>mc_currency := Suc (mc_currency k)\<rparr>
      else if m = match_method_status_conflict then k\<lparr>mc_status := Suc (mc_status k)\<rparr>
      else k\<lparr>mc_matched := Suc (mc_matched k)\<rparr>)"

definition link_line :: "stamp \<Rightarrow> match_attempt \<Rightarrow> bank_line \<Rightarrow> bank_line" where
  "link_line now a l =
     l\<lparr>bl_payment := Some (at_payment a), bl_method := Some (at_method a),
       bl_confidence := Some (at_confidence a), bl_matched_at := Some now\<rparr>"

fun match_statement_transactions ::
  "bank_payment list \<Rightarrow> invoice list \<Rightarrow> int \<Rightarrow> stamp \<Rightarrow> uid set \<Rightarrow> match_counts \<Rightarrow> bank_line list \<Rightarrow>
     exc + bank_line list \<times> match_counts" where
  "match_statement_transactions ps ivs w now claimed k [] = Inr ([], k)"
| "match_statement_transactions ps ivs w now claimed k (l # ls) =
     (if bl_direction l \<noteq> ''debit'' then
        bind_res (match_statement_transactions ps ivs w now claimed (k\<lparr>mc_skipped := Suc (mc_skipped k)\<rparr>) ls)
          (\<lambda>(ls, k). Inr (l # ls, k))
      else bind_res (match_line ps ivs w claimed l) (\<lambda>a.
        case a of
          None \<Rightarrow>
            bind_res (match_statement_transactions ps ivs w now claimed (k\<lparr>mc_unmatched := Suc (mc_unmatched k)\<rparr>) ls)
              (\<lambda>(ls, k). Inr (l # ls, k))
        | Some a \<Rightarrow>
            bind_res (match_statement_transactions ps ivs w now (insert (at_payment a) claimed)
                        (count_method (at_method a) k) ls)
              (\<lambda>(ls, k). Inr (link_line now a l # ls, k))))"

end
