(* ===== verification/BankRecon.thy ===== *)
theory BankRecon
  imports BankMatching Invoices "HOL-Library.List_Lexorder" "HOL-Library.Char_ord"
begin

text \<open>
  The bank-reconciliation endpoints (\<open>api/bank_reconciliation.py\<close>): import, manual resolution and
  deletion of a statement, and the three lists of the month-end worksheet. The books hold the
  statements and lines of every organisation of the database, with the payments and invoices they
  are matched to. Serialisation, the variance an audit row prints, the search term and the paging of the lists, and the race of two
  concurrent imports are left out; an exception nothing catches is a response 500.
\<close>

section \<open>Books\<close>

record bank_books =
  bb_statements :: "bank_statement list"
  bb_lines :: "bank_line list"
  bb_payments :: "bank_payment list"
  bb_invoices :: "invoice list"
  bb_fx :: effects

definition lines_of :: "bank_books \<Rightarrow> uid \<Rightarrow> bank_line list" where
  "lines_of b sid = filter (\<lambda>l. bl_statement l = sid) (bb_lines b)"

definition reconciled_line :: "bank_line \<Rightarrow> bool" where
  "reconciled_line l = is_reconciled (bl_method l) (bl_payment l)"

definition claimed_payments :: "bank_line list \<Rightarrow> uid list" where
  "claimed_payments ls = List.map_filter bl_payment ls"

definition get_scoped :: "bank_books \<Rightarrow> uid \<Rightarrow> uid \<Rightarrow> exc + bank_statement" where
  "get_scoped b org sid =
     (case List.find (\<lambda>s. bs_id s = sid \<and> bs_org_id s = org) (bb_statements b) of
        None \<Rightarrow> Inl (HttpError 404 []) | Some s \<Rightarrow> Inr s)"

definition put_statement :: "bank_statement \<Rightarrow> bank_books \<Rightarrow> bank_books" where
  "put_statement s b = b\<lparr>bb_statements := map (\<lambda>t. if bs_id t = bs_id s then s else t) (bb_statements b)\<rparr>"

definition put_line :: "bank_line \<Rightarrow> bank_books \<Rightarrow> bank_books" where
  "put_line l b = b\<lparr>bb_lines := map (\<lambda>m. if bl_id m = bl_id l then l else m) (bb_lines b)\<rparr>"

definition recompute_matched_count :: "bank_statement \<Rightarrow> bank_books \<Rightarrow> bank_books" where
  "recompute_matched_count s b =
     put_statement (s\<lparr>bs_matched := length (filter reconciled_line (lines_of b (bs_id s)))\<rparr>) b"

definition bank_audit :: "string \<Rightarrow> uid \<Rightarrow> uid \<Rightarrow> (string \<times> pyval) list \<Rightarrow> bank_books \<Rightarrow> bank_books" where
  "bank_audit action actor sid details b =
     b\<lparr>bb_fx := dispatch_audit \<lparr>au_action = action, au_actor = Some actor, au_entity = sid,
                  au_details = details\<rparr> (bb_fx b)\<rparr>"

section \<open>Import\<close>

definition statement_by_hash :: "bank_books \<Rightarrow> uid \<Rightarrow> string \<Rightarrow> string \<Rightarrow> bank_statement option" where
  "statement_by_hash b org account h =
     List.find (\<lambda>s. bs_org_id s = org \<and> bs_account s = account \<and> bs_hash s = Some h) (bb_statements b)"

text \<open>The widths of the columns; a value that does not fit fails the insert.\<close>

definition fits :: "nat \<Rightarrow> string option \<Rightarrow> bool" where
  "fits n s = (case s of None \<Rightarrow> True | Some t \<Rightarrow> length t \<le> n)"

definition statement_fits :: "bank_statement \<Rightarrow> bool" where
  "statement_fits s = (length (bs_account s) \<le> 80 \<and> length (bs_currency s) \<le> 3)"

definition line_fits :: "bank_line \<Rightarrow> bool" where
  "line_fits l = (\<bar>round_to 2 (bl_amount l)\<bar> < 10 ^ 16 \<and> length (bl_currency l) \<le> 3 \<and> fits 500 (bl_description l) \<and>
     fits 255 (bl_counterparty l) \<and> fits 255 (bl_reference l))"

text \<open>The column rounds the amount to cents.\<close>

definition stored_line_amount :: "bank_line \<Rightarrow> bank_line" where
  "stored_line_amount l = l\<lparr>bl_amount := round_to 2 (bl_amount l)\<rparr>"

record upload_env =
  ue_now :: stamp
  ue_actor :: uid
  ue_statement_id :: uid
  ue_line_id :: "nat \<Rightarrow> uid"
  ue_hash :: "string \<Rightarrow> string"
  ue_settings :: pyval

definition import_error :: "import_failure \<Rightarrow> exc" where
  "import_error e = (case e of StatementImportError m \<Rightarrow> HttpError 422 m | CsvError \<Rightarrow> HttpError 500 ''csv_error'')"

definition count_details :: "match_counts \<Rightarrow> (string \<times> pyval) list" where
  "count_details k =
     [(''matched'', PInt (int (mc_matched k))), (''unmatched'', PInt (int (mc_unmatched k))),
      (''skipped_credit'', PInt (int (mc_skipped k))), (''amount_mismatch'', PInt (int (mc_amount k))),
      (''currency_mismatch'', PInt (int (mc_currency k))), (''status_conflict'', PInt (int (mc_status k)))]"

text \<open>The statement, whether it is new, and the books.\<close>

definition upload_statement ::
  "upload_env \<Rightarrow> statement_request \<Rightarrow> string \<Rightarrow> bank_books \<Rightarrow> exc + bank_statement \<times> bool \<times> bank_books" where
  "upload_statement e q text b =
     (case statement_by_hash b (sq_org q) (sq_account q) (ue_hash e text) of
        Some s \<Rightarrow> Inr (s, False, b)
      | None \<Rightarrow>
          bind_res (resolve_day_first_preference (ue_settings e)) (\<lambda>day_first.
          case parse_csv_statement (q\<lparr>sq_day_first := day_first\<rparr>) (ue_statement_id e) (ue_line_id e) text of
             Inl f \<Rightarrow> Inl (import_error f)
           | Inr (s, ls) \<Rightarrow>
               if \<not> (statement_fits s \<and> list_all line_fits ls) then Inl (HttpError 500 ''data_error'')
               else bind_res (match_statement_transactions (bb_payments b) (bb_invoices b) default_match_window_days
                      (ue_now e) (set (claimed_payments (bb_lines b))) no_counts ls) (\<lambda>(ls, k).
                 let s = s\<lparr>bs_hash := Some (ue_hash e text), bs_matched := mc_matched k\<rparr>;
                     b = b\<lparr>bb_statements := bb_statements b @ [s],
                           bb_lines := bb_lines b @ map stored_line_amount ls\<rparr>
                 in Inr (s, True, bank_audit ''bank_reconciliation.imported'' (ue_actor e) (bs_id s)
                      ((''account_identifier'', PStr (bs_account s)) #
                       (''transaction_count'', PInt (int (bs_count s))) # count_details k) b))))"

section \<open>Resolution by hand\<close>

definition manual_match_confidence :: rat where "manual_match_confidence = 100"

definition cleared_line :: "bank_line \<Rightarrow> bank_line" where
  "cleared_line l = l\<lparr>bl_payment := None, bl_method := None, bl_confidence := None, bl_matched_at := None\<rparr>"

definition claim_line :: "stamp \<Rightarrow> bank_payment \<Rightarrow> string option \<Rightarrow> bank_line \<Rightarrow> bank_line" where
  "claim_line now p invoice_currency l =
     (let (a, c) = settlement_amount_and_currency p invoice_currency
      in l\<lparr>bl_payment := Some (py_id p),
           bl_method := Some (or_str (classify_discrepancy (bl_amount l) (Some (bl_currency l)) a (Some c)
             (Some (py_status p))) match_method_manual),
           bl_confidence := Some manual_match_confidence, bl_matched_at := Some now\<rparr>)"

definition invoice_currency_of :: "bank_books \<Rightarrow> uid \<Rightarrow> string option" where
  "invoice_currency_of b i =
     (case List.find (\<lambda>v. inv_id v = i) (bb_invoices b) of None \<Rightarrow> None | Some v \<Rightarrow> currency v)"

definition resolved_line :: "stamp \<Rightarrow> bank_books \<Rightarrow> bank_line \<Rightarrow> uid option \<Rightarrow> exc + bank_line" where
  "resolved_line now b l choice =
     (case choice of
        None \<Rightarrow> Inr (cleared_line l)
      | Some i \<Rightarrow>
          if bl_direction l \<noteq> ''debit'' then Inl (HttpError 409 ''not_a_debit'')
          else case List.find (\<lambda>p. py_id p = i) (bb_payments b) of
              None \<Rightarrow> Inl (HttpError 404 [])
            | Some p \<Rightarrow>
                if list_ex (\<lambda>m. bl_payment m = Some i \<and> bl_id m \<noteq> bl_id l) (bb_lines b)
                then Inl (HttpError 409 ''already_matched'')
                else Inr (claim_line now p (invoice_currency_of b (py_invoice_id p)) l))"

definition resolve_transaction ::
  "stamp \<Rightarrow> uid \<Rightarrow> uid \<Rightarrow> uid \<Rightarrow> uid \<Rightarrow> uid option \<Rightarrow> bank_books \<Rightarrow> exc + bank_books" where
  "resolve_transaction now actor org sid tid choice b =
     bind_res (get_scoped b org sid) (\<lambda>s.
       case List.find (\<lambda>l. bl_id l = tid \<and> bl_statement l = bs_id s) (bb_lines b) of
         None \<Rightarrow> Inl (HttpError 404 [])
       | Some l \<Rightarrow>
           bind_res (resolved_line now b l choice) (\<lambda>l.
             Inr (bank_audit ''bank_reconciliation.transaction_resolved'' actor (bs_id s)
               [(''transaction_id'', PStr tid),
                (''matched_payment_id'', case choice of None \<Rightarrow> PNone | Some i \<Rightarrow> PStr i),
                (''match_method'', case bl_method l of None \<Rightarrow> PNone | Some m \<Rightarrow> PStr m)]
               (recompute_matched_count s (put_line l b)))))"

definition delete_statement :: "uid \<Rightarrow> uid \<Rightarrow> uid \<Rightarrow> bank_books \<Rightarrow> exc + bank_books" where
  "delete_statement actor org sid b =
     bind_res (get_scoped b org sid) (\<lambda>s.
       let b = bank_audit ''bank_reconciliation.deleted'' actor (bs_id s)
                 [(''account_identifier'', PStr (bs_account s))] b
       in Inr (b\<lparr>bb_statements := filter (\<lambda>t. bs_id t \<noteq> bs_id s) (bb_statements b),
                bb_lines := filter (\<lambda>l. bl_statement l \<noteq> bs_id s) (bb_lines b)\<rparr>))"

section \<open>The month-end worksheet\<close>

definition has_invoice :: "bank_books \<Rightarrow> bank_payment \<Rightarrow> bool" where
  "has_invoice b p = list_ex (\<lambda>v. inv_id v = py_invoice_id p) (bb_invoices b)"

definition uncleared_payments :: "bank_books \<Rightarrow> date \<Rightarrow> bank_payment list" where
  "uncleared_payments b cutoff =
     filter (\<lambda>p. py_status p \<in> set expected_to_clear_statuses
         \<and> py_id p \<notin> set (claimed_payments (bb_lines b))
         \<and> (case sent_at p of None \<Rightarrow> True | Some t \<Rightarrow> utc_date t \<le> cutoff)
         \<and> has_invoice b p) (bb_payments b)"

definition line_in_org :: "bank_books \<Rightarrow> uid \<Rightarrow> bank_line \<Rightarrow> bool" where
  "line_in_org b org l = list_ex (\<lambda>s. bs_id s = bl_statement l \<and> bs_org_id s = org) (bb_statements b)"

definition unmatched_debits :: "bank_books \<Rightarrow> uid \<Rightarrow> bank_line list" where
  "unmatched_debits b org =
     filter (\<lambda>l. line_in_org b org l \<and> bl_direction l = ''debit'' \<and> bl_payment l = None) (bb_lines b)"

text \<open>The payment and the invoice the inner joins find.\<close>

definition joined :: "bank_books \<Rightarrow> bank_line \<Rightarrow> bool" where
  "joined b l = list_ex (\<lambda>p. bl_payment l = Some (py_id p) \<and> has_invoice b p) (bb_payments b)"

definition discrepancy_lines :: "bank_books \<Rightarrow> uid \<Rightarrow> bank_line list" where
  "discrepancy_lines b org =
     filter (\<lambda>l. line_in_org b org l \<and> bl_direction l = ''debit''
         \<and> (case bl_method l of None \<Rightarrow> False | Some m \<Rightarrow> m \<in> set unreconciled_match_methods)
         \<and> joined b l) (bb_lines b)"

text \<open>\<open>_currency_totals\<close>: per currency, in order, the exact sum to two decimals.\<close>

definition currency_totals :: "(string \<times> rat) list \<Rightarrow> (string \<times> rat) list" where
  "currency_totals rows =
     map (\<lambda>c. (c, of_int (round_half_even (sum_list (map snd (filter (\<lambda>r. fst r = c) rows)) * 100)) / 100))
       (sort (remdups (map fst rows)))"

definition uncleared_totals :: "bank_books \<Rightarrow> date \<Rightarrow> (string \<times> rat) list" where
  "uncleared_totals b cutoff =
     currency_totals (map (\<lambda>p. (or_str (invoice_currency_of b (py_invoice_id p)) [], py_amount p))
       (uncleared_payments b cutoff))"

definition statement_currency :: "bank_books \<Rightarrow> bank_line \<Rightarrow> string" where
  "statement_currency b l =
     (case List.find (\<lambda>s. bs_id s = bl_statement l) (bb_statements b) of None \<Rightarrow> [] | Some s \<Rightarrow> bs_currency s)"

definition unmatched_debit_totals :: "bank_books \<Rightarrow> uid \<Rightarrow> (string \<times> rat) list" where
  "unmatched_debit_totals b org =
     currency_totals (map (\<lambda>l. (statement_currency b l, bl_amount l)) (unmatched_debits b org))"

text \<open>\<open>settlement_amount_sql\<close>\<close>

definition settlement_amount_sql :: "bank_payment \<Rightarrow> rat" where
  "settlement_amount_sql p =
     (if py_source_amount p \<noteq> None \<and> py_source_currency p \<noteq> None \<and> py_source_currency p \<noteq> Some []
      then the (py_source_amount p) else py_amount p)"

definition mismatch_gap :: "bank_books \<Rightarrow> bank_line \<Rightarrow> rat" where
  "mismatch_gap b l =
     (if bl_method l = Some match_method_amount_mismatch then
        (case List.find (\<lambda>p. bl_payment l = Some (py_id p)) (bb_payments b) of
           None \<Rightarrow> 0 | Some p \<Rightarrow> bl_amount l - settlement_amount_sql p)
      else 0)"

definition net_variances :: "bank_books \<Rightarrow> uid \<Rightarrow> (string \<times> rat) list" where
  "net_variances b org =
     currency_totals (map (\<lambda>l. (statement_currency b l, mismatch_gap b l)) (discrepancy_lines b org))"

end
