(* ===== verification/BankProofs.thy ===== *)
theory BankProofs
  imports BankRecon
begin

text \<open>
  What one match and one operation of the bank books do: a link that counts as reconciled agrees
  with its payment, the counts add up, and every operation keeps the books consistent.
\<close>

section \<open>Strings\<close>

lemma strip_ends: "py_strip s = [] \<or> (\<not> chr_isspace (hd (py_strip s)) \<and> \<not> chr_isspace (last (py_strip s)))"
proof -
  let ?t = "dropWhile chr_isspace s"
  have "py_strip s \<noteq> [] \<Longrightarrow> \<not> chr_isspace (last (py_strip s))"
    unfolding py_strip_def by (simp add: last_rev hd_dropWhile)
  moreover have "py_strip s \<noteq> [] \<Longrightarrow> \<not> chr_isspace (hd (py_strip s))"
  proof -
    assume ne: "py_strip s \<noteq> []"
    have "?t = py_strip s @ rev (takeWhile chr_isspace (rev ?t))"
      unfolding py_strip_def by (metis rev_append rev_rev_ident takeWhile_dropWhile_id)
    then have "hd (py_strip s) = hd ?t" using ne by (metis hd_append2)
    moreover have "?t \<noteq> []"
    proof
      assume "?t = []"
      then have "py_strip s = []" unfolding py_strip_def by (simp only: list.simps dropWhile.simps rev.simps)
      then show False using ne by blast
    qed
    ultimately show ?thesis by (simp add: hd_dropWhile)
  qed
  ultimately show ?thesis by blast
qed

lemma strip_fixed: "s = [] \<or> (\<not> chr_isspace (hd s) \<and> \<not> chr_isspace (last s)) \<Longrightarrow> py_strip s = s"
proof (elim disjE conjE)
  assume "\<not> chr_isspace (hd s)" "\<not> chr_isspace (last s)"
  then show ?thesis unfolding py_strip_def by (metis dropWhile_eq_self_iff hd_rev rev_rev_ident)
qed (simp add: py_strip_def)

lemma upper_not_space:
  assumes "\<not> chr_isspace c" shows "chr_upper c \<noteq> []" "d \<in> set (chr_upper c) \<Longrightarrow> \<not> chr_isspace d"
proof -
  show "chr_upper c \<noteq> []" by (simp add: chr_upper_def)
  have "code c < 256" by simp
  then have small: "(code c - 32) mod 256 = code c - 32" by (intro mod_less) linarith
  show "\<not> chr_isspace d" if "d \<in> set (chr_upper c)"
    using that assms
    by (auto simp: small chr_upper_def chr_isspace_def is_ascii_lower_def of_char_of take_bit_eq_mod split: if_splits)
qed

lemma upper_ends:
  assumes "s \<noteq> []" "\<not> chr_isspace (hd s)" "\<not> chr_isspace (last s)"
  shows "\<not> chr_isspace (hd (py_upper s)) \<and> \<not> chr_isspace (last (py_upper s))"
proof -
  obtain a t where h: "s = a # t" using assms(1) by (cases s) auto
  obtain u z where l: "s = u @ [z]" using assms(1) by (cases s rule: rev_cases) auto
  have "hd (py_upper s) = hd (chr_upper a)" unfolding h py_upper_def using upper_not_space(1)[of a] assms(2) h
    by simp
  moreover have "last (py_upper s) = last (chr_upper z)" unfolding l py_upper_def
    using upper_not_space(1)[of z] assms(3) l by simp
  ultimately show ?thesis
    using assms(2,3) h l upper_not_space[of a] upper_not_space[of z] by (metis hd_in_set last_in_set last_snoc list.sel(1))
qed

lemma currency_key_idem [simp]: "currency_key (Some (currency_key s)) = currency_key s"
proof -
  let ?t = "py_strip (or_str s [])"
  have "py_strip (py_upper ?t) = py_upper ?t"
  proof (cases "?t = []")
    case True
    have "py_upper [] = []" "py_strip [] = []" by (simp add: py_upper_def, simp add: py_strip_def)
    then show ?thesis unfolding True by (simp only:)
  next
    case False
    then have "\<not> chr_isspace (hd ?t)" "\<not> chr_isspace (last ?t)" using strip_ends[of "or_str s []"] by auto
    from upper_ends[OF False this] show ?thesis by (intro strip_fixed) simp
  qed
  then show ?thesis unfolding currency_key_def by (simp add: or_str_def[of "Some _"] py_strip_def[of "[]"])
qed

lemma currency_key_None [simp]: "currency_key None = []" "currency_key (Some []) = []"
  by (simp_all add: currency_key_def or_str_def py_strip_def py_upper_def)

section \<open>Amounts\<close>

lemma variance_self: "match_variance a a = 0"
  by (simp add: match_variance_def dsub_def ctx_def round_half_even_def)

lemma mismatch_self: "\<not> is_amount_mismatch a a"
  by (simp add: is_amount_mismatch_def variance_self amount_match_tolerance_def)

text \<open>Beyond a cent and a half the rounded variance is beyond a cent.\<close>

lemma ctx_fifteen: "ctx (3 / 200) = 3 / 200"
  by code_simp

lemma no_mismatch_close:
  assumes "\<not> is_amount_mismatch a p"
  shows "\<bar>a - p\<bar> < 3 / 200"
proof (rule ccontr)
  assume far: "\<not> \<bar>a - p\<bar> < 3 / 200"
  let ?v = "dsub a p * 100"
  have le: "\<bar>round_half_even ?v\<bar> \<le> 1"
    using assms by (simp add: is_amount_mismatch_def match_variance_def amount_match_tolerance_def divide_simps)
  have two: "round_half_even (3 / 2) = 2" "round_half_even (- (3 / 2)) = - 2" by code_simp+
  from far consider "3 / 200 \<le> a - p" | "a - p \<le> - (3 / 200)" by linarith
  then show False
  proof cases
    case 1
    then have "ctx (3 / 200) \<le> dsub a p" unfolding dsub_def by (rule ctx_mono)
    then have "3 / 2 \<le> ?v" by (simp add: ctx_fifteen)
    from round_half_even_mono[OF this] le two show False by simp
  next
    case 2
    then have "dsub a p \<le> ctx (- (3 / 200))" unfolding dsub_def by (rule ctx_mono)
    then have "?v \<le> - (3 / 2)" unfolding ctx_minus ctx_fifteen by simp
    from round_half_even_mono[OF this] le two show False by simp
  qed
qed


section \<open>A payment a line clears\<close>

definition settled :: "invoice list \<Rightarrow> ('a payment_scheme) \<Rightarrow> rat \<times> string" where
  "settled ivs p =
     settlement_amount_and_currency p (Some (if_currency (load_invoice_facts ivs (py_invoice_id p))))"

text \<open>The bank moved what the payment settles for, in its currency, and the payment was sent.\<close>

definition clears :: "invoice list \<Rightarrow> ('a payment_scheme) \<Rightarrow> bank_line \<Rightarrow> bool" where
  "clears ivs p l =
     (py_status p \<in> set expected_to_clear_statuses \<and> \<not> is_amount_mismatch (bl_amount l) (fst (settled ivs p)) \<and>
      (let bank = currency_key (Some (bl_currency l)); mine = currency_key (Some (snd (settled ivs p)))
       in bank = [] \<or> mine = [] \<or> bank = mine))"

definition reconciled_methods :: "string list" where
  "reconciled_methods =
     [match_method_provider_id, match_method_amount_date, match_method_fuzzy_vendor, match_method_manual]"

lemma settlement_key [simp]:
  "settlement_amount_and_currency p (Some (currency_key c)) = settlement_amount_and_currency p c"
  by (simp add: settlement_amount_and_currency_def split: option.split)

lemma settled_by_currency:
  "settlement_amount_and_currency p (invoice_currency_of b (py_invoice_id p)) = settled (bb_invoices b) p"
proof (cases "List.find (\<lambda>v. inv_id v = py_invoice_id p) (bb_invoices b)")
  case None
  then show ?thesis
    by (simp add: settled_def invoice_currency_of_def load_invoice_facts_def unknown_invoice_def
        settlement_amount_and_currency_def split: option.split)
qed (simp add: settled_def invoice_currency_of_def load_invoice_facts_def)

lemma sent_status_nonempty: "s \<in> set expected_to_clear_statuses \<Longrightarrow> s \<noteq> []"
  by (auto simp: expected_to_clear_statuses_def)

lemma classify_iff:
  "classify_discrepancy (bl_amount l) (Some (bl_currency l)) (fst (settled ivs p)) (Some (snd (settled ivs p)))
     (Some (py_status p)) = None \<longleftrightarrow> clears ivs p l"
  using sent_status_nonempty[of "py_status p"]
  by (auto simp: classify_discrepancy_def clears_def Let_def or_str_def[of "Some (py_status p)"]
      dest: sent_status_nonempty)

lemma classify_method:
  "classify_discrepancy a c a' c' st = Some m \<Longrightarrow> m \<in> set unreconciled_match_methods"
  by (auto simp: classify_discrepancy_def Let_def unreconciled_match_methods_def split: if_splits)

lemma methods_apart: "m \<in> set reconciled_methods \<Longrightarrow> m \<notin> set unreconciled_match_methods"
  by (auto simp: reconciled_methods_def unreconciled_match_methods_def match_method_defs)

lemma methods_nonempty: "m \<in> set unreconciled_match_methods \<Longrightarrow> m \<noteq> []"
  by (auto simp: unreconciled_match_methods_def match_method_defs)

text \<open>The method a classification leaves tells whether the line clears.\<close>

lemma classified_method:
  assumes "d \<in> set reconciled_methods"
    "m = or_str (classify_discrepancy (bl_amount l) (Some (bl_currency l)) (fst (settled ivs p))
           (Some (snd (settled ivs p))) (Some (py_status p))) d"
  shows "m \<in> set (reconciled_methods @ unreconciled_match_methods)
    \<and> (m \<notin> set unreconciled_match_methods \<longleftrightarrow> clears ivs p l)"
proof (cases "classify_discrepancy (bl_amount l) (Some (bl_currency l)) (fst (settled ivs p))
           (Some (snd (settled ivs p))) (Some (py_status p))")
  case None
  with assms classify_iff[of l ivs p] methods_apart show ?thesis by (simp add: or_str_def)
next
  case (Some k)
  with assms classify_iff[of l ivs p] classify_method[OF Some] methods_nonempty[OF classify_method[OF Some]]
  show ?thesis by (simp add: or_str_def)
qed

section \<open>Candidates\<close>

lemma settles_clears:
  assumes "settles_as ivs p (bl_amount l) (Some (bl_currency l))" "py_status p \<in> set expected_to_clear_statuses"
  shows "clears ivs p l"
proof -
  obtain a c where s: "settled ivs p = (a, c)" by fastforce
  with assms(1) have "a = bl_amount l"
    and "c = [] \<or> currency_key (Some (bl_currency l)) = [] \<or> c = currency_key (Some (bl_currency l))"
    by (auto simp: settles_as_def settled_def)
  with assms(2) s mismatch_self show ?thesis by (auto simp: clears_def Let_def)
qed

lemma similarity_le_1: "similarity a b \<le> 1"
proof (cases "remdups (words a) = [] \<or> remdups (words b) = []")
  case False
  let ?ta = "remdups (words a)" and ?tb = "remdups (words b)"
  have "length (filter (\<lambda>w. w \<in> set ?tb) ?ta) \<le> length ?ta" by simp
  also have "\<dots> = card (set ?ta)" by (simp add: length_remdups_card_conv)
  also have "\<dots> \<le> card (set (?ta @ ?tb))" by (intro card_mono) auto
  also have "\<dots> = length (remdups (?ta @ ?tb))" by (simp only: length_remdups_card_conv)
  finally have "length (filter (\<lambda>w. w \<in> set ?tb) ?ta) \<le> length (remdups (?ta @ ?tb))" .
  moreover have "0 < length (remdups (?ta @ ?tb))" using False by simp
  ultimately show ?thesis using False unfolding similarity_def Let_def
    by (simp only: if_False divide_le_eq_1 of_nat_0_less_iff of_nat_le_iff) simp
qed (auto simp: similarity_def Let_def)

lemma fuzzy_confidence_bounds:
  assumes "fuzzy_min_jaccard \<le> s" "s \<le> 1"
  shows "50 \<le> fuzzy_confidence s \<and> fuzzy_confidence s \<le> 70"
proof -
  let ?r = "(50 + (s - fuzzy_min_jaccard) / (1 - fuzzy_min_jaccard) * 20) * 100"
  have "of_int 5000 \<le> ?r" "?r \<le> of_int 7000" using assms by (simp_all add: fuzzy_min_jaccard_def field_simps)
  from this[THEN round_half_even_mono] have "5000 \<le> round_half_even ?r" "round_half_even ?r \<le> 7000"
    by (simp_all only: round_half_even_of_int)
  then have "(of_int 5000 :: rat) \<le> of_int (round_half_even ?r)" "of_int (round_half_even ?r) \<le> (of_int 7000 :: rat)"
    by (simp_all only: of_int_le_iff)
  then show ?thesis unfolding fuzzy_confidence_def by (simp add: field_simps)
qed

definition fuzzy_pick :: "bank_payment list \<Rightarrow> (bank_payment \<times> rat) option \<Rightarrow> bool" where
  "fuzzy_pick cs r = (case r of None \<Rightarrow> True | Some (p, c) \<Rightarrow> p \<in> set cs \<and> 50 \<le> c \<and> c \<le> 70)"

lemma better_match_pick: "fuzzy_pick cs best \<Longrightarrow> p \<in> set cs \<Longrightarrow> fuzzy_pick cs (better_match ivs k best p)"
  using fuzzy_confidence_bounds[OF _ similarity_le_1]
  by (auto simp: better_match_def fuzzy_pick_def Let_def not_less split: option.splits)

lemma fuzzy_vendor_pick: "fuzzy_pick cs (fuzzy_vendor_match ivs cs n)"
proof -
  have "set ps \<subseteq> set cs \<Longrightarrow> fuzzy_pick cs best \<Longrightarrow> fuzzy_pick cs (foldl (better_match ivs k) best ps)" for ps best k
    by (induction ps arbitrary: best) (auto intro: better_match_pick)
  then show ?thesis by (auto simp: fuzzy_vendor_match_def fuzzy_pick_def[of _ None])
qed

lemma by_reference_mem: "payment_by_reference ps r = Some p \<Longrightarrow> p \<in> set ps"
  unfolding payment_by_reference_def
  by (auto split: list.splits simp: filter_eq_Cons_iff)

section \<open>One line\<close>

definition attempt_ok :: "bank_payment list \<Rightarrow> invoice list \<Rightarrow> uid set \<Rightarrow> bank_line \<Rightarrow> match_attempt \<Rightarrow> bool" where
  "attempt_ok ps ivs claimed l a =
     (\<exists>p \<in> set ps. at_payment a = py_id p \<and> py_id p \<notin> claimed
        \<and> at_method a \<in> set (reconciled_methods @ unreconciled_match_methods)
        \<and> (at_method a \<notin> set unreconciled_match_methods \<longleftrightarrow> clears ivs p l)
        \<and> 0 \<le> at_confidence a \<and> at_confidence a \<le> 100)"

lemma reference_attempt_ok:
  assumes "reference_attempt ps ivs claimed l = Some a"
  shows "attempt_ok ps ivs claimed l a"
proof -
  from assms obtain p where p: "payment_by_reference ps (or_str (bl_reference l) []) = Some p" "py_id p \<notin> claimed"
    and a: "a = \<lparr>at_payment = py_id p, at_method = or_str (classify_discrepancy (bl_amount l) (Some (bl_currency l))
        (fst (settled ivs p)) (Some (snd (settled ivs p))) (Some (py_status p))) match_method_provider_id,
        at_confidence = confidence_provider_id\<rparr>"
    unfolding reference_attempt_def settled_def by (auto split: if_splits option.splits simp: case_prod_unfold Let_def)
  have "match_method_provider_id \<in> set reconciled_methods" by (simp add: reconciled_methods_def)
  from classified_method[OF this refl, of l ivs p] by_reference_mem[OF p(1)] p(2) a
  show ?thesis unfolding attempt_ok_def by (auto simp: confidence_provider_id_def)
qed

lemma match_line_ok:
  assumes "match_line ps ivs w claimed l = Inr (Some a)"
  shows "attempt_ok ps ivs claimed l a"
proof (cases "reference_attempt ps ivs claimed l")
  case (Some r)
  with assms reference_attempt_ok show ?thesis by (simp add: match_line_def)
next
  case None
  with assms obtain cs0 cs where win: "candidate_payments_in_window ps (bl_amount l) (bl_date l) w = Inr cs0"
    and cs: "cs = filter (\<lambda>p. settles_as ivs p (bl_amount l) (Some (bl_currency l)))
                  (filter (\<lambda>p. py_id p \<notin> claimed) cs0)"
    and pick: "(case cs of
       [p] \<Rightarrow> Some \<lparr>at_payment = py_id p, at_method = match_method_amount_date, at_confidence = confidence_amount_date\<rparr>
     | _ \<Rightarrow> map_option (\<lambda>(p, c). \<lparr>at_payment = py_id p, at_method = match_method_fuzzy_vendor, at_confidence = c\<rparr>)
              (fuzzy_vendor_match ivs cs (or_str (bl_counterparty l) []))) = Some a"
    unfolding match_line_def Let_def None option.case
    by (elim bind_res_InrE) (rule that[OF _ refl], assumption, simp only: sum.inject)
  have cand: "p \<in> set ps \<and> py_id p \<notin> claimed \<and> clears ivs p l" if "p \<in> set cs" for p
    using that win settles_clears unfolding cs by (auto simp: candidate_payments_in_window_def split: if_splits)
  have sure: "attempt_ok ps ivs claimed l \<lparr>at_payment = py_id p, at_method = m, at_confidence = c\<rparr>"
    if "p \<in> set cs" "m \<in> set reconciled_methods" "0 \<le> c" "c \<le> 100" for p m c
    using cand[OF that(1)] that(2-) methods_apart[OF that(2)] unfolding attempt_ok_def by auto
  have fuzzy: "attempt_ok ps ivs claimed l a" if "map_option (\<lambda>(p, c). \<lparr>at_payment = py_id p,
      at_method = match_method_fuzzy_vendor, at_confidence = c\<rparr>) (fuzzy_vendor_match ivs cs n) = Some a" for n
    using that fuzzy_vendor_pick[of cs ivs n] by (auto simp: fuzzy_pick_def reconciled_methods_def intro!: sure)
  show ?thesis
  proof (cases cs)
    case Nil
    with pick fuzzy show ?thesis by simp
  next
    case (Cons p qs)
    show ?thesis
    proof (cases qs)
      case Nil
      with pick Cons have "a = \<lparr>at_payment = py_id p, at_method = match_method_amount_date,
        at_confidence = confidence_amount_date\<rparr>" by simp
      moreover have "p \<in> set cs" unfolding Cons by simp
      ultimately show ?thesis using sure[of p match_method_amount_date confidence_amount_date]
        by (simp add: reconciled_methods_def confidence_amount_date_def)
    next
      case (Cons q rs)
      with pick \<open>cs = p # qs\<close> fuzzy show ?thesis by simp
    qed
  qed
qed

end
