(* ===== verification/BankHistory.thy ===== *)
theory BankHistory
  imports BankProofs
begin

text \<open>
  Histories of the bank books: imports, resolutions by hand and deletions in any order, while the
  rest of the program changes payments and invoices. What every book reached that way satisfies.
\<close>

section \<open>A statement\<close>

lemma claimed_Cons [simp]:
  "claimed_payments [] = []"
  "claimed_payments (l # ls) = (case bl_payment l of None \<Rightarrow> claimed_payments ls | Some i \<Rightarrow> i # claimed_payments ls)"
  by (simp_all add: claimed_payments_def map_filter_simps split: option.split)

lemma claimed_append [simp]: "claimed_payments (ls @ ms) = claimed_payments ls @ claimed_payments ms"
  by (induction ls) (auto split: option.split)

lemma claimed_iff: "i \<in> set (claimed_payments ls) \<longleftrightarrow> (\<exists>l \<in> set ls. bl_payment l = Some i)"
  by (induction ls) (auto split: option.splits)

definition unlinked :: "bank_line \<Rightarrow> bool" where
  "unlinked l = (bl_payment l = None \<and> bl_method l = None \<and> bl_confidence l = None \<and> bl_matched_at l = None)"

definition linked_from :: "bank_payment list \<Rightarrow> invoice list \<Rightarrow> stamp \<Rightarrow> bank_line \<Rightarrow> bank_line \<Rightarrow> bool" where
  "linked_from ps ivs now l m =
     (m = l \<or> bl_direction l = ''debit'' \<and> (\<exists>c a. attempt_ok ps ivs c l a \<and> m = link_line now a l))"

definition total_counted :: "match_counts \<Rightarrow> nat" where
  "total_counted k = mc_matched k + mc_unmatched k + mc_skipped k + mc_amount k + mc_currency k + mc_status k"

lemma count_method_total: "total_counted (count_method m k) = Suc (total_counted k)"
  by (simp add: total_counted_def count_method_def)

lemma count_method_matched:
  "mc_matched (count_method m k) = mc_matched k + (if m \<notin> set unreconciled_match_methods then 1 else 0)"
  by (simp add: count_method_def unreconciled_match_methods_def)

lemma linked_reconciled [simp]:
  "reconciled_line (link_line now a l) \<longleftrightarrow> at_method a \<notin> set unreconciled_match_methods"
  by (simp add: reconciled_line_def is_reconciled_def link_line_def)

lemma unlinked_not_reconciled [simp]: "unlinked l \<Longrightarrow> \<not> reconciled_line l"
  by (simp add: reconciled_line_def is_reconciled_def unlinked_def)

definition match_outcome ::
  "bank_payment list \<Rightarrow> invoice list \<Rightarrow> stamp \<Rightarrow> uid set \<Rightarrow> match_counts \<Rightarrow> bank_line list \<Rightarrow> bank_line list \<Rightarrow> match_counts \<Rightarrow> bool" where
  "match_outcome ps ivs now claimed k ls ms k' =
     (list_all2 (linked_from ps ivs now) ls ms \<and> distinct (claimed_payments ms)
        \<and> set (claimed_payments ms) \<inter> claimed = {}
        \<and> mc_matched k' = mc_matched k + length (filter reconciled_line ms)
        \<and> total_counted k' = total_counted k + length ls)"

lemma match_transactions_outcome:
  assumes "match_statement_transactions ps ivs w now claimed k ls = Inr (ms, k')" "list_all unlinked ls"
  shows "match_outcome ps ivs now claimed k ls ms k'"
  using assms
proof (induction ls arbitrary: claimed k ms k')
  case Nil
  then show ?case by (simp add: match_outcome_def)
next
  case (Cons l ls)
  have u: "unlinked l" "bl_payment l = None" using Cons.prems by (auto simp: unlinked_def)
  have same: "linked_from ps ivs now l l" by (simp add: linked_from_def)
  show ?case
  proof (cases "bl_direction l = ''debit''")
    case False
    with Cons.prems obtain ms' where rec: "match_statement_transactions ps ivs w now claimed
        (k\<lparr>mc_skipped := Suc (mc_skipped k)\<rparr>) ls = Inr (ms', k')" "ms = l # ms'"
      by (auto elim!: bind_res_InrE)
    from Cons.IH[OF rec(1)] Cons.prems(2) rec(2) u same show ?thesis
      by (simp add: match_outcome_def total_counted_def)
  next
    case True
    with Cons.prems(1) obtain r where m: "match_line ps ivs w claimed l = Inr r"
      and rest: "(case r of
          None \<Rightarrow> bind_res (match_statement_transactions ps ivs w now claimed (k\<lparr>mc_unmatched := Suc (mc_unmatched k)\<rparr>) ls)
              (\<lambda>(ls, k). Inr (l # ls, k))
        | Some a \<Rightarrow> bind_res (match_statement_transactions ps ivs w now (insert (at_payment a) claimed)
                        (count_method (at_method a) k) ls) (\<lambda>(ls, k). Inr (link_line now a l # ls, k))) = Inr (ms, k')"
      by (auto elim!: bind_res_InrE)
    show ?thesis
    proof (cases r)
      case None
      with rest obtain ms' where rec: "match_statement_transactions ps ivs w now claimed
          (k\<lparr>mc_unmatched := Suc (mc_unmatched k)\<rparr>) ls = Inr (ms', k')" "ms = l # ms'"
        by (auto elim!: bind_res_InrE)
      from Cons.IH[OF rec(1)] Cons.prems(2) rec(2) u same show ?thesis
        by (simp add: match_outcome_def total_counted_def)
    next
      case (Some a)
      with rest obtain ms' where rec: "match_statement_transactions ps ivs w now (insert (at_payment a) claimed)
          (count_method (at_method a) k) ls = Inr (ms', k')" "ms = link_line now a l # ms'"
        by (auto elim!: bind_res_InrE)
      have ok: "attempt_ok ps ivs claimed l a" using match_line_ok m Some by blast
      then have "linked_from ps ivs now l (link_line now a l)" using True unfolding linked_from_def by blast
      moreover have "at_payment a \<notin> claimed" using ok by (auto simp: attempt_ok_def)
      moreover have "bl_payment (link_line now a l) = Some (at_payment a)" by (simp add: link_line_def)
      ultimately show ?thesis using Cons.IH[OF rec(1)] Cons.prems(2) rec(2)
        by (auto simp: match_outcome_def count_method_total count_method_matched)
    qed
  qed
qed

section \<open>Dates\<close>

lemma days_before_month_end:
  assumes "1 \<le> m" "m \<le> 12" "1 \<le> d" "d \<le> days_in_month y m"
  shows "1 \<le> days_before_month y m + d" "days_before_month y m + d \<le> (if leap_year y then 366 else 365)"
proof -
  have "m = 1 \<or> m = 2 \<or> m = 3 \<or> m = 4 \<or> m = 5 \<or> m = 6 \<or> m = 7 \<or> m = 8 \<or> m = 9 \<or> m = 10 \<or> m = 11 \<or> m = 12"
    using assms(1,2) by presburger
  then have "0 \<le> days_before_month y m \<and> days_before_month y m + days_in_month y m \<le> (if leap_year y then 366 else 365)"
    by (elim disjE) (simp_all add: days_before_month_def days_in_month_def upto.simps)
  with assms show "1 \<le> days_before_month y m + d" "days_before_month y m + d \<le> (if leap_year y then 366 else 365)"
    by auto
qed

lemma div_step:
  fixes x n :: int
  assumes "0 < n"
  shows "(x + 1) div n = x div n + (if n dvd x + 1 then 1 else 0)"
proof (cases "n dvd x + 1")
  case True
  then obtain q where "x + 1 = n * q" ..
  then have "x = (q - 1) * n + (n - 1)" by (simp add: algebra_simps)
  then have "x div n = q - 1" using assms by (simp add: div_pos_pos_trivial)
  with True \<open>x + 1 = n * q\<close> assms show ?thesis by simp
next
  case False
  have "x = x div n * n + x mod n" by simp
  moreover have "x mod n + 1 \<noteq> n"
  proof
    assume "x mod n + 1 = n"
    then have "x div n * n + n = x + 1" using div_mult_mod_eq[of x n] by linarith
    then have "n dvd x + 1" by (metis dvd_add dvd_refl dvd_triv_right)
    with False show False ..
  qed
  moreover have "0 \<le> x mod n" "x mod n < n" using assms by simp_all
  ultimately have "0 \<le> x mod n + 1" "x mod n + 1 < n" by linarith+
  moreover have "x + 1 = n * (x div n) + (x mod n + 1)" by simp
  ultimately have "(x + 1) div n = x div n" by (intro int_div_pos_eq)
  with False show ?thesis by simp
qed

lemma days_before_next_year:
  "days_before_year (y + 1) = days_before_year y + (if leap_year y then 366 else 365)"
proof -
  have up: "400 dvd y \<Longrightarrow> 100 dvd y" "100 dvd y \<Longrightarrow> 4 dvd y"
    by (erule dvd_trans[rotated], simp)+
  have step: "y div n = (y - 1) div n + (if n dvd y then 1 else 0)" if "0 < n" for n
    using div_step[OF that, of "y - 1"] by simp
  have leap: "leap_year y \<longleftrightarrow> 4 dvd y \<and> (\<not> 100 dvd y \<or> 400 dvd y)"
    by (simp add: leap_year_def dvd_eq_mod_eq_0)
  have "days_before_year (y + 1) = days_before_year y + 365 + (if 4 dvd y then 1 else 0)
      - (if 100 dvd y then 1 else 0) + (if 400 dvd y then 1 else 0)"
    using step[of 4] step[of 100] step[of 400] unfolding days_before_year_def by (simp split del: if_split)
  also have "\<dots> = days_before_year y + (if leap_year y then 366 else 365)"
    unfolding leap using up by (cases "4 dvd y"; cases "100 dvd y"; cases "400 dvd y") (simp_all only: if_True if_False simp_thms)
  finally show ?thesis .
qed

lemma days_before_year_mono: "y \<le> z \<Longrightarrow> days_before_year y \<le> days_before_year z"
  by (induction rule: int_ge_induct) (simp_all add: days_before_next_year)

lemma toordinal_range:
  assumes "valid_ymd d"
  shows "1 \<le> toordinal d" "toordinal d \<le> last_ordinal"
proof -
  let ?y = "ymd_year d"
  have y: "1 \<le> ?y" "?y + 1 \<le> 10000" using assms by (auto simp: valid_ymd_def)
  have part: "1 \<le> days_before_month ?y (ymd_month d) + ymd_day d"
    "days_before_month ?y (ymd_month d) + ymd_day d \<le> (if leap_year ?y then 366 else 365)"
    using days_before_month_end[of "ymd_month d" "ymd_day d" ?y] assms by (auto simp: valid_ymd_def)
  have "days_before_year 1 \<le> days_before_year ?y" using y(1) by (rule days_before_year_mono)
  then show "1 \<le> toordinal d" using part(1) by (simp add: toordinal_def days_before_year_def)
  have "days_before_year (?y + 1) \<le> days_before_year 10000" using y(2) by (rule days_before_year_mono)
  then show "toordinal d \<le> last_ordinal" using part(2) days_before_next_year[of ?y]
    by (simp add: toordinal_def last_ordinal_def days_before_year_def)
qed

section \<open>Calls\<close>

text \<open>
  The tables the rest of the program keeps: payments with identifiers of their own, amounts a money
  column holds, and the invoice the foreign key demands.
\<close>

definition payment_tables_ok :: "bank_payment list \<Rightarrow> invoice list \<Rightarrow> bool" where
  "payment_tables_ok ps ivs =
     (distinct (map py_id ps) \<and>
      (\<forall>p \<in> set ps. money_col (py_amount p) \<and> (case py_source_amount p of None \<Rightarrow> True | Some a \<Rightarrow> money_col a)
         \<and> py_invoice_id p \<in> inv_id ` set ivs))"

datatype bank_call = Upload upload_env statement_request string
  | Resolve stamp uid uid uid uid "uid option"
  | DeleteStatement uid uid uid
  | PaymentsMove "bank_payment list" "invoice list" effects

definition bank_step :: "bank_call \<Rightarrow> bank_books \<Rightarrow> exc + bank_books" where
  "bank_step c b =
     (case c of
        Upload e q text \<Rightarrow> bind_res (upload_statement e q text b) (\<lambda>(s, new, b). Inr b)
      | Resolve now actor org sid tid choice \<Rightarrow> resolve_transaction now actor org sid tid choice b
      | DeleteStatement actor org sid \<Rightarrow> delete_statement actor org sid b
      | PaymentsMove ps ivs fx \<Rightarrow> Inr (b\<lparr>bb_payments := ps, bb_invoices := ivs, bb_fx := fx\<rparr>))"

text \<open>Fresh identifiers, and no payment a line refers to removed.\<close>

definition admissible :: "bank_call \<Rightarrow> bank_books \<Rightarrow> bool" where
  "admissible c b =
     (case c of
        Upload e q text \<Rightarrow> ue_statement_id e \<notin> bs_id ` set (bb_statements b) \<and> inj (ue_line_id e)
          \<and> range (ue_line_id e) \<inter> bl_id ` set (bb_lines b) = {}
      | PaymentsMove ps ivs fx \<Rightarrow> payment_tables_ok ps ivs \<and> set (claimed_payments (bb_lines b)) \<subseteq> py_id ` set ps
      | _ \<Rightarrow> True)"

inductive bank_history :: "bank_books \<Rightarrow> bool" where
  opened: "payment_tables_ok ps ivs \<Longrightarrow>
     bank_history \<lparr>bb_statements = [], bb_lines = [], bb_payments = ps, bb_invoices = ivs, bb_fx = fx\<rparr>"
| stepped: "bank_history b \<Longrightarrow> admissible c b \<Longrightarrow> bank_step c b = Inr b' \<Longrightarrow> bank_history b'"

section \<open>What the books satisfy\<close>

text \<open>A row its columns hold, its four link columns filled together.\<close>

definition link_typed :: "bank_line \<Rightarrow> bool" where
  "link_typed l =
     (case bl_payment l of
        None \<Rightarrow> unlinked l
      | Some i \<Rightarrow> bl_direction l = ''debit'' \<and> bl_matched_at l \<noteq> None
          \<and> (case bl_method l of None \<Rightarrow> False | Some m \<Rightarrow> m \<in> set (reconciled_methods @ unreconciled_match_methods))
          \<and> (case bl_confidence l of None \<Rightarrow> False | Some c \<Rightarrow> 0 \<le> c \<and> c \<le> 100))"

definition line_typed :: "bank_line \<Rightarrow> bool" where
  "line_typed l =
     (bl_direction l \<in> {''debit'', ''credit''} \<and> 0 \<le> bl_amount l \<and> bl_amount l < 10 ^ 16 \<and> has_scale 2 (bl_amount l)
      \<and> 1 \<le> bl_date l \<and> bl_date l \<le> last_ordinal \<and> line_fits l \<and> link_typed l)"

definition statement_ok :: "bank_books \<Rightarrow> bank_statement \<Rightarrow> bool" where
  "statement_ok b s =
     (bs_hash s \<noteq> None \<and> bs_count s = length (lines_of b (bs_id s))
      \<and> bs_matched s = length (filter reconciled_line (lines_of b (bs_id s))))"

definition statement_key :: "bank_statement \<Rightarrow> uid \<times> string \<times> string option" where
  "statement_key s = (bs_org_id s, bs_account s, bs_hash s)"

definition books_ok :: "bank_books \<Rightarrow> bool" where
  "books_ok b =
     (payment_tables_ok (bb_payments b) (bb_invoices b)
      \<and> distinct (map bs_id (bb_statements b)) \<and> distinct (map statement_key (bb_statements b))
      \<and> distinct (map bl_id (bb_lines b)) \<and> distinct (claimed_payments (bb_lines b))
      \<and> bl_statement ` set (bb_lines b) \<subseteq> bs_id ` set (bb_statements b)
      \<and> set (claimed_payments (bb_lines b)) \<subseteq> py_id ` set (bb_payments b)
      \<and> list_all line_typed (bb_lines b) \<and> list_all (statement_ok b) (bb_statements b))"

section \<open>Import\<close>

definition parsed_ok :: "parsed_row \<Rightarrow> bool" where
  "parsed_ok r = (valid_ymd (sr_date r) \<and> 0 \<le> sr_amount r \<and> sr_direction r \<in> {''debit'', ''credit''})"

lemma or_else_Some: "or_else a b = Some x \<Longrightarrow> a = Some x \<or> b = Some x"
  by (auto simp: or_else_def split: option.splits)

lemma strptime_valid: "strptime_date order sep s = Some d \<Longrightarrow> valid_ymd d"
  by (auto simp: strptime_date_def date_of_fields_def split: list.splits field_order.splits option.splits if_splits)

lemma parse_date_valid: "parse_date raw day_first = Some d \<Longrightarrow> valid_ymd d"
  by (auto simp: parse_date_def parse_ambiguous_date_def Let_def split: if_splits
      dest!: or_else_Some intro: strptime_valid)

lemma amount_and_direction_ok:
  "amount_and_direction c cell = Some (a, dir) \<Longrightarrow> 0 \<le> a \<and> dir \<in> {''debit'', ''credit''}"
  by (auto simp: amount_and_direction_def Let_def intro!: ctx_nonneg split: option.splits if_splits)

lemma parse_row_ok: "parse_row c day_first row = Some r \<Longrightarrow> parsed_ok r"
  unfolding parse_row_def parsed_ok_def Let_def
  by (auto split: option.splits if_splits dest!: amount_and_direction_ok parse_date_valid)

lemma parsed_statement:
  assumes "parse_csv_statement q sid lid text = Inr (s, ls)"
  obtains rs where "list_all parsed_ok rs" "rs \<noteq> []" "s = statement_of q sid (length rs)"
    "ls = map (\<lambda>(i, r). line_of q sid (lid i) r) (enumerate 0 rs)"
proof -
  from assms obtain rows c where c: "statement_columns_of (hd rows) = Inr c" and
    rest: "(let parsed = List.map_filter (parse_row c (sq_day_first q)) (tl rows)
            in if parsed = [] then Inl (StatementImportError ''no parseable transactions'')
               else Inr (statement_of q sid (length parsed),
                         map (\<lambda>(i, r). line_of q sid (lid i) r) (enumerate 0 parsed))) = Inr (s, ls)"
    unfolding parse_csv_statement_def by (auto split: option.splits if_splits elim!: bind_res_InrE)
  let ?rs = "List.map_filter (parse_row c (sq_day_first q)) (tl rows)"
  have "list_all parsed_ok ?rs" by (auto simp: list_all_iff map_filter_def intro: parse_row_ok)
  with rest that[of ?rs] show thesis by (auto simp: Let_def split: if_splits)
qed

lemma parsed_lines:
  assumes "ls = map (\<lambda>(i, r). line_of q sid (lid i) r) (enumerate 0 rs)"
  shows "map bl_id ls = map lid [0..<length rs]" "list_all unlinked ls" "length ls = length rs"
    and "list_all parsed_ok rs \<Longrightarrow> l \<in> set ls \<Longrightarrow> bl_statement l = sid \<and> 0 \<le> bl_amount l
      \<and> bl_direction l \<in> {''debit'', ''credit''} \<and> 1 \<le> bl_date l \<and> bl_date l \<le> last_ordinal"
proof -
  show "map bl_id ls = map lid [0..<length rs]" unfolding assms enumerate_eq_zip
    by (simp add: line_of_def case_prod_unfold o_def map_fst_zip flip: map_map[of lid fst, unfolded o_def])
  show "list_all unlinked ls" unfolding assms by (auto simp: list_all_iff line_of_def unlinked_def)
  show "length ls = length rs" unfolding assms by simp
  show "bl_statement l = sid \<and> 0 \<le> bl_amount l \<and> bl_direction l \<in> {''debit'', ''credit''}
      \<and> 1 \<le> bl_date l \<and> bl_date l \<le> last_ordinal" if "list_all parsed_ok rs" "l \<in> set ls"
    using that toordinal_range unfolding assms
    by (auto simp: list_all_iff line_of_def parsed_ok_def in_set_enumerate_eq dest!: nth_mem)
qed

end
