(* ===== verification/BankInvariant.thy ===== *)
theory BankInvariant
  imports BankHistory
begin

text \<open>Every call on the bank books keeps them consistent, so every history does.\<close>

section \<open>Import\<close>

definition imported_books :: "upload_env \<Rightarrow> bank_statement \<Rightarrow> bank_line list \<Rightarrow> bank_books \<Rightarrow> bank_books" where
  "imported_books e s ls b =
     b\<lparr>bb_statements := bb_statements b @ [s], bb_lines := bb_lines b @ map stored_line_amount ls\<rparr>"

lemma bank_audit_simps [simp]:
  "bb_statements (bank_audit x a i d b) = bb_statements b" "bb_lines (bank_audit x a i d b) = bb_lines b"
  "bb_payments (bank_audit x a i d b) = bb_payments b" "bb_invoices (bank_audit x a i d b) = bb_invoices b"
  by (simp_all add: bank_audit_def)

lemma imported_books_simps [simp]:
  "bb_statements (imported_books e s ls b) = bb_statements b @ [s]"
  "bb_lines (imported_books e s ls b) = bb_lines b @ map stored_line_amount ls"
  "bb_payments (imported_books e s ls b) = bb_payments b" "bb_invoices (imported_books e s ls b) = bb_invoices b"
  by (simp_all add: imported_books_def)

lemma upload_InrE:
  assumes "upload_statement e q text b = Inr (s, new, b')"
  obtains (again) "statement_by_hash b (sq_org q) (sq_account q) (ue_hash e text) = Some s" "\<not> new" "b' = b"
  | (imported) ls ms k rs d where "statement_by_hash b (sq_org q) (sq_account q) (ue_hash e text) = None" "new"
      "list_all parsed_ok rs" "ls = map (\<lambda>(i, r). line_of q (ue_statement_id e) (ue_line_id e i) r) (enumerate 0 rs)"
      "list_all line_fits ls"
      "match_outcome (bb_payments b) (bb_invoices b) (ue_now e) (set (claimed_payments (bb_lines b))) no_counts ls ms k"
      "s = (statement_of q (ue_statement_id e) (length rs))\<lparr>bs_hash := Some (ue_hash e text), bs_matched := mc_matched k\<rparr>"
      "b' = bank_audit ''bank_reconciliation.imported'' (ue_actor e) (bs_id s) d (imported_books e s ms b)"
proof (cases "statement_by_hash b (sq_org q) (sq_account q) (ue_hash e text)")
  case (Some t)
  with assms have "t = s" "\<not> new" "b' = b" by (auto simp: upload_statement_def)
  with Some again show thesis by blast
next
  case None
  with assms obtain df where assms': "(case parse_csv_statement (q\<lparr>sq_day_first := df\<rparr>) (ue_statement_id e) (ue_line_id e) text of
      Inl f \<Rightarrow> Inl (import_error f)
    | Inr (s, ls) \<Rightarrow>
        if \<not> (statement_fits s \<and> list_all line_fits ls) then Inl (HttpError 500 ''data_error'')
        else bind_res (match_statement_transactions (bb_payments b) (bb_invoices b) default_match_window_days
               (ue_now e) (set (claimed_payments (bb_lines b))) no_counts ls) (\<lambda>(ls, k).
          let s = s\<lparr>bs_hash := Some (ue_hash e text), bs_matched := mc_matched k\<rparr>;
              b = b\<lparr>bb_statements := bb_statements b @ [s], bb_lines := bb_lines b @ map stored_line_amount ls\<rparr>
          in Inr (s, True, bank_audit ''bank_reconciliation.imported'' (ue_actor e) (bs_id s)
               ((''account_identifier'', PStr (bs_account s)) #
                (''transaction_count'', PInt (int (bs_count s))) # count_details k) b))) = Inr (s, new, b')"
    unfolding upload_statement_def by (simp only: option.case) (erule bind_res_InrE)
  let ?q = "q\<lparr>sq_day_first := df\<rparr>"
  obtain s0 ls where parsed: "parse_csv_statement ?q (ue_statement_id e) (ue_line_id e) text = Inr (s0, ls)"
  proof (cases "parse_csv_statement ?q (ue_statement_id e) (ue_line_id e) text")
    case (Inl f)
    with assms' show ?thesis by simp
  next
    case (Inr r)
    then show ?thesis by (cases r) (simp add: that)
  qed
  have same: "statement_of ?q = statement_of q" "line_of ?q = line_of q"
    by (intro ext, simp add: statement_of_def, intro ext, simp add: line_of_def)
  from parsed_statement[OF parsed] obtain rs where rs: "list_all parsed_ok rs"
    "s0 = statement_of q (ue_statement_id e) (length rs)"
    "ls = map (\<lambda>(i, r). line_of q (ue_statement_id e) (ue_line_id e i) r) (enumerate 0 rs)" unfolding same by metis
  from assms' parsed obtain ms k where fit: "list_all line_fits ls"
    and match: "match_statement_transactions (bb_payments b) (bb_invoices b) default_match_window_days (ue_now e)
        (set (claimed_payments (bb_lines b))) no_counts ls = Inr (ms, k)"
    and out: "new" "s = s0\<lparr>bs_hash := Some (ue_hash e text), bs_matched := mc_matched k\<rparr>"
      "b' = bank_audit ''bank_reconciliation.imported'' (ue_actor e) (bs_id s)
        ((''account_identifier'', PStr (bs_account s)) # (''transaction_count'', PInt (int (bs_count s))) # count_details k)
        (imported_books e s ms b)"
    unfolding imported_books_def
    by (auto simp: Let_def split: if_splits elim!: bind_res_InrE)
  from match_transactions_outcome[OF match parsed_lines(2)[OF rs(3)]] rs fit out None
  show thesis by (intro imported[of rs ls ms k]) simp_all
qed

lemma linked_keeps:
  assumes "linked_from ps ivs now l m"
  shows "bl_id m = bl_id l" "bl_statement m = bl_statement l" "bl_amount m = bl_amount l" "bl_date m = bl_date l"
    "bl_direction m = bl_direction l" "line_fits m = line_fits l" "bl_currency m = bl_currency l"
  using assms by (auto simp: linked_from_def link_line_def line_fits_def)

lemma linked_typed: "linked_from ps ivs now l m \<Longrightarrow> unlinked l \<Longrightarrow> link_typed m"
  by (auto simp: linked_from_def link_typed_def link_line_def attempt_ok_def unlinked_def)

lemma linked_claims: "linked_from ps ivs now l m \<Longrightarrow> unlinked l \<Longrightarrow> bl_payment m = Some i \<Longrightarrow> i \<in> py_id ` set ps"
  by (auto simp: linked_from_def link_line_def attempt_ok_def unlinked_def)

lemma stored_simps [simp]:
  "bl_id (stored_line_amount l) = bl_id l" "bl_statement (stored_line_amount l) = bl_statement l"
  "bl_payment (stored_line_amount l) = bl_payment l" "bl_method (stored_line_amount l) = bl_method l"
  "bl_direction (stored_line_amount l) = bl_direction l" "bl_date (stored_line_amount l) = bl_date l"
  "bl_currency (stored_line_amount l) = bl_currency l" "bl_amount (stored_line_amount l) = round_to 2 (bl_amount l)"
  by (simp_all add: stored_line_amount_def)

lemma stored_reads [simp]:
  "reconciled_line (stored_line_amount l) = reconciled_line l" "link_typed (stored_line_amount l) = link_typed l"
  "line_fits (stored_line_amount l) = line_fits l"
  by (simp_all add: reconciled_line_def link_typed_def stored_line_amount_def unlinked_def line_fits_def
      round_to_scaled has_scale_round_to split: option.split)

lemma claimed_stored [simp]: "claimed_payments (map stored_line_amount ls) = claimed_payments ls"
  by (induction ls) (auto split: option.split)

lemma list_all2_map: "list_all2 R xs ys \<Longrightarrow> (\<And>x y. R x y \<Longrightarrow> f y = f x) \<Longrightarrow> map f ys = map f xs"
  by (induction rule: list_all2_induct) auto

lemma list_all2_mem: "list_all2 R xs ys \<Longrightarrow> y \<in> set ys \<Longrightarrow> \<exists>x \<in> set xs. R x y"
  by (induction rule: list_all2_induct) auto

lemma import_keeps:
  assumes ok: "books_ok b" and fresh: "admissible (Upload e q text) b"
    and up: "upload_statement e q text b = Inr (s, new, b')"
  shows "books_ok b'"
  using up
proof (cases rule: upload_InrE)
  case again
  with ok show ?thesis by simp
next
  case (imported ls ms k rs d)
  note outcome = imported(6)[unfolded match_outcome_def]
  have l2: "list_all2 (linked_from (bb_payments b) (bb_invoices b) (ue_now e)) ls ms" using outcome by blast
  note pl = parsed_lines[OF imported(4)]
  have src: "\<exists>l \<in> set ls. linked_from (bb_payments b) (bb_invoices b) (ue_now e) l m \<and> unlinked l \<and> line_fits l"
    if "m \<in> set ms" for m
    using list_all2_mem[OF l2 that] pl(2) imported(5) by (auto simp: list_all_iff)
  have typed: "line_typed (stored_line_amount m)" "bl_statement m = ue_statement_id e" if m: "m \<in> set ms" for m
  proof -
    from src[OF m] obtain l where l: "l \<in> set ls" "linked_from (bb_payments b) (bb_invoices b) (ue_now e) l m"
      "unlinked l" "line_fits l" by blast
    note p = pl(4)[OF imported(3) l(1)] linked_keeps[OF l(2)]
    have "\<bar>round_to 2 (bl_amount l)\<bar> < 10 ^ 16" using l(4) by (simp add: line_fits_def)
    then show "line_typed (stored_line_amount m)"
      using p l linked_typed[OF l(2,3)] round_to_nonneg[of "bl_amount l" 2]
      by (simp add: line_typed_def has_scale_round_to)
    show "bl_statement m = ue_statement_id e" using p by simp
  qed
  have ids: "map bl_id ms = map (ue_line_id e) [0..<length rs]"
    using list_all2_map[OF l2, of bl_id] linked_keeps(1) pl(1) by metis
  have lines_new: "lines_of b' (ue_statement_id e) = map stored_line_amount ms"
  proof -
    have "ue_statement_id e \<notin> bl_statement ` set (bb_lines b)"
      using fresh ok by (auto simp: admissible_def books_ok_def)
    then show ?thesis using typed(2) unfolding imported(8) lines_of_def
      by (auto simp: filter_empty_conv image_iff intro!: filter_True)
  qed
  have lines_old: "lines_of b' i = lines_of b i" if "i \<noteq> ue_statement_id e" for i
    using that typed(2) unfolding imported(8) lines_of_def by (auto simp: filter_empty_conv)
  have "length (filter reconciled_line (map stored_line_amount ms)) = mc_matched k"
    using outcome by (simp add: no_counts_def filter_map o_def)
  then have new_ok: "statement_ok b' s"
    using lines_new list_all2_lengthD[OF l2] pl(3) unfolding imported(7) statement_ok_def by (simp add: statement_of_def)
  have old_ok: "list_all (statement_ok b') (bb_statements b)"
    unfolding list_all_iff
  proof
    fix t assume t: "t \<in> set (bb_statements b)"
    then have "bs_id t \<noteq> ue_statement_id e" using fresh unfolding admissible_def by (auto simp: image_iff)
    from lines_old[OF this] t ok show "statement_ok b' t" by (simp add: books_ok_def list_all_iff statement_ok_def)
  qed
  have key: "statement_key s \<notin> statement_key ` set (bb_statements b)"
    using find_None_D[OF imported(1)[unfolded statement_by_hash_def]]
    unfolding imported(7) by (auto simp: statement_key_def statement_of_def) blast
  have sid: "bs_id s = ue_statement_id e" unfolding imported(7) by (simp add: statement_of_def)
  show ?thesis
    unfolding books_ok_def
  proof (intro conjI)
    show "distinct (map bl_id (bb_lines b'))"
      using ok fresh ids unfolding imported(8)
      by (auto simp: books_ok_def admissible_def o_def distinct_map intro: inj_on_subset)
    show "set (claimed_payments (bb_lines b')) \<subseteq> py_id ` set (bb_payments b')"
    proof
      fix i assume "i \<in> set (claimed_payments (bb_lines b'))"
      then consider "i \<in> set (claimed_payments (bb_lines b))" | m where "m \<in> set ms" "bl_payment m = Some i"
        unfolding imported(8) by (auto simp: claimed_iff[of i ms])
      then show "i \<in> py_id ` set (bb_payments b')"
      proof cases
        case 1
        with ok show ?thesis unfolding imported(8) by (auto simp: books_ok_def)
      next
        case 2
        from src[OF 2(1)] linked_claims[OF _ _ 2(2)] show ?thesis unfolding imported(8) by auto
      qed
    qed
    show "payment_tables_ok (bb_payments b') (bb_invoices b')" using ok unfolding imported(8) by (simp add: books_ok_def)
    show "distinct (map bs_id (bb_statements b'))" using ok fresh sid unfolding imported(8)
      by (simp add: books_ok_def admissible_def)
    show "distinct (map statement_key (bb_statements b'))" using ok key unfolding imported(8) by (simp add: books_ok_def)
    show "distinct (claimed_payments (bb_lines b'))" using ok outcome unfolding imported(8) by (auto simp: books_ok_def)
    show "bl_statement ` set (bb_lines b') \<subseteq> bs_id ` set (bb_statements b')"
      using ok typed(2) sid unfolding imported(8) by (auto simp: books_ok_def)
    show "list_all line_typed (bb_lines b')" using ok typed(1) unfolding imported(8)
      by (auto simp: books_ok_def list_all_iff)
    show "list_all (statement_ok b') (bb_statements b')" using new_ok old_ok unfolding imported(8) by simp
  qed
qed

section \<open>Resolution\<close>

lemma claimed_put:
  assumes "distinct (map bl_id ls)" "distinct (claimed_payments ls)"
    "\<And>m i. m \<in> set ls \<Longrightarrow> bl_payment m = Some i \<Longrightarrow> bl_payment l = Some i \<Longrightarrow> bl_id m = bl_id l"
  shows "distinct (claimed_payments (map (\<lambda>m. if bl_id m = bl_id l then l else m) ls))"
  using assms
proof (induction ls)
  case (Cons m ls)
  let ?f = "\<lambda>m. if bl_id m = bl_id l then l else m"
  have IH: "distinct (claimed_payments (map ?f ls))" using Cons by (auto split: option.splits)
  show ?case
  proof (cases "bl_id m = bl_id l")
    case True
    with Cons.prems(1) have same: "map ?f ls = ls" by (auto intro!: map_idI simp: image_iff)
    moreover have "i \<notin> set (claimed_payments ls)" if "bl_payment l = Some i" for i
    proof
      assume "i \<in> set (claimed_payments ls)"
      then obtain n where "n \<in> set ls" "bl_payment n = Some i" by (auto simp: claimed_iff)
      moreover from this Cons.prems(3)[of n i] that have "bl_id n = bl_id m" using True by simp
      ultimately show False using Cons.prems(1) by (auto simp: image_iff)
    qed
    ultimately show ?thesis using True Cons.prems(2) by (auto split: option.splits)
  next
    case False
    moreover have "i \<notin> set (claimed_payments (map ?f ls))" if "bl_payment m = Some i" for i
    proof
      assume "i \<in> set (claimed_payments (map ?f ls))"
      then obtain n where n: "n \<in> set ls" "bl_payment (?f n) = Some i" by (auto simp: claimed_iff)
      show False
      proof (cases "bl_id n = bl_id l")
        case True
        with n(2) have "bl_payment l = Some i" by simp
        with Cons.prems(3)[of m i] that False show False by simp
      next
        case False
        with n that Cons.prems(2) show False by (auto simp: claimed_iff)
      qed
    qed
    ultimately show ?thesis using IH by (auto split: option.splits)
  qed
qed simp

lemma get_scoped_InrD:
  "get_scoped b org sid = Inr s \<Longrightarrow> s \<in> set (bb_statements b) \<and> bs_id s = sid \<and> bs_org_id s = org"
  by (auto simp: get_scoped_def split: option.splits dest: find_Some_D)

text \<open>What the chosen line becomes.\<close>

lemma resolved_line_InrE:
  assumes "resolved_line now b l choice = Inr m"
  obtains (cleared) "choice = None" "m = cleared_line l"
  | (claimed) i p where "choice = Some i" "bl_direction l = ''debit''" "p \<in> set (bb_payments b)" "py_id p = i"
      "\<And>n. n \<in> set (bb_lines b) \<Longrightarrow> bl_payment n = Some i \<Longrightarrow> bl_id n = bl_id l"
      "m = claim_line now p (invoice_currency_of b (py_invoice_id p)) l"
proof (cases choice)
  case None
  with assms cleared show thesis by (simp add: resolved_line_def)
next
  case (Some i)
  with assms obtain p where p: "bl_direction l = ''debit''" "List.find (\<lambda>p. py_id p = i) (bb_payments b) = Some p"
    "\<not> list_ex (\<lambda>m. bl_payment m = Some i \<and> bl_id m \<noteq> bl_id l) (bb_lines b)"
    "m = claim_line now p (invoice_currency_of b (py_invoice_id p)) l"
    by (auto simp: resolved_line_def split: if_splits option.splits)
  with find_Some_D[OF p(2)] Some claimed[of i p] show thesis by (auto simp: list_ex_iff)
qed

lemma claim_line_spec:
  "m = claim_line now p (invoice_currency_of b (py_invoice_id p)) l \<Longrightarrow>
     bl_payment m = Some (py_id p) \<and> bl_id m = bl_id l \<and> bl_statement m = bl_statement l \<and> bl_amount m = bl_amount l
     \<and> bl_direction m = bl_direction l \<and> bl_date m = bl_date l \<and> line_fits m = line_fits l \<and> bl_currency m = bl_currency l
     \<and> bl_confidence m = Some 100 \<and> bl_matched_at m = Some now
     \<and> (\<exists>d. bl_method m = Some d \<and> d \<in> set (reconciled_methods @ unreconciled_match_methods)
         \<and> (d \<notin> set unreconciled_match_methods \<longleftrightarrow> clears (bb_invoices b) p l))"
  using classified_method[of match_method_manual _ l "bb_invoices b" p, OF _ refl]
  by (simp add: claim_line_def settled_by_currency case_prod_unfold Let_def manual_match_confidence_def line_fits_def
      reconciled_methods_def)

lemma resolved_keeps:
  assumes "resolved_line now b l choice = Inr m" "line_typed l"
  shows "bl_id m = bl_id l \<and> bl_statement m = bl_statement l \<and> line_typed m"
  using assms(1)
proof (cases rule: resolved_line_InrE)
  case cleared
  then show ?thesis using assms(2)
    by (auto simp: cleared_line_def line_typed_def link_typed_def unlinked_def line_fits_def)
next
  case (claimed i p)
  from claim_line_spec[OF claimed(6)] show ?thesis using assms(2) claimed(2)
    by (auto simp: line_typed_def link_typed_def)
qed

lemma resolve_InrE:
  assumes "resolve_transaction now actor org sid tid choice b = Inr b'"
  obtains s l m d where "s \<in> set (bb_statements b)" "bs_id s = sid" "bs_org_id s = org"
    "l \<in> set (bb_lines b)" "bl_id l = tid" "bl_statement l = sid" "resolved_line now b l choice = Inr m"
    "b' = bank_audit ''bank_reconciliation.transaction_resolved'' actor sid d (recompute_matched_count s (put_line m b))"
proof -
  from assms obtain s l m where *: "get_scoped b org sid = Inr s"
    "List.find (\<lambda>l. bl_id l = tid \<and> bl_statement l = bs_id s) (bb_lines b) = Some l"
    "resolved_line now b l choice = Inr m"
    "b' = bank_audit ''bank_reconciliation.transaction_resolved'' actor (bs_id s)
               [(''transaction_id'', PStr tid),
                (''matched_payment_id'', case choice of None \<Rightarrow> PNone | Some i \<Rightarrow> PStr i),
                (''match_method'', case bl_method m of None \<Rightarrow> PNone | Some m \<Rightarrow> PStr m)]
               (recompute_matched_count s (put_line m b))"
    unfolding resolve_transaction_def by (auto split: option.splits elim!: bind_res_InrE)
  have "s \<in> set (bb_statements b)" "bs_id s = sid" "bs_org_id s = org" using get_scoped_InrD[OF *(1)] by blast+
  moreover from this have "l \<in> set (bb_lines b)" "bl_id l = tid" "bl_statement l = sid"
    using find_Some_D[OF *(2)] by simp_all
  ultimately show thesis using *(3) *(4)[unfolded \<open>bs_id s = sid\<close>] by (rule that)
qed

lemma put_simps [simp]:
  "bb_lines (put_line l b) = map (\<lambda>m. if bl_id m = bl_id l then l else m) (bb_lines b)"
  "bb_statements (put_line l b) = bb_statements b" "bb_payments (put_line l b) = bb_payments b"
  "bb_invoices (put_line l b) = bb_invoices b"
  "bb_lines (put_statement s b) = bb_lines b" "bb_payments (put_statement s b) = bb_payments b"
  "bb_invoices (put_statement s b) = bb_invoices b"
  "bb_statements (put_statement s b) = map (\<lambda>t. if bs_id t = bs_id s then s else t) (bb_statements b)"
  by (simp_all add: put_line_def put_statement_def)

lemma put_line_mem: "n \<in> set (bb_lines (put_line m b)) \<Longrightarrow> n = m \<or> (n \<in> set (bb_lines b) \<and> bl_id n \<noteq> bl_id m)"
  by (auto split: if_splits)

lemma filter_put_other:
  assumes "bl_statement m \<noteq> i" "\<And>n. n \<in> set ls \<Longrightarrow> bl_id n = bl_id m \<Longrightarrow> bl_statement n \<noteq> i"
  shows "filter (\<lambda>l. bl_statement l = i) (map (\<lambda>n. if bl_id n = bl_id m then m else n) ls)
    = filter (\<lambda>l. bl_statement l = i) ls"
  using assms by (induction ls) auto

lemma resolve_keeps:
  assumes ok: "books_ok b" and res: "resolve_transaction now actor org sid tid choice b = Inr b'"
  shows "books_ok b'"
proof -
  from res obtain s l m d where s: "s \<in> set (bb_statements b)" "bs_id s = sid"
    and l: "l \<in> set (bb_lines b)" "bl_id l = tid" "bl_statement l = sid" "resolved_line now b l choice = Inr m"
    and b': "b' = bank_audit ''bank_reconciliation.transaction_resolved'' actor sid d
      (recompute_matched_count s (put_line m b))"
    by (rule resolve_InrE)
  have lt: "line_typed l" using ok l(1) by (auto simp: books_ok_def list_all_iff)
  note m = resolved_keeps[OF l(4) lt]
  have uniq: "n = l" if "n \<in> set (bb_lines b)" "bl_id n = bl_id l" for n
    using ok l(1) that by (auto simp: books_ok_def distinct_map inj_on_def)
  have lines': "bb_lines b' = map (\<lambda>n. if bl_id n = bl_id m then m else n) (bb_lines b)"
    unfolding b' by (simp add: recompute_matched_count_def)
  have ids: "map bl_id (bb_lines b') = map bl_id (bb_lines b)" unfolding lines' by simp
  have stats: "map bl_statement (bb_lines b') = map bl_statement (bb_lines b)"
    unfolding lines' using m l(3) by (auto dest!: uniq)
  have claim: "bl_id n = bl_id m" if "n \<in> set (bb_lines b)" "bl_payment n = Some i" "bl_payment m = Some i" for n i
    using l(4)
  proof (cases rule: resolved_line_InrE)
    case cleared
    with that show ?thesis by (simp add: cleared_line_def)
  next
    case (claimed j p)
    with that claim_line_spec[OF claimed(6)] m show ?thesis by simp
  qed
  have claims': "set (claimed_payments (bb_lines b')) \<subseteq> py_id ` set (bb_payments b')"
  proof
    fix i assume "i \<in> set (claimed_payments (bb_lines b'))"
    then consider "i \<in> set (claimed_payments (bb_lines b))" | "bl_payment m = Some i"
      unfolding lines' by (auto simp: claimed_iff split: if_splits)
    then show "i \<in> py_id ` set (bb_payments b')"
    proof cases
      case 1
      with ok show ?thesis unfolding b' by (auto simp: books_ok_def recompute_matched_count_def)
    next
      case 2
      from l(4) show ?thesis
      proof (cases rule: resolved_line_InrE)
        case cleared
        with 2 show ?thesis by (simp add: cleared_line_def)
      next
        case (claimed j p)
        with 2 claim_line_spec[OF claimed(6)] show ?thesis unfolding b' by (auto simp: recompute_matched_count_def)
      qed
    qed
  qed
  let ?s = "s\<lparr>bs_matched := length (filter reconciled_line (lines_of (put_line m b) sid))\<rparr>"
  have sts: "bb_statements b' = map (\<lambda>t. if bs_id t = sid then ?s else t) (bb_statements b)"
    unfolding b' using s(2) by (simp add: recompute_matched_count_def)
  have only: "t = s" if "t \<in> set (bb_statements b)" "bs_id t = sid" for t
    using ok s that by (auto simp: books_ok_def distinct_map inj_on_def)
  have len: "length (lines_of b' i) = length (lines_of b i)" for i
  proof -
    have "length (lines_of b' i) = length (filter (\<lambda>x. x = i) (map bl_statement (bb_lines b')))"
      by (simp add: lines_of_def filter_map o_def)
    then show ?thesis unfolding stats by (simp add: lines_of_def filter_map o_def)
  qed
  have st_ok: "statement_ok b' t'" if "t' \<in> set (bb_statements b')" for t'
  proof -
    from that obtain t where t: "t \<in> set (bb_statements b)" "t' = (if bs_id t = sid then ?s else t)"
      unfolding sts by auto
    then have tok: "statement_ok b t" using ok by (auto simp: books_ok_def list_all_iff)
    show ?thesis
    proof (cases "bs_id t = sid")
      case True
      then have "t = s" using only t(1) by blast
      moreover have "lines_of b' sid = lines_of (put_line m b) sid" unfolding lines_of_def lines' by simp
      ultimately show ?thesis using t(2) tok True len[of sid] s(2) by (simp add: statement_ok_def)
    next
      case False
      have "lines_of b' (bs_id t) = lines_of b (bs_id t)"
        unfolding lines_of_def lines' using False m l(3) by (intro filter_put_other) (auto dest!: uniq)
      then show ?thesis using tok t(2) False by (simp add: statement_ok_def)
    qed
  qed
  show ?thesis
    unfolding books_ok_def
  proof (intro conjI)
    show "payment_tables_ok (bb_payments b') (bb_invoices b')" using ok unfolding b'
      by (simp add: books_ok_def recompute_matched_count_def)
    have "map bs_id (bb_statements b') = map bs_id (bb_statements b)" unfolding sts using s(2) by simp
    then show "distinct (map bs_id (bb_statements b'))" using ok by (simp add: books_ok_def)
    have "map statement_key (bb_statements b') = map statement_key (bb_statements b)"
      unfolding sts using only by (auto simp: statement_key_def)
    then show "distinct (map statement_key (bb_statements b'))" using ok by (simp add: books_ok_def)
    show "distinct (map bl_id (bb_lines b'))" unfolding ids using ok by (simp add: books_ok_def)
    show "distinct (claimed_payments (bb_lines b'))"
      unfolding lines' using ok claim by (intro claimed_put) (simp_all add: books_ok_def)
    have "bs_id ` set (bb_statements b') = bs_id ` set (bb_statements b)"
      using \<open>map bs_id (bb_statements b') = map bs_id (bb_statements b)\<close> by (metis set_map)
    moreover have "bl_statement ` set (bb_lines b') = bl_statement ` set (bb_lines b)" using stats by (metis set_map)
    ultimately show "bl_statement ` set (bb_lines b') \<subseteq> bs_id ` set (bb_statements b')"
      using ok by (simp add: books_ok_def)
    show "set (claimed_payments (bb_lines b')) \<subseteq> py_id ` set (bb_payments b')" by (rule claims')
    show "list_all line_typed (bb_lines b')" unfolding lines' using ok m by (auto simp: books_ok_def list_all_iff)
    show "list_all (statement_ok b') (bb_statements b')" using st_ok by (simp add: list_all_iff)
  qed
qed

section \<open>Deletion\<close>

lemma claimed_filter_distinct: "distinct (claimed_payments ls) \<Longrightarrow> distinct (claimed_payments (filter P ls))"
  by (induction ls) (auto simp: claimed_iff split: option.splits)

lemma claimed_filter_sub: "set (claimed_payments (filter P ls)) \<subseteq> set (claimed_payments ls)"
  by (auto simp: claimed_iff)

lemma delete_keeps:
  assumes ok: "books_ok b" and del: "delete_statement actor org sid b = Inr b'"
  shows "books_ok b'"
proof -
  from del have sts: "bb_statements b' = filter (\<lambda>t. bs_id t \<noteq> sid) (bb_statements b)"
    and lines: "bb_lines b' = filter (\<lambda>l. bl_statement l \<noteq> sid) (bb_lines b)"
    and rest: "bb_payments b' = bb_payments b" "bb_invoices b' = bb_invoices b"
    by (auto simp: delete_statement_def Let_def dest!: get_scoped_InrD elim!: bind_res_InrE)
  have lo: "lines_of b' i = lines_of b i" if "i \<noteq> sid" for i
    using that unfolding lines_of_def lines by (auto intro: filter_cong)
  show ?thesis
    unfolding books_ok_def
  proof (intro conjI)
    show "payment_tables_ok (bb_payments b') (bb_invoices b')" using ok unfolding rest by (simp add: books_ok_def)
    show "distinct (map bs_id (bb_statements b'))" "distinct (map statement_key (bb_statements b'))"
      "distinct (map bl_id (bb_lines b'))"
      using ok unfolding sts lines by (simp_all add: books_ok_def distinct_map_filter)
    show "distinct (claimed_payments (bb_lines b'))" using ok unfolding lines
      by (simp add: books_ok_def claimed_filter_distinct)
    show "bl_statement ` set (bb_lines b') \<subseteq> bs_id ` set (bb_statements b')"
    proof
      fix i assume "i \<in> bl_statement ` set (bb_lines b')"
      then have "i \<in> bl_statement ` set (bb_lines b)" "i \<noteq> sid" unfolding lines by auto
      moreover have "bl_statement ` set (bb_lines b) \<subseteq> bs_id ` set (bb_statements b)" using ok by (simp add: books_ok_def)
      ultimately have "i \<in> bs_id ` set (bb_statements b)" "i \<noteq> sid" by (blast, blast)
      then show "i \<in> bs_id ` set (bb_statements b')" unfolding sts by auto
    qed
    show "set (claimed_payments (bb_lines b')) \<subseteq> py_id ` set (bb_payments b')"
      unfolding rest lines using ok by (intro subset_trans[OF claimed_filter_sub]) (simp add: books_ok_def)
    show "list_all line_typed (bb_lines b')" using ok unfolding lines by (auto simp: books_ok_def list_all_iff)
    have "list_all (statement_ok b) (bb_statements b)" using ok by (simp add: books_ok_def)
    then show "list_all (statement_ok b') (bb_statements b')" unfolding sts
      by (auto simp: list_all_iff statement_ok_def lo)
  qed
qed

section \<open>Histories\<close>

lemma bank_step_keeps:
  assumes "books_ok b" "admissible c b" "bank_step c b = Inr b'"
  shows "books_ok b'"
proof (cases c)
  case (Upload e q x)
  with assms(3) obtain s new where "upload_statement e q x b = Inr (s, new, b')"
    by (auto simp: bank_step_def elim!: bind_res_InrE)
  with import_keeps[OF assms(1)] assms(2) Upload show ?thesis by blast
next
  case (Resolve now actor org sid tid choice)
  with assms resolve_keeps show ?thesis by (simp add: bank_step_def)
next
  case (DeleteStatement actor org sid)
  with assms delete_keeps show ?thesis by (simp add: bank_step_def)
next
  case (PaymentsMove ps ivs fx)
  with assms(3) have b': "b' = b\<lparr>bb_payments := ps, bb_invoices := ivs, bb_fx := fx\<rparr>" by (simp add: bank_step_def)
  have "statement_ok b' = statement_ok b" unfolding b' by (intro ext) (simp add: statement_ok_def lines_of_def)
  with assms(1,2) PaymentsMove show ?thesis unfolding books_ok_def b' by (simp add: admissible_def)
qed

lemma history_ok: "bank_history b \<Longrightarrow> books_ok b"
proof (induction rule: bank_history.induct)
  case (opened ps ivs fx)
  then show ?case by (simp add: books_ok_def)
next
  case (stepped b c b')
  then show ?case by (blast intro: bank_step_keeps)
qed

end
