(* ===== verification/BankOutcomes.thy ===== *)
theory BankOutcomes
  imports BankInvariant
begin

text \<open>
  What the bank reconciliation guarantees over any history of its books, and two behaviours of the
  code that its documentation does not say.
\<close>

section \<open>A concrete account\<close>

definition sample_cleared :: bank_payment where
  "sample_cleared = \<lparr>py_id = ''p-1'', py_invoice_id = ''inv-1'', py_run_id = None, py_amount = 250,
     py_method = Some ''ach'', py_status = ''completed'', py_provider_payment_id = Some ''T1'',
     py_failure_reason = None, py_retry_of = None, py_discount_offer_id = None,
     py_discount_amount = None, py_dispatch_attempted_at = None, py_settled_amount = None,
     py_settled_currency = None, py_settled_unstorable = False, py_source_currency = None,
     py_source_amount = None, py_provider = None, py_reference = None, py_submitted_at = None,
     py_completed_at = None, py_created_at = Some 0\<rparr>"

definition sample_account :: bank_books where
  "sample_account = \<lparr>bb_statements = [], bb_lines = [], bb_payments = [sample_cleared],
     bb_invoices = [sample_invoice], bb_fx = no_effects\<rparr>"

definition sample_upload :: upload_env where
  "sample_upload = \<lparr>ue_now = 0, ue_actor = ''u-1'', ue_statement_id = ''s-1'',
     ue_line_id = (\<lambda>n. replicate (Suc n) CHR ''l''), ue_hash = id, ue_settings = PDict []\<rparr>"

definition sample_statement_request :: statement_request where
  "sample_statement_request = \<lparr>sq_org = ''o-1'', sq_account = ''Operating'', sq_start = 739617, sq_end = 739647,
     sq_currency = ''USD'', sq_imported_by = Some ''u-1'', sq_day_first = False\<rparr>"

definition newline :: char where "newline = char_of (10 :: nat)"

definition sample_text :: string where
  "sample_text = ''Date,Amount,Ref'' @ newline # ''2026-01-05,-250,T1'' @ newline # ''2026-01-06,-40,'' @ [newline]"

definition sample_books :: bank_books where
  "sample_books = (case upload_statement sample_upload sample_statement_request sample_text sample_account of
     Inr (s, new, b) \<Rightarrow> b | Inl e \<Rightarrow> sample_account)"

lemma sample_import:
  "(case upload_statement sample_upload sample_statement_request sample_text sample_account of
      Inr (s, new, b) \<Rightarrow> new \<and> bs_id s = ''s-1'' \<and> bs_matched s = 1 \<and> bs_count s = 2
        \<and> map bl_payment (bb_lines b) = [Some ''p-1'', None] \<and> map reconciled_line (bb_lines b) = [True, False]
    | Inl e \<Rightarrow> False)"
  by code_simp

lemma sample_uploaded:
  obtains s where "upload_statement sample_upload sample_statement_request sample_text sample_account
      = Inr (s, True, sample_books)" "bs_id s = ''s-1''" "bs_matched s = 1" "bs_count s = 2"
  using sample_import unfolding sample_books_def by (auto split: sum.splits)

lemma sample_lines:
  "map bl_payment (bb_lines sample_books) = [Some ''p-1'', None]" "map reconciled_line (bb_lines sample_books) = [True, False]"
  using sample_import unfolding sample_books_def by (auto split: sum.splits)

lemma sample_opened: "bank_history sample_account"
proof -
  have "payment_tables_ok [sample_cleared] [sample_invoice]"
    by (simp add: payment_tables_ok_def sample_cleared_def sample_invoice_def money_col_def has_scale_def)
  then show ?thesis unfolding sample_account_def by (rule opened)
qed

lemma sample_step:
  "admissible (Upload sample_upload sample_statement_request sample_text) sample_account"
  "bank_step (Upload sample_upload sample_statement_request sample_text) sample_account = Inr sample_books"
proof -
  show "admissible (Upload sample_upload sample_statement_request sample_text) sample_account"
    by (auto simp: admissible_def sample_account_def sample_upload_def inj_on_def)
  show "bank_step (Upload sample_upload sample_statement_request sample_text) sample_account = Inr sample_books"
    by (rule sample_uploaded) (simp add: bank_step_def)
qed

lemma sample_bank_history: "bank_history sample_books"
  using sample_opened sample_step by (rule stepped)

section \<open>One line, one payment\<close>

lemma same_claim:
  "distinct (claimed_payments ls) \<Longrightarrow> distinct (map bl_id ls) \<Longrightarrow> l \<in> set ls \<Longrightarrow> m \<in> set ls \<Longrightarrow>
     bl_payment l = Some i \<Longrightarrow> bl_payment m = Some i \<Longrightarrow> l = m"
  by (induction ls) (auto simp: claimed_iff split: option.splits)

text \<open>
  Property C37. Over any history of imports, resolutions by hand and deletions, while payments
  and invoices change under it: no two bank lines claim one payment, only a debit claims one, what a
  statement shows as matched and as counted is what its lines say, and no content was imported
  twice for one account.
\<close>

theorem lines_claim_once:
  assumes "bank_history b"
  shows "(\<forall>l \<in> set (bb_lines b). \<forall>m \<in> set (bb_lines b). bl_payment l \<noteq> None \<and> bl_payment l = bl_payment m \<longrightarrow> l = m)
    \<and> (\<forall>l \<in> set (bb_lines b). bl_payment l \<noteq> None \<longrightarrow> bl_direction l = ''debit'')
    \<and> (\<forall>s \<in> set (bb_statements b). bs_count s = length (lines_of b (bs_id s))
        \<and> bs_matched s = length (filter reconciled_line (lines_of b (bs_id s))))
    \<and> (\<forall>s \<in> set (bb_statements b). \<forall>t \<in> set (bb_statements b).
        bs_org_id s = bs_org_id t \<and> bs_account s = bs_account t \<and> bs_hash s = bs_hash t \<longrightarrow> s = t)"
proof (intro conjI)
  from history_ok[OF assms] have ok: "distinct (claimed_payments (bb_lines b))" "distinct (map bl_id (bb_lines b))"
    "list_all line_typed (bb_lines b)" "list_all (statement_ok b) (bb_statements b)"
    "distinct (map statement_key (bb_statements b))" by (simp_all add: books_ok_def)
  show "\<forall>l \<in> set (bb_lines b). \<forall>m \<in> set (bb_lines b). bl_payment l \<noteq> None \<and> bl_payment l = bl_payment m \<longrightarrow> l = m"
    using same_claim[OF ok(1,2)] by (metis option.exhaust)
  show "\<forall>l \<in> set (bb_lines b). bl_payment l \<noteq> None \<longrightarrow> bl_direction l = ''debit''"
    using ok(3) by (auto simp: list_all_iff line_typed_def link_typed_def)
  show "\<forall>s \<in> set (bb_statements b). bs_count s = length (lines_of b (bs_id s))
        \<and> bs_matched s = length (filter reconciled_line (lines_of b (bs_id s)))"
    using ok(4) by (simp add: list_all_iff statement_ok_def)
  show "\<forall>s \<in> set (bb_statements b). \<forall>t \<in> set (bb_statements b).
        bs_org_id s = bs_org_id t \<and> bs_account s = bs_account t \<and> bs_hash s = bs_hash t \<longrightarrow> s = t"
    using ok(5) by (auto simp: distinct_map inj_on_def statement_key_def)
qed

theorem lines_claim_once_witness:
  "list_all (\<lambda>l. bl_payment l \<noteq> None \<longrightarrow> bl_direction l = ''debit'') (bb_lines sample_books)
    \<and> map bl_payment (bb_lines sample_books) = [Some ''p-1'', None]"
  using lines_claim_once[OF sample_bank_history] sample_lines by (simp add: list_all_iff)

section \<open>What a reconciled line says\<close>

lemma settled_scale:
  assumes "payment_tables_ok ps ivs" "p \<in> set ps"
  shows "has_scale 2 (fst (settled ivs' p))"
  using assms by (auto simp: payment_tables_ok_def settled_def settlement_amount_and_currency_def money_col_def
      split: option.splits)

lemma in_cents: "has_scale 2 r \<Longrightarrow> \<exists>k :: int. r = of_int k / 100"
proof -
  assume "has_scale 2 r"
  then obtain k :: int where "r * 100 = of_int k" by (auto simp: has_scale_def)
  then show ?thesis by (intro exI[of _ k]) linarith
qed

lemma stored_within_cent:
  assumes "\<bar>a - p\<bar> < 3 / 200" "has_scale 2 p"
  shows "\<bar>round_to 2 a - p\<bar> \<le> 1 / 100"
proof -
  obtain n m :: int where n: "round_to 2 a = of_int n / 100" and m: "p = of_int m / 100"
    using in_cents[OF has_scale_round_to] in_cents[OF assms(2)] by blast
  have "\<bar>round_to 2 a - a\<bar> \<le> 1 / 200" using round_to_error[of 2 a] by simp
  with assms(1) have "\<bar>round_to 2 a - p\<bar> < 2 / 100" by linarith
  then have "\<bar>of_int n - of_int m\<bar> < (2 :: rat)" unfolding n m by (simp add: abs_if split: if_splits)
  then have "\<bar>n - m\<bar> < 2" by linarith
  then have "\<bar>n - m\<bar> \<le> 1" by simp
  then have "(of_int \<bar>n - m\<bar> :: rat) \<le> of_int 1" by (simp only: of_int_le_iff)
  then show ?thesis unfolding n m by (simp add: abs_if split: if_splits)
qed

text \<open>A line that copies one which clears the payment agrees with what the payment settled as.\<close>

lemma cleared_line_agrees:
  assumes "books_ok b" "p \<in> set (bb_payments b)" "clears (bb_invoices b) p k" "bl_payment l = Some (py_id p)"
    "bl_amount l = round_to 2 (bl_amount k)" "bl_currency l = bl_currency k"
  shows "\<exists>p \<in> set (bb_payments b). bl_payment l = Some (py_id p) \<and> py_status p \<in> set expected_to_clear_statuses
    \<and> (case settlement_amount_and_currency p (invoice_currency_of b (py_invoice_id p)) of (a, ccy) \<Rightarrow>
          \<bar>bl_amount l - a\<bar> \<le> 1 / 100
          \<and> (let bank = currency_key (Some (bl_currency l)); mine = currency_key (Some ccy)
             in bank = [] \<or> mine = [] \<or> bank = mine))"
proof -
  have "has_scale 2 (fst (settled (bb_invoices b) p))" using assms(1,2)
    by (intro settled_scale[of "bb_payments b" "bb_invoices b"]) (simp_all add: books_ok_def)
  moreover have "\<bar>bl_amount k - fst (settled (bb_invoices b) p)\<bar> < 3 / 200"
    using assms(3) by (intro no_mismatch_close) (simp add: clears_def)
  ultimately have "\<bar>bl_amount l - fst (settled (bb_invoices b) p)\<bar> \<le> 1 / 100"
    using stored_within_cent assms(5) by simp
  with assms show ?thesis unfolding settled_by_currency by (auto simp: clears_def case_prod_unfold)
qed

lemma uploaded_line_clears:
  assumes "books_ok b" "admissible (Upload e q x) b" "upload_statement e q x b = Inr (s, new, b')"
    "l \<in> set (bb_lines b')" "l \<notin> set (bb_lines b)" "reconciled_line l"
  obtains p k where "p \<in> set (bb_payments b)" "clears (bb_invoices b) p k" "bl_payment l = Some (py_id p)"
    "bl_amount l = round_to 2 (bl_amount k)" "bl_currency l = bl_currency k"
  using assms(3)
proof (cases rule: upload_InrE)
  case (imported ls ms k rs d)
  then obtain m where m: "m \<in> set ms" "l = stored_line_amount m" using assms(4,5) by auto
  have l2: "list_all2 (linked_from (bb_payments b) (bb_invoices b) (ue_now e)) ls ms"
    using imported(6) by (simp add: match_outcome_def)
  from list_all2_mem[OF l2 m(1)] obtain k0 where k0: "k0 \<in> set ls"
    "linked_from (bb_payments b) (bb_invoices b) (ue_now e) k0 m" by blast
  have "unlinked k0" using parsed_lines(2)[OF imported(4)] k0(1) by (simp add: list_all_iff)
  with k0(2) m(2) assms(6) obtain cl a where a: "attempt_ok (bb_payments b) (bb_invoices b) cl k0 a"
    "m = link_line (ue_now e) a k0" by (auto simp: linked_from_def)
  have "at_method a \<notin> set unreconciled_match_methods" using assms(6) unfolding m(2) a(2) by simp
  with a(1) obtain p where p: "p \<in> set (bb_payments b)" "at_payment a = py_id p" "clears (bb_invoices b) p k0"
    by (auto simp: attempt_ok_def)
  show ?thesis
    by (rule that[OF p(1,3)]) (simp_all add: m(2) a(2) p(2) link_line_def)
qed (use assms in simp)

lemma resolved_line_clears:
  assumes "books_ok b" "resolve_transaction now actor org sid tid choice b = Inr b'"
    "l \<in> set (bb_lines b')" "l \<notin> set (bb_lines b)" "reconciled_line l"
  obtains p k where "p \<in> set (bb_payments b)" "clears (bb_invoices b) p k" "bl_payment l = Some (py_id p)"
    "bl_amount l = round_to 2 (bl_amount k)" "bl_currency l = bl_currency k"
proof -
  obtain s k m d where r: "k \<in> set (bb_lines b)" "resolved_line now b k choice = Inr m"
    "b' = bank_audit ''bank_reconciliation.transaction_resolved'' actor sid d (recompute_matched_count s (put_line m b))"
    using assms(2) by (rule resolve_InrE)
  with assms(3,4) have lm: "l = m" by (auto simp: recompute_matched_count_def split: if_splits)
  have k: "round_to 2 (bl_amount k) = bl_amount k"
    using assms(1) r(1) by (auto simp: books_ok_def list_all_iff line_typed_def round_to_scaled)
  from r(2) show ?thesis
  proof (cases rule: resolved_line_InrE)
    case cleared
    with lm assms(5) show ?thesis by (simp add: cleared_line_def reconciled_line_def is_reconciled_def)
  next
    case (claimed i p)
    from claim_line_spec[OF claimed(6)] lm k assms(5) show ?thesis
      by (intro that[OF claimed(3), of k]) (auto simp: reconciled_line_def is_reconciled_def)
  qed
qed

text \<open>
  Property C38. When a call links a line so that it counts as reconciled, the books hold the payment
  it names: sent, settled within one cent of the bank's amount, and in the bank's currency where
  both are known.
\<close>

theorem reconciled_line_agrees:
  assumes "bank_history b" "admissible c b" "bank_step c b = Inr b'"
    "l \<in> set (bb_lines b')" "l \<notin> set (bb_lines b)" "reconciled_line l"
  shows "\<exists>p \<in> set (bb_payments b). bl_payment l = Some (py_id p) \<and> py_status p \<in> set expected_to_clear_statuses
    \<and> (case settlement_amount_and_currency p (invoice_currency_of b (py_invoice_id p)) of (a, ccy) \<Rightarrow>
          \<bar>bl_amount l - a\<bar> \<le> 1 / 100
          \<and> (let bank = currency_key (Some (bl_currency l)); mine = currency_key (Some ccy)
             in bank = [] \<or> mine = [] \<or> bank = mine))"
proof -
  have ok: "books_ok b" using assms(1) by (rule history_ok)
  show ?thesis
  proof (cases c)
    case (Upload e q x)
    with assms(3) obtain s new where "upload_statement e q x b = Inr (s, new, b')"
      by (auto simp: bank_step_def elim!: bind_res_InrE)
    then show ?thesis
      by (rule uploaded_line_clears[OF ok assms(2)[unfolded Upload] _ assms(4-6)]) (rule cleared_line_agrees[OF ok])
  next
    case (Resolve now actor org sid tid choice)
    with assms(3) have "resolve_transaction now actor org sid tid choice b = Inr b'" by (simp add: bank_step_def)
    then show ?thesis
      by (rule resolved_line_clears[OF ok _ assms(4-6)]) (rule cleared_line_agrees[OF ok])
  next
    case (DeleteStatement actor org sid)
    with assms(3-5) show ?thesis
      by (auto simp: bank_step_def delete_statement_def Let_def elim!: bind_res_InrE)
  next
    case (PaymentsMove ps ivs fx)
    with assms(3-5) show ?thesis by (auto simp: bank_step_def)
  qed
qed

theorem reconciled_line_agrees_witness:
  "\<exists>l \<in> set (bb_lines sample_books). reconciled_line l \<and> \<bar>bl_amount l - 250\<bar> \<le> 1 / 100"
proof -
  from sample_lines(2) obtain l where l: "l \<in> set (bb_lines sample_books)" "reconciled_line l"
    by (cases "bb_lines sample_books") auto
  have "l \<notin> set (bb_lines sample_account)" by (simp add: sample_account_def)
  from reconciled_line_agrees[OF sample_opened sample_step l(1) this l(2)] l show ?thesis
    by (auto simp: sample_account_def sample_cleared_def settlement_amount_and_currency_def)
qed

section \<open>The worksheet\<close>

definition exactly_one :: "bool list \<Rightarrow> bool" where
  "exactly_one bs = (length (filter (\<lambda>b. b) bs) = 1)"

definition sent_by :: "date \<Rightarrow> bank_payment \<Rightarrow> bool" where
  "sent_by cutoff p = (case sent_at p of None \<Rightarrow> True | Some t \<Rightarrow> utc_date t \<le> cutoff)"

lemma invoice_of_payment:
  assumes "payment_tables_ok (bb_payments b) (bb_invoices b)" "p \<in> set (bb_payments b)"
  shows "has_invoice b p"
proof -
  have "py_invoice_id p \<in> inv_id ` set (bb_invoices b)" using assms unfolding payment_tables_ok_def by blast
  then show ?thesis unfolding has_invoice_def list_ex_iff by auto
qed

lemma upload_keeps_payments: "upload_statement e q x b = Inr (s, new, b') \<Longrightarrow> bb_payments b' = bb_payments b"
  by (erule upload_InrE) simp_all

lemma linked_line_facts:
  assumes "books_ok b" "l \<in> set (bb_lines b)" "bl_payment l = Some i"
  shows "bl_direction l = ''debit''" "joined b l"
    "reconciled_line l \<longleftrightarrow> \<not> (case bl_method l of None \<Rightarrow> False | Some m \<Rightarrow> m \<in> set unreconciled_match_methods)"
proof -
  have t: "link_typed l" "set (claimed_payments (bb_lines b)) \<subseteq> py_id ` set (bb_payments b)"
    "payment_tables_ok (bb_payments b) (bb_invoices b)"
    using assms by (auto simp: books_ok_def list_all_iff line_typed_def)
  show "bl_direction l = ''debit''" using t(1) assms(3) by (simp add: link_typed_def)
  have "i \<in> py_id ` set (bb_payments b)" using t(2) assms(2,3) claimed_iff[of i "bb_lines b"] by blast
  then obtain p where "p \<in> set (bb_payments b)" "py_id p = i" by auto
  with t(3) assms(3) show "joined b l"
    using invoice_of_payment unfolding joined_def list_ex_iff by auto
  show "reconciled_line l \<longleftrightarrow> \<not> (case bl_method l of None \<Rightarrow> False | Some m \<Rightarrow> m \<in> set unreconciled_match_methods)"
    using assms(3) by (simp add: reconciled_line_def is_reconciled_def split: option.split)
qed

lemma line_in_some_org:
  assumes "books_ok b" "l \<in> set (bb_lines b)"
  shows "\<exists>org. line_in_org b org l"
proof -
  have "bl_statement l \<in> bs_id ` set (bb_statements b)" using assms by (auto simp: books_ok_def)
  then obtain s where "s \<in> set (bb_statements b)" "bs_id s = bl_statement l" by auto
  then show ?thesis by (auto simp: line_in_org_def list_ex_iff)
qed

lemma linked_discrepancy:
  assumes "books_ok b" "bl_payment l = Some i"
  shows "l \<in> set (discrepancy_lines b org) \<longleftrightarrow> l \<in> set (bb_lines b) \<and> line_in_org b org l \<and> \<not> reconciled_line l"
  using linked_line_facts[OF assms(1) _ assms(2)] assms(2) unfolding discrepancy_lines_def by auto

lemma claimed_discrepancy:
  assumes "books_ok b" "l \<in> set (bb_lines b)" "bl_payment l = Some i"
    and only: "\<And>m. m \<in> set (bb_lines b) \<Longrightarrow> bl_payment m = Some i \<Longrightarrow> m = l"
  shows "(\<exists>org. \<exists>m \<in> set (discrepancy_lines b org). bl_payment m = Some i) \<longleftrightarrow> \<not> reconciled_line l"
proof
  assume "\<exists>org. \<exists>m \<in> set (discrepancy_lines b org). bl_payment m = Some i"
  then obtain org m where m: "m \<in> set (discrepancy_lines b org)" "bl_payment m = Some i" by blast
  then have "m \<in> set (bb_lines b)" by (simp add: discrepancy_lines_def)
  with m only linked_discrepancy[OF assms(1,3)] show "\<not> reconciled_line l" by blast
next
  assume "\<not> reconciled_line l"
  moreover obtain org where "line_in_org b org l" using line_in_some_org[OF assms(1,2)] by blast
  ultimately have "l \<in> set (discrepancy_lines b org)" using linked_discrepancy[OF assms(1,3)] assms(2) by blast
  with assms(3) show "\<exists>org. \<exists>m \<in> set (discrepancy_lines b org). bl_payment m = Some i" by blast
qed

lemma debit_partition:
  assumes "books_ok b" "l \<in> set (bb_lines b)" "bl_direction l = ''debit''" "line_in_org b org l"
  shows "exactly_one [l \<in> set (unmatched_debits b org), l \<in> set (discrepancy_lines b org), reconciled_line l]"
proof (cases "bl_payment l")
  case None
  have "bl_method l = None"
    using assms(1,2) None by (auto simp: books_ok_def list_all_iff line_typed_def link_typed_def unlinked_def)
  with None assms show ?thesis
    by (simp add: exactly_one_def unmatched_debits_def discrepancy_lines_def reconciled_line_def is_reconciled_def)
next
  case (Some i)
  from linked_line_facts[OF assms(1,2) Some] Some assms show ?thesis
    by (auto simp: exactly_one_def unmatched_debits_def discrepancy_lines_def)
qed

text \<open>
  Property C39. On the month-end worksheet nothing hides and nothing is listed twice: a payment the
  books expect to clear is either uncleared, or the payment of a listed discrepancy, or reconciled by
  a line; a debit of the organisation is either unmatched, or a listed discrepancy, or reconciled.
\<close>

theorem worksheet_partitions:
  assumes "bank_history b"
  shows "(\<forall>p \<in> set (bb_payments b). py_status p \<in> set expected_to_clear_statuses \<and> sent_by cutoff p \<longrightarrow>
      exactly_one [p \<in> set (uncleared_payments b cutoff),
        (\<exists>org. \<exists>l \<in> set (discrepancy_lines b org). bl_payment l = Some (py_id p)),
        (\<exists>l \<in> set (bb_lines b). reconciled_line l \<and> bl_payment l = Some (py_id p))])
    \<and> (\<forall>l \<in> set (bb_lines b). bl_direction l = ''debit'' \<and> line_in_org b org l \<longrightarrow>
      exactly_one [l \<in> set (unmatched_debits b org), l \<in> set (discrepancy_lines b org), reconciled_line l])"
proof (intro conjI ballI impI)
  have ok: "books_ok b" using assms by (rule history_ok)
  then have tables: "payment_tables_ok (bb_payments b) (bb_invoices b)" "distinct (claimed_payments (bb_lines b))"
    "distinct (map bl_id (bb_lines b))" by (simp_all add: books_ok_def)
  fix p assume p: "p \<in> set (bb_payments b)"
    and sent: "py_status p \<in> set expected_to_clear_statuses \<and> sent_by cutoff p"
  have "has_invoice b p" using tables(1) p by (rule invoice_of_payment)
  with p sent have unc: "p \<in> set (uncleared_payments b cutoff) \<longleftrightarrow> py_id p \<notin> set (claimed_payments (bb_lines b))"
    by (auto simp: uncleared_payments_def sent_by_def)
  show "exactly_one [p \<in> set (uncleared_payments b cutoff),
      (\<exists>org. \<exists>l \<in> set (discrepancy_lines b org). bl_payment l = Some (py_id p)),
      (\<exists>l \<in> set (bb_lines b). reconciled_line l \<and> bl_payment l = Some (py_id p))]"
  proof (cases "py_id p \<in> set (claimed_payments (bb_lines b))")
    case False
    then have "\<not> (\<exists>l \<in> set (bb_lines b). bl_payment l = Some (py_id p))" by (simp add: claimed_iff)
    with False unc show ?thesis by (auto simp: exactly_one_def discrepancy_lines_def)
  next
    case True
    then obtain l where l: "l \<in> set (bb_lines b)" "bl_payment l = Some (py_id p)" by (auto simp: claimed_iff)
    have only: "m = l" if "m \<in> set (bb_lines b)" "bl_payment m = Some (py_id p)" for m
      using same_claim[OF tables(2,3) that(1) l(1) that(2) l(2)] .
    have r: "(\<exists>m \<in> set (bb_lines b). reconciled_line m \<and> bl_payment m = Some (py_id p)) \<longleftrightarrow> reconciled_line l"
      using l only by blast
    have d: "(\<exists>org. \<exists>m \<in> set (discrepancy_lines b org). bl_payment m = Some (py_id p)) \<longleftrightarrow> \<not> reconciled_line l"
      using claimed_discrepancy[OF ok l] only by blast
    show ?thesis unfolding unc d r using True by (simp add: exactly_one_def)
  qed
next
  fix l assume "l \<in> set (bb_lines b)" "bl_direction l = ''debit'' \<and> line_in_org b org l"
  then show "exactly_one [l \<in> set (unmatched_debits b org), l \<in> set (discrepancy_lines b org), reconciled_line l]"
    using debit_partition[OF history_ok[OF assms]] by blast
qed

theorem worksheet_partitions_witness:
  "exactly_one [sample_cleared \<in> set (uncleared_payments sample_books 739700),
     (\<exists>org. \<exists>l \<in> set (discrepancy_lines sample_books org). bl_payment l = Some (py_id sample_cleared)),
     (\<exists>l \<in> set (bb_lines sample_books). reconciled_line l \<and> bl_payment l = Some (py_id sample_cleared))]"
proof -
  have "bb_payments sample_books = [sample_cleared]"
    by (rule sample_uploaded) (simp add: upload_keeps_payments sample_account_def)
  moreover have "py_status sample_cleared \<in> set expected_to_clear_statuses \<and> sent_by 739700 sample_cleared"
    by (simp add: sample_cleared_def expected_to_clear_statuses_def sent_by_def sent_at_def or_else_def utc_date_def)
  ultimately show ?thesis using worksheet_partitions[OF sample_bank_history, of 739700 "''o-1''"] by simp
qed



section \<open>Behaviours the documentation does not state\<close>

text \<open>The two readings of the settlement amount agree.\<close>

lemma settlement_sql_agrees: "settlement_amount_sql p = fst (settlement_amount_and_currency p c)"
  by (auto simp: settlement_amount_sql_def settlement_amount_and_currency_def split: option.splits)

text \<open>The same content again answers the statement it made, until that one is deleted.\<close>

lemma import_idempotent:
  assumes "upload_statement e q text b = Inr (s, new, b')" "ue_hash e' = ue_hash e"
    "sq_org q' = sq_org q" "sq_account q' = sq_account q"
  shows "upload_statement e' q' text b' = Inr (s, False, b')"
  using assms(1)
proof (cases rule: upload_InrE)
  case again
  with assms show ?thesis by (simp add: upload_statement_def)
next
  case (imported ls ms k rs d)
  let ?P = "\<lambda>s. bs_org_id s = sq_org q \<and> bs_account s = sq_account q \<and> bs_hash s = Some (ue_hash e text)"
  have "List.find ?P (bb_statements b @ [s]) = Some s"
  proof -
    have "?P s" unfolding imported(7) by (simp add: statement_of_def)
    moreover have "List.find ?P xs = None \<Longrightarrow> List.find ?P (xs @ [s]) = (if ?P s then Some s else None)" for xs
      by (induction xs) (auto split: if_splits)
    ultimately show ?thesis using imported(1) unfolding statement_by_hash_def by simp
  qed
  with assms(2-4) show ?thesis
    unfolding upload_statement_def statement_by_hash_def imported(8) by simp
qed

text \<open>
  Voiding a payment does not reach the line that cleared it: the stored method still says the line
  is reconciled, its statement still counts it, and neither is on any list of the worksheet.
\<close>

lemma voided_stays_matched:
  assumes "bank_history b" "l \<in> set (bb_lines b)" "reconciled_line l" "bl_payment l = Some i"
    "b' = b\<lparr>bb_payments := map (\<lambda>p. if py_id p = i then p\<lparr>py_status := ''voided''\<rparr> else p) (bb_payments b)\<rparr>"
  shows "bb_statements b' = bb_statements b \<and> bb_lines b' = bb_lines b
    \<and> l \<notin> set (unmatched_debits b' org) \<and> l \<notin> set (discrepancy_lines b' org)
    \<and> (\<forall>p \<in> set (uncleared_payments b' cutoff). py_id p \<noteq> i)"
proof (intro conjI)
  show lines: "bb_statements b' = bb_statements b" "bb_lines b' = bb_lines b" unfolding assms(5) by simp_all
  show "l \<notin> set (unmatched_debits b' org)" using assms(4) by (simp add: unmatched_debits_def)
  show "l \<notin> set (discrepancy_lines b' org)"
    using linked_line_facts(3)[OF history_ok[OF assms(1)] assms(2,4)] assms(3) by (auto simp: discrepancy_lines_def)
  have "i \<in> set (claimed_payments (bb_lines b'))" unfolding lines using assms(2,4) by (auto simp: claimed_iff)
  then show "\<forall>p \<in> set (uncleared_payments b' cutoff). py_id p \<noteq> i" by (auto simp: uncleared_payments_def)
qed

text \<open>Of two columns with one name the right one is read, not the left one.\<close>

lemma duplicate_header_reads_right:
  "find_col [''Date'', ''Amount'', ''Amount''] amount_headers = Some ''Amount''"
  "column_index [''Date'', ''Amount'', ''Amount''] ''Amount'' = 2"
  by code_simp+

text \<open>A debit dated in the first days of the calendar, with no reference, fails the whole import.\<close>

lemma edge_date_raises:
  assumes "bl_direction l = ''debit''" "bl_reference l = None" "bl_date l \<le> 5"
  shows "match_statement_transactions ps ivs default_match_window_days now claimed k (l # ls) = Inl (PyError OverflowError)"
  using assms by (simp add: match_line_def reference_attempt_def candidate_payments_in_window_def
      default_match_window_days_def or_str_def)

end
