(* ===== verification/Spec2Isabelle.thy ===== *)
theory Spec2Isabelle
  imports ReviewProofs RetryProofs PaymentOutcomes NachaProofs RecurringOutcomes PoOutcomes BankOutcomes
begin

text \<open>
  A verification development of the accounts-payable core of FeohLedger, the backend under
  \<open>src/backend/app\<close>: how an invoice is approved, how an approved invoice becomes a payment,
  how a payment becomes settled, and which controls stand in between.

  \<^bold>\<open>The program.\<close> An invoice row (\<open>models/invoice.py\<close>) moves through the statuses of
  \<open>models/invoice_status.py\<close> by \<open>transition_invoice\<close> of \<open>services/workflow_engine.py\<close>, which
  audits every move. Until it is approved it is with \<open>services/review.py\<close>, which asks the controls
  of \<open>services/approval_chain.py\<close>: segregation of duties, named approvers, the money gates, the
  multi-level chain. Amounts are compared in the organisation's reporting currency, at the rate
  \<open>services/currency_conversion.py\<close> locks on the row. Approved invoices are collected into payment
  runs by \<open>services/payment_runs.py\<close>, less applied credits and early-payment discounts
  (\<open>services/discount_offers.py\<close>, \<open>services/discount_capture.py\<close>); the runs are approved, executed,
  resumed, retried and exported by \<open>api/payments.py\<close> under \<open>services/payment_controls.py\<close>. A
  processor's webhook settles a payment (\<open>services/payment_settlement.py\<close>,
  \<open>services/payment_settlement_record.py\<close>), the ERP sync (\<open>services/payment_erp_sync.py\<close>) marks the
  invoice paid, and a person may void, accept, dismiss, or record a payment made elsewhere
  (\<open>services/external_payment.py\<close>). Findings wait in the exception queue
  (\<open>services/exception_lifecycle.py\<close>), whose payment-blocking rows the run builder obeys.

  \<^bold>\<open>Conventions.\<close> A function of the code is a HOL function of the same name, state passing in and
  out; a raise or an HTTP error is \<open>Inl\<close> of \<open>exc\<close> (\<open>Prelude\<close>). A row of a table is a record, a table
  a list of rows; a query is a filter over the list in the query's order. \<open>Decimal\<close> arithmetic is
  exact rationals rounded to 28 digits where the code computes (\<open>dadd\<close>, \<open>dsub\<close>, \<open>dmul\<close>, \<open>ddiv\<close>), with
  \<open>quantize\<close> raising past 28 digits and the non-finite values of \<open>dec\<close> (\<open>PyDecimal\<close>); \<open>money_col\<close> is
  the range of a \<open>NUMERIC(15,2)\<close> column. JSON settings are \<open>pyval\<close>. Strings are lists of code
  points below 256 (\<open>PyString\<close>). Audit rows, webhooks and notices are collected in \<open>effects\<close>.
  The recursions are structural or by a measure (the length of a list, the months left before the
  last year of the calendar), so no fuel is used anywhere.

  \<^bold>\<open>Theories.\<close>
  \<^item> \<open>Prelude\<close>, \<open>PyString\<close>, \<open>PyDecimal\<close>: results that raise, fact collections, Python's strings,
    decimals and JSON values.
  \<^item> \<open>Invoices\<close>, \<open>WorkflowSteps\<close>, \<open>WorkflowEngine\<close>: the row, the state machine, definitions,
    instances and steps. Every way from an unapproved status to a payable one records its approval;
    a workflow never has two open steps.
  \<^item> \<open>CurrencyLock\<close>: the reporting currency and the locked rate. What a control reads is what was
    stored.
  \<^item> \<open>ApprovalConfig\<close>, \<open>Segregation\<close>, \<open>MoneyGates\<close>, \<open>ApprovalChain\<close>, \<open>ChainProofs\<close>: the controls and
    the chain. Gates fail closed; a completed chain has a distinct signer for every signature, over
    every interleaving of routing, approval and escalation.
  \<^item> \<open>Review\<close>, \<open>ReviewProofs\<close>: approve, reject, resubmit, bulk approval and the verdict the page
    shows. An approval implies every control on the figures approved.
  \<^item> \<open>Settlement\<close>, \<open>SettlementProofs\<close>: the verdict on a processor's report and the coverage read from
    what was stored agree, and no report is laundered into silence.
  \<^item> \<open>DiscountOffers\<close>, \<open>DiscountProofs\<close>, \<open>DiscountCapture\<close>: tiers, offers, capture and reversal.
  \<^item> \<open>PaymentControls\<close>, \<open>PaymentRuns\<close>, \<open>RunBuilder\<close>, \<open>RunBuilderProofs\<close>: maker-checker, the CFO
    threshold, rollups, blocking rows, the payable amount, building a run and the check before
    dispatch. A run books each invoice once, at the exact amount owed, and what is booked dispatches.
  \<^item> \<open>RunLifecycle\<close>, \<open>RunLifecycleProofs\<close>, \<open>RetryProofs\<close>: the run endpoints. Money moves under
    control in every history; a retry never pays twice.
  \<^item> \<open>ExceptionLifecycle\<close>, \<open>ExceptionProofs\<close>: the queue. A blocking row holds its invoice until someone
    entitled to clears it.
  \<^item> \<open>ExternalPayment\<close>, \<open>ExternalPaymentProofs\<close>: payments made elsewhere, recorded once and under the
    same controls.
  \<^item> \<open>PaymentSettling\<close>, \<open>PaymentVoiding\<close>, \<open>PaymentOutcomeProofs\<close>, \<open>PaymentOutcomes\<close>: webhook, ERP sync,
    void, card close, acceptance, dismissal. The trail of a payment over every interleaving, and
    what makes an invoice paid.
  \<^item> \<open>Banking\<close>, \<open>NachaFile\<close>, \<open>NachaProofs\<close>: bank identifiers (\<open>utils/banking.py\<close>) and the ACH file
    of a run paid outside (\<open>services/nacha.py\<close>). Check digits catch a substituted character; a
    file reads back, record by record and total by total, as the payments it was built from.
  \<^item> \<open>Calendar\<close>, \<open>Schedule\<close>, \<open>Recurring\<close>, \<open>RecurringApi\<close>, \<open>RecurringProofs\<close>, \<open>RecurringHistory\<close>,
    \<open>RecurringOutcomes\<close>: recurring templates (\<open>services/recurring_invoices.py\<close>,
    \<open>api/recurring.py\<close>). The schedule search ends on the first due occurrence; over every history
    there is one invoice per period and nobody who shaped a template approves what it raised; the
    sweep is never early and catches up.
  \<^item> \<open>MatchRules\<close>, \<open>PoMatching\<close>, \<open>PoHolds\<close>, \<open>GoodsReceipts\<close>, \<open>PoProofs\<close>, \<open>PoHistory\<close>, \<open>PoOutcomes\<close>:
    the match of an invoice with its order, receipts and inspection (\<open>services/matching_rules.py\<close>,
    \<open>services/po_matching.py\<close>), the holds it raises and lifts (\<open>services/invoice_warnings.py\<close>) and
    the entry of receipts (\<open>services/goods_receipts.py\<close>). \<open>matched\<close> is characterised in exact
    arithmetic; over every history a finding keeps the invoice out of every run; a hold is lifted
    automatically only on evidence nobody implicated could have produced.
  \<^item> \<open>CsvText\<close>, \<open>BankStatements\<close>, \<open>BankMatching\<close>, \<open>BankRecon\<close>, \<open>BankProofs\<close>, \<open>BankHistory\<close>,
    \<open>BankInvariant\<close>, \<open>BankOutcomes\<close>: bank statements (\<open>services/bank_reconciliation.py\<close>,
    \<open>api/bank_reconciliation.py\<close>), from the text of an export to the month-end worksheet. Over every
    history a payment is claimed by one line, a link that counts as reconciled agreed with its
    payment when it was made, and the worksheet lists everything exactly once.

  \<^bold>\<open>Interfaces.\<close> \<open>seg_policy\<close> (\<open>Segregation\<close>) is the contract of every segregation rule, interpreted
  for the shaping, receiving, run-making and exception-clearing rules; \<open>money_gate\<close> (\<open>MoneyGates\<close>)
  the contract of a threshold gate, interpreted for both gates and their shared body;
  \<open>gated_machine\<close> (\<open>Prelude\<close>) a state machine with a guarded region, interpreted for the invoice
  lifecycle; \<open>evolving_steps\<close> (\<open>PaymentOutcomeProofs\<close>) steps bounded by a preorder, interpreted for
  the events of a payment.

  \<^bold>\<open>Parameters.\<close> What the code calls and does not contain is an argument of the definitions: the FX
  provider, the processor, card and ERP answers, the permission lookups, fresh identifiers and the
  clock, the hash of a finding, what a dispatch pass leaves of its rows. Column ranges and unique
  constraints of the database are hypotheses where a theorem needs them (\<open>money_col\<close>, \<open>one_live\<close>,
  distinct identifiers), each met in the witness of that theorem.

  \<^bold>\<open>Not modelled.\<close> Row locks, savepoints, races between transactions and the retry of a failed
  commit: a call is one atomic step, and interleavings are of whole calls. The figures in some audit
  details and all message texts. The HTTP routers beyond the endpoints named above (lists,
  serialisation, permissions), processor, ERP, card and commerce adapters, extraction and the
  language-model services, identity and sessions, reports and analytics, seeds and migrations.
  The ERP status sync, approval signatures, expenses, budgets and positive pay are planned
  extensions.
\<close>

end
